(* ===== verification/Prelude.thy ===== *)
theory Prelude
  imports Complex_Main "HOL-Library.AList" "HOL-Library.Char_ord" "HOL-Library.List_Lexorder"
begin

text \<open>
  What every component of the development shares.
  \<^item> The collections \<open>bb_simps\<close> (equations of the store's operations) and
    \<open>dict_simps\<close> (facts on dictionaries).
  \<^item> Errors: \<open>py_error\<close> has one constructor per exception class the modelled code raises;
    a fallible operation returns \<open>py_error + 'a\<close>.
  \<^item> Python dictionaries, as association lists in insertion order (\<open>dict_put\<close>,
    \<open>dict_merge\<close>, \<open>dict_pop\<close>), and the locale \<open>keyed_table\<close> that states what a table of
    objects indexed by their own key promises to its clients.
  \<^item> Python strings: a \<open>str\<close> is a list of characters with code points below 256, and
    \<open>str.strip\<close>, \<open>str.lower\<close>, \<open>in\<close>, \<open>str.startswith\<close>, \<open>str.join\<close> and \<open>str.replace\<close>
    are defined for that range.
\<close>

named_theorems bb_simps
named_theorems dict_simps

section \<open>Errors\<close>

datatype py_error =
    KeyError string
  | ValueError string
  | TypeError string
  | RuntimeError string
  | IndexError string
  | DuplicateBindingError string
  | MissingRegistrationConfigError string
  | ExecutorNodeRegistryError string
  | ExecutorNodeAuthError string
  | UnknownExecutorError string
  | TimeoutError string
  | WorkspaceFileUnavailable string string
  | WorkspaceFileDenied string string
  | PublicAuthError string
  | IntegrityError string
  | HTTPException nat string

type_synonym 'a result = "py_error + 'a"

definition is_ok :: "'a result \<Rightarrow> bool" where
  "is_ok r = (case r of Inl _ \<Rightarrow> False | Inr _ \<Rightarrow> True)"

lemma is_ok_simps [simp]: "is_ok (Inr x)" "\<not> is_ok (Inl e)"
  by (simp_all add: is_ok_def)

section \<open>Python strings\<close>

type_synonym str = string

text \<open>\<open>str.isspace\<close> for one character below 256.\<close>

definition py_isspace :: "char \<Rightarrow> bool" where
  "py_isspace c \<longleftrightarrow>
     (let n = of_char c :: nat in
        9 \<le> n \<and> n \<le> 13 \<or> 28 \<le> n \<and> n \<le> 32 \<or> n = 133 \<or> n = 160)"

definition py_lstrip :: "str \<Rightarrow> str" where
  "py_lstrip s = dropWhile py_isspace s"

definition py_rstrip :: "str \<Rightarrow> str" where
  "py_rstrip s = rev (dropWhile py_isspace (rev s))"

definition py_strip :: "str \<Rightarrow> str" where
  "py_strip s = py_rstrip (py_lstrip s)"

text \<open>\<open>str.lower\<close> below 256: the capitals of ASCII and of Latin-1 (all but the sign at 215).\<close>

definition py_lower_char :: "char \<Rightarrow> char" where
  "py_lower_char c =
     (let n = of_char c :: nat in
        if 65 \<le> n \<and> n \<le> 90 \<or> 192 \<le> n \<and> n \<le> 222 \<and> n \<noteq> 215 then char_of (n + 32) else c)"

definition py_lower :: "str \<Rightarrow> str" where
  "py_lower s = map py_lower_char s"

fun py_startswith :: "str \<Rightarrow> str \<Rightarrow> bool" where
  "py_startswith s [] = True"
| "py_startswith [] (p # ps) = False"
| "py_startswith (c # s) (p # ps) = (c = p \<and> py_startswith s ps)"

definition py_endswith :: "str \<Rightarrow> str \<Rightarrow> bool" where
  "py_endswith s p = py_startswith (rev s) (rev p)"

text \<open>\<open>sub in s\<close>.\<close>

fun py_contains :: "str \<Rightarrow> str \<Rightarrow> bool" where
  "py_contains [] p = (p = [])"
| "py_contains (c # s) p = (py_startswith (c # s) p \<or> py_contains s p)"

fun py_join :: "str \<Rightarrow> str list \<Rightarrow> str" where
  "py_join sep [] = []"
| "py_join sep [x] = x"
| "py_join sep (x # y # ys) = x @ sep @ py_join sep (y # ys)"

text \<open>\<open>s.replace(a, r)\<close> for a one-character pattern \<open>a\<close>.\<close>

definition py_replace_char :: "char \<Rightarrow> str \<Rightarrow> str \<Rightarrow> str" where
  "py_replace_char a r s = concat (map (\<lambda>c. if c = a then r else [c]) s)"

text \<open>\<open>a or b\<close> where \<open>a\<close> is an optional string: the empty string and \<open>None\<close> are falsy.\<close>

definition str_or :: "str option \<Rightarrow> str option \<Rightarrow> str option" where
  "str_or a b = (case a of Some x \<Rightarrow> (if x = [] then b else Some x) | None \<Rightarrow> b)"

definition str_or_else :: "str option \<Rightarrow> str \<Rightarrow> str" where
  "str_or_else a b = (case a of Some x \<Rightarrow> (if x = [] then b else x) | None \<Rightarrow> b)"

definition str_truthy :: "str option \<Rightarrow> bool" where
  "str_truthy a = (case a of Some x \<Rightarrow> x \<noteq> [] | None \<Rightarrow> False)"

lemma str_or_simps [simp]:
  "str_or None b = b"
  "str_or (Some []) b = b"
  "str_or (Some (c # s)) b = Some (c # s)"
  by (simp_all add: str_or_def)

lemma str_or_else_simps [simp]:
  "str_or_else None b = b"
  "str_or_else (Some []) b = b"
  "str_or_else (Some (c # s)) b = c # s"
  by (simp_all add: str_or_else_def)

lemma str_truthy_simps [simp]:
  "\<not> str_truthy None"
  "\<not> str_truthy (Some [])"
  "str_truthy (Some (c # s))"
  by (simp_all add: str_truthy_def)

lemma py_startswith_prefix: "py_startswith s p \<longleftrightarrow> (\<exists>t. s = p @ t)"
  by (induction s p rule: py_startswith.induct) auto

lemma py_startswith_append [simp]: "py_startswith (p @ s) p"
  by (auto simp: py_startswith_prefix)

lemma py_contains_infix: "py_contains s p \<longleftrightarrow> (\<exists>a b. s = a @ p @ b)"
proof (induction s)
  case Nil
  then show ?case by auto
next
  case (Cons c s)
  have "(\<exists>a b. c # s = a @ p @ b) \<longleftrightarrow> (\<exists>b. c # s = p @ b) \<or> (\<exists>a b. s = a @ p @ b)"
    by (metis (no_types, opaque_lifting) append_Cons append_Nil list.sel(3) neq_Nil_conv)
  with Cons show ?case by (auto simp: py_startswith_prefix)
qed

lemma py_strip_idem [simp]: "py_strip (py_strip s) = py_strip s"
proof -
  have lr: "py_lstrip (py_rstrip t) = py_rstrip t" if "py_lstrip t = t" for t
  proof (cases "py_rstrip t")
    case Nil
    then show ?thesis by (simp add: py_lstrip_def)
  next
    case (Cons c u)
    have "\<exists>v. t = py_rstrip t @ v"
      unfolding py_rstrip_def
      by (metis rev_append rev_rev_ident takeWhile_dropWhile_id)
    then obtain v where v: "t = (c # u) @ v" using Cons by metis
    have "\<not> py_isspace c"
    proof
      assume "py_isspace c"
      with v have "py_lstrip t = dropWhile py_isspace (u @ v)"
        by (simp add: py_lstrip_def)
      then have "length (py_lstrip t) \<le> length (u @ v)"
        by (simp only: length_dropWhile_le)
      with that v show False by simp
    qed
    then show ?thesis using Cons by (simp add: py_lstrip_def)
  qed
  have rr: "py_rstrip (py_rstrip t) = py_rstrip t" for t
    by (simp add: py_rstrip_def)
  have ll: "py_lstrip (py_lstrip t) = py_lstrip t" for t
    by (simp add: py_lstrip_def)
  show ?thesis
    unfolding py_strip_def by (metis ll lr rr)
qed

lemma length_py_strip_le: "length (py_strip s) \<le> length s"
  unfolding py_strip_def py_rstrip_def py_lstrip_def
  by (metis length_dropWhile_le length_rev order_trans)

section \<open>Dictionaries\<close>

text \<open>
  A \<open>dict\<close> is an association list in insertion order: \<open>d[k] = v\<close> overwrites in place or
  appends, \<open>d.pop(k, None)\<close> removes, \<open>{**a, **b}\<close> merges, \<open>map_of\<close> looks up.
\<close>

type_synonym ('k, 'v) dict = "('k \<times> 'v) list"

definition dict_put :: "'k \<Rightarrow> 'v \<Rightarrow> ('k, 'v) dict \<Rightarrow> ('k, 'v) dict" where
  "dict_put k v d = AList.update k v d"

definition dict_pop :: "'k \<Rightarrow> ('k, 'v) dict \<Rightarrow> ('k, 'v) dict" where
  "dict_pop k d = AList.delete k d"

definition dict_merge :: "('k, 'v) dict \<Rightarrow> ('k, 'v) dict \<Rightarrow> ('k, 'v) dict" where
  "dict_merge a b = foldl (\<lambda>d (k, v). dict_put k v d) a b"

definition dict_keys :: "('k, 'v) dict \<Rightarrow> 'k list" where
  "dict_keys d = map fst d"

definition dict_values :: "('k, 'v) dict \<Rightarrow> 'v list" where
  "dict_values d = map snd d"

definition dict_wf :: "('k, 'v) dict \<Rightarrow> bool" where
  "dict_wf d = distinct (dict_keys d)"

text \<open>\<open>defaultdict(list)\<close>: \<open>d[k].append(x)\<close>, and reading with \<open>d.get(k, [])\<close>.\<close>

definition dd_get :: "('k, 'v list) dict \<Rightarrow> 'k \<Rightarrow> 'v list" where
  "dd_get d k = (case map_of d k of Some xs \<Rightarrow> xs | None \<Rightarrow> [])"

definition dd_append :: "'k \<Rightarrow> 'v \<Rightarrow> ('k, 'v list) dict \<Rightarrow> ('k, 'v list) dict" where
  "dd_append k x d = dict_put k (dd_get d k @ [x]) d"

lemma map_of_dict_put [simp]: "map_of (dict_put k v d) k' = (if k' = k then Some v else map_of d k')"
  by (simp add: dict_put_def update_conv')

lemma map_of_dict_pop [simp]: "map_of (dict_pop k d) k' = (if k' = k then None else map_of d k')"
  by (simp add: dict_pop_def delete_conv')

lemma dict_keys_put [dict_simps]:
  "dict_keys (dict_put k v d) = (if k \<in> set (dict_keys d) then dict_keys d else dict_keys d @ [k])"
  by (simp add: dict_keys_def dict_put_def update_keys)

lemma dict_keys_pop [dict_simps]: "dict_keys (dict_pop k d) = filter (\<lambda>k'. k' \<noteq> k) (dict_keys d)"
  by (simp add: dict_keys_def dict_pop_def delete_keys removeAll_filter_not_eq) (metis (full_types))

lemma dict_wf_put [simp, intro]: "dict_wf d \<Longrightarrow> dict_wf (dict_put k v d)"
  by (simp add: dict_wf_def dict_keys_put)

lemma dict_wf_pop [simp, intro]: "dict_wf d \<Longrightarrow> dict_wf (dict_pop k d)"
  by (simp add: dict_wf_def dict_keys_pop)

lemma dict_wf_Nil [simp]: "dict_wf []"
  by (simp add: dict_wf_def dict_keys_def)

lemma dict_keys_Nil [simp]: "dict_keys [] = []"
  by (simp add: dict_keys_def)

lemma dict_mem_iff: "dict_wf d \<Longrightarrow> (k, v) \<in> set d \<longleftrightarrow> map_of d k = Some v"
  by (auto simp: dict_wf_def dict_keys_def dest: map_of_SomeD)

lemma in_dict_keys_iff: "k \<in> set (dict_keys d) \<longleftrightarrow> map_of d k \<noteq> None"
  by (simp add: dict_keys_def map_of_eq_None_iff)

lemma dict_values_put:
  "dict_wf d \<Longrightarrow>
     dict_put k v d = (if k \<in> set (dict_keys d)
        then map (\<lambda>(k', w). if k' = k then (k', v) else (k', w)) d else d @ [(k, v)])"
proof (induction d)
  case Nil
  then show ?case by (simp add: dict_put_def)
next
  case (Cons p d)
  obtain k' w where p: "p = (k', w)" by (cases p)
  have wf: "dict_wf d" using Cons.prems by (simp add: dict_wf_def dict_keys_def)
  have other: "k' = k \<Longrightarrow> map (\<lambda>(k', w). if k' = k then (k', v) else (k', w)) d = d"
    using Cons.prems p by (intro map_idI) (force simp: dict_wf_def dict_keys_def)
  show ?case
    using Cons.IH [OF wf] other p by (auto simp: dict_put_def dict_keys_def)
qed

lemma dd_get_append [simp]:
  "dd_get (dd_append k x d) k' = (if k' = k then dd_get d k @ [x] else dd_get d k')"
  by (simp add: dd_get_def dd_append_def)

lemma dd_get_Nil [simp]: "dd_get [] k = []"
  by (simp add: dd_get_def)

lemma map_of_dict_merge:
  "map_of (dict_merge a b) k = (case map_of (rev b) k of Some v \<Rightarrow> Some v | None \<Rightarrow> map_of a k)"
proof (induction b arbitrary: a rule: rev_induct)
  case Nil
  then show ?case by (simp add: dict_merge_def)
next
  case (snoc p b)
  then show ?case by (cases p) (simp add: dict_merge_def)
qed

section \<open>Order-preserving removal of duplicates\<close>

text \<open>\<open>list(dict.fromkeys(xs))\<close>: each element once, at its first occurrence.\<close>

definition py_dedupe :: "'a list \<Rightarrow> 'a list" where
  "py_dedupe xs = rev (remdups (rev xs))"

lemma set_py_dedupe [simp]: "set (py_dedupe xs) = set xs"
  by (simp add: py_dedupe_def)

lemma distinct_py_dedupe [simp]: "distinct (py_dedupe xs)"
  by (simp add: py_dedupe_def)

lemma py_dedupe_snoc:
  "py_dedupe (xs @ [x]) = (if x \<in> set xs then py_dedupe xs else py_dedupe xs @ [x])"
  by (simp add: py_dedupe_def)

lemma py_dedupe_Nil [simp]: "py_dedupe [] = []"
  by (simp add: py_dedupe_def)

lemma py_dedupe_Cons: "py_dedupe (x # xs) = x # filter (\<lambda>y. y \<noteq> x) (py_dedupe xs)"
proof (induction xs rule: rev_induct)
  case Nil
  then show ?case by (simp add: py_dedupe_def)
next
  case (snoc y ys)
  have "py_dedupe (x # ys @ [y]) =
      (if y = x \<or> y \<in> set ys then py_dedupe (x # ys) else py_dedupe (x # ys) @ [y])"
    using py_dedupe_snoc [of "x # ys" y] by simp
  with snoc show ?case by (auto simp: py_dedupe_snoc)
qed

text \<open>The latest object of every key, in the order in which the keys first occurred.\<close>

definition latest_by :: "('v \<Rightarrow> 'k) \<Rightarrow> 'v list \<Rightarrow> 'v list" where
  "latest_by key vs = map (\<lambda>k. last (filter (\<lambda>v. key v = k) vs)) (py_dedupe (map key vs))"

lemma key_last_filter:
  "k \<in> key ` set vs \<Longrightarrow> key (last (filter (\<lambda>v. key v = k) vs)) = k"
proof -
  assume "k \<in> key ` set vs"
  then have "filter (\<lambda>v. key v = k) vs \<noteq> []" by (auto simp: filter_empty_conv)
  then have "last (filter (\<lambda>v. key v = k) vs) \<in> set (filter (\<lambda>v. key v = k) vs)"
    by (rule last_in_set)
  then show ?thesis by simp
qed

lemma latest_by_Nil [simp]: "latest_by key [] = []"
  by (simp add: latest_by_def)

lemma latest_by_keys: "map key (latest_by key vs) = py_dedupe (map key vs)"
  unfolding latest_by_def map_map comp_def
  by (rule map_idI) (simp add: key_last_filter)

lemma latest_by_snoc:
  "latest_by key (vs @ [v]) =
     (if key v \<in> key ` set vs
      then map (\<lambda>w. if key w = key v then v else w) (latest_by key vs)
      else latest_by key vs @ [v])"
proof -
  have eq: "map (\<lambda>k. last (filter (\<lambda>u. key u = k) (vs @ [v]))) ks =
      map (\<lambda>w. if key w = key v then v else w) (map (\<lambda>k. last (filter (\<lambda>u. key u = k) vs)) ks)"
    if "set ks \<subseteq> key ` set vs" for ks
    using that key_last_filter [of _ key vs] by fastforce
  have same: "map (\<lambda>w. if key w = key v then v else w) (map (\<lambda>k. last (filter (\<lambda>u. key u = k) vs)) ks)
      = map (\<lambda>k. last (filter (\<lambda>u. key u = k) vs)) ks"
    if "set ks \<subseteq> key ` set vs" "key v \<notin> key ` set vs" for ks
    using that key_last_filter [of _ key vs] by fastforce
  have last_v: "last (filter (\<lambda>u. key u = key v) (vs @ [v])) = v"
    by simp
  show ?thesis
    using eq [of "py_dedupe (map key vs)"] same [of "py_dedupe (map key vs)"] last_v
    by (auto simp: latest_by_def py_dedupe_snoc simp del: map_map filter_append)
qed

section \<open>The interface of a keyed table\<close>

text \<open>
  The store holds one table per kind of object; a client puts objects, which carry their own
  key, and reads them one by one or all of them in the order of their first insertion. The
  laws are what every table of the store promises; the lemmas are what the clients use.
\<close>

locale keyed_table =
  fixes key :: "'v \<Rightarrow> 'k"
    and put :: "'v \<Rightarrow> 's \<Rightarrow> 's"
    and get :: "'s \<Rightarrow> 'k \<Rightarrow> 'v option"
    and elems :: "'s \<Rightarrow> 'v list"
    and wf :: "'s \<Rightarrow> bool"
  assumes get_put: "get (put v s) k = (if k = key v then Some v else get s k)"
    and wf_put: "wf s \<Longrightarrow> wf (put v s)"
    and elems_put: "wf s \<Longrightarrow> elems (put v s) =
          (if get s (key v) = None then elems s @ [v]
           else map (\<lambda>w. if key w = key v then v else w) (elems s))"
    and elems_get: "wf s \<Longrightarrow> v \<in> set (elems s) \<longleftrightarrow> get s (key v) = Some v"
    and get_key: "wf s \<Longrightarrow> get s k = Some v \<Longrightarrow> key v = k"
    and distinct_keys: "wf s \<Longrightarrow> distinct (map key (elems s))"
begin

text \<open>The loop \<open>for x in xs: if p(x): put(f(x))\<close>.\<close>

definition put_each :: "('v \<Rightarrow> bool) \<Rightarrow> ('v \<Rightarrow> 'v) \<Rightarrow> 'v list \<Rightarrow> 's \<Rightarrow> 's" where
  "put_each p f xs s = fold (\<lambda>x s. if p x then put (f x) s else s) xs s"

lemma get_put_same: "get (put v s) (key v) = Some v"
  by (simp add: get_put)

lemma get_put_other: "k \<noteq> key v \<Longrightarrow> get (put v s) k = get s k"
  by (simp add: get_put)

lemma elems_put_mem: "wf s \<Longrightarrow> w \<in> set (elems (put v s)) \<longleftrightarrow> w = v \<or> key w \<noteq> key v \<and> w \<in> set (elems s)"
  by (auto simp: elems_get wf_put get_put)

lemma elems_put_same:
  "wf s \<Longrightarrow> get s (key v) = Some w \<Longrightarrow> key v = key w \<Longrightarrow>
     elems (put v s) = map (\<lambda>u. if key u = key v then v else u) (elems s)"
  by (simp add: elems_put)

lemma wf_put_each: "wf s \<Longrightarrow> wf (put_each p f xs s)"
  unfolding put_each_def by (induction xs arbitrary: s) (auto simp: wf_put)

lemma get_put_each:
  assumes "\<And>x. key (f x) = key x" and "distinct (map key xs)"
  shows "get (put_each p f xs s) k =
    (case find (\<lambda>x. key x = k) xs of
       Some x \<Rightarrow> (if p x then Some (f x) else get s k)
     | None \<Rightarrow> get s k)"
  using assms(2)
proof (induction xs arbitrary: s)
  case Nil
  then show ?case by (simp add: put_each_def)
next
  case (Cons x xs)
  have none: "find (\<lambda>y. key y = key x) xs = None"
    using Cons.prems by (simp add: find_None_iff) (metis image_eqI)
  have step: "put_each p f (x # xs) s = put_each p f xs (if p x then put (f x) s else s)"
    by (simp add: put_each_def)
  show ?case
    using Cons none by (auto simp: step get_put assms(1) split: option.splits)
qed

text \<open>One more put of \<open>v\<close> is one more step of \<open>latest_by\<close>.\<close>

lemma elems_put_latest:
  assumes "wf s" and "elems s = latest_by key vs"
  shows "elems (put v s) = latest_by key (vs @ [v])"
proof -
  have "get s (key v) = None \<longleftrightarrow> key v \<notin> key ` set vs"
  proof -
    have "key ` set (elems s) = key ` set vs"
      using latest_by_keys [of key vs] assms(2) by (metis list.set_map set_py_dedupe)
    moreover have "get s (key v) = None \<longleftrightarrow> key v \<notin> key ` set (elems s)"
    proof
      assume "get s (key v) = None"
      then show "key v \<notin> key ` set (elems s)"
        using assms(1) by (auto simp: elems_get)
    next
      assume "key v \<notin> key ` set (elems s)"
      then show "get s (key v) = None"
        using assms(1) get_key by (metis elems_get image_eqI not_Some_eq)
    qed
    ultimately show ?thesis by simp
  qed
  then show ?thesis
    using assms by (simp add: elems_put latest_by_snoc)
qed

text \<open>
  A pass over some of the table's own elements updates exactly the selected ones, and keeps the
  order; in particular a pass over all of them.
\<close>

lemma elems_put_each:
  assumes "wf s" and "set xs \<subseteq> set (elems s)" and "distinct (map key xs)"
    and kf: "\<And>x. key (f x) = key x"
  shows "elems (put_each p f xs s) = map (\<lambda>x. if x \<in> set xs \<and> p x then f x else x) (elems s)"
  using assms(1-3)
proof (induction xs arbitrary: s)
  case Nil
  then show ?case by (simp add: put_each_def)
next
  case (Cons x xs)
  have inj: "inj_on key (set (elems s))"
    using distinct_keys [OF Cons.prems(1)] by (simp add: distinct_map)
  have x: "x \<in> set (elems s)" using Cons.prems by simp
  have notin: "key x \<notin> key ` set xs" using Cons.prems by auto
  define t where "t = (if p x then put (f x) s else s)"
  have step: "put_each p f (x # xs) s = put_each p f xs t"
    by (simp add: put_each_def t_def)
  have elt: "elems t = map (\<lambda>y. if y = x \<and> p x then f x else y) (elems s)"
  proof (cases "p x")
    case True
    have "get s (key x) \<noteq> None" using x Cons.prems by (simp add: elems_get)
    then have "elems t = map (\<lambda>y. if key y = key x then f x else y) (elems s)"
      using True Cons.prems by (simp add: t_def elems_put kf)
    then show ?thesis using True x inj by (auto simp: inj_on_def)
  next
    case False
    then show ?thesis by (simp add: t_def)
  qed
  have sub: "set xs \<subseteq> set (elems t)"
    using Cons.prems notin by (force simp: elt)
  have "wf t" using Cons.prems by (simp add: t_def wf_put)
  then have "elems (put_each p f xs t) =
      map (\<lambda>y. if y \<in> set xs \<and> p y then f y else y) (elems t)"
    using Cons.IH sub Cons.prems by simp
  also have "\<dots> = map (\<lambda>y. if y \<in> set (x # xs) \<and> p y then f y else y) (elems s)"
    using notin kf by (auto simp: elt image_iff)
  finally show ?case by (simp only: step)
qed

lemma elems_put_each_self:
  assumes wf: "wf s" and kf: "\<And>x. key (f x) = key x"
  shows "elems (put_each p f (elems s) s) = map (\<lambda>x. if p x then f x else x) (elems s)"
proof -
  have "elems (put_each p f (elems s) s) =
      map (\<lambda>x. if x \<in> set (elems s) \<and> p x then f x else x) (elems s)"
    using elems_put_each [OF wf order.refl distinct_keys [OF wf] kf] .
  then show ?thesis by (auto cong: map_cong)
qed

end

section \<open>Sorting in reverse\<close>

text \<open>\<open>sorted(xs, key=key, reverse=True)\<close> keeps the order of equal keys.\<close>

definition sort_reversed :: "('a \<Rightarrow> 'k :: linorder) \<Rightarrow> 'a list \<Rightarrow> 'a list" where
  "sort_reversed key xs = rev (sort_key key (rev xs))"

lemma set_sort_reversed [simp]: "set (sort_reversed key xs) = set xs"
  by (simp add: sort_reversed_def)

lemma filter_sort_reversed: "filter P (sort_reversed key xs) = sort_reversed key (filter P xs)"
  by (simp add: sort_reversed_def rev_filter [symmetric] filter_sort)

lemma sort_reversed_single [simp]: "sort_reversed key [x] = [x]" "sort_reversed key [] = []"
  by (simp_all add: sort_reversed_def)

end
