(* ===== verification/Protocol.thy ===== *)
theory Protocol
  imports Prelude
begin

text \<open>
  The shared protocol objects (\<open>src/newbro/protocol/\<close>): JSON values (what a
  \<open>dict[str, object]\<close> field holds), the enumerations of \<open>enums.py\<close> with their wire values, and
  one record per pydantic model the modelled code reads or writes. Field names carry a prefix
  (\<open>t_\<close> for a task, \<open>r_\<close> for a run, \<open>s_\<close> for an execution session, \<dots>), because Isabelle
  field names are global. Timestamps are the ISO strings the code stores.
\<close>

section \<open>JSON values\<close>

datatype json =
    JNull
  | JBool bool
  | JInt int
  | JFloat rat
  | JStr str
  | JList "json list"
  | JObj "(str \<times> json) list"

type_synonym jdict = "(str, json) dict"

text \<open>\<open>d.get(k)\<close>: a missing key reads as \<open>None\<close>.\<close>

definition jget :: "jdict \<Rightarrow> str \<Rightarrow> json" where
  "jget d k = (case map_of d k of Some v \<Rightarrow> v | None \<Rightarrow> JNull)"

text \<open>\<open>bool(v)\<close>.\<close>

fun jtruthy :: "json \<Rightarrow> bool" where
  "jtruthy JNull = False"
| "jtruthy (JBool b) = b"
| "jtruthy (JInt i) = (i \<noteq> 0)"
| "jtruthy (JFloat r) = (r \<noteq> 0)"
| "jtruthy (JStr s) = (s \<noteq> [])"
| "jtruthy (JList xs) = (xs \<noteq> [])"
| "jtruthy (JObj d) = (d \<noteq> [])"

text \<open>\<open>v if isinstance(v, str) and v else None\<close>, and the variant with \<open>v.strip()\<close>.\<close>

fun jstr :: "json \<Rightarrow> str option" where
  "jstr (JStr s) = Some s"
| "jstr _ = None"

fun jstr_nonempty :: "json \<Rightarrow> str option" where
  "jstr_nonempty (JStr s) = (if s = [] then None else Some s)"
| "jstr_nonempty _ = None"

fun jstr_nonblank :: "json \<Rightarrow> str option" where
  "jstr_nonblank (JStr s) = (if py_strip s = [] then None else Some s)"
| "jstr_nonblank _ = None"

fun jobj :: "json \<Rightarrow> jdict option" where
  "jobj (JObj d) = Some d"
| "jobj _ = None"

fun jlist :: "json \<Rightarrow> json list option" where
  "jlist (JList xs) = Some xs"
| "jlist _ = None"

definition json_of_str :: "str option \<Rightarrow> json" where
  "json_of_str s = (case s of None \<Rightarrow> JNull | Some x \<Rightarrow> JStr x)"

text \<open>
  Python's \<open>==\<close> on such values: \<open>bool\<close>, \<open>int\<close> and \<open>float\<close> compare as numbers, dictionaries
  without regard to the order of their keys.
\<close>

fun jnum :: "json \<Rightarrow> rat option" where
  "jnum (JBool b) = Some (if b then 1 else 0)"
| "jnum (JInt i) = Some (of_int i)"
| "jnum (JFloat r) = Some r"
| "jnum _ = None"

fun json_eq :: "json \<Rightarrow> json \<Rightarrow> bool"
  and json_eq_list :: "json list \<Rightarrow> json list \<Rightarrow> bool"
  and json_eq_dict :: "(str \<times> json) list \<Rightarrow> (str \<times> json) list \<Rightarrow> bool" where
  "json_eq (JList xs) b = (case b of JList ys \<Rightarrow> json_eq_list xs ys | _ \<Rightarrow> False)"
| "json_eq (JObj d) b =
     (case b of JObj e \<Rightarrow> length d = length e \<and> json_eq_dict d e | _ \<Rightarrow> False)"
| "json_eq JNull b = (b = JNull)"
| "json_eq (JStr s) b = (b = JStr s)"
| "json_eq a b = (jnum b = jnum a)"
| "json_eq_list [] ys = (ys = [])"
| "json_eq_list (x # xs) ys =
     (case ys of [] \<Rightarrow> False | y # ys' \<Rightarrow> json_eq x y \<and> json_eq_list xs ys')"
| "json_eq_dict [] e = True"
| "json_eq_dict ((k, v) # d) e =
     ((case map_of e k of None \<Rightarrow> False | Some w \<Rightarrow> json_eq v w) \<and> json_eq_dict d e)"

text \<open>Every dictionary inside a value has distinct keys, as Python's do.\<close>

fun json_wf :: "json \<Rightarrow> bool" where
  "json_wf (JList xs) = list_all json_wf xs"
| "json_wf (JObj d) = (distinct (map fst d) \<and> list_all (\<lambda>p. json_wf (snd p)) d)"
| "json_wf _ = True"

lemma jget_simps [simp]:
  "jget [] k = JNull"
  "jget ((k', v) # d) k = (if k = k' then v else jget d k)"
  by (simp_all add: jget_def)

lemma jget_dict_put [simp]: "jget (dict_put k v d) k' = (if k' = k then v else jget d k')"
  by (simp add: jget_def)

lemma json_eq_list_refl: "\<forall>x \<in> set xs. json_eq x x \<Longrightarrow> json_eq_list xs xs"
  by (induction xs) auto

lemma json_eq_dict_refl:
  "distinct (map fst e) \<Longrightarrow> set d \<subseteq> set e \<Longrightarrow> \<forall>p \<in> set d. json_eq (snd p) (snd p) \<Longrightarrow> json_eq_dict d e"
  by (induction d) (auto split: option.splits)

lemma json_eq_refl: "json_wf v \<Longrightarrow> json_eq v v"
proof (induction v)
  case (JList xs)
  then show ?case by (auto simp: list_all_iff intro: json_eq_list_refl)
next
  case (JObj d)
  have "json_eq_dict d d"
    using JObj by (intro json_eq_dict_refl) (fastforce simp: list_all_iff)+
  then show ?case by simp
qed simp_all

section \<open>Enumerations\<close>

datatype task_status =
    TS_CREATED
  | TS_QUEUED
  | TS_WAITING_EXECUTOR
  | TS_RUNNING
  | TS_WAITING_USER_INPUT
  | TS_PAUSED
  | TS_COMPLETED
  | TS_FAILED
  | TS_CANCELLED
  | TS_STOPPED

fun task_status_value :: "task_status \<Rightarrow> str" where
  "task_status_value TS_CREATED = ''created''"
| "task_status_value TS_QUEUED = ''queued''"
| "task_status_value TS_WAITING_EXECUTOR = ''waiting_executor''"
| "task_status_value TS_RUNNING = ''running''"
| "task_status_value TS_WAITING_USER_INPUT = ''waiting_user_input''"
| "task_status_value TS_PAUSED = ''paused''"
| "task_status_value TS_COMPLETED = ''completed''"
| "task_status_value TS_FAILED = ''failed''"
| "task_status_value TS_CANCELLED = ''cancelled''"
| "task_status_value TS_STOPPED = ''stopped''"

datatype run_status =
    RS_CREATED
  | RS_ASSIGNED
  | RS_WAITING_EXECUTOR
  | RS_RUNNING
  | RS_BLOCKED
  | RS_PAUSED
  | RS_COMPLETED
  | RS_FAILED
  | RS_CANCELLED

fun run_status_value :: "run_status \<Rightarrow> str" where
  "run_status_value RS_CREATED = ''created''"
| "run_status_value RS_ASSIGNED = ''assigned''"
| "run_status_value RS_WAITING_EXECUTOR = ''waiting_executor''"
| "run_status_value RS_RUNNING = ''running''"
| "run_status_value RS_BLOCKED = ''blocked''"
| "run_status_value RS_PAUSED = ''paused''"
| "run_status_value RS_COMPLETED = ''completed''"
| "run_status_value RS_FAILED = ''failed''"
| "run_status_value RS_CANCELLED = ''cancelled''"

datatype execution_mode =
    EM_UNDECIDED
  | EM_LIGHTWEIGHT
  | EM_MANAGED

fun execution_mode_value :: "execution_mode \<Rightarrow> str" where
  "execution_mode_value EM_UNDECIDED = ''undecided''"
| "execution_mode_value EM_LIGHTWEIGHT = ''lightweight''"
| "execution_mode_value EM_MANAGED = ''managed''"

datatype session_status =
    SS_IDLE
  | SS_WARM_IDLE
  | SS_BUSY
  | SS_SUSPENDED
  | SS_TERMINATED

datatype mutation_type =
    MT_CREATE
  | MT_UPDATE
  | MT_CONTROL
  | MT_ADD_TASK_NOTE
  | MT_ADD_CONSTRAINT

fun mutation_type_value :: "mutation_type \<Rightarrow> str" where
  "mutation_type_value MT_CREATE = ''create''"
| "mutation_type_value MT_UPDATE = ''update''"
| "mutation_type_value MT_CONTROL = ''control''"
| "mutation_type_value MT_ADD_TASK_NOTE = ''add_task_note''"
| "mutation_type_value MT_ADD_CONSTRAINT = ''add_constraint''"

datatype task_command_type =
    TC_PAUSE_TASK
  | TC_CANCEL_TASK
  | TC_PREEMPT_TASK
  | TC_RESUME_TASK
  | TC_RETRY_TASK

fun task_command_type_value :: "task_command_type \<Rightarrow> str" where
  "task_command_type_value TC_PAUSE_TASK = ''pause_task''"
| "task_command_type_value TC_CANCEL_TASK = ''cancel_task''"
| "task_command_type_value TC_PREEMPT_TASK = ''preempt_task''"
| "task_command_type_value TC_RESUME_TASK = ''resume_task''"
| "task_command_type_value TC_RETRY_TASK = ''retry_task''"

datatype notification_priority =
    NP_P0
  | NP_P1
  | NP_P2
  | NP_P3

datatype notification_candidate_type =
    NT_COMPLETED
  | NT_BLOCKED
  | NT_NEEDS_INPUT

fun notification_candidate_type_value :: "notification_candidate_type \<Rightarrow> str" where
  "notification_candidate_type_value NT_COMPLETED = ''completed''"
| "notification_candidate_type_value NT_BLOCKED = ''blocked''"
| "notification_candidate_type_value NT_NEEDS_INPUT = ''needs_input''"

datatype notification_delivery_status =
    ND_PENDING
  | ND_EMITTED
  | ND_SUPPRESSED

fun notification_delivery_status_value :: "notification_delivery_status \<Rightarrow> str" where
  "notification_delivery_status_value ND_PENDING = ''pending''"
| "notification_delivery_status_value ND_EMITTED = ''emitted''"
| "notification_delivery_status_value ND_SUPPRESSED = ''suppressed''"

datatype interaction_request_kind =
    IK_PERMISSION
  | IK_QUESTION
  | IK_CONFIRMATION
  | IK_PLAN_PROPOSAL

fun interaction_request_kind_value :: "interaction_request_kind \<Rightarrow> str" where
  "interaction_request_kind_value IK_PERMISSION = ''permission''"
| "interaction_request_kind_value IK_QUESTION = ''question''"
| "interaction_request_kind_value IK_CONFIRMATION = ''confirmation''"
| "interaction_request_kind_value IK_PLAN_PROPOSAL = ''plan_proposal''"

datatype interaction_request_status =
    IS_PENDING
  | IS_APPROVED
  | IS_DENIED
  | IS_ANSWERED
  | IS_RESOLVED
  | IS_CANCELLED
  | IS_EXPIRED

fun interaction_request_status_value :: "interaction_request_status \<Rightarrow> str" where
  "interaction_request_status_value IS_PENDING = ''pending''"
| "interaction_request_status_value IS_APPROVED = ''approved''"
| "interaction_request_status_value IS_DENIED = ''denied''"
| "interaction_request_status_value IS_ANSWERED = ''answered''"
| "interaction_request_status_value IS_RESOLVED = ''resolved''"
| "interaction_request_status_value IS_CANCELLED = ''cancelled''"
| "interaction_request_status_value IS_EXPIRED = ''expired''"

datatype attention_priority =
    AP_P0
  | AP_P1
  | AP_P2
  | AP_P3

datatype attention_item_kind =
    AK_PERMISSION_REQUEST
  | AK_QUESTION_REQUEST
  | AK_CONFIRMATION_REQUEST
  | AK_PLAN_PROPOSAL_REQUEST
  | AK_TASK_PAUSED
  | AK_TASK_RESUMED
  | AK_TASK_BLOCKED
  | AK_TASK_COMPLETED

fun attention_item_kind_value :: "attention_item_kind \<Rightarrow> str" where
  "attention_item_kind_value AK_PERMISSION_REQUEST = ''permission_request''"
| "attention_item_kind_value AK_QUESTION_REQUEST = ''question_request''"
| "attention_item_kind_value AK_CONFIRMATION_REQUEST = ''confirmation_request''"
| "attention_item_kind_value AK_PLAN_PROPOSAL_REQUEST = ''plan_proposal_request''"
| "attention_item_kind_value AK_TASK_PAUSED = ''task_paused''"
| "attention_item_kind_value AK_TASK_RESUMED = ''task_resumed''"
| "attention_item_kind_value AK_TASK_BLOCKED = ''task_blocked''"
| "attention_item_kind_value AK_TASK_COMPLETED = ''task_completed''"

datatype attention_item_status =
    AS_ACTIVE
  | AS_ACTED
  | AS_DISMISSED
  | AS_EXPIRED

fun attention_item_status_value :: "attention_item_status \<Rightarrow> str" where
  "attention_item_status_value AS_ACTIVE = ''active''"
| "attention_item_status_value AS_ACTED = ''acted''"
| "attention_item_status_value AS_DISMISSED = ''dismissed''"
| "attention_item_status_value AS_EXPIRED = ''expired''"

datatype runtime_session_state =
    RSS_IDLE
  | RSS_DRAFTING
  | RSS_WAITING_FOR_CONFIRMATION
  | RSS_TASK_RUNNING
  | RSS_TASK_BLOCKED
  | RSS_TASK_COMPLETE
  | RSS_USER_REVIEWING_ARTIFACT

datatype task_mode =
    TM_READ_ONLY_FIRST
  | TM_PROPOSAL_ONLY
  | TM_MODIFY_ALLOWED
  | TM_SUBMIT_ALLOWED

datatype dispatch_gate_outcome =
    DG_ASK_CLARIFICATION
  | DG_ASK_CONFIRMATION
  | DG_DISPATCH
  | DG_REJECT

datatype agent_event_importance =
    AI_LOW
  | AI_MEDIUM
  | AI_HIGH
  | AI_URGENT

fun agent_event_importance_value :: "agent_event_importance \<Rightarrow> str" where
  "agent_event_importance_value AI_LOW = ''low''"
| "agent_event_importance_value AI_MEDIUM = ''medium''"
| "agent_event_importance_value AI_HIGH = ''high''"
| "agent_event_importance_value AI_URGENT = ''urgent''"

datatype agent_event_delivery =
    AD_SILENT
  | AD_SILENT_UI
  | AD_BADGE
  | AD_SHORT_VOICE
  | AD_VOICE_INTERRUPT

fun agent_event_delivery_value :: "agent_event_delivery \<Rightarrow> str" where
  "agent_event_delivery_value AD_SILENT = ''silent''"
| "agent_event_delivery_value AD_SILENT_UI = ''silent_ui''"
| "agent_event_delivery_value AD_BADGE = ''badge''"
| "agent_event_delivery_value AD_SHORT_VOICE = ''short_voice''"
| "agent_event_delivery_value AD_VOICE_INTERRUPT = ''voice_interrupt''"

datatype binding_status =
    BS_CREATED
  | BS_CLAIMED
  | BS_ACTIVE
  | BS_PAUSED
  | BS_RELEASED

lemma task_status_value_inj [simp]: "task_status_value a = task_status_value b \<longleftrightarrow> a = b"
  by (cases a; cases b) simp_all

lemma run_status_value_inj [simp]: "run_status_value a = run_status_value b \<longleftrightarrow> a = b"
  by (cases a; cases b) simp_all

section \<open>Models\<close>

record task =
  t_task_id :: str
  t_root_task_id :: str
  t_parent_task_id :: "str option"
  t_title :: str
  t_goal :: str
  t_status :: task_status
  t_priority :: int
  t_interruptible :: bool
  t_requires_confirmation :: bool
  t_preferred_executor :: "str option"
  t_session_affinity :: "str option"
  t_task_revision :: int
  t_latest_instruction :: "str option"
  t_metadata :: jdict

record execution_run =
  r_run_id :: str
  r_task_id :: str
  r_execution_session_id :: str
  r_executor_type :: str
  r_status :: run_status
  r_claimed_by :: "str option"
  r_run_revision :: int
  r_latest_progress_message :: "str option"
  r_output_summary :: "str option"
  r_block_reason :: "str option"
  r_failure_reason :: "str option"
  r_metadata :: jdict

record agent_resume_handle =
  h_executor_id :: str
  h_session_handle :: "str option"
  h_turn_handle :: "str option"
  h_opaque :: jdict

record queued_run_request =
  q_queued_request_id :: str
  q_task_id :: str
  q_executor_config :: jdict
  q_latest_instruction :: str
  q_requested_by_message_id :: "str option"

record execution_session =
  s_execution_session_id :: str
  s_task_id :: str
  s_base_executor_id :: str
  s_executor_node_id :: "str option"
  s_continuity_key :: "str option"
  s_run_ids :: "str list"
  s_active_run_id :: "str option"
  s_latest_run_id :: "str option"
  s_latest_resume_handle :: "agent_resume_handle option"
  s_queued_run_request :: "queued_run_request option"

record session_binding =
  b_task_id :: str
  b_execution_session_id :: "str option"
  b_executor_node_id :: "str option"
  b_session_id :: "str option"
  b_claimed_by :: "str option"
  b_claim_expires_at :: "str option"
  b_execution_revision :: int
  b_binding_status :: binding_status

record task_summary =
  sm_task_id :: str
  sm_operational_summary :: "str option"
  sm_conversational_summary :: "str option"
  sm_latest_user_visible_status :: "str option"
  sm_needs_user_input :: bool

record task_execution_mode =
  em_task_id :: str
  em_mode :: execution_mode
  em_decided_from_run_id :: "str option"
  em_elapsed_seconds :: rat

record task_mutation =
  m_mutation_id :: str
  m_task_id :: "str option"
  m_mutation_type :: mutation_type
  m_patch :: jdict
  m_created_by :: str
  m_urgency :: str
  m_effective_scope :: str
  m_requires_replan :: bool

record task_command =
  c_command_id :: str
  c_task_id :: str
  c_command_type :: task_command_type
  c_payload :: jdict
  c_created_by :: str
  c_reason :: "str option"

record task_execution_detail_entry =
  d_detail_id :: str
  d_task_id :: str
  d_run_id :: str
  d_execution_session_id :: str
  d_event_type :: str
  d_text :: str
  d_created_at :: str
  d_payload :: jdict

record notification_candidate =
  n_candidate_id :: str
  n_task_id :: str
  n_candidate_type :: notification_candidate_type
  n_priority :: notification_priority
  n_summary_short :: str
  n_source_run_id :: "str option"
  n_created_at :: str
  n_delivery_status :: notification_delivery_status
  n_merge_key :: str
  n_requires_immediate_delivery :: bool

record persona =
  p_persona_id :: str
  p_name :: str
  p_avatar :: str
  p_base_prompt :: str
  p_executor_node_id :: "str option"
  p_bro_detail_session_id :: str
  p_status :: str

record outbound_turn_request =
  o_request_id :: str
  o_persona_id :: str
  o_executor_id :: str
  o_executor_node_id :: str
  o_target_thread_id :: "str option"
  o_create_new_thread :: bool
  o_workspace_id :: "str option"
  o_client_request_id :: "str option"
  o_input_modality :: str
  o_text :: "str option"
  o_audio_instruction_id :: "str option"
  o_plan_mode :: bool
  o_status :: str
  o_error :: "str option"
  o_executor_thread_id :: "str option"
  o_executor_turn_id :: "str option"
  o_created_at :: "str option"
  o_updated_at :: "str option"
  o_metadata :: jdict

record interaction_request =
  i_request_id :: str
  i_task_id :: "str option"
  i_outbound_turn_request_id :: "str option"
  i_execution_session_id :: "str option"
  i_run_id :: "str option"
  i_executor_type :: "str option"
  i_executor_node_id :: "str option"
  i_kind :: interaction_request_kind
  i_status :: interaction_request_status
  i_prompt :: str
  i_details :: jdict
  i_available_actions :: "str list"
  i_answer_schema :: "jdict option"
  i_resume_strategy :: str
  i_opaque :: jdict
  i_created_at :: str
  i_resolved_at :: "str option"

record attention_item =
  a_attention_id :: str
  a_source :: str
  a_kind :: attention_item_kind
  a_priority :: attention_priority
  a_status :: attention_item_status
  a_title :: str
  a_body :: str
  a_task_id :: "str option"
  a_request_id :: "str option"
  a_actions :: "jdict list"
  a_dedupe_key :: "str option"
  a_metadata :: jdict
  a_created_at :: str

record agent_event =
  e_event_id :: str
  e_task_id :: str
  e_agent_id :: str
  e_type :: str
  e_message :: str
  e_importance :: agent_event_importance
  e_delivery :: agent_event_delivery
  e_artifact_id :: "str option"
  e_created_at :: str

section \<open>Executor events\<close>

text \<open>\<open>src/newbro/executors/core/events.py\<close> and \<open>session.py\<close>.\<close>

datatype executor_event_type =
    EV_PROGRESS | EV_PLAN | EV_WAITING_EXECUTOR | EV_BLOCKED | EV_COMPLETED | EV_FAILED | EV_CANCELLED

fun executor_event_type_value :: "executor_event_type \<Rightarrow> str" where
  "executor_event_type_value EV_PROGRESS = ''progress''"
| "executor_event_type_value EV_PLAN = ''plan''"
| "executor_event_type_value EV_WAITING_EXECUTOR = ''waiting_executor''"
| "executor_event_type_value EV_BLOCKED = ''blocked''"
| "executor_event_type_value EV_COMPLETED = ''completed''"
| "executor_event_type_value EV_FAILED = ''failed''"
| "executor_event_type_value EV_CANCELLED = ''cancelled''"

record executor_event =
  ev_run_id :: str
  ev_session_id :: str
  ev_event_type :: executor_event_type
  ev_message :: "str option"
  ev_metadata :: jdict

record executor_session =
  es_session_id :: str
  es_executor_type :: str
  es_status :: session_status
  es_metadata :: jdict

text \<open>The fields of \<open>CodexTurnEventMessage\<close> (\<open>protocol/executor_node.py\<close>).\<close>

record codex_turn_event =
  ct_request_id :: str
  ct_node_id :: str
  ct_executor_type :: str
  ct_target_persona_id :: str
  ct_target_thread_id :: str
  ct_event_type :: str
  ct_message :: "str option"
  ct_executor_thread_id :: "str option"
  ct_executor_turn_id :: "str option"
  ct_ok :: bool
  ct_error :: "str option"
  ct_metadata :: jdict

end
