(* ===== verification/Tables.thy ===== *)
theory Tables
  imports Prelude
begin

text \<open>
  Two representations of a table of objects that carry their own key, as the store uses them:
  one dictionary (\<open>dict_table\<close>), and a dictionary with a separate list of the keys in the order
  of their first insertion (\<open>ordered_table\<close>). Each is shown to provide \<open>keyed_table\<close>, the
  interface the clients are proved against.
\<close>

section \<open>Tables over a state\<close>

definition table_ok :: "('v \<Rightarrow> 'k) \<Rightarrow> ('k, 'v) dict \<Rightarrow> bool" where
  "table_ok key d \<longleftrightarrow> dict_wf d \<and> (\<forall>p \<in> set d. key (snd p) = fst p)"

lemma table_ok_Nil [simp]: "table_ok key []"
  by (simp add: table_ok_def)

lemma table_ok_put [simp, intro]: "table_ok key d \<Longrightarrow> key v = k \<Longrightarrow> table_ok key (dict_put k v d)"
  unfolding table_ok_def
  by (metis (no_types, lifting) dict_mem_iff dict_wf_put map_of_dict_put option.inject prod.collapse)

lemma table_ok_pop [simp, intro]: "table_ok key d \<Longrightarrow> table_ok key (dict_pop k d)"
  unfolding table_ok_def
  by (metis (no_types, lifting) dict_mem_iff dict_wf_pop map_of_dict_pop option.distinct(1) prod.collapse)

lemma table_ok_key: "table_ok key d \<Longrightarrow> map_of d k = Some v \<Longrightarrow> key v = k"
  by (force simp: table_ok_def dest: map_of_SomeD)

lemma dict_values_mem:
  "table_ok key d \<Longrightarrow> v \<in> set (dict_values d) \<longleftrightarrow> map_of d (key v) = Some v"
proof
  assume ok: "table_ok key d" and "v \<in> set (dict_values d)"
  then obtain k where "(k, v) \<in> set d" by (auto simp: dict_values_def)
  with ok show "map_of d (key v) = Some v"
    by (auto simp: table_ok_def dict_mem_iff [symmetric])
next
  assume "map_of d (key v) = Some v"
  then show "v \<in> set (dict_values d)"
    by (force simp: dict_values_def dest: map_of_SomeD)
qed

lemma dict_keys_values: "table_ok key d \<Longrightarrow> map key (dict_values d) = dict_keys d"
  by (simp add: table_ok_def dict_values_def dict_keys_def)

lemma dict_values_put_table:
  assumes "table_ok key d"
  shows "dict_values (dict_put (key v) v d) =
    (if map_of d (key v) = None then dict_values d @ [v]
     else map (\<lambda>w. if key w = key v then v else w) (dict_values d))"
proof -
  have wf: "dict_wf d" and kv: "\<And>p. p \<in> set d \<Longrightarrow> key (snd p) = fst p"
    using assms by (auto simp: table_ok_def)
  have "map snd (map (\<lambda>(k', w). if k' = key v then (k', v) else (k', w)) d) =
      map (\<lambda>w. if key w = key v then v else w) (map snd d)"
    using kv by (auto simp: case_prod_unfold)
  then show ?thesis
    by (auto simp: dict_values_put [OF wf] dict_values_def in_dict_keys_iff simp del: map_map)
qed

text \<open>A table kept as one dictionary; its elements are \<open>list(d.values())\<close>.\<close>

locale dict_table =
  fixes key :: "'v \<Rightarrow> 'k"
    and tbl :: "'s \<Rightarrow> ('k, 'v) dict"
    and put :: "'v \<Rightarrow> 's \<Rightarrow> 's"
    and wf :: "'s \<Rightarrow> bool"
  assumes tbl_put: "tbl (put v s) = dict_put (key v) v (tbl s)"
    and dt_wf_put: "wf s \<Longrightarrow> wf (put v s)"
    and wf_tbl: "wf s \<Longrightarrow> table_ok key (tbl s)"

sublocale dict_table \<subseteq> keyed_table key put "\<lambda>s. map_of (tbl s)" "\<lambda>s. dict_values (tbl s)" wf
proof unfold_locales
  show "map_of (tbl (put v s)) k = (if k = key v then Some v else map_of (tbl s) k)" for v s k
    by (simp add: tbl_put)
  show "wf s \<Longrightarrow> wf (put v s)" for s v
    by (rule dt_wf_put)
  show "wf s \<Longrightarrow> dict_values (tbl (put v s)) =
      (if map_of (tbl s) (key v) = None then dict_values (tbl s) @ [v]
       else map (\<lambda>w. if key w = key v then v else w) (dict_values (tbl s)))" for s v
    unfolding tbl_put by (rule dict_values_put_table [OF wf_tbl])
  show "wf s \<Longrightarrow> v \<in> set (dict_values (tbl s)) \<longleftrightarrow> map_of (tbl s) (key v) = Some v" for s v
    by (rule dict_values_mem [OF wf_tbl])
  show "wf s \<Longrightarrow> map_of (tbl s) k = Some v \<Longrightarrow> key v = k" for s k v
    by (rule table_ok_key [OF wf_tbl])
  show "wf s \<Longrightarrow> distinct (map key (dict_values (tbl s)))" for s
    using wf_tbl [of s] by (simp add: dict_keys_values) (simp add: table_ok_def dict_wf_def)
qed

text \<open>A table with a separate order list: \<open>[d[k] for k in order if k in d]\<close>.\<close>

definition ordered_values :: "('k, 'v) dict \<Rightarrow> 'k list \<Rightarrow> 'v list" where
  "ordered_values d ks = List.map_filter (map_of d) ks"

lemma ordered_values_keys: "dict_wf d \<Longrightarrow> ordered_values d (dict_keys d) = dict_values d"
proof -
  assume wf: "dict_wf d"
  have "List.map_filter (map_of d) (map fst e) = map snd e" if "set e \<subseteq> set d" for e
    using that
  proof (induction e)
    case Nil
    then show ?case by (simp add: List.map_filter_def)
  next
    case (Cons p e)
    then have "map_of d (fst p) = Some (snd p)"
      using wf by (cases p) (simp add: dict_mem_iff [symmetric])
    with Cons show ?case by (simp add: List.map_filter_def)
  qed
  then show ?thesis by (simp add: ordered_values_def dict_keys_def dict_values_def)
qed

locale ordered_table =
  fixes key :: "'v \<Rightarrow> 'k"
    and tbl :: "'s \<Rightarrow> ('k, 'v) dict"
    and ord :: "'s \<Rightarrow> 'k list"
    and put :: "'v \<Rightarrow> 's \<Rightarrow> 's"
    and wf :: "'s \<Rightarrow> bool"
  assumes ot_tbl_put: "tbl (put v s) = dict_put (key v) v (tbl s)"
    and ot_wf_put: "wf s \<Longrightarrow> wf (put v s)"
    and ot_wf_tbl: "wf s \<Longrightarrow> table_ok key (tbl s)"
    and ot_wf_ord: "wf s \<Longrightarrow> ord s = dict_keys (tbl s)"
begin

lemma ordered_values_eq: "wf s \<Longrightarrow> ordered_values (tbl s) (ord s) = dict_values (tbl s)"
  using ot_wf_tbl [of s] by (simp add: ot_wf_ord ordered_values_keys table_ok_def)

end

sublocale ordered_table \<subseteq> dict_table key tbl put wf
  by unfold_locales (auto simp: ot_tbl_put intro: ot_wf_put ot_wf_tbl)

sublocale ordered_table \<subseteq> ordered: keyed_table key put "\<lambda>s. map_of (tbl s)"
    "\<lambda>s. ordered_values (tbl s) (ord s)" wf
  by unfold_locales
    (auto simp: get_put ordered_values_eq ot_wf_put elems_put elems_get distinct_keys
      intro: get_key wf_put)

end
