(* ===== verification/Blackboard.thy ===== *)
theory Blackboard
  imports Protocol Tables
begin

text \<open>
  The in-memory blackboard (\<open>src/newbro/blackboard/backends/memory.py\<close>), the only fact source
  shared by the communication side and the execution side: its state as the record
  \<open>blackboard\<close> (one field per attribute of \<open>InMemoryBlackboard\<close>), one definition per method,
  the write events it publishes to its subscribers, the queries of
  \<open>src/newbro/blackboard/queries.py\<close>, the revision helpers of \<open>revisions.py\<close>, the invariant
  \<open>bb_wf\<close> with its preservation by every operation, and an interpretation of \<open>keyed_table\<close> for
  every table.

  Every write method serialises under one lock and awaits nothing inside, so each is one atomic
  function on the state. Objects are values: where the code mutates an object it holds and puts
  it back, the model puts the updated value. A method that publishes takes as \<open>ctx\<close> the request
  id of the diagnostic context it runs in.
\<close>

section \<open>Write events\<close>

datatype write_kind =
    WK_TASK | WK_MUTATION | WK_COMMAND | WK_EXECUTION_DETAIL | WK_RUN | WK_SESSION | WK_BINDING
  | WK_SUMMARY | WK_EXECUTION_MODE | WK_NOTIFICATION | WK_PERSONA | WK_INTERACTION_REQUEST
  | WK_ATTENTION | WK_AGENT_EVENT

record write_event =
  we_kind :: write_kind
  we_entity_id :: "str option"
  we_task_id :: "str option"
  we_request_id :: "str option"
  we_payload :: jdict

text \<open>\<open>BlackboardWriteEvent(kind=.., entity_id=.., task_id=.., payload=..)\<close>; no request id yet.\<close>

definition write_event_of :: "write_kind \<Rightarrow> str option \<Rightarrow> str option \<Rightarrow> jdict \<Rightarrow> write_event" where
  "write_event_of k eid tid p =
     \<lparr>we_kind = k, we_entity_id = eid, we_task_id = tid, we_request_id = None, we_payload = p\<rparr>"

section \<open>State\<close>

record blackboard =
  bb_tasks :: "(str, task) dict"
  bb_task_snapshots :: "(str, task) dict"
  bb_mutations_by_task :: "(str, task_mutation list) dict"
  bb_commands_by_task :: "(str, task_command list) dict"
  bb_mutations :: "task_mutation list"
  bb_commands :: "task_command list"
  bb_details_by_task :: "(str, task_execution_detail_entry list) dict"
  bb_details :: "task_execution_detail_entry list"
  bb_sessions :: "(str, execution_session) dict"
  bb_runs :: "(str, execution_run) dict"
  bb_run_snapshots :: "(str, execution_run) dict"
  bb_bindings_by_task :: "(str, session_binding) dict"
  bb_summaries_by_task :: "(str, task_summary) dict"
  bb_execution_modes_by_task :: "(str, task_execution_mode) dict"
  bb_notification_candidates :: "(str, notification_candidate) dict"
  bb_notification_candidate_order :: "str list"
  bb_outbound_turn_requests :: "(str, outbound_turn_request) dict"
  bb_outbound_turn_request_order :: "str list"
  bb_personas :: "(str, persona) dict"
  bb_interaction_requests :: "(str, interaction_request) dict"
  bb_interaction_request_order :: "str list"
  bb_attention_items :: "(str, attention_item) dict"
  bb_attention_item_order :: "str list"
  bb_agent_events :: "(str, agent_event) dict"
  bb_agent_event_order :: "str list"
  bb_recent_writes :: "write_event list"
  bb_queues :: "(nat \<times> write_event list) list"
  bb_next_queue :: nat

definition bb_init :: blackboard where
  "bb_init = \<lparr>bb_tasks = [], bb_task_snapshots = [], bb_mutations_by_task = [],
     bb_commands_by_task = [], bb_mutations = [], bb_commands = [], bb_details_by_task = [],
     bb_details = [], bb_sessions = [], bb_runs = [], bb_run_snapshots = [],
     bb_bindings_by_task = [], bb_summaries_by_task = [], bb_execution_modes_by_task = [],
     bb_notification_candidates = [], bb_notification_candidate_order = [],
     bb_outbound_turn_requests = [], bb_outbound_turn_request_order = [], bb_personas = [],
     bb_interaction_requests = [], bb_interaction_request_order = [], bb_attention_items = [],
     bb_attention_item_order = [], bb_agent_events = [], bb_agent_event_order = [],
     bb_recent_writes = [], bb_queues = [], bb_next_queue = 0\<rparr>"

section \<open>Subscriptions and publishing\<close>

text \<open>
  A subscriber's queue is identified by the number of the \<open>subscribe\<close> call that made it; the
  queues are unbounded, so a publish never waits.
\<close>

definition subscribe :: "blackboard \<Rightarrow> nat \<times> blackboard" where
  "subscribe s = (bb_next_queue s,
     s\<lparr>bb_queues := bb_queues s @ [(bb_next_queue s, [])], bb_next_queue := Suc (bb_next_queue s)\<rparr>)"

fun remove_queue :: "nat \<Rightarrow> (nat \<times> write_event list) list \<Rightarrow> (nat \<times> write_event list) list" where
  "remove_queue q [] = []"
| "remove_queue q ((q', es) # qs) = (if q' = q then qs else (q', es) # remove_queue q qs)"

definition unsubscribe :: "nat \<Rightarrow> blackboard \<Rightarrow> blackboard" where
  "unsubscribe q s = s\<lparr>bb_queues := remove_queue q (bb_queues s)\<rparr>"

definition subscriptions_publish :: "write_event \<Rightarrow> (nat \<times> write_event list) list \<Rightarrow> (nat \<times> write_event list) list" where
  "subscriptions_publish e qs = map (\<lambda>(q, es). (q, es @ [e])) qs"

definition publish :: "str option \<Rightarrow> write_event \<Rightarrow> blackboard \<Rightarrow> blackboard" where
  "publish ctx e s =
     (let e' = (if we_request_id e = None then e\<lparr>we_request_id := ctx\<rparr> else e)
      in s\<lparr>bb_recent_writes := bb_recent_writes s @ [e'],
           bb_queues := subscriptions_publish e' (bb_queues s)\<rparr>)"

section \<open>Write payloads\<close>

definition jdict_differs :: "jdict \<Rightarrow> jdict \<Rightarrow> bool" where
  "jdict_differs a b = (\<not> json_eq (JObj a) (JObj b))"

definition task_changed_fields :: "task \<Rightarrow> task \<Rightarrow> str list" where
  "task_changed_fields p c = map fst (filter snd [
     (''title'', t_title p \<noteq> t_title c),
     (''goal'', t_goal p \<noteq> t_goal c),
     (''priority'', t_priority p \<noteq> t_priority c),
     (''interruptible'', t_interruptible p \<noteq> t_interruptible c),
     (''requires_confirmation'', t_requires_confirmation p \<noteq> t_requires_confirmation c),
     (''preferred_executor'', t_preferred_executor p \<noteq> t_preferred_executor c),
     (''session_affinity'', t_session_affinity p \<noteq> t_session_affinity c),
     (''latest_instruction'', t_latest_instruction p \<noteq> t_latest_instruction c),
     (''metadata'', jdict_differs (t_metadata p) (t_metadata c))])"

definition task_write_payload :: "task option \<Rightarrow> task \<Rightarrow> jdict" where
  "task_write_payload previous c =
     (let st = (''status'', JStr (task_status_value (t_status c))) in
      case previous of
        None \<Rightarrow> [st, (''change_kind'', JStr ''created'')]
      | Some p \<Rightarrow>
          if t_status p \<noteq> t_status c then
            [st, (''change_kind'', JStr ''status_change''),
             (''previous_status'', JStr (task_status_value (t_status p)))]
          else
            (let changed = task_changed_fields p c in
             if changed \<noteq> [] then
               [st, (''change_kind'', JStr ''fields_updated''),
                (''changed_fields'', JList (map JStr (take 5 changed)))]
             else [st, (''change_kind'', JStr ''refresh'')]))"

definition run_changed_fields :: "execution_run \<Rightarrow> execution_run \<Rightarrow> str list" where
  "run_changed_fields p c = map fst (filter snd [
     (''output_summary'', r_output_summary p \<noteq> r_output_summary c),
     (''block_reason'', r_block_reason p \<noteq> r_block_reason c),
     (''failure_reason'', r_failure_reason p \<noteq> r_failure_reason c),
     (''claimed_by'', r_claimed_by p \<noteq> r_claimed_by c),
     (''run_revision'', r_run_revision p \<noteq> r_run_revision c),
     (''metadata'', jdict_differs (r_metadata p) (r_metadata c))])"

definition run_progress_entry :: "execution_run \<Rightarrow> jdict" where
  "run_progress_entry c =
     (if str_truthy (r_latest_progress_message c)
      then [(''latest_progress_message'', json_of_str (r_latest_progress_message c))] else [])"

definition run_write_payload :: "execution_run option \<Rightarrow> execution_run \<Rightarrow> jdict" where
  "run_write_payload previous c =
     (let st = (''status'', JStr (run_status_value (r_status c))) in
      case previous of
        None \<Rightarrow> [st, (''change_kind'', JStr ''created'')] @ run_progress_entry c
      | Some p \<Rightarrow>
          if r_status p \<noteq> r_status c then
            [st, (''change_kind'', JStr ''status_change''),
             (''previous_status'', JStr (run_status_value (r_status p)))] @ run_progress_entry c
          else if r_latest_progress_message p \<noteq> r_latest_progress_message c then
            [st, (''change_kind'', JStr ''progress_update'')] @ run_progress_entry c
          else
            (let changed = run_changed_fields p c in
             if changed \<noteq> [] then
               [st, (''change_kind'', JStr ''fields_updated''),
                (''changed_fields'', JList (map JStr (take 5 changed)))]
             else [st, (''change_kind'', JStr ''refresh'')]))"

section \<open>Tasks\<close>

definition bump_task_revision :: "task \<Rightarrow> task" where
  "bump_task_revision t = t\<lparr>t_task_revision := t_task_revision t + 1\<rparr>"

definition put_task :: "str option \<Rightarrow> task \<Rightarrow> blackboard \<Rightarrow> blackboard" where
  "put_task ctx t s =
     (let previous = map_of (bb_task_snapshots s) (t_task_id t);
          s' = s\<lparr>bb_tasks := dict_put (t_task_id t) t (bb_tasks s),
                 bb_task_snapshots := dict_put (t_task_id t) t (bb_task_snapshots s)\<rparr>
      in publish ctx
           (write_event_of WK_TASK (Some (t_task_id t)) (Some (t_task_id t)) (task_write_payload previous t))
           s')"

definition get_task :: "blackboard \<Rightarrow> str \<Rightarrow> task option" where
  "get_task s k = map_of (bb_tasks s) k"

definition list_tasks :: "blackboard \<Rightarrow> task list" where
  "list_tasks s = dict_values (bb_tasks s)"

section \<open>Mutations, commands, execution details\<close>

text \<open>A mutation without a task is indexed under the empty key.\<close>

definition mutation_key :: "task_mutation \<Rightarrow> str" where
  "mutation_key m = (case m_task_id m of Some k \<Rightarrow> k | None \<Rightarrow> [])"

definition append_mutation :: "str option \<Rightarrow> task_mutation \<Rightarrow> blackboard \<Rightarrow> blackboard" where
  "append_mutation ctx m s =
     (let s1 = s\<lparr>bb_mutations_by_task := dd_append (mutation_key m) m (bb_mutations_by_task s)\<rparr>;
          s2 = (case m_task_id m of
                  None \<Rightarrow> s1
                | Some k \<Rightarrow>
                    (case map_of (bb_tasks s1) k of
                       None \<Rightarrow> s1
                     | Some t \<Rightarrow> s1\<lparr>bb_tasks := dict_put k (bump_task_revision t) (bb_tasks s1)\<rparr>));
          s3 = s2\<lparr>bb_mutations := bb_mutations s2 @ [m]\<rparr>
      in publish ctx
           (write_event_of WK_MUTATION (Some (m_mutation_id m)) (m_task_id m)
              [(''mutation_id'', JStr (m_mutation_id m)),
               (''mutation_type'', JStr (mutation_type_value (m_mutation_type m))),
               (''created_by'', JStr (m_created_by m)),
               (''urgency'', JStr (m_urgency m)),
               (''effective_scope'', JStr (m_effective_scope m)),
               (''requires_replan'', JBool (m_requires_replan m)),
               (''patch'', JObj (m_patch m))])
           s3)"

definition list_mutations :: "blackboard \<Rightarrow> str \<Rightarrow> task_mutation list" where
  "list_mutations s k = dd_get (bb_mutations_by_task s) k"

definition list_all_mutations :: "blackboard \<Rightarrow> task_mutation list" where
  "list_all_mutations s = bb_mutations s"

definition append_command :: "str option \<Rightarrow> task_command \<Rightarrow> blackboard \<Rightarrow> blackboard" where
  "append_command ctx c s =
     publish ctx
       (write_event_of WK_COMMAND (Some (c_command_id c)) (Some (c_task_id c))
          [(''command_id'', JStr (c_command_id c)),
           (''command_type'', JStr (task_command_type_value (c_command_type c))),
           (''created_by'', JStr (c_created_by c)),
           (''reason'', json_of_str (c_reason c)),
           (''payload'', JObj (c_payload c))])
       (s\<lparr>bb_commands_by_task := dd_append (c_task_id c) c (bb_commands_by_task s),
          bb_commands := bb_commands s @ [c]\<rparr>)"

definition list_commands :: "blackboard \<Rightarrow> str \<Rightarrow> task_command list" where
  "list_commands s k = dd_get (bb_commands_by_task s) k"

definition list_all_commands :: "blackboard \<Rightarrow> task_command list" where
  "list_all_commands s = bb_commands s"

definition append_task_execution_detail ::
    "str option \<Rightarrow> task_execution_detail_entry \<Rightarrow> blackboard \<Rightarrow> blackboard" where
  "append_task_execution_detail ctx d s =
     publish ctx
       (write_event_of WK_EXECUTION_DETAIL (Some (d_detail_id d)) (Some (d_task_id d))
          [(''run_id'', JStr (d_run_id d)),
           (''execution_session_id'', JStr (d_execution_session_id d)),
           (''event_type'', JStr (d_event_type d)),
           (''text'', JStr (d_text d)),
           (''created_at'', JStr (d_created_at d))])
       (s\<lparr>bb_details_by_task := dd_append (d_task_id d) d (bb_details_by_task s),
          bb_details := bb_details s @ [d]\<rparr>)"

text \<open>Python's \<open>xs[-n:]\<close>: the last \<open>n\<close> for positive \<open>n\<close>, the whole list for 0, a suffix for negative.\<close>

definition py_from_end :: "int \<Rightarrow> 'a list \<Rightarrow> 'a list" where
  "py_from_end n xs = (if n > 0 then drop (length xs - nat n) xs else drop (nat (- n)) xs)"

definition list_task_execution_details ::
    "blackboard \<Rightarrow> str \<Rightarrow> int option \<Rightarrow> task_execution_detail_entry list" where
  "list_task_execution_details s k limit =
     (let entries = dd_get (bb_details_by_task s) k in
      case limit of
        None \<Rightarrow> entries
      | Some n \<Rightarrow> if n \<le> 0 then [] else py_from_end n entries)"

text \<open>The loop over the reversed log: \<open>seen\<close> and the collected ids, stopping at \<open>task_limit\<close>.\<close>

fun recent_task_ids :: "int \<Rightarrow> str list \<Rightarrow> str list \<Rightarrow> task_execution_detail_entry list \<Rightarrow> str list" where
  "recent_task_ids limit seen ordered [] = ordered"
| "recent_task_ids limit seen ordered (d # ds) =
     (if d_task_id d \<in> set seen then recent_task_ids limit seen ordered ds
      else
        (let ordered' = ordered @ [d_task_id d] in
         if int (length ordered') \<ge> limit then ordered'
         else recent_task_ids limit (d_task_id d # seen) ordered' ds))"

definition list_recent_task_execution_details ::
    "blackboard \<Rightarrow> int \<Rightarrow> int \<Rightarrow> (str, task_execution_detail_entry list) dict" where
  "list_recent_task_execution_details s task_limit entry_limit =
     (if task_limit \<le> 0 \<or> entry_limit \<le> 0 then []
      else map (\<lambda>k. (k, py_from_end entry_limit (dd_get (bb_details_by_task s) k)))
             (recent_task_ids task_limit [] [] (rev (bb_details s))))"

section \<open>Runs, sessions, bindings, summaries, modes\<close>

definition put_run :: "str option \<Rightarrow> execution_run \<Rightarrow> blackboard \<Rightarrow> blackboard" where
  "put_run ctx r s =
     (let previous = map_of (bb_run_snapshots s) (r_run_id r);
          s' = s\<lparr>bb_runs := dict_put (r_run_id r) r (bb_runs s),
                 bb_run_snapshots := dict_put (r_run_id r) r (bb_run_snapshots s)\<rparr>
      in publish ctx
           (write_event_of WK_RUN (Some (r_run_id r)) (Some (r_task_id r)) (run_write_payload previous r))
           s')"

definition get_run :: "blackboard \<Rightarrow> str \<Rightarrow> execution_run option" where
  "get_run s k = map_of (bb_runs s) k"

definition list_runs :: "blackboard \<Rightarrow> execution_run list" where
  "list_runs s = dict_values (bb_runs s)"

definition put_session :: "str option \<Rightarrow> execution_session \<Rightarrow> blackboard \<Rightarrow> blackboard" where
  "put_session ctx x s =
     publish ctx
       (write_event_of WK_SESSION (Some (s_execution_session_id x)) (Some (s_task_id x)) [])
       (s\<lparr>bb_sessions := dict_put (s_execution_session_id x) x (bb_sessions s)\<rparr>)"

definition get_session :: "blackboard \<Rightarrow> str \<Rightarrow> execution_session option" where
  "get_session s k = map_of (bb_sessions s) k"

definition list_sessions :: "blackboard \<Rightarrow> execution_session list" where
  "list_sessions s = dict_values (bb_sessions s)"

definition put_binding :: "str option \<Rightarrow> session_binding \<Rightarrow> blackboard \<Rightarrow> blackboard" where
  "put_binding ctx b s =
     publish ctx
       (write_event_of WK_BINDING (b_session_id b) (Some (b_task_id b)) [])
       (s\<lparr>bb_bindings_by_task := dict_put (b_task_id b) b (bb_bindings_by_task s)\<rparr>)"

definition get_binding :: "blackboard \<Rightarrow> str \<Rightarrow> session_binding option" where
  "get_binding s k = map_of (bb_bindings_by_task s) k"

definition list_bindings :: "blackboard \<Rightarrow> session_binding list" where
  "list_bindings s = dict_values (bb_bindings_by_task s)"

definition put_summary :: "str option \<Rightarrow> task_summary \<Rightarrow> blackboard \<Rightarrow> blackboard" where
  "put_summary ctx x s =
     publish ctx
       (write_event_of WK_SUMMARY (Some (sm_task_id x)) (Some (sm_task_id x)) [])
       (s\<lparr>bb_summaries_by_task := dict_put (sm_task_id x) x (bb_summaries_by_task s)\<rparr>)"

definition get_summary :: "blackboard \<Rightarrow> str \<Rightarrow> task_summary option" where
  "get_summary s k = map_of (bb_summaries_by_task s) k"

definition put_execution_mode :: "str option \<Rightarrow> task_execution_mode \<Rightarrow> blackboard \<Rightarrow> blackboard" where
  "put_execution_mode ctx x s =
     publish ctx
       (write_event_of WK_EXECUTION_MODE (Some (em_task_id x)) (Some (em_task_id x))
          [(''mode'', JStr (execution_mode_value (em_mode x)))])
       (s\<lparr>bb_execution_modes_by_task := dict_put (em_task_id x) x (bb_execution_modes_by_task s)\<rparr>)"

definition get_execution_mode :: "blackboard \<Rightarrow> str \<Rightarrow> task_execution_mode option" where
  "get_execution_mode s k = map_of (bb_execution_modes_by_task s) k"

definition list_execution_modes :: "blackboard \<Rightarrow> task_execution_mode list" where
  "list_execution_modes s = dict_values (bb_execution_modes_by_task s)"

section \<open>Ordered tables: notifications, turn requests, interaction requests, attention, agent events\<close>

text \<open>\<open>if k not in d: order.append(k)\<close>.\<close>

definition note_order :: "'k \<Rightarrow> ('k, 'v) dict \<Rightarrow> 'k list \<Rightarrow> 'k list" where
  "note_order k d ks = (if map_of d k = None then ks @ [k] else ks)"

definition put_notification_candidate ::
    "str option \<Rightarrow> notification_candidate \<Rightarrow> blackboard \<Rightarrow> blackboard" where
  "put_notification_candidate ctx x s =
     publish ctx
       (write_event_of WK_NOTIFICATION (Some (n_candidate_id x)) (Some (n_task_id x))
          [(''candidate_type'', JStr (notification_candidate_type_value (n_candidate_type x))),
           (''delivery_status'', JStr (notification_delivery_status_value (n_delivery_status x)))])
       (s\<lparr>bb_notification_candidate_order :=
            note_order (n_candidate_id x) (bb_notification_candidates s) (bb_notification_candidate_order s),
          bb_notification_candidates := dict_put (n_candidate_id x) x (bb_notification_candidates s)\<rparr>)"

definition get_notification_candidate :: "blackboard \<Rightarrow> str \<Rightarrow> notification_candidate option" where
  "get_notification_candidate s k = map_of (bb_notification_candidates s) k"

definition list_notification_candidates :: "blackboard \<Rightarrow> notification_candidate list" where
  "list_notification_candidates s =
     ordered_values (bb_notification_candidates s) (bb_notification_candidate_order s)"

text \<open>The one write that publishes nothing.\<close>

definition put_outbound_turn_request :: "outbound_turn_request \<Rightarrow> blackboard \<Rightarrow> blackboard" where
  "put_outbound_turn_request x s =
     s\<lparr>bb_outbound_turn_request_order :=
          note_order (o_request_id x) (bb_outbound_turn_requests s) (bb_outbound_turn_request_order s),
       bb_outbound_turn_requests := dict_put (o_request_id x) x (bb_outbound_turn_requests s)\<rparr>"

definition get_outbound_turn_request :: "blackboard \<Rightarrow> str \<Rightarrow> outbound_turn_request option" where
  "get_outbound_turn_request s k = map_of (bb_outbound_turn_requests s) k"

definition list_outbound_turn_requests :: "blackboard \<Rightarrow> outbound_turn_request list" where
  "list_outbound_turn_requests s =
     ordered_values (bb_outbound_turn_requests s) (bb_outbound_turn_request_order s)"

definition put_persona :: "str option \<Rightarrow> persona \<Rightarrow> blackboard \<Rightarrow> blackboard" where
  "put_persona ctx x s =
     publish ctx (write_event_of WK_PERSONA (Some (p_persona_id x)) None [])
       (s\<lparr>bb_personas := dict_put (p_persona_id x) x (bb_personas s)\<rparr>)"

definition get_persona :: "blackboard \<Rightarrow> str \<Rightarrow> persona option" where
  "get_persona s k = map_of (bb_personas s) k"

definition list_personas :: "blackboard \<Rightarrow> persona list" where
  "list_personas s = dict_values (bb_personas s)"

definition delete_persona :: "str option \<Rightarrow> str \<Rightarrow> blackboard \<Rightarrow> bool \<times> blackboard" where
  "delete_persona ctx k s =
     (let s' = s\<lparr>bb_personas := dict_pop k (bb_personas s)\<rparr> in
      case map_of (bb_personas s) k of
        Some _ \<Rightarrow> (True, publish ctx (write_event_of WK_PERSONA (Some k) None []) s')
      | None \<Rightarrow> (False, s'))"

definition put_interaction_request ::
    "str option \<Rightarrow> interaction_request \<Rightarrow> blackboard \<Rightarrow> blackboard" where
  "put_interaction_request ctx x s =
     publish ctx
       (write_event_of WK_INTERACTION_REQUEST (Some (i_request_id x)) (i_task_id x)
          [(''kind'', JStr (interaction_request_kind_value (i_kind x))),
           (''status'', JStr (interaction_request_status_value (i_status x)))])
       (s\<lparr>bb_interaction_request_order :=
            note_order (i_request_id x) (bb_interaction_requests s) (bb_interaction_request_order s),
          bb_interaction_requests := dict_put (i_request_id x) x (bb_interaction_requests s)\<rparr>)"

definition get_interaction_request :: "blackboard \<Rightarrow> str \<Rightarrow> interaction_request option" where
  "get_interaction_request s k = map_of (bb_interaction_requests s) k"

definition list_interaction_requests :: "blackboard \<Rightarrow> interaction_request list" where
  "list_interaction_requests s =
     ordered_values (bb_interaction_requests s) (bb_interaction_request_order s)"

definition put_attention_item :: "str option \<Rightarrow> attention_item \<Rightarrow> blackboard \<Rightarrow> blackboard" where
  "put_attention_item ctx x s =
     publish ctx
       (write_event_of WK_ATTENTION (Some (a_attention_id x)) (a_task_id x)
          [(''kind'', JStr (attention_item_kind_value (a_kind x))),
           (''status'', JStr (attention_item_status_value (a_status x)))])
       (s\<lparr>bb_attention_item_order :=
            note_order (a_attention_id x) (bb_attention_items s) (bb_attention_item_order s),
          bb_attention_items := dict_put (a_attention_id x) x (bb_attention_items s)\<rparr>)"

definition get_attention_item :: "blackboard \<Rightarrow> str \<Rightarrow> attention_item option" where
  "get_attention_item s k = map_of (bb_attention_items s) k"

definition list_attention_items :: "blackboard \<Rightarrow> attention_item list" where
  "list_attention_items s = ordered_values (bb_attention_items s) (bb_attention_item_order s)"

definition put_agent_event :: "str option \<Rightarrow> agent_event \<Rightarrow> blackboard \<Rightarrow> blackboard" where
  "put_agent_event ctx x s =
     publish ctx
       (write_event_of WK_AGENT_EVENT (Some (e_event_id x)) (Some (e_task_id x))
          [(''agent_id'', JStr (e_agent_id x)),
           (''type'', JStr (e_type x)),
           (''importance'', JStr (agent_event_importance_value (e_importance x))),
           (''delivery'', JStr (agent_event_delivery_value (e_delivery x)))])
       (s\<lparr>bb_agent_event_order :=
            note_order (e_event_id x) (bb_agent_events s) (bb_agent_event_order s),
          bb_agent_events := dict_put (e_event_id x) x (bb_agent_events s)\<rparr>)"

definition get_agent_event :: "blackboard \<Rightarrow> str \<Rightarrow> agent_event option" where
  "get_agent_event s k = map_of (bb_agent_events s) k"

definition list_agent_events :: "blackboard \<Rightarrow> str option \<Rightarrow> agent_event list" where
  "list_agent_events s tid =
     (let events = ordered_values (bb_agent_events s) (bb_agent_event_order s) in
      case tid of None \<Rightarrow> events | Some k \<Rightarrow> filter (\<lambda>e. e_task_id e = k) events)"

definition list_recent_writes :: "blackboard \<Rightarrow> int \<Rightarrow> write_event list" where
  "list_recent_writes s limit = py_from_end limit (bb_recent_writes s)"

section \<open>Queries\<close>

definition list_tasks_by_status :: "blackboard \<Rightarrow> task_status list \<Rightarrow> task list" where
  "list_tasks_by_status s statuses =
     (if statuses = [] then list_tasks s
      else filter (\<lambda>t. t_status t \<in> set statuses) (list_tasks s))"

definition query_runnable_tasks :: "blackboard \<Rightarrow> task list" where
  "query_runnable_tasks s = list_tasks_by_status s [TS_CREATED, TS_QUEUED]"

definition query_active_tasks :: "blackboard \<Rightarrow> task list" where
  "query_active_tasks s = list_tasks_by_status s [TS_RUNNING, TS_WAITING_USER_INPUT]"

definition get_latest_mutation :: "blackboard \<Rightarrow> str \<Rightarrow> task_mutation option" where
  "get_latest_mutation s k =
     (let ms = list_mutations s k in if ms = [] then None else Some (last ms))"

definition get_latest_command :: "blackboard \<Rightarrow> str \<Rightarrow> task_command option" where
  "get_latest_command s k =
     (let cs = list_commands s k in if cs = [] then None else Some (last cs))"

section \<open>Frame facts\<close>

text \<open>A publish touches the log and the queues only.\<close>

lemma publish_frame [simp]:
  "bb_tasks (publish c e s) = bb_tasks s"
  "bb_task_snapshots (publish c e s) = bb_task_snapshots s"
  "bb_mutations_by_task (publish c e s) = bb_mutations_by_task s"
  "bb_commands_by_task (publish c e s) = bb_commands_by_task s"
  "bb_mutations (publish c e s) = bb_mutations s"
  "bb_commands (publish c e s) = bb_commands s"
  "bb_details_by_task (publish c e s) = bb_details_by_task s"
  "bb_details (publish c e s) = bb_details s"
  "bb_sessions (publish c e s) = bb_sessions s"
  "bb_runs (publish c e s) = bb_runs s"
  "bb_run_snapshots (publish c e s) = bb_run_snapshots s"
  "bb_bindings_by_task (publish c e s) = bb_bindings_by_task s"
  "bb_summaries_by_task (publish c e s) = bb_summaries_by_task s"
  "bb_execution_modes_by_task (publish c e s) = bb_execution_modes_by_task s"
  "bb_notification_candidates (publish c e s) = bb_notification_candidates s"
  "bb_notification_candidate_order (publish c e s) = bb_notification_candidate_order s"
  "bb_outbound_turn_requests (publish c e s) = bb_outbound_turn_requests s"
  "bb_outbound_turn_request_order (publish c e s) = bb_outbound_turn_request_order s"
  "bb_personas (publish c e s) = bb_personas s"
  "bb_interaction_requests (publish c e s) = bb_interaction_requests s"
  "bb_interaction_request_order (publish c e s) = bb_interaction_request_order s"
  "bb_attention_items (publish c e s) = bb_attention_items s"
  "bb_attention_item_order (publish c e s) = bb_attention_item_order s"
  "bb_agent_events (publish c e s) = bb_agent_events s"
  "bb_agent_event_order (publish c e s) = bb_agent_event_order s"
  "bb_next_queue (publish c e s) = bb_next_queue s"
  by (simp_all add: publish_def Let_def)

text \<open>What each write leaves unchanged, as seen through the read methods.\<close>

lemmas bb_read_defs = get_task_def list_tasks_def list_mutations_def list_all_mutations_def
  list_commands_def list_all_commands_def get_run_def list_runs_def get_session_def
  list_sessions_def get_binding_def list_bindings_def get_summary_def get_execution_mode_def
  list_execution_modes_def get_notification_candidate_def list_notification_candidates_def
  get_outbound_turn_request_def list_outbound_turn_requests_def get_persona_def
  list_personas_def get_interaction_request_def list_interaction_requests_def
  get_attention_item_def list_attention_items_def get_agent_event_def

lemmas bb_write_defs = put_task_def append_mutation_def append_command_def
  append_task_execution_detail_def put_run_def put_session_def put_binding_def put_summary_def
  put_execution_mode_def put_notification_candidate_def put_outbound_turn_request_def
  put_persona_def put_interaction_request_def put_attention_item_def put_agent_event_def

lemma put_task_frame [simp]:
  "list_mutations (put_task c t s) = list_mutations s"
  "list_all_mutations (put_task c t s) = list_all_mutations s"
  "list_commands (put_task c t s) = list_commands s"
  "list_all_commands (put_task c t s) = list_all_commands s"
  "get_run (put_task c t s) = get_run s"
  "list_runs (put_task c t s) = list_runs s"
  "get_session (put_task c t s) = get_session s"
  "list_sessions (put_task c t s) = list_sessions s"
  "get_binding (put_task c t s) = get_binding s"
  "list_bindings (put_task c t s) = list_bindings s"
  "get_summary (put_task c t s) = get_summary s"
  "get_execution_mode (put_task c t s) = get_execution_mode s"
  "list_execution_modes (put_task c t s) = list_execution_modes s"
  "get_notification_candidate (put_task c t s) = get_notification_candidate s"
  "list_notification_candidates (put_task c t s) = list_notification_candidates s"
  "get_outbound_turn_request (put_task c t s) = get_outbound_turn_request s"
  "list_outbound_turn_requests (put_task c t s) = list_outbound_turn_requests s"
  "get_persona (put_task c t s) = get_persona s"
  "list_personas (put_task c t s) = list_personas s"
  "get_interaction_request (put_task c t s) = get_interaction_request s"
  "list_interaction_requests (put_task c t s) = list_interaction_requests s"
  "get_attention_item (put_task c t s) = get_attention_item s"
  "list_attention_items (put_task c t s) = list_attention_items s"
  "get_agent_event (put_task c t s) = get_agent_event s"
  "list_agent_events (put_task c t s) = list_agent_events s"
  by (simp_all add: bb_read_defs list_agent_events_def fun_eq_iff bb_write_defs Let_def split: option.splits)

lemma append_task_execution_detail_frame [simp]:
  "get_task (append_task_execution_detail c d s) = get_task s"
  "list_tasks (append_task_execution_detail c d s) = list_tasks s"
  "list_mutations (append_task_execution_detail c d s) = list_mutations s"
  "list_all_mutations (append_task_execution_detail c d s) = list_all_mutations s"
  "list_commands (append_task_execution_detail c d s) = list_commands s"
  "list_all_commands (append_task_execution_detail c d s) = list_all_commands s"
  "get_run (append_task_execution_detail c d s) = get_run s"
  "list_runs (append_task_execution_detail c d s) = list_runs s"
  "get_session (append_task_execution_detail c d s) = get_session s"
  "list_sessions (append_task_execution_detail c d s) = list_sessions s"
  "get_binding (append_task_execution_detail c d s) = get_binding s"
  "list_bindings (append_task_execution_detail c d s) = list_bindings s"
  "get_summary (append_task_execution_detail c d s) = get_summary s"
  "get_execution_mode (append_task_execution_detail c d s) = get_execution_mode s"
  "list_execution_modes (append_task_execution_detail c d s) = list_execution_modes s"
  "get_notification_candidate (append_task_execution_detail c d s) = get_notification_candidate s"
  "list_notification_candidates (append_task_execution_detail c d s) = list_notification_candidates s"
  "get_outbound_turn_request (append_task_execution_detail c d s) = get_outbound_turn_request s"
  "list_outbound_turn_requests (append_task_execution_detail c d s) = list_outbound_turn_requests s"
  "get_persona (append_task_execution_detail c d s) = get_persona s"
  "list_personas (append_task_execution_detail c d s) = list_personas s"
  "get_interaction_request (append_task_execution_detail c d s) = get_interaction_request s"
  "list_interaction_requests (append_task_execution_detail c d s) = list_interaction_requests s"
  "get_attention_item (append_task_execution_detail c d s) = get_attention_item s"
  "list_attention_items (append_task_execution_detail c d s) = list_attention_items s"
  "get_agent_event (append_task_execution_detail c d s) = get_agent_event s"
  "list_agent_events (append_task_execution_detail c d s) = list_agent_events s"
  by (simp_all add: bb_read_defs list_agent_events_def fun_eq_iff bb_write_defs Let_def split: option.splits)

lemma append_command_frame [simp]:
  "get_task (append_command c cm s) = get_task s"
  "list_tasks (append_command c cm s) = list_tasks s"
  "list_mutations (append_command c cm s) = list_mutations s"
  "list_all_mutations (append_command c cm s) = list_all_mutations s"
  "get_run (append_command c cm s) = get_run s"
  "list_runs (append_command c cm s) = list_runs s"
  "get_session (append_command c cm s) = get_session s"
  "list_sessions (append_command c cm s) = list_sessions s"
  "get_binding (append_command c cm s) = get_binding s"
  "list_bindings (append_command c cm s) = list_bindings s"
  "get_summary (append_command c cm s) = get_summary s"
  "get_execution_mode (append_command c cm s) = get_execution_mode s"
  "list_execution_modes (append_command c cm s) = list_execution_modes s"
  "get_notification_candidate (append_command c cm s) = get_notification_candidate s"
  "list_notification_candidates (append_command c cm s) = list_notification_candidates s"
  "get_outbound_turn_request (append_command c cm s) = get_outbound_turn_request s"
  "list_outbound_turn_requests (append_command c cm s) = list_outbound_turn_requests s"
  "get_persona (append_command c cm s) = get_persona s"
  "list_personas (append_command c cm s) = list_personas s"
  "get_interaction_request (append_command c cm s) = get_interaction_request s"
  "list_interaction_requests (append_command c cm s) = list_interaction_requests s"
  "get_attention_item (append_command c cm s) = get_attention_item s"
  "list_attention_items (append_command c cm s) = list_attention_items s"
  "get_agent_event (append_command c cm s) = get_agent_event s"
  "list_agent_events (append_command c cm s) = list_agent_events s"
  by (simp_all add: bb_read_defs list_agent_events_def fun_eq_iff bb_write_defs Let_def split: option.splits)

lemma put_run_frame [simp]:
  "get_task (put_run c r s) = get_task s"
  "list_tasks (put_run c r s) = list_tasks s"
  "list_mutations (put_run c r s) = list_mutations s"
  "list_all_mutations (put_run c r s) = list_all_mutations s"
  "list_commands (put_run c r s) = list_commands s"
  "list_all_commands (put_run c r s) = list_all_commands s"
  "get_session (put_run c r s) = get_session s"
  "list_sessions (put_run c r s) = list_sessions s"
  "get_binding (put_run c r s) = get_binding s"
  "list_bindings (put_run c r s) = list_bindings s"
  "get_summary (put_run c r s) = get_summary s"
  "get_execution_mode (put_run c r s) = get_execution_mode s"
  "list_execution_modes (put_run c r s) = list_execution_modes s"
  "get_notification_candidate (put_run c r s) = get_notification_candidate s"
  "list_notification_candidates (put_run c r s) = list_notification_candidates s"
  "get_outbound_turn_request (put_run c r s) = get_outbound_turn_request s"
  "list_outbound_turn_requests (put_run c r s) = list_outbound_turn_requests s"
  "get_persona (put_run c r s) = get_persona s"
  "list_personas (put_run c r s) = list_personas s"
  "get_interaction_request (put_run c r s) = get_interaction_request s"
  "list_interaction_requests (put_run c r s) = list_interaction_requests s"
  "get_attention_item (put_run c r s) = get_attention_item s"
  "list_attention_items (put_run c r s) = list_attention_items s"
  "get_agent_event (put_run c r s) = get_agent_event s"
  "list_agent_events (put_run c r s) = list_agent_events s"
  by (simp_all add: bb_read_defs list_agent_events_def fun_eq_iff bb_write_defs Let_def split: option.splits)

lemma put_session_frame [simp]:
  "get_task (put_session c x s) = get_task s"
  "list_tasks (put_session c x s) = list_tasks s"
  "list_mutations (put_session c x s) = list_mutations s"
  "list_all_mutations (put_session c x s) = list_all_mutations s"
  "list_commands (put_session c x s) = list_commands s"
  "list_all_commands (put_session c x s) = list_all_commands s"
  "get_run (put_session c x s) = get_run s"
  "list_runs (put_session c x s) = list_runs s"
  "get_binding (put_session c x s) = get_binding s"
  "list_bindings (put_session c x s) = list_bindings s"
  "get_summary (put_session c x s) = get_summary s"
  "get_execution_mode (put_session c x s) = get_execution_mode s"
  "list_execution_modes (put_session c x s) = list_execution_modes s"
  "get_notification_candidate (put_session c x s) = get_notification_candidate s"
  "list_notification_candidates (put_session c x s) = list_notification_candidates s"
  "get_outbound_turn_request (put_session c x s) = get_outbound_turn_request s"
  "list_outbound_turn_requests (put_session c x s) = list_outbound_turn_requests s"
  "get_persona (put_session c x s) = get_persona s"
  "list_personas (put_session c x s) = list_personas s"
  "get_interaction_request (put_session c x s) = get_interaction_request s"
  "list_interaction_requests (put_session c x s) = list_interaction_requests s"
  "get_attention_item (put_session c x s) = get_attention_item s"
  "list_attention_items (put_session c x s) = list_attention_items s"
  "get_agent_event (put_session c x s) = get_agent_event s"
  "list_agent_events (put_session c x s) = list_agent_events s"
  by (simp_all add: bb_read_defs list_agent_events_def fun_eq_iff bb_write_defs Let_def split: option.splits)

lemma put_binding_frame [simp]:
  "get_task (put_binding c b s) = get_task s"
  "list_tasks (put_binding c b s) = list_tasks s"
  "list_mutations (put_binding c b s) = list_mutations s"
  "list_all_mutations (put_binding c b s) = list_all_mutations s"
  "list_commands (put_binding c b s) = list_commands s"
  "list_all_commands (put_binding c b s) = list_all_commands s"
  "get_run (put_binding c b s) = get_run s"
  "list_runs (put_binding c b s) = list_runs s"
  "get_session (put_binding c b s) = get_session s"
  "list_sessions (put_binding c b s) = list_sessions s"
  "get_summary (put_binding c b s) = get_summary s"
  "get_execution_mode (put_binding c b s) = get_execution_mode s"
  "list_execution_modes (put_binding c b s) = list_execution_modes s"
  "get_notification_candidate (put_binding c b s) = get_notification_candidate s"
  "list_notification_candidates (put_binding c b s) = list_notification_candidates s"
  "get_outbound_turn_request (put_binding c b s) = get_outbound_turn_request s"
  "list_outbound_turn_requests (put_binding c b s) = list_outbound_turn_requests s"
  "get_persona (put_binding c b s) = get_persona s"
  "list_personas (put_binding c b s) = list_personas s"
  "get_interaction_request (put_binding c b s) = get_interaction_request s"
  "list_interaction_requests (put_binding c b s) = list_interaction_requests s"
  "get_attention_item (put_binding c b s) = get_attention_item s"
  "list_attention_items (put_binding c b s) = list_attention_items s"
  "get_agent_event (put_binding c b s) = get_agent_event s"
  "list_agent_events (put_binding c b s) = list_agent_events s"
  by (simp_all add: bb_read_defs list_agent_events_def fun_eq_iff bb_write_defs Let_def split: option.splits)

lemma put_summary_frame [simp]:
  "get_task (put_summary c y s) = get_task s"
  "list_tasks (put_summary c y s) = list_tasks s"
  "list_mutations (put_summary c y s) = list_mutations s"
  "list_all_mutations (put_summary c y s) = list_all_mutations s"
  "list_commands (put_summary c y s) = list_commands s"
  "list_all_commands (put_summary c y s) = list_all_commands s"
  "get_run (put_summary c y s) = get_run s"
  "list_runs (put_summary c y s) = list_runs s"
  "get_session (put_summary c y s) = get_session s"
  "list_sessions (put_summary c y s) = list_sessions s"
  "get_binding (put_summary c y s) = get_binding s"
  "list_bindings (put_summary c y s) = list_bindings s"
  "get_execution_mode (put_summary c y s) = get_execution_mode s"
  "list_execution_modes (put_summary c y s) = list_execution_modes s"
  "get_notification_candidate (put_summary c y s) = get_notification_candidate s"
  "list_notification_candidates (put_summary c y s) = list_notification_candidates s"
  "get_outbound_turn_request (put_summary c y s) = get_outbound_turn_request s"
  "list_outbound_turn_requests (put_summary c y s) = list_outbound_turn_requests s"
  "get_persona (put_summary c y s) = get_persona s"
  "list_personas (put_summary c y s) = list_personas s"
  "get_interaction_request (put_summary c y s) = get_interaction_request s"
  "list_interaction_requests (put_summary c y s) = list_interaction_requests s"
  "get_attention_item (put_summary c y s) = get_attention_item s"
  "list_attention_items (put_summary c y s) = list_attention_items s"
  "get_agent_event (put_summary c y s) = get_agent_event s"
  "list_agent_events (put_summary c y s) = list_agent_events s"
  by (simp_all add: bb_read_defs list_agent_events_def fun_eq_iff bb_write_defs Let_def split: option.splits)

lemma put_execution_mode_frame [simp]:
  "get_task (put_execution_mode c m s) = get_task s"
  "list_tasks (put_execution_mode c m s) = list_tasks s"
  "list_mutations (put_execution_mode c m s) = list_mutations s"
  "list_all_mutations (put_execution_mode c m s) = list_all_mutations s"
  "list_commands (put_execution_mode c m s) = list_commands s"
  "list_all_commands (put_execution_mode c m s) = list_all_commands s"
  "get_run (put_execution_mode c m s) = get_run s"
  "list_runs (put_execution_mode c m s) = list_runs s"
  "get_session (put_execution_mode c m s) = get_session s"
  "list_sessions (put_execution_mode c m s) = list_sessions s"
  "get_binding (put_execution_mode c m s) = get_binding s"
  "list_bindings (put_execution_mode c m s) = list_bindings s"
  "get_summary (put_execution_mode c m s) = get_summary s"
  "get_notification_candidate (put_execution_mode c m s) = get_notification_candidate s"
  "list_notification_candidates (put_execution_mode c m s) = list_notification_candidates s"
  "get_outbound_turn_request (put_execution_mode c m s) = get_outbound_turn_request s"
  "list_outbound_turn_requests (put_execution_mode c m s) = list_outbound_turn_requests s"
  "get_persona (put_execution_mode c m s) = get_persona s"
  "list_personas (put_execution_mode c m s) = list_personas s"
  "get_interaction_request (put_execution_mode c m s) = get_interaction_request s"
  "list_interaction_requests (put_execution_mode c m s) = list_interaction_requests s"
  "get_attention_item (put_execution_mode c m s) = get_attention_item s"
  "list_attention_items (put_execution_mode c m s) = list_attention_items s"
  "get_agent_event (put_execution_mode c m s) = get_agent_event s"
  "list_agent_events (put_execution_mode c m s) = list_agent_events s"
  by (simp_all add: bb_read_defs list_agent_events_def fun_eq_iff bb_write_defs Let_def split: option.splits)

lemma put_notification_candidate_frame [simp]:
  "get_task (put_notification_candidate c n s) = get_task s"
  "list_tasks (put_notification_candidate c n s) = list_tasks s"
  "list_mutations (put_notification_candidate c n s) = list_mutations s"
  "list_all_mutations (put_notification_candidate c n s) = list_all_mutations s"
  "list_commands (put_notification_candidate c n s) = list_commands s"
  "list_all_commands (put_notification_candidate c n s) = list_all_commands s"
  "get_run (put_notification_candidate c n s) = get_run s"
  "list_runs (put_notification_candidate c n s) = list_runs s"
  "get_session (put_notification_candidate c n s) = get_session s"
  "list_sessions (put_notification_candidate c n s) = list_sessions s"
  "get_binding (put_notification_candidate c n s) = get_binding s"
  "list_bindings (put_notification_candidate c n s) = list_bindings s"
  "get_summary (put_notification_candidate c n s) = get_summary s"
  "get_execution_mode (put_notification_candidate c n s) = get_execution_mode s"
  "list_execution_modes (put_notification_candidate c n s) = list_execution_modes s"
  "get_outbound_turn_request (put_notification_candidate c n s) = get_outbound_turn_request s"
  "list_outbound_turn_requests (put_notification_candidate c n s) = list_outbound_turn_requests s"
  "get_persona (put_notification_candidate c n s) = get_persona s"
  "list_personas (put_notification_candidate c n s) = list_personas s"
  "get_interaction_request (put_notification_candidate c n s) = get_interaction_request s"
  "list_interaction_requests (put_notification_candidate c n s) = list_interaction_requests s"
  "get_attention_item (put_notification_candidate c n s) = get_attention_item s"
  "list_attention_items (put_notification_candidate c n s) = list_attention_items s"
  "get_agent_event (put_notification_candidate c n s) = get_agent_event s"
  "list_agent_events (put_notification_candidate c n s) = list_agent_events s"
  by (simp_all add: bb_read_defs list_agent_events_def fun_eq_iff bb_write_defs Let_def split: option.splits)

lemma put_outbound_turn_request_frame [simp]:
  "get_task (put_outbound_turn_request q s) = get_task s"
  "list_tasks (put_outbound_turn_request q s) = list_tasks s"
  "list_mutations (put_outbound_turn_request q s) = list_mutations s"
  "list_all_mutations (put_outbound_turn_request q s) = list_all_mutations s"
  "list_commands (put_outbound_turn_request q s) = list_commands s"
  "list_all_commands (put_outbound_turn_request q s) = list_all_commands s"
  "get_run (put_outbound_turn_request q s) = get_run s"
  "list_runs (put_outbound_turn_request q s) = list_runs s"
  "get_session (put_outbound_turn_request q s) = get_session s"
  "list_sessions (put_outbound_turn_request q s) = list_sessions s"
  "get_binding (put_outbound_turn_request q s) = get_binding s"
  "list_bindings (put_outbound_turn_request q s) = list_bindings s"
  "get_summary (put_outbound_turn_request q s) = get_summary s"
  "get_execution_mode (put_outbound_turn_request q s) = get_execution_mode s"
  "list_execution_modes (put_outbound_turn_request q s) = list_execution_modes s"
  "get_notification_candidate (put_outbound_turn_request q s) = get_notification_candidate s"
  "list_notification_candidates (put_outbound_turn_request q s) = list_notification_candidates s"
  "get_persona (put_outbound_turn_request q s) = get_persona s"
  "list_personas (put_outbound_turn_request q s) = list_personas s"
  "get_interaction_request (put_outbound_turn_request q s) = get_interaction_request s"
  "list_interaction_requests (put_outbound_turn_request q s) = list_interaction_requests s"
  "get_attention_item (put_outbound_turn_request q s) = get_attention_item s"
  "list_attention_items (put_outbound_turn_request q s) = list_attention_items s"
  "get_agent_event (put_outbound_turn_request q s) = get_agent_event s"
  "list_agent_events (put_outbound_turn_request q s) = list_agent_events s"
  by (simp_all add: bb_read_defs list_agent_events_def fun_eq_iff bb_write_defs Let_def split: option.splits)

lemma put_persona_frame [simp]:
  "get_task (put_persona c p s) = get_task s"
  "list_tasks (put_persona c p s) = list_tasks s"
  "list_mutations (put_persona c p s) = list_mutations s"
  "list_all_mutations (put_persona c p s) = list_all_mutations s"
  "list_commands (put_persona c p s) = list_commands s"
  "list_all_commands (put_persona c p s) = list_all_commands s"
  "get_run (put_persona c p s) = get_run s"
  "list_runs (put_persona c p s) = list_runs s"
  "get_session (put_persona c p s) = get_session s"
  "list_sessions (put_persona c p s) = list_sessions s"
  "get_binding (put_persona c p s) = get_binding s"
  "list_bindings (put_persona c p s) = list_bindings s"
  "get_summary (put_persona c p s) = get_summary s"
  "get_execution_mode (put_persona c p s) = get_execution_mode s"
  "list_execution_modes (put_persona c p s) = list_execution_modes s"
  "get_notification_candidate (put_persona c p s) = get_notification_candidate s"
  "list_notification_candidates (put_persona c p s) = list_notification_candidates s"
  "get_outbound_turn_request (put_persona c p s) = get_outbound_turn_request s"
  "list_outbound_turn_requests (put_persona c p s) = list_outbound_turn_requests s"
  "get_interaction_request (put_persona c p s) = get_interaction_request s"
  "list_interaction_requests (put_persona c p s) = list_interaction_requests s"
  "get_attention_item (put_persona c p s) = get_attention_item s"
  "list_attention_items (put_persona c p s) = list_attention_items s"
  "get_agent_event (put_persona c p s) = get_agent_event s"
  "list_agent_events (put_persona c p s) = list_agent_events s"
  by (simp_all add: bb_read_defs list_agent_events_def fun_eq_iff bb_write_defs Let_def split: option.splits)

lemma put_interaction_request_frame [simp]:
  "get_task (put_interaction_request c i s) = get_task s"
  "list_tasks (put_interaction_request c i s) = list_tasks s"
  "list_mutations (put_interaction_request c i s) = list_mutations s"
  "list_all_mutations (put_interaction_request c i s) = list_all_mutations s"
  "list_commands (put_interaction_request c i s) = list_commands s"
  "list_all_commands (put_interaction_request c i s) = list_all_commands s"
  "get_run (put_interaction_request c i s) = get_run s"
  "list_runs (put_interaction_request c i s) = list_runs s"
  "get_session (put_interaction_request c i s) = get_session s"
  "list_sessions (put_interaction_request c i s) = list_sessions s"
  "get_binding (put_interaction_request c i s) = get_binding s"
  "list_bindings (put_interaction_request c i s) = list_bindings s"
  "get_summary (put_interaction_request c i s) = get_summary s"
  "get_execution_mode (put_interaction_request c i s) = get_execution_mode s"
  "list_execution_modes (put_interaction_request c i s) = list_execution_modes s"
  "get_notification_candidate (put_interaction_request c i s) = get_notification_candidate s"
  "list_notification_candidates (put_interaction_request c i s) = list_notification_candidates s"
  "get_outbound_turn_request (put_interaction_request c i s) = get_outbound_turn_request s"
  "list_outbound_turn_requests (put_interaction_request c i s) = list_outbound_turn_requests s"
  "get_persona (put_interaction_request c i s) = get_persona s"
  "list_personas (put_interaction_request c i s) = list_personas s"
  "get_attention_item (put_interaction_request c i s) = get_attention_item s"
  "list_attention_items (put_interaction_request c i s) = list_attention_items s"
  "get_agent_event (put_interaction_request c i s) = get_agent_event s"
  "list_agent_events (put_interaction_request c i s) = list_agent_events s"
  by (simp_all add: bb_read_defs list_agent_events_def fun_eq_iff bb_write_defs Let_def split: option.splits)

lemma put_attention_item_frame [simp]:
  "get_task (put_attention_item c a s) = get_task s"
  "list_tasks (put_attention_item c a s) = list_tasks s"
  "list_mutations (put_attention_item c a s) = list_mutations s"
  "list_all_mutations (put_attention_item c a s) = list_all_mutations s"
  "list_commands (put_attention_item c a s) = list_commands s"
  "list_all_commands (put_attention_item c a s) = list_all_commands s"
  "get_run (put_attention_item c a s) = get_run s"
  "list_runs (put_attention_item c a s) = list_runs s"
  "get_session (put_attention_item c a s) = get_session s"
  "list_sessions (put_attention_item c a s) = list_sessions s"
  "get_binding (put_attention_item c a s) = get_binding s"
  "list_bindings (put_attention_item c a s) = list_bindings s"
  "get_summary (put_attention_item c a s) = get_summary s"
  "get_execution_mode (put_attention_item c a s) = get_execution_mode s"
  "list_execution_modes (put_attention_item c a s) = list_execution_modes s"
  "get_notification_candidate (put_attention_item c a s) = get_notification_candidate s"
  "list_notification_candidates (put_attention_item c a s) = list_notification_candidates s"
  "get_outbound_turn_request (put_attention_item c a s) = get_outbound_turn_request s"
  "list_outbound_turn_requests (put_attention_item c a s) = list_outbound_turn_requests s"
  "get_persona (put_attention_item c a s) = get_persona s"
  "list_personas (put_attention_item c a s) = list_personas s"
  "get_interaction_request (put_attention_item c a s) = get_interaction_request s"
  "list_interaction_requests (put_attention_item c a s) = list_interaction_requests s"
  "get_agent_event (put_attention_item c a s) = get_agent_event s"
  "list_agent_events (put_attention_item c a s) = list_agent_events s"
  by (simp_all add: bb_read_defs list_agent_events_def fun_eq_iff bb_write_defs Let_def split: option.splits)

lemma put_agent_event_frame [simp]:
  "get_task (put_agent_event c e s) = get_task s"
  "list_tasks (put_agent_event c e s) = list_tasks s"
  "list_mutations (put_agent_event c e s) = list_mutations s"
  "list_all_mutations (put_agent_event c e s) = list_all_mutations s"
  "list_commands (put_agent_event c e s) = list_commands s"
  "list_all_commands (put_agent_event c e s) = list_all_commands s"
  "get_run (put_agent_event c e s) = get_run s"
  "list_runs (put_agent_event c e s) = list_runs s"
  "get_session (put_agent_event c e s) = get_session s"
  "list_sessions (put_agent_event c e s) = list_sessions s"
  "get_binding (put_agent_event c e s) = get_binding s"
  "list_bindings (put_agent_event c e s) = list_bindings s"
  "get_summary (put_agent_event c e s) = get_summary s"
  "get_execution_mode (put_agent_event c e s) = get_execution_mode s"
  "list_execution_modes (put_agent_event c e s) = list_execution_modes s"
  "get_notification_candidate (put_agent_event c e s) = get_notification_candidate s"
  "list_notification_candidates (put_agent_event c e s) = list_notification_candidates s"
  "get_outbound_turn_request (put_agent_event c e s) = get_outbound_turn_request s"
  "list_outbound_turn_requests (put_agent_event c e s) = list_outbound_turn_requests s"
  "get_persona (put_agent_event c e s) = get_persona s"
  "list_personas (put_agent_event c e s) = list_personas s"
  "get_interaction_request (put_agent_event c e s) = get_interaction_request s"
  "list_interaction_requests (put_agent_event c e s) = list_interaction_requests s"
  "get_attention_item (put_agent_event c e s) = get_attention_item s"
  "list_attention_items (put_agent_event c e s) = list_attention_items s"
  by (simp_all add: bb_read_defs list_agent_events_def fun_eq_iff bb_write_defs Let_def split: option.splits)

section \<open>The store's invariant\<close>

text \<open>
  Every table is indexed by its objects' own key with no key twice; an order list names
  exactly the keys of its table, in the order of their first insertion; the per-task indexes
  are the projections of the global logs; a queue holds everything published since its
  subscription; queue numbers are never reused.
\<close>

definition tables_wf :: "blackboard \<Rightarrow> bool" where
  "tables_wf s \<longleftrightarrow>
     table_ok t_task_id (bb_tasks s) \<and> table_ok t_task_id (bb_task_snapshots s) \<and>
     dict_keys (bb_task_snapshots s) = dict_keys (bb_tasks s) \<and>
     table_ok r_run_id (bb_runs s) \<and> table_ok r_run_id (bb_run_snapshots s) \<and>
     dict_keys (bb_run_snapshots s) = dict_keys (bb_runs s) \<and>
     table_ok s_execution_session_id (bb_sessions s) \<and>
     table_ok b_task_id (bb_bindings_by_task s) \<and>
     table_ok sm_task_id (bb_summaries_by_task s) \<and>
     table_ok em_task_id (bb_execution_modes_by_task s) \<and>
     table_ok p_persona_id (bb_personas s)"

definition ordered_ok :: "('v \<Rightarrow> 'k) \<Rightarrow> ('k, 'v) dict \<Rightarrow> 'k list \<Rightarrow> bool" where
  "ordered_ok key d ks \<longleftrightarrow> table_ok key d \<and> ks = dict_keys d"

definition orders_wf :: "blackboard \<Rightarrow> bool" where
  "orders_wf s \<longleftrightarrow>
     ordered_ok n_candidate_id (bb_notification_candidates s) (bb_notification_candidate_order s) \<and>
     ordered_ok o_request_id (bb_outbound_turn_requests s) (bb_outbound_turn_request_order s) \<and>
     ordered_ok i_request_id (bb_interaction_requests s) (bb_interaction_request_order s) \<and>
     ordered_ok a_attention_id (bb_attention_items s) (bb_attention_item_order s) \<and>
     ordered_ok e_event_id (bb_agent_events s) (bb_agent_event_order s)"

definition indexes_wf :: "blackboard \<Rightarrow> bool" where
  "indexes_wf s \<longleftrightarrow>
     (\<forall>k. dd_get (bb_mutations_by_task s) k = filter (\<lambda>m. mutation_key m = k) (bb_mutations s)) \<and>
     (\<forall>k. dd_get (bb_commands_by_task s) k = filter (\<lambda>c. c_task_id c = k) (bb_commands s)) \<and>
     (\<forall>k. dd_get (bb_details_by_task s) k = filter (\<lambda>d. d_task_id d = k) (bb_details s))"

definition queues_wf :: "blackboard \<Rightarrow> bool" where
  "queues_wf s \<longleftrightarrow>
     distinct (map fst (bb_queues s)) \<and> (\<forall>(q, es) \<in> set (bb_queues s). q < bb_next_queue s) \<and>
     (\<forall>(q, es) \<in> set (bb_queues s). \<exists>pre. bb_recent_writes s = pre @ es)"

definition bb_wf :: "blackboard \<Rightarrow> bool" where
  "bb_wf s \<longleftrightarrow> tables_wf s \<and> orders_wf s \<and> indexes_wf s \<and> queues_wf s"

lemma ordered_ok_put [simp, intro]:
  "ordered_ok key d ks \<Longrightarrow> key v = k \<Longrightarrow> ordered_ok key (dict_put k v d) (note_order k d ks)"
  by (auto simp: ordered_ok_def note_order_def dict_keys_put in_dict_keys_iff)

lemma tables_wf_publish [simp]: "tables_wf (publish c e s) = tables_wf s"
  by (simp add: tables_wf_def)

lemma orders_wf_publish [simp]: "orders_wf (publish c e s) = orders_wf s"
  by (simp add: orders_wf_def)

lemma indexes_wf_publish [simp]: "indexes_wf (publish c e s) = indexes_wf s"
  by (simp add: indexes_wf_def)

lemma queues_wf_publish:
  assumes "queues_wf s"
  shows "queues_wf (publish c e s)"
proof -
  define e' where "e' = (if we_request_id e = None then e\<lparr>we_request_id := c\<rparr> else e)"
  have q: "bb_queues (publish c e s) = map (\<lambda>(q, es). (q, es @ [e'])) (bb_queues s)"
    and w: "bb_recent_writes (publish c e s) = bb_recent_writes s @ [e']"
    by (simp_all add: publish_def subscriptions_publish_def e'_def Let_def)
  have keys: "map fst (bb_queues (publish c e s)) = map fst (bb_queues s)"
    by (simp add: q case_prod_unfold)
  have "\<exists>pre. bb_recent_writes (publish c e s) = pre @ es'"
    if mem: "(n, es') \<in> set (bb_queues (publish c e s))" for n es'
  proof -
    from mem obtain es where "(n, es) \<in> set (bb_queues s)" "es' = es @ [e']"
      by (auto simp: q)
    then obtain pre where "bb_recent_writes s = pre @ es"
      using assms by (fastforce simp: queues_wf_def)
    then show ?thesis using \<open>es' = es @ [e']\<close> by (simp add: w)
  qed
  moreover have "\<forall>(n, es) \<in> set (bb_queues (publish c e s)). n < bb_next_queue (publish c e s)"
    using assms by (auto simp: q queues_wf_def)
  ultimately show ?thesis
    using assms keys by (auto simp: queues_wf_def)
qed

lemma queues_wf_cong:
  "bb_queues s' = bb_queues s \<Longrightarrow> bb_next_queue s' = bb_next_queue s \<Longrightarrow>
   bb_recent_writes s' = bb_recent_writes s \<Longrightarrow> queues_wf s' = queues_wf s"
  by (simp add: queues_wf_def)

lemma dict_keys_put_cong:
  "dict_keys d = dict_keys e \<Longrightarrow> dict_keys (dict_put k v d) = dict_keys (dict_put k w e)"
  by (simp add: dict_keys_put)

lemma dict_keys_put_present [simp]:
  "map_of d k = Some v \<Longrightarrow> dict_keys (dict_put k w d) = dict_keys d"
  by (simp add: dict_keys_put in_dict_keys_iff)

lemmas wf_parts = tables_wf_def orders_wf_def indexes_wf_def

lemma bb_wf_publishI:
  "tables_wf s \<Longrightarrow> orders_wf s \<Longrightarrow> indexes_wf s \<Longrightarrow> queues_wf s \<Longrightarrow> bb_wf (publish c e s)"
  by (simp add: bb_wf_def queues_wf_publish)

lemma bb_wf_init: "bb_wf bb_init"
  by (simp add: bb_wf_def wf_parts queues_wf_def bb_init_def ordered_ok_def)

text \<open>Each write keeps the invariant; most touch one table and publish.\<close>

lemma bb_wf_put_task [intro]: "bb_wf s \<Longrightarrow> bb_wf (put_task c t s)"
  unfolding put_task_def Let_def
  by (rule bb_wf_publishI)
    (auto simp: bb_wf_def wf_parts queues_wf_def intro!: dict_keys_put_cong)

lemma bb_wf_append_command [intro]: "bb_wf s \<Longrightarrow> bb_wf (append_command c x s)"
  unfolding append_command_def
  by (rule bb_wf_publishI) (auto simp: bb_wf_def wf_parts queues_wf_def)

lemma bb_wf_append_detail [intro]: "bb_wf s \<Longrightarrow> bb_wf (append_task_execution_detail c x s)"
  unfolding append_task_execution_detail_def
  by (rule bb_wf_publishI) (auto simp: bb_wf_def wf_parts queues_wf_def)

lemma bb_wf_append_mutation [intro]:
  assumes "bb_wf s"
  shows "bb_wf (append_mutation c m s)"
proof -
  have key: "map_of (bb_tasks s) k = Some t \<Longrightarrow> t_task_id t = k" for k t
    using assms by (auto simp: bb_wf_def tables_wf_def intro: table_ok_key)
  show ?thesis
    unfolding append_mutation_def Let_def
    using assms
    by (intro bb_wf_publishI)
      (auto simp: bb_wf_def wf_parts queues_wf_def mutation_key_def bump_task_revision_def
        split: option.splits dest!: key)
qed

lemma bb_wf_put_run [intro]: "bb_wf s \<Longrightarrow> bb_wf (put_run c r s)"
  unfolding put_run_def Let_def
  by (rule bb_wf_publishI)
    (auto simp: bb_wf_def wf_parts queues_wf_def intro!: dict_keys_put_cong)

lemma bb_wf_put_session [intro]: "bb_wf s \<Longrightarrow> bb_wf (put_session c x s)"
  unfolding put_session_def
  by (rule bb_wf_publishI) (auto simp: bb_wf_def wf_parts queues_wf_def)

lemma bb_wf_put_binding [intro]: "bb_wf s \<Longrightarrow> bb_wf (put_binding c x s)"
  unfolding put_binding_def
  by (rule bb_wf_publishI) (auto simp: bb_wf_def wf_parts queues_wf_def)

lemma bb_wf_put_summary [intro]: "bb_wf s \<Longrightarrow> bb_wf (put_summary c x s)"
  unfolding put_summary_def
  by (rule bb_wf_publishI) (auto simp: bb_wf_def wf_parts queues_wf_def)

lemma bb_wf_put_execution_mode [intro]: "bb_wf s \<Longrightarrow> bb_wf (put_execution_mode c x s)"
  unfolding put_execution_mode_def
  by (rule bb_wf_publishI) (auto simp: bb_wf_def wf_parts queues_wf_def)

lemma bb_wf_put_notification_candidate [intro]:
  "bb_wf s \<Longrightarrow> bb_wf (put_notification_candidate c x s)"
  unfolding put_notification_candidate_def
  by (rule bb_wf_publishI) (auto simp: bb_wf_def wf_parts queues_wf_def)

lemma bb_wf_put_outbound_turn_request [intro]:
  "bb_wf s \<Longrightarrow> bb_wf (put_outbound_turn_request x s)"
  unfolding put_outbound_turn_request_def
  by (auto simp: bb_wf_def wf_parts queues_wf_def)

lemma bb_wf_put_persona [intro]: "bb_wf s \<Longrightarrow> bb_wf (put_persona c x s)"
  unfolding put_persona_def
  by (rule bb_wf_publishI) (auto simp: bb_wf_def wf_parts queues_wf_def)

lemma bb_wf_delete_persona [intro]:
  assumes "bb_wf s"
  shows "bb_wf (snd (delete_persona c k s))"
proof -
  have wf: "bb_wf (s\<lparr>bb_personas := dict_pop k (bb_personas s)\<rparr>)"
    using assms by (auto simp: bb_wf_def wf_parts queues_wf_def)
  then have "bb_wf (publish c e (s\<lparr>bb_personas := dict_pop k (bb_personas s)\<rparr>))" for e
    by (intro bb_wf_publishI) (simp_all add: bb_wf_def)
  with wf show ?thesis
    by (simp add: delete_persona_def Let_def split: option.split)
qed

lemma bb_wf_put_interaction_request [intro]: "bb_wf s \<Longrightarrow> bb_wf (put_interaction_request c x s)"
  unfolding put_interaction_request_def
  by (rule bb_wf_publishI) (auto simp: bb_wf_def wf_parts queues_wf_def)

lemma bb_wf_put_attention_item [intro]: "bb_wf s \<Longrightarrow> bb_wf (put_attention_item c x s)"
  unfolding put_attention_item_def
  by (rule bb_wf_publishI) (auto simp: bb_wf_def wf_parts queues_wf_def)

lemma bb_wf_put_agent_event [intro]: "bb_wf s \<Longrightarrow> bb_wf (put_agent_event c x s)"
  unfolding put_agent_event_def
  by (rule bb_wf_publishI) (auto simp: bb_wf_def wf_parts queues_wf_def)

lemma bb_wf_subscribe [intro]: "bb_wf s \<Longrightarrow> bb_wf (snd (subscribe s))"
  by (fastforce simp: subscribe_def bb_wf_def wf_parts queues_wf_def)

lemma set_remove_queue: "set (remove_queue q qs) \<subseteq> set qs"
  by (induction q qs rule: remove_queue.induct) auto

lemma distinct_remove_queue: "distinct (map fst qs) \<Longrightarrow> distinct (map fst (remove_queue q qs))"
  by (induction q qs rule: remove_queue.induct) (auto dest!: set_mp [OF set_remove_queue])

lemma bb_wf_unsubscribe [intro]: "bb_wf s \<Longrightarrow> bb_wf (unsubscribe q s)"
  using set_remove_queue [of q "bb_queues s"]
  by (auto simp: unsubscribe_def bb_wf_def wf_parts queues_wf_def distinct_remove_queue)

section \<open>The tables as interfaces\<close>

lemma bb_wf_table [dest]:
  "bb_wf s \<Longrightarrow> table_ok t_task_id (bb_tasks s)"
  "bb_wf s \<Longrightarrow> table_ok r_run_id (bb_runs s)"
  "bb_wf s \<Longrightarrow> table_ok s_execution_session_id (bb_sessions s)"
  "bb_wf s \<Longrightarrow> table_ok b_task_id (bb_bindings_by_task s)"
  "bb_wf s \<Longrightarrow> table_ok em_task_id (bb_execution_modes_by_task s)"
  "bb_wf s \<Longrightarrow> table_ok p_persona_id (bb_personas s)"
  "bb_wf s \<Longrightarrow> ordered_ok n_candidate_id (bb_notification_candidates s) (bb_notification_candidate_order s)"
  "bb_wf s \<Longrightarrow> ordered_ok o_request_id (bb_outbound_turn_requests s) (bb_outbound_turn_request_order s)"
  "bb_wf s \<Longrightarrow> ordered_ok i_request_id (bb_interaction_requests s) (bb_interaction_request_order s)"
  "bb_wf s \<Longrightarrow> ordered_ok a_attention_id (bb_attention_items s) (bb_attention_item_order s)"
  "bb_wf s \<Longrightarrow> ordered_ok e_event_id (bb_agent_events s) (bb_agent_event_order s)"
  by (simp_all add: bb_wf_def tables_wf_def orders_wf_def)

lemma bb_own_table [simp]:
  "bb_tasks (put_task c t s) = dict_put (t_task_id t) t (bb_tasks s)"
  "bb_runs (put_run c r s) = dict_put (r_run_id r) r (bb_runs s)"
  "bb_sessions (put_session c x s) = dict_put (s_execution_session_id x) x (bb_sessions s)"
  "bb_bindings_by_task (put_binding c b s) = dict_put (b_task_id b) b (bb_bindings_by_task s)"
  "bb_summaries_by_task (put_summary c y s) = dict_put (sm_task_id y) y (bb_summaries_by_task s)"
  "bb_execution_modes_by_task (put_execution_mode c m s) = dict_put (em_task_id m) m (bb_execution_modes_by_task s)"
  "bb_personas (put_persona c p s) = dict_put (p_persona_id p) p (bb_personas s)"
  by (simp_all add: bb_write_defs Let_def)

lemma bb_own_ordered [simp]:
  "bb_notification_candidates (put_notification_candidate c n s) =
     dict_put (n_candidate_id n) n (bb_notification_candidates s)"
  "bb_outbound_turn_requests (put_outbound_turn_request q s) =
     dict_put (o_request_id q) q (bb_outbound_turn_requests s)"
  "bb_interaction_requests (put_interaction_request c i s) =
     dict_put (i_request_id i) i (bb_interaction_requests s)"
  "bb_attention_items (put_attention_item c a s) = dict_put (a_attention_id a) a (bb_attention_items s)"
  "bb_agent_events (put_agent_event c e s) = dict_put (e_event_id e) e (bb_agent_events s)"
  by (simp_all add: bb_write_defs)

interpretation tasks_t: dict_table t_task_id bb_tasks "put_task ctx" bb_wf for ctx
  by unfold_locales auto

interpretation tasks: keyed_table t_task_id "put_task ctx" get_task list_tasks bb_wf for ctx
  using tasks_t.keyed_table_axioms by (simp add: get_task_def [abs_def] list_tasks_def [abs_def])

interpretation runs_t: dict_table r_run_id bb_runs "put_run ctx" bb_wf for ctx
  by unfold_locales auto

interpretation runs: keyed_table r_run_id "put_run ctx" get_run list_runs bb_wf for ctx
  using runs_t.keyed_table_axioms by (simp add: get_run_def [abs_def] list_runs_def [abs_def])

interpretation sessions_t: dict_table s_execution_session_id bb_sessions "put_session ctx" bb_wf for ctx
  by unfold_locales auto

interpretation sessions: keyed_table s_execution_session_id "put_session ctx" get_session list_sessions bb_wf for ctx
  using sessions_t.keyed_table_axioms
  by (simp add: get_session_def [abs_def] list_sessions_def [abs_def])

interpretation bindings_t: dict_table b_task_id bb_bindings_by_task "put_binding ctx" bb_wf for ctx
  by unfold_locales auto

interpretation bindings: keyed_table b_task_id "put_binding ctx" get_binding list_bindings bb_wf for ctx
  using bindings_t.keyed_table_axioms
  by (simp add: get_binding_def [abs_def] list_bindings_def [abs_def])

interpretation modes_t: dict_table em_task_id bb_execution_modes_by_task "put_execution_mode ctx" bb_wf for ctx
  by unfold_locales auto

interpretation modes: keyed_table em_task_id "put_execution_mode ctx" get_execution_mode list_execution_modes bb_wf for ctx
  using modes_t.keyed_table_axioms
  by (simp add: get_execution_mode_def [abs_def] list_execution_modes_def [abs_def])

interpretation personas_t: dict_table p_persona_id bb_personas "put_persona ctx" bb_wf for ctx
  by unfold_locales auto

interpretation personas: keyed_table p_persona_id "put_persona ctx" get_persona list_personas bb_wf for ctx
  using personas_t.keyed_table_axioms
  by (simp add: get_persona_def [abs_def] list_personas_def [abs_def])

interpretation candidates_t: ordered_table n_candidate_id bb_notification_candidates
    bb_notification_candidate_order "put_notification_candidate ctx" bb_wf for ctx
  by unfold_locales (auto simp: ordered_ok_def)

interpretation candidates: keyed_table n_candidate_id "put_notification_candidate ctx"
    get_notification_candidate list_notification_candidates bb_wf for ctx
  using candidates_t.ordered.keyed_table_axioms
  by (simp add: get_notification_candidate_def [abs_def] list_notification_candidates_def [abs_def])

interpretation turns_t: ordered_table o_request_id bb_outbound_turn_requests
    bb_outbound_turn_request_order put_outbound_turn_request bb_wf
  by unfold_locales (auto simp: ordered_ok_def)

interpretation turns: keyed_table o_request_id put_outbound_turn_request
    get_outbound_turn_request list_outbound_turn_requests bb_wf
  using turns_t.ordered.keyed_table_axioms
  by (simp add: get_outbound_turn_request_def [abs_def] list_outbound_turn_requests_def [abs_def])

interpretation requests_t: ordered_table i_request_id bb_interaction_requests
    bb_interaction_request_order "put_interaction_request ctx" bb_wf for ctx
  by unfold_locales (auto simp: ordered_ok_def)

interpretation requests: keyed_table i_request_id "put_interaction_request ctx"
    get_interaction_request list_interaction_requests bb_wf for ctx
  using requests_t.ordered.keyed_table_axioms
  by (simp add: get_interaction_request_def [abs_def] list_interaction_requests_def [abs_def])

interpretation attention_t: ordered_table a_attention_id bb_attention_items
    bb_attention_item_order "put_attention_item ctx" bb_wf for ctx
  by unfold_locales (auto simp: ordered_ok_def)

interpretation attention: keyed_table a_attention_id "put_attention_item ctx"
    get_attention_item list_attention_items bb_wf for ctx
  using attention_t.ordered.keyed_table_axioms
  by (simp add: get_attention_item_def [abs_def] list_attention_items_def [abs_def])

interpretation agent_events_t: ordered_table e_event_id bb_agent_events
    bb_agent_event_order "put_agent_event ctx" bb_wf for ctx
  by unfold_locales (auto simp: ordered_ok_def)

lemma get_summary_put [simp]:
  "get_summary (put_summary c y s) k = (if k = sm_task_id y then Some y else get_summary s k)"
  by (simp add: get_summary_def)

section \<open>Runs of the store\<close>

datatype bb_op =
    OpPutTask task | OpAppendMutation task_mutation | OpAppendCommand task_command
  | OpAppendDetail task_execution_detail_entry | OpPutRun execution_run
  | OpPutSession execution_session | OpPutBinding session_binding | OpPutSummary task_summary
  | OpPutExecutionMode task_execution_mode | OpPutCandidate notification_candidate
  | OpPutTurnRequest outbound_turn_request | OpPutPersona persona | OpDeletePersona str
  | OpPutRequest interaction_request | OpPutAttention attention_item
  | OpPutAgentEvent agent_event | OpSubscribe | OpUnsubscribe nat

fun bb_apply :: "str option \<Rightarrow> bb_op \<Rightarrow> blackboard \<Rightarrow> blackboard" where
  "bb_apply ctx (OpPutTask t) s = put_task ctx t s"
| "bb_apply ctx (OpAppendMutation m) s = append_mutation ctx m s"
| "bb_apply ctx (OpAppendCommand c) s = append_command ctx c s"
| "bb_apply ctx (OpAppendDetail d) s = append_task_execution_detail ctx d s"
| "bb_apply ctx (OpPutRun r) s = put_run ctx r s"
| "bb_apply ctx (OpPutSession x) s = put_session ctx x s"
| "bb_apply ctx (OpPutBinding b) s = put_binding ctx b s"
| "bb_apply ctx (OpPutSummary y) s = put_summary ctx y s"
| "bb_apply ctx (OpPutExecutionMode m) s = put_execution_mode ctx m s"
| "bb_apply ctx (OpPutCandidate n) s = put_notification_candidate ctx n s"
| "bb_apply ctx (OpPutTurnRequest q) s = put_outbound_turn_request q s"
| "bb_apply ctx (OpPutPersona p) s = put_persona ctx p s"
| "bb_apply ctx (OpDeletePersona k) s = snd (delete_persona ctx k s)"
| "bb_apply ctx (OpPutRequest i) s = put_interaction_request ctx i s"
| "bb_apply ctx (OpPutAttention a) s = put_attention_item ctx a s"
| "bb_apply ctx (OpPutAgentEvent e) s = put_agent_event ctx e s"
| "bb_apply ctx OpSubscribe s = snd (subscribe s)"
| "bb_apply ctx (OpUnsubscribe q) s = unsubscribe q s"

fun bb_run :: "(str option \<times> bb_op) list \<Rightarrow> blackboard \<Rightarrow> blackboard" where
  "bb_run [] s = s"
| "bb_run ((ctx, x) # xs) s = bb_run xs (bb_apply ctx x s)"

lemma bb_run_append: "bb_run (xs @ ys) s = bb_run ys (bb_run xs s)"
  by (induction xs s rule: bb_run.induct) auto

lemma bb_wf_apply [intro]: "bb_wf s \<Longrightarrow> bb_wf (bb_apply ctx x s)"
  by (cases x) auto

lemma bb_wf_run: "bb_wf s \<Longrightarrow> bb_wf (bb_run xs s)"
  by (induction xs s rule: bb_run.induct) auto

end
