(* ===== verification/Blackboard_Props.thy ===== *)
theory Blackboard_Props
  imports Blackboard
begin

text \<open>
  The properties of the store: its invariant over every run, the refinement of its abstract
  contract (a table reads as the latest value put under each id), the delivery of every write
  to every subscriber, and the view of recent execution details.
\<close>

section \<open>Properties of the store\<close>

text \<open>C1: whatever sequence of writes, deletions, subscriptions and unsubscriptions the store
  sees, every table stays indexed by its objects' own ids, the five order lists name exactly the
  keys of their tables, the per-task indexes are the projections of the global logs, and every
  subscriber's queue is a suffix of the write log.\<close>

theorem store_invariant: "bb_wf (bb_run ops bb_init)"
  by (rule bb_wf_run [OF bb_wf_init])

text \<open>What a trace put into one table.\<close>

definition run_puts :: "(str option \<times> bb_op) list \<Rightarrow> execution_run list" where
  "run_puts ops = concat (map (\<lambda>x. case snd x of OpPutRun v \<Rightarrow> [v] | _ \<Rightarrow> []) ops)"

definition request_puts :: "(str option \<times> bb_op) list \<Rightarrow> interaction_request list" where
  "request_puts ops = concat (map (\<lambda>x. case snd x of OpPutRequest v \<Rightarrow> [v] | _ \<Rightarrow> []) ops)"

definition attention_puts :: "(str option \<times> bb_op) list \<Rightarrow> attention_item list" where
  "attention_puts ops = concat (map (\<lambda>x. case snd x of OpPutAttention v \<Rightarrow> [v] | _ \<Rightarrow> []) ops)"

definition candidate_puts :: "(str option \<times> bb_op) list \<Rightarrow> notification_candidate list" where
  "candidate_puts ops = concat (map (\<lambda>x. case snd x of OpPutCandidate v \<Rightarrow> [v] | _ \<Rightarrow> []) ops)"

lemmas puts_defs = run_puts_def request_puts_def attention_puts_def candidate_puts_def

lemma append_mutation_frame [simp]:
  "list_runs (append_mutation c m s) = list_runs s"
  "list_interaction_requests (append_mutation c m s) = list_interaction_requests s"
  "list_attention_items (append_mutation c m s) = list_attention_items s"
  "list_notification_candidates (append_mutation c m s) = list_notification_candidates s"
  by (simp_all add: append_mutation_def Let_def bb_read_defs split: option.splits)

lemma delete_persona_frame [simp]:
  "list_runs (snd (delete_persona c k s)) = list_runs s"
  "list_interaction_requests (snd (delete_persona c k s)) = list_interaction_requests s"
  "list_attention_items (snd (delete_persona c k s)) = list_attention_items s"
  "list_notification_candidates (snd (delete_persona c k s)) = list_notification_candidates s"
  by (simp_all add: delete_persona_def Let_def bb_read_defs split: option.splits)

lemma subscription_frame [simp]:
  "list_runs (snd (subscribe s)) = list_runs s"
  "list_interaction_requests (snd (subscribe s)) = list_interaction_requests s"
  "list_attention_items (snd (subscribe s)) = list_attention_items s"
  "list_notification_candidates (snd (subscribe s)) = list_notification_candidates s"
  "list_runs (unsubscribe q s) = list_runs s"
  "list_interaction_requests (unsubscribe q s) = list_interaction_requests s"
  "list_attention_items (unsubscribe q s) = list_attention_items s"
  "list_notification_candidates (unsubscribe q s) = list_notification_candidates s"
  by (simp_all add: subscribe_def unsubscribe_def bb_read_defs)

lemma puts_snoc:
  "run_puts (ops @ [y]) = run_puts ops @ (case snd y of OpPutRun v \<Rightarrow> [v] | _ \<Rightarrow> [])"
  "request_puts (ops @ [y]) = request_puts ops @ (case snd y of OpPutRequest v \<Rightarrow> [v] | _ \<Rightarrow> [])"
  "attention_puts (ops @ [y]) = attention_puts ops @ (case snd y of OpPutAttention v \<Rightarrow> [v] | _ \<Rightarrow> [])"
  "candidate_puts (ops @ [y]) = candidate_puts ops @ (case snd y of OpPutCandidate v \<Rightarrow> [v] | _ \<Rightarrow> [])"
  by (simp_all add: puts_defs)

lemmas frames = put_task_frame append_mutation_frame append_command_frame
  append_task_execution_detail_frame put_run_frame put_session_frame put_binding_frame
  put_summary_frame put_execution_mode_frame put_notification_candidate_frame
  put_outbound_turn_request_frame put_persona_frame delete_persona_frame
  put_interaction_request_frame put_attention_item_frame put_agent_event_frame
  subscription_frame

text \<open>C2: the store refines its abstract contract. Reading a table after any run returns the
  value last put under each id, one per id, in the order in which the ids were first put;
  nothing else the run did shows through.\<close>

theorem store_lists_latest_puts:
  "list_runs (bb_run ops bb_init) = latest_by r_run_id (run_puts ops) \<and>
   list_interaction_requests (bb_run ops bb_init) = latest_by i_request_id (request_puts ops) \<and>
   list_attention_items (bb_run ops bb_init) = latest_by a_attention_id (attention_puts ops) \<and>
   list_notification_candidates (bb_run ops bb_init) = latest_by n_candidate_id (candidate_puts ops)"
proof (induction ops rule: rev_induct)
  case Nil
  show ?case by (simp add: puts_defs bb_read_defs bb_init_def ordered_values_def dict_values_def
        List.map_filter_def)
next
  case (snoc y ops)
  obtain ctx x where y: "y = (ctx, x)" by (cases y)
  have wf: "bb_wf (bb_run ops bb_init)" by (rule bb_wf_run [OF bb_wf_init])
  note step = runs.elems_put_latest [OF wf] requests.elems_put_latest [OF wf]
    attention.elems_put_latest [OF wf] candidates.elems_put_latest [OF wf]
  have IH: "list_runs (bb_run ops bb_init) = latest_by r_run_id (run_puts ops)"
    "list_interaction_requests (bb_run ops bb_init) = latest_by i_request_id (request_puts ops)"
    "list_attention_items (bb_run ops bb_init) = latest_by a_attention_id (attention_puts ops)"
    "list_notification_candidates (bb_run ops bb_init) = latest_by n_candidate_id (candidate_puts ops)"
    using snoc.IH by auto
  have run: "bb_run (ops @ [y]) bb_init = bb_apply ctx x (bb_run ops bb_init)"
    by (simp add: y bb_run_append)
  show ?case
    unfolding run by (cases x) (simp_all add: y puts_snoc IH step)
qed

text \<open>The queue of a subscription, and what it received.\<close>

definition queue_has :: "nat \<Rightarrow> write_event list \<Rightarrow> blackboard \<Rightarrow> bool" where
  "queue_has q es s \<longleftrightarrow> (q, es) \<in> set (bb_queues s)"

definition delivers :: "nat \<Rightarrow> write_event list \<Rightarrow> blackboard \<Rightarrow> bool" where
  "delivers q old s \<longleftrightarrow> (\<exists>es. queue_has q es s \<and> bb_recent_writes s = old @ es)"

lemma delivers_publish: "delivers q old s \<Longrightarrow> delivers q old (publish c e s)"
  by (force simp: delivers_def queue_has_def publish_def Let_def subscriptions_publish_def)

lemma delivers_congI:
  "delivers q old s \<Longrightarrow> bb_queues s' = bb_queues s \<Longrightarrow> bb_recent_writes s' = bb_recent_writes s \<Longrightarrow>
   delivers q old s'"
  by (simp add: delivers_def queue_has_def)

lemma remove_queue_other: "(q, es) \<in> set qs \<Longrightarrow> q \<noteq> q' \<Longrightarrow> (q, es) \<in> set (remove_queue q' qs)"
  by (induction q' qs rule: remove_queue.induct) auto

lemma delivers_apply:
  assumes "delivers q old s" and "x \<noteq> OpUnsubscribe q"
  shows "delivers q old (bb_apply ctx x s)"
proof (cases x)
  case (OpUnsubscribe q')
  then show ?thesis
    using assms by (auto simp: delivers_def queue_has_def unsubscribe_def remove_queue_other)
next
  case OpSubscribe
  then show ?thesis
    using assms by (auto simp: delivers_def queue_has_def subscribe_def)
next
  case (OpDeletePersona k)
  then show ?thesis
    by (auto simp: delete_persona_def Let_def split: option.split
        intro!: delivers_publish delivers_congI [OF assms(1)])
next
  case (OpPutTurnRequest r)
  then show ?thesis
    by (auto simp: put_outbound_turn_request_def intro!: delivers_congI [OF assms(1)])
qed (auto simp: bb_write_defs Let_def split: option.split
    intro!: delivers_publish delivers_congI [OF assms(1)])

text \<open>C3: no write is lost or reordered on its way to a subscriber: as long as it does not
  unsubscribe, its queue holds exactly the events the store logged after the subscription, in
  log order.\<close>

theorem subscriber_sees_every_write:
  assumes "\<And>ctx. (ctx, OpUnsubscribe (fst (subscribe s))) \<notin> set ops"
  shows "\<exists>es. queue_has (fst (subscribe s)) es (bb_run ops (snd (subscribe s))) \<and>
    bb_recent_writes (bb_run ops (snd (subscribe s))) = bb_recent_writes s @ es"
proof -
  have "delivers q old (bb_run ops t)"
    if "delivers q old t" "\<And>ctx. (ctx, OpUnsubscribe q) \<notin> set ops" for q old t
    using that
  proof (induction ops t rule: bb_run.induct)
    case (2 ctx x xs s)
    then have "x \<noteq> OpUnsubscribe q" by auto
    with 2 show ?case by (auto intro: delivers_apply)
  qed simp
  moreover have "delivers (fst (subscribe s)) (bb_recent_writes s) (snd (subscribe s))"
    by (simp add: delivers_def queue_has_def subscribe_def)
  ultimately show ?thesis
    using assms unfolding delivers_def by blast
qed

theorem subscriber_sees_every_write_witness:
  "\<exists>es. queue_has 0 es
      (bb_run [(None, OpPutPersona \<lparr>p_persona_id = ''p1'', p_name = ''Ada'', p_avatar = [],
          p_base_prompt = [], p_executor_node_id = None, p_bro_detail_session_id = ''d'',
          p_status = ''idle''\<rparr>)] (snd (subscribe bb_init))) \<and> length es = 1"
proof -
  let ?ops = "[(None, OpPutPersona \<lparr>p_persona_id = ''p1'', p_name = ''Ada'', p_avatar = [],
          p_base_prompt = [], p_executor_node_id = None, p_bro_detail_session_id = ''d'',
          p_status = ''idle''\<rparr>)]"
  have q: "fst (subscribe bb_init) = 0" by (simp add: subscribe_def bb_init_def)
  obtain es where es: "queue_has 0 es (bb_run ?ops (snd (subscribe bb_init)))"
    and log: "bb_recent_writes (bb_run ?ops (snd (subscribe bb_init))) = bb_recent_writes bb_init @ es"
    using subscriber_sees_every_write [of bb_init ?ops] q by auto
  have "es = bb_recent_writes (bb_run ?ops (snd (subscribe bb_init)))"
    using log by (simp add: bb_init_def)
  then have "length es = 1"
    by (simp add: put_persona_def publish_def subscribe_def bb_init_def Let_def)
  with es show ?thesis by blast
qed

lemma recent_task_ids_take:
  assumes "set seen = set ordered" and "int (length ordered) < limit"
  shows "recent_task_ids limit seen ordered ds =
    take (nat limit) (ordered @ filter (\<lambda>k. k \<notin> set ordered) (py_dedupe (map d_task_id ds)))"
  using assms
proof (induction limit seen ordered ds rule: recent_task_ids.induct)
  case (1 limit seen ordered)
  then show ?case by simp
next
  case (2 limit seen ordered d ds)
  show ?case
  proof (cases "d_task_id d \<in> set seen")
    case True
    then have "filter (\<lambda>k. k \<notin> set ordered) (py_dedupe (map d_task_id (d # ds))) =
        filter (\<lambda>k. k \<notin> set ordered) (py_dedupe (map d_task_id ds))"
      using 2(3) by (auto simp: py_dedupe_Cons intro: filter_cong)
    with True 2 show ?thesis by simp
  next
    case False
    let ?o = "ordered @ [d_task_id d]"
    have flt: "filter (\<lambda>k. k \<notin> set ordered) (py_dedupe (map d_task_id (d # ds))) =
        d_task_id d # filter (\<lambda>k. k \<notin> set ?o) (py_dedupe (map d_task_id ds))"
      using False 2(3) by (auto simp: py_dedupe_Cons intro: filter_cong)
    show ?thesis
    proof (cases "int (length ?o) \<ge> limit")
      case True
      then have "nat limit = length ?o" using 2(4) by simp
      with False True flt show ?thesis by simp
    next
      case short: False
      have "recent_task_ids limit seen ordered (d # ds) =
          recent_task_ids limit (d_task_id d # seen) ?o ds"
        using False short by simp
      also have "\<dots> = take (nat limit) (?o @ filter (\<lambda>k. k \<notin> set ?o) (py_dedupe (map d_task_id ds)))"
        using 2(2) [OF False refl] short 2(3) by simp
      finally show ?thesis using flt by simp
    qed
  qed
qed

lemma drop_py_from_end: "n > 0 \<Longrightarrow> length (py_from_end n xs) \<le> nat n"
  by (simp add: py_from_end_def)

text \<open>The view of recent activity names the most recently active tasks first, each once and
  at most \<open>task_limit\<close> of them, and shows for each the last \<open>entry_limit\<close> entries of its own
  log, in log order.\<close>

theorem recent_details_characterised:
  assumes "0 < task_limit" and "0 < entry_limit"
  shows "list_recent_task_execution_details (bb_run ops bb_init) task_limit entry_limit =
    map (\<lambda>k. (k, py_from_end entry_limit
             (filter (\<lambda>d. d_task_id d = k) (bb_details (bb_run ops bb_init)))))
      (take (nat task_limit)
        (py_dedupe (map d_task_id (rev (bb_details (bb_run ops bb_init))))))"
proof -
  have "indexes_wf (bb_run ops bb_init)"
    using bb_wf_run [OF bb_wf_init] by (auto simp: bb_wf_def)
  then show ?thesis
    using assms
    by (simp add: list_recent_task_execution_details_def recent_task_ids_take indexes_wf_def)
qed

theorem recent_details_characterised_witness:
  "\<exists>d1 d2. list_recent_task_execution_details
     (bb_run [(None, OpAppendDetail d1), (None, OpAppendDetail d2)] bb_init) 1 20 = [(''t2'', [d2])]"
proof -
  let ?d = "\<lambda>t. \<lparr>d_detail_id = ''x'', d_task_id = t, d_run_id = ''r'', d_execution_session_id = ''s'',
     d_event_type = ''plan'', d_text = ''go'', d_created_at = ''now'', d_payload = []\<rparr>"
  let ?ops = "[(None, OpAppendDetail (?d ''t1'')), (None, OpAppendDetail (?d ''t2''))]"
  have "bb_details (bb_run ?ops bb_init) = [?d ''t1'', ?d ''t2'']"
    by (simp add: append_task_execution_detail_def bb_init_def publish_def Let_def)
  then have "list_recent_task_execution_details (bb_run ?ops bb_init) 1 20 = [(''t2'', [?d ''t2''])]"
    using recent_details_characterised [of 1 20 ?ops]
    by (simp add: py_dedupe_Cons py_from_end_def)
  then show ?thesis by blast
qed

end
