(* ===== verification/Execution.thy ===== *)
theory Execution
  imports Blackboard "HOL-Library.Product_Lexorder" "HOL-Library.Multiset"
begin

text \<open>
  The execution side's managers (\<open>src/newbro/execution/\<close>), each as functions on the store:
  leases (\<open>assignment.py\<close> with \<open>claim_is_active\<close> of \<open>blackboard/revisions.py\<close>), execution-mode
  classification (\<open>mode_manager.py\<close>), summaries (\<open>summary_manager.py\<close>), the schedule
  (\<open>scheduler.py\<close>), runs and the effect of an executor's events (\<open>run_manager.py\<close>), and the
  executor registry (\<open>executors/core/registry.py\<close>). Instants are integers (microseconds of
  UTC); \<open>fmt\<close> stands for \<open>datetime.isoformat\<close> and \<open>parse\<close> for \<open>datetime.fromisoformat\<close>
  (after the \<open>Z\<close> suffix is replaced), whose \<open>None\<close> is its \<open>ValueError\<close>. Fresh ids and clock
  readings are arguments; observability emitters, which only log, are left out.
\<close>

section \<open>Leases\<close>

definition claim_is_active :: "(str \<Rightarrow> int option) \<Rightarrow> int \<Rightarrow> session_binding option \<Rightarrow> bool result" where
  "claim_is_active parse now b =
     (case b of
        None \<Rightarrow> Inr False
      | Some b \<Rightarrow>
          (case b_claim_expires_at b of
             None \<Rightarrow> Inr False
           | Some e \<Rightarrow>
               (case parse e of
                  None \<Rightarrow> Inl (ValueError e)
                | Some expires_at \<Rightarrow> Inr (now < expires_at))))"

definition claimed_binding ::
    "(int \<Rightarrow> str) \<Rightarrow> str \<Rightarrow> int \<Rightarrow> int \<Rightarrow> task \<Rightarrow> session_binding option \<Rightarrow> session_binding" where
  "claimed_binding fmt worker lease now t binding =
     \<lparr>b_task_id = t_task_id t,
      b_execution_session_id = (case binding of Some b \<Rightarrow> b_execution_session_id b | None \<Rightarrow> None),
      b_executor_node_id = None,
      b_session_id = (case binding of Some b \<Rightarrow> b_session_id b | None \<Rightarrow> None),
      b_claimed_by = Some worker,
      b_claim_expires_at = Some (fmt (now + lease)),
      b_execution_revision = t_task_revision t,
      b_binding_status = BS_CLAIMED\<rparr>"

text \<open>\<open>now_check\<close> and \<open>now_claim\<close> are the two readings of the clock.\<close>

definition claim_task ::
    "(str \<Rightarrow> int option) \<Rightarrow> (int \<Rightarrow> str) \<Rightarrow> str \<Rightarrow> int \<Rightarrow> str option \<Rightarrow> int \<Rightarrow> int \<Rightarrow> task \<Rightarrow> blackboard \<Rightarrow>
     (session_binding option \<times> blackboard) result" where
  "claim_task parse fmt worker lease ctx now_check now_claim t s =
     (let binding = get_binding s (t_task_id t) in
      case claim_is_active parse now_check binding of
        Inl e \<Rightarrow> Inl e
      | Inr active \<Rightarrow>
          if binding \<noteq> None \<and> active \<and> b_claimed_by (the binding) \<notin> {None, Some worker}
          then Inr (None, s)
          else
            (let claimed = claimed_binding fmt worker lease now_claim t binding
             in Inr (Some claimed, put_binding ctx claimed s)))"

section \<open>Execution modes\<close>

definition terminal_run_statuses :: "run_status list" where
  "terminal_run_statuses = [RS_COMPLETED, RS_FAILED, RS_CANCELLED]"

definition next_mode :: "rat \<Rightarrow> execution_mode \<Rightarrow> run_status \<Rightarrow> rat \<Rightarrow> execution_mode" where
  "next_mode threshold current st elapsed =
     (if current = EM_MANAGED then EM_MANAGED
      else if elapsed \<ge> threshold then EM_MANAGED
      else if current = EM_LIGHTWEIGHT then EM_LIGHTWEIGHT
      else if st \<in> set terminal_run_statuses then EM_LIGHTWEIGHT
      else EM_UNDECIDED)"

definition initialize_task_mode ::
    "str option \<Rightarrow> str \<Rightarrow> blackboard \<Rightarrow> task_execution_mode \<times> blackboard" where
  "initialize_task_mode ctx tid s =
     (case get_execution_mode s tid of
        Some m \<Rightarrow> (m, s)
      | None \<Rightarrow>
          (let m = \<lparr>em_task_id = tid, em_mode = EM_UNDECIDED, em_decided_from_run_id = None,
                    em_elapsed_seconds = 0\<rparr>
           in (m, put_execution_mode ctx m s)))"

definition classify ::
    "rat \<Rightarrow> str option \<Rightarrow> str \<Rightarrow> str \<Rightarrow> run_status \<Rightarrow> rat \<Rightarrow> blackboard \<Rightarrow> task_execution_mode \<times> blackboard" where
  "classify threshold ctx tid rid st elapsed s =
     (let (current, s1) = initialize_task_mode ctx tid s;
          nxt = next_mode threshold (em_mode current) st elapsed;
          decided = (if nxt \<noteq> EM_UNDECIDED then Some rid else em_decided_from_run_id current);
          emit = (nxt \<noteq> em_mode current \<or> decided \<noteq> em_decided_from_run_id current);
          updated = current\<lparr>em_mode := nxt, em_decided_from_run_id := decided,
            em_elapsed_seconds := (if emit then elapsed else em_elapsed_seconds current)\<rparr>
      in (updated, if emit then put_execution_mode ctx updated s1 else s1))"

section \<open>Summaries\<close>

definition summary_of :: "task \<Rightarrow> str option \<Rightarrow> str option \<Rightarrow> str \<Rightarrow> bool \<Rightarrow> task_summary" where
  "summary_of t op conv visible needs =
     \<lparr>sm_task_id = t_task_id t, sm_operational_summary = op, sm_conversational_summary = conv,
      sm_latest_user_visible_status = Some visible, sm_needs_user_input = needs\<rparr>"

definition build_summary :: "task \<Rightarrow> execution_run \<Rightarrow> task_summary" where
  "build_summary t r =
     (let plain = (\<lambda>txt visible. summary_of t (Some txt) (Some txt) visible False);
          waiting = str_or_else (r_latest_progress_message r) (''Waiting for executor node: '' @ t_title t)
      in
      if t_status t = TS_QUEUED then
        summary_of t (Some (''Queued: '' @ t_title t)) (Some (''I queued '' @ t_title t @ '' again.''))
          ''queued'' False
      else if t_status t = TS_WAITING_EXECUTOR then plain waiting ''waiting_executor''
      else if t_status t = TS_PAUSED then
        summary_of t (Some (''Paused: '' @ t_title t)) (Some (''I paused '' @ t_title t @ ''.''))
          ''paused'' False
      else if r_status r = RS_BLOCKED then
        summary_of t (r_block_reason r) (r_block_reason r) ''waiting_user_input'' True
      else if r_status r = RS_COMPLETED then
        plain (str_or_else (r_output_summary r) (''Completed: '' @ t_title t)) ''completed''
      else if r_status r = RS_FAILED then
        plain (str_or_else (r_failure_reason r) (''Failed: '' @ t_title t)) ''failed''
      else if r_status r = RS_CANCELLED then plain (''Cancelled: '' @ t_title t) ''cancelled''
      else if r_status r = RS_WAITING_EXECUTOR then plain waiting ''waiting_executor''
      else plain (str_or_else (r_latest_progress_message r) (''Running: '' @ t_title t)) ''running'')"

section \<open>The schedule\<close>

definition schedule_key :: "task \<Rightarrow> int \<times> str" where
  "schedule_key t = (- t_priority t, t_task_id t)"

definition list_runnable_tasks :: "blackboard \<Rightarrow> task list" where
  "list_runnable_tasks s = sort_key schedule_key (query_runnable_tasks s)"

section \<open>The executor registry\<close>

text \<open>The registry maps an executor type to what the reconcile loop uses of the executor.\<close>

definition registry_register :: "('e \<Rightarrow> str) \<Rightarrow> 'e \<Rightarrow> (str, 'e) dict \<Rightarrow> (str, 'e) dict" where
  "registry_register typ e d = dict_put (typ e) e d"

definition registry_get :: "(str, 'e) dict \<Rightarrow> str \<Rightarrow> 'e result" where
  "registry_get d k = (case map_of d k of Some e \<Rightarrow> Inr e | None \<Rightarrow> Inl (UnknownExecutorError k))"

section \<open>Runs\<close>

definition create_run ::
    "str option \<Rightarrow> str \<Rightarrow> task \<Rightarrow> execution_session \<Rightarrow> str option \<Rightarrow> str \<Rightarrow> blackboard \<Rightarrow>
     execution_run \<times> execution_session \<times> blackboard" where
  "create_run ctx uid t x claimed_by executor_type s =
     (let rid = ''run-'' @ uid;
          r = \<lparr>r_run_id = rid, r_task_id = t_task_id t,
               r_execution_session_id = s_execution_session_id x, r_executor_type = executor_type,
               r_status = RS_ASSIGNED, r_claimed_by = claimed_by, r_run_revision = t_task_revision t,
               r_latest_progress_message = None, r_output_summary = None, r_block_reason = None,
               r_failure_reason = None, r_metadata = []\<rparr>;
          x' = x\<lparr>s_run_ids := s_run_ids x @ [rid], s_active_run_id := Some rid,
                 s_latest_run_id := Some rid\<rparr>
      in (r, x', put_session ctx x' (put_run ctx r s)))"

text \<open>\<open>isinstance(message, str) and message.strip()\<close>.\<close>

definition msg_nonblank :: "str option \<Rightarrow> bool" where
  "msg_nonblank m = (case m of Some x \<Rightarrow> py_strip x \<noteq> [] | None \<Rightarrow> False)"

definition detail_text :: "task \<Rightarrow> executor_event \<Rightarrow> str" where
  "detail_text t ev =
     (if msg_nonblank (ev_message ev) then py_strip (the (ev_message ev))
      else case ev_event_type ev of
        EV_PROGRESS \<Rightarrow> ''Running: '' @ t_title t
      | EV_PLAN \<Rightarrow> ''Plan updated: '' @ t_title t
      | EV_WAITING_EXECUTOR \<Rightarrow> ''Waiting for executor: '' @ t_title t
      | EV_BLOCKED \<Rightarrow> ''Blocked: '' @ t_title t
      | EV_COMPLETED \<Rightarrow> ''Completed: '' @ t_title t
      | EV_FAILED \<Rightarrow> ''Failed: '' @ t_title t
      | EV_CANCELLED \<Rightarrow> ''Cancelled: '' @ t_title t)"

text \<open>\<open>if event.metadata: run.metadata[key] = dict(event.metadata)\<close>.\<close>

definition note_event :: "str \<Rightarrow> executor_event \<Rightarrow> execution_run \<Rightarrow> execution_run" where
  "note_event key ev r =
     (if ev_metadata ev \<noteq> [] then r\<lparr>r_metadata := dict_put key (JObj (ev_metadata ev)) (r_metadata r)\<rparr>
      else r)"

definition note_transcript :: "executor_event \<Rightarrow> execution_run \<Rightarrow> execution_run" where
  "note_transcript ev r =
     (case (jstr_nonempty (jget (ev_metadata ev) ''source_audio_instruction_id''),
            jstr_nonblank (jget (ev_metadata ev) ''transcript_text'')) of
        (Some audio_id, Some transcript) \<Rightarrow>
          (let transcripts = (case jget (r_metadata r) ''audio_transcripts'' of JObj d \<Rightarrow> d | _ \<Rightarrow> [])
           in r\<lparr>r_metadata := dict_put ''audio_transcripts''
                  (JObj (dict_put audio_id (JStr (py_strip transcript)) transcripts)) (r_metadata r)\<rparr>)
      | _ \<Rightarrow> r)"

text \<open>
  The branch of an event type: the new task, the new run, and whether a detail entry is
  appended.
\<close>

definition event_effect :: "task \<Rightarrow> execution_run \<Rightarrow> executor_event \<Rightarrow> task \<times> execution_run \<times> bool" where
  "event_effect t r ev =
     (case ev_event_type ev of
        EV_PROGRESS \<Rightarrow>
          (let r1 = r\<lparr>r_status := RS_RUNNING\<rparr>;
               fresh = (msg_nonblank (ev_message ev) \<and> ev_message ev \<noteq> r_latest_progress_message r);
               r2 = (if fresh then r1\<lparr>r_latest_progress_message := ev_message ev\<rparr> else r1);
               r3 = (if ev_metadata ev \<noteq> []
                     then note_transcript ev (note_event ''latest_progress_event'' ev r2) else r2)
           in (t\<lparr>t_status := TS_RUNNING\<rparr>, r3, fresh))
      | EV_PLAN \<Rightarrow>
          (t\<lparr>t_status := TS_RUNNING\<rparr>, note_event ''latest_plan_event'' ev (r\<lparr>r_status := RS_RUNNING\<rparr>), True)
      | EV_WAITING_EXECUTOR \<Rightarrow>
          (let r1 = r\<lparr>r_status := RS_WAITING_EXECUTOR\<rparr>;
               r2 = (if msg_nonblank (ev_message ev)
                     then r1\<lparr>r_latest_progress_message := ev_message ev\<rparr> else r1)
           in (t\<lparr>t_status := TS_WAITING_EXECUTOR\<rparr>, note_event ''executor_wait_event'' ev r2, True))
      | EV_BLOCKED \<Rightarrow>
          (t\<lparr>t_status := TS_WAITING_USER_INPUT\<rparr>,
           note_event ''blocked_event'' ev (r\<lparr>r_status := RS_BLOCKED, r_block_reason := ev_message ev\<rparr>), True)
      | EV_COMPLETED \<Rightarrow>
          (t\<lparr>t_status := TS_COMPLETED\<rparr>,
           note_event ''latest_terminal_event'' ev
             (r\<lparr>r_status := RS_COMPLETED, r_output_summary := ev_message ev\<rparr>), True)
      | EV_FAILED \<Rightarrow>
          (t\<lparr>t_status := TS_FAILED\<rparr>,
           note_event ''latest_terminal_event'' ev
             (r\<lparr>r_status := RS_FAILED, r_failure_reason := ev_message ev\<rparr>), True)
      | EV_CANCELLED \<Rightarrow>
          (t\<lparr>t_status := TS_CANCELLED\<rparr>, r\<lparr>r_status := RS_CANCELLED\<rparr>, True))"

text \<open>\<open>previous != current\<close>: all fields, the metadata by Python's equality of dictionaries.\<close>

definition run_changed :: "execution_run \<Rightarrow> execution_run \<Rightarrow> bool" where
  "run_changed p c \<longleftrightarrow>
     p\<lparr>r_metadata := []\<rparr> \<noteq> c\<lparr>r_metadata := []\<rparr> \<or> jdict_differs (r_metadata p) (r_metadata c)"

definition task_changed :: "task \<Rightarrow> task \<Rightarrow> bool" where
  "task_changed p c \<longleftrightarrow>
     p\<lparr>t_metadata := []\<rparr> \<noteq> c\<lparr>t_metadata := []\<rparr> \<or> jdict_differs (t_metadata p) (t_metadata c)"

definition event_detail :: "str \<Rightarrow> str \<Rightarrow> task \<Rightarrow> execution_run \<Rightarrow> executor_event \<Rightarrow> task_execution_detail_entry" where
  "event_detail uid now t r ev =
     \<lparr>d_detail_id = ''detail-'' @ uid, d_task_id = t_task_id t, d_run_id = r_run_id r,
      d_execution_session_id = r_execution_session_id r,
      d_event_type = executor_event_type_value (ev_event_type ev), d_text = detail_text t ev,
      d_created_at = now,
      d_payload = [(''session_id'', JStr (ev_session_id ev)), (''message'', json_of_str (ev_message ev)),
                   (''metadata'', JObj (ev_metadata ev))]\<rparr>"

definition apply_event ::
    "str option \<Rightarrow> str \<Rightarrow> str \<Rightarrow> task \<Rightarrow> execution_run \<Rightarrow> executor_event \<Rightarrow> blackboard \<Rightarrow>
     task \<times> execution_run \<times> blackboard" where
  "apply_event ctx uid now t r ev s =
     (if t_status t = TS_CANCELLED \<and> ev_event_type ev \<noteq> EV_CANCELLED then (t, r, s)
      else
        (let (t', r', append) = event_effect t r ev;
             s1 = (if append then append_task_execution_detail ctx (event_detail uid now t r ev) s else s);
             s2 = (if run_changed r r' then put_run ctx r' s1 else s1);
             s3 = (if task_changed t t' then put_task ctx t' s2 else s2)
         in (t', r', s3)))"

section \<open>The store through the managers\<close>

lemma bb_wf_initialize_mode [intro]: "bb_wf s \<Longrightarrow> bb_wf (snd (initialize_task_mode c k s))"
  by (auto simp: initialize_task_mode_def Let_def split: option.splits)

lemma bb_wf_classify [intro]: "bb_wf s \<Longrightarrow> bb_wf (snd (classify th c tid rid st el s))"
  by (auto simp: classify_def initialize_task_mode_def Let_def split: option.splits)

lemma bb_wf_apply_event [intro]: "bb_wf s \<Longrightarrow> bb_wf (snd (snd (apply_event c uid now t r ev s)))"
  by (auto simp: apply_event_def Let_def split: prod.splits)

lemma bb_wf_create_run [intro]: "bb_wf s \<Longrightarrow> bb_wf (snd (snd (create_run c uid t x cl ty s)))"
  by (auto simp: create_run_def Let_def)

lemma claim_task_cases:
  assumes "claim_task parse fmt w lease c n1 n2 t s = Inr (res, s')"
  obtains
    (refused) b e where "res = None" "s' = s" "get_binding s (t_task_id t) = Some b"
      "b_claim_expires_at b = Some e" "\<exists>x. parse e = Some x \<and> n1 < x" "b_claimed_by b \<notin> {None, Some w}"
  | (granted) "res = Some (claimed_binding fmt w lease n2 t (get_binding s (t_task_id t)))"
      "s' = put_binding c (the res) s"
      "\<forall>b e x. get_binding s (t_task_id t) = Some b \<longrightarrow> b_claim_expires_at b = Some e \<longrightarrow>
         parse e = Some x \<longrightarrow> n1 < x \<longrightarrow> b_claimed_by b \<in> {None, Some w}"
  using assms
  by (auto simp: claim_task_def claim_is_active_def Let_def split: option.splits if_splits sum.splits)

section \<open>Properties of leases\<close>

text \<open>A sequence of attempts to claim one task, each by a worker at an instant; the grants.\<close>

fun grants ::
    "(str \<Rightarrow> int option) \<Rightarrow> (int \<Rightarrow> str) \<Rightarrow> int \<Rightarrow> task \<Rightarrow> (str \<times> int) list \<Rightarrow> blackboard \<Rightarrow> (str \<times> int) list" where
  "grants parse fmt lease t [] s = []"
| "grants parse fmt lease t ((w, now) # as) s =
     (case claim_task parse fmt w lease None now now t s of
        Inl _ \<Rightarrow> grants parse fmt lease t as s
      | Inr (None, s') \<Rightarrow> grants parse fmt lease t as s'
      | Inr (Some b, s') \<Rightarrow> (w, now) # grants parse fmt lease t as s')"

definition lease_gap :: "int \<Rightarrow> str \<times> int \<Rightarrow> str \<times> int \<Rightarrow> bool" where
  "lease_gap lease g h \<longleftrightarrow> fst g = fst h \<or> snd g + lease \<le> snd h"

definition held_by :: "(int \<Rightarrow> str) \<Rightarrow> int \<Rightarrow> task \<Rightarrow> str \<times> int \<Rightarrow> blackboard \<Rightarrow> bool" where
  "held_by fmt lease t g s \<longleftrightarrow>
     (\<exists>b. get_binding s (t_task_id t) = Some b \<and> b_claimed_by b = Some (fst g) \<and>
          b_claim_expires_at b = Some (fmt (snd g + lease)))"

lemma held_after_claim:
  "claim_task parse fmt w lease c n n t s = Inr (Some b, s') \<Longrightarrow> held_by fmt lease t (w, n) s'"
  by (erule claim_task_cases)
    (auto simp: held_by_def claimed_binding_def get_binding_def)

lemma grants_chain:
  assumes "held_by fmt lease t g s" and "parse (fmt (snd g + lease)) = Some (snd g + lease)"
    and "\<forall>a \<in> set as. parse (fmt (snd a + lease)) = Some (snd a + lease)"
  shows "successively (lease_gap lease) (g # grants parse fmt lease t as s)"
  using assms
proof (induction parse fmt lease t as s arbitrary: g rule: grants.induct)
  case (2 parse fmt lease t w now as s)
  obtain b where b: "get_binding s (t_task_id t) = Some b" "b_claimed_by b = Some (fst g)"
    "b_claim_expires_at b = Some (fmt (snd g + lease))"
    using 2(4) by (auto simp: held_by_def)
  show ?case
  proof (cases "claim_task parse fmt w lease None now now t s")
    case (Inl e)
    then show ?thesis using 2 by simp
  next
    case (Inr rs)
    obtain res s' where rs: "rs = (res, s')" by (cases rs)
    show ?thesis
    proof (cases res)
      case None
      then have "s' = s" using Inr rs by (auto elim: claim_task_cases)
      then show ?thesis using 2 None Inr rs by simp
    next
      case (Some bound)
      have "lease_gap lease g (w, now)"
        using Inr rs Some b 2(5)
        by (auto simp: lease_gap_def elim!: claim_task_cases)
      moreover have "successively (lease_gap lease) ((w, now) # grants parse fmt lease t as s')"
        using 2(3) [OF Inr rs [symmetric] Some] held_after_claim 2(6) Inr rs Some by auto
      ultimately show ?thesis using Inr rs Some by simp
    qed
  qed
qed simp


definition unary_fmt :: "int \<Rightarrow> str" where
  "unary_fmt n = replicate (nat n) CHR ''x''"

definition unary_parse :: "str \<Rightarrow> int option" where
  "unary_parse s = Some (int (length s))"

definition sample_task :: task where
  "sample_task = \<lparr>t_task_id = ''task-1'', t_root_task_id = ''task-1'', t_parent_task_id = None,
     t_title = ''Fix'', t_goal = ''Fix it'', t_status = TS_QUEUED, t_priority = 5,
     t_interruptible = True, t_requires_confirmation = False, t_preferred_executor = None,
     t_session_affinity = None, t_task_revision = 0, t_latest_instruction = None, t_metadata = []\<rparr>"


section \<open>Properties of classification\<close>

text \<open>What the reconcile loop does with one task: initialise, then classify after each event.\<close>

definition classify_run ::
    "rat \<Rightarrow> str option \<Rightarrow> str \<Rightarrow> (str \<times> run_status \<times> rat) list \<Rightarrow> blackboard \<Rightarrow> blackboard" where
  "classify_run th ctx tid obs s =
     foldl (\<lambda>s (rid, st, el). snd (classify th ctx tid rid st el s)) (snd (initialize_task_mode ctx tid s)) obs"

definition mode_of_observations :: "rat \<Rightarrow> (str \<times> run_status \<times> rat) list \<Rightarrow> execution_mode" where
  "mode_of_observations th obs =
     (if list_ex (\<lambda>(rid, st, el). el \<ge> th) obs then EM_MANAGED
      else if list_ex (\<lambda>(rid, st, el). st \<in> set terminal_run_statuses) obs then EM_LIGHTWEIGHT
      else EM_UNDECIDED)"

lemma next_mode_step:
  "next_mode th (mode_of_observations th obs) st el = mode_of_observations th (obs @ [(rid, st, el)])"
  by (auto simp: next_mode_def mode_of_observations_def)

lemma undecided_prefix:
  "mode_of_observations th (obs @ [x]) = EM_UNDECIDED \<Longrightarrow> mode_of_observations th obs = EM_UNDECIDED"
  by (auto simp: mode_of_observations_def split: if_splits)

definition mode_record :: "rat \<Rightarrow> str \<Rightarrow> (str \<times> run_status \<times> rat) list \<Rightarrow> task_execution_mode \<Rightarrow> bool" where
  "mode_record th tid obs m \<longleftrightarrow>
     em_task_id m = tid \<and> em_mode m = mode_of_observations th obs \<and>
     em_decided_from_run_id m =
       (if mode_of_observations th obs = EM_UNDECIDED then None else Some (fst (last obs)))"

lemma classify_run_snoc:
  assumes "get_execution_mode (classify_run th ctx tid obs s) tid = Some m" and "mode_record th tid obs m"
  shows "\<exists>m'. get_execution_mode (classify_run th ctx tid (obs @ [ob]) s) tid = Some m' \<and>
      mode_record th tid (obs @ [ob]) m'"
    and "k \<noteq> tid \<Longrightarrow> get_execution_mode (classify_run th ctx tid (obs @ [ob]) s) k =
      get_execution_mode (classify_run th ctx tid obs s) k"
proof -
  obtain rid st el where ob: "ob = (rid, st, el)" by (cases ob)
  let ?s = "classify_run th ctx tid obs s"
  have step: "classify_run th ctx tid (obs @ [ob]) s = snd (classify th ctx tid rid st el ?s)"
    by (simp add: classify_run_def ob)
  have nm: "next_mode th (em_mode m) st el = mode_of_observations th (obs @ [ob])"
    using assms(2) by (simp add: mode_record_def next_mode_step ob)
  show "\<exists>m'. get_execution_mode (classify_run th ctx tid (obs @ [ob]) s) tid = Some m' \<and>
      mode_record th tid (obs @ [ob]) m'"
    unfolding step using assms nm undecided_prefix [of th obs ob]
    by (auto simp: classify_def initialize_task_mode_def Let_def modes.get_put ob mode_record_def)
  show "k \<noteq> tid \<Longrightarrow> get_execution_mode (classify_run th ctx tid (obs @ [ob]) s) k =
      get_execution_mode ?s k"
    unfolding step using assms
    by (auto simp: classify_def initialize_task_mode_def Let_def modes.get_put mode_record_def)
qed

lemma classify_run_modes:
  assumes "get_execution_mode s tid = None"
  shows "(\<exists>m. get_execution_mode (classify_run th ctx tid obs s) tid = Some m \<and> mode_record th tid obs m) \<and>
    (\<forall>k. k \<noteq> tid \<longrightarrow> get_execution_mode (classify_run th ctx tid obs s) k = get_execution_mode s k)"
proof (induction obs rule: rev_induct)
  case Nil
  then show ?case
    using assms
    by (auto simp: classify_run_def initialize_task_mode_def mode_of_observations_def Let_def
        modes.get_put mode_record_def)
next
  case (snoc ob obs)
  then obtain m where "get_execution_mode (classify_run th ctx tid obs s) tid = Some m"
    and "mode_record th tid obs m"
    by auto
  from classify_run_snoc [OF this, where ob = ob] snoc.IH show ?case by simp
qed

text \<open>The mode of a task depends only on what was observed, not on the order: it is managed
  when some observation reached the threshold, otherwise lightweight when some run ended,
  otherwise undecided; and the deciding run recorded is the last one observed. Other tasks'
  modes are untouched.\<close>

theorem classification_characterised:
  assumes "get_execution_mode s tid = None"
  shows "(\<exists>m. get_execution_mode (classify_run th ctx tid obs s) tid = Some m \<and>
      em_mode m = mode_of_observations th obs \<and>
      em_decided_from_run_id m =
        (if mode_of_observations th obs = EM_UNDECIDED then None else Some (fst (last obs)))) \<and>
    (\<forall>k. k \<noteq> tid \<longrightarrow> get_execution_mode (classify_run th ctx tid obs s) k = get_execution_mode s k)"
  using classify_run_modes [OF assms, of th ctx obs] unfolding mode_record_def by blast

theorem classification_characterised_witness:
  "\<exists>m. get_execution_mode
      (classify_run 30 None ''t'' [(''r1'', RS_COMPLETED, 2), (''r2'', RS_RUNNING, 31)] bb_init) ''t'' = Some m \<and>
    em_mode m = EM_MANAGED \<and> em_decided_from_run_id m = Some ''r2''"
proof -
  have "get_execution_mode bb_init ''t'' = None" by (simp add: get_execution_mode_def bb_init_def)
  from classification_characterised [OF this, of 30 None
      "[(''r1'', RS_COMPLETED, 2), (''r2'', RS_RUNNING, 31)]"]
  show ?thesis by (simp add: mode_of_observations_def)
qed

section \<open>Properties of events and summaries\<close>

text \<open>The events of one run, applied in order.\<close>

fun apply_events ::
    "str option \<Rightarrow> str \<Rightarrow> task \<Rightarrow> execution_run \<Rightarrow> (str \<times> executor_event) list \<Rightarrow> blackboard \<Rightarrow>
     task \<times> execution_run \<times> blackboard" where
  "apply_events ctx now t r [] s = (t, r, s)"
| "apply_events ctx now t r ((uid, ev) # evs) s =
     (let (t', r', s') = apply_event ctx uid now t r ev s in apply_events ctx now t' r' evs s')"

fun statuses_of :: "executor_event_type \<Rightarrow> task_status \<times> run_status" where
  "statuses_of EV_PROGRESS = (TS_RUNNING, RS_RUNNING)"
| "statuses_of EV_PLAN = (TS_RUNNING, RS_RUNNING)"
| "statuses_of EV_WAITING_EXECUTOR = (TS_WAITING_EXECUTOR, RS_WAITING_EXECUTOR)"
| "statuses_of EV_BLOCKED = (TS_WAITING_USER_INPUT, RS_BLOCKED)"
| "statuses_of EV_COMPLETED = (TS_COMPLETED, RS_COMPLETED)"
| "statuses_of EV_FAILED = (TS_FAILED, RS_FAILED)"
| "statuses_of EV_CANCELLED = (TS_CANCELLED, RS_CANCELLED)"

lemma statuses_of_cancelled:
  "statuses_of e = (TS_CANCELLED, q) \<longleftrightarrow> e = EV_CANCELLED \<and> q = RS_CANCELLED"
  "(TS_CANCELLED, q) = statuses_of e \<longleftrightarrow> e = EV_CANCELLED \<and> q = RS_CANCELLED"
  by (cases e; auto)+

definition event_types :: "(str \<times> executor_event) list \<Rightarrow> executor_event_type list" where
  "event_types evs = map (\<lambda>x. ev_event_type (snd x)) evs"

definition outcome_of :: "executor_event_type list \<Rightarrow> task_status \<times> run_status" where
  "outcome_of tys = (if EV_CANCELLED \<in> set tys then (TS_CANCELLED, RS_CANCELLED) else statuses_of (last tys))"

lemma note_event_frame [simp]:
  "r_status (note_event k ev r) = r_status r" "r_run_id (note_event k ev r) = r_run_id r"
  "r_task_id (note_event k ev r) = r_task_id r"
  "r_execution_session_id (note_event k ev r) = r_execution_session_id r"
  "r_block_reason (note_event k ev r) = r_block_reason r"
  by (simp_all add: note_event_def)

lemma note_transcript_frame [simp]:
  "r_status (note_transcript ev r) = r_status r" "r_run_id (note_transcript ev r) = r_run_id r"
  "r_task_id (note_transcript ev r) = r_task_id r"
  "r_execution_session_id (note_transcript ev r) = r_execution_session_id r"
  "r_block_reason (note_transcript ev r) = r_block_reason r"
  by (simp_all add: note_transcript_def Let_def split: option.split)

lemma event_effect_status:
  "event_effect t r ev = (t', r', a) \<Longrightarrow>
     (t_status t', r_status r') = statuses_of (ev_event_type ev) \<and> t' = t\<lparr>t_status := t_status t'\<rparr> \<and>
     r_run_id r' = r_run_id r \<and> r_task_id r' = r_task_id r"
  by (cases "ev_event_type ev") (auto simp: event_effect_def Let_def)

lemma apply_event_status:
  assumes "apply_event ctx uid now t r ev s = (t', r', s')"
  shows "(t_status t', r_status r') =
      (if t_status t = TS_CANCELLED \<and> ev_event_type ev \<noteq> EV_CANCELLED then (t_status t, r_status r)
       else statuses_of (ev_event_type ev))"
    and "t' = t\<lparr>t_status := t_status t'\<rparr>" and "r_run_id r' = r_run_id r"
  using assms event_effect_status
  by (auto simp: apply_event_def Let_def split: if_splits prod.splits)

lemma apply_events_snoc:
  "apply_events ctx now t r (evs @ [(uid, ev)]) s =
     (let (t', r', s') = apply_events ctx now t r evs s in apply_event ctx uid now t' r' ev s')"
  by (induction evs arbitrary: t r s) (auto split: prod.splits)

lemma events_decide_statuses:
  assumes "t_status t \<noteq> TS_CANCELLED" and "evs \<noteq> []"
    and "apply_events ctx now t r evs s = (t', r', s')"
  shows "(t_status t', r_status r') = outcome_of (event_types evs)"
  using assms(2,3)
proof (induction evs arbitrary: t' r' s' rule: rev_induct)
  case (snoc x evs)
  obtain uid ev where x: "x = (uid, ev)" by (cases x)
  obtain t1 r1 s1 where mid: "apply_events ctx now t r evs s = (t1, r1, s1)"
    by (cases "apply_events ctx now t r evs s")
  have last: "apply_event ctx uid now t1 r1 ev s1 = (t', r', s')"
    using snoc.prems mid by (simp add: x apply_events_snoc)
  show ?case
  proof (cases "evs = []")
    case True
    then have "t1 = t" using mid by simp
    with True last assms(1) show ?thesis
      by (cases "ev_event_type ev") (auto simp: x outcome_of_def event_types_def dest: apply_event_status(1))
  next
    case False
    then have "(t_status t1, r_status r1) = outcome_of (event_types evs)"
      using snoc.IH mid by simp
    moreover have "last (event_types evs) \<in> set (event_types evs)"
      using False by (intro last_in_set) (simp add: event_types_def)
    moreover have "event_types (evs @ [x]) = event_types evs @ [ev_event_type ev]"
      by (simp add: event_types_def x)
    ultimately show ?thesis
      using apply_event_status(1) [OF last]
      by (auto simp: outcome_of_def statuses_of_cancelled split: if_splits)
  qed
qed simp

text \<open>C5: the task and the run never disagree, and cancellation is final. After any nonempty
  sequence of executor events on a task that was not cancelled, the two statuses are those of
  the last event, unless some event cancelled the task, and then both stay cancelled whatever
  came after.\<close>

theorem events_decide_outcome:
  assumes "t_status t \<noteq> TS_CANCELLED" and "evs \<noteq> []"
    and "apply_events ctx now t r evs s = (t', r', s')"
  shows "(t_status t', r_status r') = outcome_of (event_types evs)"
  using assms by (rule events_decide_statuses)

definition sample_run :: execution_run where
  "sample_run = \<lparr>r_run_id = ''run-1'', r_task_id = ''task-1'', r_execution_session_id = ''es-1'',
     r_executor_type = ''codex'', r_status = RS_ASSIGNED, r_claimed_by = Some ''w'',
     r_run_revision = 0, r_latest_progress_message = None, r_output_summary = None,
     r_block_reason = None, r_failure_reason = None, r_metadata = []\<rparr>"

definition sample_event :: "executor_event_type \<Rightarrow> executor_event" where
  "sample_event ty = \<lparr>ev_run_id = ''run-1'', ev_session_id = ''es-1'', ev_event_type = ty,
     ev_message = Some ''Which branch?'', ev_metadata = []\<rparr>"

theorem events_decide_outcome_witness:
  "\<exists>t' r' s'. apply_events None ''now'' sample_task sample_run
      [(''1'', sample_event EV_CANCELLED), (''2'', sample_event EV_COMPLETED)] bb_init = (t', r', s') \<and>
    (t_status t', r_status r') = (TS_CANCELLED, RS_CANCELLED)"
proof -
  let ?evs = "[(''1'', sample_event EV_CANCELLED), (''2'', sample_event EV_COMPLETED)]"
  obtain t' r' s' where run: "apply_events None ''now'' sample_task sample_run ?evs bb_init = (t', r', s')"
    by (cases "apply_events None ''now'' sample_task sample_run ?evs bb_init")
  have "(t_status t', r_status r') = outcome_of (event_types ?evs)"
    by (rule events_decide_outcome [OF _ _ run]) (simp_all add: sample_task_def)
  with run show ?thesis by (simp add: outcome_of_def event_types_def sample_event_def)
qed

lemma summary_of_outcome:
  assumes "(t_status t, r_status r) = outcome_of tys"
  shows "sm_latest_user_visible_status (build_summary t r) = Some (task_status_value (t_status t))"
    and "sm_needs_user_input (build_summary t r) \<longleftrightarrow> last tys = EV_BLOCKED \<and> EV_CANCELLED \<notin> set tys"
  using assms
  by (cases "EV_CANCELLED \<in> set tys"; cases "last tys";
      auto simp: outcome_of_def build_summary_def summary_of_def Let_def)+

text \<open>What the user is told follows the work. The summary built after a run's events shows
  the task's own status as the visible one, and asks for input exactly when the last event was
  a block and nothing cancelled the task.\<close>

theorem summary_follows_events:
  assumes "t_status t \<noteq> TS_CANCELLED" and "evs \<noteq> []"
    and "apply_events ctx now t r evs s = (t', r', s')"
  shows "sm_latest_user_visible_status (build_summary t' r') = Some (task_status_value (t_status t')) \<and>
    (sm_needs_user_input (build_summary t' r') \<longleftrightarrow>
       last (event_types evs) = EV_BLOCKED \<and> EV_CANCELLED \<notin> set (event_types evs))"
  using summary_of_outcome [OF events_decide_statuses [OF assms]] by blast

theorem summary_follows_events_witness:
  "\<exists>t' r' s'. apply_events None ''now'' sample_task sample_run
      [(''1'', sample_event EV_PROGRESS), (''2'', sample_event EV_BLOCKED)] bb_init = (t', r', s') \<and>
    sm_needs_user_input (build_summary t' r')"
proof -
  let ?evs = "[(''1'', sample_event EV_PROGRESS), (''2'', sample_event EV_BLOCKED)]"
  obtain t' r' s' where run: "apply_events None ''now'' sample_task sample_run ?evs bb_init = (t', r', s')"
    by (cases "apply_events None ''now'' sample_task sample_run ?evs bb_init")
  have "sm_needs_user_input (build_summary t' r') \<longleftrightarrow>
      last (event_types ?evs) = EV_BLOCKED \<and> EV_CANCELLED \<notin> set (event_types ?evs)"
    using summary_follows_events [OF _ _ run] by (simp add: sample_task_def)
  then show ?thesis using run by (simp add: event_types_def sample_event_def)
qed

section \<open>Properties of the schedule\<close>

text \<open>The schedule offers every runnable task exactly once, highest priority first and by id
  among equals, and nothing else.\<close>

theorem schedule_is_sorted_runnable:
  "mset (list_runnable_tasks s) =
     filter_mset (\<lambda>t. t_status t = TS_CREATED \<or> t_status t = TS_QUEUED) (mset (list_tasks s)) \<and>
   sorted_wrt (\<lambda>a b. t_priority a > t_priority b \<or> t_priority a = t_priority b \<and> t_task_id a \<le> t_task_id b)
     (list_runnable_tasks s)"
proof
  have "(\<lambda>t. t_status t \<in> set [TS_CREATED, TS_QUEUED]) =
      (\<lambda>t. t_status t = TS_CREATED \<or> t_status t = TS_QUEUED)"
    by auto
  then show "mset (list_runnable_tasks s) =
     filter_mset (\<lambda>t. t_status t = TS_CREATED \<or> t_status t = TS_QUEUED) (mset (list_tasks s))"
    by (simp add: list_runnable_tasks_def query_runnable_tasks_def list_tasks_by_status_def)
  have "sorted (map schedule_key (list_runnable_tasks s))"
    by (simp add: list_runnable_tasks_def)
  then have "sorted_wrt (\<lambda>a b. schedule_key a \<le> schedule_key b) (list_runnable_tasks s)"
    by (simp add: sorted_map)
  then show "sorted_wrt (\<lambda>a b. t_priority a > t_priority b \<or> t_priority a = t_priority b \<and> t_task_id a \<le> t_task_id b)
     (list_runnable_tasks s)"
    by (rule sorted_wrt_mono_rel [rotated]) (auto simp: schedule_key_def less_eq_prod_def)
qed

end
