(* ===== verification/PyText.thy ===== *)
theory PyText
  imports Protocol
begin

text \<open>
  Python's text conversions the code relies on: decimal numerals in f-strings, \<open>str.title\<close>,
  \<open>chr\<close>, and \<open>str\<close> / \<open>repr\<close> of JSON values. The shortest decimal representation of a \<open>float\<close>
  is the parameter \<open>fr\<close>. Characters are those below 256, so \<open>title\<close> leaves the three letters
  alone whose capital lies outside that range.
\<close>

section \<open>Numerals\<close>

definition py_digit :: "nat \<Rightarrow> char" where
  "py_digit n = char_of (48 + n)"

fun py_of_nat :: "nat \<Rightarrow> str" where
  "py_of_nat n = (if n < 10 then [py_digit n] else py_of_nat (n div 10) @ [py_digit (n mod 10)])"

declare py_of_nat.simps [simp del]

definition py_of_int :: "int \<Rightarrow> str" where
  "py_of_int i = (if i < 0 then CHR ''-'' # py_of_nat (nat (- i)) else py_of_nat (nat i))"

definition py_chr :: "nat \<Rightarrow> str" where
  "py_chr n = [char_of n]"

text \<open>The value of a string of decimal digits, read from the left.\<close>

definition digits_value :: "str \<Rightarrow> nat" where
  "digits_value s = foldl (\<lambda>v c. 10 * v + (of_char c - 48)) 0 s"

lemma of_char_py_digit: "n < 10 \<Longrightarrow> (of_char (py_digit n) :: nat) = 48 + n"
  by (simp add: py_digit_def)

lemma digits_value_snoc: "digits_value (s @ [c]) = 10 * digits_value s + (of_char c - 48)"
  by (simp add: digits_value_def)

lemma digits_value_py_of_nat: "digits_value (py_of_nat n) = n"
proof (induction n rule: py_of_nat.induct)
  case (1 n)
  show ?case
  proof (cases "n < 10")
    case True
    then show ?thesis
      by (simp add: py_of_nat.simps [of n] digits_value_def of_char_py_digit)
  next
    case False
    then have "digits_value (py_of_nat n) = 10 * (n div 10) + n mod 10"
      using 1 by (simp add: py_of_nat.simps [of n] digits_value_snoc of_char_py_digit)
    then show ?thesis by simp
  qed
qed

lemma py_of_nat_inj [simp]: "py_of_nat m = py_of_nat n \<longleftrightarrow> m = n"
  using digits_value_py_of_nat by metis

section \<open>\<open>str.title\<close>\<close>

definition py_is_lower :: "char \<Rightarrow> bool" where
  "py_is_lower c = (let n = of_char c :: nat in 97 \<le> n \<and> n \<le> 122 \<or> 223 \<le> n \<and> n \<le> 255 \<and> n \<noteq> 247 \<or>
     n = 170 \<or> n = 181 \<or> n = 186)"

definition py_is_upper :: "char \<Rightarrow> bool" where
  "py_is_upper c = (let n = of_char c :: nat in 65 \<le> n \<and> n \<le> 90 \<or> 192 \<le> n \<and> n \<le> 222 \<and> n \<noteq> 215)"

definition py_title_char :: "char \<Rightarrow> str" where
  "py_title_char c =
     (let n = of_char c :: nat in
        if n = 223 then ''Ss''
        else if 97 \<le> n \<and> n \<le> 122 \<or> 224 \<le> n \<and> n \<le> 254 \<and> n \<noteq> 247 then [char_of (n - 32)] else [c])"

fun py_title_from :: "bool \<Rightarrow> str \<Rightarrow> str" where
  "py_title_from after_cased [] = []"
| "py_title_from after_cased (c # s) =
     (if after_cased then [py_lower_char c] else py_title_char c) @
     py_title_from (py_is_lower c \<or> py_is_upper c) s"

definition py_title :: "str \<Rightarrow> str" where
  "py_title s = py_title_from False s"

section \<open>\<open>repr\<close> and \<open>str\<close>\<close>

definition py_hex :: "nat \<Rightarrow> char" where
  "py_hex n = (if n < 10 then char_of (48 + n) else char_of (87 + n))"

definition py_escape_char :: "char \<Rightarrow> char \<Rightarrow> str" where
  "py_escape_char quote c =
     (let n = of_char c :: nat in
        if c = quote \<or> n = 92 then [char_of (92 :: nat), c]
        else if n = 9 then [char_of (92 :: nat), CHR ''t'']
        else if n = 10 then [char_of (92 :: nat), CHR ''n'']
        else if n = 13 then [char_of (92 :: nat), CHR ''r'']
        else if n < 32 \<or> 127 \<le> n \<and> n \<le> 160 \<or> n = 173
          then [char_of (92 :: nat), CHR ''x'', py_hex (n div 16), py_hex (n mod 16)]
        else [c])"

definition py_repr_str :: "str \<Rightarrow> str" where
  "py_repr_str s =
     (let single = char_of (39 :: nat); double = char_of (34 :: nat);
          quote = (if single \<in> set s \<and> double \<notin> set s then double else single)
      in [quote] @ concat (map (py_escape_char quote) s) @ [quote])"

fun py_repr :: "(rat \<Rightarrow> str) \<Rightarrow> json \<Rightarrow> str" where
  "py_repr fr JNull = ''None''"
| "py_repr fr (JBool b) = (if b then ''True'' else ''False'')"
| "py_repr fr (JInt i) = py_of_int i"
| "py_repr fr (JFloat r) = fr r"
| "py_repr fr (JStr s) = py_repr_str s"
| "py_repr fr (JList xs) = ''['' @ py_join '', '' (map (py_repr fr) xs) @ '']''"
| "py_repr fr (JObj d) =
     ''{'' @ py_join '', '' (map (\<lambda>p. py_repr_str (fst p) @ '': '' @ py_repr fr (snd p)) d) @ ''}''"

definition py_str :: "(rat \<Rightarrow> str) \<Rightarrow> json \<Rightarrow> str" where
  "py_str fr v = (case v of JStr s \<Rightarrow> s | _ \<Rightarrow> py_repr fr v)"

lemma py_str_JStr [simp]: "py_str fr (JStr s) = s"
  by (simp add: py_str_def)

text \<open>\<open>a or b\<close> on values.\<close>

definition jor :: "json \<Rightarrow> json \<Rightarrow> json" where
  "jor a b = (if jtruthy a then a else b)"

end
