(* ===== verification/Interaction.thy ===== *)
theory Interaction
  imports Blackboard PyText
begin

text \<open>
  Interaction requests (\<open>src/newbro/interaction/\<close>): what a blocked run, a summary or a blocked
  Codex turn asks of the user, how an answer resolves it, and what of it a client may see.
  \<open>manager.py\<close>'s \<open>InteractionManager\<close> holds only the store, so its methods are functions on
  the store; the module's helpers are pure functions. Fresh ids (\<open>uid\<close>, the hexadecimal part of a
  \<open>uuid4\<close>) and clock readings (\<open>now\<close>) are arguments, and \<open>ctx\<close> is the diagnostic context's
  request id that every write event records. \<open>fr\<close> is Python's \<open>repr\<close> of a float.
\<close>

section \<open>Sanitization\<close>

definition client_safe_native_response_param_keys :: "str list" where
  "client_safe_native_response_param_keys =
     [''threadId'', ''turnId'', ''itemId'', ''reason'', ''command'']"

definition client_safe_blocked_event_keys :: "str list" where
  "client_safe_blocked_event_keys = [''thread_id'', ''prompt'', ''interaction_kind'', ''blocked_method'']"

text \<open>The loops \<open>for key in keys: value = d.get(key); if ..: out[key] = value\<close>.\<close>

definition copy_keys :: "(json \<Rightarrow> bool) \<Rightarrow> str list \<Rightarrow> jdict \<Rightarrow> jdict \<Rightarrow> jdict" where
  "copy_keys p keys d out =
     foldl (\<lambda>out k. if p (jget d k) then dict_put k (jget d k) out else out) out keys"

definition build_interaction_request_opaque :: "json \<Rightarrow> jdict" where
  "build_interaction_request_opaque blocked_event =
     (case jobj blocked_event of
        None \<Rightarrow> []
      | Some be \<Rightarrow>
          (case jget be ''native_response'' of
             JObj nr \<Rightarrow> [(''native_response'', JObj nr)]
           | _ \<Rightarrow> []))"

definition sanitize_native_response_for_client :: "json \<Rightarrow> jdict option" where
  "sanitize_native_response_for_client native_response =
     (case jobj native_response of
        None \<Rightarrow> None
      | Some nr \<Rightarrow>
          (let out = copy_keys (\<lambda>v. v \<noteq> JNull) [''request_id'', ''method''] nr [];
               out' = (case jget nr ''params'' of
                   JObj params \<Rightarrow>
                     (let sp = copy_keys (\<lambda>v. jstr_nonempty v \<noteq> None)
                            client_safe_native_response_param_keys params []
                      in if sp \<noteq> [] then dict_put ''params'' (JObj sp) out else out)
                 | _ \<Rightarrow> out)
           in if out' \<noteq> [] then Some out' else None))"

definition sanitize_blocked_event_for_client :: "json \<Rightarrow> jdict option" where
  "sanitize_blocked_event_for_client blocked_event =
     (case jobj blocked_event of
        None \<Rightarrow> None
      | Some be \<Rightarrow>
          (let out = copy_keys (\<lambda>v. v \<noteq> JNull) client_safe_blocked_event_keys be [];
               out' = (case sanitize_native_response_for_client (jget be ''native_response'') of
                   Some nr \<Rightarrow> dict_put ''native_response'' (JObj nr) out
                 | None \<Rightarrow> out)
           in if out' \<noteq> [] then Some out' else None))"

definition sanitize_interaction_request_opaque :: "jdict \<Rightarrow> jdict" where
  "sanitize_interaction_request_opaque opaque =
     (case sanitize_native_response_for_client (jget opaque ''native_response'') of
        Some nr \<Rightarrow> [(''native_response'', JObj nr)]
      | None \<Rightarrow> [])"

definition sanitize_interaction_request_details :: "jdict \<Rightarrow> jdict" where
  "sanitize_interaction_request_details details =
     (case sanitize_blocked_event_for_client (jget details ''blocked_event'') of
        None \<Rightarrow> dict_pop ''blocked_event'' details
      | Some be \<Rightarrow> dict_put ''blocked_event'' (JObj be) details)"

section \<open>Classification of a prompt\<close>

definition classify_prompt :: "str \<Rightarrow> json \<Rightarrow> interaction_request_kind" where
  "classify_prompt prompt blocked_event =
     (let explicit = (case blocked_event of JObj be \<Rightarrow> jget be ''interaction_kind'' | _ \<Rightarrow> JNull);
          normalized = py_lower prompt
      in if explicit = JStr ''plan_proposal'' then IK_PLAN_PROPOSAL
         else if explicit = JStr ''permission'' then IK_PERMISSION
         else if explicit = JStr ''confirmation'' then IK_CONFIRMATION
         else if explicit = JStr ''question'' then IK_QUESTION
         else if list_ex (py_contains normalized) [''allow'', ''permission'', ''approve'', ''grant access'']
           then IK_PERMISSION
         else if list_ex (py_contains normalized) [''confirm'', ''confirmation'', ''are you sure'']
           then IK_CONFIRMATION
         else IK_QUESTION)"

definition actions_for_kind :: "interaction_request_kind \<Rightarrow> str list" where
  "actions_for_kind k =
     (if k = IK_PERMISSION then [''approve'', ''deny'']
      else if k = IK_PLAN_PROPOSAL then [''approve'', ''deny'']
      else if k = IK_CONFIRMATION then [''confirm'', ''cancel'']
      else [''answer''])"

definition answer_schema_for :: "interaction_request_kind \<Rightarrow> jdict option" where
  "answer_schema_for k = (if k = IK_QUESTION then Some [(''type'', JStr ''string'')] else None)"

definition action_label :: "interaction_request_kind \<Rightarrow> str \<Rightarrow> str" where
  "action_label k action =
     (if k = IK_PLAN_PROPOSAL \<and> action = ''deny'' then ''Keep planning''
      else if k = IK_PLAN_PROPOSAL \<and> action = ''approve'' then ''Approve & run''
      else case map_of [(''approve'', ''Allow''), (''deny'', ''Deny''), (''answer'', ''Answer''),
                        (''confirm'', ''Confirm''), (''cancel'', ''Cancel'')] action of
             Some l \<Rightarrow> l
           | None \<Rightarrow> py_title (py_replace_char (CHR ''_'') '' '' action))"

definition attention_actions_for_request :: "interaction_request \<Rightarrow> jdict list" where
  "attention_actions_for_request q =
     map (\<lambda>a. [(''action'', JStr a), (''label'', JStr (action_label (i_kind q) a))]) (i_available_actions q)"

definition attention_kind_of :: "interaction_request_kind \<Rightarrow> attention_item_kind" where
  "attention_kind_of k =
     (case k of IK_PERMISSION \<Rightarrow> AK_PERMISSION_REQUEST | IK_QUESTION \<Rightarrow> AK_QUESTION_REQUEST
      | IK_CONFIRMATION \<Rightarrow> AK_CONFIRMATION_REQUEST | IK_PLAN_PROPOSAL \<Rightarrow> AK_PLAN_PROPOSAL_REQUEST)"

text \<open>\<open>str(actor) if isinstance(actor, str) and actor else task.title\<close>.\<close>

definition task_subject :: "task \<Rightarrow> str" where
  "task_subject t =
     (case jstr_nonempty (jget (t_metadata t) ''persona_name'') of Some a \<Rightarrow> a | None \<Rightarrow> t_title t)"

definition request_title :: "task \<Rightarrow> interaction_request_kind \<Rightarrow> str" where
  "request_title t k =
     task_subject t @
     (case k of IK_PERMISSION \<Rightarrow> '' needs permission'' | IK_CONFIRMATION \<Rightarrow> '' needs confirmation''
      | IK_PLAN_PROPOSAL \<Rightarrow> '' proposed a plan'' | IK_QUESTION \<Rightarrow> '' needs your input'')"

definition task_signal_title :: "task \<Rightarrow> attention_item_kind \<Rightarrow> str" where
  "task_signal_title t k =
     task_subject t @
     (if k = AK_TASK_PAUSED then '' paused'' else if k = AK_TASK_RESUMED then '' resumed'' else [])"

section \<open>Plan proposals\<close>

text \<open>An option of a question, at its position in the executor's list of options.\<close>

definition normalized_option :: "nat \<Rightarrow> json \<Rightarrow> json option" where
  "normalized_option index opt =
     (case jobj opt of
        None \<Rightarrow> None
      | Some o' \<Rightarrow>
          (case jstr_nonblank (jget o' ''label'') of
             None \<Rightarrow> None
           | Some label \<Rightarrow>
               Some (JObj
                 [(''id'', JStr (case jstr_nonempty (jget o' ''id'') of Some i \<Rightarrow> i | None \<Rightarrow> py_strip label)),
                  (''label'', JStr (py_strip label)),
                  (''description'',
                     JStr (case jstr (jget o' ''description'') of Some d \<Rightarrow> py_strip d | None \<Rightarrow> [])),
                  (''letter'', JStr (py_chr (65 + index)))])))"

definition normalized_options :: "json \<Rightarrow> json list" where
  "normalized_options options =
     (case jlist options of
        None \<Rightarrow> []
      | Some os \<Rightarrow> List.map_filter (\<lambda>(i, opt). normalized_option i opt) (enumerate 0 os))"

text \<open>One question; \<open>n\<close> is the number of questions already normalised.\<close>

definition normalized_question :: "nat \<Rightarrow> jdict \<Rightarrow> jdict" where
  "normalized_question n q =
     (let header = jget q ''header'';
          question_text = jor (jor (jget q ''question'') (jget q ''prompt'')) header
      in [(''question_id'',
             JStr (case jstr_nonblank (jget q ''id'') of
                     Some i \<Rightarrow> py_strip i | None \<Rightarrow> ''question_'' @ py_of_nat (n + 1))),
          (''header'',
             JStr (case jstr_nonblank header of
                     Some h \<Rightarrow> py_strip h
                   | None \<Rightarrow> (case jstr_nonblank question_text of
                                Some t \<Rightarrow> py_strip t | None \<Rightarrow> ''Question '' @ py_of_nat (n + 1)))),
          (''summary'',
             JStr (case jstr_nonblank question_text of
                     Some t \<Rightarrow> py_strip t | None \<Rightarrow> ''Review the proposed plan.'')),
          (''options'', JList (normalized_options (jget q ''options'')))])"

fun normalized_questions :: "nat \<Rightarrow> json list \<Rightarrow> jdict list" where
  "normalized_questions n [] = []"
| "normalized_questions n (q # qs) =
     (case jobj q of
        None \<Rightarrow> normalized_questions n qs
      | Some d \<Rightarrow> normalized_question n d # normalized_questions (n + 1) qs)"

definition proposal_details_from_native_params :: "jdict \<Rightarrow> jdict option" where
  "proposal_details_from_native_params params =
     (case jlist (jget params ''questions'') of
        None \<Rightarrow> None
      | Some qs \<Rightarrow>
          (case normalized_questions 0 qs of
             [] \<Rightarrow> None
           | first # rest \<Rightarrow>
               Some [(''questions'', JList (map JObj (first # rest))),
                     (''question_id'', jget first ''question_id''),
                     (''summary'', jget first ''summary''),
                     (''options'', jget first ''options'')]))"

definition proposal_details_from_blocked_event :: "json \<Rightarrow> jdict option" where
  "proposal_details_from_blocked_event blocked_event =
     (case jobj blocked_event of
        None \<Rightarrow> None
      | Some be \<Rightarrow>
          (case jget be ''proposal'' of
             JObj p \<Rightarrow> Some p
           | _ \<Rightarrow>
               (case jget be ''native_response'' of
                  JObj nr \<Rightarrow>
                    (case jget nr ''params'' of
                       JObj params \<Rightarrow> proposal_details_from_native_params params
                     | _ \<Rightarrow> None)
                | _ \<Rightarrow> None)))"

type_synonym answers = "(str, str list) dict"

text \<open>\<open>[value.strip() for value in values if value.strip()]\<close>.\<close>

definition clean_values :: "str list \<Rightarrow> str list" where
  "clean_values vs = filter (\<lambda>v. v \<noteq> []) (map py_strip vs)"

fun collect_answers :: "answers \<Rightarrow> json list \<Rightarrow> answers \<times> str list \<Rightarrow> answers \<times> str list" where
  "collect_answers answers [] acc = acc"
| "collect_answers answers (q # qs) (ns, missing) =
     (case jobj q of
        None \<Rightarrow> collect_answers answers qs (ns, missing)
      | Some d \<Rightarrow>
          (case jstr_nonblank (jget d ''question_id'') of
             None \<Rightarrow> collect_answers answers qs (ns, missing)
           | Some k \<Rightarrow>
               (let values = clean_values (case map_of answers k of Some vs \<Rightarrow> vs | None \<Rightarrow> [])
                in if values = [] then collect_answers answers qs (ns, missing @ [k])
                   else collect_answers answers qs (dict_put k values ns, missing))))"

definition normalize_proposal_answers :: "interaction_request \<Rightarrow> answers option \<Rightarrow> answers option result" where
  "normalize_proposal_answers q answers =
     (case jget (i_details q) ''proposal'' of
        JObj proposal \<Rightarrow>
          (case jget proposal ''questions'' of
             JList questions \<Rightarrow>
               if length questions \<le> 1 then Inr answers
               else (case answers of
                  None \<Rightarrow> Inl (ValueError ''answers are required for multi-question plan proposals.'')
                | Some a \<Rightarrow>
                    (let (ns, missing) = collect_answers a questions ([], []) in
                     if missing \<noteq> []
                     then Inl (ValueError (''answers are required for proposal questions: '' @
                                 py_join '', '' missing @ ''.''))
                     else Inr (Some ns)))
           | _ \<Rightarrow> Inr answers)
      | _ \<Rightarrow> Inr answers)"

definition answer_part :: "(rat \<Rightarrow> str) \<Rightarrow> answers \<Rightarrow> json \<Rightarrow> str option" where
  "answer_part fr answers q =
     (case jobj q of
        None \<Rightarrow> None
      | Some d \<Rightarrow>
          (case jstr_nonempty (jget d ''question_id'') of
             None \<Rightarrow> None
           | Some k \<Rightarrow>
               (let label = jor (jor (jget d ''header'') (jget d ''summary'')) (JStr k);
                    values = clean_values (case map_of answers k of Some vs \<Rightarrow> vs | None \<Rightarrow> [])
                in if values = [] then None
                   else Some (py_strip (py_str fr label) @ '': '' @ py_join '', '' values))))"

definition proposal_answers_summary :: "(rat \<Rightarrow> str) \<Rightarrow> interaction_request \<Rightarrow> answers \<Rightarrow> str" where
  "proposal_answers_summary fr q answers =
     (case jget (i_details q) ''proposal'' of
        JObj proposal \<Rightarrow>
          (case jget proposal ''questions'' of
             JList questions \<Rightarrow> py_join ''; '' (List.map_filter (answer_part fr answers) questions)
           | _ \<Rightarrow> [])
      | _ \<Rightarrow> [])"

text \<open>The first option with the chosen id (any id when none was chosen) and a usable label.\<close>

fun first_option_label :: "str option \<Rightarrow> json list \<Rightarrow> str option" where
  "first_option_label option_id [] = None"
| "first_option_label option_id (opt # rest) =
     (case jobj opt of
        None \<Rightarrow> first_option_label option_id rest
      | Some d \<Rightarrow>
          if str_truthy option_id \<and> jget d ''id'' \<noteq> json_of_str option_id
          then first_option_label option_id rest
          else (case jstr_nonblank (jget d ''label'') of
                  Some l \<Rightarrow> Some (py_strip l)
                | None \<Rightarrow> first_option_label option_id rest))"

definition opt_nonblank :: "str option \<Rightarrow> bool" where
  "opt_nonblank a = (case a of Some x \<Rightarrow> py_strip x \<noteq> [] | None \<Rightarrow> False)"

definition plan_proposal_answer_text ::
    "(rat \<Rightarrow> str) \<Rightarrow> interaction_request \<Rightarrow> str \<Rightarrow> str option \<Rightarrow> str option \<Rightarrow> answers option \<Rightarrow> str" where
  "plan_proposal_answer_text fr q action answer_text option_id answers =
     (if opt_nonblank answer_text then py_strip (the answer_text)
      else
        (let summary = (case answers of Some a \<Rightarrow> (if a \<noteq> [] then proposal_answers_summary fr q a else [])
                        | None \<Rightarrow> [])
         in if summary \<noteq> [] then summary
            else if action = ''deny'' then ''Keep planning. Refine the proposal instead of acting yet.''
            else
              (let options = (case jget (i_details q) ''proposal'' of
                      JObj p \<Rightarrow> (case jget p ''options'' of JList os \<Rightarrow> os | _ \<Rightarrow> [])
                    | _ \<Rightarrow> [])
               in case first_option_label option_id options of
                    Some l \<Rightarrow> l
                  | None \<Rightarrow> ''Approve and run the proposed plan.'')))"

section \<open>Building requests and attention items\<close>

text \<open>The loop over the source keys of \<open>_request_details\<close>: the first usable value of a detail wins.\<close>

fun copy_details :: "(str \<times> str) list \<Rightarrow> jdict \<Rightarrow> jdict \<Rightarrow> jdict" where
  "copy_details [] meta details = details"
| "copy_details ((source_key, detail_key) # rest) meta details =
     (if detail_key \<in> set (dict_keys details) then copy_details rest meta details
      else case jstr_nonempty (jget meta source_key) of
             Some v \<Rightarrow> copy_details rest meta (dict_put detail_key (JStr v) details)
           | None \<Rightarrow> copy_details rest meta details)"

definition put_some :: "str \<Rightarrow> json option \<Rightarrow> jdict \<Rightarrow> jdict" where
  "put_some k v d = (case v of Some w \<Rightarrow> dict_put k w d | None \<Rightarrow> d)"

definition request_details :: "task \<Rightarrow> json \<Rightarrow> jdict" where
  "request_details t blocked_event =
     (let meta = t_metadata t;
          d1 = copy_details
            [(''persona_id'', ''persona_id''), (''assigned_bro_id'', ''persona_id''),
             (''target_thread_id'', ''target_thread_id''), (''bro_thread_id'', ''target_thread_id''),
             (''client_request_id'', ''client_request_id''), (''source_kind'', ''source_kind'')] meta [];
          d2 = put_some ''persona_name'' (map_option JStr (jstr_nonempty (jget meta ''persona_name''))) d1;
          d3 = put_some ''blocked_event''
            (map_option JObj (sanitize_blocked_event_for_client blocked_event)) d2
      in put_some ''proposal'' (map_option JObj (proposal_details_from_blocked_event blocked_event)) d3)"

definition build_request_from_run ::
    "str \<Rightarrow> str \<Rightarrow> task \<Rightarrow> execution_run \<Rightarrow> task_summary option \<Rightarrow> interaction_request" where
  "build_request_from_run uid now t r summary =
     (let conv = (case summary of Some y \<Rightarrow> sm_conversational_summary y | None \<Rightarrow> None);
          prompt = str_or_else (str_or (r_block_reason r) conv) (t_title t @ '' needs your input.'');
          be = jget (r_metadata r) ''blocked_event'';
          kind = classify_prompt prompt be
      in \<lparr>i_request_id = ''ireq-'' @ uid, i_task_id = Some (t_task_id t),
          i_outbound_turn_request_id = None,
          i_execution_session_id = Some (r_execution_session_id r), i_run_id = Some (r_run_id r),
          i_executor_type = Some (r_executor_type r), i_executor_node_id = None, i_kind = kind,
          i_status = IS_PENDING, i_prompt = prompt, i_details = request_details t be,
          i_available_actions = actions_for_kind kind, i_answer_schema = answer_schema_for kind,
          i_resume_strategy = ''follow_up_run'', i_opaque = build_interaction_request_opaque be,
          i_created_at = now, i_resolved_at = None\<rparr>)"

definition build_request_from_summary :: "str \<Rightarrow> str \<Rightarrow> task \<Rightarrow> task_summary \<Rightarrow> interaction_request" where
  "build_request_from_summary uid now t y =
     (let prompt = str_or_else (sm_conversational_summary y) (t_title t @ '' needs your input.'');
          kind = classify_prompt prompt JNull
      in \<lparr>i_request_id = ''ireq-'' @ uid, i_task_id = Some (t_task_id t),
          i_outbound_turn_request_id = None, i_execution_session_id = None, i_run_id = None,
          i_executor_type = None, i_executor_node_id = None, i_kind = kind,
          i_status = IS_PENDING, i_prompt = prompt, i_details = request_details t JNull,
          i_available_actions = actions_for_kind kind, i_answer_schema = answer_schema_for kind,
          i_resume_strategy = ''follow_up_run'', i_opaque = [],
          i_created_at = now, i_resolved_at = None\<rparr>)"

definition outbound_blocked_event :: "str \<Rightarrow> codex_turn_event \<Rightarrow> jdict" where
  "outbound_blocked_event prompt m =
     (let md = ct_metadata m
      in [(''thread_id'', jor (jget md ''thread_id'') (JStr (str_or_else (ct_executor_thread_id m) []))),
          (''prompt'', JStr prompt),
          (''interaction_kind'', jget md ''interaction_kind''),
          (''blocked_method'', jget md ''blocked_method''),
          (''native_response'', jget md ''native_response''),
          (''proposal'', jget md ''proposal'')])"

definition build_request_from_outbound_blocked ::
    "(rat \<Rightarrow> str) \<Rightarrow> str \<Rightarrow> str \<Rightarrow> outbound_turn_request \<Rightarrow> codex_turn_event \<Rightarrow> interaction_request" where
  "build_request_from_outbound_blocked fr uid now ob m =
     (let md = ct_metadata m;
          prompt = py_strip (py_str fr
            (jor (jor (jget md ''prompt'') (json_of_str (ct_message m))) (JStr [])));
          be = JObj (outbound_blocked_event prompt m);
          kind = classify_prompt prompt be;
          d0 = [(''persona_id'', JStr (o_persona_id ob)),
                (''target_thread_id'', json_of_str (o_target_thread_id ob)),
                (''outbound_turn_request_id'', JStr (o_request_id ob))];
          d1 = (if str_truthy (o_client_request_id ob)
                then dict_put ''client_request_id'' (json_of_str (o_client_request_id ob)) d0 else d0);
          d2 = put_some ''blocked_event'' (map_option JObj (sanitize_blocked_event_for_client be)) d1;
          d3 = put_some ''proposal'' (map_option JObj (proposal_details_from_blocked_event be)) d2
      in \<lparr>i_request_id = ''ireq-'' @ uid, i_task_id = None,
          i_outbound_turn_request_id = Some (o_request_id ob), i_execution_session_id = None,
          i_run_id = None, i_executor_type = Some (o_executor_id ob),
          i_executor_node_id = Some (o_executor_node_id ob), i_kind = kind, i_status = IS_PENDING,
          i_prompt = prompt, i_details = d3, i_available_actions = actions_for_kind kind,
          i_answer_schema = answer_schema_for kind,
          i_resume_strategy = (if jobj (jget md ''native_response'') \<noteq> None then ''native_response''
                               else ''follow_up_run''),
          i_opaque = build_interaction_request_opaque be, i_created_at = now, i_resolved_at = None\<rparr>)"

definition build_attention_from_request :: "str \<Rightarrow> str \<Rightarrow> task \<Rightarrow> interaction_request \<Rightarrow> attention_item" where
  "build_attention_from_request uid now t q =
     (let k = attention_kind_of (i_kind q)
      in \<lparr>a_attention_id = ''attention-'' @ uid, a_source = ''interaction_request'', a_kind = k,
          a_priority = AP_P0, a_status = AS_ACTIVE, a_title = request_title t (i_kind q),
          a_body = i_prompt q, a_task_id = Some (t_task_id t), a_request_id = Some (i_request_id q),
          a_actions = attention_actions_for_request q,
          a_dedupe_key = Some (attention_item_kind_value k @ '':'' @ t_task_id t @ '':'' @
            str_or_else (i_run_id q) (i_request_id q)),
          a_metadata = [], a_created_at = now\<rparr>)"

definition build_attention_from_outbound_request ::
    "str \<Rightarrow> str \<Rightarrow> outbound_turn_request \<Rightarrow> interaction_request \<Rightarrow> attention_item" where
  "build_attention_from_outbound_request uid now ob q =
     (let k = attention_kind_of (i_kind q);
          label = (if o_persona_id ob \<noteq> [] then o_persona_id ob else ''Codex'')
      in \<lparr>a_attention_id = ''attention-'' @ uid, a_source = ''interaction_request'', a_kind = k,
          a_priority = AP_P0, a_status = AS_ACTIVE,
          a_title = label @
            (case i_kind q of IK_PERMISSION \<Rightarrow> '' needs permission''
             | IK_CONFIRMATION \<Rightarrow> '' needs confirmation'' | IK_PLAN_PROPOSAL \<Rightarrow> '' proposed a plan''
             | IK_QUESTION \<Rightarrow> '' needs your input''),
          a_body = i_prompt q, a_task_id = None, a_request_id = Some (i_request_id q),
          a_actions = attention_actions_for_request q,
          a_dedupe_key = Some (attention_item_kind_value k @ '':outbound:'' @ o_request_id ob),
          a_metadata = [], a_created_at = now\<rparr>)"

section \<open>The manager\<close>

text \<open>The scans \<open>any(.. and request.status == PENDING for request in existing)\<close>.\<close>

definition pending_for :: "(interaction_request \<Rightarrow> bool) \<Rightarrow> blackboard \<Rightarrow> bool" where
  "pending_for p s = list_ex (\<lambda>q. p q \<and> i_status q = IS_PENDING) (list_interaction_requests s)"

definition open_request ::
    "str option \<Rightarrow> interaction_request \<Rightarrow> attention_item \<Rightarrow> blackboard \<Rightarrow> blackboard" where
  "open_request ctx q a s = put_attention_item ctx a (put_interaction_request ctx q s)"

text \<open>\<open>uid\<close> and \<open>uid'\<close> are the ids of the request and of its attention item.\<close>

definition handle_blackboard_write ::
    "str option \<Rightarrow> str \<Rightarrow> str \<Rightarrow> str \<Rightarrow> str \<Rightarrow> write_event \<Rightarrow> blackboard \<Rightarrow> bool \<times> blackboard" where
  "handle_blackboard_write ctx uid uid' now now' ev s =
     (if we_kind ev = WK_RUN \<and> str_truthy (we_entity_id ev) then
        (case get_run s (the (we_entity_id ev)) of
           None \<Rightarrow> (False, s)
         | Some r \<Rightarrow>
             if r_status r \<noteq> RS_BLOCKED then (False, s)
             else (case get_task s (r_task_id r) of
                None \<Rightarrow> (False, s)
              | Some t \<Rightarrow>
                  if pending_for (\<lambda>q. i_run_id q = Some (r_run_id r)) s then (False, s)
                  else
                    (let q = build_request_from_run uid now t r (get_summary s (t_task_id t))
                     in (True, open_request ctx q (build_attention_from_request uid' now' t q) s))))
      else if we_kind ev = WK_SUMMARY \<and> str_truthy (we_entity_id ev) then
        (case (get_task s (the (we_entity_id ev)), get_summary s (the (we_entity_id ev))) of
           (Some t, Some y) \<Rightarrow>
             if \<not> sm_needs_user_input y then (False, s)
             else if pending_for (\<lambda>q. i_task_id q = Some (t_task_id t)) s then (False, s)
             else
               (let q = build_request_from_summary uid now t y
                in (True, open_request ctx q (build_attention_from_request uid' now' t q) s))
         | _ \<Rightarrow> (False, s))
      else (False, s))"

definition handle_outbound_codex_blocked ::
    "(rat \<Rightarrow> str) \<Rightarrow> str option \<Rightarrow> str \<Rightarrow> str \<Rightarrow> str \<Rightarrow> str \<Rightarrow> outbound_turn_request \<Rightarrow> codex_turn_event \<Rightarrow>
     blackboard \<Rightarrow> interaction_request option \<times> blackboard" where
  "handle_outbound_codex_blocked fr ctx uid uid' now now' ob m s =
     (let md = ct_metadata m;
          prompt = jor (jget md ''prompt'') (json_of_str (ct_message m))
      in if py_lower (ct_event_type m) \<noteq> ''blocked'' then (None, s)
         else if \<not> jtruthy (jget md ''interaction_kind'') then (None, s)
         else if jstr_nonblank prompt = None then (None, s)
         else if pending_for (\<lambda>q. i_outbound_turn_request_id q = Some (o_request_id ob)) s then (None, s)
         else
           (let q = build_request_from_outbound_blocked fr uid now ob m
            in (Some q, open_request ctx q (build_attention_from_outbound_request uid' now' ob q) s)))"

definition mark_attention_for_request ::
    "str option \<Rightarrow> str \<Rightarrow> attention_item_status \<Rightarrow> blackboard \<Rightarrow> blackboard" where
  "mark_attention_for_request ctx rid st s =
     fold (\<lambda>a s. if a_request_id a = Some rid \<and> a_status a \<noteq> st
            then put_attention_item ctx (a\<lparr>a_status := st\<rparr>) s else s)
       (list_attention_items s) s"

definition resolved_status_for_action :: "str \<Rightarrow> interaction_request_status result" where
  "resolved_status_for_action action =
     (case map_of [(''approve'', IS_APPROVED), (''deny'', IS_DENIED), (''answer'', IS_ANSWERED),
                   (''confirm'', IS_RESOLVED), (''cancel'', IS_CANCELLED)] action of
        Some st \<Rightarrow> Inr st
      | None \<Rightarrow> Inl (KeyError action))"

definition build_follow_up_instruction :: "interaction_request \<Rightarrow> str \<Rightarrow> str option \<Rightarrow> str result" where
  "build_follow_up_instruction q action answer_text =
     (if i_kind q = IK_PERMISSION then
        Inr (if action = ''approve''
             then ''The user approved the pending permission request. Continue from where you left off.''
             else ''The user denied the pending permission request. Do not perform that action. '' @
                  ''Continue with an alternative if possible, otherwise ask for next steps.'')
      else if i_kind q = IK_CONFIRMATION then
        Inr (if action = ''confirm'' then ''The user confirmed the pending action. Continue.''
             else ''The user cancelled the pending action. Do not perform it. '' @
                  ''Continue only if there is another safe path.'')
      else if i_kind q = IK_PLAN_PROPOSAL then
        Inr (if action = ''approve''
             then ''The user approved this plan: '' @ py_strip (str_or_else answer_text []) @ ''. '' @
                  ''Proceed with that plan.''
             else ''The user asked you to keep planning. Refine the plan and ask again before acting.'')
      else case answer_text of
        None \<Rightarrow> Inl (ValueError ''answer_text is required for answer actions.'')
      | Some a \<Rightarrow> Inr (''The user answered the pending question: '' @ py_strip a @
                        ''. Continue from where you left off.''))"

record interaction_resolution =
  x_request :: interaction_request
  x_follow_up_instruction :: str
  x_answer_text :: "str option"
  x_answers :: "answers option"

definition json_of_answers :: "answers \<Rightarrow> json" where
  "json_of_answers a = JObj (map (\<lambda>(k, vs). (k, JList (map JStr vs))) a)"

definition resolution_details ::
    "interaction_request \<Rightarrow> str option \<Rightarrow> answers option \<Rightarrow> str option \<Rightarrow> jdict" where
  "resolution_details q option_id answers reason =
     dict_merge (i_details q)
       ((if str_truthy option_id then [(''selected_option_id'', json_of_str option_id)] else []) @
        (if answers \<notin> {None, Some []} then [(''selected_answers'', json_of_answers (the answers))] else []) @
        (if str_truthy reason then [(''resolution_reason'', json_of_str reason)] else []))"

text \<open>
  The request, answer text and answers after the plan proposal's normalisation, or the error
  raised by one of the checks; nothing has been written yet.
\<close>

definition check_resolution ::
    "(rat \<Rightarrow> str) \<Rightarrow> str \<Rightarrow> str \<Rightarrow> str option \<Rightarrow> str option \<Rightarrow> answers option \<Rightarrow> blackboard \<Rightarrow>
     (interaction_request \<times> str option \<times> answers option \<times> interaction_request_status) result" where
  "check_resolution fr rid action answer_text option_id answers s =
     (case get_interaction_request s rid of
        None \<Rightarrow> Inl (KeyError (''Unknown interaction request: '' @ rid))
      | Some q \<Rightarrow>
          if i_status q \<noteq> IS_PENDING then Inl (ValueError ''Interaction request is no longer pending.'')
          else if action \<notin> set (i_available_actions q) then
            Inl (ValueError (''Action '' @ [char_of (39::nat)] @ action @ [char_of (39::nat)] @
              '' is not allowed. Allowed: '' @
              str_or_else (Some (py_join '', '' (i_available_actions q))) ''none'' @ ''.''))
          else
            (case (if i_kind q = IK_PLAN_PROPOSAL
                   then (case normalize_proposal_answers q answers of
                           Inl e \<Rightarrow> Inl e
                         | Inr a \<Rightarrow> Inr (Some (plan_proposal_answer_text fr q action answer_text option_id a), a))
                   else Inr (answer_text, answers)) of
               Inl e \<Rightarrow> Inl e
             | Inr (txt, a) \<Rightarrow>
                 if action = ''answer'' \<and> \<not> opt_nonblank txt
                 then Inl (ValueError ''answer_text is required for answer actions.'')
                 else (case resolved_status_for_action action of
                         Inl e \<Rightarrow> Inl e
                       | Inr st \<Rightarrow> Inr (q, txt, a, st))))"

text \<open>The instruction is built after the writes, so its error would leave them in place.\<close>

definition resolve_request ::
    "(rat \<Rightarrow> str) \<Rightarrow> str option \<Rightarrow> str \<Rightarrow> str \<Rightarrow> str \<Rightarrow> str option \<Rightarrow> str option \<Rightarrow> answers option \<Rightarrow>
     str option \<Rightarrow> blackboard \<Rightarrow> interaction_resolution result \<times> blackboard" where
  "resolve_request fr ctx now rid action answer_text option_id answers reason s =
     (case check_resolution fr rid action answer_text option_id answers s of
        Inl e \<Rightarrow> (Inl e, s)
      | Inr (q, txt, a, st) \<Rightarrow>
          (let q' = q\<lparr>i_status := st, i_resolved_at := Some now,
                      i_details := resolution_details q option_id a reason\<rparr>;
               s' = mark_attention_for_request ctx (i_request_id q) AS_ACTED
                      (put_interaction_request ctx q' s)
           in (case build_follow_up_instruction q' action txt of
                 Inl e \<Rightarrow> Inl e
               | Inr f \<Rightarrow> Inr \<lparr>x_request = q', x_follow_up_instruction = f, x_answer_text = txt,
                                x_answers = a\<rparr>, s')))"

definition add_task_signal_attention ::
    "str option \<Rightarrow> str \<Rightarrow> str \<Rightarrow> task \<Rightarrow> attention_item_kind \<Rightarrow> str \<Rightarrow> blackboard \<Rightarrow>
     attention_item \<times> blackboard" where
  "add_task_signal_attention ctx uid now t k body s =
     (let a = \<lparr>a_attention_id = ''attention-'' @ uid, a_source = ''task_signal'', a_kind = k,
               a_priority = AP_P2, a_status = AS_ACTIVE, a_title = task_signal_title t k,
               a_body = body, a_task_id = Some (t_task_id t), a_request_id = None, a_actions = [],
               a_dedupe_key = Some (attention_item_kind_value k @ '':'' @ t_task_id t @ '':'' @
                 py_of_int (t_task_revision t)),
               a_metadata = [], a_created_at = now\<rparr>
      in (a, put_attention_item ctx a s))"

text \<open>\<open>clock\<close> gives the reading taken when a request is reached.\<close>

definition cancel_one ::
    "str option \<Rightarrow> (str \<Rightarrow> str) \<Rightarrow> str \<Rightarrow> interaction_request \<Rightarrow> blackboard \<Rightarrow> blackboard" where
  "cancel_one ctx clock tid q s =
     (if i_task_id q \<noteq> Some tid \<or> i_status q \<noteq> IS_PENDING then s
      else mark_attention_for_request ctx (i_request_id q) AS_DISMISSED
             (put_interaction_request ctx
                (q\<lparr>i_status := IS_CANCELLED, i_resolved_at := Some (clock (i_request_id q))\<rparr>) s))"

definition cancel_requests_for_task ::
    "str option \<Rightarrow> (str \<Rightarrow> str) \<Rightarrow> str \<Rightarrow> blackboard \<Rightarrow> blackboard" where
  "cancel_requests_for_task ctx clock tid s =
     fold (cancel_one ctx clock tid) (list_interaction_requests s) s"

section \<open>What a client sees\<close>

lemma map_of_copy_keys:
  "map_of (copy_keys p keys d out) k = (if k \<in> set keys \<and> p (jget d k) then Some (jget d k) else map_of out k)"
  unfolding copy_keys_def by (induction keys arbitrary: out) auto

lemma jget_copy_keys:
  "jget (copy_keys p keys d out) k = (if k \<in> set keys \<and> p (jget d k) then jget d k else jget out k)"
  by (simp add: jget_def [of "copy_keys p keys d out"] jget_def [of out] map_of_copy_keys)

lemma copy_keys_cong:
  assumes "\<And>k. k \<in> set keys \<Longrightarrow>
    p (jget d k) = p (jget d' k) \<and> (p (jget d k) \<longrightarrow> jget d k = jget d' k)"
  shows "copy_keys p keys d out = copy_keys p keys d' out"
proof -
  have "(if p (jget d k) then dict_put k (jget d k) out else out) =
      (if p (jget d' k) then dict_put k (jget d' k) out else out)" if "k \<in> set keys" for out k
    using assms [OF that] by (cases "p (jget d k)") auto
  then show ?thesis
    unfolding copy_keys_def by (intro foldl_cong refl)
qed

lemma copy_keys_mem: "(k, v) \<in> set (copy_keys p keys d []) \<Longrightarrow> k \<in> set keys \<and> p v"
proof -
  have wf: "dict_wf (copy_keys p keys d [])"
    unfolding copy_keys_def by (induction keys rule: rev_induct) auto
  show "(k, v) \<in> set (copy_keys p keys d []) \<Longrightarrow> k \<in> set keys \<and> p v"
    by (auto simp: dict_mem_iff [OF wf] map_of_copy_keys split: if_splits)
qed

text \<open>What may reach a client: only listed keys, and only non-empty strings among the parameters.\<close>

definition safe_native_response :: "json \<Rightarrow> bool" where
  "safe_native_response v =
     (case v of
        JObj d \<Rightarrow>
          set (dict_keys d) \<subseteq> {''request_id'', ''method'', ''params''} \<and>
          (case jget d ''params'' of
             JNull \<Rightarrow> True
           | JObj ps \<Rightarrow> list_all (\<lambda>(k, v). k \<in> set client_safe_native_response_param_keys \<and>
                                      jstr_nonempty v \<noteq> None) ps
           | _ \<Rightarrow> False)
      | _ \<Rightarrow> False)"

definition safe_blocked_event :: "json \<Rightarrow> bool" where
  "safe_blocked_event v =
     (case v of
        JObj d \<Rightarrow>
          set (dict_keys d) \<subseteq> insert ''native_response'' (set client_safe_blocked_event_keys) \<and>
          (jget d ''native_response'' = JNull \<or> safe_native_response (jget d ''native_response''))
      | _ \<Rightarrow> False)"

lemma keys_put_mem: "k \<in> set (dict_keys (dict_put k' v d)) \<longleftrightarrow> k = k' \<or> k \<in> set (dict_keys d)"
  by (simp add: dict_keys_put) blast

lemma keys_copy_mem: "k \<in> set (dict_keys (copy_keys p keys d [])) \<Longrightarrow> k \<in> set keys"
  by (auto simp: in_dict_keys_iff map_of_copy_keys split: if_splits)

lemma native_response_safe:
  assumes "sanitize_native_response_for_client v = Some nr"
  shows "safe_native_response (JObj nr)"
proof -
  obtain d where v: "v = JObj d"
    using assms by (cases v) (auto simp: sanitize_native_response_for_client_def)
  have ps: "list_all (\<lambda>(k, v). k \<in> set client_safe_native_response_param_keys \<and> jstr_nonempty v \<noteq> None)
      (copy_keys (\<lambda>v. jstr_nonempty v \<noteq> None) client_safe_native_response_param_keys params [])" for params
    by (auto simp: list_all_iff dest!: copy_keys_mem)
  show ?thesis
    using assms ps unfolding v sanitize_native_response_for_client_def safe_native_response_def
    by (auto simp: Let_def keys_put_mem jget_copy_keys dest!: keys_copy_mem split: json.splits if_splits)
qed

lemma blocked_event_safe:
  assumes "sanitize_blocked_event_for_client v = Some be"
  shows "safe_blocked_event (JObj be)"
proof -
  obtain d where v: "v = JObj d"
    using assms by (cases v) (auto simp: sanitize_blocked_event_for_client_def)
  show ?thesis
    using assms native_response_safe
    unfolding v sanitize_blocked_event_for_client_def safe_blocked_event_def
    by (auto simp: Let_def keys_put_mem jget_copy_keys client_safe_blocked_event_keys_def
        dest!: keys_copy_mem split: option.splits if_splits)
qed

lemma sanitize_native_response_again:
  assumes "sanitize_native_response_for_client v = Some nr"
  shows "sanitize_native_response_for_client (JObj nr) = Some nr"
proof -
  obtain d where v: "v = JObj d"
    using assms by (cases v) (auto simp: sanitize_native_response_for_client_def)
  let ?base = "\<lambda>d. copy_keys (\<lambda>v. v \<noteq> JNull) [''request_id'', ''method''] d []"
  let ?ps = "\<lambda>d. copy_keys (\<lambda>v. jstr_nonempty v \<noteq> None) client_safe_native_response_param_keys d []"
  have base1: "?base (?base d) = ?base d" for d
    by (rule copy_keys_cong) (auto simp: jget_copy_keys)
  have base2: "?base (dict_put ''params'' w (?base d)) = ?base d" for w d
    by (rule copy_keys_cong) (auto simp: jget_copy_keys)
  have ps: "?ps (?ps d) = ?ps d" for d
    by (rule copy_keys_cong) (auto simp: jget_copy_keys)
  show ?thesis
    using assms base1 base2 ps unfolding v sanitize_native_response_for_client_def
    by (auto simp: Let_def jget_copy_keys split: json.splits if_splits)
qed

lemma sanitize_blocked_event_again:
  assumes "sanitize_blocked_event_for_client v = Some be"
  shows "sanitize_blocked_event_for_client (JObj be) = Some be"
proof -
  obtain d where v: "v = JObj d"
    using assms by (cases v) (auto simp: sanitize_blocked_event_for_client_def)
  let ?base = "\<lambda>d. copy_keys (\<lambda>v. v \<noteq> JNull) client_safe_blocked_event_keys d []"
  have base1: "?base (?base d) = ?base d" for d
    by (rule copy_keys_cong) (auto simp: jget_copy_keys)
  have base2: "?base (dict_put ''native_response'' w (?base d)) = ?base d" for w d
    by (rule copy_keys_cong) (auto simp: jget_copy_keys client_safe_blocked_event_keys_def)
  have none: "sanitize_native_response_for_client JNull = None"
    by (simp add: sanitize_native_response_for_client_def)
  show ?thesis
    using assms base1 base2 none sanitize_native_response_again
    unfolding v sanitize_blocked_event_for_client_def
    by (auto simp: Let_def jget_copy_keys client_safe_blocked_event_keys_def
        split: option.splits if_splits)
qed

text \<open>nothing but the listed fields of a blocked event reaches a client. The details sent
  out either carry no blocked event or one made of the listed keys, whose native response has
  only listed keys and whose parameters are non-empty strings under listed names; every other
  detail is untouched, and sanitizing twice is sanitizing once.\<close>

theorem client_details_whitelisted:
  "(jget (sanitize_interaction_request_details d) ''blocked_event'' = JNull \<or>
      safe_blocked_event (jget (sanitize_interaction_request_details d) ''blocked_event'')) \<and>
   dict_pop ''blocked_event'' (sanitize_interaction_request_details d) = dict_pop ''blocked_event'' d \<and>
   sanitize_interaction_request_details (sanitize_interaction_request_details d) =
     sanitize_interaction_request_details d"
proof (cases "sanitize_blocked_event_for_client (jget d ''blocked_event'')")
  case None
  have "sanitize_blocked_event_for_client JNull = None"
    by (simp add: sanitize_blocked_event_for_client_def)
  then show ?thesis
    using None by (simp add: sanitize_interaction_request_details_def dict_pop_def delete_idem
        jget_def delete_conv')
next
  case (Some be)
  then show ?thesis
    using blocked_event_safe [OF Some] sanitize_blocked_event_again [OF Some]
    by (simp add: sanitize_interaction_request_details_def dict_put_def dict_pop_def jget_def update_conv'
        delete_update_same)
qed

end
