(* ===== verification/Interaction_Props.thy ===== *)
theory Interaction_Props
  imports Interaction
begin

text \<open>
  The properties of \<open>InteractionManager\<close>: what cancelling and resolving do to the requests and
  to their attention items, and the invariants of every interleaving of its operations with the
  rest of the store's writes (a step relation and rule induction).
\<close>

section \<open>Frames of the manager's loops\<close>

definition same_requests :: "blackboard \<Rightarrow> blackboard \<Rightarrow> bool" where
  "same_requests s t \<longleftrightarrow>
     bb_interaction_requests s = bb_interaction_requests t \<and>
     bb_interaction_request_order s = bb_interaction_request_order t"

lemma same_requests_read:
  assumes "same_requests s t"
  shows "get_interaction_request s = get_interaction_request t"
    and "list_interaction_requests s = list_interaction_requests t"
  using assms
  by (simp_all add: same_requests_def get_interaction_request_def list_interaction_requests_def fun_eq_iff)

lemma same_requests_put:
  "same_requests s t \<Longrightarrow> same_requests (put_interaction_request c q s) (put_interaction_request c q t)"
  by (simp add: same_requests_def put_interaction_request_def publish_def Let_def)

lemma same_requests_attention: "same_requests (put_attention_item c a s) s"
  by (simp add: same_requests_def put_attention_item_def publish_def Let_def)

lemma same_requests_trans: "same_requests s t \<Longrightarrow> same_requests t u \<Longrightarrow> same_requests s u"
  by (simp add: same_requests_def)

lemma same_requests_refl [simp]: "same_requests s s"
  by (simp add: same_requests_def)

lemma mark_put_each:
  "mark_attention_for_request ctx rid st s =
     attention.put_each ctx (\<lambda>a. a_request_id a = Some rid \<and> a_status a \<noteq> st) (\<lambda>a. a\<lparr>a_status := st\<rparr>)
       (list_attention_items s) s"
  by (simp add: mark_attention_for_request_def attention.put_each_def)

lemma same_requests_mark: "same_requests (mark_attention_for_request ctx rid st s) s"
proof -
  have "same_requests (fold (\<lambda>a s. if p a then put_attention_item ctx (f a) s else s) xs s) s" for p f xs s
  proof (induction xs arbitrary: s)
    case (Cons x xs)
    show ?case
      using Cons.IH [of s] same_requests_trans [OF Cons.IH same_requests_attention]
      by (cases "p x") simp_all
  qed simp
  then show ?thesis unfolding mark_attention_for_request_def .
qed

lemma mark_attention_frame [simp]:
  "get_interaction_request (mark_attention_for_request ctx rid st s) = get_interaction_request s"
  "list_interaction_requests (mark_attention_for_request ctx rid st s) = list_interaction_requests s"
  using same_requests_read [OF same_requests_mark] by simp_all

lemma bb_wf_mark [intro]: "bb_wf s \<Longrightarrow> bb_wf (mark_attention_for_request ctx rid st s)"
  unfolding mark_put_each by (rule attention.wf_put_each)

lemma list_attention_mark:
  assumes "bb_wf s"
  shows "list_attention_items (mark_attention_for_request ctx rid st s) =
    map (\<lambda>a. if a_request_id a = Some rid then a\<lparr>a_status := st\<rparr> else a) (list_attention_items s)"
  unfolding mark_put_each using assms
  by (subst attention.elems_put_each_self) (auto intro!: map_cong attention_item.equality)

definition cancel_pred :: "str \<Rightarrow> interaction_request \<Rightarrow> bool" where
  "cancel_pred tid q \<longleftrightarrow> i_task_id q = Some tid \<and> i_status q = IS_PENDING"

definition cancelled :: "(str \<Rightarrow> str) \<Rightarrow> interaction_request \<Rightarrow> interaction_request" where
  "cancelled clock q = q\<lparr>i_status := IS_CANCELLED, i_resolved_at := Some (clock (i_request_id q))\<rparr>"

lemma cancel_put_each:
  "same_requests s t \<Longrightarrow>
   same_requests (fold (cancel_one ctx clock tid) xs s)
     (requests.put_each ctx (cancel_pred tid) (cancelled clock) xs t)"
proof (induction xs arbitrary: s t)
  case Nil
  then show ?case by (simp add: requests.put_each_def)
next
  case (Cons x xs)
  have "same_requests (cancel_one ctx clock tid x s)
      (if cancel_pred tid x then put_interaction_request ctx (cancelled clock x) t else t)"
    using Cons.prems same_requests_trans [OF same_requests_mark same_requests_put [OF Cons.prems]]
    by (simp add: cancel_one_def cancel_pred_def cancelled_def)
  from Cons.IH [OF this] show ?case by (simp add: requests.put_each_def)
qed

lemma bb_wf_cancel_one: "bb_wf s \<Longrightarrow> bb_wf (cancel_one ctx clock tid q s)"
  by (simp add: cancel_one_def bb_wf_mark bb_wf_put_interaction_request)

lemma bb_wf_cancel [intro]: "bb_wf s \<Longrightarrow> bb_wf (cancel_requests_for_task ctx clock tid s)"
proof -
  have "bb_wf (fold (cancel_one ctx clock tid) xs s)" if "bb_wf s" for xs s
    using that by (induction xs arbitrary: s) (simp_all add: bb_wf_cancel_one)
  then show "bb_wf s \<Longrightarrow> bb_wf (cancel_requests_for_task ctx clock tid s)"
    by (simp add: cancel_requests_for_task_def)
qed

lemma list_requests_cancel:
  assumes "bb_wf s"
  shows "list_interaction_requests (cancel_requests_for_task ctx clock tid s) =
    map (\<lambda>q. if cancel_pred tid q then cancelled clock q else q) (list_interaction_requests s)"
  using same_requests_read(2) [OF cancel_put_each [OF same_requests_refl]] assms
  by (simp add: cancel_requests_for_task_def requests.elems_put_each_self cancelled_def)

text \<open>Cancelling a task leaves none of its requests pending, settles each of them as
  cancelled, and touches no other request.\<close>

theorem cancel_settles_task_requests:
  assumes "bb_wf s"
  shows "list_interaction_requests (cancel_requests_for_task ctx clock tid s) =
      map (\<lambda>q. if i_task_id q = Some tid \<and> i_status q = IS_PENDING
               then q\<lparr>i_status := IS_CANCELLED, i_resolved_at := Some (clock (i_request_id q))\<rparr> else q)
        (list_interaction_requests s) \<and>
    \<not> pending_for (\<lambda>q. i_task_id q = Some tid) (cancel_requests_for_task ctx clock tid s)"
  by (auto simp: list_requests_cancel [OF assms] pending_for_def list_ex_iff cancel_pred_def
      cancelled_def split: if_splits)

definition asking_task :: task where
  "asking_task = \<lparr>t_task_id = ''task-1'', t_root_task_id = ''task-1'', t_parent_task_id = None,
     t_title = ''Deploy'', t_goal = ''Deploy it'', t_status = TS_WAITING_USER_INPUT, t_priority = 5,
     t_interruptible = True, t_requires_confirmation = False, t_preferred_executor = None,
     t_session_affinity = None, t_task_revision = 0, t_latest_instruction = None, t_metadata = []\<rparr>"

definition asking_summary :: task_summary where
  "asking_summary = \<lparr>sm_task_id = ''task-1'', sm_operational_summary = None,
     sm_conversational_summary = Some ''Which branch?'',
     sm_latest_user_visible_status = Some ''waiting_user_input'', sm_needs_user_input = True\<rparr>"

definition asking_store :: blackboard where
  "asking_store = put_summary None asking_summary (put_task None asking_task bb_init)"

definition asked_store :: blackboard where
  "asked_store = snd (handle_blackboard_write None ''1'' ''2'' ''now'' ''now''
     (write_event_of WK_SUMMARY (Some ''task-1'') (Some ''task-1'') []) asking_store)"

lemma init_interaction [simp]:
  "list_interaction_requests bb_init = []" "get_interaction_request bb_init = (\<lambda>k. None)"
  "list_attention_items bb_init = []" "get_attention_item bb_init = (\<lambda>k. None)"
  by (simp_all add: get_attention_item_def get_interaction_request_def list_interaction_requests_def list_attention_items_def
      bb_init_def ordered_values_def map_filter_simps fun_eq_iff)

lemma asking_store_wf [simp]: "bb_wf asking_store"
  by (simp add: asking_store_def bb_wf_put_summary bb_wf_put_task bb_wf_init)

lemma asked_store_eq:
  "asked_store = open_request None (build_request_from_summary ''1'' ''now'' asking_task asking_summary)
     (build_attention_from_request ''2'' ''now'' asking_task
        (build_request_from_summary ''1'' ''now'' asking_task asking_summary)) asking_store"
  by (simp add: asked_store_def handle_blackboard_write_def write_event_of_def asking_store_def
      tasks.get_put get_summary_put asking_task_def asking_summary_def pending_for_def Let_def)

lemma sample_prompt_kind: "i_kind (build_request_from_summary ''1'' ''now'' asking_task asking_summary) = IK_QUESTION"
  by code_simp

lemma asked_store_requests:
  "list_interaction_requests asked_store = [build_request_from_summary ''1'' ''now'' asking_task asking_summary]"
  by (simp add: asked_store_eq open_request_def requests.elems_put)
    (simp add: asking_store_def)

lemma asked_store_wf [simp]: "bb_wf asked_store"
  by (simp add: asked_store_eq open_request_def bb_wf_put_attention_item bb_wf_put_interaction_request)

theorem cancel_settles_task_requests_witness:
  "map i_status (list_interaction_requests asked_store) = [IS_PENDING] \<and>
   map i_status (list_interaction_requests (cancel_requests_for_task None (\<lambda>_. ''later'') ''task-1'' asked_store)) =
     [IS_CANCELLED]"
proof -
  let ?s = "cancel_requests_for_task None (\<lambda>_. ''later'') ''task-1'' asked_store"
  have "list_interaction_requests ?s = map (\<lambda>q. if i_task_id q = Some ''task-1'' \<and> i_status q = IS_PENDING
      then q\<lparr>i_status := IS_CANCELLED, i_resolved_at := Some ''later''\<rparr> else q)
      (list_interaction_requests asked_store)"
    using cancel_settles_task_requests [OF asked_store_wf, of None "\<lambda>_. ''later''" "''task-1''"] by blast
  then show ?thesis
    by (simp add: asked_store_requests build_request_from_summary_def asking_task_def Let_def)
qed

section \<open>Resolution\<close>

lemma check_resolution_ok:
  assumes "check_resolution fr rid action txt opt ans s = Inr (q, txt', ans', st)"
  shows "get_interaction_request s rid = Some q" and "i_status q = IS_PENDING"
    and "action \<in> set (i_available_actions q)" and "resolved_status_for_action action = Inr st"
    and "i_kind q \<noteq> IK_PLAN_PROPOSAL \<Longrightarrow> txt' = txt" and "action = ''answer'' \<Longrightarrow> opt_nonblank txt'"
  using assms by (auto simp: check_resolution_def Let_def split: option.splits if_splits sum.splits prod.splits)

lemma resolved_status_settled:
  "resolved_status_for_action action = Inr st \<Longrightarrow> st \<noteq> IS_PENDING"
  by (auto simp: resolved_status_for_action_def split: option.splits if_splits)

lemma resolve_request_cases:
  obtains (refused) e where "resolve_request fr ctx now rid action txt opt ans reason s = (Inl e, s)"
  | (settled) q txt' ans' st res where
      "check_resolution fr rid action txt opt ans s = Inr (q, txt', ans', st)"
      and "resolve_request fr ctx now rid action txt opt ans reason s =
        (res, mark_attention_for_request ctx (i_request_id q) AS_ACTED
           (put_interaction_request ctx
              (q\<lparr>i_status := st, i_resolved_at := Some now,
                 i_details := resolution_details q opt ans' reason\<rparr>) s))"
      and "\<And>x. res = Inr x \<Longrightarrow> x_request x = q\<lparr>i_status := st, i_resolved_at := Some now,
                 i_details := resolution_details q opt ans' reason\<rparr>"
proof (cases "check_resolution fr rid action txt opt ans s")
  case (Inl e)
  then show ?thesis using refused by (simp add: resolve_request_def)
next
  case (Inr y)
  obtain q txt' ans' st where y: "y = (q, txt', ans', st)" by (cases y)
  show ?thesis
    by (rule settled [OF Inr [unfolded y]])
      (auto simp: resolve_request_def Inr y Let_def split: sum.splits)
qed

text \<open>A successful resolution settles exactly the request it names, by the status of the
  chosen action, which was one of the offered ones; it marks exactly the attention items of that
  request as acted on, and leaves every other request and item alone.\<close>

theorem resolve_settles_one:
  assumes "bb_wf s" and "resolve_request fr ctx now rid action txt opt ans reason s = (Inr x, s')"
  shows "resolved_status_for_action action = Inr (i_status (x_request x)) \<and>
    (\<exists>q. get_interaction_request s rid = Some q \<and> i_status q = IS_PENDING \<and>
       action \<in> set (i_available_actions q)) \<and>
    list_interaction_requests s' =
      map (\<lambda>q. if i_request_id q = rid then x_request x else q) (list_interaction_requests s) \<and>
    list_attention_items s' =
      map (\<lambda>a. if a_request_id a = Some rid then a\<lparr>a_status := AS_ACTED\<rparr> else a) (list_attention_items s)"
proof (cases rule: resolve_request_cases [of fr ctx now rid action "txt" opt ans reason s])
  case (refused e)
  then show ?thesis using assms by simp
next
  case (settled q txt' ans' st res)
  note ok = check_resolution_ok [OF settled(1)]
  let ?q = "q\<lparr>i_status := st, i_resolved_at := Some now, i_details := resolution_details q opt ans' reason\<rparr>"
  have id: "i_request_id q = rid" using requests.get_key [OF assms(1)] ok(1) .
  have res: "res = Inr x" and s': "s' = mark_attention_for_request ctx rid AS_ACTED
      (put_interaction_request ctx ?q s)"
    using settled(2) assms(2) by (simp_all add: id)
  have x: "x_request x = ?q" using settled(3) res by simp
  have "list_interaction_requests s' =
      map (\<lambda>w. if i_request_id w = rid then ?q else w) (list_interaction_requests s)"
    using ok(1) by (simp add: s' requests.elems_put [OF assms(1)] id)
  moreover have "list_attention_items s' =
      map (\<lambda>a. if a_request_id a = Some rid then a\<lparr>a_status := AS_ACTED\<rparr> else a) (list_attention_items s)"
    using bb_wf_put_interaction_request [OF assms(1)] by (simp add: s' list_attention_mark)
  ultimately show ?thesis using ok x by simp
qed

theorem resolve_settles_one_witness:
  "\<exists>x s'. resolve_request (\<lambda>_. []) None ''later'' ''ireq-1'' ''answer'' (Some ''main'') None None None
       asked_store = (Inr x, s') \<and>
     map i_status (list_interaction_requests s') = [IS_ANSWERED] \<and>
     map a_status (list_attention_items s') = [AS_ACTED]"
proof -
  let ?r = "resolve_request (\<lambda>_. []) None ''later'' ''ireq-1'' ''answer'' (Some ''main'') None None None asked_store"
  let ?q = "build_request_from_summary ''1'' ''now'' asking_task asking_summary"
  have id: "i_request_id ?q = ''ireq-1''" by (simp add: build_request_from_summary_def Let_def)
  have "?q \<in> set (list_interaction_requests asked_store)" by (simp add: asked_store_requests)
  then have get: "get_interaction_request asked_store ''ireq-1'' = Some ?q"
    by (simp add: requests.elems_get [OF asked_store_wf] id)
  have kind: "i_kind ?q = IK_QUESTION" by (rule sample_prompt_kind)
  have acts: "i_available_actions ?q = actions_for_kind (i_kind ?q)" "i_status ?q = IS_PENDING"
    by (simp_all add: build_request_from_summary_def Let_def)
  have "check_resolution (\<lambda>_. []) ''ireq-1'' ''answer'' (Some ''main'') None None asked_store =
      Inr (?q, Some ''main'', None, IS_ANSWERED)"
    by (simp add: check_resolution_def get acts kind actions_for_kind_def resolved_status_for_action_def
        opt_nonblank_def) code_simp
  then obtain x s' where r: "?r = (Inr x, s')"
    by (simp add: resolve_request_def kind build_follow_up_instruction_def Let_def)
  have items: "list_attention_items asked_store =
      [build_attention_from_request ''2'' ''now'' asking_task ?q]"
    by (simp add: asked_store_eq open_request_def attention.elems_put bb_wf_put_interaction_request)
      (simp add: asking_store_def)
  from resolve_settles_one [OF asked_store_wf r] have
    "Inr IS_ANSWERED = (Inr (i_status (x_request x)) :: interaction_request_status result)"
    "list_interaction_requests s' = [x_request x]"
    "list_attention_items s' =
      [(build_attention_from_request ''2'' ''now'' asking_task ?q)\<lparr>a_status := AS_ACTED\<rparr>]"
    by (auto simp: asked_store_requests id items resolved_status_for_action_def
        build_attention_from_request_def Let_def)
  with r show ?thesis by auto
qed

section \<open>Every interleaving of the manager's operations\<close>

text \<open>
  The steps the store takes while the manager runs beside the rest of the runtime: its own
  operations, whose request ids are fresh, and any operation of the store that does not itself
  put an interaction request.
\<close>

inductive interaction_step :: "blackboard \<Rightarrow> blackboard \<Rightarrow> bool" where
  written: "get_interaction_request s (''ireq-'' @ uid) = None \<Longrightarrow>
    interaction_step s (snd (handle_blackboard_write ctx uid uid' now now' ev s))"
| outbound: "get_interaction_request s (''ireq-'' @ uid) = None \<Longrightarrow>
    interaction_step s (snd (handle_outbound_codex_blocked fr ctx uid uid' now now' ob m s))"
| resolve: "interaction_step s (snd (resolve_request fr ctx now rid action ans_text opt ans reason s))"
| cancel: "interaction_step s (cancel_requests_for_task ctx clock tid s)"
| signal: "interaction_step s (snd (add_task_signal_attention ctx uid now t k body s))"
| store: "\<forall>q. x \<noteq> OpPutRequest q \<Longrightarrow> interaction_step s (bb_apply ctx x s)"

definition opens :: "interaction_request \<Rightarrow> blackboard \<Rightarrow> bool" where
  "opens q s \<longleftrightarrow>
     i_status q = IS_PENDING \<and> i_available_actions q = actions_for_kind (i_kind q) \<and>
     (\<forall>k. i_run_id q = Some k \<longrightarrow> \<not> pending_for (\<lambda>w. i_run_id w = Some k) s) \<and>
     (\<forall>k. i_outbound_turn_request_id q = Some k \<longrightarrow>
        \<not> pending_for (\<lambda>w. i_outbound_turn_request_id w = Some k) s)"

lemma built_from_run [simp]:
  "i_request_id (build_request_from_run uid now t r y) = ''ireq-'' @ uid"
  "i_status (build_request_from_run uid now t r y) = IS_PENDING"
  "i_available_actions (build_request_from_run uid now t r y) =
     actions_for_kind (i_kind (build_request_from_run uid now t r y))"
  "i_run_id (build_request_from_run uid now t r y) = Some (r_run_id r)"
  "i_outbound_turn_request_id (build_request_from_run uid now t r y) = None"
  by (simp_all add: build_request_from_run_def Let_def)

lemma built_from_summary [simp]:
  "i_request_id (build_request_from_summary uid now t y) = ''ireq-'' @ uid"
  "i_status (build_request_from_summary uid now t y) = IS_PENDING"
  "i_available_actions (build_request_from_summary uid now t y) =
     actions_for_kind (i_kind (build_request_from_summary uid now t y))"
  "i_run_id (build_request_from_summary uid now t y) = None"
  "i_outbound_turn_request_id (build_request_from_summary uid now t y) = None"
  by (simp_all add: build_request_from_summary_def Let_def)

lemma built_from_outbound [simp]:
  "i_request_id (build_request_from_outbound_blocked fr uid now ob m) = ''ireq-'' @ uid"
  "i_status (build_request_from_outbound_blocked fr uid now ob m) = IS_PENDING"
  "i_available_actions (build_request_from_outbound_blocked fr uid now ob m) =
     actions_for_kind (i_kind (build_request_from_outbound_blocked fr uid now ob m))"
  "i_run_id (build_request_from_outbound_blocked fr uid now ob m) = None"
  "i_outbound_turn_request_id (build_request_from_outbound_blocked fr uid now ob m) = Some (o_request_id ob)"
  by (simp_all add: build_request_from_outbound_blocked_def Let_def)

lemma handle_write_opens:
  "snd (handle_blackboard_write ctx uid uid' now now' ev s) = s \<or>
   (\<exists>q a. snd (handle_blackboard_write ctx uid uid' now now' ev s) = open_request ctx q a s \<and>
      i_request_id q = ''ireq-'' @ uid \<and> opens q s)"
  unfolding handle_blackboard_write_def Let_def
  by (simp split: option.split) (auto simp: opens_def)

lemma handle_outbound_opens:
  "snd (handle_outbound_codex_blocked fr ctx uid uid' now now' ob m s) = s \<or>
   (\<exists>q a. snd (handle_outbound_codex_blocked fr ctx uid uid' now now' ob m s) = open_request ctx q a s \<and>
      i_request_id q = ''ireq-'' @ uid \<and> opens q s)"
  unfolding handle_outbound_codex_blocked_def Let_def
  by (auto simp: opens_def)

lemma bb_wf_open: "bb_wf s \<Longrightarrow> bb_wf (open_request ctx q a s)"
  by (simp add: open_request_def bb_wf_put_interaction_request bb_wf_put_attention_item)

lemma open_request_reads:
  "get_interaction_request (open_request ctx q a s) = get_interaction_request (put_interaction_request ctx q s)"
  "list_interaction_requests (open_request ctx q a s) = list_interaction_requests (put_interaction_request ctx q s)"
  by (simp_all add: open_request_def)

lemma append_mutation_requests [simp]:
  "get_interaction_request (append_mutation c m s) = get_interaction_request s"
  "list_interaction_requests (append_mutation c m s) = list_interaction_requests s"
  by (simp_all add: append_mutation_def Let_def bb_read_defs fun_eq_iff split: option.splits)

lemma delete_persona_requests [simp]:
  "get_interaction_request (snd (delete_persona c k s)) = get_interaction_request s"
  "list_interaction_requests (snd (delete_persona c k s)) = list_interaction_requests s"
  by (simp_all add: delete_persona_def Let_def bb_read_defs fun_eq_iff split: option.splits)

lemma subscription_requests [simp]:
  "get_interaction_request (snd (subscribe s)) = get_interaction_request s"
  "list_interaction_requests (snd (subscribe s)) = list_interaction_requests s"
  "get_interaction_request (unsubscribe n s) = get_interaction_request s"
  "list_interaction_requests (unsubscribe n s) = list_interaction_requests s"
  by (simp_all add: subscribe_def unsubscribe_def get_interaction_request_def
      list_interaction_requests_def fun_eq_iff)

lemma store_step_requests:
  assumes "\<forall>q. x \<noteq> OpPutRequest q"
  shows "get_interaction_request (bb_apply ctx x s) = get_interaction_request s"
    and "list_interaction_requests (bb_apply ctx x s) = list_interaction_requests s"
  using assms by (cases x; simp)+

text \<open>What one step does to the requests: opens one, settles one, settles some, or nothing.\<close>

lemma interaction_step_requests:
  assumes "interaction_step s s'" and "bb_wf s"
  obtains (same) "get_interaction_request s' = get_interaction_request s"
      and "list_interaction_requests s' = list_interaction_requests s" and "bb_wf s'"
  | (opened) ctx q a where "s' = open_request ctx q a s" and "opens q s"
      and "get_interaction_request s (i_request_id q) = None"
  | (settled) ctx ctx' q q' where
      "s' = mark_attention_for_request ctx' (i_request_id q) AS_ACTED (put_interaction_request ctx q' s)"
      and "get_interaction_request s (i_request_id q) = Some q" and "i_status q = IS_PENDING"
      and "i_request_id q' = i_request_id q" and "i_status q' \<noteq> IS_PENDING"
      and "i_run_id q' = i_run_id q" and "i_outbound_turn_request_id q' = i_outbound_turn_request_id q"
      and "i_available_actions q' = i_available_actions q" and "i_kind q' = i_kind q"
  | (cancelled) ctx clock tid where "s' = cancel_requests_for_task ctx clock tid s"
  using assms(1)
proof cases
  case (written uid ctx uid' now now' ev)
  then show ?thesis
    using handle_write_opens [of ctx uid uid' now now' ev s] same opened assms(2) by metis
next
  case (outbound uid fr ctx uid' now now' ob m)
  then show ?thesis
    using handle_outbound_opens [of fr ctx uid uid' now now' ob m s] same opened assms(2) by metis
next
  case (resolve fr ctx now rid action ans_text opt ans reason)
  show ?thesis
  proof (cases rule: resolve_request_cases [of fr ctx now rid action ans_text opt ans reason s])
    case (refused e)
    then show ?thesis using same resolve assms(2) by simp
  next
    case (settled q txt' ans' st res)
    note ok = check_resolution_ok [OF settled(1)]
    have id: "i_request_id q = rid" using requests.get_key [OF assms(2)] ok(1) .
    show ?thesis
      by (rule that(3) [of ctx q ctx "q\<lparr>i_status := st, i_resolved_at := Some now,
            i_details := resolution_details q opt ans' reason\<rparr>"])
        (use settled ok resolve id resolved_status_settled in auto)
  qed
next
  case (cancel ctx clock tid)
  then show ?thesis using that(4) by blast
next
  case (signal ctx uid now t k body)
  then show ?thesis
    using same assms(2)
    by (simp add: add_task_signal_attention_def Let_def bb_wf_put_attention_item)
next
  case (store x ctx)
  then show ?thesis using same store_step_requests assms(2) bb_wf_apply by metis
qed

definition pending_unique :: "(interaction_request \<Rightarrow> str option) \<Rightarrow> blackboard \<Rightarrow> bool" where
  "pending_unique f s \<longleftrightarrow>
     (\<forall>q1 \<in> set (list_interaction_requests s). \<forall>q2 \<in> set (list_interaction_requests s).
        i_status q1 = IS_PENDING \<and> i_status q2 = IS_PENDING \<and> f q1 = f q2 \<and> f q1 \<noteq> None \<longrightarrow> q1 = q2)"

definition interaction_inv :: "blackboard \<Rightarrow> bool" where
  "interaction_inv s \<longleftrightarrow>
     bb_wf s \<and> pending_unique i_run_id s \<and> pending_unique i_outbound_turn_request_id s \<and>
     (\<forall>q \<in> set (list_interaction_requests s). i_available_actions q = actions_for_kind (i_kind q))"

lemma pending_unique_put:
  assumes "bb_wf s" and "pending_unique f s"
    and "\<And>k. i_status q = IS_PENDING \<Longrightarrow> f q = Some k \<Longrightarrow> \<not> pending_for (\<lambda>w. f w = Some k) s"
  shows "pending_unique f (put_interaction_request ctx q s)"
proof -
  have "\<not> (i_status w = IS_PENDING \<and> f w = f q \<and> f q \<noteq> None)"
    if "w \<in> set (list_interaction_requests s)" "i_status q = IS_PENDING" for w
    using that assms(3) by (force simp: pending_for_def list_ex_iff)
  note fresh = this
  show ?thesis
    unfolding pending_unique_def
  proof (intro ballI impI)
    fix q1 q2
    assume "q1 \<in> set (list_interaction_requests (put_interaction_request ctx q s))"
      and "q2 \<in> set (list_interaction_requests (put_interaction_request ctx q s))"
      and both: "i_status q1 = IS_PENDING \<and> i_status q2 = IS_PENDING \<and> f q1 = f q2 \<and> f q1 \<noteq> None"
    then have "q1 = q \<or> q1 \<in> set (list_interaction_requests s)"
      and "q2 = q \<or> q2 \<in> set (list_interaction_requests s)"
      by (auto simp: requests.elems_put_mem [OF assms(1)])
    with both fresh assms(2) show "q1 = q2"
      unfolding pending_unique_def by metis
  qed
qed

lemma pending_after_cancel:
  assumes "bb_wf s" and "q \<in> set (list_interaction_requests (cancel_requests_for_task ctx clock tid s))"
    and "i_status q = IS_PENDING"
  shows "q \<in> set (list_interaction_requests s)"
  using assms(2,3) by (auto simp: list_requests_cancel [OF assms(1)] cancelled_def split: if_splits)

lemma pending_unique_cancel:
  assumes "bb_wf s" and "pending_unique f s"
  shows "pending_unique f (cancel_requests_for_task ctx clock tid s)"
  using assms(2) pending_after_cancel [OF assms(1)] unfolding pending_unique_def by blast

lemma pending_unique_mark [simp]:
  "pending_unique f (mark_attention_for_request ctx rid st s) = pending_unique f s"
  by (simp add: pending_unique_def)

lemma pending_unique_open [simp]:
  "pending_unique f (open_request ctx q a s) = pending_unique f (put_interaction_request ctx q s)"
  by (simp add: pending_unique_def open_request_reads)

lemma interaction_inv_step:
  assumes "interaction_step s s'" and "interaction_inv s"
  shows "interaction_inv s'"
proof -
  have wf: "bb_wf s" and run: "pending_unique i_run_id s"
    and ob: "pending_unique i_outbound_turn_request_id s"
    and acts: "\<forall>q \<in> set (list_interaction_requests s). i_available_actions q = actions_for_kind (i_kind q)"
    using assms(2) by (simp_all add: interaction_inv_def)
  show ?thesis
    using assms(1) wf
  proof (cases rule: interaction_step_requests)
    case same
    have "pending_unique f s' = pending_unique f s" for f
      by (simp only: pending_unique_def same(2))
    with assms(2) same show ?thesis by (simp add: interaction_inv_def)
  next
    case (opened ctx q a)
    then show ?thesis
      using pending_unique_put [OF wf run, of q ctx] pending_unique_put [OF wf ob, of q ctx] acts wf
      by (auto simp: interaction_inv_def opens_def bb_wf_open open_request_reads requests.elems_put_mem)
  next
    case (settled ctx ctx' q q')
    have "q \<in> set (list_interaction_requests s)"
      using settled(2) by (simp add: requests.elems_get [OF wf])
    then show ?thesis
      using pending_unique_put [OF wf run, of q' ctx] pending_unique_put [OF wf ob, of q' ctx] acts wf settled
      by (auto simp: interaction_inv_def bb_wf_mark bb_wf_put_interaction_request requests.elems_put_mem)
  next
    case (cancelled ctx clock tid)
    then show ?thesis
      using acts wf run ob bb_wf_cancel [OF wf]
      by (auto simp: interaction_inv_def list_requests_cancel [OF wf] Interaction_Props.cancelled_def
          intro: pending_unique_cancel)
  qed
qed

lemma interaction_inv_reachable: "interaction_step\<^sup>*\<^sup>* bb_init s \<Longrightarrow> interaction_inv s"
proof (induction rule: rtranclp_induct)
  case base
  show ?case by (simp add: interaction_inv_def pending_unique_def bb_wf_init)
next
  case (step s s')
  then show ?case using interaction_inv_step by blast
qed


lemma settled_stays_step:
  assumes "interaction_step s s'" and "bb_wf s"
    and "get_interaction_request s k = Some q" and "i_status q \<noteq> IS_PENDING"
  shows "get_interaction_request s' k = Some q \<and> bb_wf s'"
  using assms(1,2)
proof (cases rule: interaction_step_requests)
  case same
  then show ?thesis using assms by simp
next
  case (opened ctx w a)
  then show ?thesis
    using assms by (auto simp: open_request_reads requests.get_put bb_wf_open)
next
  case (settled ctx ctx' w w')
  then show ?thesis
    using assms by (auto simp: requests.get_put bb_wf_mark bb_wf_put_interaction_request)
next
  case (cancelled ctx clock tid)
  have key: "i_request_id q = k" using requests.get_key [OF assms(2,3)] .
  have "q \<in> set (list_interaction_requests s)"
    using assms(3) by (simp add: requests.elems_get [OF assms(2)] key)
  then have "q \<in> set (list_interaction_requests s')"
    using assms(4) by (force simp: cancelled list_requests_cancel [OF assms(2)] cancel_pred_def)
  moreover have "bb_wf s'" unfolding cancelled using assms(2) by (rule bb_wf_cancel)
  ultimately show ?thesis by (simp add: requests.elems_get key)
qed

lemma settled_stays:
  assumes "interaction_step\<^sup>*\<^sup>* s s'" and "bb_wf s"
    and "get_interaction_request s k = Some q" and "i_status q \<noteq> IS_PENDING"
  shows "get_interaction_request s' k = Some q \<and> bb_wf s'"
  using assms
proof (induction rule: rtranclp_induct)
  case (step t u)
  then show ?case using settled_stays_step [OF step.hyps(2)] by blast
qed simp


definition asking_run :: execution_run where
  "asking_run = \<lparr>r_run_id = ''run-1'', r_task_id = ''task-1'', r_execution_session_id = ''es-1'',
     r_executor_type = ''codex'', r_status = RS_BLOCKED, r_claimed_by = Some ''w'',
     r_run_revision = 0, r_latest_progress_message = None, r_output_summary = None,
     r_block_reason = Some ''Which branch?'', r_failure_reason = None, r_metadata = []\<rparr>"

definition run_event :: write_event where
  "run_event = write_event_of WK_RUN (Some ''run-1'') (Some ''task-1'') []"

definition blocked_store :: blackboard where
  "blocked_store = put_run None asking_run asking_store"

definition blocked_once :: blackboard where
  "blocked_once = snd (handle_blackboard_write None ''1'' ''2'' ''now'' ''now'' run_event blocked_store)"

definition blocked_twice :: blackboard where
  "blocked_twice = snd (handle_blackboard_write None ''3'' ''4'' ''now'' ''now'' run_event blocked_once)"

lemma blocked_store_wf [simp]: "bb_wf blocked_store"
  by (simp add: blocked_store_def bb_wf_put_run)

lemma blocked_store_empty [simp]:
  "list_interaction_requests blocked_store = []" "get_interaction_request blocked_store = (\<lambda>k. None)"
  by (simp_all add: blocked_store_def asking_store_def)

lemma blocked_store_reachable: "interaction_step\<^sup>*\<^sup>* bb_init blocked_store"
proof -
  have "interaction_step bb_init (bb_apply None (OpPutTask asking_task) bb_init)"
    by (rule interaction_step.store) simp
  moreover have "interaction_step (put_task None asking_task bb_init)
      (bb_apply None (OpPutSummary asking_summary) (put_task None asking_task bb_init))"
    by (rule interaction_step.store) simp
  moreover have "interaction_step asking_store (bb_apply None (OpPutRun asking_run) asking_store)"
    by (rule interaction_step.store) simp
  ultimately show ?thesis
    by (simp add: blocked_store_def asking_store_def)
qed

lemma asking_run_fields [simp]:
  "r_run_id asking_run = ''run-1''" "r_task_id asking_run = ''task-1''" "r_status asking_run = RS_BLOCKED"
  by (simp_all add: asking_run_def)

lemma asking_task_fields [simp]: "t_task_id asking_task = ''task-1''" "sm_task_id asking_summary = ''task-1''"
  by (simp_all add: asking_task_def asking_summary_def)

lemma blocked_store_reads [simp]:
  "get_run blocked_store ''run-1'' = Some asking_run"
  "get_task blocked_store ''task-1'' = Some asking_task"
  "get_summary blocked_store ''task-1'' = Some asking_summary"
  "\<not> pending_for p blocked_store"
  by (simp_all add: blocked_store_def asking_store_def runs.get_put tasks.get_put pending_for_def)

lemma run_event_fields [simp]: "we_kind run_event = WK_RUN" "we_entity_id run_event = Some ''run-1''"
  by (simp_all add: run_event_def write_event_of_def)

lemma blocked_once_eq:
  "blocked_once = open_request None
     (build_request_from_run ''1'' ''now'' asking_task asking_run (Some asking_summary))
     (build_attention_from_request ''2'' ''now'' asking_task
        (build_request_from_run ''1'' ''now'' asking_task asking_run (Some asking_summary))) blocked_store"
  by (simp add: blocked_once_def handle_blackboard_write_def Let_def)

lemma blocked_once_requests:
  "list_interaction_requests blocked_once =
     [build_request_from_run ''1'' ''now'' asking_task asking_run (Some asking_summary)]"
  by (simp add: blocked_once_eq open_request_def requests.elems_put)

lemma blocked_twice_reachable: "interaction_step\<^sup>*\<^sup>* bb_init blocked_twice"
proof -
  have "interaction_step blocked_store blocked_once"
    unfolding blocked_once_def by (rule interaction_step.written) simp
  moreover have "interaction_step blocked_once blocked_twice"
    unfolding blocked_twice_def
    by (rule interaction_step.written) (simp add: blocked_once_eq open_request_def requests.get_put)
  ultimately show ?thesis using blocked_store_reachable by simp
qed

lemma blocked_twice_eq: "blocked_twice = blocked_once"
proof -
  have "pending_for (\<lambda>q. i_run_id q = Some ''run-1'') blocked_once"
    by (simp add: pending_for_def blocked_once_requests)
  moreover have "get_run blocked_once ''run-1'' = Some asking_run" "get_task blocked_once ''task-1'' = Some asking_task"
    by (simp_all add: blocked_once_eq open_request_def)
  ultimately show ?thesis by (simp add: blocked_twice_def handle_blackboard_write_def)
qed



lemma asking_run_request_kind:
  "i_kind (build_request_from_run ''1'' ''now'' asking_task asking_run (Some asking_summary)) = IK_QUESTION"
  by code_simp

lemma blocked_request:
  "get_interaction_request blocked_twice ''ireq-1'' =
     Some (build_request_from_run ''1'' ''now'' asking_task asking_run (Some asking_summary))"
  by (simp add: blocked_twice_eq blocked_once_eq open_request_def requests.get_put)



end
