(* ===== verification/Notification.thy ===== *)
theory Notification
  imports Blackboard
begin

text \<open>
  Notifications (\<open>src/newbro/notification/\<close>): the candidates a write gives rise to
  (\<open>candidate_builder.py\<close>), the delivery plan (\<open>policy.py\<close>) and the manager (\<open>manager.py\<close>).
  Instants and durations are integers (microseconds); \<open>parse\<close> is \<open>datetime.fromisoformat\<close>, whose
  \<open>None\<close> is its \<open>ValueError\<close>. \<open>emit\<close> stands for \<open>CommunicationBrain.emit_notification\<close>, which
  renders one message for a group of candidates with a language model, does not write the store,
  and may raise. Observability and the conversation callback are left out.
\<close>

section \<open>Candidates\<close>

text \<open>\<open>metadata.get("source_kind") in {..}\<close> raises on a list or a dictionary: not hashable.\<close>

definition suppresses_communication_notifications :: "task \<Rightarrow> bool result" where
  "suppresses_communication_notifications t =
     (if jget (t_metadata t) ''suppress_communication_notifications'' = JBool True then Inr True
      else case jget (t_metadata t) ''source_kind'' of
        JList _ \<Rightarrow> Inl (TypeError ''unhashable type: list'')
      | JObj _ \<Rightarrow> Inl (TypeError ''unhashable type: dict'')
      | v \<Rightarrow> Inr (v = JStr ''bro_detail_text'' \<or> v = JStr ''bro_detail_ptt''))"

definition candidate_id :: "str \<Rightarrow> notification_candidate_type \<Rightarrow> str option \<Rightarrow> str" where
  "candidate_id tid ty rid =
     ''notif-'' @ notification_candidate_type_value ty @ ''-'' @ tid @ ''-'' @ str_or_else rid ''summary''"

definition already_exists :: "notification_candidate \<Rightarrow> notification_candidate list \<Rightarrow> bool" where
  "already_exists c existing = list_ex (\<lambda>i. n_candidate_id i = n_candidate_id c) existing"

definition unless_exists ::
    "notification_candidate list \<Rightarrow> notification_candidate \<Rightarrow> notification_candidate option" where
  "unless_exists existing c = (if already_exists c existing then None else Some c)"

definition conversational :: "task_summary option \<Rightarrow> str option" where
  "conversational summary = (case summary of Some y \<Rightarrow> sm_conversational_summary y | None \<Rightarrow> None)"

definition build_from_run ::
    "str \<Rightarrow> task \<Rightarrow> execution_run \<Rightarrow> task_summary option \<Rightarrow> notification_candidate list \<Rightarrow>
     notification_candidate option result" where
  "build_from_run now t r summary existing =
     (case suppresses_communication_notifications t of
        Inl e \<Rightarrow> Inl e
      | Inr True \<Rightarrow> Inr None
      | Inr False \<Rightarrow>
          if t_status t = TS_CANCELLED then Inr None
          else if r_status r = RS_COMPLETED then
            Inr (unless_exists existing
              \<lparr>n_candidate_id = candidate_id (t_task_id t) NT_COMPLETED (Some (r_run_id r)),
               n_task_id = t_task_id t, n_candidate_type = NT_COMPLETED, n_priority = NP_P2,
               n_summary_short = str_or_else (str_or (conversational summary) (r_output_summary r))
                 (t_title t @ '' is done.''),
               n_source_run_id = Some (r_run_id r), n_created_at = now, n_delivery_status = ND_PENDING,
               n_merge_key = ''completed_digest'', n_requires_immediate_delivery = False\<rparr>)
          else if r_status r = RS_BLOCKED then
            Inr (unless_exists existing
              \<lparr>n_candidate_id = candidate_id (t_task_id t) NT_BLOCKED (Some (r_run_id r)),
               n_task_id = t_task_id t, n_candidate_type = NT_BLOCKED, n_priority = NP_P0,
               n_summary_short = str_or_else (str_or (conversational summary) (r_block_reason r))
                 (t_title t @ '' is blocked.''),
               n_source_run_id = Some (r_run_id r), n_created_at = now, n_delivery_status = ND_PENDING,
               n_merge_key = ''blocked:'' @ t_task_id t, n_requires_immediate_delivery = True\<rparr>)
          else Inr None)"

definition build_from_summary ::
    "str \<Rightarrow> task \<Rightarrow> task_summary option \<Rightarrow> notification_candidate list \<Rightarrow>
     notification_candidate option result" where
  "build_from_summary now t summary existing =
     (case suppresses_communication_notifications t of
        Inl e \<Rightarrow> Inl e
      | Inr True \<Rightarrow> Inr None
      | Inr False \<Rightarrow>
          (case summary of
             None \<Rightarrow> Inr None
           | Some y \<Rightarrow>
               if \<not> sm_needs_user_input y then Inr None
               else if list_ex (\<lambda>c. n_task_id c = t_task_id t \<and> n_candidate_type c = NT_BLOCKED \<and>
                        n_delivery_status c \<noteq> ND_SUPPRESSED) existing then Inr None
               else
                 Inr (unless_exists existing
                   \<lparr>n_candidate_id = candidate_id (t_task_id t) NT_NEEDS_INPUT None,
                    n_task_id = t_task_id t, n_candidate_type = NT_NEEDS_INPUT, n_priority = NP_P0,
                    n_summary_short = str_or_else (sm_conversational_summary y)
                      (t_title t @ '' needs your input.''),
                    n_source_run_id = None, n_created_at = now, n_delivery_status = ND_PENDING,
                    n_merge_key = ''needs_input:'' @ t_task_id t, n_requires_immediate_delivery = True\<rparr>)))"

section \<open>The delivery plan\<close>

record delivery_plan =
  dp_groups :: "notification_candidate list list"
  dp_next_due :: "int option"

definition due_at :: "(str \<Rightarrow> int option) \<Rightarrow> int \<Rightarrow> notification_candidate \<Rightarrow> int result" where
  "due_at parse window c =
     (case parse (n_created_at c) of
        None \<Rightarrow> Inl (ValueError (n_created_at c))
      | Some created \<Rightarrow> Inr (created + window))"

text \<open>The loop over the candidates that may wait: those due now, and when the next one is.\<close>

fun split_due ::
    "(str \<Rightarrow> int option) \<Rightarrow> int \<Rightarrow> int \<Rightarrow> notification_candidate list \<Rightarrow>
     notification_candidate list \<times> int option \<Rightarrow> (notification_candidate list \<times> int option) result" where
  "split_due parse window now [] acc = Inr acc"
| "split_due parse window now (c # cs) (due, next_due) =
     (case due_at parse window c of
        Inl e \<Rightarrow> Inl e
      | Inr d \<Rightarrow>
          if d \<le> now then split_due parse window now cs (due @ [c], next_due)
          else
            (let seconds = max 0 (d - now)
             in split_due parse window now cs
                  (due, Some (case next_due of None \<Rightarrow> seconds | Some m \<Rightarrow> min m seconds))))"

definition group_by_merge_key :: "notification_candidate list \<Rightarrow> (str, notification_candidate list) dict" where
  "group_by_merge_key cs = foldl (\<lambda>d c. dd_append (n_merge_key c) c d) [] cs"

definition merged_groups :: "notification_candidate list \<Rightarrow> notification_candidate list list" where
  "merged_groups due =
     (let grouped = group_by_merge_key due
      in map (\<lambda>k. sort_key n_created_at (dd_get grouped k)) (sort (dict_keys grouped)))"

definition plan ::
    "(str \<Rightarrow> int option) \<Rightarrow> int \<Rightarrow> int \<Rightarrow> notification_candidate list \<Rightarrow> bool \<Rightarrow> bool \<Rightarrow>
     delivery_plan result" where
  "plan parse window now cs busy has_user_messages =
     (let pending = filter (\<lambda>c. n_delivery_status c = ND_PENDING) cs in
      if pending = [] then Inr \<lparr>dp_groups = [], dp_next_due = None\<rparr>
      else if busy \<or> has_user_messages then Inr \<lparr>dp_groups = [], dp_next_due = None\<rparr>
      else
        (let immediate = map (\<lambda>c. [c]) (filter n_requires_immediate_delivery pending);
             waiting = filter (\<lambda>c. \<not> n_requires_immediate_delivery c) pending
         in case split_due parse window now waiting ([], None) of
              Inl e \<Rightarrow> Inl e
            | Inr (due, next_due) \<Rightarrow>
                Inr \<lparr>dp_groups = immediate @ merged_groups due, dp_next_due = next_due\<rparr>))"

section \<open>The manager\<close>

definition put_candidate_opt ::
    "str option \<Rightarrow> notification_candidate option result \<Rightarrow> blackboard \<Rightarrow> bool result \<times> blackboard" where
  "put_candidate_opt ctx c s =
     (case c of
        Inl e \<Rightarrow> (Inl e, s)
      | Inr None \<Rightarrow> (Inr False, s)
      | Inr (Some c) \<Rightarrow> (Inr True, put_notification_candidate ctx c s))"

definition notify_on_write ::
    "str option \<Rightarrow> str \<Rightarrow> write_event \<Rightarrow> blackboard \<Rightarrow> bool result \<times> blackboard" where
  "notify_on_write ctx now ev s =
     (let candidates = list_notification_candidates s in
      if we_kind ev = WK_RUN \<and> str_truthy (we_entity_id ev) then
        (case get_run s (the (we_entity_id ev)) of
           None \<Rightarrow> (Inr False, s)
         | Some r \<Rightarrow>
             if r_status r \<notin> {RS_COMPLETED, RS_BLOCKED} then (Inr False, s)
             else (case get_task s (r_task_id r) of
                None \<Rightarrow> (Inr False, s)
              | Some t \<Rightarrow>
                  put_candidate_opt ctx
                    (build_from_run now t r (get_summary s (t_task_id t)) candidates) s))
      else if we_kind ev = WK_SUMMARY \<and> str_truthy (we_entity_id ev) then
        (case get_task s (the (we_entity_id ev)) of
           None \<Rightarrow> (Inr False, s)
         | Some t \<Rightarrow>
             put_candidate_opt ctx
               (build_from_summary now t (get_summary s (the (we_entity_id ev))) candidates) s)
      else (Inr False, s))"

text \<open>\<open>_emit_group\<close>: the message first, then the candidates one by one.\<close>

definition emit_group ::
    "(notification_candidate list \<Rightarrow> 'm result) \<Rightarrow> str option \<Rightarrow> notification_candidate list \<Rightarrow>
     blackboard \<Rightarrow> 'm result \<times> blackboard" where
  "emit_group emit ctx cs s =
     (case emit cs of
        Inl e \<Rightarrow> (Inl e, s)
      | Inr m \<Rightarrow>
          (Inr m,
           fold (\<lambda>c s. put_notification_candidate ctx (c\<lparr>n_delivery_status := ND_EMITTED\<rparr>) s) cs s))"

fun emit_groups ::
    "(notification_candidate list \<Rightarrow> 'm result) \<Rightarrow> str option \<Rightarrow> notification_candidate list list \<Rightarrow>
     'm list \<Rightarrow> blackboard \<Rightarrow> 'm list result \<times> blackboard" where
  "emit_groups emit ctx [] emitted s = (Inr emitted, s)"
| "emit_groups emit ctx (g # gs) emitted s =
     (case emit_group emit ctx g s of
        (Inl e, s') \<Rightarrow> (Inl e, s')
      | (Inr m, s') \<Rightarrow> emit_groups emit ctx gs (emitted @ [m]) s')"

definition process_pending ::
    "(str \<Rightarrow> int option) \<Rightarrow> (notification_candidate list \<Rightarrow> 'm result) \<Rightarrow> int \<Rightarrow> int \<Rightarrow> str option \<Rightarrow>
     bool \<Rightarrow> bool \<Rightarrow> blackboard \<Rightarrow> ('m list \<times> int option) result \<times> blackboard" where
  "process_pending parse emit window now ctx busy has_user_messages s =
     (case plan parse window now (list_notification_candidates s) busy has_user_messages of
        Inl e \<Rightarrow> (Inl e, s)
      | Inr p \<Rightarrow>
          if dp_groups p = [] then (Inr ([], dp_next_due p), s)
          else
            (case emit_groups emit ctx (dp_groups p) [] s of
               (Inl e, s') \<Rightarrow> (Inl e, s')
             | (Inr ms, s') \<Rightarrow> (Inr (ms, dp_next_due p), s')))"

end
