(* ===== verification/Notification_Props.thy ===== *)
theory Notification_Props
  imports Notification "HOL-Library.Multiset"
begin

text \<open>
  The properties of notifications: what a delivery plan contains, what one round of delivery
  does to the candidates, and that an emitted candidate stays emitted whatever follows.
\<close>

section \<open>The plan\<close>

definition is_due :: "(str \<Rightarrow> int option) \<Rightarrow> int \<Rightarrow> int \<Rightarrow> notification_candidate \<Rightarrow> bool" where
  "is_due parse window now c =
     (case parse (n_created_at c) of Some created \<Rightarrow> created + window \<le> now | None \<Rightarrow> False)"

definition wait_of :: "(str \<Rightarrow> int option) \<Rightarrow> int \<Rightarrow> int \<Rightarrow> notification_candidate \<Rightarrow> int" where
  "wait_of parse window now c = the (parse (n_created_at c)) + window - now"

definition least_wait :: "int list \<Rightarrow> int option" where
  "least_wait ws = (if ws = [] then None else Some (Min (set ws)))"

definition later_min :: "int option \<Rightarrow> int option \<Rightarrow> int option" where
  "later_min a b = (case (a, b) of (None, b) \<Rightarrow> b | (a, None) \<Rightarrow> a | (Some x, Some y) \<Rightarrow> Some (min x y))"

lemma least_wait_Cons: "least_wait (w # ws) = later_min (Some w) (least_wait ws)"
  by (auto simp: least_wait_def later_min_def)

lemma later_min_assoc: "later_min (later_min a b) c = later_min a (later_min b c)"
  by (simp add: later_min_def min.assoc split: option.split)

lemma later_min_simps [simp]: "later_min None b = b" "later_min a None = a"
  by (simp_all add: later_min_def split: option.split)

lemma split_due_spec:
  "split_due parse window now cs (due, nd) = Inr (due', nd') \<Longrightarrow>
     due' = due @ filter (is_due parse window now) cs \<and>
     nd' = later_min nd (least_wait (map (wait_of parse window now)
              (filter (\<lambda>c. \<not> is_due parse window now c) cs))) \<and>
     (\<forall>c \<in> set cs. parse (n_created_at c) \<noteq> None)"
proof (induction parse window now cs "(due, nd)" arbitrary: due nd rule: split_due.induct)
  case (1 parse window now)
  then show ?case by (simp add: least_wait_def)
next
  case (2 parse window now c cs due nd)
  obtain created where c: "parse (n_created_at c) = Some created"
    using "2.prems" by (auto simp: due_at_def split: option.splits)
  show ?case
  proof (cases "created + window \<le> now")
    case True
    then show ?thesis
      using "2.hyps"(1) "2.prems" c by (simp add: due_at_def is_due_def)
  next
    case False
    have "(case nd of None \<Rightarrow> Some (created + window - now)
             | Some m \<Rightarrow> Some (min m (created + window - now))) =
        later_min nd (Some (created + window - now))"
      by (simp add: later_min_def split: option.split)
    then show ?thesis
      using "2.hyps"(2) [of "created + window" "created + window - now"] "2.prems" c False
      by (auto simp: due_at_def is_due_def wait_of_def Let_def max_def least_wait_Cons later_min_assoc
          split: option.splits)
  qed
qed

lemma group_by_merge_key_spec:
  "dd_get (group_by_merge_key cs) k = filter (\<lambda>c. n_merge_key c = k) cs"
  "dict_keys (group_by_merge_key cs) = py_dedupe (map n_merge_key cs)"
  by (induction cs rule: rev_induct)
    (auto simp: group_by_merge_key_def dd_append_def dict_keys_put py_dedupe_snoc dd_get_append [unfolded dd_append_def])

lemma mset_by_key:
  "distinct ks \<Longrightarrow> mset (concat (map (\<lambda>k. sort_key g (filter (\<lambda>c. f c = k) xs)) ks)) =
     mset (filter (\<lambda>c. f c \<in> set ks) xs)"
proof (induction ks)
  case (Cons k ks)
  have "filter_mset (\<lambda>c. f c = k \<or> f c \<in> set ks) (mset xs) =
      filter_mset (\<lambda>c. f c = k) (mset xs) + filter_mset (\<lambda>c. f c \<in> set ks) (mset xs)"
    using Cons.prems by (induction xs) auto
  with Cons show ?case by (simp add: mset_filter)
qed simp

lemma merged_groups_eq:
  "merged_groups due = map (\<lambda>k. sort_key n_created_at (filter (\<lambda>c. n_merge_key c = k) due))
     (sort (py_dedupe (map n_merge_key due)))"
  by (simp add: merged_groups_def group_by_merge_key_spec Let_def)

lemma mset_merged_groups: "mset (concat (merged_groups due)) = mset due"
proof -
  have "mset (concat (merged_groups due)) =
      mset (filter (\<lambda>c. n_merge_key c \<in> set (sort (py_dedupe (map n_merge_key due)))) due)"
    unfolding merged_groups_eq by (rule mset_by_key) simp
  also have "filter (\<lambda>c. n_merge_key c \<in> set (sort (py_dedupe (map n_merge_key due)))) due = due"
    by (rule filter_True) simp
  finally show ?thesis .
qed

definition group_ok :: "notification_candidate list \<Rightarrow> bool" where
  "group_ok g \<longleftrightarrow> g \<noteq> [] \<and> list_all (\<lambda>c. n_merge_key c = n_merge_key (hd g)) g \<and> sorted (map n_created_at g)"

lemma merged_group_ok: "g \<in> set (merged_groups due) \<Longrightarrow> group_ok g"
proof -
  assume "g \<in> set (merged_groups due)"
  then obtain k where k: "k \<in> n_merge_key ` set due"
    and g: "g = sort_key n_created_at (filter (\<lambda>c. n_merge_key c = k) due)"
    by (auto simp: merged_groups_eq)
  then have keys: "\<forall>c \<in> set g. n_merge_key c = k" by simp
  obtain c where "c \<in> set g" using k by (auto simp: g)
  then have "g \<noteq> []" by auto
  with keys have "list_all (\<lambda>c. n_merge_key c = n_merge_key (hd g)) g"
    using hd_in_set [of g] by (simp add: list_all_iff)
  moreover have "sorted (map n_created_at g)" by (simp add: g)
  ultimately show "group_ok g" using \<open>g \<noteq> []\<close> by (simp add: group_ok_def)
qed

text \<open>What a plan delivers now: pending candidates that need not wait, or have waited enough.\<close>

definition deliverable :: "(str \<Rightarrow> int option) \<Rightarrow> int \<Rightarrow> int \<Rightarrow> notification_candidate \<Rightarrow> bool" where
  "deliverable parse window now c \<longleftrightarrow>
     n_delivery_status c = ND_PENDING \<and> (n_requires_immediate_delivery c \<or> is_due parse window now c)"

definition waiting :: "(str \<Rightarrow> int option) \<Rightarrow> int \<Rightarrow> int \<Rightarrow> notification_candidate \<Rightarrow> bool" where
  "waiting parse window now c \<longleftrightarrow>
     n_delivery_status c = ND_PENDING \<and> \<not> n_requires_immediate_delivery c \<and> \<not> is_due parse window now c"

lemma deliverable_split:
  "mset (filter n_requires_immediate_delivery (filter (\<lambda>c. n_delivery_status c = ND_PENDING) cs)) +
   mset (filter (is_due parse window now) (filter (\<lambda>c. \<not> n_requires_immediate_delivery c)
     (filter (\<lambda>c. n_delivery_status c = ND_PENDING) cs))) =
   mset (filter (deliverable parse window now) cs)"
  by (auto simp: multiset_eq_iff deliverable_def)

lemma plan_spec:
  assumes "plan parse window now cs False False = Inr p"
  shows "mset (concat (dp_groups p)) = mset (filter (deliverable parse window now) cs)"
    and "list_all group_ok (dp_groups p)"
    and "dp_next_due p = least_wait (map (wait_of parse window now) (filter (waiting parse window now) cs))"
proof -
  let ?pending = "filter (\<lambda>c. n_delivery_status c = ND_PENDING) cs"
  let ?imm = "filter n_requires_immediate_delivery ?pending"
  let ?wait = "filter (\<lambda>c. \<not> n_requires_immediate_delivery c) ?pending"
  have "mset (concat (dp_groups p)) = mset (filter (deliverable parse window now) cs) \<and>
    list_all group_ok (dp_groups p) \<and>
    dp_next_due p = least_wait (map (wait_of parse window now) (filter (waiting parse window now) cs))"
  proof (cases "?pending = []")
    case True
    then have none: "filter (deliverable parse window now) cs = []" "filter (waiting parse window now) cs = []"
      by (auto simp: filter_empty_conv deliverable_def waiting_def)
    show ?thesis using assms True by (auto simp: plan_def none least_wait_def)
  next
    case False
    obtain due nd where split: "split_due parse window now ?wait ([], None) = Inr (due, nd)"
      and p: "p = \<lparr>dp_groups = map (\<lambda>c. [c]) ?imm @ merged_groups due, dp_next_due = nd\<rparr>"
      using assms False by (auto simp: plan_def Let_def split: sum.splits)
    note spec = split_due_spec [OF split]
    have imm: "concat (map (\<lambda>c. [c]) xs) = xs" for xs :: "notification_candidate list"
      by (induction xs) auto
    have "mset ?imm + mset due = mset (filter (deliverable parse window now) cs)"
      using spec deliverable_split [of cs parse window now] by simp
    moreover have "filter (\<lambda>c. \<not> is_due parse window now c) ?wait = filter (waiting parse window now) cs"
      by (induction cs) (auto simp: waiting_def)
    moreover have "list_all group_ok (map (\<lambda>c. [c]) ?imm)"
      by (simp add: list_all_iff group_ok_def)
    moreover have "list_all group_ok (merged_groups due)"
      by (simp add: list_all_iff merged_group_ok)
    ultimately show ?thesis
      using spec by (simp add: p imm mset_merged_groups)
  qed
  then show "mset (concat (dp_groups p)) = mset (filter (deliverable parse window now) cs)"
    and "list_all group_ok (dp_groups p)"
    and "dp_next_due p = least_wait (map (wait_of parse window now) (filter (waiting parse window now) cs))"
    by auto
qed

lemma plan_delivers_due_free:
  "plan parse window now cs busy users = Inr p \<Longrightarrow> dp_groups p \<noteq> [] \<Longrightarrow> \<not> busy \<and> \<not> users"
  by (auto simp: plan_def Let_def split: if_splits)

text \<open>the delivery plan. While the assistant is busy or the user has messages waiting, nothing
  is delivered. Otherwise the plan delivers exactly the pending candidates that are urgent or old
  enough, each once; every message covers candidates of one merge key in order of creation; and
  the next wake-up is the shortest remaining wait.\<close>

theorem plan_delivers_due:
  assumes "plan parse window now cs busy has_user_messages = Inr p"
  shows "if busy \<or> has_user_messages then dp_groups p = [] \<and> dp_next_due p = None
    else mset (concat (dp_groups p)) = mset (filter (deliverable parse window now) cs) \<and>
      list_all group_ok (dp_groups p) \<and>
      dp_next_due p = least_wait (map (wait_of parse window now) (filter (waiting parse window now) cs))"
proof (cases "busy \<or> has_user_messages")
  case True
  then show ?thesis using assms by (auto simp: plan_def Let_def split: if_splits)
next
  case False
  then show ?thesis using plan_spec [of parse window now cs p] assms by simp
qed

definition digits_parse :: "str \<Rightarrow> int option" where
  "digits_parse s = Some (int (length s))"

definition sample_candidate :: "str \<Rightarrow> str \<Rightarrow> bool \<Rightarrow> notification_candidate" where
  "sample_candidate k created urgent =
     \<lparr>n_candidate_id = k, n_task_id = ''t'', n_candidate_type = NT_COMPLETED, n_priority = NP_P2,
      n_summary_short = ''done'', n_source_run_id = None, n_created_at = created,
      n_delivery_status = ND_PENDING, n_merge_key = ''completed_digest'',
      n_requires_immediate_delivery = urgent\<rparr>"

theorem plan_delivers_due_witness:
  "\<exists>p. plan digits_parse 2 4
        [sample_candidate ''a'' ''xx'' False, sample_candidate ''b'' ''xxxx'' False,
         sample_candidate ''c'' ''xxx'' True] False False = Inr p \<and>
     mset (concat (dp_groups p)) =
       mset [sample_candidate ''a'' ''xx'' False, sample_candidate ''c'' ''xxx'' True] \<and>
     dp_next_due p = Some 2"
proof -
  let ?cs = "[sample_candidate ''a'' ''xx'' False, sample_candidate ''b'' ''xxxx'' False,
     sample_candidate ''c'' ''xxx'' True]"
  obtain p where p: "plan digits_parse 2 4 ?cs False False = Inr p"
    by (simp add: plan_def sample_candidate_def due_at_def digits_parse_def Let_def)
  from plan_delivers_due [OF p] have
    "mset (concat (dp_groups p)) = mset (filter (deliverable digits_parse 2 4) ?cs)"
    "dp_next_due p = least_wait (map (wait_of digits_parse 2 4) (filter (waiting digits_parse 2 4) ?cs))"
    by simp_all
  then show ?thesis
    using p by (simp add: deliverable_def waiting_def wait_of_def is_due_def sample_candidate_def
        digits_parse_def least_wait_def)
qed

section \<open>One round of delivery\<close>

definition emitted :: "notification_candidate \<Rightarrow> notification_candidate" where
  "emitted c = c\<lparr>n_delivery_status := ND_EMITTED\<rparr>"

lemma emitted_id [simp]: "n_candidate_id (emitted c) = n_candidate_id c"
  by (simp add: emitted_def)

lemma emit_group_ok:
  "emit_group emit ctx g s = (Inr m, s') \<Longrightarrow>
     s' = candidates.put_each ctx (\<lambda>_. True) emitted g s"
  by (auto simp: emit_group_def candidates.put_each_def emitted_def split: sum.splits)

lemma put_each_append:
  "candidates.put_each ctx p f (xs @ ys) s = candidates.put_each ctx p f ys (candidates.put_each ctx p f xs s)"
  by (simp add: candidates.put_each_def)

lemma emit_groups_ok:
  "emit_groups emit ctx gs ms s = (Inr ms', s') \<Longrightarrow>
     s' = candidates.put_each ctx (\<lambda>_. True) emitted (concat gs) s \<and> length ms' = length ms + length gs"
proof (induction gs arbitrary: ms s)
  case Nil
  then show ?case by (simp add: candidates.put_each_def)
next
  case (Cons g gs)
  obtain m s1 where g: "emit_group emit ctx g s = (Inr m, s1)"
    and rest: "emit_groups emit ctx gs (ms @ [m]) s1 = (Inr ms', s')"
    using Cons.prems by (auto split: prod.splits sum.splits)
  show ?case
    using Cons.IH [OF rest] emit_group_ok [OF g] by (simp add: put_each_append)
qed

lemma process_pending_ok:
  assumes "bb_wf s"
    and "process_pending parse emit window now ctx False False s = (Inr (ms, nd), s')"
  shows "list_notification_candidates s' =
      map (\<lambda>c. if deliverable parse window now c then emitted c else c) (list_notification_candidates s)"
    and "bb_wf s'" and "\<exists>p. plan parse window now (list_notification_candidates s) False False = Inr p"
proof -
  obtain p where p: "plan parse window now (list_notification_candidates s) False False = Inr p"
    using assms(2) by (auto simp: process_pending_def split: sum.splits)
  have s': "s' = candidates.put_each ctx (\<lambda>_. True) emitted (concat (dp_groups p)) s"
  proof (cases "dp_groups p = []")
    case True
    then show ?thesis using assms(2) p by (simp add: process_pending_def candidates.put_each_def)
  next
    case False
    then have "emit_groups emit ctx (dp_groups p) [] s = (Inr ms, s')"
      using assms(2) p by (auto simp: process_pending_def split: prod.splits sum.splits)
    from emit_groups_ok [OF this] show ?thesis by simp
  qed
  let ?xs = "concat (dp_groups p)" and ?cs = "list_notification_candidates s"
  have perm: "mset ?xs = mset (filter (deliverable parse window now) ?cs)"
    using plan_spec(1) [OF p] .
  have set: "set ?xs = {c \<in> set ?cs. deliverable parse window now c}"
    using mset_eq_setD [OF perm] by auto
  have "mset (map n_candidate_id ?xs) = mset (map n_candidate_id (filter (deliverable parse window now) ?cs))"
    using perm by (metis mset_map)
  moreover have "distinct (map n_candidate_id (filter (deliverable parse window now) ?cs))"
    using candidates.distinct_keys [OF assms(1)] by (simp add: distinct_map_filter)
  ultimately have dist: "distinct (map n_candidate_id ?xs)"
    using mset_eq_imp_distinct_iff by blast
  show "list_notification_candidates s' =
      map (\<lambda>c. if deliverable parse window now c then emitted c else c) ?cs"
  proof -
    have "list_notification_candidates s' =
        map (\<lambda>c. if c \<in> set ?xs \<and> True then emitted c else c) ?cs"
      unfolding s' by (rule candidates.elems_put_each [OF assms(1) _ dist]) (use set in auto)
    also have "\<dots> = map (\<lambda>c. if deliverable parse window now c then emitted c else c) ?cs"
      using set by (intro map_cong) (auto simp del: set_concat)
    finally show ?thesis .
  qed
  show "bb_wf s'" unfolding s' using assms(1) by (rule candidates.wf_put_each)
  show "\<exists>p. plan parse window now ?cs False False = Inr p" using p by blast
qed

lemma split_due_total:
  "\<forall>c \<in> set cs. parse (n_created_at c) \<noteq> None \<Longrightarrow> \<exists>r. split_due parse window now cs (due, nd) = Inr r"
proof (induction cs arbitrary: due nd)
  case (Cons c cs)
  then show ?case by (auto simp: due_at_def Let_def)
qed simp

lemma plan_total:
  assumes "\<forall>c \<in> set cs. n_delivery_status c = ND_PENDING \<and> \<not> n_requires_immediate_delivery c \<longrightarrow>
      parse (n_created_at c) \<noteq> None"
  shows "\<exists>p. plan parse window now cs False False = Inr p"
proof -
  let ?wait = "filter (\<lambda>c. \<not> n_requires_immediate_delivery c) (filter (\<lambda>c. n_delivery_status c = ND_PENDING) cs)"
  have "\<exists>r. split_due parse window now ?wait ([], None) = Inr r"
    by (rule split_due_total) (use assms in auto)
  then show ?thesis by (auto simp: plan_def Let_def split: prod.splits)
qed

lemma plan_ok_parse:
  assumes "plan parse window now cs False False = Inr p" and "c \<in> set cs"
    and "n_delivery_status c = ND_PENDING" and "\<not> n_requires_immediate_delivery c"
  shows "parse (n_created_at c) \<noteq> None"
proof -
  let ?wait = "filter (\<lambda>c. \<not> n_requires_immediate_delivery c) (filter (\<lambda>c. n_delivery_status c = ND_PENDING) cs)"
  have "filter (\<lambda>c. n_delivery_status c = ND_PENDING) cs \<noteq> []"
    using assms(2,3) by (auto simp: filter_empty_conv)
  then obtain due nd where "split_due parse window now ?wait ([], None) = Inr (due, nd)"
    using assms(1) by (auto simp: plan_def Let_def split: sum.splits)
  from split_due_spec [OF this] show ?thesis using assms(2-4) by auto
qed

lemma emitted_not_deliverable [simp]: "\<not> deliverable parse window now (emitted c)"
  by (simp add: deliverable_def emitted_def)

text \<open>One round of delivery marks exactly the deliverable candidates as emitted, in place;
  a second round at the same instant then sends nothing and changes nothing.\<close>

theorem delivery_round:
  assumes "bb_wf s"
    and "process_pending parse emit window now ctx False False s = (Inr (ms, nd), s')"
  shows "list_notification_candidates s' =
      map (\<lambda>c. if deliverable parse window now c then c\<lparr>n_delivery_status := ND_EMITTED\<rparr> else c)
        (list_notification_candidates s) \<and>
    (\<exists>nd'. process_pending parse emit' window now ctx' False False s' = (Inr ([], nd'), s'))"
proof -
  note ok = process_pending_ok [OF assms]
  let ?cs = "list_notification_candidates s" and ?cs' = "list_notification_candidates s'"
  obtain p where p: "plan parse window now ?cs False False = Inr p" using ok(3) by blast
  have parse': "parse (n_created_at c') \<noteq> None"
    if "c' \<in> set ?cs'" "n_delivery_status c' = ND_PENDING" "\<not> n_requires_immediate_delivery c'" for c'
    using that plan_ok_parse [OF p] by (auto simp: ok(1) emitted_def split: if_splits)
  obtain p' where p': "plan parse window now ?cs' False False = Inr p'"
    using plan_total [of ?cs' parse window now] parse' by blast
  have "filter (deliverable parse window now) ?cs' = []"
    by (auto simp: ok(1) filter_empty_conv)
  then have "concat (dp_groups p') = []"
    using plan_spec(1) [OF p'] by simp
  moreover have "\<forall>g \<in> set (dp_groups p'). g \<noteq> []"
    using plan_spec(2) [OF p'] by (simp add: list_all_iff group_ok_def)
  ultimately have "dp_groups p' = []"
    by (metis concat_eq_Nil_conv last_in_set)
  then have "process_pending parse emit' window now ctx' False False s' = (Inr ([], dp_next_due p'), s')"
    by (simp add: process_pending_def p')
  then show ?thesis using ok(1) by (auto simp: emitted_def)
qed

theorem delivery_round_witness:
  "\<exists>ms nd s'. process_pending digits_parse (\<lambda>cs. Inr (length cs)) 2 4 None False False
      (put_notification_candidate None (sample_candidate ''a'' ''xx'' False) bb_init) = (Inr (ms, nd), s') \<and>
    map n_delivery_status (list_notification_candidates s') = [ND_EMITTED]"
proof -
  let ?c = "sample_candidate ''a'' ''xx'' False"
  let ?s = "put_notification_candidate None ?c bb_init"
  have none: "list_notification_candidates bb_init = []" "get_notification_candidate bb_init k = None" for k
    by (simp_all add: list_notification_candidates_def get_notification_candidate_def bb_init_def
        ordered_values_def map_filter_simps)
  have cs: "list_notification_candidates ?s = [?c]"
    by (simp add: candidates.elems_put [OF bb_wf_init] none)
  have plan: "plan digits_parse 2 4 [?c] False False = Inr \<lparr>dp_groups = [[?c]], dp_next_due = None\<rparr>"
    by (simp add: plan_def sample_candidate_def due_at_def digits_parse_def merged_groups_def
        group_by_merge_key_def dd_append_def dd_get_def dict_put_def dict_keys_def)
  obtain ms nd s' where run: "process_pending digits_parse (\<lambda>cs. Inr (length cs)) 2 4 None False False ?s =
      (Inr (ms, nd), s')"
    by (simp add: process_pending_def cs plan emit_group_def)
  have wf: "bb_wf ?s" by (rule bb_wf_put_notification_candidate [OF bb_wf_init])
  from delivery_round [OF wf run, of "\<lambda>cs. Inr ()" None]
  have "list_notification_candidates s' =
      map (\<lambda>c. if deliverable digits_parse 2 4 c then c\<lparr>n_delivery_status := ND_EMITTED\<rparr> else c)
        (list_notification_candidates ?s)" by blast
  then have "list_notification_candidates s' =
      [if deliverable digits_parse 2 4 ?c then ?c\<lparr>n_delivery_status := ND_EMITTED\<rparr> else ?c]"
    by (simp add: cs)
  then show ?thesis
    using run by (simp add:  deliverable_def is_due_def sample_candidate_def digits_parse_def)
qed

section \<open>Every interleaving\<close>

text \<open>The manager's operations beside any other operation of the store.\<close>

inductive notification_step :: "blackboard \<Rightarrow> blackboard \<Rightarrow> bool" where
  created: "notification_step s (snd (notify_on_write ctx now ev s))"
| processed: "notification_step s (snd (process_pending parse
    (emit :: notification_candidate list \<Rightarrow> str result) window now ctx busy users s))"
| store: "\<forall>c. x \<noteq> OpPutCandidate c \<Longrightarrow> notification_step s (bb_apply ctx x s)"

lemma notify_on_write_cases:
  obtains (same) "snd (notify_on_write ctx now ev s) = s"
  | (new) c where "snd (notify_on_write ctx now ev s) = put_notification_candidate ctx c s"
      and "\<not> already_exists c (list_notification_candidates s)" and "n_delivery_status c = ND_PENDING"
proof -
  define Q where "Q t \<longleftrightarrow> t = s \<or> (\<exists>c. t = put_notification_candidate ctx c s \<and>
      \<not> already_exists c (list_notification_candidates s) \<and> n_delivery_status c = ND_PENDING)" for t
  have put: "Q (snd (put_candidate_opt ctx r s))"
    if "\<And>c. r = Inr (Some c) \<Longrightarrow>
      \<not> already_exists c (list_notification_candidates s) \<and> n_delivery_status c = ND_PENDING" for r
    using that by (auto simp: put_candidate_opt_def Q_def split: sum.split option.split)
  have Qs: "Q s" by (simp add: Q_def)
  have run: "build_from_run now t r y cs = Inr (Some c) \<Longrightarrow>
      \<not> already_exists c cs \<and> n_delivery_status c = ND_PENDING" for t r y cs c
    by (auto simp: build_from_run_def unless_exists_def split: sum.splits bool.splits if_splits)
  have sum: "build_from_summary now t y cs = Inr (Some c) \<Longrightarrow>
      \<not> already_exists c cs \<and> n_delivery_status c = ND_PENDING" for t y cs c
    by (auto simp: build_from_summary_def unless_exists_def split: sum.splits bool.splits option.splits if_splits)
  have "Q (snd (notify_on_write ctx now ev s))"
    unfolding notify_on_write_def Let_def
    by (simp split: option.split add: Qs) (blast intro: put dest: run sum)
  then show thesis using same new unfolding Q_def by blast
qed

lemma emit_groups_puts:
  "snd (emit_groups emit ctx gs ms s) = s \<or>
   (\<exists>hs. set hs \<subseteq> set gs \<and>
      snd (emit_groups emit ctx gs ms s) = candidates.put_each ctx (\<lambda>_. True) emitted (concat hs) s)"
proof (induction gs arbitrary: ms s)
  case (Cons g gs)
  show ?case
  proof (cases "emit_group emit ctx g s")
    case (Pair r s1)
    show ?thesis
    proof (cases r)
      case (Inl e)
      then show ?thesis using Pair by (auto simp: emit_group_def split: sum.splits)
    next
      case (Inr m)
      have s1: "s1 = candidates.put_each ctx (\<lambda>_. True) emitted g s"
        using Pair Inr by (simp add: emit_group_ok)
      have "\<exists>hs. set hs \<subseteq> set gs \<and>
          snd (emit_groups emit ctx gs (ms @ [m]) s1) = candidates.put_each ctx (\<lambda>_. True) emitted (concat hs) s1"
        using Cons.IH [of "ms @ [m]" s1] by (force intro: exI [of _ "[]"] simp: candidates.put_each_def)
      then obtain hs where "set hs \<subseteq> set gs"
        and "snd (emit_groups emit ctx gs (ms @ [m]) s1) = candidates.put_each ctx (\<lambda>_. True) emitted (concat hs) s1"
        by blast
      then have "set (g # hs) \<subseteq> set (g # gs)"
        and "snd (emit_groups emit ctx (g # gs) ms s) =
          candidates.put_each ctx (\<lambda>_. True) emitted (concat (g # hs)) s"
        using Pair Inr by (auto simp: s1 put_each_append)
      then show ?thesis by blast
    qed
  qed
qed simp

lemma process_pending_puts:
  "\<exists>xs. (\<forall>c \<in> set xs. c \<in> set (list_notification_candidates s) \<and> n_delivery_status c = ND_PENDING) \<and>
     snd (process_pending parse emit window now ctx busy users s) =
       candidates.put_each ctx (\<lambda>_. True) emitted xs s"
proof -
  let ?none = "candidates.put_each ctx (\<lambda>_. True) emitted [] s"
  have nil: "?none = s" by (simp add: candidates.put_each_def)
  show ?thesis
  proof (cases "plan parse window now (list_notification_candidates s) busy users")
    case (Inl e)
    then show ?thesis using nil by (intro exI [of _ "[]"]) (simp add: process_pending_def)
  next
    case (Inr p)
    show ?thesis
    proof (cases "dp_groups p = []")
      case True
      then show ?thesis using Inr nil by (intro exI [of _ "[]"]) (simp add: process_pending_def)
    next
      case False
      then have "\<not> busy" "\<not> users" using plan_delivers_due_free [OF Inr] by blast+
      then have perm: "mset (concat (dp_groups p)) =
          mset (filter (deliverable parse window now) (list_notification_candidates s))"
        using Inr plan_spec(1) by simp
      have mem: "c \<in> set (list_notification_candidates s) \<and> n_delivery_status c = ND_PENDING"
        if "g \<in> set (dp_groups p)" "c \<in> set g" for c g
      proof -
        have "c \<in> set (concat (dp_groups p))" using that by auto
        then have "c \<in> set (filter (deliverable parse window now) (list_notification_candidates s))"
          using mset_eq_setD [OF perm] by blast
        then show ?thesis by (auto simp: deliverable_def)
      qed
      have "snd (process_pending parse emit window now ctx busy users s) =
          snd (emit_groups emit ctx (dp_groups p) [] s)"
        using Inr False by (simp add: process_pending_def split: prod.split sum.split)
      moreover have "(\<exists>xs. (\<forall>c \<in> set xs. c \<in> set (list_notification_candidates s) \<and> n_delivery_status c = ND_PENDING) \<and>
          snd (emit_groups emit ctx (dp_groups p) [] s) = candidates.put_each ctx (\<lambda>_. True) emitted xs s)"
        using emit_groups_puts [of emit ctx "dp_groups p" "[]" s]
      proof
        assume "snd (emit_groups emit ctx (dp_groups p) [] s) = s"
        then show ?thesis using nil by (intro exI [of _ "[]"]) simp
      next
        assume "\<exists>hs. set hs \<subseteq> set (dp_groups p) \<and> snd (emit_groups emit ctx (dp_groups p) [] s) =
          candidates.put_each ctx (\<lambda>_. True) emitted (concat hs) s"
        then obtain hs where hs: "set hs \<subseteq> set (dp_groups p)"
          and eq: "snd (emit_groups emit ctx (dp_groups p) [] s) =
            candidates.put_each ctx (\<lambda>_. True) emitted (concat hs) s"
          by blast
        show ?thesis
          by (rule exI [of _ "concat hs"]) (use hs eq mem in \<open>simp, blast\<close>)
      qed
      ultimately show ?thesis by simp
    qed
  qed
qed

lemma store_step_candidates:
  assumes "\<forall>c. x \<noteq> OpPutCandidate c"
  shows "get_notification_candidate (bb_apply ctx x s) = get_notification_candidate s"
proof -
  have [simp]: "get_notification_candidate (append_mutation c m t) = get_notification_candidate t"
    "get_notification_candidate (snd (delete_persona c k t)) = get_notification_candidate t"
    "get_notification_candidate (snd (subscribe t)) = get_notification_candidate t"
    "get_notification_candidate (unsubscribe n t) = get_notification_candidate t" for c m k t n
    by (simp_all add: append_mutation_def delete_persona_def subscribe_def unsubscribe_def Let_def
        get_notification_candidate_def fun_eq_iff split: option.splits)
  show ?thesis using assms by (cases x) simp_all
qed

lemma get_put_each_pending:
  assumes "bb_wf s" and "\<forall>c \<in> set xs. get_notification_candidate s (n_candidate_id c) = Some c \<and>
      n_delivery_status c = ND_PENDING"
    and "get_notification_candidate s k = Some d" and "n_delivery_status d \<noteq> ND_PENDING"
  shows "get_notification_candidate (candidates.put_each ctx (\<lambda>_. True) emitted xs s) k = Some d"
proof -
  have other: "\<forall>c \<in> set xs. n_candidate_id c \<noteq> k" using assms(2-4) by auto
  have "get_notification_candidate (fold (\<lambda>c s. put_notification_candidate ctx (emitted c) s) xs t) k =
      get_notification_candidate t k" for t
    using other by (induction xs arbitrary: t) (auto simp: candidates.get_put)
  then show ?thesis using assms(3) by (simp add: candidates.put_each_def)
qed

lemma emitted_stays_step:
  assumes "notification_step s s'" and "bb_wf s"
    and "get_notification_candidate s k = Some c" and "n_delivery_status c \<noteq> ND_PENDING"
  shows "get_notification_candidate s' k = Some c \<and> bb_wf s'"
  using assms(1)
proof cases
  case (created ctx now ev)
  show ?thesis
  proof (cases rule: notify_on_write_cases [of ctx now ev s])
    case same
    then show ?thesis using assms created by simp
  next
    case (new d)
    have key: "n_candidate_id c = k" using candidates.get_key [OF assms(2,3)] .
    then have "c \<in> set (list_notification_candidates s)"
      using assms(3) by (simp add: candidates.elems_get [OF assms(2)])
    then have "n_candidate_id d \<noteq> k"
      using new(2) key by (auto simp: already_exists_def list_ex_iff)
    then show ?thesis
      using new(1) assms created by (simp add: candidates.get_put bb_wf_put_notification_candidate)
  qed
next
  case (processed parse emit window now ctx busy users)
  obtain xs where mem: "\<forall>c \<in> set xs. c \<in> set (list_notification_candidates s) \<and> n_delivery_status c = ND_PENDING"
    and s': "s' = candidates.put_each ctx (\<lambda>_. True) emitted xs s"
    using process_pending_puts [of s parse emit window now ctx busy users] processed by auto
  have "\<forall>c \<in> set xs. get_notification_candidate s (n_candidate_id c) = Some c \<and> n_delivery_status c = ND_PENDING"
    using mem by (simp add: candidates.elems_get [OF assms(2)])
  then show ?thesis
    using get_put_each_pending [OF assms(2) _ assms(3,4)] candidates.wf_put_each [OF assms(2)]
    by (simp add: s')
next
  case (store x ctx)
  then show ?thesis using assms store_step_candidates by (simp add: bb_wf_apply)
qed

text \<open>nobody is notified twice of the same thing. Once a candidate has been emitted, no
  interleaving of writes, new candidates and delivery rounds makes it pending again or replaces
  it, so it is never part of another message.\<close>

theorem emitted_once:
  assumes "notification_step\<^sup>*\<^sup>* s s'" and "bb_wf s"
    and "get_notification_candidate s k = Some c" and "n_delivery_status c = ND_EMITTED"
  shows "get_notification_candidate s' k = Some c \<and>
    (\<forall>parse window now busy users p. plan parse window now (list_notification_candidates s') busy users = Inr p \<longrightarrow>
       c \<notin> set (concat (dp_groups p)))"
proof
  have "get_notification_candidate s' k = Some c \<and> bb_wf s'"
    using assms(1)
  proof (induction rule: rtranclp_induct)
    case base
    then show ?case using assms by simp
  next
    case (step t u)
    then show ?case using emitted_stays_step [OF step.hyps(2), of k c] assms(4) by simp
  qed
  then show "get_notification_candidate s' k = Some c" by simp
  have "c \<notin> set (concat (dp_groups p))"
    if "plan parse window now (list_notification_candidates s') busy users = Inr p"
    for parse window now busy users p
  proof (cases "dp_groups p = []")
    case False
    then have "\<not> busy" "\<not> users" using plan_delivers_due_free [OF that] by blast+
    then have "mset (concat (dp_groups p)) =
        mset (filter (deliverable parse window now) (list_notification_candidates s'))"
      using that plan_spec(1) by simp
    from mset_eq_setD [OF this] show ?thesis using assms(4) by (auto simp: deliverable_def)
  qed simp
  then show "\<forall>parse window now busy users p.
      plan parse window now (list_notification_candidates s') busy users = Inr p \<longrightarrow>
      c \<notin> set (concat (dp_groups p))"
    by blast
qed

theorem emitted_once_witness:
  "get_notification_candidate
     (snd (process_pending digits_parse (\<lambda>cs. Inr ''done'') 2 9 None False False
        (put_notification_candidate None (emitted (sample_candidate ''a'' ''xx'' True)) bb_init))) ''a'' =
   Some (emitted (sample_candidate ''a'' ''xx'' True))"
proof -
  let ?c = "emitted (sample_candidate ''a'' ''xx'' True)"
  let ?s = "put_notification_candidate None ?c bb_init"
  have step: "notification_step\<^sup>*\<^sup>* ?s
      (snd (process_pending digits_parse (\<lambda>cs. Inr ''done'') 2 9 None False False ?s))"
    by (rule r_into_rtranclp) (rule notification_step.processed)
  have get: "get_notification_candidate ?s ''a'' = Some ?c"
    by (simp add: candidates.get_put sample_candidate_def emitted_def)
  show ?thesis
    using emitted_once [OF step bb_wf_put_notification_candidate [OF bb_wf_init] get]
    by (simp add: emitted_def)
qed

end
