(* ===== verification/Sessions.thy ===== *)
theory Sessions
  imports Blackboard
begin

text \<open>
  \<open>src/newbro/execution/session_manager.py\<close>: which execution session, and which live session of
  the executor, a claimed task runs in. The manager's own state is the dictionary of live
  sessions. Of an executor the manager uses its type, the node it may name, and
  \<open>create_session\<close>, which belongs to an adapter and may raise: an exception is its class name
  and its text. The mutation of a session object that is already in the store is a write of the
  updated object, which the code also makes.
\<close>

type_synonym exn = "str \<times> str"

type_synonym live_sessions = "(str, executor_session) dict"

record executor_port =
  ex_type :: str
  ex_node_id :: "str option"
  ex_create_session :: "str option \<Rightarrow> exn + executor_session"

text \<open>\<open>AgentResumeHandle.model_dump(mode="json")\<close>.\<close>

definition dump_resume_handle :: "agent_resume_handle \<Rightarrow> json" where
  "dump_resume_handle h =
     JObj [(''executor_id'', JStr (h_executor_id h)), (''session_handle'', json_of_str (h_session_handle h)),
           (''turn_handle'', json_of_str (h_turn_handle h)), (''opaque'', JObj (h_opaque h))]"

definition hydrate_resume_handle :: "agent_resume_handle option \<Rightarrow> executor_session \<Rightarrow> executor_session" where
  "hydrate_resume_handle h es =
     (case h of
        None \<Rightarrow> es\<lparr>es_metadata := dict_pop ''latest_resume_handle'' (es_metadata es)\<rparr>
      | Some h \<Rightarrow> es\<lparr>es_metadata := dict_put ''latest_resume_handle'' (dump_resume_handle h) (es_metadata es)\<rparr>)"

definition task_continuity_key :: "task \<Rightarrow> str option" where
  "task_continuity_key t =
     (case jstr_nonempty (jget (t_metadata t) ''bro_thread_id'') of
        Some k \<Rightarrow> Some k
      | None \<Rightarrow> jstr_nonempty (jget (t_metadata t) ''bro_detail_session_id''))"

definition put_str :: "str \<Rightarrow> str option \<Rightarrow> jdict \<Rightarrow> jdict" where
  "put_str k v d = (case v of Some x \<Rightarrow> dict_put k (JStr x) d | None \<Rightarrow> d)"

definition task_imported_resume_handle :: "task \<Rightarrow> agent_resume_handle option" where
  "task_imported_resume_handle t =
     (let md = t_metadata t in
      if jget md ''codex_thread_mode'' \<noteq> JStr ''resume'' then None
      else case jstr_nonempty (jget md ''codex_import_thread_id'') of
        None \<Rightarrow> None
      | Some v \<Rightarrow>
          Some \<lparr>h_executor_id = ''codex'', h_session_handle = Some v, h_turn_handle = None,
                h_opaque = put_str ''path'' (jstr_nonempty (jget md ''codex_import_path''))
                  (put_str ''cwd'' (jstr_nonempty (jget md ''codex_import_cwd'')) [])\<rparr>)"

definition reusable_by :: "str \<Rightarrow> str \<Rightarrow> str option \<Rightarrow> execution_session \<Rightarrow> bool" where
  "reusable_by key ty node x \<longleftrightarrow>
     s_continuity_key x = Some key \<and> s_base_executor_id x = ty \<and> s_executor_node_id x = node"

definition find_reusable_session :: "str \<Rightarrow> str \<Rightarrow> str option \<Rightarrow> blackboard \<Rightarrow> execution_session option" where
  "find_reusable_session key ty node s =
     (let candidates = filter (reusable_by key ty node) (list_sessions s)
      in if candidates = [] then None else Some (last candidates))"

definition task_node_id :: "executor_port \<Rightarrow> task \<Rightarrow> str option" where
  "task_node_id ex t =
     (case jstr_nonempty (jget (t_metadata t) ''executor_node_id'') of
        Some n \<Rightarrow> Some n
      | None \<Rightarrow> ex_node_id ex)"

type_synonym ensured = "execution_session \<times> session_binding \<times> executor_session"

text \<open>The binding already names a stored session: keep it, recreating the live one if it is gone.\<close>

definition resume_bound_session ::
    "str option \<Rightarrow> executor_port \<Rightarrow> task \<Rightarrow> session_binding \<Rightarrow> execution_session \<Rightarrow> live_sessions \<Rightarrow>
     blackboard \<Rightarrow> (exn + ensured) \<times> live_sessions \<times> blackboard" where
  "resume_bound_session ctx ex t b existing live s =
     (let node = task_node_id ex t;
          moved = (node \<noteq> None \<and> s_executor_node_id existing \<noteq> node);
          existing' = (if moved then existing\<lparr>s_executor_node_id := node\<rparr> else existing);
          s1 = (if moved then put_session ctx existing' s else s)
      in case map_of live (s_execution_session_id existing') of
           Some cached \<Rightarrow>
             (let b' = b\<lparr>b_binding_status := BS_ACTIVE, b_executor_node_id := node\<rparr>
              in (Inr (existing', b', cached), live, put_binding ctx b' s1))
         | None \<Rightarrow>
             (case ex_create_session ex (t_session_affinity t) of
                Inl e \<Rightarrow> (Inl e, live, s1)
              | Inr es0 \<Rightarrow>
                  (let es = hydrate_resume_handle (s_latest_resume_handle existing') es0;
                       b' = b\<lparr>b_session_id := Some (es_session_id es), b_executor_node_id := node,
                              b_binding_status := BS_ACTIVE\<rparr>
                   in (Inr (existing', b', es), dict_put (s_execution_session_id existing') es live,
                       put_binding ctx b' s1))))"

text \<open>Another session with the same continuity key, executor and node.\<close>

definition join_session ::
    "str option \<Rightarrow> executor_port \<Rightarrow> task \<Rightarrow> session_binding \<Rightarrow> execution_session \<Rightarrow> live_sessions \<Rightarrow>
     blackboard \<Rightarrow> (exn + ensured) \<times> live_sessions \<times> blackboard" where
  "join_session ctx ex t b reusable live s =
     (let sid = s_execution_session_id reusable;
          got = (case map_of live sid of
                   Some cached \<Rightarrow> Inr (cached, live)
                 | None \<Rightarrow>
                     (case ex_create_session ex (t_session_affinity t) of
                        Inl e \<Rightarrow> Inl e
                      | Inr es0 \<Rightarrow>
                          (let es = hydrate_resume_handle (s_latest_resume_handle reusable) es0
                           in Inr (es, dict_put sid es live))))
      in case got of
           Inl e \<Rightarrow> (Inl e, live, s)
         | Inr (cached, live') \<Rightarrow>
             (let b' = b\<lparr>b_execution_session_id := Some sid, b_session_id := Some (es_session_id cached),
                         b_executor_node_id := task_node_id ex t, b_binding_status := BS_ACTIVE\<rparr>
              in (Inr (reusable, b', cached), live', put_binding ctx b' s)))"

definition new_session ::
    "str option \<Rightarrow> str \<Rightarrow> executor_port \<Rightarrow> task \<Rightarrow> session_binding \<Rightarrow> live_sessions \<Rightarrow>
     blackboard \<Rightarrow> (exn + ensured) \<times> live_sessions \<times> blackboard" where
  "new_session ctx uid ex t b live s =
     (case ex_create_session ex (t_session_affinity t) of
        Inl e \<Rightarrow> (Inl e, live, s)
      | Inr es0 \<Rightarrow>
          (let imported = task_imported_resume_handle t;
               es = (if imported \<noteq> None then hydrate_resume_handle imported es0 else es0);
               sid = ''exec-session-'' @ uid;
               x = \<lparr>s_execution_session_id = sid, s_task_id = t_task_id t, s_base_executor_id = ex_type ex,
                    s_executor_node_id = task_node_id ex t, s_continuity_key = task_continuity_key t,
                    s_run_ids = [], s_active_run_id = None, s_latest_run_id = None,
                    s_latest_resume_handle = imported, s_queued_run_request = None\<rparr>;
               b' = b\<lparr>b_execution_session_id := Some sid, b_executor_node_id := task_node_id ex t,
                      b_session_id := Some (es_session_id es), b_binding_status := BS_ACTIVE\<rparr>
           in (Inr (x, b', es), dict_put sid es live, put_binding ctx b' (put_session ctx x s))))"

definition bound_session :: "session_binding \<Rightarrow> blackboard \<Rightarrow> execution_session option" where
  "bound_session b s =
     (if str_truthy (b_execution_session_id b) then get_session s (the (b_execution_session_id b)) else None)"

definition ensure_session ::
    "str option \<Rightarrow> str \<Rightarrow> executor_port \<Rightarrow> task \<Rightarrow> session_binding \<Rightarrow> live_sessions \<Rightarrow> blackboard \<Rightarrow>
     (exn + ensured) \<times> live_sessions \<times> blackboard" where
  "ensure_session ctx uid ex t b live s =
     (case bound_session b s of
        Some existing \<Rightarrow> resume_bound_session ctx ex t b existing live s
      | None \<Rightarrow>
          (case (case task_continuity_key t of
                   Some key \<Rightarrow> find_reusable_session key (ex_type ex) (task_node_id ex t) s
                 | None \<Rightarrow> None) of
             Some reusable \<Rightarrow> join_session ctx ex t b reusable live s
           | None \<Rightarrow> new_session ctx uid ex t b live s))"

definition drop_live_session :: "str \<Rightarrow> live_sessions \<Rightarrow> live_sessions" where
  "drop_live_session sid live = dict_pop sid live"

definition get_live_session :: "str \<Rightarrow> live_sessions \<Rightarrow> executor_session option" where
  "get_live_session sid live = map_of live sid"

section \<open>Properties\<close>

lemma bb_wf_ensure_session:
  "bb_wf s \<Longrightarrow> ensure_session ctx uid ex t b live s = (r, live', s') \<Longrightarrow> bb_wf s'"
  by (auto simp: ensure_session_def resume_bound_session_def join_session_def new_session_def Let_def
      bb_wf_put_binding bb_wf_put_session split: option.splits sum.splits)

lemma put_binding_sessions: "list_sessions (put_binding c b s) = list_sessions s"
  "get_session (put_binding c b s) = get_session s"
  by simp_all

lemma last_filter_mem:
  "find_reusable_session key ty node s = Some x \<Longrightarrow> x \<in> set (list_sessions s) \<and> reusable_by key ty node x"
proof -
  assume "find_reusable_session key ty node s = Some x"
  then have "x = last (filter (reusable_by key ty node) (list_sessions s))"
    and "filter (reusable_by key ty node) (list_sessions s) \<noteq> []"
    by (auto simp: find_reusable_session_def Let_def split: if_splits)
  then have "x \<in> set (filter (reusable_by key ty node) (list_sessions s))"
    using last_in_set by blast
  then show ?thesis by simp
qed

text \<open>What every successful call leaves behind, whichever way it took.\<close>

lemma ensure_session_ok:
  assumes "bb_wf s" and "ensure_session ctx uid ex t b live s = (Inr (x, b', es), live', s')"
    and "b_task_id b = t_task_id t"
  shows "get_binding s' (t_task_id t) = Some b'" and "b_binding_status b' = BS_ACTIVE"
    and "b_executor_node_id b' = task_node_id ex t"
    and "get_session s' (s_execution_session_id x) = Some x"
    and "map_of live' (s_execution_session_id x) = Some es"
    and "b_execution_session_id b' = Some (s_execution_session_id x)"
    and "b_claimed_by b' = b_claimed_by b"
proof -
  have bound: "bound_session b s = Some e \<Longrightarrow>
      b_execution_session_id b = Some (s_execution_session_id e) \<and> get_session s (s_execution_session_id e) = Some e" for e
    using sessions.get_key [OF assms(1)] by (auto simp: bound_session_def str_truthy_def split: if_splits option.splits)
  have reus: "find_reusable_session k ty node s = Some e \<Longrightarrow> get_session s (s_execution_session_id e) = Some e"
    for k ty node e
    using last_filter_mem sessions.elems_get [OF assms(1)] by blast
  have "get_binding s' (t_task_id t) = Some b' \<and> b_binding_status b' = BS_ACTIVE \<and>
    b_executor_node_id b' = task_node_id ex t \<and>
    get_session s' (s_execution_session_id x) = Some x \<and>
    map_of live' (s_execution_session_id x) = Some es \<and>
    b_execution_session_id b' = Some (s_execution_session_id x) \<and> b_claimed_by b' = b_claimed_by b"
  proof (cases "bound_session b s")
    case (Some e)
    then show ?thesis
      using assms bound [OF Some]
      by (auto simp: ensure_session_def resume_bound_session_def Let_def bindings.get_put sessions.get_put
          split: option.splits sum.splits if_splits)
  next
    case None
    show ?thesis
    proof (cases "case task_continuity_key t of
        Some key \<Rightarrow> find_reusable_session key (ex_type ex) (task_node_id ex t) s | None \<Rightarrow> None")
      case (Some e)
      then have "get_session s (s_execution_session_id e) = Some e"
        using reus by (auto split: option.splits)
      then show ?thesis
        using assms None Some
        by (auto simp: ensure_session_def join_session_def Let_def bindings.get_put
            split: option.splits sum.splits)
    next
      case none: None
      then show ?thesis
        using assms None
        by (auto simp: ensure_session_def new_session_def Let_def bindings.get_put sessions.get_put
            split: sum.splits)
    qed
  qed
  then show "get_binding s' (t_task_id t) = Some b'" "b_binding_status b' = BS_ACTIVE"
    "b_executor_node_id b' = task_node_id ex t" "get_session s' (s_execution_session_id x) = Some x"
    "map_of live' (s_execution_session_id x) = Some es"
    "b_execution_session_id b' = Some (s_execution_session_id x)" "b_claimed_by b' = b_claimed_by b"
    by auto
qed

lemma find_reusable_after:
  assumes "bb_wf s" and "bound_session b s = None" and "task_continuity_key t = Some key"
    and "ensure_session ctx uid ex t b live s = (Inr (x, b', es), live', s')"
    and "get_session s (''exec-session-'' @ uid) = None"
  shows "find_reusable_session key (ex_type ex) (task_node_id ex t) s' = Some x"
proof (cases "find_reusable_session key (ex_type ex) (task_node_id ex t) s")
  case (Some e)
  then have "x = e \<and> s' = put_binding ctx b' s"
    using assms by (auto simp: ensure_session_def join_session_def Let_def split: option.splits sum.splits)
  with Some show ?thesis by (simp add: find_reusable_session_def)
next
  case None
  then have s': "s' = put_binding ctx b' (put_session ctx x s)"
    and id: "s_execution_session_id x = ''exec-session-'' @ uid"
    and reus: "reusable_by key (ex_type ex) (task_node_id ex t) x"
    using assms by (auto simp: ensure_session_def new_session_def Let_def reusable_by_def split: sum.splits)
  have "list_sessions s' = list_sessions s @ [x]"
    using assms(5) by (simp add: s' sessions.elems_put [OF assms(1)] id)
  then show ?thesis using reus by (simp add: find_reusable_session_def)
qed

text \<open>two tasks of one conversation thread share one session. If a task without a session of
  its own gets one, a later task with the same continuity key, the same kind of executor and the
  same node joins that very session and the very same live session of the executor; no session
  is created, and only the binding of the new task is written.\<close>

theorem continuity_shares_session:
  assumes "bb_wf s" and "bound_session b1 s = None"
    and "get_session s (''exec-session-'' @ uid) = None" and "b_task_id b1 = t_task_id t1"
    and "ensure_session ctx uid ex t1 b1 live s = (Inr (x, b1', es), live1, s1)"
    and "task_continuity_key t1 = Some key" and "task_continuity_key t2 = Some key"
    and "ex_type ex2 = ex_type ex" and "task_node_id ex2 t2 = task_node_id ex t1"
    and "bound_session b2 s1 = None"
  shows "\<exists>b2'. ensure_session ctx2 uid2 ex2 t2 b2 live1 s1 =
      (Inr (x, b2', es), live1, put_binding ctx2 b2' s1) \<and>
    b_task_id b2' = b_task_id b2 \<and> b_binding_status b2' = BS_ACTIVE \<and>
    b_execution_session_id b2' = Some (s_execution_session_id x) \<and>
    b_session_id b2' = Some (es_session_id es)"
proof -
  have "find_reusable_session key (ex_type ex2) (task_node_id ex2 t2) s1 = Some x"
    using find_reusable_after [OF assms(1,2,6,5,3)] assms(8,9) by simp
  moreover have "map_of live1 (s_execution_session_id x) = Some es"
    using ensure_session_ok(5) [OF assms(1,5,4)] .
  ultimately show ?thesis
    using assms(7,10) by (simp add: ensure_session_def join_session_def Let_def)
qed

definition demo_task :: "str \<Rightarrow> task" where
  "demo_task k = \<lparr>t_task_id = k, t_root_task_id = k, t_parent_task_id = None,
     t_title = ''Fix'', t_goal = ''Fix it'', t_status = TS_QUEUED, t_priority = 5,
     t_interruptible = True, t_requires_confirmation = False, t_preferred_executor = None,
     t_session_affinity = None, t_task_revision = 0, t_latest_instruction = None,
     t_metadata = [(''bro_thread_id'', JStr ''thread-1'')]\<rparr>"

definition demo_binding :: "str \<Rightarrow> session_binding" where
  "demo_binding k = \<lparr>b_task_id = k, b_execution_session_id = None, b_executor_node_id = None,
     b_session_id = None, b_claimed_by = Some ''w'', b_claim_expires_at = Some ''later'',
     b_execution_revision = 0, b_binding_status = BS_CLAIMED\<rparr>"

definition demo_port :: executor_port where
  "demo_port = \<lparr>ex_type = ''codex'', ex_node_id = Some ''node-1'', ex_create_session =
     (\<lambda>_. Inr \<lparr>es_session_id = ''native-1'', es_executor_type = ''codex'', es_status = SS_IDLE,
                es_metadata = []\<rparr>)\<rparr>"

theorem continuity_shares_session_witness:
  "\<exists>x es b2' live1 s1.
     ensure_session None ''1'' demo_port (demo_task ''t1'') (demo_binding ''t1'') [] bb_init =
       (Inr (x, (demo_binding ''t1'')\<lparr>b_execution_session_id := Some ''exec-session-1'',
                  b_executor_node_id := Some ''node-1'', b_session_id := Some ''native-1'',
                  b_binding_status := BS_ACTIVE\<rparr>, es), live1, s1) \<and>
     ensure_session None ''2'' demo_port (demo_task ''t2'') (demo_binding ''t2'') live1 s1 =
       (Inr (x, b2', es), live1, put_binding None b2' s1)"
proof -
  let ?r = "ensure_session None ''1'' demo_port (demo_task ''t1'') (demo_binding ''t1'') [] bb_init"
  let ?b = "(demo_binding ''t1'')\<lparr>b_execution_session_id := Some ''exec-session-1'',
      b_executor_node_id := Some ''node-1'', b_session_id := Some ''native-1'', b_binding_status := BS_ACTIVE\<rparr>"
  have key: "task_continuity_key (demo_task k) = Some ''thread-1''" for k
    by (simp add: task_continuity_key_def demo_task_def)
  have bound: "bound_session (demo_binding k) s = None" for k s
    by (simp add: bound_session_def demo_binding_def)
  have plain: "task_imported_resume_handle (demo_task k) = None"
    "task_node_id demo_port (demo_task k) = Some ''node-1''" "t_session_affinity (demo_task k) = None"
    "ex_create_session demo_port a = Inr \<lparr>es_session_id = ''native-1'', es_executor_type = ''codex'',
       es_status = SS_IDLE, es_metadata = []\<rparr>" for k a
    by (simp_all add: task_imported_resume_handle_def task_node_id_def demo_task_def demo_port_def)
  have none: "find_reusable_session key ty node bb_init = None" for key ty node
    by (simp add: find_reusable_session_def list_sessions_def bb_init_def dict_values_def)
  obtain x es live1 s1 where r: "?r = (Inr (x, ?b, es), live1, s1)"
    by (simp add: ensure_session_def bound key none new_session_def plain Let_def)
  have fresh: "get_session bb_init (''exec-session-'' @ ''1'') = None"
    by (simp add: get_session_def bb_init_def)
  have node: "task_node_id demo_port (demo_task ''t2'') = task_node_id demo_port (demo_task ''t1'')"
    by (simp add: task_node_id_def demo_task_def)
  have id: "b_task_id (demo_binding ''t1'') = t_task_id (demo_task ''t1'')"
    by (simp add: demo_binding_def demo_task_def)
  from continuity_shares_session [OF bb_wf_init bound fresh id r key key refl node bound, of None "''2''"] r
  show ?thesis by blast
qed

end
