(* ===== verification/Reconcile.thy ===== *)
theory Reconcile
  imports Sessions Execution
begin

text \<open>
  \<open>src/newbro/execution/reconcile.py\<close>: the execution of one claimed task. An executor is what
  the loop uses of it: its port (\<open>Sessions\<close>) and \<open>run_task\<close>, which yields events one by one and
  may raise; the model takes the events it yields with the time elapsed at each, the exception
  that ends it, if any, and the executor session as the executor leaves it. The model runs one
  execution without other writers in between; \<open>tick\<close> claims the runnable tasks and then runs
  their executions concurrently, and only its claiming is modelled. \<open>uids\<close> gives the fresh ids.
\<close>

record executor_impl =
  im_port :: executor_port
  im_run_task :: "execution_run \<Rightarrow> task \<Rightarrow> executor_session \<Rightarrow>
    (executor_event \<times> rat) list \<times> exn option \<times> executor_session"

text \<open>\<open>rc_validate\<close> is \<open>AgentResumeHandle.model_validate\<close>, \<open>None\<close> its \<open>ValidationError\<close>.\<close>

record reconcile_env =
  rc_registry :: "(str, executor_impl) dict"
  rc_default_executor :: str
  rc_threshold :: rat
  rc_validate :: "jdict \<Rightarrow> agent_resume_handle option"

section \<open>The parts of an execution\<close>

text \<open>The task as the executor sees it: with the persona's prompt, when it has one.\<close>

definition executor_task :: "task \<Rightarrow> blackboard \<Rightarrow> task" where
  "executor_task t s =
     (case jstr (jget (t_metadata t) ''persona_id'') of
        None \<Rightarrow> t
      | Some k \<Rightarrow>
          (case get_persona s k of
             None \<Rightarrow> t
           | Some p \<Rightarrow>
               if p_base_prompt p \<noteq> [] then
                 t\<lparr>t_metadata := dict_put ''executor_persona_prompt'' (JStr (p_base_prompt p)) (t_metadata t)\<rparr>
               else t))"

definition released :: "session_binding \<Rightarrow> session_binding" where
  "released b = b\<lparr>b_claimed_by := None, b_claim_expires_at := None, b_binding_status := BS_RELEASED\<rparr>"

definition active_statuses :: "task_status list" where
  "active_statuses =
     [TS_CREATED, TS_QUEUED, TS_RUNNING, TS_WAITING_EXECUTOR, TS_WAITING_USER_INPUT, TS_PAUSED]"

definition release_persona :: "str option \<Rightarrow> task \<Rightarrow> blackboard \<Rightarrow> blackboard" where
  "release_persona ctx t s =
     (case jstr (jget (t_metadata t) ''persona_id'') of
        None \<Rightarrow> s
      | Some k \<Rightarrow>
          (case get_persona s k of
             None \<Rightarrow> s
           | Some p \<Rightarrow>
               if list_ex (\<lambda>c. t_task_id c \<noteq> t_task_id t \<and> t_status c \<in> set active_statuses \<and>
                      jget (t_metadata c) ''persona_id'' = JStr k) (list_tasks s) then s
               else if p_status p \<noteq> ''busy'' then s
               else put_persona ctx (p\<lparr>p_status := ''idle''\<rparr>) s))"

definition fail_unknown_executor ::
    "str option \<Rightarrow> task \<Rightarrow> session_binding \<Rightarrow> str \<Rightarrow> blackboard \<Rightarrow> blackboard" where
  "fail_unknown_executor ctx t claimed ty s =
     (let quoted = [char_of (39::nat)] @ ty @ [char_of (39::nat)];
          s1 = put_task ctx (t\<lparr>t_status := TS_FAILED\<rparr>) s;
          s2 = put_summary ctx
            \<lparr>sm_task_id = t_task_id t, sm_operational_summary = Some (''Unknown executor '' @ quoted @ ''.''),
             sm_conversational_summary = Some (''I couldn'' @ [char_of (39::nat)] @
               ''t start this task because executor '' @ quoted @ '' is not available.''),
             sm_latest_user_visible_status = Some ''failed'', sm_needs_user_input = False\<rparr> s1
      in put_binding ctx (released claimed) s2)"

definition exception_message :: "exn \<Rightarrow> str" where
  "exception_message e =
     (let m = py_strip (snd e) in if m \<noteq> [] then m else fst e @ '' during execution.'')"

definition fail_execution_exception ::
    "str option \<Rightarrow> str \<Rightarrow> str \<Rightarrow> exn \<Rightarrow> task \<Rightarrow> session_binding \<Rightarrow> execution_run option \<Rightarrow>
     execution_session option \<Rightarrow> blackboard \<Rightarrow> blackboard" where
  "fail_execution_exception ctx now uid e t claimed run session s =
     (let message = exception_message e;
          s1 = (case run of
              Some r \<Rightarrow>
                (let ev = \<lparr>ev_run_id = r_run_id r,
                           ev_session_id = (case session of Some x \<Rightarrow> s_execution_session_id x
                                            | None \<Rightarrow> r_execution_session_id r),
                           ev_event_type = EV_FAILED, ev_message = Some message,
                           ev_metadata = [(''reason_code'', JStr ''execution_exception''),
                                          (''error_type'', JStr (fst e))]\<rparr>;
                     (t', r', s') = apply_event ctx uid now t r ev s
                 in put_summary ctx (build_summary t' r') s')
            | None \<Rightarrow>
                put_summary ctx
                  \<lparr>sm_task_id = t_task_id t, sm_operational_summary = Some message,
                   sm_conversational_summary = Some (''I couldn'' @ [char_of (39::nat)] @
                     ''t start this task because execution failed: '' @ message),
                   sm_latest_user_visible_status = Some ''failed'', sm_needs_user_input = False\<rparr>
                  (put_task ctx (t\<lparr>t_status := TS_FAILED\<rparr>) s));
          s2 = put_binding ctx (released claimed) s1
      in release_persona ctx t s2)"

definition sync_executor_session ::
    "str option \<Rightarrow> (jdict \<Rightarrow> agent_resume_handle option) \<Rightarrow> execution_session \<Rightarrow> executor_session \<Rightarrow>
     blackboard \<Rightarrow> (exn + execution_session) \<times> blackboard" where
  "sync_executor_session ctx validate x es s =
     (case jget (es_metadata es) ''latest_resume_handle'' of
        JObj d \<Rightarrow>
          (case validate d of
             None \<Rightarrow> (Inl (''RuntimeError'', ''Executor returned an invalid resume handle.''), s)
           | Some h \<Rightarrow>
               (let x' = x\<lparr>s_latest_resume_handle := Some h\<rparr> in (Inr x', put_session ctx x' s)))
      | _ \<Rightarrow> (Inr x, s))"

text \<open>The loop over the events; event \<open>i\<close> takes its detail id from \<open>uids i\<close>.\<close>

fun run_loop ::
    "str option \<Rightarrow> str \<Rightarrow> (nat \<Rightarrow> str) \<Rightarrow> rat \<Rightarrow> nat \<Rightarrow> task \<Rightarrow> execution_run \<Rightarrow>
     (executor_event \<times> rat) list \<Rightarrow> blackboard \<Rightarrow> task \<times> execution_run \<times> blackboard" where
  "run_loop ctx now uids th i t r [] s = (t, r, s)"
| "run_loop ctx now uids th i t r ((ev, elapsed) # evs) s =
     (let (t', r', s1) = apply_event ctx (uids i) now t r ev s;
          (m, s2) = classify th ctx (t_task_id t') (r_run_id r') (r_status r') (max 0 elapsed) s1
      in run_loop ctx now uids th (Suc i) t' r' evs s2)"

text \<open>What the \<open>try\<close> block leaves: its exception, if any, and the variables it had reached.\<close>

record attempt =
  at_exn :: "exn option"
  at_task :: task
  at_run :: "execution_run option"
  at_session :: "execution_session option"
  at_claimed :: session_binding
  at_live :: live_sessions
  at_store :: blackboard

definition attempt_execution ::
    "str option \<Rightarrow> str \<Rightarrow> (nat \<Rightarrow> str) \<Rightarrow> reconcile_env \<Rightarrow> executor_impl \<Rightarrow> str \<Rightarrow> task \<Rightarrow> task \<Rightarrow>
     session_binding \<Rightarrow> live_sessions \<Rightarrow> blackboard \<Rightarrow> attempt" where
  "attempt_execution ctx now uids env im ty t seen claimed live s =
     (case ensure_session ctx (uids 0) (im_port im) t claimed live s of
        (Inl e, live1, s1) \<Rightarrow>
          \<lparr>at_exn = Some e, at_task = t, at_run = None, at_session = None, at_claimed = claimed,
           at_live = live1, at_store = s1\<rparr>
      | (Inr (x, b, es), live1, s1) \<Rightarrow>
          (let (r, x1, s2) = create_run ctx (uids 1) t x (b_claimed_by b) ty s1;
               (m, s3) = initialize_task_mode ctx (t_task_id t) s2;
               (evs, raised, es') = im_run_task im r seen es;
               (t', r', s4) = run_loop ctx now uids (rc_threshold env) 3 t r evs s3;
               live2 = dict_put (s_execution_session_id x1) es' live1
           in case raised of
                Some e \<Rightarrow>
                  \<lparr>at_exn = Some e, at_task = t', at_run = Some r', at_session = Some x1,
                   at_claimed = b, at_live = live2, at_store = s4\<rparr>
              | None \<Rightarrow>
                  (case sync_executor_session ctx (rc_validate env) x1 es' s4 of
                     (Inl e, s5) \<Rightarrow>
                       \<lparr>at_exn = Some e, at_task = t', at_run = Some r', at_session = Some x1,
                        at_claimed = b, at_live = live2, at_store = s5\<rparr>
                   | (Inr x2, s5) \<Rightarrow>
                       \<lparr>at_exn = None, at_task = t', at_run = Some r', at_session = Some x2,
                        at_claimed = b, at_live = live2, at_store = s5\<rparr>)))"

text \<open>What follows a \<open>try\<close> block that did not raise.\<close>

definition finish_execution ::
    "str option \<Rightarrow> task \<Rightarrow> execution_run \<Rightarrow> execution_session \<Rightarrow> session_binding \<Rightarrow> blackboard \<Rightarrow>
     str option \<times> blackboard" where
  "finish_execution ctx t r x claimed s =
     (let s1 = put_summary ctx (build_summary t r) s;
          s2 = (if r_status r = RS_WAITING_EXECUTOR
                then put_binding ctx (released claimed) (put_session ctx (x\<lparr>s_active_run_id := None\<rparr>) s1)
                else s1);
          s3 = (if r_status r \<in> {RS_COMPLETED, RS_FAILED, RS_CANCELLED} then release_persona ctx t s2 else s2)
      in (if r_status r = RS_COMPLETED then Some (r_run_id r) else None, s3))"

definition execute_task ::
    "str option \<Rightarrow> str \<Rightarrow> (nat \<Rightarrow> str) \<Rightarrow> reconcile_env \<Rightarrow> task \<Rightarrow> session_binding \<Rightarrow> live_sessions \<Rightarrow>
     blackboard \<Rightarrow> str option \<times> live_sessions \<times> blackboard" where
  "execute_task ctx now uids env t claimed live s =
     (let seen = executor_task t s;
          ty = str_or_else (t_preferred_executor t) (rc_default_executor env)
      in case registry_get (rc_registry env) ty of
           Inl e \<Rightarrow> (None, live, fail_unknown_executor ctx t claimed ty s)
         | Inr im \<Rightarrow>
             (let a = attempt_execution ctx now uids env im ty t seen claimed live s in
              case (at_exn a, at_run a, at_session a) of
                (None, Some r, Some x) \<Rightarrow>
                  (let (res, s') = finish_execution ctx (at_task a) r x (at_claimed a) (at_store a)
                   in (res, at_live a, s'))
              | (e, run, session) \<Rightarrow>
                  (None, at_live a,
                   fail_execution_exception ctx now (uids 2) (the e) (at_task a) (at_claimed a) run session
                     (at_store a))))"

text \<open>The claims of one tick, in schedule order; the clock is read twice for each task.\<close>

fun claim_each ::
    "(str \<Rightarrow> int option) \<Rightarrow> (int \<Rightarrow> str) \<Rightarrow> str \<Rightarrow> int \<Rightarrow> str option \<Rightarrow> int \<Rightarrow> task list \<Rightarrow> blackboard \<Rightarrow>
     (task \<times> session_binding) list \<Rightarrow> (task \<times> session_binding) list result \<times> blackboard" where
  "claim_each parse fmt worker lease ctx now [] s acc = (Inr acc, s)"
| "claim_each parse fmt worker lease ctx now (t # ts) s acc =
     (case claim_task parse fmt worker lease ctx now now t s of
        Inl e \<Rightarrow> (Inl e, s)
      | Inr (None, s') \<Rightarrow> claim_each parse fmt worker lease ctx now ts s' acc
      | Inr (Some b, s') \<Rightarrow> claim_each parse fmt worker lease ctx now ts s' (acc @ [(t, b)]))"

definition claim_runnable ::
    "(str \<Rightarrow> int option) \<Rightarrow> (int \<Rightarrow> str) \<Rightarrow> str \<Rightarrow> int \<Rightarrow> str option \<Rightarrow> int \<Rightarrow> blackboard \<Rightarrow>
     (task \<times> session_binding) list result \<times> blackboard" where
  "claim_runnable parse fmt worker lease ctx now s =
     claim_each parse fmt worker lease ctx now (list_runnable_tasks s) s []"

section \<open>What the parts leave alone\<close>

lemma classify_reads [simp]:
  "get_task (snd (classify th c tid rid st el s)) = get_task s"
  "get_binding (snd (classify th c tid rid st el s)) = get_binding s"
  "get_persona (snd (classify th c tid rid st el s)) = get_persona s"
  "get_run (snd (classify th c tid rid st el s)) = get_run s"
  "get_session (snd (classify th c tid rid st el s)) = get_session s"
  by (simp_all add: classify_def initialize_task_mode_def Let_def split: option.split)

lemma initialize_mode_reads [simp]:
  "get_task (snd (initialize_task_mode c k s)) = get_task s"
  "get_binding (snd (initialize_task_mode c k s)) = get_binding s"
  "get_persona (snd (initialize_task_mode c k s)) = get_persona s"
  "get_run (snd (initialize_task_mode c k s)) = get_run s"
  "get_session (snd (initialize_task_mode c k s)) = get_session s"
  by (simp_all add: initialize_task_mode_def Let_def split: option.split)

lemma create_run_reads [simp]:
  "get_task (snd (snd (create_run c uid t x cl ty s))) = get_task s"
  "get_binding (snd (snd (create_run c uid t x cl ty s))) = get_binding s"
  "get_persona (snd (snd (create_run c uid t x cl ty s))) = get_persona s"
  "get_run (snd (snd (create_run c uid t x cl ty s))) (''run-'' @ uid) = Some (fst (create_run c uid t x cl ty s))"
  "r_run_id (fst (create_run c uid t x cl ty s)) = ''run-'' @ uid"
  "r_status (fst (create_run c uid t x cl ty s)) = RS_ASSIGNED"
  "s_execution_session_id (fst (snd (create_run c uid t x cl ty s))) = s_execution_session_id x"
  by (simp_all add: create_run_def Let_def runs.get_put)

lemma apply_event_reads:
  assumes "apply_event ctx uid now t r ev s = (t', r', s')"
  shows "get_binding s' = get_binding s" and "get_persona s' = get_persona s"
    and "get_session s' = get_session s" and "t_task_id t' = t_task_id t" and "r_run_id r' = r_run_id r"
    and "t_metadata t' = t_metadata t"
    and "get_task s (t_task_id t) = Some t \<Longrightarrow> get_task s' (t_task_id t) = Some t'"
    and "map_option r_status (get_run s (r_run_id r)) = Some (r_status r) \<Longrightarrow>
      map_option r_status (get_run s' (r_run_id r)) = Some (r_status r')"
proof -
  have eff: "t' = t\<lparr>t_status := t_status t'\<rparr>" "r_run_id r' = r_run_id r"
    using apply_event_status(2,3) [OF assms] .
  show "t_task_id t' = t_task_id t" "t_metadata t' = t_metadata t"
    by (subst eff(1), simp)+
  show "r_run_id r' = r_run_id r" by fact
  show "get_binding s' = get_binding s" "get_persona s' = get_persona s" "get_session s' = get_session s"
    using assms by (auto simp: apply_event_def Let_def split: if_splits prod.splits)
  have id: "t_task_id t' = t_task_id t" by fact
  have same: "\<not> task_changed t t' \<Longrightarrow> t' = t"
  proof -
    assume "\<not> task_changed t t'"
    then have "t\<lparr>t_metadata := []\<rparr> = t'\<lparr>t_metadata := []\<rparr>" by (simp add: task_changed_def)
    from arg_cong [OF this, of t_status] have "t_status t' = t_status t" by simp
    then show ?thesis by (subst eff(1)) simp
  qed
  show "get_task s (t_task_id t) = Some t \<Longrightarrow> get_task s' (t_task_id t) = Some t'"
    using assms same id
    by (auto simp: apply_event_def Let_def tasks.get_put split: if_splits prod.splits)
  have same_run: "\<not> run_changed r r' \<Longrightarrow> r_status r' = r_status r"
  proof -
    assume "\<not> run_changed r r'"
    then have "r\<lparr>r_metadata := []\<rparr> = r'\<lparr>r_metadata := []\<rparr>" by (simp add: run_changed_def)
    from arg_cong [OF this, of r_status] show ?thesis by simp
  qed
  show "map_option r_status (get_run s (r_run_id r)) = Some (r_status r) \<Longrightarrow>
      map_option r_status (get_run s' (r_run_id r)) = Some (r_status r')"
    using assms same_run eff(2)
    by (auto simp: apply_event_def Let_def runs.get_put split: if_splits prod.splits)
qed

lemma run_loop_reads:
  assumes "run_loop ctx now uids th i t r evs s = (t', r', s')"
  shows "get_binding s' = get_binding s \<and> get_persona s' = get_persona s \<and> get_session s' = get_session s \<and>
    t_task_id t' = t_task_id t \<and> t_metadata t' = t_metadata t \<and> r_run_id r' = r_run_id r \<and>
    (get_task s (t_task_id t) = Some t \<longrightarrow> get_task s' (t_task_id t) = Some t') \<and>
    (map_option r_status (get_run s (r_run_id r)) = Some (r_status r) \<longrightarrow>
      map_option r_status (get_run s' (r_run_id r)) = Some (r_status r'))"
  using assms
proof (induction evs arbitrary: i t r s)
  case (Cons x evs)
  obtain ev el where x: "x = (ev, el)" by (cases x)
  obtain t1 r1 s1 where ap: "apply_event ctx (uids i) now t r ev s = (t1, r1, s1)"
    by (cases "apply_event ctx (uids i) now t r ev s")
  note reads = apply_event_reads [OF ap]
  let ?s2 = "snd (classify th ctx (t_task_id t1) (r_run_id r1) (r_status r1) (max 0 el) s1)"
  have "run_loop ctx now uids th (Suc i) t1 r1 evs ?s2 = (t', r', s')"
    using Cons.prems by (simp add: x ap split: prod.splits)
  from Cons.IH [OF this] show ?case using reads by auto
qed simp

lemma run_loop_events:
  "run_loop ctx now uids th i t r evs s = (t', r', s') \<Longrightarrow>
     \<exists>s''. apply_events ctx now t r (map (\<lambda>x. ([], fst x)) evs) s0 = (t', r', s'')"
proof (induction evs arbitrary: i t r s s0)
  case (Cons x evs)
  obtain ev el where x: "x = (ev, el)" by (cases x)
  obtain t1 r1 s1 where ap: "apply_event ctx (uids i) now t r ev s = (t1, r1, s1)"
    by (cases "apply_event ctx (uids i) now t r ev s")
  have "\<exists>s2. apply_event ctx [] now t r ev s0 = (t1, r1, s2)"
    using ap by (auto simp: apply_event_def Let_def split: if_splits prod.splits)
  then obtain s2 where ap0: "apply_event ctx [] now t r ev s0 = (t1, r1, s2)" by blast
  let ?s3 = "snd (classify th ctx (t_task_id t1) (r_run_id r1) (r_status r1) (max 0 el) s1)"
  have "run_loop ctx now uids th (Suc i) t1 r1 evs ?s3 = (t', r', s')"
    using Cons.prems by (simp add: x ap split: prod.splits)
  from Cons.IH [OF this, of s2] show ?case by (simp add: x ap0)
qed simp

text \<open>The event types an executor yields for a run, as \<open>Execution\<close> reads them.\<close>

definition types_of :: "(executor_event \<times> rat) list \<Rightarrow> executor_event_type list" where
  "types_of evs = map (\<lambda>x. ev_event_type (fst x)) evs"

lemma run_loop_outcome:
  assumes "run_loop ctx now uids th i t r evs s = (t', r', s')"
    and "t_status t \<noteq> TS_CANCELLED" and "evs \<noteq> []"
  shows "(t_status t', r_status r') = outcome_of (types_of evs)"
proof -
  obtain s'' where "apply_events ctx now t r (map (\<lambda>x. ([], fst x)) evs) s = (t', r', s'')"
    using run_loop_events [OF assms(1)] by blast
  from events_decide_statuses [OF assms(2) _ this] show ?thesis
    using assms(3) by (simp add: event_types_def types_of_def comp_def)
qed

lemma ensure_session_reads:
  assumes "ensure_session ctx uid ex t b live s = (q, live', s')"
  shows "get_task s' = get_task s" and "get_persona s' = get_persona s"
    and "q = Inr (x, b', es) \<Longrightarrow> b_task_id b' = b_task_id b"
  using assms
  by (auto simp: ensure_session_def resume_bound_session_def join_session_def new_session_def Let_def
      split: option.splits sum.splits)

text \<open>What an attempt leaves in its variables and in the store.\<close>

lemma attempt_reads:
  assumes "get_task s (t_task_id t) = Some t" and "b_task_id claimed = t_task_id t"
    and "attempt_execution ctx now uids env im ty t seen claimed live s = a"
  shows "get_task (at_store a) (t_task_id t) = Some (at_task a) \<and> t_task_id (at_task a) = t_task_id t \<and>
    t_metadata (at_task a) = t_metadata t \<and> b_task_id (at_claimed a) = t_task_id t \<and>
    get_persona (at_store a) = get_persona s \<and> (at_exn a = None \<longrightarrow> at_run a \<noteq> None \<and> at_session a \<noteq> None) \<and>
    (\<forall>r. at_run a = Some r \<longrightarrow> r_run_id r = ''run-'' @ uids 1 \<and>
       map_option r_status (get_run (at_store a) (r_run_id r)) = Some (r_status r))"
proof -
  obtain q live1 s1 where en: "ensure_session ctx (uids 0) (im_port im) t claimed live s = (q, live1, s1)"
    by (cases "ensure_session ctx (uids 0) (im_port im) t claimed live s")
  note er = ensure_session_reads [OF en]
  show ?thesis
  proof (cases q)
    case (Inl e)
    then have "a = \<lparr>at_exn = Some e, at_task = t, at_run = None, at_session = None, at_claimed = claimed,
           at_live = live1, at_store = s1\<rparr>"
      using assms(3) en by (simp add: attempt_execution_def)
    then show ?thesis using assms(1,2) er by simp
  next
    case (Inr y)
    obtain x b es where y: "y = (x, b, es)" by (cases y)
    obtain r x1 s2 where cr: "create_run ctx (uids 1) t x (b_claimed_by b) ty s1 = (r, x1, s2)"
      by (cases "create_run ctx (uids 1) t x (b_claimed_by b) ty s1")
    note crr = create_run_reads [of ctx "uids 1" t x "b_claimed_by b" ty s1, unfolded cr, simplified]
    obtain m s3 where im: "initialize_task_mode ctx (t_task_id t) s2 = (m, s3)"
      by (cases "initialize_task_mode ctx (t_task_id t) s2")
    note imr = initialize_mode_reads [of ctx "t_task_id t" s2, unfolded im, simplified]
    obtain evs raised es' where rt: "im_run_task im r seen es = (evs, raised, es')"
      by (cases "im_run_task im r seen es")
    obtain t' r' s4 where rl: "run_loop ctx now uids (rc_threshold env) 3 t r evs s3 = (t', r', s4)"
      by (cases "run_loop ctx now uids (rc_threshold env) 3 t r evs s3")
    note rr = run_loop_reads [OF rl]
    obtain z s5 where sy: "sync_executor_session ctx (rc_validate env) x1 es' s4 = (z, s5)"
      by (cases "sync_executor_session ctx (rc_validate env) x1 es' s4")
    have syr: "get_task s5 = get_task s4" "get_persona s5 = get_persona s4" "get_run s5 = get_run s4"
      using sy by (auto simp: sync_executor_session_def Let_def split: json.splits option.splits)
    have "b_task_id b = t_task_id t" using er(3) Inr y assms(2) by simp
    moreover have "get_task s4 (t_task_id t) = Some t'" using rr er assms(1) crr imr by simp
    moreover have "map_option r_status (get_run s4 (r_run_id r)) = Some (r_status r')"
      using rr crr imr by simp
    moreover have "t_task_id t' = t_task_id t" "t_metadata t' = t_metadata t" "r_run_id r' = ''run-'' @ uids 1"
      "get_persona s4 = get_persona s"
      using rr er crr imr by simp_all
    ultimately have fin: "get_task s4 (t_task_id t) = Some t' \<and> t_task_id t' = t_task_id t \<and>
        t_metadata t' = t_metadata t \<and> b_task_id b = t_task_id t \<and> get_persona s4 = get_persona s \<and>
        r_run_id r' = ''run-'' @ uids 1 \<and> map_option r_status (get_run s4 (''run-'' @ uids 1)) = Some (r_status r')"
      using crr by simp
    let ?live2 = "dict_put (s_execution_session_id x1) es' live1"
    have "a = \<lparr>at_exn = raised, at_task = t', at_run = Some r', at_session = Some x1,
           at_claimed = b, at_live = ?live2, at_store = s4\<rparr>" if "raised \<noteq> None"
      using that assms(3) by (auto simp: attempt_execution_def en Inr y cr im rt rl Let_def simp del: One_nat_def)
    moreover have "at_task a = t' \<and> at_run a = Some r' \<and> at_session a \<noteq> None \<and> at_claimed a = b \<and> at_store a = s5"
      if "raised = None"
      using that assms(3)
      by (cases z) (auto simp: attempt_execution_def en Inr y cr im rt rl sy Let_def simp del: One_nat_def)
    ultimately show ?thesis
      using fin syr by (cases raised) simp_all
  qed
qed

lemma release_persona_reads [simp]:
  "get_task (release_persona c t s) = get_task s"
  "get_binding (release_persona c t s) = get_binding s"
  "get_summary (release_persona c t s) = get_summary s"
  "get_run (release_persona c t s) = get_run s"
  "get_session (release_persona c t s) = get_session s"
  by (simp_all add: release_persona_def split: option.split)

section \<open>Failures\<close>

definition execution_raises ::
    "str option \<Rightarrow> str \<Rightarrow> (nat \<Rightarrow> str) \<Rightarrow> reconcile_env \<Rightarrow> task \<Rightarrow> session_binding \<Rightarrow> live_sessions \<Rightarrow>
     blackboard \<Rightarrow> bool" where
  "execution_raises ctx now uids env t claimed live s =
     (let ty = str_or_else (t_preferred_executor t) (rc_default_executor env) in
      case registry_get (rc_registry env) ty of
        Inl e \<Rightarrow> True
      | Inr im \<Rightarrow> at_exn (attempt_execution ctx now uids env im ty t (executor_task t s) claimed live s) \<noteq> None)"

definition failed_cleanly :: "str \<Rightarrow> blackboard \<Rightarrow> bool" where
  "failed_cleanly tid s =
     (case (get_task s tid, get_binding s tid) of
        (Some t, Some b) \<Rightarrow>
          (t_status t = TS_FAILED \<or> t_status t = TS_CANCELLED) \<and> b_claimed_by b = None \<and>
          b_claim_expires_at b = None \<and> b_binding_status b = BS_RELEASED
      | _ \<Rightarrow> False)"

lemma fail_unknown_clean:
  "b_task_id claimed = t_task_id t \<Longrightarrow> failed_cleanly (t_task_id t) (fail_unknown_executor ctx t claimed ty s)"
  by (simp add: failed_cleanly_def fail_unknown_executor_def Let_def bindings.get_put tasks.get_put
      released_def)

lemma fail_exception_clean:
  assumes "get_task s (t_task_id t) = Some t" and "b_task_id claimed = t_task_id t"
  shows "failed_cleanly (t_task_id t) (fail_execution_exception ctx now uid e t claimed run session s)"
proof (cases run)
  case None
  then show ?thesis
    using assms by (simp add: failed_cleanly_def fail_execution_exception_def Let_def bindings.get_put
        tasks.get_put released_def)
next
  case (Some r)
  let ?ev = "\<lparr>ev_run_id = r_run_id r,
      ev_session_id = (case session of Some x \<Rightarrow> s_execution_session_id x | None \<Rightarrow> r_execution_session_id r),
      ev_event_type = EV_FAILED, ev_message = Some (exception_message e),
      ev_metadata = [(''reason_code'', JStr ''execution_exception''), (''error_type'', JStr (fst e))]\<rparr>"
  obtain t' r' s' where ap: "apply_event ctx uid now t r ?ev s = (t', r', s')"
    by (cases "apply_event ctx uid now t r ?ev s")
  have "t_status t' = TS_FAILED \<or> t_status t' = TS_CANCELLED"
    using apply_event_status(1) [OF ap] by (auto split: if_splits)
  then show ?thesis
    using apply_event_reads(7) [OF ap assms(1)] assms(2)
    by (simp add: failed_cleanly_def fail_execution_exception_def Some ap Let_def bindings.get_put
        released_def)
qed

text \<open>C9: an execution that fails is contained. Whether the executor is unknown, its session cannot
  be made, the run raises midway, or it leaves an invalid resume handle: no run is reported, the
  task ends failed (or stays cancelled), and its lease is given up, so that any worker may
  claim it at once.\<close>

theorem failed_execution_contained:
  assumes "get_task s (t_task_id t) = Some t" and "b_task_id claimed = t_task_id t"
    and "execution_raises ctx now uids env t claimed live s"
    and "execute_task ctx now uids env t claimed live s = (res, live', s')"
  shows "res = None \<and> failed_cleanly (t_task_id t) s' \<and>
    claim_is_active parse clock (get_binding s' (t_task_id t)) = Inr False"
proof -
  let ?ty = "str_or_else (t_preferred_executor t) (rc_default_executor env)"
  have "res = None \<and> failed_cleanly (t_task_id t) s'"
  proof (cases "registry_get (rc_registry env) ?ty")
    case (Inl e)
    then show ?thesis
      using assms(2,4) fail_unknown_clean by (auto simp: execute_task_def Let_def)
  next
    case (Inr im)
    let ?a = "attempt_execution ctx now uids env im ?ty t (executor_task t s) claimed live s"
    obtain e where e: "at_exn ?a = Some e"
      using assms(3) Inr by (auto simp: execution_raises_def Let_def)
    note at = attempt_reads [OF assms(1,2) refl, of ctx now uids env im ?ty "executor_task t s" live]
    have s': "res = None" "s' = fail_execution_exception ctx now (uids 2) e (at_task ?a) (at_claimed ?a)
        (at_run ?a) (at_session ?a) (at_store ?a)"
      using assms(4) Inr e by (simp_all add: execute_task_def Let_def)
    have "failed_cleanly (t_task_id (at_task ?a)) s'"
      unfolding s'(2) by (rule fail_exception_clean) (use at in simp_all)
    then show ?thesis using s'(1) at by simp
  qed
  then show ?thesis
    by (auto simp: failed_cleanly_def claim_is_active_def split: option.splits)
qed

definition demo_env :: reconcile_env where
  "demo_env = \<lparr>rc_registry = [(''codex'', \<lparr>im_port = demo_port,
       im_run_task = (\<lambda>r t es. ([(sample_event EV_PROGRESS, 1)], Some (''OSError'', ''broken pipe''), es))\<rparr>)],
     rc_default_executor = ''codex'', rc_threshold = 30, rc_validate = (\<lambda>_. None)\<rparr>"

definition demo_store :: blackboard where
  "demo_store = put_task None (demo_task ''t1'') bb_init"

lemma demo_ensure:
  "\<exists>x b es live1 s1. ensure_session None uid demo_port (demo_task ''t1'') (demo_binding ''t1'') [] demo_store =
     (Inr (x, b, es), live1, s1)"
proof -
  have "ensure_session None uid demo_port (demo_task ''t1'') (demo_binding ''t1'') [] demo_store =
      new_session None uid demo_port (demo_task ''t1'') (demo_binding ''t1'') [] demo_store"
    by (simp add: ensure_session_def bound_session_def demo_binding_def find_reusable_session_def
        demo_store_def split: option.split) (simp add: list_sessions_def bb_init_def dict_values_def)
  then show ?thesis by (simp add: new_session_def demo_port_def Let_def)
qed

theorem failed_execution_contained_witness:
  "\<exists>live' s'. execute_task None ''now'' (\<lambda>n. []) demo_env (demo_task ''t1'') (demo_binding ''t1'') [] demo_store =
      (None, live', s') \<and> failed_cleanly ''t1'' s'"
proof -
  let ?t = "demo_task ''t1''" and ?b = "demo_binding ''t1''"
  obtain res live' s' where run: "execute_task None ''now'' (\<lambda>n. []) demo_env ?t ?b [] demo_store = (res, live', s')"
    by (cases "execute_task None ''now'' (\<lambda>n. []) demo_env ?t ?b [] demo_store")
  have id: "t_task_id ?t = ''t1''" "t_preferred_executor ?t = None" by (simp_all add: demo_task_def)
  have get: "get_task demo_store (t_task_id ?t) = Some ?t"
    by (simp add: demo_store_def tasks.get_put)
  obtain x b es live1 s1 where en: "ensure_session None [] demo_port ?t ?b [] demo_store = (Inr (x, b, es), live1, s1)"
    using demo_ensure [of "[]"] by blast
  have "execution_raises None ''now'' (\<lambda>n. []) demo_env ?t ?b [] demo_store"
    by (simp add: execution_raises_def Let_def id demo_env_def registry_get_def attempt_execution_def en
        split: prod.split)
  from failed_execution_contained [OF get _ this run] show ?thesis
    using run id by (simp add: demo_binding_def)
qed

section \<open>Executions that end\<close>

lemma executor_task_id: "executor_task t s = t \<or> (\<exists>md. executor_task t s = t\<lparr>t_metadata := md\<rparr>)"
  by (auto simp: executor_task_def split: option.split)

lemma attempt_completes:
  assumes "get_task s (t_task_id t) = Some t" and "b_task_id claimed = t_task_id t"
    and "\<And>r es. fst (im_run_task im r seen es) = evs"
    and "attempt_execution ctx now uids env im ty t seen claimed live s = a" and "at_exn a = None"
  obtains r x where "at_run a = Some r" and "at_session a = Some x"
    and "evs = [] \<Longrightarrow> t_status (at_task a) = t_status t \<and> r_status r = RS_ASSIGNED"
    and "evs \<noteq> [] \<Longrightarrow> t_status t \<noteq> TS_CANCELLED \<Longrightarrow>
      (t_status (at_task a), r_status r) = outcome_of (types_of evs)"
proof -
  obtain q live1 s1 where en: "ensure_session ctx (uids 0) (im_port im) t claimed live s = (q, live1, s1)"
    by (cases "ensure_session ctx (uids 0) (im_port im) t claimed live s")
  obtain y where q: "q = Inr y"
    using assms(4,5) en by (cases q) (auto simp: attempt_execution_def)
  obtain x b es where y: "y = (x, b, es)" by (cases y)
  obtain r x1 s2 where cr: "create_run ctx (uids 1) t x (b_claimed_by b) ty s1 = (r, x1, s2)"
    by (cases "create_run ctx (uids 1) t x (b_claimed_by b) ty s1")
  note crr = create_run_reads [of ctx "uids 1" t x "b_claimed_by b" ty s1, unfolded cr, simplified]
  obtain m s3 where im: "initialize_task_mode ctx (t_task_id t) s2 = (m, s3)"
    by (cases "initialize_task_mode ctx (t_task_id t) s2")
  obtain raised es' where rt: "im_run_task im r seen es = (evs, raised, es')"
    using assms(3) [of r es] by (cases "im_run_task im r seen es") auto
  obtain t' r' s4 where rl: "run_loop ctx now uids (rc_threshold env) 3 t r evs s3 = (t', r', s4)"
    by (cases "run_loop ctx now uids (rc_threshold env) 3 t r evs s3")
  obtain z s5 where sy: "sync_executor_session ctx (rc_validate env) x1 es' s4 = (z, s5)"
    by (cases "sync_executor_session ctx (rc_validate env) x1 es' s4")
  have raised: "raised = None"
    using assms(4,5)
    by (cases raised) (auto simp: attempt_execution_def en q y cr im rt rl Let_def simp del: One_nat_def)
  have "at_task a = t' \<and> at_run a = Some r' \<and> at_session a \<noteq> None"
    using assms(4) raised
    by (cases z) (auto simp: attempt_execution_def en q y cr im rt rl sy Let_def simp del: One_nat_def)
  moreover have "evs = [] \<Longrightarrow> t_status t' = t_status t \<and> r_status r' = RS_ASSIGNED"
    using rl crr by simp
  moreover have "evs \<noteq> [] \<Longrightarrow> t_status t \<noteq> TS_CANCELLED \<Longrightarrow>
      (t_status t', r_status r') = outcome_of (types_of evs)"
    using run_loop_outcome [OF rl] by blast
  ultimately show ?thesis using that by auto
qed

lemma finish_execution_reads:
  assumes "finish_execution ctx t r x claimed s = (res, s')"
  shows "get_task s' = get_task s" and "get_run s' = get_run s"
    and "get_summary s' (t_task_id t) = Some (build_summary t r)"
    and "res = (if r_status r = RS_COMPLETED then Some (r_run_id r) else None)"
    and "r_status r = RS_WAITING_EXECUTOR \<Longrightarrow>
      get_binding s' (b_task_id claimed) = Some (released claimed)"
  using assms
  by (auto simp: finish_execution_def Let_def bindings.get_put get_summary_put released_def
      build_summary_def summary_of_def)

text \<open>What the store says once an execution with these events has ended.\<close>

definition ended_with :: "str \<Rightarrow> str \<Rightarrow> executor_event_type list \<Rightarrow> str option \<Rightarrow> blackboard \<Rightarrow> bool" where
  "ended_with tid rid tys res s =
     (case (get_task s tid, get_run s rid, get_summary s tid) of
        (Some t, Some r, Some y) \<Rightarrow>
          (t_status t, r_status r) = outcome_of tys \<and>
          sm_latest_user_visible_status y = Some (task_status_value (t_status t)) \<and>
          res = (if r_status r = RS_COMPLETED then Some rid else None) \<and>
          (r_status r = RS_WAITING_EXECUTOR \<longrightarrow>
             (case get_binding s tid of
                Some b \<Rightarrow> b_claimed_by b = None \<and> b_claim_expires_at b = None \<and> b_binding_status b = BS_RELEASED
              | None \<Rightarrow> False))
      | _ \<Rightarrow> False)"

lemma ends_with_events:
  assumes "get_task s (t_task_id t) = Some t" and "b_task_id claimed = t_task_id t"
    and "registry_get (rc_registry env) (str_or_else (t_preferred_executor t) (rc_default_executor env)) = Inr im"
    and "\<And>r es. fst (im_run_task im r (executor_task t s) es) = evs" and "evs \<noteq> []"
    and "t_status t \<noteq> TS_CANCELLED" and "\<not> execution_raises ctx now uids env t claimed live s"
    and "execute_task ctx now uids env t claimed live s = (res, live', s')"
  shows "ended_with (t_task_id t) (''run-'' @ uids 1) (types_of evs) res s'"
proof -
  let ?ty = "str_or_else (t_preferred_executor t) (rc_default_executor env)"
  let ?a = "attempt_execution ctx now uids env im ?ty t (executor_task t s) claimed live s"
  have none: "at_exn ?a = None"
    using assms(3,7) by (cases "at_exn ?a") (simp_all add: execution_raises_def Let_def)
  note at = attempt_reads [OF assms(1,2) refl, of ctx now uids env im ?ty "executor_task t s" live]
  obtain r x where r: "at_run ?a = Some r" and x: "at_session ?a = Some x"
    and out: "(t_status (at_task ?a), r_status r) = outcome_of (types_of evs)"
    using attempt_completes [OF assms(1,2,4) refl none] assms(5,6) by metis
  have fin: "finish_execution ctx (at_task ?a) r x (at_claimed ?a) (at_store ?a) = (res, s')"
    using assms(3,8) none r x by (auto simp: execute_task_def Let_def split: prod.splits)
  note rd = finish_execution_reads [OF fin]
  have "get_task s' (t_task_id t) = Some (at_task ?a)" using at rd(1) by simp
  moreover have "map_option r_status (get_run s' (''run-'' @ uids 1)) = Some (r_status r)"
    using at r rd(2) by auto
  moreover have "get_summary s' (t_task_id t) = Some (build_summary (at_task ?a) r)"
    using at rd(3) by simp
  moreover have "res = (if r_status r = RS_COMPLETED then Some (''run-'' @ uids 1) else None)"
    using at r rd(4) by auto
  moreover have "r_status r = RS_WAITING_EXECUTOR \<Longrightarrow> get_binding s' (t_task_id t) = Some (released (at_claimed ?a))"
    using at rd(5) by simp
  ultimately show ?thesis
    using out summary_of_outcome(1) [OF out]
    by (auto simp: ended_with_def released_def split: option.split)
qed


section \<open>Releasing the persona\<close>

definition held_by_other :: "str \<Rightarrow> str \<Rightarrow> blackboard \<Rightarrow> bool" where
  "held_by_other k tid s =
     list_ex (\<lambda>c. t_task_id c \<noteq> tid \<and> t_status c \<in> set active_statuses \<and>
       jget (t_metadata c) ''persona_id'' = JStr k) (list_tasks s)"

lemma persona_after_release:
  assumes "jget (t_metadata t) ''persona_id'' = JStr k" and "get_persona s k = Some p"
    and "p_status p = ''busy''" and "p_persona_id p = k"
  shows "held_by_other k (t_task_id t) (release_persona ctx t s) \<or>
    get_persona (release_persona ctx t s) k = Some (p\<lparr>p_status := ''idle''\<rparr>)"
  using assms
  by (simp add: release_persona_def held_by_other_def personas.get_put)

text \<open>C12: a persona is freed when its work ends. If the executor is known, then once the execution
  has left its task completed, failed or cancelled, the busy persona the task names is idle
  again, unless another unfinished task names it too.\<close>

theorem persona_freed:
  assumes "get_task s (t_task_id t) = Some t" and "b_task_id claimed = t_task_id t"
    and "registry_get (rc_registry env) (str_or_else (t_preferred_executor t) (rc_default_executor env)) = Inr im"
    and "\<And>r es. fst (im_run_task im r (executor_task t s) es) = evs"
    and "t_status t = TS_CREATED \<or> t_status t = TS_QUEUED"
    and "jget (t_metadata t) ''persona_id'' = JStr k" and "get_persona s k = Some p"
    and "p_status p = ''busy''" and "p_persona_id p = k"
    and "execute_task ctx now uids env t claimed live s = (res, live', s')"
    and "get_task s' (t_task_id t) = Some t'" and "t_status t' \<in> {TS_COMPLETED, TS_FAILED, TS_CANCELLED}"
  shows "held_by_other k (t_task_id t) s' \<or> get_persona s' k = Some (p\<lparr>p_status := ''idle''\<rparr>)"
proof -
  let ?ty = "str_or_else (t_preferred_executor t) (rc_default_executor env)"
  let ?a = "attempt_execution ctx now uids env im ?ty t (executor_task t s) claimed live s"
  note at = attempt_reads [OF assms(1,2) refl, of ctx now uids env im ?ty "executor_task t s" live]
  have meta: "jget (t_metadata (at_task ?a)) ''persona_id'' = JStr k" "t_task_id (at_task ?a) = t_task_id t"
    using at assms(6) by simp_all
  have pers: "get_persona (at_store ?a) k = Some p" using at assms(7) by simp
  have "\<exists>u. s' = release_persona ctx (at_task ?a) u \<and> get_persona u k = Some p"
  proof (cases "at_exn ?a")
    case (Some e)
    have "s' = fail_execution_exception ctx now (uids 2) e (at_task ?a) (at_claimed ?a)
        (at_run ?a) (at_session ?a) (at_store ?a)"
      using assms(3,10) Some by (simp add: execute_task_def Let_def)
    moreover have "\<exists>u. fail_execution_exception ctx now (uids 2) e (at_task ?a) (at_claimed ?a)
        (at_run ?a) (at_session ?a) (at_store ?a) = release_persona ctx (at_task ?a) u \<and> get_persona u k = Some p"
      using pers apply_event_reads(2)
      by (fastforce simp: fail_execution_exception_def Let_def split: option.split prod.split)
    ultimately show ?thesis by simp
  next
    case None
    obtain r x where r: "at_run ?a = Some r" and x: "at_session ?a = Some x"
      and nil: "evs = [] \<Longrightarrow> t_status (at_task ?a) = t_status t \<and> r_status r = RS_ASSIGNED"
      and out: "evs \<noteq> [] \<Longrightarrow> t_status t \<noteq> TS_CANCELLED \<Longrightarrow>
        (t_status (at_task ?a), r_status r) = outcome_of (types_of evs)"
      using attempt_completes [OF assms(1,2,4) refl None] by metis
    have fin: "finish_execution ctx (at_task ?a) r x (at_claimed ?a) (at_store ?a) = (res, s')"
      using assms(3,10) None r x by (auto simp: execute_task_def Let_def split: prod.splits)
    have t': "t' = at_task ?a" using finish_execution_reads(1) [OF fin] at assms(11) by simp
    have ne: "evs \<noteq> []" using nil assms(5,12) t' by auto
    have "r_status r \<in> {RS_COMPLETED, RS_FAILED, RS_CANCELLED}"
      using out [OF ne] assms(5,12) t'
      by (cases "last (types_of evs)") (auto simp: outcome_of_def split: if_splits)
    then show ?thesis
      using fin pers by (auto simp: finish_execution_def Let_def)
  qed
  then obtain u where u: "s' = release_persona ctx (at_task ?a) u" "get_persona u k = Some p" by blast
  show ?thesis
    unfolding u(1) using persona_after_release [OF meta(1) u(2) assms(8,9)] meta(2) by simp
qed

text \<open>the one way out that keeps it: when the executor is unknown the task fails and its lease
  is given up, but no persona is touched, so a busy persona of the task stays busy.\<close>

theorem unknown_executor_keeps_persona:
  assumes "registry_get (rc_registry env) (str_or_else (t_preferred_executor t) (rc_default_executor env)) = Inl e"
    and "b_task_id claimed = t_task_id t"
    and "execute_task ctx now uids env t claimed live s = (res, live', s')"
  shows "failed_cleanly (t_task_id t) s' \<and> get_persona s' = get_persona s"
  using assms fail_unknown_clean [OF assms(2)]
  by (auto simp: execute_task_def Let_def) (auto simp: fail_unknown_executor_def Let_def)

section \<open>The executions at concrete inputs\<close>

definition persona_task :: task where
  "persona_task = (demo_task ''t1'')\<lparr>t_metadata := [(''persona_id'', JStr ''p1'')]\<rparr>"

definition busy_persona :: persona where
  "busy_persona = \<lparr>p_persona_id = ''p1'', p_name = ''Ada'', p_avatar = [], p_base_prompt = [],
     p_executor_node_id = None, p_bro_detail_session_id = ''d'', p_status = ''busy''\<rparr>"

definition persona_store :: blackboard where
  "persona_store = put_persona None busy_persona (put_task None persona_task bb_init)"

definition done_impl :: executor_impl where
  "done_impl = \<lparr>im_port = demo_port,
     im_run_task = (\<lambda>r t es. ([(sample_event EV_COMPLETED, 1)], None, es\<lparr>es_metadata := []\<rparr>))\<rparr>"

definition done_env :: reconcile_env where
  "done_env = \<lparr>rc_registry = [(''codex'', done_impl)], rc_default_executor = ''codex'',
     rc_threshold = 30, rc_validate = (\<lambda>_. None)\<rparr>"

lemma persona_task_fields:
  "t_task_id persona_task = ''t1''" "t_preferred_executor persona_task = None" "t_status persona_task = TS_QUEUED"
  "t_metadata persona_task = [(''persona_id'', JStr ''p1'')]"
  by (simp_all add: persona_task_def demo_task_def)

lemma persona_store_reads:
  "get_task persona_store (t_task_id persona_task) = Some persona_task"
  "get_persona persona_store ''p1'' = Some busy_persona"
  by (simp_all add: persona_store_def tasks.get_put personas.get_put busy_persona_def)

lemma done_env_known:
  "registry_get (rc_registry done_env)
     (str_or_else (t_preferred_executor persona_task) (rc_default_executor done_env)) = Inr done_impl"
  by (simp add: done_env_def registry_get_def persona_task_fields)

lemma persona_ensure:
  "\<exists>x b es live1 s1. ensure_session None uid demo_port persona_task (demo_binding ''t1'') [] persona_store =
     (Inr (x, b, es), live1, s1)"
proof -
  have "ensure_session None uid demo_port persona_task (demo_binding ''t1'') [] persona_store =
      new_session None uid demo_port persona_task (demo_binding ''t1'') [] persona_store"
    by (simp add: ensure_session_def bound_session_def demo_binding_def task_continuity_key_def
        persona_task_fields)
  then show ?thesis by (simp add: new_session_def demo_port_def Let_def)
qed

lemma done_not_raises:
  "\<not> execution_raises None ''now'' (\<lambda>n. []) done_env persona_task (demo_binding ''t1'') [] persona_store"
proof -
  obtain x b es live1 s1 where en: "ensure_session None [] demo_port persona_task (demo_binding ''t1'') [] persona_store =
      (Inr (x, b, es), live1, s1)"
    using persona_ensure [of "[]"] by blast
  have port: "im_port done_impl = demo_port" by (simp add: done_impl_def)
  show ?thesis
    by (simp add: execution_raises_def Let_def done_env_known attempt_execution_def port en
        split: prod.split) (simp add: done_impl_def sync_executor_session_def)
qed

lemma done_events: "fst (im_run_task done_impl r t es) = [(sample_event EV_COMPLETED, 1)]"
  by (simp add: done_impl_def)

lemma demo_binding_id: "b_task_id (demo_binding ''t1'') = t_task_id persona_task"
  by (simp add: demo_binding_def persona_task_fields)


theorem persona_freed_witness:
  "\<exists>res live' s'. execute_task None ''now'' (\<lambda>n. []) done_env persona_task (demo_binding ''t1'') [] persona_store =
      (res, live', s') \<and>
    (held_by_other ''p1'' ''t1'' s' \<or> get_persona s' ''p1'' = Some (busy_persona\<lparr>p_status := ''idle''\<rparr>))"
proof -
  obtain res live' s' where run: "execute_task None ''now'' (\<lambda>n. []) done_env persona_task (demo_binding ''t1'') []
      persona_store = (res, live', s')"
    by (cases "execute_task None ''now'' (\<lambda>n. []) done_env persona_task (demo_binding ''t1'') [] persona_store")
  have "ended_with (t_task_id persona_task) (''run-'' @ []) (types_of [(sample_event EV_COMPLETED, 1)]) res s'"
    by (rule ends_with_events [OF persona_store_reads(1) demo_binding_id done_env_known
          done_events _ _ done_not_raises run]) (simp_all add: persona_task_fields)
  then obtain t' where t': "get_task s' (t_task_id persona_task) = Some t'" "t_status t' = TS_COMPLETED"
    by (auto simp: ended_with_def outcome_of_def types_of_def sample_event_def split: option.splits)
  have "held_by_other ''p1'' (t_task_id persona_task) s' \<or>
      get_persona s' ''p1'' = Some (busy_persona\<lparr>p_status := ''idle''\<rparr>)"
    by (rule persona_freed [OF persona_store_reads(1) demo_binding_id done_env_known done_events _ _
          persona_store_reads(2) _ _ run t'(1)])
      (simp_all add: persona_task_fields busy_persona_def t'(2))
  then show ?thesis using run by (auto simp: persona_task_fields)
qed

definition no_executors :: reconcile_env where
  "no_executors = done_env\<lparr>rc_registry := []\<rparr>"

theorem unknown_executor_keeps_persona_witness:
  "\<exists>live' s'. execute_task None ''now'' (\<lambda>n. []) no_executors persona_task (demo_binding ''t1'') [] persona_store =
      (None, live', s') \<and>
    failed_cleanly ''t1'' s' \<and> get_persona s' ''p1'' = Some busy_persona"
proof -
  have unknown: "registry_get (rc_registry no_executors)
      (str_or_else (t_preferred_executor persona_task) (rc_default_executor no_executors)) =
      Inl (UnknownExecutorError ''codex'')"
    by (simp add: no_executors_def done_env_def registry_get_def persona_task_fields)
  then obtain live' s' where run: "execute_task None ''now'' (\<lambda>n. []) no_executors persona_task
      (demo_binding ''t1'') [] persona_store = (None, live', s')"
    by (simp add: execute_task_def Let_def)
  from unknown_executor_keeps_persona [OF unknown demo_binding_id run] show ?thesis
    using run persona_store_reads(2) by (auto simp: persona_task_fields)
qed

end
