(* ===== verification/NodeRegistry.thy ===== *)
theory NodeRegistry
  imports Protocol "HOL-Library.Product_Lexorder"
begin

text \<open>
  \<open>src/newbro/executors/node/registry.py\<close>: the executor nodes a control plane knows, their
  credentials, and the file they are persisted in. The state is the dictionary of stored records
  and the text of the file as last written. \<open>hash\<close> is the hexadecimal SHA-256 of a token; a fresh
  token, a fresh id and the clock's reading are arguments. Reading the file back
  (\<open>_load_records\<close>) uses a YAML parser and is left out, and so are failures of the file system.
\<close>

section \<open>Data\<close>

record executor_skill =
  sk_name :: str
  sk_display_name :: str
  sk_description :: str
  sk_hint :: "str option"
  sk_path :: str
  sk_enabled :: bool

record executor_node_executor =
  xe_executor_type :: str
  xe_supports_resume :: bool
  xe_supports_follow_up :: bool
  xe_supports_audio_instruction :: bool
  xe_supports_thread_list :: bool
  xe_supports_pause :: bool
  xe_supports_cancel :: bool
  xe_version :: "str option"
  xe_minimum_version :: "str option"
  xe_availability_reason :: "str option"
  xe_skills :: "executor_skill list"

record stored_node =
  nr_node_id :: str
  nr_name :: str
  nr_enabled_executors :: "str list"
  nr_acpx_agent :: "str option"
  nr_raw_token :: "str option"
  nr_token_hash :: str
  nr_token_hint :: str
  nr_last_connected_at :: "str option"
  nr_last_seen_at :: "str option"

record connection_view =
  cv_connected :: bool
  cv_executors :: "str list"
  cv_executor_capabilities :: "executor_node_executor list"

record executor_node_record =
  pn_node_id :: str
  pn_name :: str
  pn_enabled_executors :: "str list"
  pn_acpx_agent :: "str option"
  pn_connected_executors :: "str list"
  pn_connection_status :: str
  pn_token_hint :: "str option"
  pn_last_connected_at :: "str option"
  pn_last_seen_at :: "str option"
  pn_connected_executor_capabilities :: "executor_node_executor list"

record credential_issue =
  ci_node :: executor_node_record
  ci_token :: str

record node_registry =
  rg_records :: "(str, stored_node) dict"
  rg_file :: str

section \<open>Helpers\<close>

fun normalize_executor_list :: "str list \<Rightarrow> str list \<Rightarrow> str list" where
  "normalize_executor_list seen [] = []"
| "normalize_executor_list seen (v # vs) =
     (let cleaned = py_strip v in
      if cleaned = [] \<or> cleaned \<in> set seen then normalize_executor_list seen vs
      else cleaned # normalize_executor_list (cleaned # seen) vs)"

definition normalize_optional_text :: "str option \<Rightarrow> str option" where
  "normalize_optional_text v =
     (case v of None \<Rightarrow> None | Some x \<Rightarrow> (if py_strip x = [] then None else Some (py_strip x)))"

definition token_hint :: "str \<Rightarrow> str" where
  "token_hint v = (if length v \<le> 10 then v else take 4 v @ ''...'' @ drop (length v - 4) v)"

definition backslash :: char where
  "backslash = char_of (92 :: nat)"

definition double_quote :: char where
  "double_quote = char_of (34 :: nat)"

definition registry_yaml_quote :: "str \<Rightarrow> str" where
  "registry_yaml_quote v =
     [double_quote] @
     py_replace_char double_quote [backslash, double_quote] (py_replace_char backslash [backslash, backslash] v) @
     [double_quote]"

definition quote_or_null :: "str option \<Rightarrow> str" where
  "quote_or_null v = (if str_truthy v then registry_yaml_quote (the v) else ''null'')"

definition node_sort_key :: "stored_node \<Rightarrow> str \<times> str" where
  "node_sort_key r = (py_lower (nr_name r), nr_node_id r)"

definition render_record :: "stored_node \<Rightarrow> str list" where
  "render_record r =
     [''  - node_id: '' @ registry_yaml_quote (nr_node_id r),
      ''    name: '' @ registry_yaml_quote (nr_name r),
      ''    enabled_executors:''] @
     map (\<lambda>e. ''      - '' @ registry_yaml_quote e) (nr_enabled_executors r) @
     [''    acpx_agent: '' @ quote_or_null (nr_acpx_agent r),
      ''    raw_token: '' @ quote_or_null (nr_raw_token r),
      ''    token_hash: '' @ registry_yaml_quote (nr_token_hash r),
      ''    token_hint: '' @ registry_yaml_quote (nr_token_hint r),
      ''    last_connected_at: '' @ quote_or_null (nr_last_connected_at r),
      ''    last_seen_at: '' @ quote_or_null (nr_last_seen_at r)]"

definition render_records :: "stored_node list \<Rightarrow> str" where
  "render_records rs =
     (let newline = [char_of (10 :: nat)];
          lines = [''version: 1'', ''executor_nodes:''] @
            concat (map render_record (sort_key node_sort_key rs))
      in py_join newline lines @ newline)"

definition persist :: "node_registry \<Rightarrow> node_registry" where
  "persist g = g\<lparr>rg_file := render_records (dict_values (rg_records g))\<rparr>"

definition set_record :: "stored_node \<Rightarrow> node_registry \<Rightarrow> node_registry" where
  "set_record r g = persist (g\<lparr>rg_records := dict_put (nr_node_id r) r (rg_records g)\<rparr>)"

definition public_record :: "connection_view option \<Rightarrow> stored_node \<Rightarrow> executor_node_record" where
  "public_record conn r =
     \<lparr>pn_node_id = nr_node_id r, pn_name = nr_name r, pn_enabled_executors = nr_enabled_executors r,
      pn_acpx_agent = nr_acpx_agent r,
      pn_connected_executors = (case conn of Some v \<Rightarrow> cv_executors v | None \<Rightarrow> []),
      pn_connection_status =
        (case conn of Some v \<Rightarrow> (if cv_connected v then ''connected'' else ''disconnected'')
         | None \<Rightarrow> ''disconnected''),
      pn_token_hint = Some (nr_token_hint r), pn_last_connected_at = nr_last_connected_at r,
      pn_last_seen_at = nr_last_seen_at r,
      pn_connected_executor_capabilities =
        (case conn of Some v \<Rightarrow> cv_executor_capabilities v | None \<Rightarrow> [])\<rparr>"

section \<open>Operations\<close>

definition registry_list_records :: "(str, connection_view) dict \<Rightarrow> node_registry \<Rightarrow> executor_node_record list" where
  "registry_list_records conns g =
     map (\<lambda>r. public_record (map_of conns (nr_node_id r)) r)
       (sort_key node_sort_key (dict_values (rg_records g)))"

definition get_record :: "node_registry \<Rightarrow> str \<Rightarrow> stored_node option" where
  "get_record g k = map_of (rg_records g) k"

definition has_node :: "node_registry \<Rightarrow> str \<Rightarrow> bool" where
  "has_node g k \<longleftrightarrow> k \<in> set (dict_keys (rg_records g))"

definition not_found :: "str \<Rightarrow> py_error" where
  "not_found k = ExecutorNodeRegistryError
     (''Executor node '' @ [char_of (39::nat)] @ k @ [char_of (39::nat)] @ '' not found.'')"

definition check_executors :: "str list \<Rightarrow> str list result" where
  "check_executors vs =
     (let ns = normalize_executor_list [] vs in
      if ns = [] then Inl (ExecutorNodeRegistryError ''Executor node must enable exactly one executor family.'')
      else if length ns > 1
        then Inl (ExecutorNodeRegistryError ''Executor node must choose exactly one executor family.'')
      else Inr ns)"

definition check_name :: "str \<Rightarrow> str result" where
  "check_name n =
     (let s = py_strip n in
      if s = [] then Inl (ExecutorNodeRegistryError ''Executor node name is required.'') else Inr s)"

definition create_node ::
    "(str \<Rightarrow> str) \<Rightarrow> str \<Rightarrow> str \<Rightarrow> str \<Rightarrow> str list \<Rightarrow> str option \<Rightarrow> node_registry \<Rightarrow>
     credential_issue result \<times> node_registry" where
  "create_node hash uid token name executors acpx g =
     (case check_name name of
        Inl e \<Rightarrow> (Inl e, g)
      | Inr nm \<Rightarrow>
          (case check_executors executors of
             Inl e \<Rightarrow> (Inl e, g)
           | Inr ns \<Rightarrow>
               (let agent0 = normalize_optional_text acpx;
                    agent = (if ''acpx'' \<in> set ns \<and> \<not> str_truthy agent0 then Some ''codex'' else agent0);
                    r = \<lparr>nr_node_id = ''node-'' @ uid, nr_name = nm, nr_enabled_executors = ns,
                         nr_acpx_agent = agent, nr_raw_token = Some token, nr_token_hash = hash token,
                         nr_token_hint = token_hint token, nr_last_connected_at = None,
                         nr_last_seen_at = None\<rparr>
                in (Inr \<lparr>ci_node = public_record None r, ci_token = token\<rparr>, set_record r g))))"

text \<open>The updates an update request asks for, in the order in which they are checked.\<close>

definition updated_record ::
    "str option \<Rightarrow> str list option \<Rightarrow> str option \<Rightarrow> stored_node \<Rightarrow> stored_node result" where
  "updated_record name executors acpx r =
     (case (case name of None \<Rightarrow> Inr r
            | Some n \<Rightarrow> (case check_name n of Inl e \<Rightarrow> Inl e | Inr nm \<Rightarrow> Inr (r\<lparr>nr_name := nm\<rparr>))) of
        Inl e \<Rightarrow> Inl e
      | Inr r1 \<Rightarrow>
          (case (case executors of None \<Rightarrow> Inr r1
                 | Some es \<Rightarrow> (case check_executors es of Inl e \<Rightarrow> Inl e
                             | Inr ns \<Rightarrow> Inr (r1\<lparr>nr_enabled_executors := ns\<rparr>))) of
             Inl e \<Rightarrow> Inl e
           | Inr r2 \<Rightarrow>
               (let r3 = (case acpx of None \<Rightarrow> r2
                          | Some a \<Rightarrow> r2\<lparr>nr_acpx_agent := normalize_optional_text (Some a)\<rparr>);
                    r4 = (if ''acpx'' \<in> set (nr_enabled_executors r3) \<and> \<not> str_truthy (nr_acpx_agent r3)
                          then r3\<lparr>nr_acpx_agent := Some ''codex''\<rparr> else r3);
                    r5 = (if ''acpx'' \<notin> set (nr_enabled_executors r4) \<and> nr_acpx_agent r4 \<noteq> None
                          then r4\<lparr>nr_acpx_agent := None\<rparr> else r4)
                in Inr r5)))"

definition update_node ::
    "str \<Rightarrow> str option \<Rightarrow> str list option \<Rightarrow> str option \<Rightarrow> connection_view option \<Rightarrow> node_registry \<Rightarrow>
     executor_node_record result \<times> node_registry" where
  "update_node k name executors acpx conn g =
     (case get_record g k of
        None \<Rightarrow> (Inl (not_found k), g)
      | Some r \<Rightarrow>
          (case updated_record name executors acpx r of
             Inl e \<Rightarrow> (Inl e, g)
           | Inr r' \<Rightarrow>
               (Inr (public_record conn r'), persist (g\<lparr>rg_records := dict_put k r' (rg_records g)\<rparr>))))"

definition rotate_credentials ::
    "(str \<Rightarrow> str) \<Rightarrow> str \<Rightarrow> str \<Rightarrow> connection_view option \<Rightarrow> node_registry \<Rightarrow>
     credential_issue result \<times> node_registry" where
  "rotate_credentials hash token k conn g =
     (case get_record g k of
        None \<Rightarrow> (Inl (not_found k), g)
      | Some r \<Rightarrow>
          (let r' = r\<lparr>nr_raw_token := Some token, nr_token_hash := hash token,
                     nr_token_hint := token_hint token\<rparr>
           in (Inr \<lparr>ci_node = public_record conn r', ci_token = token\<rparr>,
               persist (g\<lparr>rg_records := dict_put k r' (rg_records g)\<rparr>))))"

definition delete_record :: "str \<Rightarrow> node_registry \<Rightarrow> bool \<times> node_registry" where
  "delete_record k g =
     (case get_record g k of
        None \<Rightarrow> (False, g)
      | Some r \<Rightarrow> (True, persist (g\<lparr>rg_records := dict_pop k (rg_records g)\<rparr>)))"

definition reveal_token :: "node_registry \<Rightarrow> str \<Rightarrow> credential_issue result" where
  "reveal_token g k =
     (case get_record g k of
        None \<Rightarrow> Inl (not_found k)
      | Some r \<Rightarrow>
          if \<not> str_truthy (nr_raw_token r) then
            Inl (ExecutorNodeRegistryError
              (''Executor node '' @ [char_of (39::nat)] @ k @ [char_of (39::nat)] @
               '' uses legacy non-retrievable credentials. Rotate credentials first.''))
          else Inr \<lparr>ci_node = public_record None r, ci_token = the (nr_raw_token r)\<rparr>)"

definition verify_credentials :: "(str \<Rightarrow> str) \<Rightarrow> node_registry \<Rightarrow> str \<Rightarrow> str \<Rightarrow> stored_node option" where
  "verify_credentials hash g k token =
     (case get_record g k of
        None \<Rightarrow> None
      | Some r \<Rightarrow> (if nr_token_hash r \<noteq> hash token then None else Some r))"

definition note_connected :: "str \<Rightarrow> str \<Rightarrow> node_registry \<Rightarrow> node_registry" where
  "note_connected now k g =
     (case get_record g k of
        None \<Rightarrow> g
      | Some r \<Rightarrow>
          persist (g\<lparr>rg_records := dict_put k (r\<lparr>nr_last_connected_at := Some now, nr_last_seen_at := Some now\<rparr>)
            (rg_records g)\<rparr>))"

definition note_seen :: "str \<Rightarrow> str \<Rightarrow> node_registry \<Rightarrow> node_registry" where
  "note_seen now k g =
     (case get_record g k of
        None \<Rightarrow> g
      | Some r \<Rightarrow>
          persist (g\<lparr>rg_records := dict_put k (r\<lparr>nr_last_seen_at := Some now\<rparr>) (rg_records g)\<rparr>))"

section \<open>Every run of the registry\<close>

datatype registry_op =
    RgCreate str str str "str list" "str option"
  | RgUpdate str "str option" "str list option" "str option"
  | RgRotate str str
  | RgDelete str
  | RgConnected str str
  | RgSeen str str

fun registry_apply :: "(str \<Rightarrow> str) \<Rightarrow> registry_op \<Rightarrow> node_registry \<Rightarrow> node_registry" where
  "registry_apply hash (RgCreate uid token name es acpx) g = snd (create_node hash uid token name es acpx g)"
| "registry_apply hash (RgUpdate k name es acpx) g = snd (update_node k name es acpx None g)"
| "registry_apply hash (RgRotate token k) g = snd (rotate_credentials hash token k None g)"
| "registry_apply hash (RgDelete k) g = snd (delete_record k g)"
| "registry_apply hash (RgConnected now k) g = note_connected now k g"
| "registry_apply hash (RgSeen now k) g = note_seen now k g"

definition registry_run :: "(str \<Rightarrow> str) \<Rightarrow> registry_op list \<Rightarrow> node_registry \<Rightarrow> node_registry" where
  "registry_run hash ops g = foldl (\<lambda>g x. registry_apply hash x g) g ops"

text \<open>A record is what its operations promise: a stripped name, one executor family, credentials
  that fit the token kept, and an agent whenever the family is ACPX.\<close>

definition node_ok :: "(str \<Rightarrow> str) \<Rightarrow> str \<Rightarrow> stored_node \<Rightarrow> bool" where
  "node_ok hash k r \<longleftrightarrow>
     nr_node_id r = k \<and> nr_name r \<noteq> [] \<and> py_strip (nr_name r) = nr_name r \<and>
     length (nr_enabled_executors r) = 1 \<and>
     (case nr_raw_token r of
        None \<Rightarrow> False
      | Some t \<Rightarrow> nr_token_hash r = hash t \<and> nr_token_hint r = token_hint t) \<and>
     (''acpx'' \<notin> set (nr_enabled_executors r) \<or> str_truthy (nr_acpx_agent r))"

definition registry_ok :: "(str \<Rightarrow> str) \<Rightarrow> node_registry \<Rightarrow> bool" where
  "registry_ok hash g \<longleftrightarrow>
     dict_wf (rg_records g) \<and> list_all (\<lambda>(k, r). node_ok hash k r) (rg_records g)"

definition registry_empty :: node_registry where
  "registry_empty = \<lparr>rg_records = [], rg_file = []\<rparr>"

lemma registry_ok_get: "registry_ok hash g \<Longrightarrow> get_record g k = Some r \<Longrightarrow> node_ok hash k r"
  by (auto simp: registry_ok_def get_record_def list_all_iff dest!: map_of_SomeD)

lemma registry_okI:
  "dict_wf (rg_records g) \<Longrightarrow> (\<And>k r. get_record g k = Some r \<Longrightarrow> node_ok hash k r) \<Longrightarrow> registry_ok hash g"
  by (auto simp: registry_ok_def get_record_def list_all_iff dict_mem_iff)

lemma registry_ok_wf: "registry_ok hash g \<Longrightarrow> dict_wf (rg_records g)"
  by (simp add: registry_ok_def)

lemma persist_reads [simp]:
  "rg_records (persist g) = rg_records g" "get_record (persist g) = get_record g"
  by (simp_all add: persist_def get_record_def fun_eq_iff)

lemma registry_ok_put:
  assumes "registry_ok hash g" and "node_ok hash k r"
  shows "registry_ok hash (persist (g\<lparr>rg_records := dict_put k r (rg_records g)\<rparr>))"
proof (rule registry_okI)
  show "dict_wf (rg_records (persist (g\<lparr>rg_records := dict_put k r (rg_records g)\<rparr>)))"
    using registry_ok_wf [OF assms(1)] by simp
  fix k' r'
  assume "get_record (persist (g\<lparr>rg_records := dict_put k r (rg_records g)\<rparr>)) k' = Some r'"
  then show "node_ok hash k' r'"
    using assms registry_ok_get [OF assms(1)]
    by (auto simp: get_record_def split: if_splits)
qed

lemma check_name_ok: "check_name n = Inr s \<Longrightarrow> s \<noteq> [] \<and> py_strip s = s"
  by (auto simp: check_name_def Let_def split: if_splits)

lemma check_executors_ok: "check_executors vs = Inr ns \<Longrightarrow> length ns = 1"
  by (cases "normalize_executor_list [] vs"; cases "tl (normalize_executor_list [] vs)")
    (simp_all add: check_executors_def split: if_splits, auto)

text \<open>An update, field by field.\<close>

lemma updated_record_cases:
  assumes "updated_record name es acpx r = Inr r'"
  obtains nm ns agent where
    "nm = nr_name r \<or> nm \<noteq> [] \<and> py_strip nm = nm"
    and "ns = nr_enabled_executors r \<or> length ns = 1"
    and "''acpx'' \<notin> set ns \<or> str_truthy agent"
    and "r' = r\<lparr>nr_name := nm, nr_enabled_executors := ns, nr_acpx_agent := agent\<rparr>"
proof -
  define r1 where "r1 = (case name of None \<Rightarrow> Inr r
      | Some n \<Rightarrow> (case check_name n of Inl e \<Rightarrow> Inl e | Inr nm \<Rightarrow> Inr (r\<lparr>nr_name := nm\<rparr>)))"
  obtain x where x: "r1 = Inr x"
    using assms by (cases r1) (simp_all add: updated_record_def r1_def)
  have x1: "\<exists>nm. (nm = nr_name r \<or> nm \<noteq> [] \<and> py_strip nm = nm) \<and> x = r\<lparr>nr_name := nm\<rparr>"
    using x check_name_ok by (cases name) (fastforce simp: r1_def split: sum.splits)+
  define r2 where "r2 = (case es of None \<Rightarrow> Inr x
      | Some es \<Rightarrow> (case check_executors es of Inl e \<Rightarrow> Inl e
                   | Inr ns \<Rightarrow> Inr (x\<lparr>nr_enabled_executors := ns\<rparr>)))"
  have step: "updated_record name es acpx r = (case r2 of Inl e \<Rightarrow> Inl e | Inr y \<Rightarrow>
      (let r3 = (case acpx of None \<Rightarrow> y | Some a \<Rightarrow> y\<lparr>nr_acpx_agent := normalize_optional_text (Some a)\<rparr>);
           r4 = (if ''acpx'' \<in> set (nr_enabled_executors r3) \<and> \<not> str_truthy (nr_acpx_agent r3)
                 then r3\<lparr>nr_acpx_agent := Some ''codex''\<rparr> else r3);
           r5 = (if ''acpx'' \<notin> set (nr_enabled_executors r4) \<and> nr_acpx_agent r4 \<noteq> None
                 then r4\<lparr>nr_acpx_agent := None\<rparr> else r4)
       in Inr r5))"
    using x unfolding r1_def by (simp only: updated_record_def r2_def sum.case)
  obtain y where y: "r2 = Inr y"
    using assms unfolding step by (cases r2) simp_all
  have y1: "\<exists>ns. (ns = nr_enabled_executors x \<or> length ns = 1) \<and> y = x\<lparr>nr_enabled_executors := ns\<rparr>"
    using y check_executors_ok by (cases es) (fastforce simp: r2_def split: sum.splits)+
  have y2: "\<exists>agent. (''acpx'' \<notin> set (nr_enabled_executors y) \<or> str_truthy agent) \<and>
      r' = y\<lparr>nr_acpx_agent := agent\<rparr>"
  proof -
    define r3 where "r3 = (case acpx of None \<Rightarrow> y | Some a \<Rightarrow> y\<lparr>nr_acpx_agent := normalize_optional_text (Some a)\<rparr>)"
    have same: "y = y\<lparr>nr_acpx_agent := nr_acpx_agent y\<rparr>" by simp
    have "\<exists>a3. r3 = y\<lparr>nr_acpx_agent := a3\<rparr>"
    proof (cases acpx)
      case None
      then show ?thesis using same by (metis option.simps(4) r3_def)
    qed (simp add: r3_def, blast)
    then obtain a3 where a3: "r3 = y\<lparr>nr_acpx_agent := a3\<rparr>" ..
    show ?thesis
      using assms unfolding step y
      by (intro exI [of _ "nr_acpx_agent r'"]) (auto simp: a3 [unfolded r3_def] Let_def split: if_splits)
  qed
  obtain nm where nm: "nm = nr_name r \<or> nm \<noteq> [] \<and> py_strip nm = nm" "x = r\<lparr>nr_name := nm\<rparr>"
    using x1 by blast
  obtain ns where ns: "ns = nr_enabled_executors x \<or> length ns = 1" "y = x\<lparr>nr_enabled_executors := ns\<rparr>"
    using y1 by blast
  obtain agent where ag: "''acpx'' \<notin> set (nr_enabled_executors y) \<or> str_truthy agent"
      "r' = y\<lparr>nr_acpx_agent := agent\<rparr>"
    using y2 by blast
  show ?thesis
    by (rule that [of nm ns agent]) (use nm ns ag in simp_all)
qed

lemma updated_record_ok:
  assumes "updated_record name es acpx r = Inr r'" and "node_ok hash k r"
  shows "node_ok hash k r'"
  using assms(1)
  by (cases rule: updated_record_cases) (use assms(2) in \<open>auto simp: node_ok_def split: option.splits\<close>)

section \<open>What holds of every registry\<close>

lemma create_node_ok:
  "registry_ok hash g \<Longrightarrow> registry_ok hash (snd (create_node hash uid token name es acpx g))"
proof (cases "check_name name")
  case (Inr nm)
  assume ok: "registry_ok hash g"
  show ?thesis
  proof (cases "check_executors es")
    case (Inr ns)
    then show ?thesis
      using \<open>check_name name = Inr nm\<close> ok check_name_ok [of name nm] check_executors_ok [of es ns]
      by (auto simp: create_node_def set_record_def Let_def node_ok_def intro!: registry_ok_put)
  qed (simp add: create_node_def Inr ok)
qed (simp add: create_node_def)

lemma update_node_ok:
  "registry_ok hash g \<Longrightarrow> registry_ok hash (snd (update_node k name es acpx conn g))"
  by (auto simp: update_node_def intro!: registry_ok_put dest: registry_ok_get updated_record_ok
      split: option.splits sum.splits)

lemma rotate_credentials_ok:
  "registry_ok hash g \<Longrightarrow> registry_ok hash (snd (rotate_credentials hash token k conn g))"
  by (auto simp: rotate_credentials_def Let_def node_ok_def intro!: registry_ok_put
      dest: registry_ok_get split: option.splits)

lemma delete_record_ok: "registry_ok hash g \<Longrightarrow> registry_ok hash (snd (delete_record k g))"
  by (rule registry_okI)
    (auto simp: delete_record_def get_record_def dest: registry_ok_wf registry_ok_get [unfolded get_record_def]
      split: option.splits if_splits)

lemma note_connected_ok: "registry_ok hash g \<Longrightarrow> registry_ok hash (note_connected now k g)"
  by (auto simp: note_connected_def node_ok_def intro!: registry_ok_put dest: registry_ok_get
      split: option.splits)

lemma note_seen_ok: "registry_ok hash g \<Longrightarrow> registry_ok hash (note_seen now k g)"
  by (auto simp: note_seen_def node_ok_def intro!: registry_ok_put dest: registry_ok_get
      split: option.splits)

lemma registry_apply_ok: "registry_ok hash g \<Longrightarrow> registry_ok hash (registry_apply hash x g)"
  by (cases x)
    (simp_all add: create_node_ok update_node_ok rotate_credentials_ok delete_record_ok
      note_connected_ok note_seen_ok)

lemma registry_run_ok: "registry_ok hash g \<Longrightarrow> registry_ok hash (registry_run hash ops g)"
  unfolding registry_run_def
  by (induction ops arbitrary: g) (simp_all add: registry_apply_ok)

lemma registry_empty_ok: "registry_ok hash registry_empty"
  by (simp add: registry_ok_def registry_empty_def)

text \<open>in every registry that starts empty and is reached by creating, updating, rotating,
  deleting and touching nodes, every stored record has a stripped non-empty name, exactly one
  executor family, a token hash and a hint that belong to the token kept, and an ACPX agent when
  the family is ACPX; it is stored under its own id, once.\<close>

theorem registry_always_ok: "registry_ok hash (registry_run hash ops registry_empty)"
  by (rule registry_run_ok [OF registry_empty_ok])

lemma reveal_verifies:
  assumes "registry_ok hash g" and "reveal_token g k = Inr c"
  shows "\<exists>r. verify_credentials hash g k (ci_token c) = Some r \<and> nr_node_id r = k"
proof -
  obtain r where r: "get_record g k = Some r" and t: "str_truthy (nr_raw_token r)"
    and c: "ci_token c = the (nr_raw_token r)"
    using assms(2) by (auto simp: reveal_token_def split: option.splits if_splits)
  have "node_ok hash k r" using registry_ok_get [OF assms(1) r] .
  then show ?thesis
    using r t c by (cases "nr_raw_token r") (auto simp: verify_credentials_def node_ok_def)
qed

text \<open>the token the control plane reveals for a node is one with which that node
  authenticates, in every registry that its operations reach.\<close>

theorem revealed_token_authenticates:
  assumes "reveal_token (registry_run hash ops registry_empty) k = Inr c"
  shows "\<exists>r. verify_credentials hash (registry_run hash ops registry_empty) k (ci_token c) = Some r
             \<and> nr_node_id r = k"
  by (rule reveal_verifies [OF registry_run_ok [OF registry_empty_ok] assms])

definition example_registry_ops :: "registry_op list" where
  "example_registry_ops =
     [RgCreate ''1'' ''tokenA'' '' laptop '' [''codex''] None,
      RgCreate ''2'' ''tokenB'' ''desk'' ['' acpx'', ''acpx''] (Some '' ''),
      RgRotate ''tokenC'' ''node-2'', RgUpdate ''node-1'' (Some ''lap'') None None,
      RgConnected ''now'' ''node-1'']"

lemma revealed_token_authenticates_witness:
  "\<exists>r. verify_credentials rev (registry_run rev example_registry_ops registry_empty) ''node-2'' ''tokenC'' = Some r
       \<and> nr_node_id r = ''node-2''"
proof -
  have "(case reveal_token (registry_run rev example_registry_ops registry_empty) ''node-2'' of
      Inr c \<Rightarrow> ci_token c | Inl e \<Rightarrow> []) = ''tokenC''"
    by code_simp
  then obtain c where c: "reveal_token (registry_run rev example_registry_ops registry_empty) ''node-2'' = Inr c"
      "ci_token c = ''tokenC''"
    by (cases "reveal_token (registry_run rev example_registry_ops registry_empty) ''node-2''") simp_all
  show ?thesis using revealed_token_authenticates [OF c(1)] c(2) by simp
qed

text \<open>After a rotation the node authenticates with a token exactly when it has the new
  token's hash, and every other node as before; the token returned is the new one.\<close>

theorem rotation_replaces_credentials:
  assumes "rotate_credentials hash new k conn g = (Inr c, g')"
  shows "ci_token c = new \<and>
    (verify_credentials hash g' j t \<noteq> None) =
      (if j = k then hash new = hash t else verify_credentials hash g j t \<noteq> None)"
proof -
  obtain r where "get_record g k = Some r"
    using assms by (auto simp: rotate_credentials_def split: option.splits)
  then show ?thesis
    using assms by (auto simp: rotate_credentials_def verify_credentials_def get_record_def Let_def
      split: if_splits)
qed

lemma rotation_replaces_credentials_witness:
  "\<exists>c g'. rotate_credentials rev ''new'' ''node-1'' None
      (registry_run rev [RgCreate ''1'' ''old'' ''a'' [''codex''] None] registry_empty) = (Inr c, g') \<and>
    ci_token c = ''new'' \<and> verify_credentials rev g' ''node-1'' ''old'' = None"
proof -
  define g where "g = registry_run rev [RgCreate ''1'' ''old'' ''a'' [''codex''] None] registry_empty"
  have "is_ok (fst (rotate_credentials rev ''new'' ''node-1'' None g))"
    unfolding g_def by code_simp
  then obtain c g' where c: "rotate_credentials rev ''new'' ''node-1'' None g = (Inr c, g')"
    by (cases "rotate_credentials rev ''new'' ''node-1'' None g";
        cases "fst (rotate_credentials rev ''new'' ''node-1'' None g)") auto
  show ?thesis
    using rotation_replaces_credentials [OF c, of "''node-1''" "''old''"] c by (simp add: g_def)
qed

end
