(* ===== verification/NodeManager.thy ===== *)
theory NodeManager
  imports NodeRegistry
begin

text \<open>
  \<open>src/newbro/runtime/executor_node_manager.py\<close>: the control plane's side of the websockets to
  the executor nodes. The state is the manager object: who is connected, the queue and the
  dispatch state of every detached run, the requests that wait for a node's reply, the streams of
  workspace files and the queue of thread events. A websocket is the number that identifies it;
  whether a \<open>send_json\<close> raises is the argument \<open>ok\<close> of the operation, and what was sent is kept
  in \<open>nm_sent\<close>. Run queues and reply futures are objects that outlive their dictionary entry, so
  they live in heaps indexed by numbers. Each operation is atomic up to the point where it waits
  for a reply; the wait is a second operation.
\<close>

section \<open>Messages and commands\<close>

record run_event_message =
  re_run_id :: str
  re_session_id :: str
  re_event_type :: executor_event_type
  re_message :: "str option"
  re_metadata :: jdict
  re_latest_resume_handle :: "agent_resume_handle option"

record register_message =
  rm_node_id :: str
  rm_token :: str
  rm_executors :: "executor_node_executor list"
  rm_metadata :: jdict

record ack =
  ack_message_type :: str
  ack_ok :: bool
  ack_run_id :: "str option"
  ack_detail :: "str option"

record audio_instruction =
  ai_audio_instruction_id :: str
  ai_target_persona_id :: str
  ai_target_thread_id :: "str option"
  ai_pcm16_b64 :: str
  ai_mime_type :: str
  ai_duration_ms :: int
  ai_sample_rate :: int
  ai_num_channels :: int
  ai_samples_per_channel :: int
  ai_size_bytes :: int
  ai_metadata :: jdict

record text_instruction =
  ti_instruction_id :: str
  ti_target_persona_id :: str
  ti_target_thread_id :: "str option"
  ti_text :: str
  ti_source_audio_instruction_id :: "str option"
  ti_metadata :: jdict

record dispatch_run_command =
  dr_run_id :: str
  dr_execution_session_id :: str
  dr_executor_type :: str
  dr_task_id :: str
  dr_title :: str
  dr_goal :: str
  dr_latest_instruction :: "str option"
  dr_workspace_id :: "str option"
  dr_task_metadata :: jdict
  dr_latest_resume_handle :: "agent_resume_handle option"

record start_codex_turn_command =
  st_request_id :: str
  st_target_persona_id :: str
  st_target_thread_id :: str
  st_thread_id :: "str option"
  st_create_new_thread :: bool
  st_workspace_id :: "str option"
  st_instruction :: text_instruction
  st_latest_resume_handle :: "agent_resume_handle option"
  st_metadata :: jdict

record supply_response_command =
  sr_interaction_request_id :: str
  sr_execution_session_id :: "str option"
  sr_run_id :: "str option"
  sr_outbound_turn_request_id :: "str option"
  sr_action :: str
  sr_answer_text :: "str option"
  sr_answers :: "(str, str list) dict option"
  sr_native_response :: jdict

record thread_subscription =
  ts_subscription_id :: str
  ts_session_id :: str
  ts_target_persona_id :: str
  ts_target_thread_id :: str
  ts_thread_id :: str
  ts_workspace_id :: "str option"

datatype node_command =
    DispatchRun dispatch_run_command
  | CancelRun str str str
  | DispatchAudio str str str str audio_instruction
  | DispatchText str str str str text_instruction
  | StartCodexTurn start_codex_turn_command
  | SupplyInteractionResponse supply_response_command
  | TranscribeAudio str str audio_instruction
  | ListCodexThreads str "str option" int "str option" str str
  | ListCodexThreadTurns str str int "str option"
  | ReadCodexThread str str
  | SubscribeCodexThread str thread_subscription
  | UnsubscribeCodexThread str str str
  | ReadWorkspaceFile str str "str option" str

text \<open>The six kinds of request a node answers, each with a dictionary of its own.\<close>

datatype request_kind =
    RK_AUDIO | RK_THREAD_LIST | RK_TURN_LIST | RK_THREAD_READ | RK_SUBSCRIBE | RK_UNSUBSCRIBE

datatype reply_payload =
    AudioTranscribed "str option" "str option"
  | ThreadsListed "jdict list" "str option" "str option"
  | TurnsListed str "jdict list" "str option" "str option" "str option"
  | ThreadRead jdict
  | ThreadSubscribed thread_subscription
  | ThreadUnsubscribed str str "str option"

record node_reply =
  rp_request_id :: str
  rp_node_id :: str
  rp_ok :: bool
  rp_error :: "str option"
  rp_payload :: reply_payload

fun reply_type :: "request_kind \<Rightarrow> str" where
  "reply_type RK_AUDIO = ''audio_instruction_transcribed''"
| "reply_type RK_THREAD_LIST = ''codex_threads_listed''"
| "reply_type RK_TURN_LIST = ''codex_thread_turns_listed''"
| "reply_type RK_THREAD_READ = ''codex_thread_read''"
| "reply_type RK_SUBSCRIBE = ''codex_thread_subscribed''"
| "reply_type RK_UNSUBSCRIBE = ''codex_thread_unsubscribed''"

record thread_event =
  te_subscription_id :: str
  te_node_id :: str
  te_session_id :: str
  te_target_persona_id :: str
  te_target_thread_id :: str
  te_thread_id :: str
  te_method :: str
  te_params :: jdict
  te_metadata :: jdict

datatype file_message =
    FileChunk int str
  | FileEof int "str option"
  | FileError str str

fun file_message_type :: "file_message \<Rightarrow> str" where
  "file_message_type (FileChunk n d) = ''workspace_file_chunk''"
| "file_message_type (FileEof n h) = ''workspace_file_eof''"
| "file_message_type (FileError c t) = ''workspace_file_error''"

section \<open>State\<close>

record run_envelope =
  env_event :: executor_event
  env_latest_resume_handle :: "agent_resume_handle option"

record run_dispatch_state =
  ds_run_id :: str
  ds_execution_session_id :: str
  ds_executor_type :: str
  ds_node_id :: "str option"

record node_conn =
  nc_websocket :: nat
  nc_node_id :: str
  nc_connected_at :: str
  nc_metadata :: jdict
  nc_executors :: "(str, executor_node_executor) dict"

datatype future = FPending | FDone node_reply | FCancelled

record node_manager =
  nm_detached :: "str list"
  nm_registry :: node_registry
  nm_connections :: "(str, node_conn) dict"
  nm_run_queues :: "(str, nat) dict"
  nm_run_states :: "(str, run_dispatch_state) dict"
  nm_queues :: "(nat, run_envelope list) dict"
  nm_requests :: "(request_kind \<times> str, nat) dict"
  nm_futures :: "(nat, future) dict"
  nm_thread_events :: "thread_event list"
  nm_file_streams :: "(str, file_message list) dict"
  nm_sent :: "(nat \<times> node_command) list"
  nm_next :: nat

definition node_manager_init :: "str list \<Rightarrow> node_registry \<Rightarrow> node_manager" where
  "node_manager_init detached g =
     \<lparr>nm_detached = detached, nm_registry = g, nm_connections = [], nm_run_queues = [],
      nm_run_states = [], nm_queues = [], nm_requests = [], nm_futures = [], nm_thread_events = [],
      nm_file_streams = [], nm_sent = [], nm_next = 0\<rparr>"

section \<open>Queries\<close>

definition manager_node_id :: "node_manager \<Rightarrow> str option" where
  "manager_node_id m =
     (if length (nm_connections m) = 1 then Some (hd (dict_keys (nm_connections m))) else None)"

definition manager_connected :: "node_manager \<Rightarrow> bool" where
  "manager_connected m \<longleftrightarrow> nm_connections m \<noteq> []"

definition is_detached_executor :: "node_manager \<Rightarrow> str \<Rightarrow> bool" where
  "is_detached_executor m x \<longleftrightarrow> x \<in> set (nm_detached m)"

definition connection_for_node :: "node_manager \<Rightarrow> str \<Rightarrow> node_conn option" where
  "connection_for_node m k = map_of (nm_connections m) k"

definition is_node_connected :: "node_manager \<Rightarrow> str \<Rightarrow> bool" where
  "is_node_connected m k \<longleftrightarrow> k \<in> set (dict_keys (nm_connections m))"

definition has_executor :: "str \<Rightarrow> node_conn \<Rightarrow> bool" where
  "has_executor x c \<longleftrightarrow> x \<in> set (dict_keys (nc_executors c))"

definition is_executor_connected :: "node_manager \<Rightarrow> str \<Rightarrow> str option \<Rightarrow> bool" where
  "is_executor_connected m x node =
     (case node of
        Some k \<Rightarrow> (case connection_for_node m k of None \<Rightarrow> False | Some c \<Rightarrow> has_executor x c)
      | None \<Rightarrow> list_ex (has_executor x) (dict_values (nm_connections m)))"

definition executor_of :: "node_manager \<Rightarrow> str \<Rightarrow> str \<Rightarrow> executor_node_executor option" where
  "executor_of m x k =
     (case connection_for_node m k of None \<Rightarrow> None | Some c \<Rightarrow> map_of (nc_executors c) x)"

definition executor_supports_audio_instruction :: "node_manager \<Rightarrow> str \<Rightarrow> str \<Rightarrow> bool" where
  "executor_supports_audio_instruction m x k =
     (case executor_of m x k of None \<Rightarrow> False | Some e \<Rightarrow> xe_supports_audio_instruction e)"

definition executor_supports_follow_up :: "node_manager \<Rightarrow> str \<Rightarrow> str \<Rightarrow> bool" where
  "executor_supports_follow_up m x k =
     (case executor_of m x k of None \<Rightarrow> False | Some e \<Rightarrow> xe_supports_follow_up e)"

definition executor_supports_thread_list :: "node_manager \<Rightarrow> str \<Rightarrow> str \<Rightarrow> bool" where
  "executor_supports_thread_list m x k =
     (case executor_of m x k of
        None \<Rightarrow> False
      | Some e \<Rightarrow> xe_supports_thread_list e \<and> xe_availability_reason e = None)"

definition connection_view_of :: "node_conn \<Rightarrow> connection_view" where
  "connection_view_of c =
     (let keys = sort (dict_keys (nc_executors c))
      in \<lparr>cv_connected = True, cv_executors = keys,
          cv_executor_capabilities = map (\<lambda>x. the (map_of (nc_executors c) x)) keys\<rparr>)"

definition connection_views :: "node_manager \<Rightarrow> (str, connection_view) dict" where
  "connection_views m = map (\<lambda>(k, c). (k, connection_view_of c)) (nm_connections m)"

definition codex_skills_for_node :: "node_manager \<Rightarrow> str option \<Rightarrow> executor_skill list" where
  "codex_skills_for_node m node =
     (if \<not> str_truthy node then []
      else (case map_of (connection_views m) (the node) of
              None \<Rightarrow> []
            | Some v \<Rightarrow>
                (case find (\<lambda>e. xe_executor_type e = ''codex'') (cv_executor_capabilities v) of
                   None \<Rightarrow> []
                 | Some e \<Rightarrow> xe_skills e)))"

record availability =
  av_connected :: bool
  av_node_id :: "str option"
  av_reason :: "str option"

definition executor_availability :: "node_manager \<Rightarrow> str \<Rightarrow> str option \<Rightarrow> availability" where
  "executor_availability m x node =
     (if \<not> is_detached_executor m x then \<lparr>av_connected = True, av_node_id = None, av_reason = None\<rparr>
      else
        (case node of
           None \<Rightarrow>
             if nm_connections m = [] then
               \<lparr>av_connected = False, av_node_id = None, av_reason = Some ''node_disconnected''\<rparr>
             else if is_executor_connected m x None then
               \<lparr>av_connected = True,
                av_node_id = map_option nc_node_id (find (has_executor x) (dict_values (nm_connections m))),
                av_reason = None\<rparr>
             else
               \<lparr>av_connected = False, av_node_id = manager_node_id m,
                av_reason = Some ''node_missing_executor''\<rparr>
         | Some k \<Rightarrow>
             (case connection_for_node m k of
                None \<Rightarrow> \<lparr>av_connected = False, av_node_id = node, av_reason = Some ''node_disconnected''\<rparr>
              | Some c \<Rightarrow>
                  if has_executor x c then \<lparr>av_connected = True, av_node_id = node, av_reason = None\<rparr>
                  else \<lparr>av_connected = False, av_node_id = node,
                        av_reason = Some ''node_missing_executor''\<rparr>)))"

definition node_id_for_websocket :: "node_manager \<Rightarrow> nat \<Rightarrow> str option" where
  "node_id_for_websocket m ws =
     map_option fst (find (\<lambda>(k, c). nc_websocket c = ws) (nm_connections m))"

section \<open>Connecting and disconnecting\<close>

definition queue_put :: "nat \<Rightarrow> run_envelope \<Rightarrow> node_manager \<Rightarrow> node_manager" where
  "queue_put q e m = m\<lparr>nm_queues := dd_append q e (nm_queues m)\<rparr>"

definition waiting_envelope :: "str \<Rightarrow> str \<Rightarrow> str \<Rightarrow> str option \<Rightarrow> str option \<Rightarrow> run_envelope" where
  "waiting_envelope run_id session_id message node reason =
     \<lparr>env_event =
        \<lparr>ev_run_id = run_id, ev_session_id = session_id, ev_event_type = EV_WAITING_EXECUTOR,
         ev_message = Some message,
         ev_metadata = [(''executor_node_id'', json_of_str node), (''availability_reason'', json_of_str reason)]\<rparr>,
      env_latest_resume_handle = None\<rparr>"

definition reconnect_message :: "str \<Rightarrow> str" where
  "reconnect_message k =
     ''Waiting for executor node '' @ [char_of (39::nat)] @ k @ [char_of (39::nat)] @ '' to reconnect.''"

definition finish_run :: "str \<Rightarrow> node_manager \<Rightarrow> node_manager" where
  "finish_run r m =
     m\<lparr>nm_run_queues := dict_pop r (nm_run_queues m), nm_run_states := dict_pop r (nm_run_states m)\<rparr>"

text \<open>One turn of the loop over the runs, for a run with its dispatch state.\<close>

definition drain_run :: "str \<Rightarrow> str \<Rightarrow> str \<times> run_dispatch_state \<Rightarrow> node_manager \<Rightarrow> node_manager" where
  "drain_run k reason p m =
     (if ds_node_id (snd p) \<noteq> Some k then m
      else (case map_of (nm_run_queues m) (fst p) of
              None \<Rightarrow> m
            | Some q \<Rightarrow>
                finish_run (fst p)
                  (queue_put q
                    (waiting_envelope (fst p) (ds_execution_session_id (snd p)) (reconnect_message k)
                      (Some k) (Some reason)) m)))"

definition handle_node_disconnected :: "str \<Rightarrow> str \<Rightarrow> str \<Rightarrow> node_manager \<Rightarrow> node_manager" where
  "handle_node_disconnected now k reason m =
     fold (drain_run k reason) (nm_run_states m)
       (m\<lparr>nm_registry := note_seen now k (nm_registry m)\<rparr>)"

definition drop_connection :: "str \<Rightarrow> node_manager \<Rightarrow> node_manager" where
  "drop_connection k m = m\<lparr>nm_connections := dict_pop k (nm_connections m)\<rparr>"

definition disconnect :: "str \<Rightarrow> nat \<Rightarrow> str \<Rightarrow> node_manager \<Rightarrow> node_manager" where
  "disconnect now ws reason m =
     (case node_id_for_websocket m ws of
        None \<Rightarrow> m
      | Some k \<Rightarrow> handle_node_disconnected now k reason (drop_connection k m))"

definition ack_of :: "str \<Rightarrow> bool \<Rightarrow> str option \<Rightarrow> str \<Rightarrow> ack" where
  "ack_of message_type ok run_id detail =
     \<lparr>ack_message_type = message_type, ack_ok = ok, ack_run_id = run_id, ack_detail = Some detail\<rparr>"

definition register_connection ::
    "(str \<Rightarrow> str) \<Rightarrow> str \<Rightarrow> str \<Rightarrow> nat \<Rightarrow> register_message \<Rightarrow> node_manager \<Rightarrow> ack result \<times> node_manager" where
  "register_connection hash now now' ws msg m =
     (let k = rm_node_id msg in
      case verify_credentials hash (nm_registry m) k (rm_token msg) of
        None \<Rightarrow> (Inl (ExecutorNodeAuthError ''Invalid executor node credentials.''), m)
      | Some r \<Rightarrow>
          (let displaced = (case node_id_for_websocket m ws of
                None \<Rightarrow> None
              | Some old \<Rightarrow> (if old \<noteq> k then Some old else None));
               m1 = (case displaced of None \<Rightarrow> m | Some old \<Rightarrow> drop_connection old m)
           in if (case connection_for_node m1 k of None \<Rightarrow> False | Some c \<Rightarrow> nc_websocket c \<noteq> ws)
              then (Inl (ExecutorNodeAuthError
                     (''Executor node '' @ [char_of (39::nat)] @ k @ [char_of (39::nat)] @
                      '' is already connected.'')), m1)
              else
                (let c = \<lparr>nc_websocket = ws, nc_node_id = k, nc_connected_at = now,
                          nc_metadata = rm_metadata msg,
                          nc_executors = fold (\<lambda>e d. dict_put (xe_executor_type e) e d) (rm_executors msg) []\<rparr>;
                     m2 = m1\<lparr>nm_connections := dict_put k c (nm_connections m1)\<rparr>;
                     m3 = (case displaced of
                             None \<Rightarrow> m2
                           | Some old \<Rightarrow> handle_node_disconnected now' old ''re_registered'' m2)
                 in (Inr (ack_of ''register_node'' True None ''registered''),
                     m3\<lparr>nm_registry := note_connected now' k (nm_registry m3)\<rparr>))))"

section \<open>Sending\<close>

text \<open>\<open>_send_json\<close>: \<open>ok\<close> is whether the socket took the message.\<close>

definition record_sent :: "node_conn \<Rightarrow> node_command \<Rightarrow> node_manager \<Rightarrow> node_manager" where
  "record_sent c cmd m = m\<lparr>nm_sent := nm_sent m @ [(nc_websocket c, cmd)]\<rparr>"

text \<open>The commands that drop the connection when the socket raises.\<close>

definition send_or_drop ::
    "str \<Rightarrow> bool \<Rightarrow> str \<Rightarrow> node_conn \<Rightarrow> node_command \<Rightarrow> node_manager \<Rightarrow> bool \<times> node_manager" where
  "send_or_drop now ok reason c cmd m =
     (if ok then (True, record_sent c cmd m)
      else (False, disconnect now (nc_websocket c) reason m))"

definition new_run_queue :: "dispatch_run_command \<Rightarrow> str option \<Rightarrow> node_manager \<Rightarrow> nat \<times> node_manager" where
  "new_run_queue cmd node m =
     (nm_next m,
      m\<lparr>nm_queues := dict_put (nm_next m) [] (nm_queues m),
        nm_run_queues := dict_put (dr_run_id cmd) (nm_next m) (nm_run_queues m),
        nm_run_states := dict_put (dr_run_id cmd)
          \<lparr>ds_run_id = dr_run_id cmd, ds_execution_session_id = dr_execution_session_id cmd,
           ds_executor_type = dr_executor_type cmd, ds_node_id = node\<rparr> (nm_run_states m),
        nm_next := Suc (nm_next m)\<rparr>)"

definition dispatch_run ::
    "str \<Rightarrow> bool \<Rightarrow> dispatch_run_command \<Rightarrow> str option \<Rightarrow> node_manager \<Rightarrow> nat \<times> node_manager" where
  "dispatch_run now ok cmd node m =
     (let (q, m1) = new_run_queue cmd node m;
          wait = (\<lambda>message reason.
            waiting_envelope (dr_run_id cmd) (dr_execution_session_id cmd) message node reason)
      in case node of
           None \<Rightarrow>
             (q, queue_put q (wait ''Waiting for this bro to be bound to an executor node.''
                   (Some ''bro_unbound'')) m1)
         | Some k \<Rightarrow>
             if \<not> is_executor_connected m1 (dr_executor_type cmd) (Some k) then
               (q, queue_put q (wait (''Waiting for '' @ k @ '' to connect.'')
                     (av_reason (executor_availability m1 (dr_executor_type cmd) (Some k)))) m1)
             else
               (case connection_for_node m1 k of
                  None \<Rightarrow>
                    (q, queue_put q (wait (''Waiting for '' @ k @ '' to connect.'')
                          (Some ''node_disconnected'')) m1)
                | Some c \<Rightarrow> (q, snd (send_or_drop now ok ''dispatch_failed'' c (DispatchRun cmd) m1))))"

definition cancel_run :: "str \<Rightarrow> bool \<Rightarrow> str \<Rightarrow> str \<Rightarrow> node_manager \<Rightarrow> node_manager" where
  "cancel_run now ok r mode m =
     (case map_of (nm_run_states m) r of
        None \<Rightarrow> m
      | Some st \<Rightarrow>
          (case ds_node_id st of
             None \<Rightarrow> m
           | Some k \<Rightarrow>
               (case connection_for_node m k of
                  None \<Rightarrow> m
                | Some c \<Rightarrow>
                    snd (send_or_drop now ok ''cancel_failed'' c
                      (CancelRun r (ds_execution_session_id st)
                        (if mode = ''pause'' then ''pause'' else ''cancel'')) m))))"

definition dispatch_audio_instruction ::
    "str \<Rightarrow> bool \<Rightarrow> str \<Rightarrow> str \<Rightarrow> str \<Rightarrow> str \<Rightarrow> str \<Rightarrow> audio_instruction \<Rightarrow> node_manager \<Rightarrow>
     bool \<times> node_manager" where
  "dispatch_audio_instruction now ok run_id session_id x task_id k audio m =
     (case connection_for_node m k of
        None \<Rightarrow> (False, m)
      | Some c \<Rightarrow>
          (case map_of (nc_executors c) x of
             None \<Rightarrow> (False, m)
           | Some e \<Rightarrow>
               if \<not> xe_supports_audio_instruction e then (False, m)
               else send_or_drop now ok ''audio_instruction_failed'' c
                      (DispatchAudio run_id session_id x task_id audio) m))"

definition dispatch_text_instruction ::
    "str \<Rightarrow> bool \<Rightarrow> str \<Rightarrow> str \<Rightarrow> str \<Rightarrow> str \<Rightarrow> str \<Rightarrow> text_instruction \<Rightarrow> node_manager \<Rightarrow>
     bool \<times> node_manager" where
  "dispatch_text_instruction now ok run_id session_id x task_id k instruction m =
     (case connection_for_node m k of
        None \<Rightarrow> (False, m)
      | Some c \<Rightarrow>
          (case map_of (nc_executors c) x of
             None \<Rightarrow> (False, m)
           | Some e \<Rightarrow>
               if \<not> xe_supports_follow_up e then (False, m)
               else send_or_drop now ok ''text_instruction_failed'' c
                      (DispatchText run_id session_id x task_id instruction) m))"

text \<open>\<open>StartCodexTurnCommand.validate_thread_intent\<close>.\<close>

definition validate_thread_intent :: "start_codex_turn_command \<Rightarrow> unit result" where
  "validate_thread_intent cmd =
     (let has_thread_id = st_thread_id cmd \<noteq> None;
          has_resume_handle = st_latest_resume_handle cmd \<noteq> None
      in if (case st_thread_id cmd of None \<Rightarrow> False | Some t \<Rightarrow> py_strip t = [])
         then Inl (ValueError ''start_codex_turn thread_id cannot be empty.'')
         else if st_create_new_thread cmd then
           (if has_thread_id \<or> has_resume_handle
            then Inl (ValueError ''start_codex_turn create_new_thread cannot include existing thread intent.'')
            else Inr ())
         else if has_thread_id = has_resume_handle
         then Inl (ValueError ''start_codex_turn requires exactly one existing thread intent.'')
         else Inr ())"

definition has_codex :: "node_manager \<Rightarrow> str \<Rightarrow> node_conn option" where
  "has_codex m k =
     (case connection_for_node m k of
        None \<Rightarrow> None
      | Some c \<Rightarrow> (if has_executor ''codex'' c then Some c else None))"

definition start_codex_turn ::
    "str \<Rightarrow> bool \<Rightarrow> str \<Rightarrow> start_codex_turn_command \<Rightarrow> node_manager \<Rightarrow> bool result \<times> node_manager" where
  "start_codex_turn now ok k cmd m =
     (case has_codex m k of
        None \<Rightarrow> (Inr False, m)
      | Some c \<Rightarrow>
          (case validate_thread_intent cmd of
             Inl e \<Rightarrow> (Inl e, m)
           | Inr u \<Rightarrow>
               (let (sent, m') = send_or_drop now ok ''codex_turn_start_failed'' c (StartCodexTurn cmd) m
                in (Inr sent, m'))))"

text \<open>The run a reply to an interaction request belongs to: by run, else by execution session.\<close>

definition state_for_request :: "node_manager \<Rightarrow> interaction_request \<Rightarrow> run_dispatch_state option" where
  "state_for_request m q =
     (let by_run = (case i_run_id q of None \<Rightarrow> None | Some r \<Rightarrow> map_of (nm_run_states m) r)
      in case by_run of
           Some st \<Rightarrow> Some st
         | None \<Rightarrow>
             (case i_execution_session_id q of
                None \<Rightarrow> None
              | Some x \<Rightarrow> find (\<lambda>st. ds_execution_session_id st = x) (dict_values (nm_run_states m))))"

definition supply_actions :: "str list" where
  "supply_actions = [''approve'', ''deny'', ''answer'', ''confirm'', ''cancel'']"

definition supply_interaction_response ::
    "str \<Rightarrow> bool \<Rightarrow> interaction_request \<Rightarrow> str \<Rightarrow> str option \<Rightarrow> (str, str list) dict option \<Rightarrow>
     str option \<Rightarrow> node_manager \<Rightarrow> bool result \<times> node_manager" where
  "supply_interaction_response now ok q action answer_text answers node m =
     (case jget (i_opaque q) ''native_response'' of
        JObj native \<Rightarrow>
          (case (case state_for_request m q of
                   Some st \<Rightarrow> ds_node_id st
                 | None \<Rightarrow> str_or (i_executor_node_id q) node) of
             None \<Rightarrow> (Inr False, m)
           | Some k \<Rightarrow>
               (case connection_for_node m k of
                  None \<Rightarrow> (Inr False, m)
                | Some c \<Rightarrow>
                    if action \<notin> set supply_actions
                    then (Inl (ValueError ''SupplyInteractionResponseCommand.action''), m)
                    else
                      (let (sent, m') = send_or_drop now ok ''interaction_response_failed'' c
                             (SupplyInteractionResponse
                               \<lparr>sr_interaction_request_id = i_request_id q,
                                sr_execution_session_id = i_execution_session_id q,
                                sr_run_id = i_run_id q,
                                sr_outbound_turn_request_id = i_outbound_turn_request_id q,
                                sr_action = action, sr_answer_text = answer_text, sr_answers = answers,
                                sr_native_response = native\<rparr>) m
                       in (Inr sent, m'))))
      | _ \<Rightarrow> (Inr False, m))"

section \<open>What nodes send\<close>

definition publish_run_event :: "str \<Rightarrow> nat \<Rightarrow> run_event_message \<Rightarrow> node_manager \<Rightarrow> ack \<times> node_manager" where
  "publish_run_event now ws msg m =
     (let node = node_id_for_websocket m ws;
          r = re_run_id msg
      in case map_of (nm_run_queues m) r of
           None \<Rightarrow> (ack_of ''run_event'' False (Some r) ''unknown_run'', m)
         | Some q \<Rightarrow>
             (case map_of (nm_run_states m) r of
                None \<Rightarrow> (ack_of ''run_event'' False (Some r) ''unknown_run'', m)
              | Some st \<Rightarrow>
                  if ds_node_id st \<noteq> node
                  then (ack_of ''run_event'' False (Some r) ''unauthorized_run'', m)
                  else
                    (ack_of ''run_event'' True (Some r) ''queued'',
                     queue_put q
                       \<lparr>env_event =
                          \<lparr>ev_run_id = r, ev_session_id = re_session_id msg,
                           ev_event_type = re_event_type msg, ev_message = re_message msg,
                           ev_metadata = re_metadata msg\<rparr>,
                        env_latest_resume_handle = re_latest_resume_handle msg\<rparr>
                       (case node of
                          None \<Rightarrow> m
                        | Some k \<Rightarrow> m\<lparr>nm_registry := note_seen now k (nm_registry m)\<rparr>))))"

definition publish_codex_thread_event :: "str \<Rightarrow> nat \<Rightarrow> thread_event \<Rightarrow> node_manager \<Rightarrow> ack \<times> node_manager" where
  "publish_codex_thread_event now ws msg m =
     (if node_id_for_websocket m ws \<noteq> Some (te_node_id msg)
      then (ack_of ''codex_thread_event'' False None ''unauthorized_node'', m)
      else
        (ack_of ''codex_thread_event'' True None ''queued'',
         m\<lparr>nm_thread_events := nm_thread_events m @ [msg],
           nm_registry := note_seen now (te_node_id msg) (nm_registry m)\<rparr>))"

definition publish_codex_turn_event :: "str \<Rightarrow> nat \<Rightarrow> str \<Rightarrow> node_manager \<Rightarrow> ack \<times> node_manager" where
  "publish_codex_turn_event now ws k m =
     (if node_id_for_websocket m ws \<noteq> Some k
      then (ack_of ''codex_turn_event'' False None ''unauthorized_node'', m)
      else
        (ack_of ''codex_turn_event'' True None ''queued'',
         m\<lparr>nm_registry := note_seen now k (nm_registry m)\<rparr>))"

section \<open>Requests a node answers\<close>

text \<open>
  \<open>transcribe_audio_instruction\<close>, \<open>request_codex_threads\<close>, \<open>request_codex_thread_turns\<close>,
  \<open>request_codex_thread\<close>, \<open>subscribe_codex_thread\<close> and \<open>unsubscribe_codex_thread\<close> register a
  future under a fresh request id, send, and wait; whatever raises takes the entry out again.
\<close>

definition open_request_future ::
    "bool \<Rightarrow> request_kind \<Rightarrow> str \<Rightarrow> node_conn \<Rightarrow> node_command \<Rightarrow> node_manager \<Rightarrow>
     nat option \<times> node_manager" where
  "open_request_future ok kind rid c cmd m =
     (let f = nm_next m;
          m1 = m\<lparr>nm_futures := dict_put f FPending (nm_futures m),
                 nm_requests := dict_put (kind, rid) f (nm_requests m),
                 nm_next := Suc f\<rparr>
      in if ok then (Some f, record_sent c cmd m1)
         else (None, m1\<lparr>nm_requests := dict_pop (kind, rid) (nm_requests m1)\<rparr>))"

text \<open>What starting a request leads to: an error at once, the empty answer of a node that cannot be
  asked, or a future to wait for. A send that raises hands its exception on.\<close>

datatype started = StartedFuture nat | StartedNothing | StartedError py_error

definition begin_request ::
    "bool \<Rightarrow> request_kind \<Rightarrow> str \<Rightarrow> node_conn \<Rightarrow> node_command \<Rightarrow> node_manager \<Rightarrow>
     started \<times> node_manager" where
  "begin_request ok kind rid c cmd m =
     (case open_request_future ok kind rid c cmd m of
        (Some f, m') \<Rightarrow> (StartedFuture f, m')
      | (None, m') \<Rightarrow> (StartedError (RuntimeError ''send_json''), m'))"

definition no_codex_node :: py_error where
  "no_codex_node = RuntimeError ''Codex executor node is not connected.''"

definition begin_transcribe_audio ::
    "bool \<Rightarrow> str \<Rightarrow> str \<Rightarrow> str \<Rightarrow> audio_instruction \<Rightarrow> node_manager \<Rightarrow> started \<times> node_manager" where
  "begin_transcribe_audio ok rid x k audio m =
     (case connection_for_node m k of
        None \<Rightarrow> (StartedError no_codex_node, m)
      | Some c \<Rightarrow>
          if (case map_of (nc_executors c) x of None \<Rightarrow> True | Some e \<Rightarrow> \<not> xe_supports_audio_instruction e)
          then (StartedError (RuntimeError
                 (''Selected Bro'' @ [char_of (39::nat)] @
                  ''s executor node does not support audio transcription instructions.'')), m)
          else begin_request ok RK_AUDIO rid c (TranscribeAudio rid x audio) m)"

definition begin_list_threads ::
    "bool \<Rightarrow> str \<Rightarrow> str \<Rightarrow> str option \<Rightarrow> int \<Rightarrow> str option \<Rightarrow> str \<Rightarrow> str \<Rightarrow> node_manager \<Rightarrow>
     started \<times> node_manager" where
  "begin_list_threads ok rid k workspace limit cursor sort_by direction m =
     (case has_codex m k of
        None \<Rightarrow> (StartedNothing, m)
      | Some c \<Rightarrow>
          if (case map_of (nc_executors c) ''codex'' of None \<Rightarrow> True | Some e \<Rightarrow> \<not> xe_supports_thread_list e)
          then (StartedNothing, m)
          else begin_request ok RK_THREAD_LIST rid c
                 (ListCodexThreads rid workspace limit cursor sort_by direction) m)"

definition begin_list_turns ::
    "bool \<Rightarrow> str \<Rightarrow> str \<Rightarrow> str \<Rightarrow> int \<Rightarrow> str option \<Rightarrow> node_manager \<Rightarrow> started \<times> node_manager" where
  "begin_list_turns ok rid k thread_id limit cursor m =
     (case has_codex m k of
        None \<Rightarrow> (StartedError no_codex_node, m)
      | Some c \<Rightarrow> begin_request ok RK_TURN_LIST rid c (ListCodexThreadTurns rid thread_id limit cursor) m)"

definition begin_read_thread ::
    "bool \<Rightarrow> str \<Rightarrow> str \<Rightarrow> str \<Rightarrow> node_manager \<Rightarrow> started \<times> node_manager" where
  "begin_read_thread ok rid k thread_id m =
     (case has_codex m k of
        None \<Rightarrow> (StartedError no_codex_node, m)
      | Some c \<Rightarrow> begin_request ok RK_THREAD_READ rid c (ReadCodexThread rid thread_id) m)"

definition begin_subscribe ::
    "bool \<Rightarrow> str \<Rightarrow> str \<Rightarrow> thread_subscription \<Rightarrow> node_manager \<Rightarrow> started \<times> node_manager" where
  "begin_subscribe ok rid k sub m =
     (case has_codex m k of
        None \<Rightarrow> (StartedError no_codex_node, m)
      | Some c \<Rightarrow> begin_request ok RK_SUBSCRIBE rid c (SubscribeCodexThread rid sub) m)"

definition begin_unsubscribe ::
    "bool \<Rightarrow> str \<Rightarrow> str \<Rightarrow> str \<Rightarrow> str \<Rightarrow> node_manager \<Rightarrow> started \<times> node_manager" where
  "begin_unsubscribe ok rid k subscription_id thread_id m =
     (case has_codex m k of
        None \<Rightarrow> (StartedNothing, m)
      | Some c \<Rightarrow>
          begin_request ok RK_UNSUBSCRIBE rid c (UnsubscribeCodexThread rid subscription_id thread_id) m)"

fun timeout_message :: "request_kind \<Rightarrow> str" where
  "timeout_message RK_AUDIO = []"
| "timeout_message RK_THREAD_LIST = ''Timed out listing Codex threads.''"
| "timeout_message RK_TURN_LIST = ''Timed out listing Codex thread turns.''"
| "timeout_message RK_THREAD_READ = ''Timed out reading Codex thread history.''"
| "timeout_message RK_SUBSCRIBE = ''Timed out subscribing to Codex thread updates.''"
| "timeout_message RK_UNSUBSCRIBE = ''Timed out unsubscribing from Codex thread updates.''"

fun failure_message :: "request_kind \<Rightarrow> str" where
  "failure_message RK_AUDIO = ''Audio transcription failed.''"
| "failure_message RK_THREAD_LIST = ''Codex thread/list failed.''"
| "failure_message RK_TURN_LIST = ''Codex thread/turns/list failed.''"
| "failure_message RK_THREAD_READ = ''Codex thread/read failed.''"
| "failure_message RK_SUBSCRIBE = ''Codex thread subscription failed.''"
| "failure_message RK_UNSUBSCRIBE = ''Codex thread unsubscribe failed.''"

text \<open>The wait is over: the reply came, or the time is up. \<open>wait_for\<close> cancels the future it gives up on.\<close>

definition set_future :: "nat \<Rightarrow> future \<Rightarrow> node_manager \<Rightarrow> node_manager" where
  "set_future f v m = m\<lparr>nm_futures := dict_put f v (nm_futures m)\<rparr>"

definition pop_request :: "request_kind \<Rightarrow> str \<Rightarrow> node_manager \<Rightarrow> node_manager" where
  "pop_request kind rid m = m\<lparr>nm_requests := dict_pop (kind, rid) (nm_requests m)\<rparr>"

definition finish_request ::
    "request_kind \<Rightarrow> str \<Rightarrow> nat \<Rightarrow> node_manager \<Rightarrow> node_reply result \<times> node_manager" where
  "finish_request kind rid f m =
     (case map_of (nm_futures m) f of
        Some (FDone reply) \<Rightarrow>
          if rp_ok reply then (Inr reply, m)
          else (Inl (RuntimeError (str_or_else (rp_error reply) (failure_message kind))), m)
      | _ \<Rightarrow> (Inl (TimeoutError (timeout_message kind)), pop_request kind rid (set_future f FCancelled m)))"

text \<open>The waiting caller is cancelled. Only the two subscription requests catch that and take their
  entry out; for the others \<open>except Exception\<close> does not apply to \<open>CancelledError\<close>.\<close>

definition abandon_request :: "request_kind \<Rightarrow> str \<Rightarrow> nat \<Rightarrow> node_manager \<Rightarrow> node_manager" where
  "abandon_request kind rid f m =
     (let m1 = (case map_of (nm_futures m) f of Some (FDone reply) \<Rightarrow> m | _ \<Rightarrow> set_future f FCancelled m)
      in if kind = RK_SUBSCRIBE \<or> kind = RK_UNSUBSCRIBE then pop_request kind rid m1 else m1)"

text \<open>The six \<open>publish_\<close> functions of the replies.\<close>

definition publish_reply :: "request_kind \<Rightarrow> node_reply \<Rightarrow> node_manager \<Rightarrow> ack \<times> node_manager" where
  "publish_reply kind msg m =
     (case map_of (nm_requests m) (kind, rp_request_id msg) of
        None \<Rightarrow> (ack_of (reply_type kind) False None ''unknown_request'', m)
      | Some f \<Rightarrow>
          (let m1 = pop_request kind (rp_request_id msg) m
           in (ack_of (reply_type kind) True None ''queued'',
               (if map_of (nm_futures m1) f = Some FPending then set_future f (FDone msg) m1 else m1))))"

section \<open>Workspace files\<close>

definition begin_read_file ::
    "bool \<Rightarrow> str \<Rightarrow> str \<Rightarrow> str \<Rightarrow> str option \<Rightarrow> str \<Rightarrow> node_manager \<Rightarrow> unit result \<times> node_manager" where
  "begin_read_file ok rid k thread_id executor_thread path m =
     (case connection_for_node m k of
        None \<Rightarrow> (Inl (WorkspaceFileUnavailable ''node_offline'' ''executor node not connected''), m)
      | Some c \<Rightarrow>
          if ok then
            (Inr (), record_sent c (ReadWorkspaceFile rid thread_id executor_thread path)
                       (m\<lparr>nm_file_streams := dict_put rid [] (nm_file_streams m)\<rparr>))
          else (Inl (RuntimeError ''send_json''), m\<lparr>nm_file_streams := dict_pop rid (nm_file_streams m)\<rparr>))"

text \<open>One resumption of the generator: it yields the data of a chunk (the base64 text, which the
  code decodes), ends, or raises. An empty queue means that nothing came in time.\<close>

definition read_file_next :: "str \<Rightarrow> node_manager \<Rightarrow> str option result \<times> node_manager" where
  "read_file_next rid m =
     (let closed = m\<lparr>nm_file_streams := dict_pop rid (nm_file_streams m)\<rparr>
      in case dd_get (nm_file_streams m) rid of
           [] \<Rightarrow> (Inl (WorkspaceFileUnavailable ''node_offline'' ''timed out''), closed)
         | FileChunk n d # rest \<Rightarrow>
             (Inr (Some d), m\<lparr>nm_file_streams := dict_put rid rest (nm_file_streams m)\<rparr>)
         | FileEof n h # rest \<Rightarrow> (Inr None, closed)
         | FileError c t # rest \<Rightarrow> (Inl (WorkspaceFileDenied c t), closed))"

text \<open>The reader leaves the generator early.\<close>

definition close_read_file :: "str \<Rightarrow> node_manager \<Rightarrow> node_manager" where
  "close_read_file rid m = m\<lparr>nm_file_streams := dict_pop rid (nm_file_streams m)\<rparr>"

definition publish_workspace_file :: "str \<Rightarrow> file_message \<Rightarrow> node_manager \<Rightarrow> ack \<times> node_manager" where
  "publish_workspace_file rid msg m =
     (case map_of (nm_file_streams m) rid of
        None \<Rightarrow> (ack_of (file_message_type msg) False None ''unknown_request'', m)
      | Some q \<Rightarrow>
          (ack_of (file_message_type msg) True None ''ok'',
           m\<lparr>nm_file_streams := dict_put rid (q @ [msg]) (nm_file_streams m)\<rparr>))"

section \<open>The nodes\<close>

definition list_nodes :: "node_manager \<Rightarrow> executor_node_record list" where
  "list_nodes m = registry_list_records (connection_views m) (nm_registry m)"

definition node_exists :: "node_manager \<Rightarrow> str \<Rightarrow> bool" where
  "node_exists m k = has_node (nm_registry m) k"

definition manager_create_node ::
    "(str \<Rightarrow> str) \<Rightarrow> str \<Rightarrow> str \<Rightarrow> str \<Rightarrow> str list \<Rightarrow> str option \<Rightarrow> node_manager \<Rightarrow>
     credential_issue result \<times> node_manager" where
  "manager_create_node hash uid token name es acpx m =
     (let (x, g) = create_node hash uid token name es acpx (nm_registry m) in (x, m\<lparr>nm_registry := g\<rparr>))"

definition manager_update_node ::
    "str \<Rightarrow> str option \<Rightarrow> str list option \<Rightarrow> str option \<Rightarrow> node_manager \<Rightarrow>
     executor_node_record result \<times> node_manager" where
  "manager_update_node k name es acpx m =
     (let (x, g) = update_node k name es acpx (map_of (connection_views m) k) (nm_registry m)
      in (x, m\<lparr>nm_registry := g\<rparr>))"

text \<open>An open connection of a node whose credentials changed is closed and dropped.\<close>

definition close_connection :: "str \<Rightarrow> str \<Rightarrow> str \<Rightarrow> node_manager \<Rightarrow> node_manager" where
  "close_connection now k reason m =
     (case connection_for_node m k of
        None \<Rightarrow> m
      | Some c \<Rightarrow> disconnect now (nc_websocket c) reason m)"

definition rotate_node_credentials ::
    "(str \<Rightarrow> str) \<Rightarrow> str \<Rightarrow> str \<Rightarrow> str \<Rightarrow> node_manager \<Rightarrow> credential_issue result \<times> node_manager" where
  "rotate_node_credentials hash now token k m =
     (case rotate_credentials hash token k (map_of (connection_views m) k) (nm_registry m) of
        (Inl e, g) \<Rightarrow> (Inl e, m)
      | (Inr x, g) \<Rightarrow> (Inr x, close_connection now k ''credentials_rotated'' (m\<lparr>nm_registry := g\<rparr>)))"

definition reveal_node_credentials :: "node_manager \<Rightarrow> str \<Rightarrow> credential_issue result" where
  "reveal_node_credentials m k = reveal_token (nm_registry m) k"

definition manager_delete_node :: "str \<Rightarrow> str \<Rightarrow> node_manager \<Rightarrow> bool \<times> node_manager" where
  "manager_delete_node now k m =
     (let m1 = close_connection now k ''credentials_revoked'' m;
          (removed, g) = delete_record k (nm_registry m1)
      in (removed, m1\<lparr>nm_registry := g\<rparr>))"

end
