(* ===== verification/NodeManager_Props.thy ===== *)
theory NodeManager_Props
  imports NodeManager
begin

text \<open>
  The properties of the executor node manager, over every sequence of its operations
  (\<open>node_step\<close>): who may be connected, where the events of a run go, what losing a node does to
  its runs, what a dispatch leads to on every branch, and that a reply reaches the request it
  answers, once.
\<close>

section \<open>The steps of the manager\<close>

inductive node_step :: "(str \<Rightarrow> str) \<Rightarrow> node_manager \<Rightarrow> node_manager \<Rightarrow> bool" for hash :: "str \<Rightarrow> str" where
  "node_step hash m (snd (register_connection hash now now' ws msg m))"
| "node_step hash m (disconnect now ws reason m)"
| "node_step hash m (snd (dispatch_run now ok cmd node m))"
| "node_step hash m (cancel_run now ok r mode m)"
| "node_step hash m (finish_run r m)"
| "node_step hash m (snd (dispatch_audio_instruction now ok r x e t k audio m))"
| "node_step hash m (snd (dispatch_text_instruction now ok r x e t k text m))"
| "node_step hash m (snd (start_codex_turn now ok k turn m))"
| "node_step hash m (snd (supply_interaction_response now ok q action answer answers node m))"
| "node_step hash m (snd (publish_run_event now ws ev m))"
| "node_step hash m (snd (publish_codex_thread_event now ws te m))"
| "node_step hash m (snd (publish_codex_turn_event now ws k m))"
| "connection_for_node m k = Some c \<Longrightarrow> node_step hash m (snd (begin_request ok kind rid c command m))"
| "f \<in> set (dict_keys (nm_futures m)) \<Longrightarrow> node_step hash m (snd (finish_request kind rid f m))"
| "f \<in> set (dict_keys (nm_futures m)) \<Longrightarrow> node_step hash m (abandon_request kind rid f m)"
| "node_step hash m (snd (publish_reply kind reply m))"
| "node_step hash m (snd (begin_read_file ok rid k thread_id xid path m))"
| "node_step hash m (snd (read_file_next rid m))"
| "node_step hash m (close_read_file rid m)"
| "node_step hash m (snd (publish_workspace_file rid file m))"
| "node_step hash m (snd (manager_create_node hash uid token name es acpx m))"
| "node_step hash m (snd (manager_update_node k name' es' acpx m))"
| "node_step hash m (snd (rotate_node_credentials hash now token k m))"
| "node_step hash m (snd (manager_delete_node now k m))"

definition node_reachable :: "(str \<Rightarrow> str) \<Rightarrow> node_manager \<Rightarrow> bool" where
  "node_reachable hash m \<longleftrightarrow>
     (\<exists>detached g. (node_step hash)\<^sup>*\<^sup>* (node_manager_init detached g) m)"

section \<open>What an operation leaves alone\<close>

definition same_connections :: "node_manager \<Rightarrow> node_manager \<Rightarrow> bool" where
  "same_connections m m' \<longleftrightarrow>
     nm_connections m' = nm_connections m \<and>
     set (dict_keys (rg_records (nm_registry m))) \<subseteq> set (dict_keys (rg_records (nm_registry m')))"

named_theorems node_frame

lemma registry_keys [node_frame]:
  "set (dict_keys (rg_records (note_seen now k g))) = set (dict_keys (rg_records g))"
  "set (dict_keys (rg_records (note_connected now k g))) = set (dict_keys (rg_records g))"
  "set (dict_keys (rg_records g)) \<subseteq> set (dict_keys (rg_records (snd (create_node hash uid token name es acpx g))))"
  "set (dict_keys (rg_records (snd (update_node k name' es' acpx conn g)))) = set (dict_keys (rg_records g))"
  "set (dict_keys (rg_records (snd (rotate_credentials hash token k conn g)))) = set (dict_keys (rg_records g))"
  by (auto simp: note_seen_def note_connected_def create_node_def update_node_def rotate_credentials_def
      get_record_def set_record_def dict_keys_put in_dict_keys_iff Let_def split: option.splits sum.splits)

lemma drain_frame [node_frame]:
  "nm_connections (drain_run k reason p m) = nm_connections m"
  "nm_registry (drain_run k reason p m) = nm_registry m"
  "nm_requests (drain_run k reason p m) = nm_requests m"
  "nm_futures (drain_run k reason p m) = nm_futures m"
  "nm_sent (drain_run k reason p m) = nm_sent m"
  "nm_file_streams (drain_run k reason p m) = nm_file_streams m"
  "nm_next (drain_run k reason p m) = nm_next m"
  by (simp_all add: drain_run_def finish_run_def queue_put_def split: option.splits)

lemma drain_fold_frame [node_frame]:
  "nm_connections (fold (drain_run k reason) ps m) = nm_connections m"
  "nm_registry (fold (drain_run k reason) ps m) = nm_registry m"
  "nm_requests (fold (drain_run k reason) ps m) = nm_requests m"
  "nm_futures (fold (drain_run k reason) ps m) = nm_futures m"
  "nm_sent (fold (drain_run k reason) ps m) = nm_sent m"
  "nm_file_streams (fold (drain_run k reason) ps m) = nm_file_streams m"
  "nm_next (fold (drain_run k reason) ps m) = nm_next m"
  by (induction ps arbitrary: m) (simp_all add: drain_frame)

lemma disconnected_frame [node_frame]:
  "nm_connections (handle_node_disconnected now k reason m) = nm_connections m"
  "nm_registry (handle_node_disconnected now k reason m) = note_seen now k (nm_registry m)"
  "nm_requests (handle_node_disconnected now k reason m) = nm_requests m"
  "nm_futures (handle_node_disconnected now k reason m) = nm_futures m"
  "nm_sent (handle_node_disconnected now k reason m) = nm_sent m"
  "nm_file_streams (handle_node_disconnected now k reason m) = nm_file_streams m"
  "nm_next (handle_node_disconnected now k reason m) = nm_next m"
  by (simp_all add: handle_node_disconnected_def drain_fold_frame)

lemma disconnect_frame [node_frame]:
  "nm_requests (disconnect now ws reason m) = nm_requests m"
  "nm_futures (disconnect now ws reason m) = nm_futures m"
  "nm_sent (disconnect now ws reason m) = nm_sent m"
  "nm_file_streams (disconnect now ws reason m) = nm_file_streams m"
  "nm_next (disconnect now ws reason m) = nm_next m"
  "nm_connections (disconnect now ws reason m) =
     (case node_id_for_websocket m ws of None \<Rightarrow> nm_connections m | Some k \<Rightarrow> dict_pop k (nm_connections m))"
  "set (dict_keys (rg_records (nm_registry (disconnect now ws reason m)))) =
     set (dict_keys (rg_records (nm_registry m)))"
  by (simp_all add: disconnect_def node_frame drop_connection_def split: option.splits)

section \<open>Connections\<close>

definition conn_inv :: "node_manager \<Rightarrow> bool" where
  "conn_inv m \<longleftrightarrow>
     dict_wf (nm_connections m) \<and> distinct (map (nc_websocket \<circ> snd) (nm_connections m)) \<and>
     list_all (\<lambda>(k, c). nc_node_id c = k \<and> has_node (nm_registry m) k) (nm_connections m)"

lemma conn_inv_same: "same_connections m m' \<Longrightarrow> conn_inv m \<Longrightarrow> conn_inv m'"
  by (auto simp: conn_inv_def same_connections_def list_all_iff has_node_def)

lemma dict_pop_filter: "dict_pop k d = filter (\<lambda>p. fst p \<noteq> k) d"
  by (auto simp: dict_pop_def AList.delete_eq case_prod_unfold intro: filter_cong)

lemma conn_inv_pop:
  assumes "conn_inv m" and "nm_connections m' = dict_pop k (nm_connections m)"
    and "set (dict_keys (rg_records (nm_registry m))) \<subseteq> set (dict_keys (rg_records (nm_registry m')))"
  shows "conn_inv m'"
  using assms
  by (auto simp: conn_inv_def list_all_iff has_node_def dict_pop_filter distinct_map dict_wf_def
      dict_keys_def inj_on_def)

lemma conn_inv_disconnect: "conn_inv m \<Longrightarrow> conn_inv (disconnect now ws reason m)"
  by (cases "node_id_for_websocket m ws")
    (auto simp: node_frame same_connections_def intro: conn_inv_same conn_inv_pop)

lemma conn_inv_send: "conn_inv m \<Longrightarrow> conn_inv (snd (send_or_drop now ok reason c cmd m))"
  by (auto simp: send_or_drop_def conn_inv_disconnect record_sent_def same_connections_def
      intro: conn_inv_same)

lemma websocket_found:
  assumes "conn_inv m" and "connection_for_node m k = Some c"
  shows "node_id_for_websocket m (nc_websocket c) = Some k"
proof -
  have mem: "(k, c) \<in> set (nm_connections m)"
    using assms(2) by (simp add: connection_for_node_def map_of_SomeD)
  have inj: "inj_on (nc_websocket \<circ> snd) (set (nm_connections m))"
    using assms(1) by (simp add: conn_inv_def distinct_map)
  obtain p where p: "find (\<lambda>(k, d). nc_websocket d = nc_websocket c) (nm_connections m) = Some p"
    using mem by (cases "find (\<lambda>(k, d). nc_websocket d = nc_websocket c) (nm_connections m)")
      (auto simp: find_None_iff)
  then have "p \<in> set (nm_connections m)" and "nc_websocket (snd p) = nc_websocket c"
    by (auto simp: find_Some_iff in_set_conv_nth)
  then have "p = (k, c)" using inj_onD [OF inj, of p "(k, c)"] mem by simp
  then show ?thesis using p by (simp add: node_id_for_websocket_def)
qed

lemma websocket_of_found:
  "node_id_for_websocket m ws = Some k \<Longrightarrow> dict_wf (nm_connections m) \<Longrightarrow>
     \<exists>c. connection_for_node m k = Some c \<and> nc_websocket c = ws"
  by (auto simp: node_id_for_websocket_def connection_for_node_def find_Some_iff dict_mem_iff
      dest!: nth_mem)

lemma conn_inv_put:
  assumes inv: "conn_inv m" and k: "nc_node_id c = k" "has_node (nm_registry m) k"
    and m': "nm_connections m' = dict_put k c (nm_connections m)" "nm_registry m' = nm_registry m"
    and free: "\<And>k' d. (k', d) \<in> set (nm_connections m) \<Longrightarrow> k' \<noteq> k \<Longrightarrow> nc_websocket d \<noteq> nc_websocket c"
  shows "conn_inv m'"
proof -
  have wf: "dict_wf (nm_connections m)" using inv by (simp add: conn_inv_def)
  have wf': "dict_wf (nm_connections m')" using wf m' by simp
  have mem: "p \<in> set (nm_connections m') \<longleftrightarrow> p = (k, c) \<or> p \<in> set (nm_connections m) \<and> fst p \<noteq> k" for p
    using wf wf' m' by (cases p) (auto simp: dict_mem_iff)
  have inj: "inj_on (nc_websocket \<circ> snd) (set (nm_connections m))"
    using inv by (simp add: conn_inv_def distinct_map)
  have dist: "distinct (nm_connections m')"
    using wf' by (simp add: dict_wf_def dict_keys_def distinct_map)
  have "inj_on (nc_websocket \<circ> snd) (set (nm_connections m'))"
  proof (rule inj_onI)
    fix p p'
    assume p: "p \<in> set (nm_connections m')" and p': "p' \<in> set (nm_connections m')"
      and eq: "(nc_websocket \<circ> snd) p = (nc_websocket \<circ> snd) p'"
    show "p = p'"
    proof (cases "p = (k, c) \<or> p' = (k, c)")
      case True
      then show ?thesis
        using p p' eq free [of "fst p" "snd p"] free [of "fst p'" "snd p'"] unfolding mem by auto
    next
      case False
      then show ?thesis using inj_onD [OF inj eq] p p' unfolding mem by blast
    qed
  qed
  then have ws: "distinct (map (nc_websocket \<circ> snd) (nm_connections m'))"
    using dist by (simp add: distinct_map)
  have "nc_node_id (snd p) = fst p \<and> has_node (nm_registry m') (fst p)"
    if "p \<in> set (nm_connections m')" for p
    using that inv k unfolding mem m'(2) by (auto simp: conn_inv_def list_all_iff)
  then show ?thesis
    using wf' ws by (auto simp: conn_inv_def list_all_iff)
qed

lemma conn_inv_register:
  assumes inv: "conn_inv m"
  shows "conn_inv (snd (register_connection hash now now' ws msg m))"
proof (cases "verify_credentials hash (nm_registry m) (rm_node_id msg) (rm_token msg)")
  case None
  then show ?thesis using inv by (simp add: register_connection_def)
next
  case (Some r)
  let ?k = "rm_node_id msg"
  define displaced where "displaced = (case node_id_for_websocket m ws of
      None \<Rightarrow> None | Some old \<Rightarrow> (if old \<noteq> ?k then Some old else None))"
  define m1 where "m1 = (case displaced of None \<Rightarrow> m | Some old \<Rightarrow> drop_connection old m)"
  have reg1: "nm_registry m1 = nm_registry m"
    by (simp add: m1_def drop_connection_def split: option.split)
  have inv1: "conn_inv m1"
    using inv by (cases displaced)
      (auto simp: m1_def drop_connection_def intro: conn_inv_pop [of m])
  have known: "has_node (nm_registry m) ?k"
    using Some by (auto simp: verify_credentials_def has_node_def get_record_def in_dict_keys_iff
        split: option.splits)
  have free: "nc_websocket c \<noteq> ws" if "(k', c) \<in> set (nm_connections m1)" "k' \<noteq> ?k" for k' c
  proof
    assume ws: "nc_websocket c = ws"
    have wf1: "dict_wf (nm_connections m1)" using inv1 by (simp add: conn_inv_def)
    have "connection_for_node m1 k' = Some c"
      using that(1) wf1 by (simp add: connection_for_node_def dict_mem_iff)
    then have c: "connection_for_node m k' = Some c \<and> displaced \<noteq> Some k'"
      by (auto simp: m1_def drop_connection_def connection_for_node_def split: option.splits if_splits)
    then have "node_id_for_websocket m ws = Some k'"
      using websocket_found [OF inv, of k' c] ws by simp
    then show False using c that(2) by (simp add: displaced_def)
  qed
  show ?thesis
  proof (cases "case connection_for_node m1 ?k of None \<Rightarrow> False | Some c \<Rightarrow> nc_websocket c \<noteq> ws")
    case True
    then have "snd (register_connection hash now now' ws msg m) = m1"
      using Some by (simp add: register_connection_def Let_def displaced_def [symmetric] m1_def [symmetric])
    then show ?thesis using inv1 by simp
  next
    case False
    define c where "c = \<lparr>nc_websocket = ws, nc_node_id = ?k, nc_connected_at = now,
        nc_metadata = rm_metadata msg,
        nc_executors = fold (\<lambda>e d. dict_put (xe_executor_type e) e d) (rm_executors msg) []\<rparr>"
    define m2 where "m2 = m1\<lparr>nm_connections := dict_put ?k c (nm_connections m1)\<rparr>"
    have inv2: "conn_inv m2"
      by (rule conn_inv_put [OF inv1]) (use known reg1 free in \<open>auto simp: m2_def c_def\<close>)
    define m3 where "m3 = (case displaced of None \<Rightarrow> m2
        | Some old \<Rightarrow> handle_node_disconnected now' old ''re_registered'' m2)"
    have "snd (register_connection hash now now' ws msg m) =
        m3\<lparr>nm_registry := note_connected now' ?k (nm_registry m3)\<rparr>"
      using Some False unfolding m3_def m2_def c_def m1_def displaced_def
      by (simp add: register_connection_def Let_def)
    moreover have "same_connections m2 (m3\<lparr>nm_registry := note_connected now' ?k (nm_registry m3)\<rparr>)"
      by (simp add: same_connections_def m3_def node_frame split: option.split)
    ultimately show ?thesis using inv2 conn_inv_same by metis
  qed
qed

lemma same_connections_eqI:
  "nm_connections m' = nm_connections m \<Longrightarrow> nm_registry m' = nm_registry m \<Longrightarrow> conn_inv m \<Longrightarrow> conn_inv m'"
  by (simp add: conn_inv_def)

text \<open>The operations that send, all of the shape \<open>send_or_drop\<close> or nothing.\<close>

lemma sends_or_nothing:
  "\<exists>reason c cmd. dispatch_audio_instruction now ok r x e t k audio m = (False, m) \<or>
     dispatch_audio_instruction now ok r x e t k audio m = send_or_drop now ok reason c cmd m"
  "\<exists>reason c cmd. dispatch_text_instruction now ok r x e t k text m = (False, m) \<or>
     dispatch_text_instruction now ok r x e t k text m = send_or_drop now ok reason c cmd m"
  "\<exists>reason c cmd. snd (start_codex_turn now ok k turn m) = m \<or>
     snd (start_codex_turn now ok k turn m) = snd (send_or_drop now ok reason c cmd m)"
  "\<exists>reason c cmd. snd (supply_interaction_response now ok q action answer answers node m) = m \<or>
     snd (supply_interaction_response now ok q action answer answers node m) =
       snd (send_or_drop now ok reason c cmd m)"
  "\<exists>reason c cmd. cancel_run now ok r mode m = m \<or>
     cancel_run now ok r mode m = snd (send_or_drop now ok reason c cmd m)"
  subgoal by (simp add: dispatch_audio_instruction_def split: option.split) blast
  subgoal by (simp add: dispatch_text_instruction_def split: option.split) blast
  subgoal
    by (cases "has_codex m k"; cases "validate_thread_intent turn")
      (auto simp: start_codex_turn_def case_prod_beta)
  subgoal
    by (auto simp: supply_interaction_response_def case_prod_beta split: json.split option.split)
  subgoal by (auto simp: cancel_run_def split: option.split)
  done

lemma conn_inv_dispatch: "conn_inv m \<Longrightarrow> conn_inv (snd (dispatch_run now ok cmd node m))"
proof -
  assume inv: "conn_inv m"
  have new: "conn_inv (snd (new_run_queue cmd node m))"
    by (rule same_connections_eqI [OF _ _ inv]) (simp_all add: new_run_queue_def)
  have put: "conn_inv (queue_put q e (snd (new_run_queue cmd node m)))" for q e
    by (rule same_connections_eqI [OF _ _ new]) (simp_all add: queue_put_def)
  show ?thesis
    using put conn_inv_send [OF new]
    by (auto simp: dispatch_run_def Let_def split: prod.split option.split)
qed

lemma conn_inv_sending:
  assumes "conn_inv m"
  shows "conn_inv (snd (dispatch_audio_instruction now ok r x e t k audio m))"
    and "conn_inv (snd (dispatch_text_instruction now ok r x e t k text m))"
    and "conn_inv (snd (start_codex_turn now ok k turn m))"
    and "conn_inv (snd (supply_interaction_response now ok q action answer answers node m))"
    and "conn_inv (cancel_run now ok r mode m)"
  using sends_or_nothing assms conn_inv_send by (metis snd_conv)+

lemma conn_inv_closed:
  assumes inv: "conn_inv m"
  shows "conn_inv (close_connection now k reason m)"
    and "nm_connections (close_connection now k reason m) = dict_pop k (nm_connections m)"
proof -
  show "conn_inv (close_connection now k reason m)"
    using inv by (simp add: close_connection_def conn_inv_disconnect split: option.split)
  show "nm_connections (close_connection now k reason m) = dict_pop k (nm_connections m)"
  proof (cases "connection_for_node m k")
    case None
    then have "filter (\<lambda>p. fst p \<noteq> k) (nm_connections m) = nm_connections m"
      by (intro filter_True) (auto simp: connection_for_node_def map_of_eq_None_iff)
    then show ?thesis using None by (simp add: close_connection_def dict_pop_filter)
  next
    case (Some c)
    then show ?thesis
      using websocket_found [OF inv Some] by (simp add: close_connection_def node_frame)
  qed
qed

lemma close_connection_registry [node_frame]:
  "set (dict_keys (rg_records (nm_registry (close_connection now k reason m)))) =
     set (dict_keys (rg_records (nm_registry m)))"
  by (simp add: close_connection_def node_frame split: option.split)

lemma conn_inv_delete:
  assumes inv: "conn_inv m"
  shows "conn_inv (snd (manager_delete_node now k m))"
proof -
  define m1 where "m1 = close_connection now k ''credentials_revoked'' m"
  define g where "g = snd (delete_record k (nm_registry m1))"
  have eq: "snd (manager_delete_node now k m) = m1\<lparr>nm_registry := g\<rparr>"
    by (simp add: manager_delete_node_def Let_def m1_def g_def case_prod_beta)
  have keys: "set (dict_keys (rg_records g)) = set (dict_keys (rg_records (nm_registry m1))) - {k}"
    by (auto simp: g_def delete_record_def dict_keys_pop in_dict_keys_iff get_record_def split: option.split)
  have conns: "nm_connections m1 = filter (\<lambda>p. fst p \<noteq> k) (nm_connections m)"
    using conn_inv_closed(2) [OF inv] by (simp add: m1_def dict_pop_filter)
  have inv1: "conn_inv m1" unfolding m1_def by (rule conn_inv_closed(1) [OF inv])
  have other: "(k, c) \<notin> set (nm_connections m1)" for c using conns by simp
  show ?thesis
    using inv1 other by (auto simp: eq conn_inv_def list_all_iff has_node_def keys)
qed

lemma conn_inv_rotate:
  assumes inv: "conn_inv m"
  shows "conn_inv (snd (rotate_node_credentials hash now token k m))"
proof -
  obtain x g where x: "rotate_credentials hash token k (map_of (connection_views m) k) (nm_registry m) = (x, g)"
    by (cases "rotate_credentials hash token k (map_of (connection_views m) k) (nm_registry m)")
  have "set (dict_keys (rg_records g)) = set (dict_keys (rg_records (nm_registry m)))"
    using registry_keys(5) [of hash token k "map_of (connection_views m) k" "nm_registry m"] x by simp
  then have "conn_inv (m\<lparr>nm_registry := g\<rparr>)"
    by (intro conn_inv_same [OF _ inv]) (simp add: same_connections_def)
  then show ?thesis
    using inv conn_inv_closed(1) x by (cases x) (simp_all add: rotate_node_credentials_def)
qed

lemma same_connections_simps:
  "same_connections m (finish_run r m)"
  "same_connections m (snd (publish_run_event now ws ev m))"
  "same_connections m (snd (publish_codex_thread_event now ws te m))"
  "same_connections m (snd (publish_codex_turn_event now ws k m))"
  "same_connections m (snd (begin_request ok kind rid c command m))"
  "same_connections m (snd (finish_request kind rid f m))"
  "same_connections m (abandon_request kind rid f m)"
  "same_connections m (snd (publish_reply kind reply m))"
  "same_connections m (snd (begin_read_file ok rid k thread_id xid path m))"
  "same_connections m (snd (read_file_next rid m))"
  "same_connections m (close_read_file rid m)"
  "same_connections m (snd (publish_workspace_file rid file m))"
  "same_connections m (snd (manager_create_node hash uid token name es acpx m))"
  "same_connections m (snd (manager_update_node k name' es' acpx m))"
  subgoal by (simp add: same_connections_def finish_run_def)
  subgoal by (simp add: same_connections_def publish_run_event_def queue_put_def Let_def registry_keys split: option.split)
  subgoal by (simp add: same_connections_def publish_codex_thread_event_def registry_keys)
  subgoal by (simp add: same_connections_def publish_codex_turn_event_def registry_keys)
  subgoal by (simp add: same_connections_def begin_request_def open_request_future_def record_sent_def Let_def)
  subgoal by (simp add: same_connections_def finish_request_def pop_request_def set_future_def split: option.split future.split)
  subgoal by (simp add: same_connections_def abandon_request_def pop_request_def set_future_def Let_def split: option.split future.split)
  subgoal by (simp add: same_connections_def publish_reply_def pop_request_def set_future_def Let_def split: option.split)
  subgoal by (simp add: same_connections_def begin_read_file_def record_sent_def split: option.split)
  subgoal by (simp add: same_connections_def read_file_next_def Let_def split: list.split file_message.split)
  subgoal by (simp add: same_connections_def close_read_file_def)
  subgoal by (simp add: same_connections_def publish_workspace_file_def split: option.split)
  subgoal by (simp add: same_connections_def manager_create_node_def case_prod_beta registry_keys)
  subgoal by (simp add: same_connections_def manager_update_node_def case_prod_beta registry_keys)
  done

lemma conn_inv_node_step: "node_step hash m m' \<Longrightarrow> conn_inv m \<Longrightarrow> conn_inv m'"
  by (induction rule: node_step.induct)
    (simp_all add: conn_inv_register conn_inv_disconnect conn_inv_dispatch conn_inv_sending
      conn_inv_rotate conn_inv_delete conn_inv_same [OF same_connections_simps(1)]
      conn_inv_same [OF same_connections_simps(2)] conn_inv_same [OF same_connections_simps(3)]
      conn_inv_same [OF same_connections_simps(4)] conn_inv_same [OF same_connections_simps(5)]
      conn_inv_same [OF same_connections_simps(6)] conn_inv_same [OF same_connections_simps(7)]
      conn_inv_same [OF same_connections_simps(8)] conn_inv_same [OF same_connections_simps(9)]
      conn_inv_same [OF same_connections_simps(10)] conn_inv_same [OF same_connections_simps(11)]
      conn_inv_same [OF same_connections_simps(12)] conn_inv_same [OF same_connections_simps(13)]
      conn_inv_same [OF same_connections_simps(14)])

lemma conn_inv_init: "conn_inv (node_manager_init detached g)"
  by (simp add: conn_inv_def node_manager_init_def)

lemma conn_inv_steps: "(node_step hash)\<^sup>*\<^sup>* m m' \<Longrightarrow> conn_inv m \<Longrightarrow> conn_inv m'"
  by (induction rule: rtranclp_induct) (auto intro: conn_inv_node_step)

lemma conn_inv_reachable: "node_reachable hash m \<Longrightarrow> conn_inv m"
  unfolding node_reachable_def using conn_inv_steps conn_inv_init by blast

section \<open>Runs and their queues\<close>

definition run_inv :: "node_manager \<Rightarrow> bool" where
  "run_inv m \<longleftrightarrow>
     dict_wf (nm_run_queues m) \<and> dict_wf (nm_run_states m) \<and>
     dict_keys (nm_run_queues m) = dict_keys (nm_run_states m) \<and>
     distinct (map snd (nm_run_queues m)) \<and>
     list_all (\<lambda>p. snd p < nm_next m) (nm_run_queues m)"

definition same_runs :: "node_manager \<Rightarrow> node_manager \<Rightarrow> bool" where
  "same_runs m m' \<longleftrightarrow>
     nm_run_queues m' = nm_run_queues m \<and> nm_run_states m' = nm_run_states m \<and> nm_next m \<le> nm_next m'"

lemma run_inv_same: "same_runs m m' \<Longrightarrow> run_inv m \<Longrightarrow> run_inv m'"
  by (fastforce simp: run_inv_def same_runs_def list_all_iff)

lemma run_queue_iff: "run_inv m \<Longrightarrow> map_of (nm_run_queues m) r = None \<longleftrightarrow> map_of (nm_run_states m) r = None"
  unfolding run_inv_def using in_dict_keys_iff [of r "nm_run_queues m"] in_dict_keys_iff [of r "nm_run_states m"]
  by auto

lemma run_queue_inj:
  assumes "run_inv m" and "map_of (nm_run_queues m) r = Some q" and "map_of (nm_run_queues m) r' = Some q"
  shows "r' = r"
proof -
  have "inj_on snd (set (nm_run_queues m))"
    using assms(1) by (simp add: run_inv_def distinct_map)
  then have "(r', q) = (r, q)"
    using map_of_SomeD [OF assms(2)] map_of_SomeD [OF assms(3)] by (intro inj_onD [of snd]) auto
  then show ?thesis by simp
qed

lemma run_queue_old: "run_inv m \<Longrightarrow> map_of (nm_run_queues m) r = Some q \<Longrightarrow> q < nm_next m"
  by (frule map_of_SomeD) (fastforce simp: run_inv_def list_all_iff)

lemma run_inv_finish: "run_inv m \<Longrightarrow> run_inv (finish_run r m)"
  using distinct_map_filter [of snd "nm_run_queues m" "\<lambda>p. fst p \<noteq> r"]
  by (auto simp: run_inv_def finish_run_def dict_keys_pop list_all_iff)
    (auto simp: dict_pop_filter)

lemma run_inv_queue_put: "run_inv m \<Longrightarrow> run_inv (queue_put q e m)"
  by (simp add: run_inv_def queue_put_def)

lemma run_inv_drain: "run_inv m \<Longrightarrow> run_inv (drain_run k reason p m)"
  by (simp add: drain_run_def run_inv_finish run_inv_queue_put split: option.split)

lemma run_inv_drains: "run_inv m \<Longrightarrow> run_inv (fold (drain_run k reason) ps m)"
  by (induction ps arbitrary: m) (simp_all add: run_inv_drain)

lemma run_inv_disconnected: "run_inv m \<Longrightarrow> run_inv (handle_node_disconnected now k reason m)"
  unfolding handle_node_disconnected_def
  by (rule run_inv_drains) (simp add: run_inv_def)

lemma run_inv_drop: "run_inv (drop_connection k m) = run_inv m"
  by (simp add: run_inv_def drop_connection_def)

lemma run_inv_disconnect: "run_inv m \<Longrightarrow> run_inv (disconnect now ws reason m)"
  by (simp add: disconnect_def run_inv_drop run_inv_disconnected split: option.split)

text \<open>What the loop over the runs does to one run.\<close>

definition lost_envelope :: "str \<Rightarrow> str \<Rightarrow> str \<Rightarrow> run_dispatch_state \<Rightarrow> run_envelope" where
  "lost_envelope k reason r st =
     waiting_envelope r (ds_execution_session_id st) (reconnect_message k) (Some k) (Some reason)"

lemma drain_hit:
  assumes "ds_node_id st = Some k" and "map_of (nm_run_queues m) r = Some q"
  shows "map_of (nm_run_queues (drain_run k reason (r, st) m)) r' =
      (if r' = r then None else map_of (nm_run_queues m) r')"
    and "map_of (nm_run_states (drain_run k reason (r, st) m)) r' =
      (if r' = r then None else map_of (nm_run_states m) r')"
    and "dd_get (nm_queues (drain_run k reason (r, st) m)) q' =
      (if q' = q then dd_get (nm_queues m) q @ [lost_envelope k reason r st] else dd_get (nm_queues m) q')"
  using assms by (simp_all add: drain_run_def finish_run_def queue_put_def lost_envelope_def)

lemma drain_miss:
  "ds_node_id st \<noteq> Some k \<or> map_of (nm_run_queues m) r = None \<Longrightarrow> drain_run k reason (r, st) m = m"
  by (auto simp: drain_run_def)

lemma drains_forget_queue:
  "distinct (map fst ps) \<Longrightarrow>
   map_of (nm_run_queues (fold (drain_run k reason) ps m)) r =
      (case map_of ps r of
         Some st \<Rightarrow> (if ds_node_id st = Some k then None else map_of (nm_run_queues m) r)
       | None \<Rightarrow> map_of (nm_run_queues m) r)"
proof (induction ps arbitrary: m)
  case (Cons p ps)
  obtain r0 st0 where p: "p = (r0, st0)" by (cases p)
  have none: "map_of ps r0 = None" using Cons.prems p by (auto simp: map_of_eq_None_iff)
  show ?case
    using Cons none
    by (cases "ds_node_id st0 = Some k \<and> map_of (nm_run_queues m) r0 \<noteq> None")
      (auto simp: p drain_hit drain_miss split: option.split)
qed simp

lemma drains_forget_state:
  "distinct (map fst ps) \<Longrightarrow> run_inv m \<Longrightarrow>
   map_of (nm_run_states (fold (drain_run k reason) ps m)) r =
      (case map_of ps r of
         Some st \<Rightarrow> (if ds_node_id st = Some k then None else map_of (nm_run_states m) r)
       | None \<Rightarrow> map_of (nm_run_states m) r)"
proof (induction ps arbitrary: m)
  case (Cons p ps)
  obtain r0 st0 where p: "p = (r0, st0)" by (cases p)
  have none: "map_of ps r0 = None" using Cons.prems p by (auto simp: map_of_eq_None_iff)
  define m1 where "m1 = drain_run k reason p m"
  have inv: "run_inv m1" using Cons.prems run_inv_drain by (simp add: m1_def)
  have step: "map_of (nm_run_states m1) r' =
      (if r' = r0 \<and> ds_node_id st0 = Some k then None else map_of (nm_run_states m) r')" for r'
  proof (cases "map_of (nm_run_queues m) r0")
    case None
    then show ?thesis using run_queue_iff [OF Cons.prems(2), of r0] by (simp add: m1_def p drain_miss)
  next
    case (Some q)
    then show ?thesis
      by (cases "ds_node_id st0 = Some k") (simp_all add: m1_def p drain_hit drain_miss)
  qed
  have "map_of (nm_run_states (fold (drain_run k reason) ps m1)) r =
      (case map_of ps r of
         Some st \<Rightarrow> (if ds_node_id st = Some k then None else map_of (nm_run_states m1) r)
       | None \<Rightarrow> map_of (nm_run_states m1) r)"
    using Cons.IH [OF _ inv] Cons.prems by simp
  moreover have "fold (drain_run k reason) (p # ps) m = fold (drain_run k reason) ps m1"
    by (simp add: m1_def)
  ultimately show ?case
    using none by (auto simp: step p split: option.split)
qed simp

lemma drains_other_queue:
  "q \<notin> snd ` set (nm_run_queues m) \<Longrightarrow>
     dd_get (nm_queues (fold (drain_run k reason) ps m)) q = dd_get (nm_queues m) q"
proof (induction ps arbitrary: m)
  case (Cons p ps)
  obtain r0 st0 where p: "p = (r0, st0)" by (cases p)
  show ?case
  proof (cases "ds_node_id st0 = Some k \<and> map_of (nm_run_queues m) r0 \<noteq> None")
    case True
    then obtain q0 where q0: "ds_node_id st0 = Some k" "map_of (nm_run_queues m) r0 = Some q0" by auto
    have "q \<noteq> q0" using Cons.prems map_of_SomeD [OF q0(2)] by force
    moreover have "nm_run_queues (drain_run k reason p m) = filter (\<lambda>x. fst x \<noteq> r0) (nm_run_queues m)"
      using q0 by (simp add: p drain_run_def finish_run_def queue_put_def dict_pop_filter)
    ultimately show ?thesis
      using Cons.IH [of "drain_run k reason p m"] Cons.prems q0 by (auto simp: p drain_hit)
  next
    case False
    then show ?thesis using Cons by (auto simp: p drain_miss)
  qed
qed simp

lemma drains_own_queue:
  "distinct (map fst ps) \<Longrightarrow> run_inv m \<Longrightarrow> map_of (nm_run_queues m) r = Some q \<Longrightarrow>
   dd_get (nm_queues (fold (drain_run k reason) ps m)) q =
      (case map_of ps r of
         Some st \<Rightarrow> (if ds_node_id st = Some k then dd_get (nm_queues m) q @ [lost_envelope k reason r st]
                    else dd_get (nm_queues m) q)
       | None \<Rightarrow> dd_get (nm_queues m) q)"
proof (induction ps arbitrary: m)
  case (Cons p ps)
  obtain r0 st0 where p: "p = (r0, st0)" by (cases p)
  have none: "map_of ps r0 = None" using Cons.prems p by (auto simp: map_of_eq_None_iff)
  have inv: "run_inv (drain_run k reason p m)" using Cons.prems run_inv_drain by simp
  show ?case
  proof (cases "ds_node_id st0 = Some k \<and> map_of (nm_run_queues m) r0 \<noteq> None")
    case True
    then obtain q0 where q0: "ds_node_id st0 = Some k" "map_of (nm_run_queues m) r0 = Some q0" by auto
    show ?thesis
    proof (cases "r = r0")
      case True
      have "q \<notin> snd ` set (nm_run_queues (drain_run k reason p m))"
      proof
        assume "q \<in> snd ` set (nm_run_queues (drain_run k reason p m))"
        then obtain r' where "(r', q) \<in> set (nm_run_queues (drain_run k reason p m))" by auto
        then have r': "map_of (nm_run_queues (drain_run k reason p m)) r' = Some q"
          using inv by (simp add: run_inv_def dict_mem_iff)
        then have "map_of (nm_run_queues m) r' = Some q" "r' \<noteq> r0"
          using q0 by (auto simp: p drain_hit split: if_splits)
        then show False using run_queue_inj [OF Cons.prems(2,3)] True by blast
      qed
      then show ?thesis
        using drains_other_queue [of q "drain_run k reason p m"] q0 Cons.prems(3) True
        by (simp add: p drain_hit)
    next
      case False
      then have "q \<noteq> q0" using run_queue_inj [OF Cons.prems(2,3)] q0(2) by blast
      then show ?thesis
        using Cons.IH [OF _ inv] Cons.prems q0 False by (simp add: p drain_hit split: option.split)
    qed
  next
    case False
    then show ?thesis using Cons none by (auto simp: p drain_miss split: option.split)
  qed
qed simp

lemma distinct_snd_put:
  assumes "distinct (map snd d)" and "q \<notin> snd ` set d" and "dict_wf d"
  shows "distinct (map snd (dict_put r q d))" and "snd ` set (dict_put r q d) \<subseteq> insert q (snd ` set d)"
proof -
  have mem: "p \<in> set (dict_put r q d) \<longleftrightarrow> p = (r, q) \<or> p \<in> set d \<and> fst p \<noteq> r" for p
    using assms(3) by (cases p) (auto simp: dict_mem_iff)
  have inj: "inj_on snd (set d)" using assms(1) by (simp add: distinct_map)
  have "inj_on snd (set (dict_put r q d))"
  proof (rule inj_onI)
    fix p p'
    assume p: "p \<in> set (dict_put r q d)" "p' \<in> set (dict_put r q d)" and eq: "snd p = snd p'"
    show "p = p'"
    proof (cases "snd p = q")
      case True
      then have "p \<notin> set d" "p' \<notin> set d" using assms(2) eq by (metis image_eqI)+
      then show ?thesis using p by (simp add: mem)
    next
      case False
      then have "p \<in> set d" "p' \<in> set d" using p eq mem by auto
      then show ?thesis using inj_onD [OF inj eq] by blast
    qed
  qed
  moreover have "distinct (dict_put r q d)"
    using dict_wf_put [OF assms(3), of r q] by (simp add: dict_wf_def dict_keys_def distinct_map)
  ultimately show "distinct (map snd (dict_put r q d))" by (simp add: distinct_map)
  show "snd ` set (dict_put r q d) \<subseteq> insert q (snd ` set d)" by (auto simp: mem)
qed

lemma run_inv_new:
  assumes inv: "run_inv m"
  shows "run_inv (snd (new_run_queue cmd node m))"
proof -
  have fresh: "nm_next m \<notin> snd ` set (nm_run_queues m)"
    using inv by (auto simp: run_inv_def list_all_iff)
  have old: "distinct (map snd (nm_run_queues m))" "dict_wf (nm_run_queues m)"
    using inv by (auto simp: run_inv_def)
  have "snd p < Suc (nm_next m)" if "p \<in> set (dict_put (dr_run_id cmd) (nm_next m) (nm_run_queues m))" for p
    using distinct_snd_put(2) [OF old(1) fresh old(2), of "dr_run_id cmd"] that inv
    by (fastforce simp: run_inv_def list_all_iff)
  then show ?thesis
    using inv distinct_snd_put(1) [OF old(1) fresh old(2), of "dr_run_id cmd"]
    by (simp add: run_inv_def new_run_queue_def dict_keys_put list_all_iff)
qed

lemma run_inv_send: "run_inv m \<Longrightarrow> run_inv (snd (send_or_drop now ok reason c cmd m))"
  by (auto simp: send_or_drop_def run_inv_disconnect record_sent_def same_runs_def intro: run_inv_same)

lemma run_inv_dispatch: "run_inv m \<Longrightarrow> run_inv (snd (dispatch_run now ok cmd node m))"
  using run_inv_new run_inv_send run_inv_queue_put
  by (auto simp: dispatch_run_def Let_def case_prod_beta split: option.split)

lemma run_inv_sending:
  assumes "run_inv m"
  shows "run_inv (snd (dispatch_audio_instruction now ok r x e t k audio m))"
    and "run_inv (snd (dispatch_text_instruction now ok r x e t k text m))"
    and "run_inv (snd (start_codex_turn now ok k turn m))"
    and "run_inv (snd (supply_interaction_response now ok q action answer answers node m))"
    and "run_inv (cancel_run now ok r mode m)"
  using sends_or_nothing assms run_inv_send by (metis snd_conv)+

lemma same_runs_simps:
  "same_runs m (snd (publish_run_event now ws ev m))"
  "same_runs m (snd (publish_codex_thread_event now ws te m))"
  "same_runs m (snd (publish_codex_turn_event now ws k m))"
  "same_runs m (snd (begin_request ok kind rid c command m))"
  "same_runs m (snd (finish_request kind rid f m))"
  "same_runs m (abandon_request kind rid f m)"
  "same_runs m (snd (publish_reply kind reply m))"
  "same_runs m (snd (begin_read_file ok rid k thread_id xid path m))"
  "same_runs m (snd (read_file_next rid m))"
  "same_runs m (close_read_file rid m)"
  "same_runs m (snd (publish_workspace_file rid file m))"
  "same_runs m (snd (manager_create_node hash uid token name es acpx m))"
  "same_runs m (snd (manager_update_node k name' es' acpx m))"
  "same_runs m (drop_connection k m)"
  "same_runs m (m\<lparr>nm_registry := g\<rparr>)"
  "same_runs m (m\<lparr>nm_connections := d\<rparr>)"
  subgoal by (simp add: same_runs_def publish_run_event_def queue_put_def Let_def split: option.split)
  subgoal by (simp add: same_runs_def publish_codex_thread_event_def)
  subgoal by (simp add: same_runs_def publish_codex_turn_event_def)
  subgoal by (simp add: same_runs_def begin_request_def open_request_future_def record_sent_def Let_def)
  subgoal by (simp add: same_runs_def finish_request_def pop_request_def set_future_def split: option.split future.split)
  subgoal by (simp add: same_runs_def abandon_request_def pop_request_def set_future_def Let_def split: option.split future.split)
  subgoal by (simp add: same_runs_def publish_reply_def pop_request_def set_future_def Let_def split: option.split)
  subgoal by (simp add: same_runs_def begin_read_file_def record_sent_def split: option.split)
  subgoal by (simp add: same_runs_def read_file_next_def Let_def split: list.split file_message.split)
  subgoal by (simp add: same_runs_def close_read_file_def)
  subgoal by (simp add: same_runs_def publish_workspace_file_def split: option.split)
  subgoal by (simp add: same_runs_def manager_create_node_def case_prod_beta)
  subgoal by (simp add: same_runs_def manager_update_node_def case_prod_beta)
  subgoal by (simp add: same_runs_def drop_connection_def)
  subgoal by (simp add: same_runs_def)
  subgoal by (simp add: same_runs_def)
  done

lemmas run_inv_kept = run_inv_same [OF same_runs_simps(1)] run_inv_same [OF same_runs_simps(2)]
  run_inv_same [OF same_runs_simps(3)] run_inv_same [OF same_runs_simps(4)]
  run_inv_same [OF same_runs_simps(5)] run_inv_same [OF same_runs_simps(6)]
  run_inv_same [OF same_runs_simps(7)] run_inv_same [OF same_runs_simps(8)]
  run_inv_same [OF same_runs_simps(9)] run_inv_same [OF same_runs_simps(10)]
  run_inv_same [OF same_runs_simps(11)] run_inv_same [OF same_runs_simps(12)]
  run_inv_same [OF same_runs_simps(13)] run_inv_same [OF same_runs_simps(14)]
  run_inv_same [OF same_runs_simps(15)] run_inv_same [OF same_runs_simps(16)]

lemma run_inv_register: "run_inv m \<Longrightarrow> run_inv (snd (register_connection hash now now' ws msg m))"
  by (auto simp: register_connection_def Let_def run_inv_kept run_inv_disconnected split: option.split)

lemma run_inv_closed: "run_inv m \<Longrightarrow> run_inv (close_connection now k reason m)"
  by (simp add: close_connection_def run_inv_disconnect split: option.split)

lemma run_inv_credentials:
  "run_inv m \<Longrightarrow> run_inv (snd (rotate_node_credentials hash now token k m))"
  "run_inv m \<Longrightarrow> run_inv (snd (manager_delete_node now k m))"
  by (auto simp: rotate_node_credentials_def manager_delete_node_def Let_def case_prod_beta
      run_inv_kept run_inv_closed split: prod.split sum.split)

lemma run_inv_node_step: "node_step hash m m' \<Longrightarrow> run_inv m \<Longrightarrow> run_inv m'"
  by (induction rule: node_step.induct)
    (simp_all add: run_inv_register run_inv_disconnect run_inv_dispatch run_inv_sending run_inv_finish
      run_inv_credentials run_inv_kept)

lemma run_inv_init: "run_inv (node_manager_init detached g)"
  by (simp add: run_inv_def node_manager_init_def)

lemma run_inv_steps: "(node_step hash)\<^sup>*\<^sup>* m m' \<Longrightarrow> run_inv m \<Longrightarrow> run_inv m'"
  by (induction rule: rtranclp_induct) (auto intro: run_inv_node_step)

lemma run_inv_reachable: "node_reachable hash m \<Longrightarrow> run_inv m"
  unfolding node_reachable_def using run_inv_steps run_inv_init by blast

section \<open>Properties of connections\<close>

text \<open>however the manager's operations interleave, no node is connected twice, no websocket
  serves two nodes, every connection is filed under its own node, and only registered nodes are
  connected.\<close>

theorem connections_sound:
  assumes "node_reachable hash m"
  shows "distinct (dict_keys (nm_connections m)) \<and>
    distinct (map (nc_websocket \<circ> snd) (nm_connections m)) \<and>
    list_all (\<lambda>(k, c). nc_node_id c = k \<and> has_node (nm_registry m) k) (nm_connections m)"
  using conn_inv_reachable [OF assms] by (simp add: conn_inv_def dict_wf_def)

lemma is_node_connected_iff: "is_node_connected m k \<longleftrightarrow> connection_for_node m k \<noteq> None"
  by (simp add: is_node_connected_def connection_for_node_def in_dict_keys_iff)

lemma closed_disconnects:
  assumes "conn_inv m"
  shows "connection_for_node (close_connection now k reason m) j =
      (if j = k then None else connection_for_node m j)"
  using conn_inv_closed(2) [OF assms] by (simp add: connection_for_node_def)

lemma note_seen_token_hash:
  "map_option nr_token_hash (get_record (note_seen now k g) j) = map_option nr_token_hash (get_record g j)"
  by (auto simp: note_seen_def get_record_def split: option.split)

lemma closed_token_hash:
  "map_option nr_token_hash (get_record (nm_registry (close_connection now k reason m)) j) =
     map_option nr_token_hash (get_record (nm_registry m) j)"
  by (simp add: close_connection_def disconnect_def node_frame drop_connection_def note_seen_token_hash
      split: option.split)

text \<open>new credentials or deletion cut a node off: whatever connection it had is gone and no other
  connection is touched; after the rotation only tokens with the new token's hash authenticate it,
  after the deletion none does.\<close>

theorem revoked_node_is_cut_off:
  assumes "node_reachable hash m"
    and rotated: "rotate_node_credentials hash now token k m = (Inr x, m1)"
    and deleted: "manager_delete_node now k m = (removed, m2)"
  shows "connection_for_node m1 j = (if j = k then None else connection_for_node m j)
    \<and> (verify_credentials hash (nm_registry m1) k t \<noteq> None) = (hash token = hash t)
    \<and> connection_for_node m2 j = (if j = k then None else connection_for_node m j)
    \<and> verify_credentials hash (nm_registry m2) k t = None"
proof (intro conjI)
  have inv: "conn_inv m" by (rule conn_inv_reachable [OF assms(1)])
  obtain g where g: "rotate_credentials hash token k (map_of (connection_views m) k) (nm_registry m) = (Inr x, g)"
    and m1: "m1 = close_connection now k ''credentials_rotated'' (m\<lparr>nm_registry := g\<rparr>)"
    using rotated by (auto simp: rotate_node_credentials_def split: prod.splits sum.splits)
  have inv': "conn_inv (m\<lparr>nm_registry := g\<rparr>)"
    using registry_keys(5) [of hash token k "map_of (connection_views m) k" "nm_registry m"] g
    by (intro conn_inv_same [OF _ inv]) (simp add: same_connections_def)
  show "connection_for_node m1 j = (if j = k then None else connection_for_node m j)"
    unfolding m1 closed_disconnects [OF inv'] by (simp add: connection_for_node_def)
  have hashes: "map_option nr_token_hash (get_record (nm_registry m1) k) = map_option nr_token_hash (get_record g k)"
    using closed_token_hash [of now k "''credentials_rotated''" "m\<lparr>nm_registry := g\<rparr>" k] by (simp add: m1)
  obtain r where "get_record g k = Some r" "nr_token_hash r = hash token"
    using g by (auto simp: rotate_credentials_def get_record_def Let_def split: option.splits)
  then show "(verify_credentials hash (nm_registry m1) k t \<noteq> None) = (hash token = hash t)"
    using hashes by (auto simp: verify_credentials_def split: if_splits)
  define m0 where "m0 = close_connection now k ''credentials_revoked'' m"
  have m2: "m2 = m0\<lparr>nm_registry := snd (delete_record k (nm_registry m0))\<rparr>"
    using deleted by (auto simp: manager_delete_node_def Let_def m0_def split: prod.splits)
  show "connection_for_node m2 j = (if j = k then None else connection_for_node m j)"
    using closed_disconnects [OF inv, of now k "''credentials_revoked''" j]
    by (simp add: m2 m0_def connection_for_node_def)
  show "verify_credentials hash (nm_registry m2) k t = None"
    by (auto simp: m2 verify_credentials_def delete_record_def get_record_def split: option.split)
qed

section \<open>Properties of runs\<close>

text \<open>The events waiting in the queue of a run the manager knows.\<close>

definition run_events :: "node_manager \<Rightarrow> str \<Rightarrow> run_envelope list option" where
  "run_events m r = map_option (dd_get (nm_queues m)) (map_of (nm_run_queues m) r)"

definition envelope_of :: "run_event_message \<Rightarrow> run_envelope" where
  "envelope_of msg =
     \<lparr>env_event = \<lparr>ev_run_id = re_run_id msg, ev_session_id = re_session_id msg,
        ev_event_type = re_event_type msg, ev_message = re_message msg, ev_metadata = re_metadata msg\<rparr>,
      env_latest_resume_handle = re_latest_resume_handle msg\<rparr>"

lemma run_events_put:
  assumes "run_inv m" and "map_of (nm_run_queues m) r = Some q"
  shows "run_events (queue_put q e m) j =
      (if j = r then map_option (\<lambda>es. es @ [e]) (run_events m j) else run_events m j)"
proof (cases "map_of (nm_run_queues m) j")
  case None
  then show ?thesis using assms(2) by (auto simp: run_events_def queue_put_def)
next
  case (Some q')
  then show ?thesis
    using run_queue_inj [OF assms, of j] assms(2) by (auto simp: run_events_def queue_put_def)
qed


lemma disconnect_runs:
  assumes inv: "run_inv m" and ws: "node_id_for_websocket m ws = Some k"
  shows "map_of (nm_run_queues (disconnect now ws reason m)) r =
      (case map_of (nm_run_states m) r of
         Some st \<Rightarrow> (if ds_node_id st = Some k then None else map_of (nm_run_queues m) r)
       | None \<Rightarrow> None)"
    and "map_of (nm_run_states (disconnect now ws reason m)) r =
      (case map_of (nm_run_states m) r of
         Some st \<Rightarrow> (if ds_node_id st = Some k then None else Some st)
       | None \<Rightarrow> None)"
    and "map_of (nm_run_queues m) r = Some q \<Longrightarrow> map_of (nm_run_states m) r = Some st \<Longrightarrow>
      dd_get (nm_queues (disconnect now ws reason m)) q =
        (if ds_node_id st = Some k then dd_get (nm_queues m) q @ [lost_envelope k reason r st]
         else dd_get (nm_queues m) q)"
proof -
  define m0 where "m0 = (drop_connection k m)\<lparr>nm_registry := note_seen now k (nm_registry m)\<rparr>"
  have m0: "nm_run_queues m0 = nm_run_queues m" "nm_run_states m0 = nm_run_states m"
      "nm_queues m0 = nm_queues m" "run_inv m0"
    using inv by (simp_all add: m0_def drop_connection_def run_inv_def)
  have d: "disconnect now ws reason m = fold (drain_run k reason) (nm_run_states m) m0"
    using ws by (simp add: disconnect_def handle_node_disconnected_def m0_def drop_connection_def)
  have dist: "distinct (map fst (nm_run_states m))"
    using inv by (simp add: run_inv_def dict_wf_def dict_keys_def)
  show "map_of (nm_run_queues (disconnect now ws reason m)) r =
      (case map_of (nm_run_states m) r of
         Some st \<Rightarrow> (if ds_node_id st = Some k then None else map_of (nm_run_queues m) r)
       | None \<Rightarrow> None)"
    using run_queue_iff [OF inv, of r]
    by (auto simp: d drains_forget_queue [OF dist] m0 split: option.split)
  show "map_of (nm_run_states (disconnect now ws reason m)) r =
      (case map_of (nm_run_states m) r of
         Some st \<Rightarrow> (if ds_node_id st = Some k then None else Some st)
       | None \<Rightarrow> None)"
    by (auto simp: d drains_forget_state [OF dist m0(4)] m0 split: option.split)
  show "dd_get (nm_queues (disconnect now ws reason m)) q =
        (if ds_node_id st = Some k then dd_get (nm_queues m) q @ [lost_envelope k reason r st]
         else dd_get (nm_queues m) q)"
    if "map_of (nm_run_queues m) r = Some q" "map_of (nm_run_states m) r = Some st"
    using drains_own_queue [OF dist m0(4), of r q] that by (simp add: d m0)
qed

text \<open>C12: when a node's websocket goes, the node is no longer connected, every run of that node gets
  exactly one last event, waiting for an executor, in the queue its consumer holds and is then
  forgotten; every other run keeps its state and its queue.\<close>

theorem lost_node_drains_its_runs:
  assumes "node_reachable hash m" and "node_id_for_websocket m ws = Some k"
  shows "\<not> is_node_connected (disconnect now ws reason m) k \<and>
    (case map_of (nm_run_states m) r of
       None \<Rightarrow> map_of (nm_run_states (disconnect now ws reason m)) r = None
     | Some st \<Rightarrow>
         \<exists>q. map_of (nm_run_queues m) r = Some q \<and>
           (if ds_node_id st = Some k
            then map_of (nm_run_states (disconnect now ws reason m)) r = None \<and>
                 run_events (disconnect now ws reason m) r = None \<and>
                 dd_get (nm_queues (disconnect now ws reason m)) q =
                   dd_get (nm_queues m) q @ [lost_envelope k reason r st]
            else map_of (nm_run_states (disconnect now ws reason m)) r = Some st \<and>
                 run_events (disconnect now ws reason m) r = run_events m r))"
proof -
  have inv: "run_inv m" and cinv: "conn_inv m"
    using run_inv_reachable conn_inv_reachable assms(1) by blast+
  have "\<not> is_node_connected (disconnect now ws reason m) k"
    using assms(2) by (simp add: is_node_connected_def node_frame dict_keys_pop)
  moreover have "\<exists>q. map_of (nm_run_queues m) r = Some q" if "map_of (nm_run_states m) r = Some st" for st
    using run_queue_iff [OF inv, of r] that by auto
  ultimately show ?thesis
    using disconnect_runs(3) [OF inv assms(2)]
    by (cases "map_of (nm_run_states m) r")
      (fastforce simp: run_events_def disconnect_runs(1,2) [OF inv assms(2)])+
qed

lemma new_run_reads:
  assumes "new_run_queue cmd node m = (q, m1)"
  shows "map_of (nm_run_queues m1) (dr_run_id cmd) = Some q"
    and "map_of (nm_run_states m1) (dr_run_id cmd) =
      Some \<lparr>ds_run_id = dr_run_id cmd, ds_execution_session_id = dr_execution_session_id cmd,
            ds_executor_type = dr_executor_type cmd, ds_node_id = node\<rparr>"
    and "dd_get (nm_queues m1) q = []" and "nm_sent m1 = nm_sent m"
    and "nm_connections m1 = nm_connections m" and "nm_detached m1 = nm_detached m"
    and "nm_registry m1 = nm_registry m"
  using assms by (auto simp: new_run_queue_def dd_get_def)

lemma queue_put_reads [simp]:
  "dd_get (nm_queues (queue_put q e m)) q' = (if q' = q then dd_get (nm_queues m) q @ [e] else dd_get (nm_queues m) q')"
  "nm_run_queues (queue_put q e m) = nm_run_queues m" "nm_run_states (queue_put q e m) = nm_run_states m"
  "nm_sent (queue_put q e m) = nm_sent m" "nm_connections (queue_put q e m) = nm_connections m"
  by (simp_all add: queue_put_def)

lemma executor_connected_cong:
  "nm_connections m' = nm_connections m \<Longrightarrow> is_executor_connected m' x node = is_executor_connected m x node"
  "nm_connections m' = nm_connections m \<Longrightarrow> connection_for_node m' k = connection_for_node m k"
  by (cases node) (simp_all add: is_executor_connected_def connection_for_node_def)

definition offline_reason :: "node_manager \<Rightarrow> str \<Rightarrow> str \<Rightarrow> str option" where
  "offline_reason m x k =
     (if \<not> is_detached_executor m x then None
      else if is_node_connected m k then Some ''node_missing_executor'' else Some ''node_disconnected'')"

lemma offline_reason_eq:
  "\<not> is_executor_connected m x (Some k) \<Longrightarrow> av_reason (executor_availability m x (Some k)) = offline_reason m x k"
  by (auto simp: executor_availability_def offline_reason_def is_executor_connected_def is_node_connected_iff
      split: option.splits)

text \<open>What a dispatch leads to. A bro without a node, a node that is away or lacks the executor:
  nothing is sent, and the run's new queue holds one event that says what the run waits for. A
  connected node whose socket takes the message: the command is sent to that node's socket and the
  queue is empty. A socket that raises: the node is dropped, the queue holds one waiting event and
  the run is forgotten. The run is routed to its queue in every case but the last.\<close>

theorem dispatch_outcome:
  assumes "node_reachable hash m" and "dispatch_run now ok cmd node m = (q, m')"
  shows "case node of
     None \<Rightarrow>
       dd_get (nm_queues m') q =
         [waiting_envelope (dr_run_id cmd) (dr_execution_session_id cmd)
            ''Waiting for this bro to be bound to an executor node.'' None (Some ''bro_unbound'')] \<and>
       nm_sent m' = nm_sent m \<and> map_of (nm_run_queues m') (dr_run_id cmd) = Some q
   | Some k \<Rightarrow>
       (case if is_executor_connected m (dr_executor_type cmd) node then connection_for_node m k else None of
          None \<Rightarrow>
            dd_get (nm_queues m') q =
              [waiting_envelope (dr_run_id cmd) (dr_execution_session_id cmd)
                 (''Waiting for '' @ k @ '' to connect.'') (Some k) (offline_reason m (dr_executor_type cmd) k)] \<and>
            nm_sent m' = nm_sent m \<and> map_of (nm_run_queues m') (dr_run_id cmd) = Some q
        | Some c \<Rightarrow>
            if ok then
              dd_get (nm_queues m') q = [] \<and> nm_sent m' = nm_sent m @ [(nc_websocket c, DispatchRun cmd)] \<and>
              map_of (nm_run_queues m') (dr_run_id cmd) = Some q
            else
              dd_get (nm_queues m') q =
                [waiting_envelope (dr_run_id cmd) (dr_execution_session_id cmd) (reconnect_message k)
                   (Some k) (Some ''dispatch_failed'')] \<and>
              nm_sent m' = nm_sent m \<and> map_of (nm_run_queues m') (dr_run_id cmd) = None \<and>
              \<not> is_node_connected m' k)"
proof -
  have inv: "run_inv m" and cinv: "conn_inv m"
    using run_inv_reachable conn_inv_reachable assms(1) by blast+
  obtain q1 m1 where new: "new_run_queue cmd node m = (q1, m1)"
    by (cases "new_run_queue cmd node m")
  note reads = new_run_reads [OF new]
  note same = executor_connected_cong [OF reads(5)]
  have inv1: "run_inv m1" using run_inv_new [OF inv, of cmd node] new by simp
  have cinv1: "conn_inv m1" using cinv reads(5,7) by (simp add: conn_inv_def)
  show ?thesis
  proof (cases node)
    case None
    then show ?thesis
      using assms(2) new reads by (auto simp: dispatch_run_def)
  next
    case (Some k)
    show ?thesis
    proof (cases "is_executor_connected m (dr_executor_type cmd) (Some k)")
      case False
      have "av_reason (executor_availability m1 (dr_executor_type cmd) (Some k)) =
          offline_reason m (dr_executor_type cmd) k"
        using False same offline_reason_eq [of m1 "dr_executor_type cmd" k] reads(5,6)
        by (simp add: offline_reason_def is_detached_executor_def is_node_connected_def)
      then show ?thesis
        using Some False assms(2) new reads same by (auto simp: dispatch_run_def)
    next
      case True
      then obtain c where c: "connection_for_node m k = Some c"
        by (auto simp: is_executor_connected_def split: option.splits)
      have c1: "connection_for_node m1 k = Some c" using c same by simp
      have ws: "node_id_for_websocket m1 (nc_websocket c) = Some k"
        by (rule websocket_found [OF cinv1 c1])
      have eq: "q = q1" "m' = snd (send_or_drop now ok ''dispatch_failed'' c (DispatchRun cmd) m1)"
        using assms(2) new True Some same c1 by (auto simp: dispatch_run_def)
      show ?thesis
      proof (cases ok)
        case True
        then show ?thesis
          using eq Some c \<open>is_executor_connected m (dr_executor_type cmd) (Some k)\<close> reads
          by (simp add: send_or_drop_def record_sent_def)
      next
        case False
        have m': "m' = disconnect now (nc_websocket c) ''dispatch_failed'' m1"
          using eq False by (simp add: send_or_drop_def)
        show ?thesis
          using eq(1) False Some c \<open>is_executor_connected m (dr_executor_type cmd) (Some k)\<close> reads
            disconnect_runs(3) [OF inv1 ws reads(1,2)]
          by (simp add: m' disconnect_runs(1,2) [OF inv1 ws] node_frame ws is_node_connected_def dict_keys_pop lost_envelope_def)
      qed
    qed
  qed
qed

section \<open>Properties of requests\<close>

definition request_inv :: "node_manager \<Rightarrow> bool" where
  "request_inv m \<longleftrightarrow>
     dict_wf (nm_requests m) \<and> distinct (map snd (nm_requests m)) \<and>
     list_all (\<lambda>p. snd p < nm_next m) (nm_requests m) \<and>
     list_all (\<lambda>f. f < nm_next m) (dict_keys (nm_futures m))"

text \<open>What a step may do to the requests: leave them, settle or drop one, or open one with a fresh
  future. A future that holds a reply keeps it.\<close>

definition futures_kept :: "node_manager \<Rightarrow> node_manager \<Rightarrow> bool" where
  "futures_kept m m' \<longleftrightarrow>
     (\<forall>f r. map_of (nm_futures m) f = Some (FDone r) \<longrightarrow> map_of (nm_futures m') f = Some (FDone r))"

definition request_step :: "node_manager \<Rightarrow> node_manager \<Rightarrow> bool" where
  "request_step m m' \<longleftrightarrow> (request_inv m \<longrightarrow> request_inv m' \<and> futures_kept m m')"

lemma request_step_same:
  "nm_requests m' = nm_requests m \<Longrightarrow> nm_futures m' = nm_futures m \<Longrightarrow> nm_next m \<le> nm_next m' \<Longrightarrow>
     request_step m m'"
  by (fastforce simp: request_step_def request_inv_def futures_kept_def list_all_iff)

lemma request_step_trans: "request_step m m1 \<Longrightarrow> request_step m1 m2 \<Longrightarrow> request_step m m2"
  by (auto simp: request_step_def futures_kept_def)

lemma request_step_pop: "request_step m (pop_request kind rid m)"
  using distinct_map_filter [of snd "nm_requests m" "\<lambda>p. fst p \<noteq> (kind, rid)"]
  by (auto simp: request_step_def request_inv_def pop_request_def futures_kept_def dict_pop_filter list_all_iff
      dict_wf_def dict_keys_def distinct_map_filter)

lemma request_step_settle:
  "map_of (nm_futures m) f = Some v \<Longrightarrow> (\<And>r. v \<noteq> FDone r) \<Longrightarrow> request_step m (set_future f w m)"
  by (auto simp: request_step_def request_inv_def set_future_def futures_kept_def dict_keys_put list_all_iff
      in_dict_keys_iff)

lemma request_step_open: "request_step m (snd (begin_request ok kind rid c command m))"
proof -
  define m1 where "m1 = m\<lparr>nm_futures := dict_put (nm_next m) FPending (nm_futures m),
      nm_requests := dict_put (kind, rid) (nm_next m) (nm_requests m), nm_next := Suc (nm_next m)\<rparr>"
  have "request_inv m1 \<and> futures_kept m m1" if inv: "request_inv m"
  proof -
    have fresh: "nm_next m \<notin> snd ` set (nm_requests m)"
      using inv by (auto simp: request_inv_def list_all_iff)
    have old: "distinct (map snd (nm_requests m))" "dict_wf (nm_requests m)"
      using inv by (auto simp: request_inv_def)
    have "snd p < Suc (nm_next m)" if "p \<in> set (dict_put (kind, rid) (nm_next m) (nm_requests m))" for p
      using distinct_snd_put(2) [OF old(1) fresh old(2), of "(kind, rid)"] that inv
      by (fastforce simp: request_inv_def list_all_iff)
    moreover have "map_of (nm_futures m) (nm_next m) = None"
      using inv in_dict_keys_iff [of "nm_next m" "nm_futures m"] by (auto simp: request_inv_def list_all_iff)
    ultimately show ?thesis
      using inv distinct_snd_put(1) [OF old(1) fresh old(2), of "(kind, rid)"]
      by (auto simp: request_inv_def m1_def dict_keys_put list_all_iff futures_kept_def less_Suc_eq)
  qed
  then have step: "request_step m m1" by (simp add: request_step_def)
  have "snd (begin_request ok kind rid c command m) = (if ok then record_sent c command m1 else pop_request kind rid m1)"
    by (simp add: begin_request_def open_request_future_def Let_def m1_def pop_request_def)
  moreover have "request_step m1 (record_sent c command m1)"
    by (rule request_step_same) (simp_all add: record_sent_def)
  ultimately show ?thesis
    using step request_step_trans request_step_pop by simp
qed

lemma request_step_send: "request_step m (snd (send_or_drop now ok reason c cmd m))"
  by (rule request_step_same) (simp_all add: send_or_drop_def record_sent_def node_frame)

lemma request_step_sending:
  "request_step m (snd (dispatch_audio_instruction now ok r x e t k audio m))"
  "request_step m (snd (dispatch_text_instruction now ok r x e t k text m))"
  "request_step m (snd (start_codex_turn now ok k turn m))"
  "request_step m (snd (supply_interaction_response now ok q action answer answers node m))"
  "request_step m (cancel_run now ok r mode m)"
  using sends_or_nothing request_step_send request_step_same [of m m] by (metis order_refl snd_conv)+

lemma request_step_wait:
  assumes "f \<in> set (dict_keys (nm_futures m))"
  shows "request_step m (snd (finish_request kind rid f m))"
    and "request_step m (abandon_request kind rid f m)"
proof -
  obtain v where v: "map_of (nm_futures m) f = Some v"
    using assms by (auto simp: in_dict_keys_iff)
  have refl: "request_step m m" by (rule request_step_same) simp_all
  have settle: "request_step m (set_future f FCancelled m)" if "v = FPending \<or> v = FCancelled"
    by (rule request_step_settle [OF v]) (use that in auto)
  show "request_step m (snd (finish_request kind rid f m))"
    using v refl settle request_step_trans [OF _ request_step_pop]
    by (cases v) (simp_all add: finish_request_def)
  show "request_step m (abandon_request kind rid f m)"
    using v refl settle request_step_trans [OF _ request_step_pop] request_step_pop
    by (cases v) (simp_all add: abandon_request_def Let_def)
qed

lemma request_step_publish: "request_step m (snd (publish_reply kind reply m))"
proof (cases "map_of (nm_requests m) (kind, rp_request_id reply)")
  case None
  then show ?thesis by (simp add: publish_reply_def request_step_same)
next
  case (Some f)
  define m1 where "m1 = pop_request kind (rp_request_id reply) m"
  have "request_step m1 (if map_of (nm_futures m1) f = Some FPending then set_future f (FDone reply) m1 else m1)"
    using request_step_settle [of m1 f FPending] request_step_same [of m1 m1] by simp
  then show ?thesis
    using Some request_step_trans [OF request_step_pop [of m kind "rp_request_id reply"]]
    unfolding m1_def by (simp add: publish_reply_def Let_def split: if_splits)
qed

lemma request_step_register: "request_step m (snd (register_connection hash now now' ws msg m))"
  by (rule request_step_same)
    (auto simp: register_connection_def Let_def node_frame drop_connection_def split: option.split)

lemma request_step_dispatch: "request_step m (snd (dispatch_run now ok cmd node m))"
  by (rule request_step_same)
    (auto simp: dispatch_run_def Let_def new_run_queue_def queue_put_def send_or_drop_def record_sent_def
      node_frame split: option.split)

lemma request_step_others:
  "request_step m (disconnect now ws reason m)"
  "request_step m (finish_run r m)"
  "request_step m (snd (publish_run_event now ws ev m))"
  "request_step m (snd (publish_codex_thread_event now ws te m))"
  "request_step m (snd (publish_codex_turn_event now ws k m))"
  "request_step m (snd (begin_read_file ok rid k thread_id xid path m))"
  "request_step m (snd (read_file_next rid m))"
  "request_step m (close_read_file rid m)"
  "request_step m (snd (publish_workspace_file rid file m))"
  "request_step m (snd (manager_create_node hash uid token name es acpx m))"
  "request_step m (snd (manager_update_node k name' es' acpx m))"
  "request_step m (close_connection now k reason m)"
  "request_step m (m\<lparr>nm_registry := g\<rparr>)"
  subgoal by (rule request_step_same) (simp_all add: node_frame)
  subgoal by (rule request_step_same) (simp_all add: finish_run_def)
  subgoal by (rule request_step_same) (simp_all add: publish_run_event_def queue_put_def Let_def split: option.split)
  subgoal by (rule request_step_same) (simp_all add: publish_codex_thread_event_def)
  subgoal by (rule request_step_same) (simp_all add: publish_codex_turn_event_def)
  subgoal by (rule request_step_same) (simp_all add: begin_read_file_def record_sent_def split: option.split)
  subgoal by (rule request_step_same) (simp_all add: read_file_next_def Let_def split: list.split file_message.split)
  subgoal by (rule request_step_same) (simp_all add: close_read_file_def)
  subgoal by (rule request_step_same) (simp_all add: publish_workspace_file_def split: option.split)
  subgoal by (rule request_step_same) (simp_all add: manager_create_node_def case_prod_beta)
  subgoal by (rule request_step_same) (simp_all add: manager_update_node_def case_prod_beta)
  subgoal by (rule request_step_same) (simp_all add: close_connection_def node_frame split: option.split)
  subgoal by (rule request_step_same) simp_all
  done

lemma request_step_credentials:
  "request_step m (snd (rotate_node_credentials hash now token k m))"
  "request_step m (snd (manager_delete_node now k m))"
  using request_step_same [of m m] request_step_trans [OF request_step_others(13) request_step_others(12)]
    request_step_trans [OF request_step_others(12) request_step_others(13)]
  by (auto simp: rotate_node_credentials_def manager_delete_node_def Let_def case_prod_beta
      split: prod.split sum.split)

lemma node_step_requests: "node_step hash m m' \<Longrightarrow> request_step m m'"
  by (induction rule: node_step.induct)
    (simp_all add: request_step_register request_step_dispatch request_step_sending request_step_open
      request_step_wait request_step_publish request_step_credentials request_step_others)

lemma node_steps_requests: "(node_step hash)\<^sup>*\<^sup>* m m' \<Longrightarrow> request_step m m'"
  by (induction rule: rtranclp_induct) (auto intro: request_step_same request_step_trans node_step_requests)

lemma request_inv_reachable: "node_reachable hash m \<Longrightarrow> request_inv m"
proof -
  assume "node_reachable hash m"
  then obtain detached g where "request_step (node_manager_init detached g) m"
    unfolding node_reachable_def using node_steps_requests by blast
  moreover have "request_inv (node_manager_init detached g)"
    by (simp add: request_inv_def node_manager_init_def)
  ultimately show ?thesis by (simp add: request_step_def)
qed

text \<open>C13: a reply goes to the request it names and to no other, once. It is accepted while the
  request waits; it settles the future of that request, which no other request shares, and no other
  future; whatever happens afterwards, the waiting caller gets exactly this reply (its failure as
  the error); a second reply to the same request is refused.\<close>

theorem reply_reaches_its_request_once:
  assumes "node_reachable hash m"
    and waiting: "map_of (nm_requests m) (kind, rp_request_id msg) = Some f"
      "map_of (nm_futures m) f = Some FPending"
    and "publish_reply kind msg m = (a, m1)" and "(node_step hash)\<^sup>*\<^sup>* m1 m2"
    and "rp_request_id again = rp_request_id msg"
  shows "ack_ok a
    \<and> (map_of (nm_requests m) p = Some f) = (p = (kind, rp_request_id msg))
    \<and> map_of (nm_futures m1) g = (if g = f then Some (FDone msg) else map_of (nm_futures m) g)
    \<and> finish_request kind (rp_request_id msg) f m2 =
        (if rp_ok msg then Inr msg
         else Inl (RuntimeError (str_or_else (rp_error msg) (failure_message kind))), m2)
    \<and> \<not> ack_ok (fst (publish_reply kind again m1))"
proof -
  have inv: "request_inv m" by (rule request_inv_reachable [OF assms(1)])
  have inj: "inj_on snd (set (nm_requests m))" using inv by (simp add: request_inv_def distinct_map)
  have m1: "m1 = set_future f (FDone msg) (pop_request kind (rp_request_id msg) m)"
    and a: "a = ack_of (reply_type kind) True None ''queued''"
    using waiting assms(4) by (auto simp: publish_reply_def Let_def pop_request_def)
  have "request_inv m1" using request_step_publish [of m kind msg] inv assms(4) by (simp add: request_step_def)
  moreover have "map_of (nm_futures m1) f = Some (FDone msg)" by (simp add: m1 set_future_def)
  ultimately have "map_of (nm_futures m2) f = Some (FDone msg)"
    using node_steps_requests [OF assms(5)] by (simp add: request_step_def futures_kept_def)
  moreover have "(map_of (nm_requests m) p = Some f) = (p = (kind, rp_request_id msg))"
    using waiting(1) map_of_SomeD [of "nm_requests m" p f] map_of_SomeD [OF waiting(1)]
      inj_onD [OF inj, of "(p, f)" "((kind, rp_request_id msg), f)"] by auto
  ultimately show ?thesis
    using assms(6)
    by (auto simp: a m1 ack_of_def set_future_def pop_request_def finish_request_def publish_reply_def)
qed

section \<open>Reading a workspace file\<close>

text \<open>The consumer of \<open>read_workspace_file\<close>: it resumes the generator until it ends, at most \<open>n\<close> times.\<close>

fun consume_file :: "nat \<Rightarrow> str \<Rightarrow> node_manager \<Rightarrow> str list \<times> unit result option \<times> node_manager" where
  "consume_file 0 rid m = ([], None, m)"
| "consume_file (Suc n) rid m =
     (case read_file_next rid m of
        (Inl e, m') \<Rightarrow> ([], Some (Inl e), m')
      | (Inr None, m') \<Rightarrow> ([], Some (Inr ()), m')
      | (Inr (Some d), m') \<Rightarrow> (let (ds, e, m2) = consume_file n rid m' in (d # ds, e, m2)))"

definition publish_files :: "str \<Rightarrow> file_message list \<Rightarrow> node_manager \<Rightarrow> node_manager" where
  "publish_files rid msgs m = fold (\<lambda>f m. snd (publish_workspace_file rid f m)) msgs m"

fun leading_chunks :: "file_message list \<Rightarrow> str list" where
  "leading_chunks (FileChunk n d # fs) = d # leading_chunks fs"
| "leading_chunks fs = []"

fun stream_outcome :: "file_message list \<Rightarrow> unit result" where
  "stream_outcome (FileChunk n d # fs) = stream_outcome fs"
| "stream_outcome (FileEof n h # fs) = Inr ()"
| "stream_outcome (FileError c t # fs) = Inl (WorkspaceFileDenied c t)"
| "stream_outcome [] = Inl (WorkspaceFileUnavailable ''node_offline'' ''timed out'')"

lemma dict_pop_put [simp]: "dict_pop k (dict_put k v d) = dict_pop k d"
  unfolding dict_pop_filter dict_put_def by (induction d) auto

lemma publish_files_queue:
  "map_of (nm_file_streams m) rid = Some q \<Longrightarrow>
     map_of (nm_file_streams (publish_files rid msgs m)) rid = Some (q @ msgs) \<and>
     dict_pop rid (nm_file_streams (publish_files rid msgs m)) = dict_pop rid (nm_file_streams m) \<and>
     publish_files rid msgs m =
       m\<lparr>nm_file_streams := nm_file_streams (publish_files rid msgs m)\<rparr>"
proof (induction msgs arbitrary: m q)
  case Nil
  then show ?case by (simp add: publish_files_def)
next
  case (Cons f fs)
  define m1 where "m1 = m\<lparr>nm_file_streams := dict_put rid (q @ [f]) (nm_file_streams m)\<rparr>"
  have eq: "publish_files rid (f # fs) m = publish_files rid fs m1"
    using Cons.prems by (simp add: publish_files_def publish_workspace_file_def m1_def)
  have m1: "map_of (nm_file_streams m1) rid = Some (q @ [f])"
      "dict_pop rid (nm_file_streams m1) = dict_pop rid (nm_file_streams m)"
    by (simp_all add: m1_def)
  have upd: "m1\<lparr>nm_file_streams := d\<rparr> = m\<lparr>nm_file_streams := d\<rparr>" for d
    by (simp add: m1_def)
  show ?case
    unfolding eq using Cons.IH [OF m1(1)] m1(2) upd by (metis append.assoc append_Cons append_Nil)
qed

lemma consume_file_queue:
  "map_of (nm_file_streams m) rid = Some msgs \<Longrightarrow> length msgs < n \<Longrightarrow>
     consume_file n rid m =
       (leading_chunks msgs, Some (stream_outcome msgs),
        m\<lparr>nm_file_streams := dict_pop rid (nm_file_streams m)\<rparr>)"
proof (induction msgs arbitrary: m n rule: leading_chunks.induct)
  case (1 k d fs)
  obtain n' where n: "n = Suc n'" using "1.prems" by (cases n) auto
  define m1 where "m1 = m\<lparr>nm_file_streams := dict_put rid fs (nm_file_streams m)\<rparr>"
  have "consume_file n' rid m1 = (leading_chunks fs, Some (stream_outcome fs),
      m1\<lparr>nm_file_streams := dict_pop rid (nm_file_streams m1)\<rparr>)"
    using "1.IH" [of m1 n'] "1.prems" n by (simp add: m1_def)
  moreover have "read_file_next rid m = (Inr (Some d), m1)"
    using "1.prems" by (simp add: read_file_next_def dd_get_def m1_def)
  ultimately show ?case by (simp add: n) (simp add: m1_def)
next
  case "2_1"
  then show ?case by (cases n) (simp_all add: read_file_next_def dd_get_def)
next
  case "2_2"
  then show ?case by (cases n) (simp_all add: read_file_next_def dd_get_def)
next
  case "2_3"
  then show ?case by (cases n) (simp_all add: read_file_next_def dd_get_def)
qed


section \<open>The properties on a concrete manager\<close>

definition demo_codex :: executor_node_executor where
  "demo_codex =
     \<lparr>xe_executor_type = ''codex'', xe_supports_resume = True, xe_supports_follow_up = True,
      xe_supports_audio_instruction = False, xe_supports_thread_list = True, xe_supports_pause = False,
      xe_supports_cancel = True, xe_version = None, xe_minimum_version = None,
      xe_availability_reason = None, xe_skills = []\<rparr>"

definition demo_offline :: node_manager where
  "demo_offline = node_manager_init [''codex'']
     (registry_run rev [RgCreate ''1'' ''token'' ''laptop'' [''codex''] None] registry_empty)"

definition demo_register :: register_message where
  "demo_register = \<lparr>rm_node_id = ''node-1'', rm_token = ''token'', rm_executors = [demo_codex], rm_metadata = []\<rparr>"

definition demo_dispatch :: dispatch_run_command where
  "demo_dispatch =
     \<lparr>dr_run_id = ''r1'', dr_execution_session_id = ''s1'', dr_executor_type = ''codex'', dr_task_id = ''t1'',
      dr_title = ''a'', dr_goal = ''b'', dr_latest_instruction = None, dr_workspace_id = None,
      dr_task_metadata = [], dr_latest_resume_handle = None\<rparr>"

definition demo_online :: node_manager where
  "demo_online = snd (register_connection rev ''now'' ''now'' 7 demo_register demo_offline)"

definition demo_running :: node_manager where
  "demo_running = snd (dispatch_run ''now'' True demo_dispatch (Some ''node-1'') demo_online)"

definition demo_conn :: node_conn where
  "demo_conn = the (connection_for_node demo_running ''node-1'')"

definition demo_asking :: node_manager where
  "demo_asking = snd (begin_request True RK_THREAD_READ ''q1'' demo_conn (ReadCodexThread ''q1'' ''th'') demo_running)"

lemmas demo_defs = demo_codex_def demo_offline_def demo_register_def demo_dispatch_def demo_online_def
  demo_running_def demo_conn_def demo_asking_def

lemma demo_conn_known: "connection_for_node demo_running ''node-1'' = Some demo_conn"
proof -
  have "(case connection_for_node demo_running ''node-1'' of None \<Rightarrow> False | Some c \<Rightarrow> True)" by code_simp
  then show ?thesis by (simp add: demo_conn_def split: option.splits)
qed

lemma demo_reachable:
  "node_reachable rev demo_online" "node_reachable rev demo_running" "node_reachable rev demo_asking"
proof -
  have a: "node_step rev demo_offline demo_online"
    unfolding demo_online_def by (rule node_step.intros)
  have b: "node_step rev demo_online demo_running"
    unfolding demo_running_def by (rule node_step.intros)
  have c: "node_step rev demo_running demo_asking"
    unfolding demo_asking_def by (rule node_step.intros, rule demo_conn_known)
  have 1: "(node_step rev)\<^sup>*\<^sup>* demo_offline demo_online" using a by simp
  have 2: "(node_step rev)\<^sup>*\<^sup>* demo_offline demo_running" using 1 b by simp
  have 3: "(node_step rev)\<^sup>*\<^sup>* demo_offline demo_asking" using 2 c by simp
  show "node_reachable rev demo_online" "node_reachable rev demo_running" "node_reachable rev demo_asking"
    using 1 2 3 unfolding node_reachable_def demo_offline_def by blast+
qed

lemma demo_facts:
  "node_id_for_websocket demo_running 7 = Some ''node-1''"
  "map_option ds_node_id (map_of (nm_run_states demo_running) ''r1'') = Some (Some ''node-1'')"
  "map_of (nm_requests demo_asking) (RK_THREAD_READ, ''q1'') = Some 1"
  "map_of (nm_futures demo_asking) 1 = Some FPending"
  by code_simp+

lemma connections_sound_witness: "distinct (map (nc_websocket \<circ> snd) (nm_connections demo_running))"
  using connections_sound [OF demo_reachable(2)] by blast

lemma revoked_node_is_cut_off_witness:
  "connection_for_node (snd (rotate_node_credentials rev ''now'' ''new'' ''node-1'' demo_running)) ''node-1'' = None"
proof -
  have "is_ok (fst (rotate_node_credentials rev ''now'' ''new'' ''node-1'' demo_running))" by code_simp
  then obtain x m1 where r: "rotate_node_credentials rev ''now'' ''new'' ''node-1'' demo_running = (Inr x, m1)"
    by (cases "rotate_node_credentials rev ''now'' ''new'' ''node-1'' demo_running";
        cases "fst (rotate_node_credentials rev ''now'' ''new'' ''node-1'' demo_running)") auto
  obtain removed m2 where d: "manager_delete_node ''now'' ''node-1'' demo_running = (removed, m2)"
    by (cases "manager_delete_node ''now'' ''node-1'' demo_running")
  show ?thesis using revoked_node_is_cut_off [OF demo_reachable(2) r d, of "''node-1''"] r by simp
qed

definition demo_event :: run_event_message where
  "demo_event = \<lparr>re_run_id = ''r1'', re_session_id = ''s1'', re_event_type = EV_COMPLETED, re_message = None,
     re_metadata = [], re_latest_resume_handle = None\<rparr>"


lemma lost_node_drains_its_runs_witness:
  "\<not> is_node_connected (disconnect ''now'' 7 ''closed'' demo_running) ''node-1'' \<and>
   run_events (disconnect ''now'' 7 ''closed'' demo_running) ''r1'' = None"
proof -
  obtain st where "map_of (nm_run_states demo_running) ''r1'' = Some st" "ds_node_id st = Some ''node-1''"
    using demo_facts(2) by auto
  then show ?thesis
    using lost_node_drains_its_runs [OF demo_reachable(2) demo_facts(1), of "''now''" "''closed''" "''r1''"] by auto
qed

lemma dispatch_outcome_witness:
  "dd_get (nm_queues (snd (dispatch_run ''now'' True demo_dispatch None demo_online)))
     (fst (dispatch_run ''now'' True demo_dispatch None demo_online)) =
   [waiting_envelope ''r1'' ''s1'' ''Waiting for this bro to be bound to an executor node.'' None (Some ''bro_unbound'')]"
proof -
  obtain q m' where d: "dispatch_run ''now'' True demo_dispatch None demo_online = (q, m')"
    by (cases "dispatch_run ''now'' True demo_dispatch None demo_online")
  show ?thesis using dispatch_outcome [OF demo_reachable(1) d] d by (simp add: demo_dispatch_def)
qed

definition demo_reply :: node_reply where
  "demo_reply = \<lparr>rp_request_id = ''q1'', rp_node_id = ''node-1'', rp_ok = True, rp_error = None,
     rp_payload = ThreadRead []\<rparr>"

lemma reply_reaches_its_request_once_witness:
  "finish_request RK_THREAD_READ ''q1'' 1 (snd (publish_reply RK_THREAD_READ demo_reply demo_asking)) =
     (Inr demo_reply, snd (publish_reply RK_THREAD_READ demo_reply demo_asking))"
proof -
  obtain a m1 where p: "publish_reply RK_THREAD_READ demo_reply demo_asking = (a, m1)"
    by (cases "publish_reply RK_THREAD_READ demo_reply demo_asking")
  have w: "map_of (nm_requests demo_asking) (RK_THREAD_READ, rp_request_id demo_reply) = Some 1"
    using demo_facts(3) by (simp add: demo_reply_def)
  show ?thesis
    using reply_reaches_its_request_once [OF demo_reachable(3) w demo_facts(4) p rtranclp.rtrancl_refl refl] p
    by (simp add: demo_reply_def)
qed


end
