(* ===== verification/ThreadText.thy ===== *)
theory ThreadText
  imports PyText "HOL-Library.Option_ord" "HOL-Library.Product_Lexorder"
begin

text \<open>
  The first half of \<open>src/newbro/runtime/bro_detail_thread_helpers.py\<close>: what the views of a bro's
  threads read out of tasks, runs, resume handles and the native thread items of an executor
  (titles, statuses, texts, plans, times). Native items are JSON values. \<open>stamp\<close> is
  \<open>datetime.fromtimestamp(v, tz=UTC).isoformat()\<close>, \<open>None\<close> where that raises. The ideographic full
  stop and the full-width marks that some suffix tests also name lie outside the characters of
  this development.
\<close>

section \<open>Words, lines and suffixes\<close>

text \<open>\<open>s.split()\<close>.\<close>

fun py_split_from :: "str \<Rightarrow> str \<Rightarrow> str list" where
  "py_split_from acc [] = (if acc = [] then [] else [rev acc])"
| "py_split_from acc (c # s) =
     (if py_isspace c then (if acc = [] then py_split_from [] s else rev acc # py_split_from [] s)
      else py_split_from (c # acc) s)"

definition py_split :: "str \<Rightarrow> str list" where
  "py_split s = py_split_from [] s"

definition rstrip_chars :: "char list \<Rightarrow> str \<Rightarrow> str" where
  "rstrip_chars cs s = rev (dropWhile (\<lambda>c. c \<in> set cs) (rev s))"

text \<open>\<open>s.splitlines()\<close> for characters below 256.\<close>

definition is_line_break :: "char \<Rightarrow> bool" where
  "is_line_break c = (let n = of_char c :: nat in 10 \<le> n \<and> n \<le> 13 \<or> 28 \<le> n \<and> n \<le> 30 \<or> n = 133)"

fun splitlines_from :: "str \<Rightarrow> str \<Rightarrow> str list" where
  "splitlines_from acc [] = (if acc = [] then [] else [rev acc])"
| "splitlines_from acc (c # s) =
     (if is_line_break c then
        rev acc # (case s of
          d # s' \<Rightarrow> if of_char c = (13 :: nat) \<and> of_char d = (10 :: nat) then splitlines_from [] s'
                    else splitlines_from [] s
        | [] \<Rightarrow> [])
      else splitlines_from (c # acc) s)"

definition py_splitlines :: "str \<Rightarrow> str list" where
  "py_splitlines s = splitlines_from [] s"

text \<open>\<open>s.rsplit(sep, 1)[-1]\<close> and \<open>s.split(sep, 1)[1]\<close> for a one-character separator; the second
  only where the separator occurs.\<close>

definition after_last :: "char \<Rightarrow> str \<Rightarrow> str" where
  "after_last sep s = rev (takeWhile (\<lambda>c. c \<noteq> sep) (rev s))"

definition after_first :: "char \<Rightarrow> str \<Rightarrow> str" where
  "after_first sep s = drop 1 (dropWhile (\<lambda>c. c \<noteq> sep) s)"

section \<open>Titles and identifiers\<close>

definition shorten_title :: "str \<Rightarrow> str" where
  "shorten_title title =
     (let t = (if length title > 72 then py_rstrip (take 69 title) @ ''...'' else title)
      in if t = [] then ''Draft task'' else t)"

definition title_from_draft_text :: "str \<Rightarrow> str" where
  "title_from_draft_text s = shorten_title (rstrip_chars ''.'' (py_join '' '' (py_split (py_strip s))))"

definition bro_thread_prefix :: str where
  "bro_thread_prefix = ''bro-thread-''"

definition imported_codex_thread_prefix :: str where
  "imported_codex_thread_prefix = ''codex-import-''"

definition codex_thread_alias_key :: "str \<Rightarrow> str \<Rightarrow> str" where
  "codex_thread_alias_key persona thread = persona @ '':'' @ thread"

text \<open>\<open>sha256\<close> is the hexadecimal digest of a string.\<close>

definition imported_bro_thread_id :: "(str \<Rightarrow> str) \<Rightarrow> str \<Rightarrow> str \<Rightarrow> str" where
  "imported_bro_thread_id sha256 persona thread =
     imported_codex_thread_prefix @ take 16 (sha256 (codex_thread_alias_key persona thread))"

definition public_thread_id :: "execution_session \<Rightarrow> str" where
  "public_thread_id s =
     (case s_continuity_key s of
        Some k \<Rightarrow>
          if py_startswith k bro_thread_prefix \<or> py_startswith k imported_codex_thread_prefix then k
          else s_execution_session_id s
      | None \<Rightarrow> s_execution_session_id s)"

definition session_matches_thread_id :: "execution_session \<Rightarrow> str \<Rightarrow> bool" where
  "session_matches_thread_id s k \<longleftrightarrow>
     k \<in> {s_execution_session_id s, str_or_else (s_continuity_key s) [], public_thread_id s}"

section \<open>Tasks\<close>

definition task_belongs_to_persona :: "task option \<Rightarrow> str \<Rightarrow> bool" where
  "task_belongs_to_persona t k =
     (case t of
        None \<Rightarrow> False
      | Some t \<Rightarrow>
          jget (t_metadata t) ''persona_id'' = JStr k \<or> jget (t_metadata t) ''assigned_bro_id'' = JStr k)"

definition task_metadata_string :: "task option \<Rightarrow> str \<Rightarrow> str option" where
  "task_metadata_string t k = (case t of None \<Rightarrow> None | Some t \<Rightarrow> jstr_nonempty (jget (t_metadata t) k))"

fun option_label :: "str \<Rightarrow> json list \<Rightarrow> str option" where
  "option_label selected [] = None"
| "option_label selected (x # xs) =
     (case x of
        JObj d \<Rightarrow>
          if jget d ''id'' \<noteq> JStr selected then option_label selected xs
          else (case jstr_nonblank (jget d ''label'') of
                  Some l \<Rightarrow> Some (py_strip l)
                | None \<Rightarrow> option_label selected xs)
      | _ \<Rightarrow> option_label selected xs)"

definition selected_plan_option_label :: "interaction_request \<Rightarrow> str option" where
  "selected_plan_option_label q =
     (case jstr_nonempty (jget (i_details q) ''selected_option_id'') of
        None \<Rightarrow> None
      | Some selected \<Rightarrow>
          (case jget (i_details q) ''proposal'' of
             JObj p \<Rightarrow> (case jget p ''options'' of JList xs \<Rightarrow> option_label selected xs | _ \<Rightarrow> None)
           | _ \<Rightarrow> None))"

definition task_thread_public_id :: "task \<Rightarrow> str option" where
  "task_thread_public_id t =
     str_or (task_metadata_string (Some t) ''target_thread_id'') (task_metadata_string (Some t) ''bro_thread_id'')"

definition task_updated_at :: "task option \<Rightarrow> str option" where
  "task_updated_at t =
     str_or (task_metadata_string t ''updated_at'')
       (str_or (task_metadata_string t ''completed_at'') (task_metadata_string t ''created_at''))"

definition resume_handle_string :: "agent_resume_handle option \<Rightarrow> str \<Rightarrow> str option" where
  "resume_handle_string h k = (case h of None \<Rightarrow> None | Some h \<Rightarrow> jstr_nonblank (jget (h_opaque h) k))"

section \<open>Statuses\<close>

text \<open>Run and task statuses are strings to Python, so a run's status may match the name of a task
  status.\<close>

definition thread_status_of :: "str \<Rightarrow> str" where
  "thread_status_of v =
     (if v \<in> {run_status_value RS_COMPLETED, task_status_value TS_COMPLETED} then ''completed''
      else if v \<in> {run_status_value RS_FAILED, task_status_value TS_FAILED} then ''failed''
      else if v \<in> {run_status_value RS_CANCELLED, task_status_value TS_CANCELLED, task_status_value TS_STOPPED}
        then ''cancelled''
      else if v \<in> {run_status_value RS_BLOCKED, task_status_value TS_WAITING_USER_INPUT} then ''blocked''
      else if v \<in> {run_status_value RS_RUNNING, run_status_value RS_ASSIGNED, task_status_value TS_RUNNING}
        then ''running''
      else if v \<in> {run_status_value RS_WAITING_EXECUTOR, task_status_value TS_WAITING_EXECUTOR,
                   task_status_value TS_QUEUED, task_status_value TS_CREATED} then ''queued''
      else ''pending'')"

definition thread_status :: "task option \<Rightarrow> execution_run option \<Rightarrow> str" where
  "thread_status t r =
     (case r of
        Some r \<Rightarrow> thread_status_of (run_status_value (r_status r))
      | None \<Rightarrow> (case t of Some t \<Rightarrow> thread_status_of (task_status_value (t_status t)) | None \<Rightarrow> ''pending''))"

definition thread_progress :: "str \<Rightarrow> int" where
  "thread_progress status =
     (if status = ''completed'' then 100 else if status = ''running'' then 60
      else if status = ''blocked'' then 45 else if status = ''queued'' then 20 else 0)"

definition codex_thread_status :: "str option \<Rightarrow> str" where
  "codex_thread_status status =
     (let normalized = py_lower (str_or_else status []) in
        if normalized \<in> {''running'', ''busy''} then ''running''
        else if normalized \<in> {''failed'', ''error'', ''systemerror''} then ''failed''
        else if normalized \<in> {''cancelled'', ''canceled''} then ''cancelled''
        else ''completed'')"

definition codex_thread_status_from_outbound_request :: "str \<Rightarrow> str" where
  "codex_thread_status_from_outbound_request status =
     (if status \<in> {''accepted'', ''running''} then ''running''
      else if status = ''completed'' then ''completed''
      else if status = ''failed'' then ''failed'' else ''pending'')"

definition outbound_request_status_from_codex_event :: "codex_turn_event \<Rightarrow> str" where
  "outbound_request_status_from_codex_event msg =
     (let event_type = py_lower (ct_event_type msg) in
        if \<not> ct_ok msg \<or> event_type \<in> {''failed'', ''cancelled''} then ''failed''
        else if event_type = ''completed'' then ''completed''
        else if event_type \<in> {''progress'', ''plan'', ''blocked'', ''waiting_executor''} then ''running''
        else ''accepted'')"

definition timeline_status_from_codex_event :: "codex_turn_event \<Rightarrow> str" where
  "timeline_status_from_codex_event msg =
     (let event_type = py_lower (ct_event_type msg) in
        if \<not> ct_ok msg \<or> event_type \<in> {''failed'', ''cancelled''} then ''failed''
        else if event_type = ''completed'' then ''completed''
        else if event_type \<in> {''progress'', ''plan'', ''blocked'', ''waiting_executor''} then ''running''
        else ''pending'')"

definition timeline_status :: "task option \<Rightarrow> execution_run option \<Rightarrow> str \<Rightarrow> str" where
  "timeline_status t r fallback =
     (let status = thread_status t r in
        if status = ''blocked'' then ''running''
        else if status = ''queued'' then ''pending''
        else if status \<in> {''pending'', ''running'', ''completed'', ''failed'', ''cancelled''} then status
        else fallback)"

definition task_status_label :: "str \<Rightarrow> str" where
  "task_status_label status = py_replace_char (CHR ''_'') '' '' status"

definition timeline_task_progress :: "str \<Rightarrow> int" where
  "timeline_task_progress status =
     (if status = ''completed'' then 100 else if status = ''running'' then 60
      else if status = ''failed'' then 30 else if status = ''cancelled'' then 30 else 15)"

definition native_reasoning_key :: "str \<Rightarrow> str option \<Rightarrow> str option \<Rightarrow> str option" where
  "native_reasoning_key executor_id thread turn =
     (if \<not> str_truthy thread \<or> \<not> str_truthy turn then None
      else Some (executor_id @ ''::'' @ the thread @ ''::'' @ the turn))"

section \<open>Workspaces and native threads\<close>

record codex_thread_item =
  ctl_thread_id :: str
  ctl_session_id :: "str option"
  ctl_preview :: "str option"
  ctl_title :: "str option"
  ctl_cwd :: "str option"
  ctl_path :: "str option"
  ctl_status :: "str option"
  ctl_created_at :: "int option"
  ctl_updated_at :: "int option"
  ctl_cli_version :: "str option"
  ctl_source :: "str option"
  ctl_diagnostics :: jdict

fun title_from_preview_lines :: "str list \<Rightarrow> str" where
  "title_from_preview_lines [] = ''Imported Codex thread''"
| "title_from_preview_lines (l # ls) =
     (let candidate = py_strip l in
        if candidate = [] then title_from_preview_lines ls
        else if py_startswith (py_lower candidate) ''task:''
          then title_from_draft_text (py_strip (after_first (CHR '':'') candidate))
        else title_from_draft_text candidate)"

definition title_from_codex_thread :: "codex_thread_item \<Rightarrow> str" where
  "title_from_codex_thread x =
     (case ctl_title x of
        Some t \<Rightarrow>
          if py_strip t \<noteq> [] then title_from_draft_text t
          else title_from_preview_lines (py_splitlines (py_strip (str_or_else (ctl_preview x) [])))
      | None \<Rightarrow> title_from_preview_lines (py_splitlines (py_strip (str_or_else (ctl_preview x) []))))"

definition workspace_name :: "str option \<Rightarrow> str option" where
  "workspace_name w =
     (case w of
        None \<Rightarrow> None
      | Some x \<Rightarrow>
          (let backslash = char_of (92 :: nat);
               normalized = rstrip_chars [CHR ''/'', backslash] (py_strip x)
           in if normalized = [] then None
              else
                (let tail = py_strip (after_last (CHR ''/'') (py_replace_char backslash ''/'' normalized))
                 in Some (if tail = [] then normalized else tail))))"

definition workspace_from_resume_handle :: "agent_resume_handle option \<Rightarrow> str option" where
  "workspace_from_resume_handle h =
     (case h of
        None \<Rightarrow> None
      | Some h \<Rightarrow>
          (case jstr_nonblank (jget (h_opaque h) ''cwd'') of
             Some x \<Rightarrow> Some (py_strip x)
           | None \<Rightarrow>
               (case jstr_nonblank (jget (h_opaque h) ''workspace_id'') of
                  Some x \<Rightarrow> Some (py_strip x)
                | None \<Rightarrow> None)))"

definition task_workspace_id :: "task option \<Rightarrow> str option" where
  "task_workspace_id t =
     (case t of
        None \<Rightarrow> None
      | Some t \<Rightarrow>
          (case jstr_nonblank (jget (t_metadata t) ''workspace_id'') of
             Some x \<Rightarrow> Some (py_strip x)
           | None \<Rightarrow>
               (case t_session_affinity t of
                  Some x \<Rightarrow> if py_strip x \<noteq> [] then Some (py_strip x) else None
                | None \<Rightarrow> None)))"

definition is_ephemeral_codex_thread :: "codex_thread_item \<Rightarrow> bool" where
  "is_ephemeral_codex_thread x \<longleftrightarrow> jget (ctl_diagnostics x) ''ephemeral'' = JBool True"

text \<open>A JSON value as a time: a non-blank string as it is, a number as epoch seconds.\<close>

definition timestamp_keys :: "str list" where
  "timestamp_keys = [''createdAt'', ''created_at'', ''timestamp'', ''updatedAt'', ''updated_at'']"

fun first_timestamp :: "(rat \<Rightarrow> str option) \<Rightarrow> jdict \<Rightarrow> str list \<Rightarrow> str option" where
  "first_timestamp stamp d [] = None"
| "first_timestamp stamp d (k # ks) =
     (case jget d k of
        JStr s \<Rightarrow> if py_strip s \<noteq> [] then Some s else first_timestamp stamp d ks
      | v \<Rightarrow> (case jnum v of Some r \<Rightarrow> stamp r | None \<Rightarrow> first_timestamp stamp d ks))"

definition thread_timestamp_from_turn :: "(rat \<Rightarrow> str option) \<Rightarrow> jdict \<Rightarrow> str option" where
  "thread_timestamp_from_turn stamp d = first_timestamp stamp d timestamp_keys"

definition codex_thread_event_timestamp :: "(rat \<Rightarrow> str option) \<Rightarrow> str \<Rightarrow> jdict \<Rightarrow> str" where
  "codex_thread_event_timestamp stamp now params =
     (let t = thread_timestamp_from_turn stamp params;
          t' = (case (t, jget params ''item'') of
                  (None, JObj item) \<Rightarrow> thread_timestamp_from_turn stamp item
                | _ \<Rightarrow> t)
      in str_or_else t' now)"

section \<open>Native items\<close>

fun content_part :: "json \<Rightarrow> str" where
  "content_part (JObj d) = (case jget d ''text'' of JStr s \<Rightarrow> s | _ \<Rightarrow> [])"
| "content_part (JStr s) = s"
| "content_part v = []"

fun first_nonblank :: "jdict \<Rightarrow> str list \<Rightarrow> str option" where
  "first_nonblank d [] = None"
| "first_nonblank d (k # ks) =
     (case jstr_nonblank (jget d k) of Some s \<Rightarrow> Some (py_strip s) | None \<Rightarrow> first_nonblank d ks)"

definition extract_codex_item_text :: "jdict \<Rightarrow> str option" where
  "extract_codex_item_text item =
     (case jstr_nonblank (jget item ''text'') of
        Some s \<Rightarrow> Some (py_strip s)
      | None \<Rightarrow>
          (let from_content = (case jget item ''content'' of
                 JList xs \<Rightarrow> py_strip (concat (map content_part xs))
               | _ \<Rightarrow> [])
           in if from_content \<noteq> [] then Some from_content
              else
                (let from_payload = (case jget item ''payload'' of
                       JObj p \<Rightarrow> first_nonblank p [''message'', ''text'', ''content'']
                     | _ \<Rightarrow> None)
                 in if from_payload \<noteq> None then from_payload
                    else first_nonblank item [''message'', ''input''])))"

definition codex_item_role :: "jdict \<Rightarrow> str option" where
  "codex_item_role item =
     (let item_type = jget item ''type'' in
        if item_type \<in> {JStr ''assistantMessage'', JStr ''agentMessage''} then Some ''assistant''
        else if item_type \<in> {JStr ''userMessage'', JStr ''user_message''} then Some ''user''
        else if (case jget item ''payload'' of
                   JObj p \<Rightarrow> jget p ''type'' = JStr ''user_message'' | _ \<Rightarrow> False) then Some ''user''
        else if jget item ''role'' \<in> {JStr ''user'', JStr ''assistant''} then jstr (jget item ''role'')
        else None)"

definition normalize_codex_plan_status :: "json \<Rightarrow> str" where
  "normalize_codex_plan_status v =
     (case v of
        JStr s \<Rightarrow>
          (let normalized = py_lower (py_replace_char (CHR ''-'') [] (py_replace_char (CHR ''_'') [] s)) in
             if normalized \<in> {''inprogress'', ''running'', ''active''} then ''inProgress''
             else if normalized \<in> {''completed'', ''complete'', ''done''} then ''completed''
             else ''pending'')
      | _ \<Rightarrow> ''pending'')"

definition plan_step_dict :: "str \<Rightarrow> str \<Rightarrow> jdict" where
  "plan_step_dict s status = [(''step'', JStr s), (''status'', JStr status)]"

definition extract_codex_plan_step :: "json \<Rightarrow> jdict option" where
  "extract_codex_plan_step v =
     (case v of
        JStr s \<Rightarrow> if py_strip s \<noteq> [] then Some (plan_step_dict (py_strip s) ''pending'') else None
      | JObj d \<Rightarrow>
          (case first_nonblank d [''step'', ''text'', ''title'', ''description'', ''content''] of
             None \<Rightarrow> None
           | Some s \<Rightarrow> Some (plan_step_dict s (normalize_codex_plan_status (jget d ''status''))))
      | _ \<Rightarrow> None)"

definition extract_codex_plan_steps :: "json \<Rightarrow> jdict list" where
  "extract_codex_plan_steps v = (case v of JList xs \<Rightarrow> List.map_filter extract_codex_plan_step xs | _ \<Rightarrow> [])"

definition extract_codex_plan :: "json \<Rightarrow> jdict option" where
  "extract_codex_plan v =
     (case v of
        JObj value \<Rightarrow>
          (let (source, raw_steps) =
                 (case jget value ''plan'' of
                    JObj raw \<Rightarrow> (raw, jor (jor (jget raw ''plan'') (jget raw ''steps'')) (jget raw ''items''))
                  | raw \<Rightarrow> (value, jor (jor raw (jget value ''steps'')) (jget value ''items'')));
               steps = extract_codex_plan_steps raw_steps;
               explanation = first_nonblank source [''explanation'', ''summary''];
               plan_text = (case first_nonblank source [''text'', ''content''] of
                   Some s \<Rightarrow> Some s
                 | None \<Rightarrow> extract_codex_item_text value)
           in if steps = [] \<and> plan_text = None \<and> explanation = None then None
              else Some ([(''steps'', JList (map JObj steps))] @
                         (case plan_text of Some s \<Rightarrow> [(''text'', JStr s)] | None \<Rightarrow> []) @
                         (case explanation of Some s \<Rightarrow> [(''explanation'', JStr s)] | None \<Rightarrow> [])))
      | _ \<Rightarrow> None)"

definition codex_thread_goal :: "jdict \<Rightarrow> str option" where
  "codex_thread_goal thread =
     (case first_nonblank thread [''goal'', ''objective''] of
        Some g \<Rightarrow> Some g
      | None \<Rightarrow>
          (case jget thread ''goal'' of
             JObj g \<Rightarrow> first_nonblank g [''text'', ''objective'', ''goal'']
           | _ \<Rightarrow> None))"

end
