(* ===== verification/Timeline.thy ===== *)
theory Timeline
  imports ThreadText
begin

text \<open>
  The second half of \<open>src/newbro/runtime/bro_detail_thread_helpers.py\<close>: the timeline of a bro's
  thread. A turn is built from a task with its latest run (\<open>build_newbro_timeline_turns\<close>), from an
  executor's turn event (\<open>timeline_turn_from_event\<close>) or from a native thread
  (\<open>timeline_turns_from_codex_thread\<close>); turns of the same exchange are merged
  (\<open>merge_timeline_turn\<close>) and sorted by time (\<open>build_bro_timeline_projection\<close>). \<open>parse\<close> is
  \<open>datetime.fromisoformat(v).timestamp()\<close>, \<open>None\<close> where that raises; \<open>None\<close> sorts first, as
  \<open>-inf\<close> does. \<open>fr\<close> prints a float.
\<close>

section \<open>Data\<close>

record timeline_message =
  tm_message_id :: str
  tm_role :: str
  tm_kind :: str
  tm_text :: "str option"
  tm_transcript :: "str option"
  tm_audio_id :: "str option"
  tm_duration_ms :: "int option"
  tm_created_at :: "str option"
  tm_updated_at :: "str option"
  tm_status :: str
  tm_metadata :: jdict

record timeline_plan_step =
  tps_step :: str
  tps_status :: str

record timeline_plan =
  tp_text :: "str option"
  tp_explanation :: "str option"
  tp_steps :: "timeline_plan_step list"

record timeline_task =
  tk_task_id :: str
  tk_run_id :: "str option"
  tk_title :: str
  tk_status :: str
  tk_status_label :: str
  tk_progress :: int
  tk_goal :: "str option"
  tk_plan :: "timeline_plan option"
  tk_description :: "str option"
  tk_summary :: "str option"
  tk_created_at :: "str option"
  tk_updated_at :: "str option"
  tk_metadata :: jdict

record timeline_turn =
  tt_turn_id :: str
  tt_thread_id :: str
  tt_persona_id :: str
  tt_executor_id :: str
  tt_owner :: str
  tt_client_request_id :: "str option"
  tt_executor_thread_id :: "str option"
  tt_executor_turn_id :: "str option"
  tt_input_modality :: str
  tt_user :: "timeline_message option"
  tt_assistant :: "timeline_message option"
  tt_task :: "timeline_task option"
  tt_status :: str
  tt_created_at :: "str option"
  tt_updated_at :: "str option"
  tt_metadata :: jdict

section \<open>Turns from an executor's turn events\<close>

definition opt_blank :: "str option \<Rightarrow> bool" where
  "opt_blank a = (case a of Some x \<Rightarrow> py_strip x = [] | None \<Rightarrow> True)"

definition event_timeline_status :: "codex_turn_event \<Rightarrow> str" where
  "event_timeline_status msg =
     (let status = timeline_status_from_codex_event msg in
        if status = ''completed'' \<and> opt_blank (ct_message msg) then ''running'' else status)"

definition timeline_turn_from_event ::
    "outbound_turn_request \<Rightarrow> codex_turn_event \<Rightarrow> str \<Rightarrow> timeline_turn" where
  "timeline_turn_from_event q msg timestamp =
     (let thread = str_or (ct_executor_thread_id msg) (o_executor_thread_id q);
          turn = str_or (ct_executor_turn_id msg) (o_executor_turn_id q);
          stable = str_or_else (o_client_request_id q) (o_request_id q);
          target = (case o_target_thread_id q of Some t \<Rightarrow> t | None \<Rightarrow> ''None'');
          status = event_timeline_status msg;
          modality = o_input_modality q;
          user = (if \<not> str_truthy (o_text q) then None
                  else Some \<lparr>tm_message_id = target @ '':'' @ stable @ '':user'', tm_role = ''user'',
                    tm_kind = (if modality = ''audio'' then ''audio'' else ''text''),
                    tm_text = (if modality = ''text'' then o_text q else None),
                    tm_transcript = (if modality = ''audio'' then o_text q else None),
                    tm_audio_id = o_audio_instruction_id q, tm_duration_ms = None,
                    tm_created_at = Some (str_or_else (o_created_at q) timestamp),
                    tm_updated_at = Some timestamp, tm_status = ''completed'',
                    tm_metadata = [(''source'', JStr ''outbound_turn_request''),
                      (''request_id'', JStr (o_request_id q)),
                      (''instruction_id'', jget (o_metadata q) ''instruction_id''),
                      (''source_audio_instruction_id'', json_of_str (o_audio_instruction_id q))]\<rparr>);
          assistant = (if str_truthy (ct_message msg) \<and> status \<in> {''completed'', ''failed''}
                  then Some \<lparr>tm_message_id = target @ '':'' @ stable @ '':assistant'', tm_role = ''assistant'',
                    tm_kind = ''text'', tm_text = ct_message msg, tm_transcript = None, tm_audio_id = None,
                    tm_duration_ms = None, tm_created_at = Some timestamp, tm_updated_at = Some timestamp,
                    tm_status = status,
                    tm_metadata = [(''source'', JStr ''codex_turn_event''),
                      (''request_id'', JStr (o_request_id q)), (''event_type'', JStr (ct_event_type msg))]\<rparr>
                  else None)
      in \<lparr>tt_turn_id = target @ '':outbound:'' @ stable, tt_thread_id = str_or_else (o_target_thread_id q) [],
          tt_persona_id = o_persona_id q, tt_executor_id = o_executor_id q, tt_owner = ''executor'',
          tt_client_request_id = o_client_request_id q, tt_executor_thread_id = thread,
          tt_executor_turn_id = turn, tt_input_modality = modality, tt_user = user,
          tt_assistant = assistant, tt_task = None, tt_status = status,
          tt_created_at = Some (str_or_else (o_created_at q) timestamp), tt_updated_at = Some timestamp,
          tt_metadata = dict_merge
            [(''source'', JStr ''codex_turn_event''), (''request_id'', JStr (o_request_id q)),
             (''event_type'', JStr (ct_event_type msg)), (''executor_thread_id'', json_of_str thread),
             (''executor_turn_id'', json_of_str turn),
             (''client_request_id'', json_of_str (o_client_request_id q))]
            (ct_metadata msg)\<rparr>)"

section \<open>Plans\<close>

definition plan_string :: "jdict \<Rightarrow> str \<Rightarrow> str option option" where
  "plan_string d k =
     (case map_of d k of
        None \<Rightarrow> Some None
      | Some JNull \<Rightarrow> Some None
      | Some (JStr s) \<Rightarrow> Some (Some s)
      | Some v \<Rightarrow> None)"

definition plan_step_of :: "json \<Rightarrow> timeline_plan_step option" where
  "plan_step_of v =
     (case v of
        JObj d \<Rightarrow>
          (case (map_of d ''step'', map_of d ''status'') of
             (Some (JStr s), None) \<Rightarrow> Some \<lparr>tps_step = s, tps_status = ''pending''\<rparr>
           | (Some (JStr s), Some (JStr st)) \<Rightarrow>
               if st \<in> {''pending'', ''inProgress'', ''completed''}
               then Some \<lparr>tps_step = s, tps_status = st\<rparr> else None
           | _ \<Rightarrow> None)
      | _ \<Rightarrow> None)"

fun plan_steps_of :: "json list \<Rightarrow> timeline_plan_step list option" where
  "plan_steps_of [] = Some []"
| "plan_steps_of (v # vs) =
     (case (plan_step_of v, plan_steps_of vs) of (Some x, Some xs) \<Rightarrow> Some (x # xs) | _ \<Rightarrow> None)"

text \<open>\<open>BroTimelinePlan.model_validate\<close>, and \<open>_timeline_plan\<close>.\<close>

definition validate_timeline_plan :: "jdict \<Rightarrow> timeline_plan option" where
  "validate_timeline_plan d =
     (case (plan_string d ''text'', plan_string d ''explanation'',
            case map_of d ''steps'' of None \<Rightarrow> Some [] | Some (JList xs) \<Rightarrow> plan_steps_of xs | _ \<Rightarrow> None) of
        (Some t, Some e, Some steps) \<Rightarrow> Some \<lparr>tp_text = t, tp_explanation = e, tp_steps = steps\<rparr>
      | _ \<Rightarrow> None)"

definition timeline_plan_of :: "json \<Rightarrow> timeline_plan option" where
  "timeline_plan_of v =
     (case v of
        JObj d \<Rightarrow>
          (case validate_timeline_plan d of
             None \<Rightarrow> None
           | Some p \<Rightarrow>
               if str_truthy (tp_text p) \<or> str_truthy (tp_explanation p) \<or> tp_steps p \<noteq> [] then Some p
               else None)
      | _ \<Rightarrow> None)"

definition run_metadata_dict :: "execution_run option \<Rightarrow> str \<Rightarrow> jdict" where
  "run_metadata_dict r k =
     (case r of None \<Rightarrow> [] | Some r \<Rightarrow> (case jget (r_metadata r) k of JObj d \<Rightarrow> d | _ \<Rightarrow> []))"

definition run_timeline_plan :: "execution_run option \<Rightarrow> timeline_plan option" where
  "run_timeline_plan r = timeline_plan_of (jget (run_metadata_dict r ''latest_plan_event'') ''codex_plan'')"

definition mark_plan_mode :: "timeline_message option \<Rightarrow> timeline_message option" where
  "mark_plan_mode m =
     map_option (\<lambda>m. m\<lparr>tm_metadata := dict_put ''plan_mode'' (JBool True) (tm_metadata m)\<rparr>) m"

definition mark_skill :: "jdict option \<Rightarrow> timeline_message option \<Rightarrow> timeline_message option" where
  "mark_skill skill m =
     (case skill of
        Some (p # d) \<Rightarrow> map_option (\<lambda>m. m\<lparr>tm_metadata := dict_put ''skill'' (JObj (p # d)) (tm_metadata m)\<rparr>) m
      | _ \<Rightarrow> m)"

section \<open>Turns from a native thread\<close>

record item_scan =
  is_user :: "timeline_message option"
  is_assistant :: "timeline_message option"
  is_plan :: "jdict option"
  is_has_plan :: bool
  is_has_assistant :: bool

definition scan_item ::
    "str \<Rightarrow> str \<Rightarrow> str option \<Rightarrow> nat \<times> json \<Rightarrow> item_scan \<Rightarrow> item_scan" where
  "scan_item public turn_id timestamp p sc =
     (case snd p of
        JObj item \<Rightarrow>
          if jget item ''type'' = JStr ''plan''
          then sc\<lparr>is_has_plan := True, is_plan := extract_codex_plan (JObj item)\<rparr>
          else
            (case (codex_item_role item, extract_codex_item_text item) of
               (Some role, Some content) \<Rightarrow>
                 if content = [] then sc
                 else
                   (let sc1 = (if role = ''assistant'' then sc\<lparr>is_has_assistant := True\<rparr> else sc);
                        m = \<lparr>tm_message_id = public @ '':'' @ turn_id @ '':'' @ role, tm_role = role,
                             tm_kind = ''text'', tm_text = Some content, tm_transcript = None,
                             tm_audio_id = None, tm_duration_ms = None, tm_created_at = timestamp,
                             tm_updated_at = None,
                             tm_status = (case jstr_nonempty (jget item ''status'') of
                                Some st \<Rightarrow> st | None \<Rightarrow> ''completed''),
                             tm_metadata = [(''executor_turn_id'', JStr turn_id),
                               (''codex_item_id'', JStr (case jstr_nonempty (jget item ''id'') of
                                   Some i \<Rightarrow> i | None \<Rightarrow> ''item-'' @ py_of_nat (fst p))),
                               (''codex_item_type'', json_of_str (jstr (jget item ''type'')))]\<rparr>
                    in if role = ''assistant'' then
                         (if jget item ''phase'' = JStr ''commentary'' then sc1 else sc1\<lparr>is_assistant := Some m\<rparr>)
                       else sc1\<lparr>is_user := Some m\<rparr>)
             | _ \<Rightarrow> sc)
      | _ \<Rightarrow> sc)"

record pending_user =
  pu_message :: timeline_message
  pu_turn_id :: str
  pu_timestamp :: "str option"

record native_context =
  nx_public :: str
  nx_thread :: str
  nx_persona :: str
  nx_executor :: str
  nx_goal :: "str option"

definition user_only_turn :: "native_context \<Rightarrow> pending_user \<Rightarrow> timeline_turn" where
  "user_only_turn x u =
     \<lparr>tt_turn_id = nx_public x @ '':'' @ nx_executor x @ '':'' @ pu_turn_id u, tt_thread_id = nx_public x,
      tt_persona_id = nx_persona x, tt_executor_id = nx_executor x, tt_owner = ''executor'',
      tt_client_request_id = None, tt_executor_thread_id = Some (nx_thread x),
      tt_executor_turn_id = Some (pu_turn_id u), tt_input_modality = ''text'',
      tt_user = Some (pu_message u), tt_assistant = None, tt_task = None, tt_status = ''completed'',
      tt_created_at = pu_timestamp u, tt_updated_at = pu_timestamp u,
      tt_metadata = [(''source'', JStr ''native_history''), (''executor_thread_id'', JStr (nx_thread x)),
        (''executor_turn_id'', JStr (pu_turn_id u)), (''assistant_title'', json_of_str (tm_text (pu_message u))),
        (''codex_goal'', json_of_str (nx_goal x))]\<rparr>"

definition native_turn_status :: "(rat \<Rightarrow> str) \<Rightarrow> jdict \<Rightarrow> str" where
  "native_turn_status fr turn =
     (let s = py_lower (py_str fr (jor (jget turn ''status'') (JStr []))) in
        if s \<in> {''running'', ''inprogress'', ''in_progress''} then ''running''
        else if s = ''failed'' then ''failed''
        else if s \<in> {''cancelled'', ''canceled''} then ''cancelled''
        else ''completed'')"

definition native_turn ::
    "(rat \<Rightarrow> str) \<Rightarrow> native_context \<Rightarrow> jdict \<Rightarrow> str \<Rightarrow> str option \<Rightarrow> item_scan \<Rightarrow>
     timeline_message option \<Rightarrow> str option \<Rightarrow> timeline_turn" where
  "native_turn fr x turn turn_id timestamp sc paired original =
     (let user = mark_skill (jobj (jget turn ''skill'')) (if is_has_plan sc then mark_plan_mode paired else paired)
      in \<lparr>tt_turn_id = nx_public x @ '':'' @ nx_executor x @ '':'' @ turn_id, tt_thread_id = nx_public x,
          tt_persona_id = nx_persona x, tt_executor_id = nx_executor x, tt_owner = ''executor'',
          tt_client_request_id = None, tt_executor_thread_id = Some (nx_thread x),
          tt_executor_turn_id = Some turn_id,
          tt_input_modality = (if user \<noteq> None then ''text'' else ''unknown''),
          tt_user = user, tt_assistant = is_assistant sc, tt_task = None,
          tt_status = native_turn_status fr turn,
          tt_created_at = (case user of Some u \<Rightarrow> tm_created_at u | None \<Rightarrow> timestamp),
          tt_updated_at = timestamp,
          tt_metadata =
            [(''source'', JStr ''native_history''), (''executor_thread_id'', JStr (nx_thread x)),
             (''executor_turn_id'', JStr turn_id),
             (''assistant_title'', (case user of Some u \<Rightarrow> json_of_str (tm_text u) | None \<Rightarrow> JNull)),
             (''original_user_executor_turn_id'', json_of_str original),
             (''codex_goal'', json_of_str (nx_goal x)),
             (''codex_plan'', (case is_plan sc of Some p \<Rightarrow> JObj p | None \<Rightarrow> JNull))] @
            (if is_has_plan sc then [(''plan_mode'', JBool True)] else [])\<rparr>)"

definition flush_pending :: "native_context \<Rightarrow> pending_user option \<Rightarrow> timeline_turn list" where
  "flush_pending x u = (case u of None \<Rightarrow> [] | Some u \<Rightarrow> [user_only_turn x u])"

definition native_step ::
    "(rat \<Rightarrow> str option) \<Rightarrow> (rat \<Rightarrow> str) \<Rightarrow> native_context \<Rightarrow> nat \<times> json \<Rightarrow>
     timeline_turn list \<times> pending_user option \<Rightarrow> timeline_turn list \<times> pending_user option" where
  "native_step stamp fr x p st =
     (case snd p of
        JObj turn \<Rightarrow>
          (case jget turn ''items'' of
             JList items \<Rightarrow>
               (let turn_id = (case jstr_nonempty (jget turn ''id'') of
                        Some i \<Rightarrow> i | None \<Rightarrow> ''turn-'' @ py_of_nat (fst p));
                    timestamp = thread_timestamp_from_turn stamp turn;
                    sc = fold (scan_item (nx_public x) turn_id timestamp) (List.enumerate 0 items)
                      \<lparr>is_user = None, is_assistant = None, is_plan = None, is_has_plan = False,
                       is_has_assistant = False\<rparr>;
                    (turns, pending) = st
                in if is_user sc = None \<and> is_assistant sc = None \<and> is_plan sc = None then st
                   else
                     (case is_user sc of
                        Some u \<Rightarrow>
                          if is_assistant sc = None \<and> \<not> is_has_plan sc \<and> \<not> is_has_assistant sc
                          then (turns @ flush_pending x pending,
                                Some \<lparr>pu_message = u, pu_turn_id = turn_id, pu_timestamp = timestamp\<rparr>)
                          else if is_assistant sc \<noteq> None \<or> is_has_assistant sc
                          then (turns @ flush_pending x pending @
                                  [native_turn fr x turn turn_id timestamp sc (Some u) None], None)
                          else (turns @ [native_turn fr x turn turn_id timestamp sc (Some u) None], pending)
                      | None \<Rightarrow>
                          (case (is_assistant sc \<noteq> None \<or> is_has_plan sc, pending) of
                             (True, Some u) \<Rightarrow>
                               (turns @ [native_turn fr x turn turn_id timestamp sc
                                   (Some (pu_message u)) (Some (pu_turn_id u))], None)
                           | _ \<Rightarrow>
                               if is_assistant sc \<noteq> None \<or> is_has_assistant sc
                               then (turns @ flush_pending x pending @
                                       [native_turn fr x turn turn_id timestamp sc None None], None)
                               else (turns @ [native_turn fr x turn turn_id timestamp sc None None], pending))))
           | _ \<Rightarrow> st)
      | _ \<Rightarrow> st)"

definition timeline_turns_from_codex_thread ::
    "(rat \<Rightarrow> str option) \<Rightarrow> (rat \<Rightarrow> str) \<Rightarrow> jdict \<Rightarrow> str \<Rightarrow> str \<Rightarrow> str \<Rightarrow> str \<Rightarrow> timeline_turn list" where
  "timeline_turns_from_codex_thread stamp fr thread public executor_thread persona executor =
     (case jget thread ''turns'' of
        JList turns \<Rightarrow>
          (let x = \<lparr>nx_public = public, nx_thread = executor_thread, nx_persona = persona,
                    nx_executor = executor, nx_goal = codex_thread_goal thread\<rparr>;
               (ts, pending) = fold (native_step stamp fr x) (List.enumerate 0 turns) ([], None)
           in ts @ flush_pending x pending)
      | _ \<Rightarrow> [])"

section \<open>Turns from tasks\<close>

text \<open>\<open>{x.key: x for x in xs}.get(k)\<close>: the last one counts.\<close>

definition last_by :: "('a \<Rightarrow> 'k) \<Rightarrow> 'a list \<Rightarrow> 'k \<Rightarrow> 'a option" where
  "last_by key xs k = find (\<lambda>x. key x = k) (rev xs)"

definition last_opt :: "'a list \<Rightarrow> 'a option" where
  "last_opt xs = (if xs = [] then None else Some (last xs))"

fun first_event_string :: "jdict \<Rightarrow> str \<Rightarrow> str list \<Rightarrow> str option" where
  "first_event_string d k [] = None"
| "first_event_string d k (e # es) =
     (case jget d e of
        JObj ev \<Rightarrow>
          (case jstr_nonblank (jget ev k) of Some s \<Rightarrow> Some s | None \<Rightarrow> first_event_string d k es)
      | _ \<Rightarrow> first_event_string d k es)"

definition event_metadata_string :: "execution_run option \<Rightarrow> str \<Rightarrow> str option" where
  "event_metadata_string r k =
     (case r of
        None \<Rightarrow> None
      | Some r \<Rightarrow>
          first_event_string (r_metadata r) k
            [''latest_terminal_event'', ''latest_progress_event'', ''blocked_event''])"

definition task_input_modality :: "task \<Rightarrow> str" where
  "task_input_modality t =
     (let kind = jget (t_metadata t) ''source_kind'' in
        if kind = JStr ''bro_detail_ptt'' then ''audio''
        else if kind = JStr ''bro_detail_text'' then ''text''
        else if jtruthy (jget (t_metadata t) ''source_audio_instruction_id'') then ''audio''
        else if str_truthy (t_latest_instruction t) \<or> t_goal t \<noteq> [] then ''text'' else ''unknown'')"

definition direct_user_text :: "task \<Rightarrow> str" where
  "direct_user_text t =
     (case task_metadata_string (Some t) ''user_visible_text'' of
        Some s \<Rightarrow> s
      | None \<Rightarrow>
          (let goal = py_strip (t_goal t); title = py_strip (t_title t);
               instruction = py_strip (str_or_else (t_latest_instruction t) [])
           in if instruction = [] then (if goal \<noteq> [] then goal else title)
              else if goal \<noteq> [] \<and> py_contains instruction goal then goal
              else if title \<noteq> [] \<and> py_contains instruction title then title
              else instruction))"

definition summary_text_for_timeline ::
    "task \<Rightarrow> execution_run option \<Rightarrow> task_summary option \<Rightarrow> str" where
  "summary_text_for_timeline t r y =
     (let from_summary = (case y of
            None \<Rightarrow> None | Some y \<Rightarrow> str_or (sm_conversational_summary y) (sm_operational_summary y));
          from_run = (case r of
            None \<Rightarrow> None
          | Some r \<Rightarrow> str_or (r_output_summary r) (str_or (r_failure_reason r)
                       (str_or (r_block_reason r) (r_latest_progress_message r))))
      in str_or_else (str_or from_summary from_run) (if t_goal t \<noteq> [] then t_goal t else t_title t))"

definition nonempty :: "str \<Rightarrow> str option" where
  "nonempty s = (if s = [] then None else Some s)"

definition audio_transcript_for_task :: "task \<Rightarrow> execution_run option \<Rightarrow> str option" where
  "audio_transcript_for_task t r =
     (case jstr_nonempty (jget (t_metadata t) ''source_audio_instruction_id'') of
        None \<Rightarrow> None
      | Some a \<Rightarrow>
          (case jstr_nonblank (jget (run_metadata_dict r ''audio_transcripts'') a) of
             Some s \<Rightarrow> Some (py_strip s)
           | None \<Rightarrow> nonempty (py_strip (str_or_else (t_latest_instruction t) []))))"

definition plan_mode_entry :: "task \<Rightarrow> jdict" where
  "plan_mode_entry t =
     (if jget (t_metadata t) ''plan_mode'' = JBool True then [(''plan_mode'', JBool True)] else [])"

definition newbro_user_message ::
    "task \<Rightarrow> execution_run option \<Rightarrow> str \<Rightarrow> str option \<Rightarrow> str option \<Rightarrow> timeline_message" where
  "newbro_user_message t r status created updated =
     (let audio = task_input_modality t = ''audio'';
          user_text = nonempty (direct_user_text t)
      in \<lparr>tm_message_id = t_task_id t @ '':user'', tm_role = ''user'',
          tm_kind = (if audio then ''audio'' else ''text''),
          tm_text = (if audio then None else user_text),
          tm_transcript = (if audio then str_or (audio_transcript_for_task t r) user_text else None),
          tm_audio_id = (if audio then task_metadata_string (Some t) ''source_audio_instruction_id'' else None),
          tm_duration_ms = None, tm_created_at = created, tm_updated_at = updated,
          tm_status = (if status \<noteq> ''failed'' then ''sent'' else ''failed''),
          tm_metadata = [(''source_kind'', jget (t_metadata t) ''source_kind'')] @ plan_mode_entry t\<rparr>)"

definition newbro_turn ::
    "execution_session list \<Rightarrow> execution_run list \<Rightarrow> task_summary list \<Rightarrow> str \<Rightarrow> str \<Rightarrow> task \<Rightarrow> timeline_turn" where
  "newbro_turn sessions runs summaries public persona t =
     (let r = last_opt (filter (\<lambda>r. r_task_id r = t_task_id t) runs);
          session = (case r of None \<Rightarrow> None | Some r \<Rightarrow>
            last_by s_execution_session_id sessions (r_execution_session_id r));
          status = timeline_status (Some t) r ''pending'';
          created = task_metadata_string (Some t) ''created_at'';
          updated = str_or (task_updated_at (Some t)) created;
          client = task_metadata_string (Some t) ''client_request_id'';
          thread0 = str_or (event_metadata_string r ''executor_thread_id'')
            (str_or (event_metadata_string r ''thread_id'')
              (task_metadata_string (Some t) ''codex_import_thread_id''));
          thread = (case thread0 of
              Some x \<Rightarrow> Some x
            | None \<Rightarrow>
                (case session of
                   None \<Rightarrow> None
                 | Some s \<Rightarrow>
                     (case s_latest_resume_handle s of
                        None \<Rightarrow> None
                      | Some h \<Rightarrow> (if str_truthy (h_session_handle h) then h_session_handle h else None))));
          turn = str_or (event_metadata_string r ''executor_turn_id'') (event_metadata_string r ''turn_id'');
          summary = summary_text_for_timeline t r (last_by sm_task_id summaries (t_task_id t));
          answer = (case r of
              None \<Rightarrow> None
            | Some r \<Rightarrow> str_or (r_output_summary r) (str_or (r_failure_reason r)
                         (str_or (r_block_reason r) (r_latest_progress_message r))));
          raw_status = (case r of Some r \<Rightarrow> run_status_value (r_status r) | None \<Rightarrow> task_status_value (t_status t));
          kind = jget (t_metadata t) ''source_kind''
      in \<lparr>tt_turn_id = public @ '':newbro:'' @ (if client \<noteq> None then the client else t_task_id t),
          tt_thread_id = public, tt_persona_id = persona,
          tt_executor_id = str_or_else (t_preferred_executor t)
            (case r of Some r \<Rightarrow> r_executor_type r | None \<Rightarrow> ''codex''),
          tt_owner = ''newbro'', tt_client_request_id = client, tt_executor_thread_id = thread,
          tt_executor_turn_id = turn, tt_input_modality = task_input_modality t,
          tt_user = Some (newbro_user_message t r status created updated),
          tt_assistant =
            (if str_truthy answer
             then Some \<lparr>tm_message_id = t_task_id t @ '':assistant'', tm_role = ''assistant'', tm_kind = ''text'',
                        tm_text = answer, tm_transcript = None, tm_audio_id = None, tm_duration_ms = None,
                        tm_created_at = updated, tm_updated_at = updated, tm_status = status,
                        tm_metadata = [(''source'', JStr ''newbro_task'')]\<rparr>
             else None),
          tt_task = Some \<lparr>tk_task_id = t_task_id t, tk_run_id = map_option r_run_id r, tk_title = t_title t,
            tk_status = raw_status, tk_status_label = task_status_label raw_status,
            tk_progress = timeline_task_progress status, tk_goal = nonempty (py_strip (t_goal t)),
            tk_plan = run_timeline_plan r, tk_description = Some summary, tk_summary = Some summary,
            tk_created_at = created, tk_updated_at = updated,
            tk_metadata = [(''source_kind'', kind), (''target_thread_id'', JStr public)] @ plan_mode_entry t\<rparr>,
          tt_status = status, tt_created_at = created, tt_updated_at = updated,
          tt_metadata = [(''source'', JStr ''newbro_task''), (''task_id'', JStr (t_task_id t))] @
            plan_mode_entry t @ (case r of Some r \<Rightarrow> [(''run_id'', JStr (r_run_id r))] | None \<Rightarrow> [])\<rparr>)"

definition build_newbro_timeline_turns ::
    "task list \<Rightarrow> execution_session list \<Rightarrow> execution_run list \<Rightarrow> task_summary list \<Rightarrow> timeline_turn list" where
  "build_newbro_timeline_turns tasks sessions runs summaries =
     List.map_filter (\<lambda>t.
       case (task_thread_public_id t,
             str_or (task_metadata_string (Some t) ''persona_id'') (task_metadata_string (Some t) ''assigned_bro_id'')) of
         (Some public, Some persona) \<Rightarrow> Some (newbro_turn sessions runs summaries public persona t)
       | _ \<Rightarrow> None) tasks"

section \<open>Merging\<close>

definition streaming_message_statuses :: "str list" where
  "streaming_message_statuses = [''running'', ''in_progress'', ''inprogress'', ''pending'', ''streaming'']"

definition message_status :: "timeline_message option \<Rightarrow> str" where
  "message_status m = (case m of None \<Rightarrow> [] | Some m \<Rightarrow> py_lower (tm_status m))"

definition still_streaming :: "timeline_message option \<Rightarrow> bool" where
  "still_streaming m \<longleftrightarrow> message_status m \<in> set streaming_message_statuses"

definition opt_else :: "'a option \<Rightarrow> 'a option \<Rightarrow> 'a option" where
  "opt_else a b = (case a of Some x \<Rightarrow> Some x | None \<Rightarrow> b)"

definition turn_settled :: "timeline_turn \<Rightarrow> bool" where
  "turn_settled e \<longleftrightarrow>
     tt_status e \<in> {''failed'', ''cancelled''} \<or>
     tt_status e = ''completed'' \<and> tt_assistant e \<noteq> None \<and> \<not> still_streaming (tt_assistant e)"

definition merged_assistant :: "timeline_turn \<Rightarrow> timeline_turn \<Rightarrow> timeline_message option" where
  "merged_assistant e n =
     (if turn_settled e \<and> still_streaming (tt_assistant n) then tt_assistant e
      else opt_else (tt_assistant n) (tt_assistant e))"

definition merged_status :: "timeline_turn \<Rightarrow> timeline_turn \<Rightarrow> str" where
  "merged_status e n =
     (let assistant = merged_assistant e n;
          status =
            (if tt_status e \<in> {''pending'', ''running''} \<and>
                tt_status n \<in> {''completed'', ''failed'', ''cancelled'', ''running''}
             then (if tt_status n = ''completed'' \<and> assistant = None then ''running'' else tt_status n)
             else tt_status e)
      in if \<not> turn_settled e \<and> status \<notin> {''failed'', ''cancelled''} \<and> assistant \<noteq> None \<and>
            still_streaming assistant
         then ''running'' else status)"

definition merged_task :: "timeline_task option \<Rightarrow> timeline_task option \<Rightarrow> timeline_task option" where
  "merged_task e n =
     (case (e, n) of
        (Some a, Some b) \<Rightarrow>
          Some (a\<lparr>tk_goal := str_or (tk_goal a) (tk_goal b), tk_plan := opt_else (tk_plan b) (tk_plan a),
                  tk_summary := str_or (tk_summary b) (tk_summary a),
                  tk_description := str_or (tk_description b) (tk_description a)\<rparr>)
      | _ \<Rightarrow> opt_else e n)"

definition merged_metadata :: "jdict \<Rightarrow> jdict \<Rightarrow> jdict" where
  "merged_metadata e n =
     fold (\<lambda>(k, v) d. if v \<noteq> JNull \<or> k \<notin> set (dict_keys d) then dict_put k v d else d) n e"

definition merge_timeline_turn :: "timeline_turn \<Rightarrow> timeline_turn \<Rightarrow> timeline_turn" where
  "merge_timeline_turn e n =
     (let metadata = merged_metadata (tt_metadata e) (tt_metadata n);
          user0 = opt_else (tt_user e) (tt_user n);
          user1 = (if jget metadata ''plan_mode'' = JBool True then mark_plan_mode user0 else user0);
          user = mark_skill (jobj (jget metadata ''skill'')) user1
      in e\<lparr>tt_user := user, tt_assistant := merged_assistant e n,
           tt_task := merged_task (tt_task e) (tt_task n), tt_status := merged_status e n,
           tt_client_request_id := str_or (tt_client_request_id e) (tt_client_request_id n),
           tt_executor_thread_id := str_or (tt_executor_thread_id e) (tt_executor_thread_id n),
           tt_executor_turn_id := str_or (tt_executor_turn_id e) (tt_executor_turn_id n),
           tt_input_modality := (if tt_input_modality e \<noteq> ''unknown'' then tt_input_modality e
                                 else tt_input_modality n),
           tt_updated_at := str_or (tt_updated_at n) (tt_updated_at e), tt_metadata := metadata\<rparr>)"

section \<open>The timeline\<close>

definition timeline_identity :: "timeline_turn \<Rightarrow> (str \<times> str \<times> str) option" where
  "timeline_identity t =
     (if \<not> str_truthy (tt_executor_thread_id t) \<or> \<not> str_truthy (tt_executor_turn_id t) then None
      else Some (tt_executor_id t, the (tt_executor_thread_id t), the (tt_executor_turn_id t)))"

text \<open>\<open>DateParseCache\<close>: the cache maps the texts parsed so far to their values.\<close>

definition cached_parse ::
    "(str \<Rightarrow> rat option) \<Rightarrow> str \<Rightarrow> (str, rat option) dict \<Rightarrow> rat option \<times> (str, rat option) dict" where
  "cached_parse parse v cache =
     (if v = [] then (None, cache)
      else (case map_of cache v of
              Some r \<Rightarrow> (r, cache)
            | None \<Rightarrow> (parse v, dict_put v (parse v) cache)))"

definition parse_time :: "(str \<Rightarrow> rat option) \<Rightarrow> str \<Rightarrow> rat option" where
  "parse_time parse v = (if v = [] then None else parse v)"

definition turn_time_text :: "timeline_turn \<Rightarrow> str" where
  "turn_time_text t = str_or_else (tt_created_at t) (str_or_else (tt_updated_at t) [])"

text \<open>\<open>_sort_timeline_turns\<close> computes the key of every turn once, with the shared cache.\<close>

fun timeline_keys ::
    "(str \<Rightarrow> rat option) \<Rightarrow> timeline_turn list \<Rightarrow> (str, rat option) dict \<Rightarrow>
     ((rat option \<times> str) \<times> timeline_turn) list \<times> (str, rat option) dict" where
  "timeline_keys parse [] cache = ([], cache)"
| "timeline_keys parse (t # ts) cache =
     (let (r, c1) = cached_parse parse (turn_time_text t) cache;
          (ks, c2) = timeline_keys parse ts c1
      in (((r, tt_turn_id t), t) # ks, c2))"

definition sort_timeline_turns ::
    "(str \<Rightarrow> rat option) \<Rightarrow> timeline_turn list \<Rightarrow> (str, rat option) dict \<Rightarrow>
     timeline_turn list \<times> (str, rat option) dict" where
  "sort_timeline_turns parse ts cache =
     (let (ks, c) = timeline_keys parse ts cache in (map snd (sort_key fst ks), c))"

record timeline_index =
  ti_merged :: "(str, timeline_turn) dict"
  ti_by_identity :: "(str \<times> str \<times> str, str) dict"
  ti_by_client :: "(str, str) dict"

definition index_identity :: "(str \<times> str \<times> str) option \<Rightarrow> str \<Rightarrow> timeline_index \<Rightarrow> timeline_index" where
  "index_identity i k x =
     (case i of None \<Rightarrow> x | Some i \<Rightarrow> x\<lparr>ti_by_identity := dict_put i k (ti_by_identity x)\<rparr>)"

definition index_turn :: "timeline_turn \<Rightarrow> timeline_index \<Rightarrow> timeline_index" where
  "index_turn t x =
     index_identity (timeline_identity t) (tt_turn_id t)
       (x\<lparr>ti_merged := dict_put (tt_turn_id t) t (ti_merged x),
          ti_by_client := (if str_truthy (tt_client_request_id t)
             then dict_put (the (tt_client_request_id t)) (tt_turn_id t) (ti_by_client x)
             else ti_by_client x)\<rparr>)"

definition place_executor_turn :: "timeline_turn \<Rightarrow> timeline_index \<Rightarrow> timeline_index" where
  "place_executor_turn t x =
     (let by_client = (if str_truthy (tt_client_request_id t)
             then map_of (ti_by_client x) (the (tt_client_request_id t)) else None)
      in case (case by_client of None \<Rightarrow> None
               | Some k \<Rightarrow> map_option (Pair k) (map_of (ti_merged x) k)) of
           Some (k, e) \<Rightarrow>
             (let m = merge_timeline_turn e t
              in index_identity (timeline_identity m) k (x\<lparr>ti_merged := dict_put k m (ti_merged x)\<rparr>))
         | None \<Rightarrow>
             (case (case timeline_identity t of None \<Rightarrow> None
                    | Some i \<Rightarrow>
                        (case map_of (ti_by_identity x) i of None \<Rightarrow> None
                         | Some k \<Rightarrow> map_option (Pair k) (map_of (ti_merged x) k))) of
                Some (k, e) \<Rightarrow> x\<lparr>ti_merged := dict_put k (merge_timeline_turn e t) (ti_merged x)\<rparr>
              | None \<Rightarrow> index_turn t x))"

definition build_timeline_index :: "timeline_turn list \<Rightarrow> timeline_turn list \<Rightarrow> timeline_index" where
  "build_timeline_index newbro executor =
     fold place_executor_turn executor
       (fold index_turn newbro \<lparr>ti_merged = [], ti_by_identity = [], ti_by_client = []\<rparr>)"

definition build_bro_timeline_projection ::
    "(str \<Rightarrow> rat option) \<Rightarrow> task list \<Rightarrow> execution_session list \<Rightarrow> execution_run list \<Rightarrow> task_summary list \<Rightarrow>
     timeline_turn list \<Rightarrow> (str, rat option) dict \<Rightarrow> timeline_turn list \<times> (str, rat option) dict" where
  "build_bro_timeline_projection parse tasks sessions runs summaries executor cache =
     sort_timeline_turns parse
       (dict_values (ti_merged (build_timeline_index
          (build_newbro_timeline_turns tasks sessions runs summaries) executor))) cache"

text \<open>Whether a longer plan text is worth another update.\<close>

definition should_emit_plan_delta :: "str \<Rightarrow> str \<Rightarrow> bool" where
  "should_emit_plan_delta candidate previous =
     (let ends = py_endswith candidate [char_of (10 :: nat), char_of (10 :: nat)] \<or>
            list_ex (\<lambda>c. py_endswith candidate [c]) ''.!?''
      in if candidate = previous then False
         else if previous = [] then length candidate \<ge> 240 \<or> ends
         else length (drop (length previous) candidate) \<ge> 240 \<or> ends)"

end
