(* ===== verification/Timeline_Props.thy ===== *)
theory Timeline_Props
  imports Timeline Tables
begin

text \<open>
  The properties of the timeline: what merging an incoming turn may change of a turn that has
  settled, and what the projection of a thread contains, in which order, with the cache of parsed
  times as an optimisation that changes nothing.
\<close>

section \<open>Merging\<close>

definition merge_all_turns :: "timeline_turn \<Rightarrow> timeline_turn list \<Rightarrow> timeline_turn" where
  "merge_all_turns e ns = foldl merge_timeline_turn e ns"

lemma merge_keeps_id [simp]:
  "tt_turn_id (merge_timeline_turn e n) = tt_turn_id e"
  "tt_thread_id (merge_timeline_turn e n) = tt_thread_id e"
  "tt_executor_id (merge_timeline_turn e n) = tt_executor_id e"
  "tt_owner (merge_timeline_turn e n) = tt_owner e"
  by (simp_all add: merge_timeline_turn_def Let_def)

lemma merge_assistant: "tt_assistant (merge_timeline_turn e n) = merged_assistant e n"
  by (simp add: merge_timeline_turn_def Let_def)

lemma merge_status: "tt_status (merge_timeline_turn e n) = merged_status e n"
  by (simp add: merge_timeline_turn_def Let_def)

lemma settled_assistant:
  "turn_settled e \<Longrightarrow>
     merged_assistant e n =
       (if still_streaming (tt_assistant n) then tt_assistant e else opt_else (tt_assistant n) (tt_assistant e))"
  by (simp add: merged_assistant_def)

lemma settled_status: "turn_settled e \<Longrightarrow> merged_status e n = tt_status e"
  by (auto simp: merged_status_def turn_settled_def Let_def)

lemma settled_merge: "turn_settled e \<Longrightarrow> turn_settled (merge_timeline_turn e n)"
  unfolding turn_settled_def [of "merge_timeline_turn e n"] merge_status merge_assistant settled_status
    settled_assistant
  by (auto simp: turn_settled_def opt_else_def split: option.splits)

lemma settled_merge_all:
  "turn_settled e \<Longrightarrow>
     turn_settled (merge_all_turns e ns) \<and> tt_status (merge_all_turns e ns) = tt_status e \<and>
     tt_turn_id (merge_all_turns e ns) = tt_turn_id e"
  unfolding merge_all_turns_def
  by (induction ns arbitrary: e) (simp_all add: settled_merge merge_status settled_status)

section \<open>The cache of parsed times\<close>

definition cache_ok :: "(str \<Rightarrow> rat option) \<Rightarrow> (str, rat option) dict \<Rightarrow> bool" where
  "cache_ok parse cache \<longleftrightarrow> list_all (\<lambda>(v, r). r = parse v) cache \<and> dict_wf cache"

lemma cache_ok_get: "cache_ok parse cache \<Longrightarrow> map_of cache v = Some r \<Longrightarrow> r = parse v"
  by (auto simp: cache_ok_def list_all_iff dest: map_of_SomeD)

lemma cache_ok_put: "cache_ok parse cache \<Longrightarrow> cache_ok parse (dict_put v (parse v) cache)"
  by (auto simp: cache_ok_def list_all_iff dict_mem_iff split: if_splits)

lemma cached_parse_ok:
  "cache_ok parse cache \<Longrightarrow> fst (cached_parse parse v cache) = parse_time parse v \<and>
     cache_ok parse (snd (cached_parse parse v cache))"
  by (auto simp: cached_parse_def parse_time_def cache_ok_put dest: cache_ok_get split: option.split)

definition turn_key :: "(str \<Rightarrow> rat option) \<Rightarrow> timeline_turn \<Rightarrow> rat option \<times> str" where
  "turn_key parse t = (parse_time parse (turn_time_text t), tt_turn_id t)"

lemma timeline_keys_ok:
  "cache_ok parse cache \<Longrightarrow>
     fst (timeline_keys parse ts cache) = map (\<lambda>t. (turn_key parse t, t)) ts \<and>
     cache_ok parse (snd (timeline_keys parse ts cache))"
proof (induction ts arbitrary: cache)
  case (Cons t ts)
  obtain r c1 where c1: "cached_parse parse (turn_time_text t) cache = (r, c1)"
    by (cases "cached_parse parse (turn_time_text t) cache")
  have "r = parse_time parse (turn_time_text t)" "cache_ok parse c1"
    using cached_parse_ok [OF Cons.prems, of "turn_time_text t"] c1 by simp_all
  then show ?case
    using Cons.IH [of c1] c1 by (simp add: case_prod_beta turn_key_def)
qed simp

lemma insort_key_pair:
  "insort_key fst (f t, t) (map (\<lambda>t. (f t, t)) ts) = map (\<lambda>t. (f t, t)) (insort_key f t ts)"
  by (induction ts) auto

lemma sort_key_pair: "map snd (sort_key fst (map (\<lambda>t. (f t, t)) ts)) = sort_key f ts"
proof -
  have "sort_key fst (map (\<lambda>t. (f t, t)) ts) = map (\<lambda>t. (f t, t)) (sort_key f ts)"
    by (induction ts) (simp_all add: insort_key_pair)
  then show ?thesis by (simp add: comp_def)
qed

lemma sort_timeline_turns_eq:
  "cache_ok parse cache \<Longrightarrow>
     fst (sort_timeline_turns parse ts cache) = sort_key (turn_key parse) ts \<and>
     cache_ok parse (snd (sort_timeline_turns parse ts cache))"
  using timeline_keys_ok [of parse cache ts]
  by (simp add: sort_timeline_turns_def case_prod_beta sort_key_pair)

section \<open>The projection\<close>

definition index_ok :: "timeline_index \<Rightarrow> bool" where
  "index_ok x \<longleftrightarrow> table_ok tt_turn_id (ti_merged x)"

lemma index_ok_put:
  "index_ok x \<Longrightarrow> tt_turn_id t = k \<Longrightarrow> ti_merged y = dict_put k t (ti_merged x) \<Longrightarrow>
     index_ok y \<and> set (dict_keys (ti_merged y)) = insert k (set (dict_keys (ti_merged x)))"
  by (auto simp: index_ok_def dict_keys_put)

lemma index_identity_merged [simp]: "ti_merged (index_identity i k x) = ti_merged x"
  by (simp add: index_identity_def split: option.split)

lemma index_turn_ok:
  "index_ok x \<Longrightarrow> index_ok (index_turn t x) \<and>
     set (dict_keys (ti_merged (index_turn t x))) = insert (tt_turn_id t) (set (dict_keys (ti_merged x)))"
  by (rule index_ok_put [of x t]) (simp_all add: index_turn_def)

lemma index_key: "index_ok x \<Longrightarrow> map_of (ti_merged x) k = Some e \<Longrightarrow> tt_turn_id e = k"
  unfolding index_ok_def by (rule table_ok_key)

lemma place_merge_ok:
  assumes "index_ok x" and "map_of (ti_merged x) k = Some e"
    and "ti_merged y = dict_put k (merge_timeline_turn e t) (ti_merged x)"
  shows "index_ok y \<and> set (dict_keys (ti_merged y)) = set (dict_keys (ti_merged x))"
proof -
  have "k \<in> set (dict_keys (ti_merged x))" using assms(2) by (simp add: in_dict_keys_iff)
  moreover have "tt_turn_id (merge_timeline_turn e t) = k" using index_key [OF assms(1,2)] by simp
  ultimately show ?thesis using index_ok_put [OF assms(1) _ assms(3)] by auto
qed

lemma place_executor_turn_ok:
  assumes "index_ok x"
  shows "index_ok (place_executor_turn t x) \<and>
     set (dict_keys (ti_merged x)) \<subseteq> set (dict_keys (ti_merged (place_executor_turn t x))) \<and>
     set (dict_keys (ti_merged (place_executor_turn t x))) \<subseteq>
       insert (tt_turn_id t) (set (dict_keys (ti_merged x)))"
proof -
  have "place_executor_turn t x = index_turn t x \<or>
      (\<exists>k e. map_of (ti_merged x) k = Some e \<and>
         ti_merged (place_executor_turn t x) = dict_put k (merge_timeline_turn e t) (ti_merged x))"
    by (fastforce simp: place_executor_turn_def Let_def split: option.splits)
  then show ?thesis
    using index_turn_ok [OF assms, of t] place_merge_ok [OF assms] by (metis order_refl subset_insertI)
qed

lemma index_turns_ok:
  "index_ok x \<Longrightarrow> index_ok (fold index_turn ts x) \<and>
     set (dict_keys (ti_merged (fold index_turn ts x))) = tt_turn_id ` set ts \<union> set (dict_keys (ti_merged x))"
  by (induction ts arbitrary: x) (auto simp: index_turn_ok)

lemma place_turns_ok:
  "index_ok x \<Longrightarrow> index_ok (fold place_executor_turn ts x) \<and>
     set (dict_keys (ti_merged x)) \<subseteq> set (dict_keys (ti_merged (fold place_executor_turn ts x))) \<and>
     set (dict_keys (ti_merged (fold place_executor_turn ts x))) \<subseteq>
       tt_turn_id ` set ts \<union> set (dict_keys (ti_merged x))"
proof (induction ts arbitrary: x)
  case (Cons t ts)
  then show ?case
    using place_executor_turn_ok [OF Cons.prems, of t] Cons.IH [of "place_executor_turn t x"]
    by (simp add: subset_iff) blast
qed simp

lemma timeline_index_ok:
  "index_ok (build_timeline_index newbro executor) \<and>
   tt_turn_id ` set newbro \<subseteq> set (dict_keys (ti_merged (build_timeline_index newbro executor))) \<and>
   set (dict_keys (ti_merged (build_timeline_index newbro executor))) \<subseteq>
     tt_turn_id ` set newbro \<union> tt_turn_id ` set executor"
proof -
  define x0 where "x0 = fold index_turn newbro \<lparr>ti_merged = [], ti_by_identity = [], ti_by_client = []\<rparr>"
  have "index_ok x0 \<and> set (dict_keys (ti_merged x0)) = tt_turn_id ` set newbro"
    using index_turns_ok [of "\<lparr>ti_merged = [], ti_by_identity = [], ti_by_client = []\<rparr>" newbro]
    by (simp add: x0_def index_ok_def)
  then show ?thesis
    using place_turns_ok [of x0 executor] by (auto simp: build_timeline_index_def x0_def)
qed

lemma index_ids: "index_ok x \<Longrightarrow> map tt_turn_id (dict_values (ti_merged x)) = dict_keys (ti_merged x)"
  by (simp add: index_ok_def dict_keys_values)

section \<open>Properties\<close>

text \<open>a turn that has settled (failed, cancelled, or completed with an answer that no longer
  streams) stays settled, with the same status and identity, whatever is merged into it; a
  late message that still streams does not replace its answer, a later finished answer does.\<close>

theorem settled_turn_stays:
  assumes "turn_settled e"
  shows "turn_settled (merge_all_turns e ns)
    \<and> tt_status (merge_all_turns e ns) = tt_status e
    \<and> tt_turn_id (merge_all_turns e ns) = tt_turn_id e
    \<and> tt_assistant (merge_timeline_turn (merge_all_turns e ns) n) =
        (if still_streaming (tt_assistant n) then tt_assistant (merge_all_turns e ns)
         else opt_else (tt_assistant n) (tt_assistant (merge_all_turns e ns)))"
  using settled_merge_all [OF assms, of ns] by (simp add: merge_assistant settled_assistant)

definition demo_answer :: "str \<Rightarrow> str \<Rightarrow> timeline_message" where
  "demo_answer content status =
     \<lparr>tm_message_id = ''m'', tm_role = ''assistant'', tm_kind = ''text'', tm_text = Some content,
      tm_transcript = None, tm_audio_id = None, tm_duration_ms = None, tm_created_at = None,
      tm_updated_at = None, tm_status = status, tm_metadata = []\<rparr>"

definition demo_turn :: "str \<Rightarrow> str option \<Rightarrow> str \<Rightarrow> timeline_message option \<Rightarrow> timeline_turn" where
  "demo_turn k client status answer =
     \<lparr>tt_turn_id = k, tt_thread_id = ''th'', tt_persona_id = ''p'', tt_executor_id = ''codex'',
      tt_owner = ''executor'', tt_client_request_id = client, tt_executor_thread_id = None,
      tt_executor_turn_id = None, tt_input_modality = ''text'', tt_user = None, tt_assistant = answer,
      tt_task = None, tt_status = status, tt_created_at = Some k, tt_updated_at = None, tt_metadata = []\<rparr>"

lemma settled_turn_stays_witness:
  "tt_status (merge_all_turns (demo_turn ''2'' None ''completed'' (Some (demo_answer ''done'' ''completed'')))
     [demo_turn ''3'' None ''running'' (Some (demo_answer ''do'' ''running''))]) = ''completed''"
proof -
  have "turn_settled (demo_turn ''2'' None ''completed'' (Some (demo_answer ''done'' ''completed'')))"
    by code_simp
  then show ?thesis
    using settled_turn_stays [of "demo_turn ''2'' None ''completed'' (Some (demo_answer ''done'' ''completed''))"
        "[demo_turn ''3'' None ''running'' (Some (demo_answer ''do'' ''running''))]"]
    by (simp add: demo_turn_def)
qed

text \<open>C15: the timeline of a thread, computed with any cache of correctly parsed times, is the merged
  turns sorted by time and id with every time parsed afresh, and the cache stays correct; it holds
  each turn id once, every task's turn, and nothing but the turns of tasks and of the executor.\<close>

theorem timeline_is_sorted_merge:
  assumes "cache_ok parse cache"
    and "build_bro_timeline_projection parse tasks sessions runs summaries executor cache = (ts, cache')"
  shows "ts = sort_key (turn_key parse) (dict_values (ti_merged (build_timeline_index
            (build_newbro_timeline_turns tasks sessions runs summaries) executor)))
    \<and> cache_ok parse cache'
    \<and> distinct (map tt_turn_id ts)
    \<and> tt_turn_id ` set (build_newbro_timeline_turns tasks sessions runs summaries) \<subseteq> tt_turn_id ` set ts
    \<and> tt_turn_id ` set ts \<subseteq>
        tt_turn_id ` set (build_newbro_timeline_turns tasks sessions runs summaries) \<union> tt_turn_id ` set executor"
proof -
  define newbro where "newbro = build_newbro_timeline_turns tasks sessions runs summaries"
  define x where "x = build_timeline_index newbro executor"
  define vs where "vs = dict_values (ti_merged x)"
  have ok: "index_ok x" and sub: "tt_turn_id ` set newbro \<subseteq> set (dict_keys (ti_merged x))"
      "set (dict_keys (ti_merged x)) \<subseteq> tt_turn_id ` set newbro \<union> tt_turn_id ` set executor"
    using timeline_index_ok [of newbro executor] by (simp_all add: x_def)
  have eq: "ts = sort_key (turn_key parse) vs" "cache_ok parse cache'"
    using sort_timeline_turns_eq [OF assms(1), of vs] assms(2)
    by (simp_all add: build_bro_timeline_projection_def newbro_def x_def vs_def)
  have ids: "tt_turn_id ` set vs = set (dict_keys (ti_merged x))"
    using index_ids [OF ok] by (metis list.set_map vs_def)
  have "distinct (map tt_turn_id vs)"
    using index_ids [OF ok] ok by (simp add: vs_def index_ok_def table_ok_def dict_wf_def)
  then have "distinct (map tt_turn_id ts)"
    by (simp add: eq distinct_map)
  then show ?thesis
    using eq sub ids by (simp add: newbro_def x_def vs_def)
qed

lemma timeline_is_sorted_merge_witness:
  "map tt_turn_id (fst (build_bro_timeline_projection (\<lambda>v. Some (of_nat (length v))) [] [] [] []
     [demo_turn ''bb'' (Some ''c1'') ''running'' None, demo_turn ''a'' None ''running'' None,
      demo_turn ''zz'' (Some ''c1'') ''completed'' None] [])) = [''a'', ''bb'']"
proof -
  define turns where "turns = [demo_turn ''bb'' (Some ''c1'') ''running'' None,
      demo_turn ''a'' None ''running'' None, demo_turn ''zz'' (Some ''c1'') ''completed'' None]"
  define parse :: "str \<Rightarrow> rat option" where "parse = (\<lambda>v. Some (of_nat (length v)))"
  obtain ts c where p: "build_bro_timeline_projection parse [] [] [] [] turns [] = (ts, c)"
    by (cases "build_bro_timeline_projection parse [] [] [] [] turns []")
  have ok: "cache_ok parse []" by (simp add: cache_ok_def)
  have "map tt_turn_id (sort_key (turn_key parse) (dict_values (ti_merged (build_timeline_index
      (build_newbro_timeline_turns [] [] [] []) turns)))) = [''a'', ''bb'']"
    unfolding parse_def turns_def by code_simp
  then have "map tt_turn_id ts = [''a'', ''bb'']"
    using timeline_is_sorted_merge [OF ok p] by simp
  then show ?thesis using p by (simp add: parse_def turns_def)
qed

end
