(* ===== verification/ThreadList.thy ===== *)
theory ThreadList
  imports Timeline Tables
begin

text \<open>
  \<open>_build_bro_thread_projection\<close> of \<open>src/newbro/runtime/bro_detail_thread_helpers.py\<close>: the list of a
  runtime's bro threads. A thread is shown for every Codex session of a known persona, for every
  imported thread that no session continues, and for every group of tasks that name a thread
  nothing else shows; the list is sorted with the active threads first. The Codex thread id among an
  imported thread's diagnostics is a string or missing, as the code that imports threads writes it.
\<close>

record bro_thread =
  bt_thread_id :: str
  bt_persona_id :: str
  bt_persona_name :: "str option"
  bt_executor_id :: str
  bt_executor_node_id :: "str option"
  bt_workspace_id :: "str option"
  bt_workspace_name :: "str option"
  bt_execution_session_id :: "str option"
  bt_status :: str
  bt_title :: str
  bt_preview :: "str option"
  bt_progress :: int
  bt_task_ids :: "str list"
  bt_active_task_id :: "str option"
  bt_latest_task_id :: "str option"
  bt_has_resume_handle :: bool
  bt_updated_at :: "str option"
  bt_timeline_status :: str
  bt_timeline_error :: "str option"
  bt_diagnostics :: jdict

record thread_sources =
  ts_tasks :: "task list"
  ts_sessions :: "execution_session list"
  ts_runs :: "execution_run list"
  ts_summaries :: "task_summary list"
  ts_personas :: "persona list"

section \<open>Lookups\<close>

definition source_task :: "thread_sources \<Rightarrow> str \<Rightarrow> task option" where
  "source_task x k = last_by t_task_id (ts_tasks x) k"

definition source_run :: "thread_sources \<Rightarrow> str \<Rightarrow> execution_run option" where
  "source_run x k = last_by r_run_id (ts_runs x) k"

definition source_summary :: "thread_sources \<Rightarrow> str \<Rightarrow> task_summary option" where
  "source_summary x k = last_by sm_task_id (ts_summaries x) k"

definition source_persona :: "thread_sources \<Rightarrow> str \<Rightarrow> persona option" where
  "source_persona x k = last_by p_persona_id (ts_personas x) k"

text \<open>The last run of a task, in the order of the runs.\<close>

definition latest_run_of_task :: "thread_sources \<Rightarrow> str \<Rightarrow> execution_run option" where
  "latest_run_of_task x k = last_by r_task_id (ts_runs x) k"

definition task_persona_id :: "task option \<Rightarrow> str option" where
  "task_persona_id t = str_or (task_metadata_string t ''persona_id'') (task_metadata_string t ''assigned_bro_id'')"

definition summary_texts :: "task_summary option \<Rightarrow> str option" where
  "summary_texts y =
     (case y of None \<Rightarrow> None | Some y \<Rightarrow> str_or (sm_conversational_summary y) (sm_operational_summary y))"

definition run_texts :: "execution_run option \<Rightarrow> str option" where
  "run_texts r =
     (case r of None \<Rightarrow> None | Some r \<Rightarrow> str_or (r_output_summary r) (r_latest_progress_message r))"

definition thread_preview :: "task_summary option \<Rightarrow> execution_run option \<Rightarrow> task option \<Rightarrow> str option" where
  "thread_preview y r t = str_or (summary_texts y) (str_or (run_texts r) (map_option t_goal t))"

section \<open>Threads of sessions\<close>

definition session_runs :: "thread_sources \<Rightarrow> execution_session \<Rightarrow> execution_run list" where
  "session_runs x s =
     (let rs = List.map_filter (source_run x) (s_run_ids s) in
      if rs = [] then
        (case s_latest_run_id s of
           None \<Rightarrow> []
         | Some k \<Rightarrow> (case source_run x k of None \<Rightarrow> [] | Some r \<Rightarrow> [r]))
      else rs)"

definition session_task_ids :: "thread_sources \<Rightarrow> execution_session \<Rightarrow> str list" where
  "session_task_ids x s =
     (let ids = py_dedupe (map r_task_id (session_runs x s)) in
      if s_task_id s \<noteq> [] \<and> s_task_id s \<notin> set ids then s_task_id s # ids else ids)"

definition session_tasks :: "thread_sources \<Rightarrow> execution_session \<Rightarrow> task list" where
  "session_tasks x s = List.map_filter (source_task x) (session_task_ids x s)"

definition session_latest_run :: "thread_sources \<Rightarrow> execution_session \<Rightarrow> execution_run option" where
  "session_latest_run x s =
     (if str_truthy (s_latest_run_id s) then source_run x (the (s_latest_run_id s))
      else last_opt (session_runs x s))"

definition session_latest_task :: "thread_sources \<Rightarrow> execution_session \<Rightarrow> task option" where
  "session_latest_task x s =
     (case session_latest_run x s of
        Some r \<Rightarrow> source_task x (r_task_id r)
      | None \<Rightarrow>
          (case last_opt (session_tasks x s) of
             Some t \<Rightarrow> Some t
           | None \<Rightarrow> source_task x (s_task_id s)))"

definition session_persona :: "thread_sources \<Rightarrow> execution_session \<Rightarrow> persona option" where
  "session_persona x s =
     (case task_persona_id (session_latest_task x s) of
        Some k \<Rightarrow> source_persona x k
      | None \<Rightarrow>
          (case find (\<lambda>p. s_continuity_key s = Some (p_bro_detail_session_id p)) (ts_personas x) of
             None \<Rightarrow> None
           | Some p \<Rightarrow> source_persona x (p_persona_id p)))"

definition codex_resume_handle :: "execution_session \<Rightarrow> agent_resume_handle option" where
  "codex_resume_handle s =
     (case s_latest_resume_handle s of
        None \<Rightarrow> None
      | Some h \<Rightarrow> if h_executor_id h = ''codex'' \<and> str_truthy (h_session_handle h) then Some h else None)"

definition audio_active_run_statuses :: "run_status list" where
  "audio_active_run_statuses = [RS_ASSIGNED, RS_RUNNING, RS_BLOCKED]"

definition session_diagnostics :: "thread_sources \<Rightarrow> execution_session \<Rightarrow> jdict" where
  "session_diagnostics x s =
     [(''has_codex_resume_handle'', JBool (codex_resume_handle s \<noteq> None))] @
     (case codex_resume_handle s of
        None \<Rightarrow> []
      | Some h \<Rightarrow>
          [(''codex_thread_id'', JStr (the (h_session_handle h)))] @
          (case jget (h_opaque h) ''cwd'' of JStr cwd \<Rightarrow> [(''codex_cwd'', JStr cwd)] | _ \<Rightarrow> [])) @
     (if list_ex (\<lambda>t. jtruthy (jget (t_metadata t) ''codex_history_hydrated'')) (session_tasks x s)
      then [(''history_hydrated'', JBool True)] else [])"

definition session_thread :: "thread_sources \<Rightarrow> execution_session \<Rightarrow> bro_thread option" where
  "session_thread x s =
     (if s_base_executor_id s \<noteq> ''codex'' then None
      else
        (case session_persona x s of
           None \<Rightarrow> None
         | Some p \<Rightarrow>
             (let r = session_latest_run x s;
                  t = session_latest_task x s;
                  y = (case t of None \<Rightarrow> None | Some t \<Rightarrow> source_summary x (t_task_id t));
                  status = thread_status t r;
                  h = s_latest_resume_handle s;
                  updated =
                    (if task_metadata_string t ''source_kind'' = Some ''codex_thread_history''
                     then str_or (resume_handle_string h ''listUpdatedAt'') (task_updated_at t)
                     else task_updated_at t);
                  workspace = str_or (workspace_from_resume_handle h) (task_workspace_id t);
                  active =
                    (case r of
                       None \<Rightarrow> None
                     | Some r \<Rightarrow>
                         if s_active_run_id s = Some (r_run_id r) \<and>
                           r_status r \<in> set audio_active_run_statuses
                         then Some (r_task_id r) else None)
              in Some
                \<lparr>bt_thread_id = public_thread_id s, bt_persona_id = p_persona_id p,
                 bt_persona_name = Some (p_name p), bt_executor_id = ''codex'',
                 bt_executor_node_id = s_executor_node_id s, bt_workspace_id = workspace,
                 bt_workspace_name = workspace_name workspace,
                 bt_execution_session_id = Some (s_execution_session_id s), bt_status = status,
                 bt_title = str_or_else
                   (str_or (resume_handle_string h ''title'') (resume_handle_string h ''displayTitle''))
                   (case t of None \<Rightarrow> ''Current session'' | Some t \<Rightarrow> t_title t),
                 bt_preview = thread_preview y r t, bt_progress = thread_progress status,
                 bt_task_ids = session_task_ids x s, bt_active_task_id = active,
                 bt_latest_task_id = map_option t_task_id t,
                 bt_has_resume_handle = (codex_resume_handle s \<noteq> None), bt_updated_at = updated,
                 bt_timeline_status = ''not_loaded'', bt_timeline_error = None,
                 bt_diagnostics = session_diagnostics x s\<rparr>)))"

section \<open>Imported threads\<close>

definition codex_thread_keys :: "bro_thread list \<Rightarrow> (str \<times> str) list" where
  "codex_thread_keys ths =
     List.map_filter (\<lambda>th. case jget (bt_diagnostics th) ''codex_thread_id'' of
        JStr k \<Rightarrow> Some (bt_persona_id th, k) | _ \<Rightarrow> None) ths"

definition imported_is_shown :: "bro_thread list \<Rightarrow> bro_thread \<Rightarrow> bool" where
  "imported_is_shown ths i \<longleftrightarrow>
     bt_thread_id i \<in> bt_thread_id ` set ths \<or>
     (case jget (bt_diagnostics i) ''codex_thread_id'' of
        JStr k \<Rightarrow> (bt_persona_id i, k) \<in> set (codex_thread_keys ths) | _ \<Rightarrow> False)"

definition imported_task_ids :: "thread_sources \<Rightarrow> bro_thread \<Rightarrow> str list" where
  "imported_task_ids x i =
     map t_task_id (filter (\<lambda>t. jget (t_metadata t) ''bro_thread_id'' = JStr (bt_thread_id i) \<and>
       task_belongs_to_persona (Some t) (bt_persona_id i)) (ts_tasks x))"

definition imported_thread :: "thread_sources \<Rightarrow> bro_thread \<Rightarrow> bro_thread" where
  "imported_thread x i =
     (let ids = imported_task_ids x i in
      if ids = [] then i
      else
        (let k = last ids; r = latest_run_of_task x k
         in i\<lparr>bt_task_ids := ids, bt_latest_task_id := Some k,
              bt_preview := str_or
                (case source_summary x k of None \<Rightarrow> None | Some y \<Rightarrow> sm_conversational_summary y)
                (str_or (case r of None \<Rightarrow> None | Some r \<Rightarrow> r_output_summary r) (bt_preview i)),
              bt_updated_at := str_or (task_updated_at (source_task x k)) (bt_updated_at i),
              bt_diagnostics := dict_put ''history_hydrated'' (JBool True) (bt_diagnostics i)\<rparr>))"

section \<open>Threads of tasks\<close>

definition task_thread_group :: "thread_sources \<Rightarrow> task \<Rightarrow> (str \<times> str) option" where
  "task_thread_group x t =
     (case (task_persona_id (Some t), task_thread_public_id t) of
        (Some p, Some k) \<Rightarrow> if source_persona x p = None then None else Some (p, k)
      | _ \<Rightarrow> None)"

definition group_task ::
    "thread_sources \<Rightarrow> str list \<Rightarrow> task \<Rightarrow> (str \<times> str, task list) dict \<Rightarrow> (str \<times> str, task list) dict" where
  "group_task x shown t d =
     (case task_thread_group x t of
        None \<Rightarrow> d
      | Some g \<Rightarrow> if snd g \<in> set shown then d else dd_append g t d)"

definition task_groups :: "thread_sources \<Rightarrow> str list \<Rightarrow> (str \<times> str, task list) dict" where
  "task_groups x shown = fold (group_task x shown) (ts_tasks x) []"

definition group_order :: "task \<Rightarrow> str" where
  "group_order t = str_or_else (task_updated_at (Some t)) (t_task_id t)"

definition group_thread :: "thread_sources \<Rightarrow> (str \<times> str) \<times> task list \<Rightarrow> bro_thread" where
  "group_thread x g =
     (let ((persona_id, public), ts) = g;
          sorted_tasks = sort_key group_order ts;
          t = last sorted_tasks;
          r = latest_run_of_task x (t_task_id t);
          status = thread_status (Some t) r;
          persona = source_persona x persona_id;
          codex = task_metadata_string (Some t) ''codex_import_thread_id'';
          workspace = (case task_metadata_string (Some t) ''codex_import_cwd'' of
              Some w \<Rightarrow> Some w | None \<Rightarrow> task_workspace_id (Some t))
      in \<lparr>bt_thread_id = public, bt_persona_id = persona_id, bt_persona_name = map_option p_name persona,
          bt_executor_id = ''codex'',
          bt_executor_node_id = str_or (task_metadata_string (Some t) ''executor_node_id'')
            (case persona of None \<Rightarrow> None | Some p \<Rightarrow> p_executor_node_id p),
          bt_workspace_id = workspace, bt_workspace_name = workspace_name workspace,
          bt_execution_session_id = None, bt_status = status,
          bt_title = (if t_title t = [] then ''Current session'' else t_title t),
          bt_preview = thread_preview (source_summary x (t_task_id t)) r (Some t),
          bt_progress = thread_progress status, bt_task_ids = map t_task_id sorted_tasks,
          bt_active_task_id =
            (if status \<in> {''queued'', ''running'', ''blocked''} then Some (t_task_id t) else None),
          bt_latest_task_id = Some (t_task_id t), bt_has_resume_handle = (codex \<noteq> None),
          bt_updated_at = task_updated_at (Some t), bt_timeline_status = ''not_loaded'',
          bt_timeline_error = None,
          bt_diagnostics = [(''pending_execution_session'', JBool True)] @
            (case codex of
               None \<Rightarrow> []
             | Some k \<Rightarrow> [(''has_codex_resume_handle'', JBool True), (''codex_thread_id'', JStr k)])\<rparr>)"

section \<open>The list\<close>

definition thread_order :: "bro_thread \<Rightarrow> nat \<times> str \<times> str" where
  "thread_order th =
     (if bt_status th \<in> {''running'', ''blocked'', ''queued''} then 1 else 0,
      str_or_else (bt_updated_at th) [], str_or_else (bt_execution_session_id th) [])"

text \<open>The threads of sessions and of imports, which the groups of tasks fill up.\<close>

definition shown_threads :: "thread_sources \<Rightarrow> bro_thread list \<Rightarrow> bro_thread list" where
  "shown_threads x imported =
     (let ths = List.map_filter (session_thread x) (ts_sessions x) in
      ths @ map (imported_thread x) (filter (\<lambda>i. \<not> imported_is_shown ths i) imported))"

definition build_bro_thread_projection :: "thread_sources \<Rightarrow> bro_thread list \<Rightarrow> bro_thread list" where
  "build_bro_thread_projection x imported =
     (let ths = shown_threads x imported in
      sort_reversed thread_order
        (ths @ map (group_thread x) (task_groups x (map bt_thread_id ths))))"

section \<open>No thread is lost\<close>

definition group_members :: "thread_sources \<Rightarrow> str \<times> str \<Rightarrow> task list \<Rightarrow> task list" where
  "group_members x g ts = filter (\<lambda>t. task_thread_group x t = Some g) ts"

lemma group_task_get:
  "map_of (group_task x shown t d) g =
     (if task_thread_group x t = Some g \<and> snd g \<notin> set shown then Some (dd_get d g @ [t]) else map_of d g)"
  by (cases "task_thread_group x t") (auto simp: group_task_def dd_append_def)

lemma task_groups_from:
  "map_of (fold (group_task x shown) ts []) g =
     (if snd g \<in> set shown \<or> group_members x g ts = [] then None else Some (group_members x g ts))"
proof (induction ts rule: rev_induct)
  case Nil
  then show ?case by (simp add: group_members_def)
next
  case (snoc t ts)
  show ?case unfolding fold_append fold_simps comp_apply group_task_get
    by (simp add: snoc dd_get_def group_members_def)
qed

lemma group_task_wf: "dict_wf d \<Longrightarrow> dict_wf (fold (group_task x shown) ts d)"
proof (induction ts arbitrary: d)
  case (Cons t ts)
  have "dict_wf (group_task x shown t d)"
    using Cons.prems by (cases "task_thread_group x t") (auto simp: group_task_def dd_append_def)
  then show ?case using Cons.IH by simp
qed simp

lemma task_groups_ok:
  "dict_wf (task_groups x shown)"
  "map_of (task_groups x shown) g =
     (if snd g \<in> set shown \<or> group_members x g (ts_tasks x) = [] then None
      else Some (group_members x g (ts_tasks x)))"
  unfolding task_groups_def by (rule group_task_wf, simp) (rule task_groups_from)

lemma dict_filter_key:
  "dict_wf d \<Longrightarrow> filter (\<lambda>e. fst e = k) d = (case map_of d k of None \<Rightarrow> [] | Some v \<Rightarrow> [(k, v)])"
proof (induction d)
  case Nil
  then show ?case by simp
next
  case (Cons e d)
  have wf: "dict_wf d" and new: "fst e \<notin> fst ` set d"
    using Cons.prems by (auto simp: dict_wf_def dict_keys_def)
  show ?case
  proof (cases "fst e = k")
    case True
    then have "\<forall>e' \<in> set d. fst e' \<noteq> k" using new imageI by metis
    then have "filter (\<lambda>e. fst e = k) d = []" by simp
    then show ?thesis using True by (cases e) simp
  next
    case False
    then show ?thesis using Cons.IH [OF wf] by (cases e) simp
  qed
qed

lemma group_thread_reads [simp]:
  "bt_thread_id (group_thread x g) = snd (fst g)"
  "bt_persona_id (group_thread x g) = fst (fst g)"
  "bt_task_ids (group_thread x g) = map t_task_id (sort_key group_order (snd g))"
  "bt_latest_task_id (group_thread x g) = Some (t_task_id (last (sort_key group_order (snd g))))"
  by (cases g, cases "fst g", simp add: group_thread_def Let_def)+

text \<open>the thread list is sorted, active threads first and then the most recently updated; and
  no task is lost in it: a task that names a thread and a known persona finds that thread in the
  list, and when neither a session nor an import shows it, the persona has exactly one thread of
  that name, whose tasks are those that name it for that persona, by time of update, the last of
  them being its latest.\<close>

theorem thread_list_complete:
  assumes "t \<in> set (ts_tasks x)" and "task_thread_group x t = Some (p, k)"
  shows "sorted (rev (map thread_order (build_bro_thread_projection x imported)))
    \<and> k \<in> bt_thread_id ` set (build_bro_thread_projection x imported)
    \<and> (k \<notin> bt_thread_id ` set (shown_threads x imported) \<longrightarrow>
        (\<exists>th. filter (\<lambda>th. bt_thread_id th = k \<and> bt_persona_id th = p)
                  (build_bro_thread_projection x imported) = [th] \<and>
              bt_task_ids th = map t_task_id (sort_key group_order
                (filter (\<lambda>t. task_thread_group x t = Some (p, k)) (ts_tasks x))) \<and>
              bt_latest_task_id th = Some (last (bt_task_ids th))))"
proof -
  define ths where "ths = shown_threads x imported"
  define d where "d = task_groups x (map bt_thread_id ths)"
  define f where "f = filter (\<lambda>t. task_thread_group x t = Some (p, k)) (ts_tasks x)"
  have f: "f \<noteq> []" using assms by (auto simp: f_def filter_empty_conv)
  have all: "build_bro_thread_projection x imported = sort_reversed thread_order (ths @ map (group_thread x) d)"
    by (simp add: build_bro_thread_projection_def ths_def d_def Let_def)
  have "sorted (rev (map thread_order (build_bro_thread_projection x imported)))"
    unfolding all sort_reversed_def by (simp add: rev_map)
  moreover have new: "\<exists>th. filter (\<lambda>th. bt_thread_id th = k \<and> bt_persona_id th = p)
                  (build_bro_thread_projection x imported) = [th] \<and>
              bt_task_ids th = map t_task_id (sort_key group_order f) \<and>
              bt_latest_task_id th = Some (last (bt_task_ids th))"
    if "k \<notin> bt_thread_id ` set ths"
  proof -
    have "map_of d (p, k) = Some f"
      using task_groups_ok(2) [of x "map bt_thread_id ths" "(p, k)"] that f
      by (simp add: d_def f_def group_members_def)
    then have "filter (\<lambda>e. fst e = (p, k)) d = [((p, k), f)]"
      using dict_filter_key [OF task_groups_ok(1) [of x "map bt_thread_id ths"], of "(p, k)"] by (simp add: d_def)
    moreover have "filter (\<lambda>th. bt_thread_id th = k \<and> bt_persona_id th = p) (map (group_thread x) d) =
        map (group_thread x) (filter (\<lambda>e. fst e = (p, k)) d)"
      unfolding filter_map by (rule arg_cong [where f = "map (group_thread x)"], rule filter_cong)
        (auto simp: prod_eq_iff)
    moreover have "filter (\<lambda>th. bt_thread_id th = k \<and> bt_persona_id th = p) ths = []"
      using that by (auto simp: filter_empty_conv)
    ultimately have "filter (\<lambda>th. bt_thread_id th = k \<and> bt_persona_id th = p)
        (build_bro_thread_projection x imported) = [group_thread x ((p, k), f)]"
      unfolding all filter_sort_reversed by simp
    moreover have "sort_key group_order f \<noteq> []" using f by (metis set_empty set_sort)
    ultimately show ?thesis by (simp add: last_map)
  qed
  moreover have "k \<in> bt_thread_id ` set (build_bro_thread_projection x imported)"
  proof (cases "k \<in> bt_thread_id ` set ths")
    case True
    then show ?thesis unfolding all by auto
  next
    case False
    then obtain th where "filter (\<lambda>th. bt_thread_id th = k \<and> bt_persona_id th = p)
        (build_bro_thread_projection x imported) = [th]"
      using new by blast
    then have "th \<in> set (filter (\<lambda>th. bt_thread_id th = k \<and> bt_persona_id th = p)
        (build_bro_thread_projection x imported))"
      by simp
    then have "th \<in> set (build_bro_thread_projection x imported)" "bt_thread_id th = k" by auto
    then show ?thesis by blast
  qed
  ultimately show ?thesis by (simp add: ths_def f_def)
qed

definition demo_thread_task :: "str \<Rightarrow> str \<Rightarrow> task" where
  "demo_thread_task k time =
     \<lparr>t_task_id = k, t_root_task_id = k, t_parent_task_id = None, t_title = ''Fix'', t_goal = ''fix it'',
      t_status = TS_RUNNING, t_priority = 0, t_interruptible = True, t_requires_confirmation = False,
      t_preferred_executor = None, t_session_affinity = None, t_task_revision = 1,
      t_latest_instruction = None,
      t_metadata = [(''persona_id'', JStr ''p''), (''bro_thread_id'', JStr ''bro-thread-1''),
        (''updated_at'', JStr time)]\<rparr>"

definition demo_sources :: thread_sources where
  "demo_sources =
     \<lparr>ts_tasks = [demo_thread_task ''t2'' ''2026'', demo_thread_task ''t1'' ''2025''], ts_sessions = [], ts_runs = [],
      ts_summaries = [],
      ts_personas = [\<lparr>p_persona_id = ''p'', p_name = ''Bo'', p_avatar = [], p_base_prompt = [],
        p_executor_node_id = None, p_bro_detail_session_id = ''b'', p_status = ''busy''\<rparr>]\<rparr>"

lemma thread_list_complete_witness:
  "task_thread_group demo_sources (demo_thread_task ''t1'' ''2025'') = Some (''p'', ''bro-thread-1'') \<and>
   ''bro-thread-1'' \<in> bt_thread_id ` set (build_bro_thread_projection demo_sources []) \<and>
   map bt_task_ids (build_bro_thread_projection demo_sources []) = [[''t1'', ''t2'']]"
proof -
  have "demo_thread_task ''t1'' ''2025'' \<in> set (ts_tasks demo_sources)" by (simp add: demo_sources_def)
  moreover have g: "task_thread_group demo_sources (demo_thread_task ''t1'' ''2025'') = Some (''p'', ''bro-thread-1'')"
    by code_simp
  ultimately have "''bro-thread-1'' \<in> bt_thread_id ` set (build_bro_thread_projection demo_sources [])"
    using thread_list_complete [of _ demo_sources] by blast
  moreover have "map bt_task_ids (build_bro_thread_projection demo_sources []) = [[''t1'', ''t2'']]"
    by code_simp
  ultimately show ?thesis using g by blast
qed

end
