(* ===== verification/Drafts.thy ===== *)
theory Drafts
  imports Protocol
begin

text \<open>
  \<open>src/newbro/runtime/drafts.py\<close>: the draft a user dictates, its revisions, and the gate a
  dispatch passes. What the user says may be Chinese, and the code branches on that, so texts here
  are lists of code points (\<open>utext\<close>). A draft session is an object that a rewrite in progress
  and the manager may share, so sessions live in a heap and the manager holds a reference; a rewrite
  is two operations, what happens before the rewriter is awaited and what happens when it answers.
  The rewriter (a language model) is the argument that says what it answered; \<open>upper\<close> is
  \<open>str.upper\<close> of one character.
\<close>

section \<open>Texts\<close>

type_synonym utext = "nat list"

definition u :: "string \<Rightarrow> utext" where
  "u s = map of_char s"

text \<open>\<open>str.isspace\<close> on a code point, as \<open>strip\<close> and \<open>split\<close> use it.\<close>

definition u_isspace :: "nat \<Rightarrow> bool" where
  "u_isspace n \<longleftrightarrow>
     9 \<le> n \<and> n \<le> 13 \<or> 28 \<le> n \<and> n \<le> 32 \<or> n = 133 \<or> n = 160 \<or> n = 5760 \<or>
     8192 \<le> n \<and> n \<le> 8202 \<or> n = 8232 \<or> n = 8233 \<or> n = 8239 \<or> n = 8287 \<or> n = 12288"

definition u_rstrip :: "utext \<Rightarrow> utext" where
  "u_rstrip s = rev (dropWhile u_isspace (rev s))"

definition u_strip :: "utext \<Rightarrow> utext" where
  "u_strip s = u_rstrip (dropWhile u_isspace s)"

definition u_rstrip_chars :: "nat list \<Rightarrow> utext \<Rightarrow> utext" where
  "u_rstrip_chars cs s = rev (dropWhile (\<lambda>c. c \<in> set cs) (rev s))"

fun u_split_from :: "utext \<Rightarrow> utext \<Rightarrow> utext list" where
  "u_split_from acc [] = (if acc = [] then [] else [rev acc])"
| "u_split_from acc (c # s) =
     (if u_isspace c then (if acc = [] then u_split_from [] s else rev acc # u_split_from [] s)
      else u_split_from (c # acc) s)"

fun u_join :: "utext \<Rightarrow> utext list \<Rightarrow> utext" where
  "u_join sep [] = []"
| "u_join sep [x] = x"
| "u_join sep (x # y # ys) = x @ sep @ u_join sep (y # ys)"

text \<open>\<open>" ".join(s.strip().split())\<close>.\<close>

definition u_collapse :: "utext \<Rightarrow> utext" where
  "u_collapse s = u_join [32] (u_split_from [] (u_strip s))"

fun u_startswith :: "utext \<Rightarrow> utext \<Rightarrow> bool" where
  "u_startswith s [] = True"
| "u_startswith [] (p # ps) = False"
| "u_startswith (c # s) (p # ps) = (c = p \<and> u_startswith s ps)"

text \<open>\<open>s.replace(p, r)\<close> for a non-empty pattern \<open>p # ps\<close>; the number counts the characters of a
  match that are still to be skipped.\<close>

fun u_replace_from :: "nat \<Rightarrow> utext \<Rightarrow> utext \<Rightarrow> utext \<Rightarrow> utext" where
  "u_replace_from k p r [] = []"
| "u_replace_from (Suc k) p r (c # s) = u_replace_from k p r s"
| "u_replace_from 0 p r (c # s) =
     (if u_startswith (c # s) p then r @ u_replace_from (length p - 1) p r s
      else c # u_replace_from 0 p r s)"

definition u_replace :: "utext \<Rightarrow> utext \<Rightarrow> utext \<Rightarrow> utext" where
  "u_replace p r s = u_replace_from 0 p r s"

definition is_cjk :: "nat \<Rightarrow> bool" where
  "is_cjk n \<longleftrightarrow> 19968 \<le> n \<and> n \<le> 40959"

definition is_ascii_alpha :: "nat \<Rightarrow> bool" where
  "is_ascii_alpha n \<longleftrightarrow> 65 \<le> n \<and> n \<le> 90 \<or> 97 \<le> n \<and> n \<le> 122"

definition u_or_else :: "utext option \<Rightarrow> utext \<Rightarrow> utext" where
  "u_or_else a b = (case a of None \<Rightarrow> b | Some x \<Rightarrow> if x = [] then b else x)"

section \<open>Data\<close>

datatype draft_session_status = DS_EMPTY | DS_LISTENING | DS_DRAFTING | DS_READY | DS_SENT | DS_CLEARED

record asr_turn =
  at_id :: str
  at_raw_text :: utext
  at_normalized_text :: "utext option"
  at_confidence :: "rat option"
  at_started_at :: str
  at_ended_at :: str

record task_spec =
  sp_title :: utext
  sp_goal :: utext
  sp_target_agent :: str
  sp_mode :: task_mode
  sp_expected_output :: utext
  sp_constraints :: "utext list"
  sp_success_criteria :: "utext list"
  sp_stop_conditions :: "utext list"
  sp_context :: jdict
  sp_input_language :: str
  sp_output_language :: str
  sp_raw_transcript :: "utext option"
  sp_normalized_task_language :: str
  sp_code_switched :: bool

record draft =
  df_text :: utext
  df_last_update_summary :: utext
  df_task_spec :: "task_spec option"
  df_missing_context :: "str list"
  df_revision_id :: "str option"
  df_revision_number :: nat
  df_updated_at :: "str option"

record draft_snapshot =
  sn_id :: str
  sn_draft :: draft
  sn_source_asr_turn_ids :: "str list"
  sn_created_at :: str
  sn_draft_revision_id :: "str option"
  sn_draft_revision_number :: nat
  sn_source_boundary :: str
  sn_transcript_timestamp_ms :: "int option"

record dispatch_plan =
  pl_plan_id :: str
  pl_session_id :: str
  pl_draft_session_id :: str
  pl_draft_revision_id :: "str option"
  pl_draft_revision_number :: nat
  pl_intent :: str
  pl_target_agent :: str
  pl_task_title :: utext
  pl_task_goal :: utext
  pl_required_context :: "str list"
  pl_missing_context :: "str list"
  pl_mode :: task_mode
  pl_risk_level :: str
  pl_confidence :: rat
  pl_requires_user_confirmation :: bool
  pl_user_confirmed :: bool
  pl_output_language :: str
  pl_task_spec :: task_spec

record draft_session =
  dz_id :: str
  dz_assigned_bro_id :: str
  dz_asr_turns :: "asr_turn list"
  dz_current_draft :: "draft option"
  dz_current_dispatch_plan :: "dispatch_plan option"
  dz_runtime_state :: runtime_session_state
  dz_snapshots :: "draft_snapshot list"
  dz_status :: draft_session_status
  dz_current_revision_id :: "str option"
  dz_current_revision_number :: nat
  dz_live_classification :: "jdict option"
  dz_live_source_boundary :: "str option"
  dz_live_transcript_timestamp_ms :: "int option"
  dz_created_at :: str
  dz_updated_at :: str

record gate_result =
  gr_outcome :: dispatch_gate_outcome
  gr_reason :: str
  gr_question :: "utext option"
  gr_plan_id :: "str option"

record lint_result =
  lr_valid :: bool
  lr_problems :: "str list"
  lr_clarifying_question :: "utext option"

section \<open>Languages, titles and questions\<close>

definition language_tag :: "utext \<Rightarrow> str" where
  "language_tag s = (if list_ex is_cjk s then ''zh-CN'' else ''en-US'')"

definition is_code_switched :: "utext \<Rightarrow> bool" where
  "is_code_switched s \<longleftrightarrow> list_ex is_cjk s \<and> list_ex is_ascii_alpha s"

definition draft_locale :: "utext \<Rightarrow> str" where
  "draft_locale s = (if list_ex is_cjk s then ''zh'' else ''en'')"

text \<open>The full stop and its ideographic form.\<close>

definition full_stops :: "nat list" where
  "full_stops = [46, 12290]"

definition title_from_goal :: "utext \<Rightarrow> utext" where
  "title_from_goal goal =
     (let t = u_rstrip_chars full_stops (u_strip goal);
          t' = (if length t > 72 then u_rstrip (take 69 t) @ u ''...'' else t)
      in if t' = [] then u ''Draft task'' else t')"

definition draft_title :: "utext \<Rightarrow> utext" where
  "draft_title s = title_from_goal (u_rstrip_chars full_stops (u_strip s))"

definition success_criteria :: "str \<Rightarrow> utext list" where
  "success_criteria language =
     [u ''Produce a concise result that matches the requested output''] @
     (if language = ''zh-CN'' then [u ''Respond to the user in Chinese''] else [])"

text \<open>The Chinese forms of the questions, in the order of the code's mapping.\<close>

definition question_mapping :: "(utext \<times> utext) list" where
  "question_mapping =
     [(u ''What should I send?'', [35201, 21457, 36865, 20160, 20040, 20219, 21153, 65311]),
      (u ''Which repo or prototype should I inspect?'',
       [35201, 26816, 26597, 21738, 20010, 32, 114, 101, 112, 111, 32, 25110, 32, 112, 114, 111, 116, 111, 116, 121, 112, 101, 65311]),
      (u ''That worker is not available.'', [36825, 20010, 32, 119, 111, 114, 107, 101, 114, 32, 29616, 22312, 19981, 21487, 29992, 12290]),
      (u ''This may modify code. Send?'', [36825, 20010, 20219, 21153, 21487, 33021, 20250, 21464, 26356, 25991, 20214, 12290, 21457, 36865, 21527, 65311]),
      (u ''This needs approval. Send?'', [36825, 20010, 20219, 21153, 38656, 35201, 30830, 35748, 12290, 21457, 36865, 21527, 65311])]"

definition question :: "str \<Rightarrow> utext \<Rightarrow> utext" where
  "question language english =
     (if language \<noteq> ''zh-CN'' then english
      else if u_startswith english (u ''Drafted for '')
        then u_replace (u ''. Send?'') [12290, 21457, 36865, 21527, 65311]
               (u_replace (u ''Drafted for'') [24050, 33609, 25311, 32473] english)
      else (case map_of question_mapping english of Some q \<Rightarrow> q | None \<Rightarrow> english))"

definition send_confirmation_question :: "dispatch_plan \<Rightarrow> utext" where
  "send_confirmation_question p =
     question (pl_output_language p) (u ''Drafted for '' @ u (pl_target_agent p) @ u ''. Send?'')"

section \<open>Task specifications, plans and the gate\<close>

definition default_bro_id :: str where
  "default_bro_id = ''codex''"

definition formulate_task_spec :: "utext \<Rightarrow> str \<Rightarrow> task_spec" where
  "formulate_task_spec s bro =
     (let cleaned = u_collapse s; language = language_tag cleaned
      in \<lparr>sp_title = draft_title cleaned, sp_goal = cleaned,
          sp_target_agent = (if bro = [] then default_bro_id else bro), sp_mode = TM_READ_ONLY_FIRST,
          sp_expected_output = u ''Concise status or result summary'',
          sp_constraints = [u ''Inspect first; ask before making changes''],
          sp_success_criteria = success_criteria language,
          sp_stop_conditions = [u ''Need credentials'', u ''Need permission to modify code'',
            u ''Need unavailable repository or prototype context''],
          sp_context = [], sp_input_language = language, sp_output_language = language,
          sp_raw_transcript = Some cleaned, sp_normalized_task_language = ''en-US'',
          sp_code_switched = is_code_switched cleaned\<rparr>)"

definition missing_context :: "task_spec \<Rightarrow> str list" where
  "missing_context sp = (if length (u_strip (sp_goal sp)) < 8 then [''target''] else [])"

definition intent_of :: "task_spec \<Rightarrow> str" where
  "intent_of sp = ''repo_investigation''"

definition risk_level :: "task_spec \<Rightarrow> str" where
  "risk_level sp = (if sp_mode sp \<in> {TM_MODIFY_ALLOWED, TM_SUBMIT_ALLOWED} then ''medium'' else ''low'')"

definition build_dispatch_plan ::
    "str \<Rightarrow> str option \<Rightarrow> str \<Rightarrow> draft_session \<Rightarrow> draft \<Rightarrow> bool \<Rightarrow> dispatch_plan" where
  "build_dispatch_plan uid session_id runtime_session_id s d confirmed =
     (let sp = (case df_task_spec d of Some x \<Rightarrow> x
                | None \<Rightarrow> formulate_task_spec (df_text d) (dz_assigned_bro_id s));
          missing = py_dedupe (df_missing_context d @ missing_context sp)
      in \<lparr>pl_plan_id = ''plan-'' @ uid,
          pl_session_id = (if runtime_session_id \<noteq> [] then runtime_session_id else str_or_else session_id []),
          pl_draft_session_id = dz_id s, pl_draft_revision_id = dz_current_revision_id s,
          pl_draft_revision_number = dz_current_revision_number s, pl_intent = intent_of sp,
          pl_target_agent = sp_target_agent sp, pl_task_title = sp_title sp, pl_task_goal = sp_goal sp,
          pl_required_context = (if missing \<noteq> [] then [''target''] else []),
          pl_missing_context = missing, pl_mode = sp_mode sp, pl_risk_level = risk_level sp,
          pl_confidence = (if sp_goal sp \<noteq> [] then 91 / 100 else 0),
          pl_requires_user_confirmation = True, pl_user_confirmed = confirmed,
          pl_output_language = sp_output_language sp, pl_task_spec = sp\<rparr>)"

definition lint_task_spec :: "task_spec \<Rightarrow> lint_result" where
  "lint_task_spec sp =
     (let problems =
            (if u_strip (sp_goal sp) = [] then [''clear_goal''] else []) @
            (if py_strip (sp_target_agent sp) = [] then [''clear_target''] else []) @
            (if u_strip (sp_expected_output sp) = [] then [''expected_output''] else []) @
            (if missing_context sp \<noteq> [] then [''missing_context''] else [])
      in if problems \<noteq> [] then
           \<lparr>lr_valid = False, lr_problems = problems,
            lr_clarifying_question = Some (question (sp_output_language sp)
              (if ''missing_context'' \<in> set problems then u ''Which repo or prototype should I inspect?''
               else u ''What should I send?''))\<rparr>
         else \<lparr>lr_valid = True, lr_problems = [], lr_clarifying_question = None\<rparr>)"

definition routing_table :: "(str, str list) dict" where
  "routing_table =
     [(''repo_investigation'', [''hermes'', ''codex'', ''mock'']),
      (''code_modification'', [''codex'', ''hermes'']),
      (''web_research'', [''browser_agent'', ''hermes'']),
      (''status_query'', [''communication_brain'']),
      (''draft_correction'', [''communication_brain'']),
      (''task_control'', [''task_manager''])]"

definition agent_allowed_for_intent :: "str \<Rightarrow> str \<Rightarrow> bool" where
  "agent_allowed_for_intent intent agent =
     (if py_startswith agent ''persona-'' then True
      else (case map_of routing_table intent of None \<Rightarrow> True | Some xs \<Rightarrow> agent \<in> set xs))"

definition safe_task_modes :: "task_mode list" where
  "safe_task_modes = [TM_READ_ONLY_FIRST, TM_PROPOSAL_ONLY]"

definition gate :: "dispatch_gate_outcome \<Rightarrow> str \<Rightarrow> utext option \<Rightarrow> dispatch_plan \<Rightarrow> gate_result" where
  "gate outcome reason q p =
     \<lparr>gr_outcome = outcome, gr_reason = reason, gr_question = q, gr_plan_id = Some (pl_plan_id p)\<rparr>"

definition dispatch_gate :: "dispatch_plan \<Rightarrow> gate_result" where
  "dispatch_gate p =
     (let lint = lint_task_spec (pl_task_spec p); ask = (\<lambda>e. Some (question (pl_output_language p) e)) in
      if \<not> lr_valid lint then gate DG_ASK_CLARIFICATION ''task_lint_failed'' (lr_clarifying_question lint) p
      else if pl_confidence p < 85 / 100
        then gate DG_ASK_CLARIFICATION ''low_confidence'' (ask (u ''What should I send?'')) p
      else if pl_missing_context p \<noteq> []
        then gate DG_ASK_CLARIFICATION ''missing_context''
               (ask (u ''Which repo or prototype should I inspect?'')) p
      else if pl_target_agent p = [] \<or> pl_target_agent p \<in> {''unknown'', ''none''}
        then gate DG_REJECT ''agent_mismatch'' (ask (u ''That worker is not available.'')) p
      else if \<not> agent_allowed_for_intent (pl_intent p) (pl_target_agent p)
        then gate DG_REJECT ''agent_mismatch'' (ask (u ''That worker is not available.'')) p
      else if pl_mode p \<notin> set safe_task_modes \<and> \<not> pl_user_confirmed p
        then gate DG_ASK_CONFIRMATION ''unsafe_mode_needs_confirmation'' (Some (send_confirmation_question p)) p
      else if pl_risk_level p \<in> {''medium'', ''high''} \<and> \<not> pl_user_confirmed p
        then gate DG_ASK_CONFIRMATION ''risk_needs_confirmation'' (Some (send_confirmation_question p)) p
      else if \<not> pl_user_confirmed p
        then gate DG_ASK_CONFIRMATION ''needs_confirmation'' (Some (send_confirmation_question p)) p
      else gate DG_DISPATCH ''ok'' None p)"

section \<open>Rewriting\<close>

definition turn_text :: "asr_turn \<Rightarrow> utext" where
  "turn_text t = u_strip (u_or_else (at_normalized_text t) (at_raw_text t))"

definition sentence_ends :: "nat list" where
  "sentence_ends = [46, 12290, 33, 65281, 63, 65311]"

definition clean_goal :: "(nat \<Rightarrow> utext) \<Rightarrow> utext \<Rightarrow> str \<Rightarrow> utext" where
  "clean_goal upper s locale =
     (let cleaned = u_collapse s in
      if cleaned = [] then []
      else
        (let ended = (if last cleaned \<in> set sentence_ends then cleaned
                      else cleaned @ (if locale = ''zh'' then [12290] else [46]))
         in if locale = ''zh'' then ended else upper (hd ended) @ tl ended))"

definition last_update_summary :: "draft option \<Rightarrow> utext \<Rightarrow> str \<Rightarrow> utext" where
  "last_update_summary previous s locale =
     (case previous of
        None \<Rightarrow> []
      | Some d \<Rightarrow>
          if df_text d \<noteq> s then
            (if locale = ''zh'' then [24050, 26681, 25454, 26368, 26032, 35821, 38899, 37325, 20889, 33609, 31295, 12290]
             else u ''Rewrote the draft based on the latest voice turn.'')
          else
            (if locale = ''zh'' then [24050, 26681, 25454, 26368, 26032, 35821, 38899, 21047, 26032, 33609, 31295, 12290]
             else u ''Refreshed the draft from the latest voice turn.''))"

record rewrite_input =
  rw_previous_draft :: "draft option"
  rw_asr_turns :: "asr_turn list"
  rw_new_turn :: asr_turn
  rw_assigned_bro_id :: str

definition fresh_draft :: "utext \<Rightarrow> utext \<Rightarrow> task_spec \<Rightarrow> draft" where
  "fresh_draft s summary sp =
     \<lparr>df_text = s, df_last_update_summary = summary, df_task_spec = Some sp, df_missing_context = [],
      df_revision_id = None, df_revision_number = 0, df_updated_at = None\<rparr>"

definition deterministic_rewrite :: "(nat \<Rightarrow> utext) \<Rightarrow> rewrite_input \<Rightarrow> draft" where
  "deterministic_rewrite upper w =
     (let s = turn_text (rw_new_turn w); locale = draft_locale s; d = clean_goal upper s locale;
          d' = (if u_strip d = [] then
                  (if locale = ''zh'' then [25191, 34892, 21069, 20808, 28548, 28165, 35201, 23436, 25104, 30340, 20219, 21153, 12290]
                   else u ''Clarify the requested task before execution.'')
                else d)
      in fresh_draft d' (last_update_summary (rw_previous_draft w) d' locale)
           (formulate_task_spec d' (rw_assigned_bro_id w)))"

text \<open>The draft from the text a language model returned; blank text is an error.\<close>

definition draft_from_plain_text :: "utext \<Rightarrow> draft option \<Rightarrow> str \<Rightarrow> draft result" where
  "draft_from_plain_text s previous locale =
     (let d = u_strip s in
      if d = [] then Inl (RuntimeError ''Draft cleaner returned empty content.'')
      else Inr (fresh_draft d (last_update_summary previous d locale) (formulate_task_spec d default_bro_id)))"

section \<open>The manager\<close>

record draft_manager =
  dm_sessions :: "(nat, draft_session) dict"
  dm_active :: "nat option"
  dm_next :: nat

definition draft_manager_init :: draft_manager where
  "draft_manager_init = \<lparr>dm_sessions = [], dm_active = None, dm_next = 0\<rparr>"

definition session_at :: "draft_manager \<Rightarrow> nat \<Rightarrow> draft_session option" where
  "session_at m r = map_of (dm_sessions m) r"

definition store_session :: "nat \<Rightarrow> draft_session \<Rightarrow> draft_manager \<Rightarrow> draft_manager" where
  "store_session r s m = m\<lparr>dm_sessions := dict_put r s (dm_sessions m)\<rparr>"

definition active_session :: "draft_manager \<Rightarrow> (nat \<times> draft_session) option" where
  "active_session m =
     (case dm_active m of
        None \<Rightarrow> None
      | Some r \<Rightarrow> (case session_at m r of None \<Rightarrow> None | Some s \<Rightarrow> Some (r, s)))"

definition fresh_session :: "str \<Rightarrow> str \<Rightarrow> str option \<Rightarrow> draft_session" where
  "fresh_session uid now bro =
     \<lparr>dz_id = ''draft-'' @ uid, dz_assigned_bro_id = str_or_else bro default_bro_id,
      dz_asr_turns = [], dz_current_draft = None, dz_current_dispatch_plan = None,
      dz_runtime_state = RSS_IDLE, dz_snapshots = [], dz_status = DS_EMPTY,
      dz_current_revision_id = None, dz_current_revision_number = 0,
      dz_live_classification = None, dz_live_source_boundary = None,
      dz_live_transcript_timestamp_ms = None, dz_created_at = now, dz_updated_at = now\<rparr>"

text \<open>The session a turn goes to: the active one, or a new object that is not active yet.\<close>

definition open_session :: "str \<Rightarrow> str \<Rightarrow> str option \<Rightarrow> draft_manager \<Rightarrow> nat \<times> draft_session \<times> draft_manager" where
  "open_session uid now bro m =
     (let fresh = (dm_next m, fresh_session uid now bro,
            store_session (dm_next m) (fresh_session uid now bro) (m\<lparr>dm_next := Suc (dm_next m)\<rparr>))
      in case active_session m of
           Some (r, s) \<Rightarrow>
             if dz_status s \<in> {DS_SENT, DS_CLEARED} then fresh
             else if str_truthy bro
             then (let s' = s\<lparr>dz_assigned_bro_id := the bro\<rparr> in (r, s', store_session r s' m))
             else (r, s, m)
         | None \<Rightarrow> fresh)"

definition new_turn ::
    "str \<Rightarrow> str \<Rightarrow> utext \<Rightarrow> utext option \<Rightarrow> rat option \<Rightarrow> str option \<Rightarrow> str option \<Rightarrow> asr_turn" where
  "new_turn k now raw normalized confidence started ended =
     \<lparr>at_id = k, at_raw_text = raw,
      at_normalized_text = (case normalized of
          None \<Rightarrow> None | Some x \<Rightarrow> if u_strip x = [] then None else Some (u_strip x)),
      at_confidence = confidence, at_started_at = str_or_else started now,
      at_ended_at = str_or_else ended now\<rparr>"

definition rewrite_input_of :: "draft_session \<Rightarrow> asr_turn \<Rightarrow> rewrite_input" where
  "rewrite_input_of s t =
     \<lparr>rw_previous_draft = dz_current_draft s, rw_asr_turns = dz_asr_turns s @ [t], rw_new_turn = t,
      rw_assigned_bro_id = dz_assigned_bro_id s\<rparr>"

record rewrite_job =
  jb_session :: nat
  jb_turn :: asr_turn
  jb_input :: rewrite_input

definition begin_append ::
    "str \<Rightarrow> str \<Rightarrow> str \<Rightarrow> utext \<Rightarrow> utext option \<Rightarrow> rat option \<Rightarrow> str option \<Rightarrow> str option \<Rightarrow>
     str option \<Rightarrow> draft_manager \<Rightarrow> rewrite_job result \<times> draft_manager" where
  "begin_append uid uid' now raw normalized confidence started ended bro m =
     (let s = u_strip raw in
      if s = [] then (Inl (ValueError ''ASR turn text must not be empty.''), m)
      else
        (let (r, session, m1) = open_session uid now bro m;
             t = new_turn (''asr-'' @ uid') now s normalized confidence started ended
         in (Inr \<lparr>jb_session = r, jb_turn = t, jb_input = rewrite_input_of session t\<rparr>, m1)))"

record revision_ids =
  ri_revision :: str
  ri_snapshot :: str
  ri_plan :: str
  ri_now :: str

definition revise_draft :: "revision_ids \<Rightarrow> nat \<Rightarrow> draft \<Rightarrow> draft" where
  "revise_draft ids n d =
     d\<lparr>df_revision_id := Some (''draft-rev-'' @ ri_revision ids), df_revision_number := n,
       df_updated_at := Some (ri_now ids)\<rparr>"

definition revision_snapshot :: "revision_ids \<Rightarrow> draft \<Rightarrow> str list \<Rightarrow> str \<Rightarrow> int option \<Rightarrow> draft_snapshot" where
  "revision_snapshot ids d sources boundary ts =
     \<lparr>sn_id = ''draft-snap-'' @ ri_snapshot ids, sn_draft = d, sn_source_asr_turn_ids = sources,
      sn_created_at = ri_now ids, sn_draft_revision_id = df_revision_id d,
      sn_draft_revision_number = df_revision_number d, sn_source_boundary = boundary,
      sn_transcript_timestamp_ms = ts\<rparr>"

definition apply_draft_revision ::
    "revision_ids \<Rightarrow> draft \<Rightarrow> str list \<Rightarrow> str \<Rightarrow> int option \<Rightarrow> draft_session \<Rightarrow> draft_session" where
  "apply_draft_revision ids d sources boundary ts s =
     (let d' = revise_draft ids (dz_current_revision_number s + 1) d;
          s1 = s\<lparr>dz_current_draft := Some d', dz_current_revision_id := df_revision_id d',
                 dz_current_revision_number := df_revision_number d'\<rparr>;
          plan = build_dispatch_plan (ri_plan ids) (Some (dz_id s1)) [] s1 d' False
      in s1\<lparr>dz_current_dispatch_plan := Some plan, dz_runtime_state := RSS_WAITING_FOR_CONFIRMATION,
            dz_snapshots := dz_snapshots s1 @ [revision_snapshot ids d' sources boundary ts],
            dz_status := DS_READY, dz_live_source_boundary := Some boundary,
            dz_live_transcript_timestamp_ms :=
              (case ts of Some x \<Rightarrow> Some x | None \<Rightarrow> dz_live_transcript_timestamp_ms s1),
            dz_updated_at := ri_now ids\<rparr>)"

definition install_session :: "nat \<Rightarrow> draft_session \<Rightarrow> draft_manager \<Rightarrow> draft_manager" where
  "install_session r s m = (store_session r s m)\<lparr>dm_active := Some r\<rparr>"

text \<open>The rewriter answered, or raised.\<close>

definition finish_append ::
    "revision_ids \<Rightarrow> rewrite_job \<Rightarrow> draft result \<Rightarrow> draft_manager \<Rightarrow> draft_session result \<times> draft_manager" where
  "finish_append ids job answer m =
     (case answer of
        Inl e \<Rightarrow> (Inl e, m)
      | Inr d \<Rightarrow>
          (case session_at m (jb_session job) of
             None \<Rightarrow> (Inl (KeyError ''session''), m)
           | Some s \<Rightarrow>
               (let s1 = s\<lparr>dz_asr_turns := dz_asr_turns s @ [jb_turn job]\<rparr>;
                    s2 = apply_draft_revision ids d (map at_id (dz_asr_turns s1)) ''asr_turn'' None s1
                in (Inr s2, install_session (jb_session job) s2 m))))"

text \<open>A live transcript: an older one than the last seen is dropped and the session returned as it is.\<close>

definition begin_live ::
    "str \<Rightarrow> str \<Rightarrow> str \<Rightarrow> utext \<Rightarrow> utext option \<Rightarrow> rat option \<Rightarrow> str option \<Rightarrow> str option \<Rightarrow>
     str option \<Rightarrow> int option \<Rightarrow> draft_manager \<Rightarrow> (draft_session + rewrite_job) result \<times> draft_manager" where
  "begin_live uid uid' now raw normalized confidence started ended bro ts m =
     (let s = u_strip raw in
      if s = [] then (Inl (ValueError ''Live transcript text must not be empty.''), m)
      else
        (let (r, session, m1) = open_session uid now bro m in
         if (case (ts, dz_live_transcript_timestamp_ms session) of
               (Some x, Some y) \<Rightarrow> x < y | _ \<Rightarrow> False)
         then (Inr (Inl session), m1)
         else
           (let t = new_turn (''live-'' @ uid') now s normalized confidence started ended
            in (Inr (Inr \<lparr>jb_session = r, jb_turn = t, jb_input = rewrite_input_of session t\<rparr>), m1))))"

definition finish_live ::
    "revision_ids \<Rightarrow> rewrite_job \<Rightarrow> str \<Rightarrow> int option \<Rightarrow> jdict option \<Rightarrow> draft result \<Rightarrow> draft_manager \<Rightarrow>
     draft_session result \<times> draft_manager" where
  "finish_live ids job boundary ts classification answer m =
     (case answer of
        Inl e \<Rightarrow> (Inl e, m)
      | Inr d \<Rightarrow>
          (case session_at m (jb_session job) of
             None \<Rightarrow> (Inl (KeyError ''session''), m)
           | Some s \<Rightarrow>
               (let s1 = s\<lparr>dz_live_classification := classification\<rparr>;
                    s2 = apply_draft_revision ids d (map at_id (dz_asr_turns s1)) boundary ts s1
                in (Inr s2, install_session (jb_session job) s2 m))))"

definition mark_live_checkpoint ::
    "str \<Rightarrow> str \<Rightarrow> str \<Rightarrow> int option \<Rightarrow> jdict option \<Rightarrow> draft_manager \<Rightarrow> draft_session option \<times> draft_manager" where
  "mark_live_checkpoint uid now boundary ts classification m =
     (case active_session m of
        None \<Rightarrow> (None, m)
      | Some (r, s) \<Rightarrow>
          (case (dz_current_draft s, dz_current_revision_id s) of
             (Some d, Some rev_id) \<Rightarrow>
               (let s1 = s\<lparr>dz_live_classification :=
                        (case classification of Some c \<Rightarrow> Some c | None \<Rightarrow> dz_live_classification s),
                      dz_live_source_boundary := Some boundary,
                      dz_live_transcript_timestamp_ms :=
                        (case ts of Some x \<Rightarrow> Some x | None \<Rightarrow> dz_live_transcript_timestamp_ms s),
                      dz_updated_at := now,
                      dz_snapshots := dz_snapshots s @
                        [\<lparr>sn_id = ''draft-snap-'' @ uid, sn_draft = d,
                          sn_source_asr_turn_ids = map at_id (dz_asr_turns s), sn_created_at = now,
                          sn_draft_revision_id = Some rev_id,
                          sn_draft_revision_number = dz_current_revision_number s,
                          sn_source_boundary = boundary, sn_transcript_timestamp_ms = ts\<rparr>]\<rparr>
                in (Some s1, install_session r s1 m))
           | _ \<Rightarrow> (Some s, m)))"

definition clear_draft :: "str \<Rightarrow> draft_manager \<Rightarrow> draft_session option \<times> draft_manager" where
  "clear_draft now m =
     (case active_session m of
        None \<Rightarrow> (None, m)
      | Some (r, s) \<Rightarrow>
          (let s1 = s\<lparr>dz_status := DS_CLEARED, dz_runtime_state := RSS_IDLE, dz_updated_at := now\<rparr>
           in (Some s1, (store_session r s1 m)\<lparr>dm_active := None\<rparr>)))"

definition mark_sent ::
    "str \<Rightarrow> str option \<Rightarrow> str option \<Rightarrow> draft_manager \<Rightarrow> draft_session result \<times> draft_manager" where
  "mark_sent now session_id revision_id m =
     (case active_session m of
        None \<Rightarrow> (Inl (ValueError ''No draft is ready to send.''), m)
      | Some (r, s) \<Rightarrow>
          if dz_current_draft s = None \<or> dz_snapshots s = []
          then (Inl (ValueError ''No draft is ready to send.''), m)
          else if (case session_id of None \<Rightarrow> False | Some k \<Rightarrow> dz_id s \<noteq> k)
          then (Inl (ValueError ''Draft session does not match the active draft.''), m)
          else if (case revision_id of None \<Rightarrow> False | Some k \<Rightarrow> dz_current_revision_id s \<noteq> Some k)
          then (Inl (ValueError ''Draft revision does not match the active draft.''), m)
          else
            (let s1 = s\<lparr>dz_status := DS_SENT, dz_runtime_state := RSS_TASK_RUNNING, dz_updated_at := now\<rparr>
             in (Inr s1, (store_session r s1 m)\<lparr>dm_active := None\<rparr>)))"

end
