(* ===== verification/Drafts_Props.thy ===== *)
theory Drafts_Props
  imports Drafts "HOL-Library.Sublist"
begin

text \<open>
  The properties of drafts: what the dispatch gate lets through, the revisions and snapshots of a
  draft under every interleaving of turns, live transcripts, checkpoints, clearing and sending
  with rewrites in progress, what a rewrite that outlives the sending of its draft does, and the
  length of titles.
\<close>

section \<open>The gate\<close>

lemma lint_valid:
  "lr_valid (lint_task_spec sp) \<longleftrightarrow>
     u_strip (sp_goal sp) \<noteq> [] \<and> py_strip (sp_target_agent sp) \<noteq> [] \<and>
     u_strip (sp_expected_output sp) \<noteq> [] \<and> 8 \<le> length (u_strip (sp_goal sp))"
  by (auto simp: lint_task_spec_def missing_context_def Let_def)

definition plan_complete :: "dispatch_plan \<Rightarrow> bool" where
  "plan_complete p \<longleftrightarrow>
     8 \<le> length (u_strip (sp_goal (pl_task_spec p))) \<and>
     py_strip (sp_target_agent (pl_task_spec p)) \<noteq> [] \<and>
     u_strip (sp_expected_output (pl_task_spec p)) \<noteq> [] \<and>
     85 / 100 \<le> pl_confidence p \<and> pl_missing_context p = []"

definition plan_agent_fits :: "dispatch_plan \<Rightarrow> bool" where
  "plan_agent_fits p \<longleftrightarrow>
     pl_target_agent p \<notin> {[], ''unknown'', ''none''} \<and>
     agent_allowed_for_intent (pl_intent p) (pl_target_agent p)"

text \<open>The gate lets a plan through exactly when the user has confirmed it, its task has a goal of
  at least eight characters, a target and an expected output, its confidence is at least 0.85,
  nothing is missing, and its agent is known and may do what the plan intends; it rejects exactly
  the plans that fail on the agent alone; and a plan that only lacks the confirmation is answered
  by asking for it.\<close>

theorem gate_decides:
  "gr_outcome (dispatch_gate p) =
     (if \<not> plan_complete p then DG_ASK_CLARIFICATION
      else if \<not> plan_agent_fits p then DG_REJECT
      else if \<not> pl_user_confirmed p then DG_ASK_CONFIRMATION
      else DG_DISPATCH)"
  by (auto simp: plan_complete_def plan_agent_fits_def dispatch_gate_def gate_def Let_def lint_valid)

section \<open>Revisions\<close>

text \<open>A state is the manager with the rewrites in progress.\<close>

inductive draft_step :: "draft_manager \<times> rewrite_job list \<Rightarrow> draft_manager \<times> rewrite_job list \<Rightarrow> bool" where
  begin_append:
    "begin_append uid uid' now raw normalized confidence started ended bro m = (Inr job, m') \<Longrightarrow>
     draft_step (m, jobs) (m', job # jobs)"
| refuse_append:
    "begin_append uid uid' now raw normalized confidence started ended bro m = (Inl e, m') \<Longrightarrow>
     draft_step (m, jobs) (m', jobs)"
| finish_append:
    "job \<in> set jobs \<Longrightarrow> draft_step (m, jobs) (snd (finish_append ids job answer m), removeAll job jobs)"
| begin_live:
    "begin_live uid uid' now raw normalized confidence started ended bro ts m = (Inr (Inr job), m') \<Longrightarrow>
     draft_step (m, jobs) (m', job # jobs)"
| drop_live:
    "begin_live uid uid' now raw normalized confidence started ended bro ts m = (Inr (Inl s), m') \<Longrightarrow>
     draft_step (m, jobs) (m', jobs)"
| refuse_live:
    "begin_live uid uid' now raw normalized confidence started ended bro ts m = (Inl e, m') \<Longrightarrow>
     draft_step (m, jobs) (m', jobs)"
| finish_live:
    "job \<in> set jobs \<Longrightarrow>
     draft_step (m, jobs) (snd (finish_live ids job boundary ts classification answer m), removeAll job jobs)"
| checkpoint:
    "draft_step (m, jobs) (snd (mark_live_checkpoint uid now boundary ts classification m), jobs)"
| clear: "draft_step (m, jobs) (snd (clear_draft now m), jobs)"
| sent: "draft_step (m, jobs) (snd (mark_sent now session_id revision_id m), jobs)"

definition draft_reachable :: "draft_manager \<times> rewrite_job list \<Rightarrow> bool" where
  "draft_reachable st \<longleftrightarrow> draft_step\<^sup>*\<^sup>* (draft_manager_init, []) st"

definition snapshot_ok :: "draft_session \<Rightarrow> draft_snapshot \<Rightarrow> bool" where
  "snapshot_ok s n \<longleftrightarrow>
     0 < sn_draft_revision_number n \<and> sn_draft_revision_number n \<le> dz_current_revision_number s \<and>
     df_revision_number (sn_draft n) = sn_draft_revision_number n \<and>
     df_revision_id (sn_draft n) = sn_draft_revision_id n \<and>
     prefix (sn_source_asr_turn_ids n) (map at_id (dz_asr_turns s))"

definition draft_session_ok :: "draft_session \<Rightarrow> bool" where
  "draft_session_ok s \<longleftrightarrow>
     (case dz_current_draft s of
        None \<Rightarrow> dz_snapshots s = [] \<and> dz_current_revision_number s = 0 \<and> dz_current_dispatch_plan s = None
      | Some d \<Rightarrow>
          dz_snapshots s \<noteq> [] \<and> sn_draft (last (dz_snapshots s)) = d \<and>
          df_revision_number d = dz_current_revision_number s \<and>
          df_revision_id d = dz_current_revision_id s \<and> dz_current_revision_id s \<noteq> None \<and>
          (case dz_current_dispatch_plan s of
             None \<Rightarrow> False
           | Some p \<Rightarrow> pl_draft_revision_number p = dz_current_revision_number s \<and>
               pl_draft_revision_id p = dz_current_revision_id s \<and> pl_draft_session_id p = dz_id s \<and>
               \<not> pl_user_confirmed p)) \<and>
     sorted (map sn_draft_revision_number (dz_snapshots s)) \<and>
     list_all (snapshot_ok s) (dz_snapshots s)"

definition draft_manager_ok :: "draft_manager \<Rightarrow> bool" where
  "draft_manager_ok m \<longleftrightarrow>
     list_all (\<lambda>(r, s). draft_session_ok s \<and> r < dm_next m) (dm_sessions m) \<and> dict_wf (dm_sessions m) \<and>
     (case dm_active m of
        None \<Rightarrow> True
      | Some r \<Rightarrow>
          (case session_at m r of
             None \<Rightarrow> False
           | Some s \<Rightarrow> dz_status s = DS_READY \<and> dz_current_draft s \<noteq> None))"

lemma manager_ok_at: "draft_manager_ok m \<Longrightarrow> session_at m r = Some s \<Longrightarrow> draft_session_ok s \<and> r < dm_next m"
  by (auto simp: draft_manager_ok_def session_at_def list_all_iff dest!: map_of_SomeD)

lemma active_sessionD:
  "active_session m = Some (r, s) \<Longrightarrow> dm_active m = Some r \<and> session_at m r = Some s"
  by (auto simp: active_session_def split: option.splits)

lemma manager_ok_store:
  assumes "draft_manager_ok m" and "draft_session_ok s" and "r < dm_next m'"
    and "dm_next m \<le> dm_next m'" and "dm_sessions m' = dict_put r s (dm_sessions m)"
    and "dm_active m' = None \<or> dm_active m' = Some r \<and> dz_status s = DS_READY \<and> dz_current_draft s \<noteq> None \<or>
      dm_active m' = dm_active m \<and> (dm_active m \<noteq> Some r \<or> dz_status s = DS_READY \<and> dz_current_draft s \<noteq> None)"
  shows "draft_manager_ok m'"
proof -
  have wf: "dict_wf (dm_sessions m)" and wf': "dict_wf (dm_sessions m')"
    using assms by (auto simp: draft_manager_ok_def)
  have "draft_session_ok s' \<and> r' < dm_next m'" if "(r', s') \<in> set (dm_sessions m')" for r' s'
  proof -
    have "map_of (dm_sessions m') r' = Some s'" using that wf' by (simp add: dict_mem_iff)
    then show ?thesis
      using assms manager_ok_at [OF assms(1), of r' s'] by (auto simp: session_at_def split: if_splits)
  qed
  moreover have "case dm_active m' of None \<Rightarrow> True | Some r' \<Rightarrow>
      (case session_at m' r' of None \<Rightarrow> False | Some s' \<Rightarrow> dz_status s' = DS_READY \<and> dz_current_draft s' \<noteq> None)"
    using assms(1,5,6) by (auto simp: draft_manager_ok_def session_at_def split: option.splits)
  ultimately show ?thesis using wf' by (auto simp: draft_manager_ok_def list_all_iff)
qed

lemma fresh_session_ok: "draft_session_ok (fresh_session uid now bro)"
  by (simp add: draft_session_ok_def fresh_session_def)

lemma snapshot_ok_mono:
  "snapshot_ok s n \<Longrightarrow> dz_current_revision_number s \<le> dz_current_revision_number s' \<Longrightarrow>
     prefix (map at_id (dz_asr_turns s)) (map at_id (dz_asr_turns s')) \<Longrightarrow> snapshot_ok s' n"
  unfolding snapshot_ok_def using prefix_order.order_trans le_trans by blast

lemma apply_revision_reads:
  "dz_snapshots (apply_draft_revision ids d src bd t s) =
      dz_snapshots s @ [revision_snapshot ids (revise_draft ids (dz_current_revision_number s + 1) d) src bd t]"
  "dz_current_draft (apply_draft_revision ids d src bd t s) = Some (revise_draft ids (dz_current_revision_number s + 1) d)"
  "dz_current_revision_id (apply_draft_revision ids d src bd t s) = df_revision_id (revise_draft ids (dz_current_revision_number s + 1) d)"
  "dz_current_revision_number (apply_draft_revision ids d src bd t s) = Suc (dz_current_revision_number s)"
  "dz_asr_turns (apply_draft_revision ids d src bd t s) = dz_asr_turns s"
  "dz_status (apply_draft_revision ids d src bd t s) = DS_READY"
  "\<exists>p. dz_current_dispatch_plan (apply_draft_revision ids d src bd t s) = Some p \<and>
      pl_draft_revision_number p = Suc (dz_current_revision_number s) \<and>
      pl_draft_revision_id p = df_revision_id (revise_draft ids (dz_current_revision_number s + 1) d) \<and>
      pl_draft_session_id p = dz_id s \<and> \<not> pl_user_confirmed p"
  "dz_id (apply_draft_revision ids d src bd t s) = dz_id s"
  by (simp_all add: apply_draft_revision_def Let_def revise_draft_def build_dispatch_plan_def)

lemma revise_draft_reads:
  "df_revision_number (revise_draft ids n d) = n"
  "df_revision_id (revise_draft ids n d) = Some (''draft-rev-'' @ ri_revision ids)"
  by (simp_all add: revise_draft_def)

lemma revision_snapshot_reads:
  "sn_draft (revision_snapshot ids d src bd t) = d"
  "sn_draft_revision_number (revision_snapshot ids d src bd t) = df_revision_number d"
  "sn_draft_revision_id (revision_snapshot ids d src bd t) = df_revision_id d"
  "sn_source_asr_turn_ids (revision_snapshot ids d src bd t) = src"
  by (simp_all add: revision_snapshot_def)

lemma apply_revision_ok:
  assumes "draft_session_ok s" and turns: "dz_asr_turns s' = dz_asr_turns s @ ts"
    and rest: "dz_snapshots s' = dz_snapshots s" "dz_current_revision_number s' = dz_current_revision_number s"
  shows "draft_session_ok (apply_draft_revision ids d (map at_id (dz_asr_turns s')) boundary t s')"
proof -
  define s2 where "s2 = apply_draft_revision ids d (map at_id (dz_asr_turns s')) boundary t s'"
  define d' where "d' = revise_draft ids (dz_current_revision_number s' + 1) d"
  define snap where "snap = revision_snapshot ids d' (map at_id (dz_asr_turns s')) boundary t"
  have reads: "dz_snapshots s2 = dz_snapshots s @ [snap]" "dz_current_draft s2 = Some d'"
      "dz_current_revision_id s2 = df_revision_id d'"
      "dz_current_revision_number s2 = Suc (dz_current_revision_number s)"
      "dz_asr_turns s2 = dz_asr_turns s'" "dz_id s2 = dz_id s'"
    using rest by (simp_all add: s2_def d'_def snap_def apply_revision_reads)
  have d': "df_revision_number d' = Suc (dz_current_revision_number s)" "df_revision_id d' \<noteq> None"
    using rest by (simp_all add: d'_def revise_draft_reads)
  obtain p where p: "dz_current_dispatch_plan s2 = Some p"
      "pl_draft_revision_number p = Suc (dz_current_revision_number s)"
      "pl_draft_revision_id p = df_revision_id d'" "pl_draft_session_id p = dz_id s'" "\<not> pl_user_confirmed p"
    using apply_revision_reads(7) [of ids d "map at_id (dz_asr_turns s')" boundary t s'] rest
    by (auto simp: s2_def d'_def)
  have snap: "snapshot_ok s2 snap" "sn_draft snap = d'"
      "sn_draft_revision_number snap = Suc (dz_current_revision_number s)"
    using reads d' by (simp_all add: snapshot_ok_def snap_def revision_snapshot_reads)
  have sok: "list_all (snapshot_ok s) (dz_snapshots s)" "sorted (map sn_draft_revision_number (dz_snapshots s))"
    using assms(1) unfolding draft_session_ok_def by blast+
  have old: "snapshot_ok s2 n" if "n \<in> set (dz_snapshots s)" for n
  proof (rule snapshot_ok_mono)
    show "snapshot_ok s n" using sok(1) that by (simp add: list_all_iff)
    show "dz_current_revision_number s \<le> dz_current_revision_number s2" using reads by simp
    show "prefix (map at_id (dz_asr_turns s)) (map at_id (dz_asr_turns s2))" using reads turns by simp
  qed
  have "sn_draft_revision_number n \<le> Suc (dz_current_revision_number s)" if "n \<in> set (dz_snapshots s)" for n
    using sok(1) that by (force simp: list_all_iff snapshot_ok_def)
  then have "sorted (map sn_draft_revision_number (dz_snapshots s2))"
    using sok(2) reads(1) snap(3) by (simp add: sorted_append)
  then show ?thesis
    unfolding s2_def [symmetric] draft_session_ok_def using reads d' p snap old
    by (simp add: list_all_iff)
qed

lemma session_ok_cong:
  "dz_current_draft s' = dz_current_draft s \<Longrightarrow> dz_snapshots s' = dz_snapshots s \<Longrightarrow>
   dz_current_revision_number s' = dz_current_revision_number s \<Longrightarrow>
   dz_current_revision_id s' = dz_current_revision_id s \<Longrightarrow>
   dz_current_dispatch_plan s' = dz_current_dispatch_plan s \<Longrightarrow> dz_id s' = dz_id s \<Longrightarrow>
   dz_asr_turns s' = dz_asr_turns s \<Longrightarrow> draft_session_ok s' = draft_session_ok s"
  by (cases "dz_current_draft s"; cases "dz_current_dispatch_plan s")
    (simp_all add: draft_session_ok_def snapshot_ok_def [abs_def])

lemma open_session_ok:
  assumes "draft_manager_ok m" and "open_session uid now bro m = (r, s, m1)"
  shows "draft_manager_ok m1"
proof (cases "s = fresh_session uid now bro \<and> r = dm_next m \<and>
    m1 = store_session (dm_next m) (fresh_session uid now bro) (m\<lparr>dm_next := Suc (dm_next m)\<rparr>)")
  case True
  have "dm_active m \<noteq> Some (dm_next m)"
    using assms(1) manager_ok_at [OF assms(1), of "dm_next m"]
    by (auto simp: draft_manager_ok_def split: option.splits)
  then show ?thesis
    using True by (intro manager_ok_store [OF assms(1) fresh_session_ok, of "dm_next m"])
      (auto simp: store_session_def)
next
  case False
  then obtain s0 where a: "active_session m = Some (r, s0)" and m1: "m1 = m \<or> m1 = store_session r (s0\<lparr>dz_assigned_bro_id := the bro\<rparr>) m"
    using assms(2) by (auto simp: open_session_def Let_def split: option.splits if_splits)
  have act: "dm_active m = Some r" "session_at m r = Some s0" using active_sessionD [OF a] by auto
  have ok: "draft_session_ok s0" "r < dm_next m" using manager_ok_at [OF assms(1) act(2)] by auto
  have ready: "dz_status s0 = DS_READY" "dz_current_draft s0 \<noteq> None"
    using assms(1) act by (auto simp: draft_manager_ok_def)
  have "draft_session_ok (s0\<lparr>dz_assigned_bro_id := the bro\<rparr>)"
    using ok(1) session_ok_cong [of "s0\<lparr>dz_assigned_bro_id := the bro\<rparr>" s0] by simp
  then have "draft_manager_ok (store_session r (s0\<lparr>dz_assigned_bro_id := the bro\<rparr>) m)"
    using ok ready act by (intro manager_ok_store [OF assms(1)]) (auto simp: store_session_def)
  then show ?thesis using m1 assms(1) by blast
qed

lemma install_ok:
  "draft_manager_ok m \<Longrightarrow> draft_session_ok s \<Longrightarrow> r < dm_next m \<Longrightarrow> dz_status s = DS_READY \<Longrightarrow>
     dz_current_draft s \<noteq> None \<Longrightarrow> draft_manager_ok (install_session r s m)"
  by (rule manager_ok_store [of m s r]) (auto simp: install_session_def store_session_def)

lemma finish_append_ok:
  assumes "draft_manager_ok m"
  shows "draft_manager_ok (snd (finish_append ids job answer m))"
proof (cases answer)
  case (Inr d)
  show ?thesis
  proof (cases "session_at m (jb_session job)")
    case (Some s)
    define s1 where "s1 = s\<lparr>dz_asr_turns := dz_asr_turns s @ [jb_turn job]\<rparr>"
    have ok: "draft_session_ok s" "jb_session job < dm_next m" using manager_ok_at [OF assms Some] by auto
    have "draft_session_ok (apply_draft_revision ids d (map at_id (dz_asr_turns s1)) ''asr_turn'' None s1)"
      by (rule apply_revision_ok [OF ok(1), of s1 "[jb_turn job]"]) (simp_all add: s1_def)
    then show ?thesis
      using Inr Some ok install_ok [OF assms]
      by (simp add: finish_append_def Let_def s1_def [symmetric] apply_revision_reads)
  qed (simp add: finish_append_def Inr assms)
qed (simp add: finish_append_def assms)

lemma finish_live_ok:
  assumes "draft_manager_ok m"
  shows "draft_manager_ok (snd (finish_live ids job boundary ts classification answer m))"
proof (cases answer)
  case (Inr d)
  show ?thesis
  proof (cases "session_at m (jb_session job)")
    case (Some s)
    define s1 where "s1 = s\<lparr>dz_live_classification := classification\<rparr>"
    have ok: "draft_session_ok s" "jb_session job < dm_next m" using manager_ok_at [OF assms Some] by auto
    have "draft_session_ok (apply_draft_revision ids d (map at_id (dz_asr_turns s1)) boundary ts s1)"
      by (rule apply_revision_ok [OF ok(1), of s1 "[]"]) (simp_all add: s1_def)
    then show ?thesis
      using Inr Some ok install_ok [OF assms]
      by (simp add: finish_live_def Let_def s1_def [symmetric] apply_revision_reads)
  qed (simp add: finish_live_def Inr assms)
qed (simp add: finish_live_def assms)

lemma leave_ok:
  assumes "draft_manager_ok m" and "active_session m = Some (r, s)"
    and "draft_session_ok s' = draft_session_ok s"
  shows "draft_manager_ok ((store_session r s' m)\<lparr>dm_active := None\<rparr>)"
proof -
  have "session_at m r = Some s" using active_sessionD [OF assms(2)] by simp
  then show ?thesis
    using manager_ok_at [OF assms(1)] assms(3)
    by (intro manager_ok_store [OF assms(1), of s' r]) (auto simp: store_session_def)
qed

lemma clear_ok: "draft_manager_ok m \<Longrightarrow> draft_manager_ok (snd (clear_draft now m))"
proof (cases "active_session m")
  case (Some p)
  assume ok: "draft_manager_ok m"
  obtain r s where p: "p = (r, s)" by (cases p)
  define s1 where "s1 = s\<lparr>dz_status := DS_CLEARED, dz_runtime_state := RSS_IDLE, dz_updated_at := now\<rparr>"
  have "draft_session_ok s1 = draft_session_ok s" by (rule session_ok_cong) (simp_all add: s1_def)
  moreover have "snd (clear_draft now m) = (store_session r s1 m)\<lparr>dm_active := None\<rparr>"
    using Some p by (simp add: clear_draft_def Let_def s1_def)
  ultimately show ?thesis using leave_ok [OF ok, of r s s1] Some p by simp
qed (simp add: clear_draft_def)

lemma sent_ok: "draft_manager_ok m \<Longrightarrow> draft_manager_ok (snd (mark_sent now k rev_id m))"
proof (cases "active_session m")
  case (Some p)
  assume ok: "draft_manager_ok m"
  obtain r s where p: "p = (r, s)" by (cases p)
  define s1 where "s1 = s\<lparr>dz_status := DS_SENT, dz_runtime_state := RSS_TASK_RUNNING, dz_updated_at := now\<rparr>"
  have "draft_session_ok s1 = draft_session_ok s" by (rule session_ok_cong) (simp_all add: s1_def)
  moreover have "snd (mark_sent now k rev_id m) = m \<or>
      snd (mark_sent now k rev_id m) = (store_session r s1 m)\<lparr>dm_active := None\<rparr>"
    using Some p by (simp add: mark_sent_def Let_def s1_def split: option.split)
  ultimately show ?thesis using leave_ok [OF ok, of r s s1] Some p ok by auto
qed (simp add: mark_sent_def)

lemma checkpoint_ok:
  assumes ok: "draft_manager_ok m"
  shows "draft_manager_ok (snd (mark_live_checkpoint uid now boundary ts classification m))"
proof (cases "active_session m")
  case None
  then show ?thesis using ok by (simp add: mark_live_checkpoint_def)
next
  case (Some p)
  obtain r s where p: "p = (r, s)" by (cases p)
  have act: "dm_active m = Some r" "session_at m r = Some s" using active_sessionD Some p by auto
  have sok: "draft_session_ok s" "r < dm_next m" using manager_ok_at [OF ok act(2)] by auto
  have ready: "dz_status s = DS_READY" "dz_current_draft s \<noteq> None"
    using ok act by (auto simp: draft_manager_ok_def)
  then obtain d where d: "dz_current_draft s = Some d" by blast
  then obtain rev_id where rev_id: "dz_current_revision_id s = Some rev_id"
    using sok(1) by (auto simp: draft_session_ok_def)
  define snap where "snap = \<lparr>sn_id = ''draft-snap-'' @ uid, sn_draft = d,
      sn_source_asr_turn_ids = map at_id (dz_asr_turns s), sn_created_at = now,
      sn_draft_revision_id = Some rev_id, sn_draft_revision_number = dz_current_revision_number s,
      sn_source_boundary = boundary, sn_transcript_timestamp_ms = ts\<rparr>"
  define s1 where "s1 = snd (the (active_session (snd (mark_live_checkpoint uid now boundary ts classification m))))"
  have m1: "snd (mark_live_checkpoint uid now boundary ts classification m) = install_session r s1 m"
    and reads: "dz_snapshots s1 = dz_snapshots s @ [snap]" "dz_current_draft s1 = Some d"
      "dz_current_revision_id s1 = Some rev_id" "dz_status s1 = DS_READY"
      "dz_current_revision_number s1 = dz_current_revision_number s"
      "dz_asr_turns s1 = dz_asr_turns s" "dz_id s1 = dz_id s"
      "dz_current_dispatch_plan s1 = dz_current_dispatch_plan s"
    using Some p d rev_id ready
    by (simp_all add: s1_def mark_live_checkpoint_def Let_def install_session_def store_session_def
        active_session_def session_at_def snap_def)
  have old: "list_all (snapshot_ok s) (dz_snapshots s)" "sorted (map sn_draft_revision_number (dz_snapshots s))"
      "dz_snapshots s \<noteq> []" "sn_draft (last (dz_snapshots s)) = d"
      "df_revision_number d = dz_current_revision_number s" "df_revision_id d = Some rev_id"
    using sok(1) d rev_id unfolding draft_session_ok_def by auto
  have same: "snapshot_ok s1 n = snapshot_ok s n" for n
    using reads by (simp add: snapshot_ok_def)
  have pos: "0 < dz_current_revision_number s"
    using old(1,3) by (cases "dz_snapshots s") (auto simp: snapshot_ok_def)
  have snap: "snapshot_ok s1 snap" "sn_draft snap = d"
      "sn_draft_revision_number snap = dz_current_revision_number s"
    unfolding same using old pos by (simp_all add: snapshot_ok_def snap_def)
  have below: "sn_draft_revision_number n \<le> dz_current_revision_number s" if "n \<in> set (dz_snapshots s)" for n
    using old(1) that by (simp add: list_all_iff snapshot_ok_def)
  obtain p' where p': "dz_current_dispatch_plan s = Some p'"
      "pl_draft_revision_number p' = dz_current_revision_number s" "pl_draft_revision_id p' = Some rev_id"
      "pl_draft_session_id p' = dz_id s" "\<not> pl_user_confirmed p'"
    using sok(1) d rev_id unfolding draft_session_ok_def by (auto split: option.splits)
  have "list_all (snapshot_ok s1) (dz_snapshots s1)" using old(1) snap(1) reads(1) by (simp add: list_all_iff same)
  moreover have "sorted (map sn_draft_revision_number (dz_snapshots s1))"
    using old(2) below snap(3) reads(1) by (simp add: sorted_append)
  ultimately have "draft_session_ok s1"
    unfolding draft_session_ok_def using reads old(5,6) p' snap(2) by simp
  then show ?thesis unfolding m1 using install_ok [OF ok] sok(2) reads by simp
qed

lemma begin_ok:
  "draft_manager_ok m \<Longrightarrow>
     begin_append uid uid' now raw normalized confidence started ended bro m = (x, m1) \<Longrightarrow> draft_manager_ok m1"
  "draft_manager_ok m \<Longrightarrow>
     begin_live uid uid' now raw normalized confidence started ended bro ts m = (y, m1) \<Longrightarrow> draft_manager_ok m1"
  using open_session_ok [of m uid now bro]
  by (auto simp: begin_append_def begin_live_def Let_def split: if_splits prod.splits)

lemma draft_step_ok: "draft_step st st' \<Longrightarrow> draft_manager_ok (fst st) \<Longrightarrow> draft_manager_ok (fst st')"
  by (induction rule: draft_step.induct)
    (auto intro: begin_ok simp: finish_append_ok finish_live_ok clear_ok sent_ok checkpoint_ok)

lemma draft_reachable_ok: "draft_reachable st \<Longrightarrow> draft_manager_ok (fst st)"
  unfolding draft_reachable_def
proof (induction rule: rtranclp_induct)
  case base
  then show ?case by (simp add: draft_manager_ok_def draft_manager_init_def)
next
  case (step st st')
  then show ?case using draft_step_ok by blast
qed

definition demo_ids :: revision_ids where
  "demo_ids = \<lparr>ri_revision = ''r1'', ri_snapshot = ''s1'', ri_plan = ''p1'', ri_now = ''t1''\<rparr>"

definition demo_begin :: "rewrite_job result \<times> draft_manager" where
  "demo_begin =
     begin_append ''u1'' ''a1'' ''t0'' (u ''check the docs'') None None None None None draft_manager_init"

definition demo_job :: rewrite_job where
  "demo_job = (case fst demo_begin of Inr job \<Rightarrow> job)"

definition demo_draft :: draft where
  "demo_draft = fresh_draft (u ''Check the docs.'') [] (formulate_task_spec (u ''Check the docs.'') ''codex'')"

definition demo_ready :: draft_manager where
  "demo_ready = snd (finish_append demo_ids demo_job (Inr demo_draft) (snd demo_begin))"

lemma demo_begin_ok: "demo_begin = (Inr demo_job, snd demo_begin)"
  by (simp add: demo_job_def demo_begin_def begin_append_def Let_def open_session_def active_session_def
      draft_manager_init_def u_def u_strip_def u_rstrip_def u_isspace_def)

lemma demo_ready_reachable: "draft_reachable (demo_ready, [])"
proof -
  have "draft_step (draft_manager_init, []) (snd demo_begin, [demo_job])"
    using draft_step.begin_append [OF demo_begin_ok [unfolded demo_begin_def], of "[]"]
    by (simp add: demo_begin_def)
  moreover have "draft_step (snd demo_begin, [demo_job]) (demo_ready, [])"
    using draft_step.finish_append [of demo_job "[demo_job]" "snd demo_begin" demo_ids "Inr demo_draft"]
    by (simp add: demo_ready_def)
  ultimately show ?thesis unfolding draft_reachable_def by (meson rtranclp.simps)
qed

lemma demo_ready_active:
  "dm_active demo_ready = Some 0 \<and> (\<exists>s. session_at demo_ready 0 = Some s \<and> dz_status s = DS_READY \<and>
     dz_current_draft s \<noteq> None \<and> dz_snapshots s \<noteq> [])"
  by (simp add: demo_ready_def finish_append_def demo_job_def demo_begin_def begin_append_def Let_def
      open_session_def active_session_def draft_manager_init_def u_def u_strip_def u_rstrip_def u_isspace_def
      session_at_def store_session_def install_session_def apply_revision_reads)

text \<open>C16: after any turns, live transcripts, checkpoints, clearings and sendings, in any order and
  with any number of rewrites in progress, every draft session is consistent: its current draft is
  the draft of its last snapshot and carries the session's revision number and id, the dispatch plan
  is for that revision of that session and is not confirmed, and the snapshots are ordered by
  revision numbers from 1 up to the session's, each with turns the session had first; a session with
  no draft has no snapshot, no plan and revision 0. The active session is ready and has a draft.\<close>

theorem draft_revisions_consistent:
  assumes "draft_reachable (m, jobs)" and "session_at m r = Some s"
  shows "draft_session_ok s \<and>
    (dm_active m = Some r \<longrightarrow> dz_status s = DS_READY \<and> dz_current_draft s \<noteq> None)"
proof -
  have ok: "draft_manager_ok m" using draft_reachable_ok [OF assms(1)] by simp
  then show ?thesis using manager_ok_at [OF ok assms(2)] assms(2) by (auto simp: draft_manager_ok_def)
qed

theorem draft_revisions_consistent_witness:
  "dm_active demo_ready = Some 0 \<and>
   (\<exists>s. session_at demo_ready 0 = Some s \<and> draft_session_ok s \<and> dz_status s = DS_READY)"
proof -
  obtain s where "session_at demo_ready 0 = Some s" using demo_ready_active by blast
  then show ?thesis
    using draft_revisions_consistent [OF demo_ready_reachable, of 0 s] demo_ready_active by blast
qed

section \<open>A rewrite that outlives its draft\<close>

lemma begin_append_active:
  assumes "active_session m = Some (r, s)" and "dz_status s \<notin> {DS_SENT, DS_CLEARED}"
    and "begin_append uid uid' now raw normalized confidence started ended None m = (Inr job, m1)"
  shows "m1 = m \<and> jb_session job = r"
  using assms by (auto simp: begin_append_def Let_def open_session_def split: if_splits)

lemma mark_sent_active:
  assumes "active_session m = Some (r, s)" and "mark_sent now k rev_id m = (Inr sent, m1)"
  shows "sent = s\<lparr>dz_status := DS_SENT, dz_runtime_state := RSS_TASK_RUNNING, dz_updated_at := now\<rparr> \<and>
    m1 = (store_session r sent m)\<lparr>dm_active := None\<rparr>"
  using assms by (auto simp: mark_sent_def Let_def split: if_splits option.splits)

text \<open>a turn whose rewrite is in progress when the draft is sent brings the draft back: the
  rewriter's answer makes the session that was sent the active one again, ready and with a new
  revision, and sending it a second time succeeds.\<close>

theorem sent_draft_comes_back:
  assumes "active_session m = Some (r, s)" and "dz_status s \<notin> {DS_SENT, DS_CLEARED}"
    and "begin_append uid uid' now raw normalized confidence started ended None m = (Inr job, m1)"
    and "mark_sent now' k rev_id m1 = (Inr sent, m2)"
  shows "dz_status sent = DS_SENT \<and> dm_active m2 = None \<and>
    (\<exists>again m3. finish_append ids job (Inr d) m2 = (Inr again, m3) \<and>
       dm_active m3 = Some r \<and> session_at m3 r = Some again \<and> dz_id again = dz_id sent \<and>
       dz_status again = DS_READY \<and>
       dz_current_revision_number again = Suc (dz_current_revision_number sent) \<and>
       (\<exists>sent'. fst (mark_sent now'' (Some (dz_id sent)) None m3) = Inr sent' \<and> dz_id sent' = dz_id sent))"
proof -
  have begun: "m1 = m" "jb_session job = r" using begin_append_active [OF assms(1-3)] by auto
  have act: "dz_status sent = DS_SENT" "m2 = (store_session r sent m)\<lparr>dm_active := None\<rparr>"
    using mark_sent_active [OF assms(1) assms(4) [unfolded begun(1)]] by auto
  define s1 where "s1 = sent\<lparr>dz_asr_turns := dz_asr_turns sent @ [jb_turn job]\<rparr>"
  define again where
    "again = apply_draft_revision ids d (map at_id (dz_asr_turns s1)) ''asr_turn'' None s1"
  define m3 where "m3 = install_session r again m2"
  have at2: "session_at m2 r = Some sent" using act(2) by (simp add: session_at_def store_session_def)
  have fin: "finish_append ids job (Inr d) m2 = (Inr again, m3)"
    unfolding m3_def again_def s1_def using begun(2) at2 by (simp add: finish_append_def Let_def)
  have at3: "dm_active m3 = Some r" "session_at m3 r = Some again"
    by (simp_all add: m3_def install_session_def store_session_def session_at_def)
  have reads: "dz_id again = dz_id sent" "dz_status again = DS_READY" "dz_current_draft again \<noteq> None"
      "dz_snapshots again \<noteq> []" "dz_current_revision_number again = Suc (dz_current_revision_number sent)"
    by (simp_all add: again_def apply_revision_reads s1_def)
  have "active_session m3 = Some (r, again)" using at3 by (simp add: active_session_def)
  then have "\<exists>sent'. fst (mark_sent now'' (Some (dz_id sent)) None m3) = Inr sent' \<and> dz_id sent' = dz_id sent"
    using reads by (simp add: mark_sent_def Let_def)
  then show ?thesis using act fin at3 reads by auto
qed

theorem sent_draft_comes_back_witness:
  "\<exists>job m1 sent m2.
     begin_append ''u2'' ''a2'' ''t2'' (u ''and the tests'') None None None None None demo_ready = (Inr job, m1) \<and>
     mark_sent ''t3'' None None m1 = (Inr sent, m2) \<and> dm_active m2 = None \<and>
     dm_active (snd (finish_append demo_ids job (Inr demo_draft) m2)) = Some 0"
proof -
  obtain s where s: "session_at demo_ready 0 = Some s" "dz_status s = DS_READY" "dz_current_draft s \<noteq> None"
      "dz_snapshots s \<noteq> []" and act: "dm_active demo_ready = Some 0"
    using demo_ready_active by blast
  have a: "active_session demo_ready = Some (0, s)" using s act by (simp add: active_session_def)
  obtain job where b: "begin_append ''u2'' ''a2'' ''t2'' (u ''and the tests'') None None None None None demo_ready
      = (Inr job, demo_ready)"
    using a s by (simp add: begin_append_def Let_def open_session_def u_def u_strip_def u_rstrip_def u_isspace_def)
  obtain sent m2 where c: "mark_sent ''t3'' None None demo_ready = (Inr sent, m2)"
    using a s by (simp add: mark_sent_def Let_def)
  have st: "dz_status s \<notin> {DS_SENT, DS_CLEARED}" using s(2) by simp
  obtain again m3 where "finish_append demo_ids job (Inr demo_draft) m2 = (Inr again, m3)"
      "dm_active m3 = Some 0" "dm_active m2 = None"
    using sent_draft_comes_back [OF a st b c] by blast
  then show ?thesis using b c by (intro exI [of _ job] exI [of _ demo_ready] exI [of _ sent] exI [of _ m2]) simp
qed

section \<open>Titles\<close>

lemma length_u_rstrip_le: "length (u_rstrip s) \<le> length s"
  unfolding u_rstrip_def by (metis length_dropWhile_le length_rev)

text \<open>a task's title, from whatever text, is not empty and at most 72 characters long.\<close>

theorem title_bounds:
  "0 < length (sp_title (formulate_task_spec s bro)) \<and> length (sp_title (formulate_task_spec s bro)) \<le> 72"
proof -
  have "0 < length (title_from_goal g) \<and> length (title_from_goal g) \<le> 72" for g
    using length_u_rstrip_le [of "take 69 (u_rstrip_chars full_stops (u_strip g))"]
    by (auto simp: title_from_goal_def Let_def u_def)
  then show ?thesis by (simp add: formulate_task_spec_def Let_def draft_title_def)
qed

end
