(* ===== verification/PublicAuth.thy ===== *)
theory PublicAuth
  imports Protocol "HOL-Library.Product_Lexorder"
begin

text \<open>
  \<open>src/newbro/api/public_auth.py\<close> with the routes of \<open>api/routes/auth.py\<close> and \<open>devices.py\<close> that sit
  directly on it: the accounts of the public deployment, kept in SQLite. The state is the database, a
  list of rows per table in order of insertion. A method runs one transaction under a lock, so it is
  one function, and an exception leaves the database as it was. Of SQL the model has the primary keys
  and the unique column (a violating \<open>INSERT\<close> raises \<open>IntegrityError\<close>), \<open>OR REPLACE\<close>, \<open>OR IGNORE\<close>,
  \<open>UPDATE\<close>, \<open>DELETE\<close> and the selections; rows that an \<open>ORDER BY\<close> leaves equal stay in order of
  insertion. \<open>hash\<close> is the hexadecimal SHA-256 of a secret; fresh secrets and ids, clock readings and
  environment variables are arguments. Instants are integers (microseconds of UTC), \<open>fmt\<close> is
  \<open>isoformat\<close> and \<open>parse\<close> is \<open>fromisoformat\<close>, \<open>None\<close> its \<open>ValueError\<close>.
\<close>

section \<open>Tables\<close>

record invite_row =
  iv_code_hash :: str
  iv_email :: "str option"
  iv_created_at :: str
  iv_redeemed_by :: "str option"
  iv_redeemed_at :: "str option"

record user_row =
  ur_user_id :: str
  ur_email :: "str option"
  ur_created_at :: str
  ur_last_seen_at :: str

record browser_session_row =
  bs_token_hash :: str
  bs_user_id :: str
  bs_created_at :: str
  bs_last_seen_at :: str

record session_owner_row =
  so_session_id :: str
  so_user_id :: str
  so_created_at :: str

record persona_row =
  pr_user_id :: str
  pr_persona_id :: str
  pr_name :: str
  pr_avatar :: str
  pr_base_prompt :: str
  pr_executor_node_id :: "str option"
  pr_bro_detail_session_id :: str
  pr_created_at :: str
  pr_updated_at :: str

record node_owner_row =
  no_node_id :: str
  no_user_id :: str
  no_created_at :: str

record pairing_row =
  dp_device_code_hash :: str
  dp_user_code :: str
  dp_user_id :: "str option"
  dp_issued_token :: "str option"
  dp_status :: str
  dp_created_at :: str
  dp_expires_at :: str
  dp_claimed_at :: "str option"

record auth_db =
  db_invites :: "invite_row list"
  db_users :: "user_row list"
  db_browser_sessions :: "browser_session_row list"
  db_session_owners :: "session_owner_row list"
  db_personas :: "persona_row list"
  db_node_owners :: "node_owner_row list"
  db_device_pairings :: "pairing_row list"

definition auth_db_empty :: auth_db where
  "auth_db_empty =
     \<lparr>db_invites = [], db_users = [], db_browser_sessions = [], db_session_owners = [], db_personas = [],
      db_node_owners = [], db_device_pairings = []\<rparr>"

definition sql_insert :: "('r \<Rightarrow> 'k) \<Rightarrow> 'r \<Rightarrow> 'r list \<Rightarrow> 'r list result" where
  "sql_insert key r rs =
     (if key r \<in> key ` set rs then Inl (IntegrityError ''UNIQUE constraint failed'') else Inr (rs @ [r]))"

definition sql_insert_ignore :: "('r \<Rightarrow> 'k) \<Rightarrow> 'r \<Rightarrow> 'r list \<Rightarrow> 'r list" where
  "sql_insert_ignore key r rs = (if key r \<in> key ` set rs then rs else rs @ [r])"

definition sql_insert_replace :: "('r \<Rightarrow> 'k) \<Rightarrow> 'r \<Rightarrow> 'r list \<Rightarrow> 'r list" where
  "sql_insert_replace key r rs = filter (\<lambda>r'. key r' \<noteq> key r) rs @ [r]"

definition sql_update :: "('r \<Rightarrow> bool) \<Rightarrow> ('r \<Rightarrow> 'r) \<Rightarrow> 'r list \<Rightarrow> 'r list" where
  "sql_update P f rs = map (\<lambda>r. if P r then f r else r) rs"

text \<open>\<open>lower\<close> of SQLite: ASCII only.\<close>

definition sql_lower :: "str \<Rightarrow> str" where
  "sql_lower s = map (\<lambda>c. let n = of_char c :: nat in if 65 \<le> n \<and> n \<le> 90 then char_of (n + 32) else c) s"

section \<open>Names, secrets and times\<close>

definition legacy_draft_base_prompt :: str where
  "legacy_draft_base_prompt = ''Help turn voice instructions into clear executable drafts.''"

definition default_bro_base_prompt :: str where
  "default_bro_base_prompt =
     ''You are the selected local execution Bro. Execute the user's direct typed '' @
     ''or push-to-talk instructions in the connected workspace, and ask only when '' @
     ''you need a concrete decision to continue.''"

definition device_pairing_ttl :: int where
  "device_pairing_ttl = 600 * 1000000"

definition normalize_email :: "str option \<Rightarrow> str option" where
  "normalize_email value =
     (let cleaned = (case value of Some v \<Rightarrow> if v \<noteq> [] then py_lower (py_strip v) else [] | None \<Rightarrow> [])
      in if cleaned = [] then None else Some cleaned)"

text \<open>\<open>str.upper\<close>, for matching against codes of capital letters and digits: the sharp s becomes two
  letters; the two characters whose capitals lie beyond 255 are kept.\<close>

definition py_upper :: "str \<Rightarrow> str" where
  "py_upper s = concat (map (\<lambda>c. let n = of_char c :: nat in
     if 97 \<le> n \<and> n \<le> 122 \<or> 224 \<le> n \<and> n \<le> 254 \<and> n \<noteq> 247 then [char_of (n - 32)]
     else if n = 223 then ''SS'' else [c]) s)"

definition py_isalnum :: "char \<Rightarrow> bool" where
  "py_isalnum c \<longleftrightarrow>
     (let n = of_char c :: nat in
        48 \<le> n \<and> n \<le> 57 \<or> 65 \<le> n \<and> n \<le> 90 \<or> 97 \<le> n \<and> n \<le> 122 \<or>
        n \<in> {170, 178, 179, 181, 185, 186, 188, 189, 190} \<or> 192 \<le> n \<and> n \<le> 255 \<and> n \<noteq> 215 \<and> n \<noteq> 247)"

definition strip_chars :: "char list \<Rightarrow> str \<Rightarrow> str" where
  "strip_chars cs s = rev (dropWhile (\<lambda>c. c \<in> set cs) (rev (dropWhile (\<lambda>c. c \<in> set cs) s)))"

definition generated_persona_id :: "str \<Rightarrow> str \<Rightarrow> str" where
  "generated_persona_id uid name =
     (let slug = strip_chars ''-'' (map (\<lambda>c. if py_isalnum c then c else CHR ''-'') (py_lower name))
      in ''persona-'' @ (if slug = [] then ''bro'' else slug) @ ''-'' @ uid)"

definition generated_bro_detail_session_id :: "str \<Rightarrow> str" where
  "generated_bro_detail_session_id uid = ''bro-detail-'' @ uid"

text \<open>\<open>hmac.compare_digest\<close> on strings: both must be ASCII.\<close>

definition is_ascii :: "str \<Rightarrow> bool" where
  "is_ascii s \<longleftrightarrow> list_all (\<lambda>c. of_char c < (128 :: nat)) s"

definition compare_digest :: "str \<Rightarrow> str \<Rightarrow> bool result" where
  "compare_digest a b =
     (if is_ascii a \<and> is_ascii b then Inr (a = b)
      else Inl (TypeError ''comparing strings with non-ASCII characters is not supported''))"

definition is_expired :: "(str \<Rightarrow> int option) \<Rightarrow> int \<Rightarrow> str \<Rightarrow> bool result" where
  "is_expired parse now expires_at =
     (case parse expires_at of
        None \<Rightarrow> Inl (ValueError ''Invalid isoformat string'')
      | Some e \<Rightarrow> Inr (e \<le> now))"

section \<open>Users and their browser sessions\<close>

record public_user =
  pu_user_id :: str
  pu_email :: "str option"

record redeemed_session =
  rd_user :: public_user
  rd_raw_token :: str

definition user_from_row :: "user_row \<Rightarrow> public_user" where
  "user_from_row r = \<lparr>pu_user_id = ur_user_id r, pu_email = ur_email r\<rparr>"

text \<open>\<open>_init_db\<close> replaces the prompt of an earlier version when the store is opened.\<close>

definition init_db :: "auth_db \<Rightarrow> auth_db" where
  "init_db db =
     db\<lparr>db_personas := sql_update (\<lambda>r. pr_base_prompt r = legacy_draft_base_prompt)
          (\<lambda>r. r\<lparr>pr_base_prompt := default_bro_base_prompt\<rparr>) (db_personas db)\<rparr>"

definition find_user :: "str \<Rightarrow> auth_db \<Rightarrow> user_row option" where
  "find_user k db = find (\<lambda>r. ur_user_id r = k) (db_users db)"

definition touch_user :: "str \<Rightarrow> str \<Rightarrow> auth_db \<Rightarrow> auth_db" where
  "touch_user now k db =
     db\<lparr>db_users := sql_update (\<lambda>r. ur_user_id r = k) (\<lambda>r. r\<lparr>ur_last_seen_at := now\<rparr>) (db_users db)\<rparr>"

definition insert_user :: "str \<Rightarrow> str option \<Rightarrow> str \<Rightarrow> auth_db \<Rightarrow> auth_db result" where
  "insert_user k email now db =
     map_sum id (\<lambda>rs. db\<lparr>db_users := rs\<rparr>)
       (sql_insert ur_user_id
          \<lparr>ur_user_id = k, ur_email = email, ur_created_at = now, ur_last_seen_at = now\<rparr> (db_users db))"

definition insert_browser_session :: "str \<Rightarrow> str \<Rightarrow> str \<Rightarrow> auth_db \<Rightarrow> auth_db result" where
  "insert_browser_session token_hash k now db =
     map_sum id (\<lambda>rs. db\<lparr>db_browser_sessions := rs\<rparr>)
       (sql_insert bs_token_hash
          \<lparr>bs_token_hash = token_hash, bs_user_id = k, bs_created_at = now, bs_last_seen_at = now\<rparr>
          (db_browser_sessions db))"

definition create_invite ::
    "(str \<Rightarrow> str) \<Rightarrow> str \<Rightarrow> str \<Rightarrow> str option \<Rightarrow> auth_db \<Rightarrow> auth_db" where
  "create_invite hash now code email db =
     db\<lparr>db_invites := sql_insert_replace iv_code_hash
          \<lparr>iv_code_hash = hash code, iv_email = normalize_email email, iv_created_at = now,
           iv_redeemed_by = None, iv_redeemed_at = None\<rparr> (db_invites db)\<rparr>"

definition user_weight :: "auth_db \<Rightarrow> user_row \<Rightarrow> nat" where
  "user_weight db r =
     length (filter (\<lambda>p. pr_user_id p = ur_user_id r) (db_personas db)) +
     length (filter (\<lambda>n. no_user_id n = ur_user_id r) (db_node_owners db))"

text \<open>The user with the most personas and nodes among those with an email, then the one seen last,
  then the newest, then the least id.\<close>

definition find_existing_user_for_email :: "str option \<Rightarrow> auth_db \<Rightarrow> user_row option" where
  "find_existing_user_for_email email db =
     (case normalize_email email of
        None \<Rightarrow> None
      | Some e \<Rightarrow>
          (let rows = filter (\<lambda>r. map_option sql_lower (ur_email r) = Some e) (db_users db);
               ordered = sort_reversed (\<lambda>r. (user_weight db r, ur_last_seen_at r, ur_created_at r))
                           (sort_key ur_user_id rows)
           in case ordered of [] \<Rightarrow> None | r # _ \<Rightarrow> Some r))"

text \<open>What signing up and redeeming a fresh invite share: the user with the email, or a new one.\<close>

definition user_for_email :: "str \<Rightarrow> str \<Rightarrow> str option \<Rightarrow> auth_db \<Rightarrow> (public_user \<times> auth_db) result" where
  "user_for_email uid now email db =
     (case find_existing_user_for_email email db of
        Some r \<Rightarrow> Inr (user_from_row r, touch_user now (ur_user_id r) db)
      | None \<Rightarrow>
          map_sum id (\<lambda>db'. (\<lparr>pu_user_id = ''user-'' @ uid, pu_email = email\<rparr>, db'))
            (insert_user (''user-'' @ uid) email now db))"

definition log_in ::
    "(str \<Rightarrow> str) \<Rightarrow> str \<Rightarrow> str \<Rightarrow> (public_user \<times> auth_db) result \<Rightarrow> auth_db \<Rightarrow>
     redeemed_session result \<times> auth_db" where
  "log_in hash token now found db0 =
     (case found of
        Inl e \<Rightarrow> (Inl e, db0)
      | Inr (who, db1) \<Rightarrow>
          (case insert_browser_session (hash token) (pu_user_id who) now db1 of
             Inl e \<Rightarrow> (Inl e, db0)
           | Inr db2 \<Rightarrow> (Inr \<lparr>rd_user = who, rd_raw_token = token\<rparr>, db2)))"

definition create_user_session ::
    "(str \<Rightarrow> str) \<Rightarrow> str \<Rightarrow> str \<Rightarrow> str \<Rightarrow> str option \<Rightarrow> auth_db \<Rightarrow> redeemed_session result \<times> auth_db" where
  "create_user_session hash uid token now email db =
     log_in hash token now (user_for_email uid now email db) db"

definition signup_with_fixed_code ::
    "(str \<Rightarrow> str) \<Rightarrow> str \<Rightarrow> str \<Rightarrow> str \<Rightarrow> str option \<Rightarrow> str \<Rightarrow> str \<Rightarrow> auth_db \<Rightarrow>
     redeemed_session result \<times> auth_db" where
  "signup_with_fixed_code hash uid token now configured email code db =
     (case normalize_email (Some email) of
        None \<Rightarrow> (Inl (PublicAuthError ''Email is required.''), db)
      | Some e \<Rightarrow>
          (let given = py_strip code; expected = py_strip (case configured of Some c \<Rightarrow> c | None \<Rightarrow> []) in
           if given = [] then (Inl (PublicAuthError ''Invitation code is required.''), db)
           else if expected = [] then (Inl (PublicAuthError ''Self-signup is not configured.''), db)
           else
             (case compare_digest given expected of
                Inl err \<Rightarrow> (Inl err, db)
              | Inr same \<Rightarrow>
                  if \<not> same then (Inl (PublicAuthError ''Invalid invitation code.''), db)
                  else create_user_session hash uid token now (Some e) db)))"

definition mark_redeemed :: "str \<Rightarrow> str \<Rightarrow> str \<Rightarrow> auth_db \<Rightarrow> auth_db" where
  "mark_redeemed code_hash k now db =
     db\<lparr>db_invites := sql_update (\<lambda>r. iv_code_hash r = code_hash)
          (\<lambda>r. r\<lparr>iv_redeemed_by := Some k, iv_redeemed_at := Some now\<rparr>) (db_invites db)\<rparr>"

definition redeem_invite ::
    "(str \<Rightarrow> str) \<Rightarrow> str \<Rightarrow> str \<Rightarrow> str \<Rightarrow> str \<Rightarrow> auth_db \<Rightarrow> redeemed_session result \<times> auth_db" where
  "redeem_invite hash uid token now code db =
     (if py_strip code = [] then (Inl (PublicAuthError ''Invite code is required.''), db)
      else
        (let code_hash = hash (py_strip code) in
         case find (\<lambda>r. iv_code_hash r = code_hash) (db_invites db) of
           None \<Rightarrow> (Inl (PublicAuthError ''Invalid invite code.''), db)
         | Some invite \<Rightarrow>
             if str_truthy (iv_redeemed_by invite) then
               (let k = the (iv_redeemed_by invite) in
                case find_user k db of
                  None \<Rightarrow> (Inl (PublicAuthError ''Invite is invalid.''), db)
                | Some r \<Rightarrow> log_in hash token now (Inr (user_from_row r, touch_user now k db)) db)
             else
               log_in hash token now
                 (map_sum id (\<lambda>(who, db'). (who, mark_redeemed code_hash (pu_user_id who) now db'))
                    (user_for_email uid now (iv_email invite) db)) db))"

definition find_browser_session :: "str \<Rightarrow> auth_db \<Rightarrow> browser_session_row option" where
  "find_browser_session h db = find (\<lambda>r. bs_token_hash r = h) (db_browser_sessions db)"

definition user_for_token ::
    "(str \<Rightarrow> str) \<Rightarrow> str \<Rightarrow> str option \<Rightarrow> auth_db \<Rightarrow> public_user option \<times> auth_db" where
  "user_for_token hash now raw db =
     (if \<not> str_truthy raw then (None, db)
      else
        (let h = hash (the raw) in
         case find_browser_session h db of
           None \<Rightarrow> (None, db)
         | Some s \<Rightarrow>
             (case find_user (bs_user_id s) db of
                None \<Rightarrow> (None, db)
              | Some r \<Rightarrow>
                  (Some (user_from_row r),
                   touch_user now (ur_user_id r)
                     (db\<lparr>db_browser_sessions := sql_update (\<lambda>r. bs_token_hash r = h)
                           (\<lambda>r. r\<lparr>bs_last_seen_at := now\<rparr>) (db_browser_sessions db)\<rparr>)))))"

definition delete_browser_session :: "(str \<Rightarrow> str) \<Rightarrow> str option \<Rightarrow> auth_db \<Rightarrow> auth_db" where
  "delete_browser_session hash raw db =
     (if \<not> str_truthy raw then db
      else db\<lparr>db_browser_sessions :=
                filter (\<lambda>r. bs_token_hash r \<noteq> hash (the raw)) (db_browser_sessions db)\<rparr>)"

section \<open>Pairing a device\<close>

record device_pairing_start =
  ps_device_code :: str
  ps_user_code :: str
  ps_interval :: int
  ps_expires_at :: str

record device_pairing_poll =
  pp_status :: str
  pp_token :: "str option"

definition pairing_is_free :: "str \<Rightarrow> str \<Rightarrow> auth_db \<Rightarrow> bool" where
  "pairing_is_free device_hash code db \<longleftrightarrow>
     list_all (\<lambda>r. dp_device_code_hash r \<noteq> device_hash \<and> dp_user_code r \<noteq> code) (db_device_pairings db)"

text \<open>\<open>codes\<close> are the user codes drawn, one per attempt.\<close>

definition create_device_pairing ::
    "(str \<Rightarrow> str) \<Rightarrow> (int \<Rightarrow> str) \<Rightarrow> int \<Rightarrow> str \<Rightarrow> str list \<Rightarrow> auth_db \<Rightarrow>
     device_pairing_start result \<times> auth_db" where
  "create_device_pairing hash fmt now device_code codes db =
     (case find (\<lambda>c. pairing_is_free (hash device_code) c db) (take 10 codes) of
        None \<Rightarrow> (Inl (PublicAuthError ''Could not allocate a pairing code.''), db)
      | Some c \<Rightarrow>
          (Inr \<lparr>ps_device_code = device_code, ps_user_code = c, ps_interval = 2,
                ps_expires_at = fmt (now + device_pairing_ttl)\<rparr>,
           db\<lparr>db_device_pairings := db_device_pairings db @
             [\<lparr>dp_device_code_hash = hash device_code, dp_user_code = c, dp_user_id = None,
               dp_issued_token = None, dp_status = ''pending'', dp_created_at = fmt now,
               dp_expires_at = fmt (now + device_pairing_ttl), dp_claimed_at = None\<rparr>]\<rparr>))"

text \<open>\<open>now\<close> is the reading the expiry is checked against, \<open>now_text\<close> the one that is stored.\<close>

definition claim_device_pairing ::
    "(str \<Rightarrow> str) \<Rightarrow> (str \<Rightarrow> int option) \<Rightarrow> int \<Rightarrow> str \<Rightarrow> str \<Rightarrow> str \<Rightarrow> str \<Rightarrow> auth_db \<Rightarrow>
     unit result \<times> auth_db" where
  "claim_device_pairing hash parse now now_text token user_code k db =
     (let code = py_upper (py_strip user_code) in
      case find (\<lambda>r. dp_user_code r = code) (db_device_pairings db) of
        None \<Rightarrow> (Inl (PublicAuthError ''Invalid pairing code.''), db)
      | Some row \<Rightarrow>
          if dp_status row \<noteq> ''pending'' then (Inl (PublicAuthError ''Pairing code already used.''), db)
          else
            (case is_expired parse now (dp_expires_at row) of
               Inl e \<Rightarrow> (Inl e, db)
             | Inr True \<Rightarrow> (Inl (PublicAuthError ''Pairing code expired.''), db)
             | Inr False \<Rightarrow>
                 (case insert_browser_session (hash token) k now_text db of
                    Inl e \<Rightarrow> (Inl e, db)
                  | Inr db1 \<Rightarrow>
                      (Inr (), db1\<lparr>db_device_pairings := sql_update (\<lambda>r. dp_user_code r = code)
                         (\<lambda>r. r\<lparr>dp_status := ''claimed'', dp_user_id := Some k,
                                dp_issued_token := Some token, dp_claimed_at := Some now_text\<rparr>)
                         (db_device_pairings db1)\<rparr>))))"

definition poll_device_pairing ::
    "(str \<Rightarrow> str) \<Rightarrow> (str \<Rightarrow> int option) \<Rightarrow> int \<Rightarrow> str \<Rightarrow> auth_db \<Rightarrow> device_pairing_poll result \<times> auth_db" where
  "poll_device_pairing hash parse now device_code db =
     (let h = hash device_code in
      case find (\<lambda>r. dp_device_code_hash r = h) (db_device_pairings db) of
        None \<Rightarrow> (Inl (PublicAuthError ''Unknown pairing.''), db)
      | Some row \<Rightarrow>
          if dp_status row = ''pending'' then
            (case is_expired parse now (dp_expires_at row) of
               Inl e \<Rightarrow> (Inl e, db)
             | Inr True \<Rightarrow> (Inl (PublicAuthError ''Pairing code expired.''), db)
             | Inr False \<Rightarrow> (Inr \<lparr>pp_status = ''pending'', pp_token = None\<rparr>, db))
          else
            (Inr \<lparr>pp_status = ''claimed'', pp_token = dp_issued_token row\<rparr>,
             if dp_issued_token row = None then db
             else db\<lparr>db_device_pairings := sql_update (\<lambda>r. dp_device_code_hash r = h)
                       (\<lambda>r. r\<lparr>dp_issued_token := None\<rparr>) (db_device_pairings db)\<rparr>))"

section \<open>Owners of sessions and nodes\<close>

definition claim_session :: "str \<Rightarrow> str \<Rightarrow> str \<Rightarrow> auth_db \<Rightarrow> auth_db" where
  "claim_session now k session db =
     db\<lparr>db_session_owners := sql_insert_ignore so_session_id
          \<lparr>so_session_id = session, so_user_id = k, so_created_at = now\<rparr> (db_session_owners db)\<rparr>"

definition user_owns_session :: "str \<Rightarrow> str \<Rightarrow> auth_db \<Rightarrow> bool" where
  "user_owns_session k session db \<longleftrightarrow>
     list_ex (\<lambda>r. so_session_id r = session \<and> so_user_id r = k) (db_session_owners db)"

definition owned_session_ids :: "str \<Rightarrow> auth_db \<Rightarrow> str list" where
  "owned_session_ids k db =
     map so_session_id (sort_reversed so_created_at (filter (\<lambda>r. so_user_id r = k) (db_session_owners db)))"

definition claim_executor_node :: "str \<Rightarrow> str \<Rightarrow> str \<Rightarrow> auth_db \<Rightarrow> auth_db" where
  "claim_executor_node now k node db =
     db\<lparr>db_node_owners := sql_insert_ignore no_node_id
          \<lparr>no_node_id = node, no_user_id = k, no_created_at = now\<rparr> (db_node_owners db)\<rparr>"

definition user_owns_executor_node :: "str \<Rightarrow> str \<Rightarrow> auth_db \<Rightarrow> bool" where
  "user_owns_executor_node k node db \<longleftrightarrow>
     list_ex (\<lambda>r. no_node_id r = node \<and> no_user_id r = k) (db_node_owners db)"

definition owned_executor_node_ids :: "str \<Rightarrow> auth_db \<Rightarrow> str set" where
  "owned_executor_node_ids k db = set (map no_node_id (filter (\<lambda>r. no_user_id r = k) (db_node_owners db)))"

section \<open>Personas\<close>

definition persona_of_row :: "persona_row \<Rightarrow> persona" where
  "persona_of_row r =
     \<lparr>p_persona_id = pr_persona_id r, p_name = pr_name r, p_avatar = pr_avatar r,
      p_base_prompt = pr_base_prompt r, p_executor_node_id = pr_executor_node_id r,
      p_bro_detail_session_id = pr_bro_detail_session_id r, p_status = ''idle''\<rparr>"

definition db_list_personas :: "str \<Rightarrow> auth_db \<Rightarrow> persona list" where
  "db_list_personas k db =
     map persona_of_row
       (sort_key (\<lambda>r. (sql_lower (pr_name r), pr_persona_id r)) (filter (\<lambda>r. pr_user_id r = k) (db_personas db)))"

definition is_persona_row :: "str \<Rightarrow> str \<Rightarrow> persona_row \<Rightarrow> bool" where
  "is_persona_row k persona r \<longleftrightarrow> pr_user_id r = k \<and> pr_persona_id r = persona"

definition persona_of_node :: "str \<Rightarrow> str \<Rightarrow> auth_db \<Rightarrow> persona_row option" where
  "persona_of_node k node db =
     (case sort_key (\<lambda>r. (pr_created_at r, pr_persona_id r))
             (filter (\<lambda>r. pr_user_id r = k \<and> pr_executor_node_id r = Some node) (db_personas db)) of
        [] \<Rightarrow> None | r # _ \<Rightarrow> Some r)"

definition db_create_persona ::
    "str \<Rightarrow> str \<Rightarrow> str \<Rightarrow> str \<Rightarrow> str \<Rightarrow> str \<Rightarrow> str \<Rightarrow> str \<Rightarrow> str option \<Rightarrow> auth_db \<Rightarrow>
     persona result \<times> auth_db" where
  "db_create_persona uid uid' now now' k name avatar prompt node db =
     (let row = \<lparr>pr_user_id = k, pr_persona_id = generated_persona_id uid name, pr_name = py_strip name,
            pr_avatar = avatar, pr_base_prompt = prompt, pr_executor_node_id = node,
            pr_bro_detail_session_id = generated_bro_detail_session_id uid',
            pr_created_at = now, pr_updated_at = now\<rparr> in
      if pr_name row = [] then (Inl (PublicAuthError ''Persona name is required.''), db)
      else
        (case (case node of None \<Rightarrow> None | Some n \<Rightarrow> persona_of_node k n db) of
           Some old \<Rightarrow>
             if pr_base_prompt old = legacy_draft_base_prompt then
               (Inr (persona_of_row (old\<lparr>pr_base_prompt := default_bro_base_prompt\<rparr>)),
                db\<lparr>db_personas := sql_update (is_persona_row k (pr_persona_id old))
                     (\<lambda>r. r\<lparr>pr_base_prompt := default_bro_base_prompt, pr_updated_at := now'\<rparr>) (db_personas db)\<rparr>)
             else (Inr (persona_of_row old), db)
         | None \<Rightarrow>
             (case sql_insert (\<lambda>r. (pr_user_id r, pr_persona_id r)) row (db_personas db) of
                Inl e \<Rightarrow> (Inl e, db)
              | Inr rows \<Rightarrow> (Inr (persona_of_row row), db\<lparr>db_personas := rows\<rparr>))))"

text \<open>The updates a caller passes: the columns that are given.\<close>

record persona_updates =
  up_name :: "str option"
  up_avatar :: "str option"
  up_base_prompt :: "str option"
  up_executor_node_id :: "str option option"
  up_bro_detail_session_id :: "str option"

definition updated_persona_row :: "persona_updates \<Rightarrow> persona_row \<Rightarrow> persona_row" where
  "updated_persona_row v r =
     r\<lparr>pr_name := (case up_name v of Some x \<Rightarrow> x | None \<Rightarrow> pr_name r),
       pr_avatar := (case up_avatar v of Some x \<Rightarrow> x | None \<Rightarrow> pr_avatar r),
       pr_base_prompt := (case up_base_prompt v of Some x \<Rightarrow> x | None \<Rightarrow> pr_base_prompt r),
       pr_executor_node_id := (case up_executor_node_id v of Some x \<Rightarrow> x | None \<Rightarrow> pr_executor_node_id r),
       pr_bro_detail_session_id :=
         (case up_bro_detail_session_id v of Some x \<Rightarrow> x | None \<Rightarrow> pr_bro_detail_session_id r)\<rparr>"

definition db_update_persona ::
    "str \<Rightarrow> str \<Rightarrow> str \<Rightarrow> persona_updates \<Rightarrow> auth_db \<Rightarrow> persona result \<times> auth_db" where
  "db_update_persona now k persona v db =
     (case find (is_persona_row k persona) (db_personas db) of
        None \<Rightarrow> (Inl (KeyError persona), db)
      | Some row \<Rightarrow>
          (let new = updated_persona_row v row in
           if py_strip (pr_name new) = [] then (Inl (PublicAuthError ''Persona name is required.''), db)
           else
             (Inr (persona_of_row new),
              db\<lparr>db_personas := sql_update (is_persona_row k persona)
                   (\<lambda>r. r\<lparr>pr_name := py_strip (pr_name new), pr_avatar := pr_avatar new,
                          pr_base_prompt := pr_base_prompt new,
                          pr_executor_node_id := pr_executor_node_id new,
                          pr_bro_detail_session_id := pr_bro_detail_session_id new,
                          pr_updated_at := now\<rparr>) (db_personas db)\<rparr>)))"

definition db_delete_persona :: "str \<Rightarrow> str \<Rightarrow> auth_db \<Rightarrow> bool \<times> auth_db" where
  "db_delete_persona k persona db =
     (list_ex (is_persona_row k persona) (db_personas db),
      db\<lparr>db_personas := filter (\<lambda>r. \<not> is_persona_row k persona r) (db_personas db)\<rparr>)"

definition ensure_default_persona ::
    "str \<Rightarrow> str \<Rightarrow> str \<Rightarrow> str \<Rightarrow> str \<Rightarrow> auth_db \<Rightarrow> persona result \<times> auth_db" where
  "ensure_default_persona uid uid' now now' k db =
     (case db_list_personas k db of
        p # _ \<Rightarrow> (Inr p, db)
      | [] \<Rightarrow> db_create_persona uid uid' now now' k ''Newbro'' ''bro'' default_bro_base_prompt None db)"

section \<open>Requests\<close>

definition require_public_user ::
    "(str \<Rightarrow> str) \<Rightarrow> str \<Rightarrow> str option \<Rightarrow> auth_db \<Rightarrow> public_user result \<times> auth_db" where
  "require_public_user hash now cookie db =
     (case user_for_token hash now cookie db of
        (None, db1) \<Rightarrow> (Inl (HTTPException 401 ''Authentication required.''), db1)
      | (Some who, db1) \<Rightarrow> (Inr who, db1))"

definition require_session_owner ::
    "(str \<Rightarrow> str) \<Rightarrow> str \<Rightarrow> str option \<Rightarrow> str \<Rightarrow> auth_db \<Rightarrow> public_user result \<times> auth_db" where
  "require_session_owner hash now cookie session db =
     (case require_public_user hash now cookie db of
        (Inl e, db1) \<Rightarrow> (Inl e, db1)
      | (Inr who, db1) \<Rightarrow>
          if user_owns_session (pu_user_id who) session db1 then (Inr who, db1)
          else (Inl (HTTPException 404 (''Unknown session: '' @ session)), db1))"

definition is_internal_connector_request :: "str option \<Rightarrow> str option \<Rightarrow> bool result" where
  "is_internal_connector_request expected supplied =
     (if \<not> str_truthy expected then Inr False
      else (case supplied of None \<Rightarrow> Inr False | Some x \<Rightarrow> compare_digest x (the expected)))"

definition require_session_owner_or_internal ::
    "(str \<Rightarrow> str) \<Rightarrow> str \<Rightarrow> str option \<Rightarrow> str option \<Rightarrow> str option \<Rightarrow> str \<Rightarrow> auth_db \<Rightarrow>
     public_user option result \<times> auth_db" where
  "require_session_owner_or_internal hash now expected supplied cookie session db =
     (case is_internal_connector_request expected supplied of
        Inl e \<Rightarrow> (Inl e, db)
      | Inr True \<Rightarrow> (Inr None, db)
      | Inr False \<Rightarrow>
          (case require_session_owner hash now cookie session db of
             (Inl e, db1) \<Rightarrow> (Inl e, db1)
           | (Inr who, db1) \<Rightarrow> (Inr (Some who), db1)))"

definition cookie_secure :: "str option \<Rightarrow> bool" where
  "cookie_secure configured \<longleftrightarrow>
     py_lower (py_strip (case configured of Some v \<Rightarrow> v | None \<Rightarrow> ''false'')) \<in> {''1'', ''true'', ''yes'', ''on''}"

text \<open>The routes: an error of the store becomes a status code, everything else passes.\<close>

definition http_error :: "nat \<Rightarrow> 'a result \<Rightarrow> 'a result" where
  "http_error code r =
     (case r of Inl (PublicAuthError m) \<Rightarrow> Inl (HTTPException code m) | _ \<Rightarrow> r)"

definition route_redeem_invite ::
    "(str \<Rightarrow> str) \<Rightarrow> str \<Rightarrow> str \<Rightarrow> str \<Rightarrow> str \<Rightarrow> auth_db \<Rightarrow> redeemed_session result \<times> auth_db" where
  "route_redeem_invite hash uid token now code db =
     map_prod (http_error 401) id (redeem_invite hash uid token now code db)"

definition route_signup ::
    "(str \<Rightarrow> str) \<Rightarrow> str \<Rightarrow> str \<Rightarrow> str \<Rightarrow> str option \<Rightarrow> str \<Rightarrow> str \<Rightarrow> auth_db \<Rightarrow>
     redeemed_session result \<times> auth_db" where
  "route_signup hash uid token now configured email code db =
     map_prod (http_error 401) id (signup_with_fixed_code hash uid token now configured email code db)"

definition route_pair_poll ::
    "(str \<Rightarrow> str) \<Rightarrow> (str \<Rightarrow> int option) \<Rightarrow> int \<Rightarrow> str \<Rightarrow> auth_db \<Rightarrow> device_pairing_poll result \<times> auth_db" where
  "route_pair_poll hash parse now device_code db =
     map_prod (http_error 404) id (poll_device_pairing hash parse now device_code db)"

definition route_pair_claim ::
    "(str \<Rightarrow> str) \<Rightarrow> (str \<Rightarrow> int option) \<Rightarrow> int \<Rightarrow> str \<Rightarrow> str \<Rightarrow> str option \<Rightarrow> str \<Rightarrow> auth_db \<Rightarrow>
     unit result \<times> auth_db" where
  "route_pair_claim hash parse now now_text token cookie user_code db =
     (case require_public_user hash now_text cookie db of
        (Inl e, db1) \<Rightarrow> (Inl e, db1)
      | (Inr who, db1) \<Rightarrow>
          map_prod (http_error 404) id
            (claim_device_pairing hash parse now now_text token user_code (pu_user_id who) db1))"

end
