(* ===== verification/PublicAuth_Props.thy ===== *)
theory PublicAuth_Props
  imports PublicAuth
begin

text \<open>
  The properties of the public accounts, over every sequence of the store's operations
  (\<open>auth_step\<close>): whom a browser token authenticates, which account an email names, how often the
  token of a paired device is delivered, and who reaches a session. A state is the database with the
  history of what was issued, logged out and delivered, newest first.
\<close>

section \<open>Histories and steps\<close>

datatype auth_event =
    Issued str str
  | LoggedOut str
  | Delivered str

fun live :: "auth_event list \<Rightarrow> str \<Rightarrow> str option" where
  "live [] h = None"
| "live (Issued h' k # hist) h = (if h = h' then Some k else live hist h)"
| "live (LoggedOut h' # hist) h = (if h = h' then None else live hist h)"
| "live (Delivered d # hist) h = live hist h"

type_synonym auth_state = "auth_db \<times> auth_event list"

inductive auth_step ::
    "(str \<Rightarrow> str) \<Rightarrow> (int \<Rightarrow> str) \<Rightarrow> (str \<Rightarrow> int option) \<Rightarrow> auth_state \<Rightarrow> auth_state \<Rightarrow> bool"
  for hash fmt parse where
  invite: "auth_step hash fmt parse (db, hist) (create_invite hash now code email db, hist)"
| signup:
    "signup_with_fixed_code hash uid token now configured email code db = (Inr rd, db') \<Longrightarrow>
     auth_step hash fmt parse (db, hist) (db', Issued (hash token) (pu_user_id (rd_user rd)) # hist)"
| redeem:
    "redeem_invite hash uid token now code db = (Inr rd, db') \<Longrightarrow>
     auth_step hash fmt parse (db, hist) (db', Issued (hash token) (pu_user_id (rd_user rd)) # hist)"
| authenticate: "auth_step hash fmt parse (db, hist) (snd (user_for_token hash now raw db), hist)"
| logout:
    "raw \<noteq> [] \<Longrightarrow>
     auth_step hash fmt parse (db, hist) (delete_browser_session hash (Some raw) db, LoggedOut (hash raw) # hist)"
| pair_start:
    "create_device_pairing hash fmt now device codes db = (Inr started, db') \<Longrightarrow>
     auth_step hash fmt parse (db, hist) (db', hist)"
| pair_claim:
    "route_pair_claim hash parse now now_text token cookie code db = (Inr (), db') \<Longrightarrow>
     fst (user_for_token hash now_text cookie db) = Some who \<Longrightarrow>
     auth_step hash fmt parse (db, hist) (db', Issued (hash token) (pu_user_id who) # hist)"
| pair_poll:
    "poll_device_pairing hash parse now device db = (Inr p, db') \<Longrightarrow>
     auth_step hash fmt parse (db, hist)
       (db', if pp_token p = None then hist else Delivered (hash device) # hist)"
| own_session: "auth_step hash fmt parse (db, hist) (claim_session now k session db, hist)"
| own_node: "auth_step hash fmt parse (db, hist) (claim_executor_node now k node db, hist)"
| open_db: "auth_step hash fmt parse (db, hist) (init_db db, hist)"
| create_persona:
    "auth_step hash fmt parse (db, hist) (snd (db_create_persona uid uid' now now' k name avatar prompt node db), hist)"
| update_persona: "auth_step hash fmt parse (db, hist) (snd (db_update_persona now k persona v db), hist)"
| delete_persona: "auth_step hash fmt parse (db, hist) (snd (db_delete_persona k persona db), hist)"

definition auth_reachable ::
    "(str \<Rightarrow> str) \<Rightarrow> (int \<Rightarrow> str) \<Rightarrow> (str \<Rightarrow> int option) \<Rightarrow> auth_state \<Rightarrow> bool" where
  "auth_reachable hash fmt parse st \<longleftrightarrow> (auth_step hash fmt parse)\<^sup>*\<^sup>* (auth_db_empty, []) st"

section \<open>Views of the tables\<close>

definition accounts :: "auth_db \<Rightarrow> (str \<times> str option) list" where
  "accounts db = map (\<lambda>r. (ur_user_id r, ur_email r)) (db_users db)"

definition logins :: "auth_db \<Rightarrow> (str, str) dict" where
  "logins db = map (\<lambda>r. (bs_token_hash r, bs_user_id r)) (db_browser_sessions db)"

definition owners :: "auth_db \<Rightarrow> (str, str) dict" where
  "owners db = map (\<lambda>r. (so_session_id r, so_user_id r)) (db_session_owners db)"

lemma find_map_of: "map_option v (find (\<lambda>r. key r = k) rs) = map_of (map (\<lambda>r. (key r, v r)) rs) k"
  by (induction rs) auto

lemma find_login: "map_option bs_user_id (find_browser_session h db) = map_of (logins db) h"
  unfolding find_browser_session_def logins_def by (rule find_map_of)

lemma find_account: "map_option ur_email (find_user k db) = map_of (accounts db) k"
  unfolding find_user_def accounts_def by (rule find_map_of)

lemma owns_iff: "user_owns_session k session db \<longleftrightarrow> (session, k) \<in> set (owners db)"
  by (auto simp: user_owns_session_def owners_def list_ex_iff)

lemma sql_update_view:
  "(\<And>r. v (f r) = v r) \<Longrightarrow> map v (sql_update P f rs) = map v rs"
  by (simp add: sql_update_def)

lemma touch_user_reads [simp]:
  "accounts (touch_user now k db) = accounts db"
  "logins (touch_user now k db) = logins db"
  "owners (touch_user now k db) = owners db"
  "db_device_pairings (touch_user now k db) = db_device_pairings db"
  "db_invites (touch_user now k db) = db_invites db"
  by (simp_all add: touch_user_def accounts_def logins_def owners_def sql_update_view)

lemma mark_redeemed_reads [simp]:
  "accounts (mark_redeemed h k now db) = accounts db"
  "logins (mark_redeemed h k now db) = logins db"
  "owners (mark_redeemed h k now db) = owners db"
  "db_device_pairings (mark_redeemed h k now db) = db_device_pairings db"
  "map iv_email (db_invites (mark_redeemed h k now db)) = map iv_email (db_invites db)"
  by (simp_all add: mark_redeemed_def accounts_def logins_def owners_def sql_update_view)

lemma insert_user_reads:
  assumes "insert_user k email now db = Inr db'"
  shows "k \<notin> fst ` set (accounts db)" "accounts db' = accounts db @ [(k, email)]" "logins db' = logins db"
    "owners db' = owners db" "db_device_pairings db' = db_device_pairings db" "db_invites db' = db_invites db"
  using assms
  by (auto simp: insert_user_def sql_insert_def accounts_def logins_def owners_def split: if_splits)

lemma insert_login_reads:
  assumes "insert_browser_session h k now db = Inr db'"
  shows "h \<notin> fst ` set (logins db)" "logins db' = logins db @ [(h, k)]" "accounts db' = accounts db"
    "owners db' = owners db" "db_device_pairings db' = db_device_pairings db" "db_invites db' = db_invites db"
  using assms
  by (auto simp: insert_browser_session_def sql_insert_def accounts_def logins_def owners_def split: if_splits)

lemma user_for_token_reads [simp]:
  "accounts (snd (user_for_token hash now raw db)) = accounts db"
  "logins (snd (user_for_token hash now raw db)) = logins db"
  "owners (snd (user_for_token hash now raw db)) = owners db"
  "db_device_pairings (snd (user_for_token hash now raw db)) = db_device_pairings db"
  "db_invites (snd (user_for_token hash now raw db)) = db_invites db"
  by (simp_all add: user_for_token_def Let_def logins_def accounts_def owners_def touch_user_def sql_update_view
      split: option.split)

section \<open>Emails\<close>

lemma py_lower_idem [simp]: "py_lower (py_lower s) = py_lower s"
  unfolding py_lower_def by (simp add: py_lower_char_def Let_def)

lemma isspace_lower [simp]: "py_isspace (py_lower_char c) = py_isspace c"
proof -
  have "of_char c < (256 :: nat)" by (rule nat_of_char_less_256)
  then show ?thesis by (auto simp: py_isspace_def py_lower_char_def Let_def)
qed

lemma py_strip_lower [simp]: "py_strip (py_lower s) = py_lower (py_strip s)"
  by (simp add: py_strip_def py_lstrip_def py_rstrip_def py_lower_def dropWhile_map comp_def rev_map)

lemma sql_lower_lower [simp]: "sql_lower (py_lower s) = py_lower s"
proof -
  have "(let n = of_char (py_lower_char c) :: nat in
      if 65 \<le> n \<and> n \<le> 90 then char_of (n + 32) else py_lower_char c) = py_lower_char c" for c
    by (auto simp: py_lower_char_def Let_def)
  then show ?thesis by (simp add: sql_lower_def py_lower_def comp_def)
qed

definition normal_email :: "str option \<Rightarrow> bool" where
  "normal_email email \<longleftrightarrow> normalize_email email = email"

lemma normal_normalize [simp]: "normal_email (normalize_email v)"
  by (cases v) (auto simp: normal_email_def normalize_email_def Let_def split: if_splits)

lemma normal_sql_lower: "normal_email (Some e) \<Longrightarrow> sql_lower e = e"
  by (auto simp: normal_email_def normalize_email_def Let_def split: if_splits)
    (metis sql_lower_lower)

definition accounts_ok :: "(str \<times> str option) list \<Rightarrow> bool" where
  "accounts_ok acs \<longleftrightarrow>
     distinct (map fst acs) \<and> list_all normal_email (map snd acs) \<and>
     (\<forall>k k' e. (k, Some e) \<in> set acs \<and> (k', Some e) \<in> set acs \<longrightarrow> k = k')"

lemma existing_user_None:
  assumes "accounts_ok (accounts db)" and "normal_email email" and "find_existing_user_for_email email db = None"
    and "email = Some e"
  shows "(k, Some e) \<notin> set (accounts db)"
proof
  assume "(k, Some e) \<in> set (accounts db)"
  then obtain r where r: "r \<in> set (db_users db)" "ur_email r = Some e"
    unfolding accounts_def by auto
  have e: "normalize_email email = Some e" "sql_lower e = e"
    using assms(2,4) normal_sql_lower by (auto simp: normal_email_def)
  define ordered where
    "ordered = sort_reversed (\<lambda>r. (user_weight db r, ur_last_seen_at r, ur_created_at r))
      (sort_key ur_user_id (filter (\<lambda>r. map_option sql_lower (ur_email r) = Some e) (db_users db)))"
  have "r \<in> set ordered" using r e by (simp add: ordered_def)
  then have "ordered \<noteq> []" by auto
  then show False
    using assms(3) e unfolding ordered_def
    by (simp add: find_existing_user_for_email_def Let_def split: list.splits)
qed

lemma existing_user_Some:
  assumes "accounts_ok (accounts db)" and "find_existing_user_for_email email db = Some r"
  shows "\<exists>e. normalize_email email = Some e \<and> (ur_user_id r, Some e) \<in> set (accounts db) \<and> ur_email r = Some e"
proof -
  obtain e where e: "normalize_email email = Some e"
    using assms(2) by (auto simp: find_existing_user_for_email_def split: option.splits)
  define ordered where
    "ordered = sort_reversed (\<lambda>r. (user_weight db r, ur_last_seen_at r, ur_created_at r))
      (sort_key ur_user_id (filter (\<lambda>r. map_option sql_lower (ur_email r) = Some e) (db_users db)))"
  have "(case ordered of [] \<Rightarrow> None | r # _ \<Rightarrow> Some r) = Some r"
    using assms(2) e unfolding ordered_def by (simp add: find_existing_user_for_email_def Let_def)
  then have "r \<in> set ordered" by (cases ordered) auto
  then have "r \<in> set (filter (\<lambda>r. map_option sql_lower (ur_email r) = Some e) (db_users db))"
    unfolding ordered_def set_sort_reversed set_sort .
  then have r: "r \<in> set (db_users db)" "map_option sql_lower (ur_email r) = Some e"
    by simp_all
  then obtain e' where e': "ur_email r = Some e'" "sql_lower e' = e" by auto
  have "(ur_user_id r, ur_email r) \<in> set (accounts db)" using r(1) by (auto simp: accounts_def)
  moreover have "normal_email (Some e')"
    using assms(1) calculation e' by (force simp: accounts_ok_def list_all_iff)
  ultimately show ?thesis using e e' normal_sql_lower by auto
qed

text \<open>What signing up and redeeming do to the accounts.\<close>

definition account_added :: "auth_db \<Rightarrow> public_user \<Rightarrow> auth_db \<Rightarrow> bool" where
  "account_added db who db' \<longleftrightarrow>
     accounts_ok (accounts db') \<and> set (accounts db) \<subseteq> set (accounts db') \<and>
     (pu_user_id who, pu_email who) \<in> set (accounts db') \<and> logins db' = logins db \<and>
     owners db' = owners db \<and> db_device_pairings db' = db_device_pairings db \<and>
     list_all normal_email (map iv_email (db_invites db'))"

lemma user_for_email_ok:
  assumes "accounts_ok (accounts db)" and "normal_email email"
    and "list_all normal_email (map iv_email (db_invites db))"
    and "user_for_email uid now email db = Inr (who, db')"
  shows "account_added db who db' \<and> pu_email who = email"
proof (cases "find_existing_user_for_email email db")
  case (Some r)
  obtain e where "normalize_email email = Some e" "(ur_user_id r, Some e) \<in> set (accounts db)"
      "ur_email r = Some e"
    using existing_user_Some [OF assms(1) Some] by blast
  then show ?thesis
    using Some assms by (auto simp: user_for_email_def account_added_def user_from_row_def normal_email_def)
next
  case None
  then obtain db1 where ins: "insert_user (''user-'' @ uid) email now db = Inr db1" "db' = db1"
      and who: "who = \<lparr>pu_user_id = ''user-'' @ uid, pu_email = email\<rparr>"
    using assms(4) by (cases "insert_user (''user-'' @ uid) email now db") (auto simp: user_for_email_def)
  note reads = insert_user_reads [OF ins(1)]
  have "accounts_ok (accounts db1)"
    unfolding reads(2) using assms(1,2) reads(1) existing_user_None [OF assms(1,2) None]
    by (auto simp: accounts_ok_def) blast+
  then show ?thesis using reads assms(3) ins(2) who by (auto simp: account_added_def)
qed

section \<open>Signing in\<close>

definition signed_in :: "auth_db \<Rightarrow> str \<Rightarrow> public_user \<Rightarrow> auth_db \<Rightarrow> bool" where
  "signed_in db h who db' \<longleftrightarrow>
     accounts_ok (accounts db') \<and> set (accounts db) \<subseteq> set (accounts db') \<and>
     (pu_user_id who, pu_email who) \<in> set (accounts db') \<and>
     h \<notin> fst ` set (logins db) \<and> logins db' = logins db @ [(h, pu_user_id who)] \<and>
     owners db' = owners db \<and> db_device_pairings db' = db_device_pairings db \<and>
     list_all normal_email (map iv_email (db_invites db'))"

lemma log_in_cases:
  assumes "log_in hash token now found db = (Inr rd, db')"
  shows "\<exists>db1. found = Inr (rd_user rd, db1) \<and>
    insert_browser_session (hash token) (pu_user_id (rd_user rd)) now db1 = Inr db'"
  using assms by (auto simp: log_in_def split: sum.splits prod.splits)

lemma log_in_ok:
  assumes "log_in hash token now found db = (Inr rd, db')"
    and "\<And>db1. found = Inr (rd_user rd, db1) \<Longrightarrow> account_added db (rd_user rd) db1"
  shows "signed_in db (hash token) (rd_user rd) db'"
proof -
  obtain db1 where found: "found = Inr (rd_user rd, db1)"
      and ins: "insert_browser_session (hash token) (pu_user_id (rd_user rd)) now db1 = Inr db'"
    using log_in_cases [OF assms(1)] by blast
  show ?thesis
    using assms(2) [OF found] insert_login_reads [OF ins] by (simp add: signed_in_def account_added_def)
qed

lemma signup_cases:
  assumes "signup_with_fixed_code hash uid token now configured email code db = (Inr rd, db')"
  shows "\<exists>e. normalize_email (Some email) = Some e \<and>
    log_in hash token now (user_for_email uid now (Some e) db) db = (Inr rd, db')"
  using assms
  by (auto simp: signup_with_fixed_code_def create_user_session_def Let_def split: option.splits if_splits sum.splits)

lemma signup_ok:
  assumes "signup_with_fixed_code hash uid token now configured email code db = (Inr rd, db')"
    and "accounts_ok (accounts db)" and "list_all normal_email (map iv_email (db_invites db))"
  shows "signed_in db (hash token) (rd_user rd) db' \<and> pu_email (rd_user rd) = normalize_email (Some email)"
proof -
  obtain e where e: "normalize_email (Some email) = Some e"
      and run: "log_in hash token now (user_for_email uid now (Some e) db) db = (Inr rd, db')"
    using signup_cases [OF assms(1)] by blast
  have "normal_email (Some e)" using normal_normalize [of "Some email"] e by simp
  then have ok: "account_added db (rd_user rd) db1 \<and> pu_email (rd_user rd) = Some e"
    if "user_for_email uid now (Some e) db = Inr (rd_user rd, db1)" for db1
    using user_for_email_ok [OF assms(2) _ assms(3) that] by blast
  moreover obtain db1 where "user_for_email uid now (Some e) db = Inr (rd_user rd, db1)"
    using log_in_cases [OF run] by blast
  ultimately show ?thesis using log_in_ok [OF run] e by auto
qed

lemma redeem_ok:
  assumes "redeem_invite hash uid token now code db = (Inr rd, db')"
    and "accounts_ok (accounts db)" and "list_all normal_email (map iv_email (db_invites db))"
  shows "signed_in db (hash token) (rd_user rd) db'"
proof -
  obtain invite where inv: "find (\<lambda>r. iv_code_hash r = hash (py_strip code)) (db_invites db) = Some invite"
    using assms(1) by (auto simp: redeem_invite_def Let_def split: if_splits option.splits)
  have strip: "py_strip code \<noteq> []" using assms(1) by (auto simp: redeem_invite_def split: if_splits)
  have normal: "normal_email (iv_email invite)"
    using inv assms(3) by (auto simp: find_Some_iff list_all_iff)
  show ?thesis
  proof (cases "str_truthy (iv_redeemed_by invite)")
    case True
    then obtain r where r: "find_user (the (iv_redeemed_by invite)) db = Some r"
        and run: "log_in hash token now
          (Inr (user_from_row r, touch_user now (the (iv_redeemed_by invite)) db)) db = (Inr rd, db')"
      using assms(1) inv strip by (auto simp: redeem_invite_def Let_def split: option.splits)
    have "(ur_user_id r, ur_email r) \<in> set (accounts db)"
      using r by (auto simp: find_user_def accounts_def find_Some_iff)
    then have "account_added db (rd_user rd) db1"
      if "Inr (user_from_row r, touch_user now (the (iv_redeemed_by invite)) db) =
            (Inr (rd_user rd, db1) :: (public_user \<times> auth_db) result)" for db1
    proof -
      have "rd_user rd = user_from_row r" "db1 = touch_user now (the (iv_redeemed_by invite)) db"
        using that by auto
      then show ?thesis
        using assms(2,3) \<open>(ur_user_id r, ur_email r) \<in> set (accounts db)\<close>
        by (simp add: account_added_def user_from_row_def)
    qed
    then show ?thesis using log_in_ok [OF run] by blast
  next
    case False
    define found where
      "found = map_sum id (\<lambda>(who, db'). (who, mark_redeemed (hash (py_strip code)) (pu_user_id who) now db'))
        (user_for_email uid now (iv_email invite) db)"
    have run: "log_in hash token now found db = (Inr rd, db')"
      using assms(1) inv strip False by (simp add: redeem_invite_def Let_def found_def)
    have "account_added db (rd_user rd) db1" if eq: "found = Inr (rd_user rd, db1)" for db1
    proof -
      obtain db2 where "user_for_email uid now (iv_email invite) db = Inr (rd_user rd, db2)"
          and db1: "db1 = mark_redeemed (hash (py_strip code)) (pu_user_id (rd_user rd)) now db2"
        using eq unfolding found_def
        by (cases "user_for_email uid now (iv_email invite) db") auto
      then have "account_added db (rd_user rd) db2"
        using user_for_email_ok [OF assms(2) normal assms(3)] by blast
      then show ?thesis by (simp add: account_added_def db1)
    qed
    then show ?thesis using log_in_ok [OF run] by blast
  qed
qed

section \<open>The invariant\<close>

definition pairing_ok :: "(str \<Rightarrow> str) \<Rightarrow> auth_event list \<Rightarrow> pairing_row \<Rightarrow> bool" where
  "pairing_ok hash hist r \<longleftrightarrow>
     (dp_status r = ''pending'' \<longrightarrow> dp_issued_token r = None) \<and>
     (\<forall>t. dp_issued_token r = Some t \<longrightarrow>
        (\<exists>k. dp_user_id r = Some k \<and> Issued (hash t) k \<in> set hist)) \<and>
     (Delivered (dp_device_code_hash r) \<in> set hist \<longrightarrow> dp_status r \<noteq> ''pending'' \<and> dp_issued_token r = None)"

definition pairings_ok :: "(str \<Rightarrow> str) \<Rightarrow> auth_event list \<Rightarrow> pairing_row list \<Rightarrow> bool" where
  "pairings_ok hash hist rs \<longleftrightarrow>
     distinct (map dp_device_code_hash rs) \<and> distinct (map dp_user_code rs) \<and>
     (\<forall>r \<in> set rs. pairing_ok hash hist r) \<and>
     (\<forall>d. Delivered d \<in> set hist \<longrightarrow> d \<in> dp_device_code_hash ` set rs)"

definition auth_inv :: "(str \<Rightarrow> str) \<Rightarrow> auth_state \<Rightarrow> bool" where
  "auth_inv hash st \<longleftrightarrow>
     accounts_ok (accounts (fst st)) \<and>
     list_all normal_email (map iv_email (db_invites (fst st))) \<and>
     (\<forall>h. map_of (logins (fst st)) h = live (snd st) h) \<and>
     snd ` set (logins (fst st)) \<subseteq> fst ` set (accounts (fst st)) \<and>
     pairings_ok hash (snd st) (db_device_pairings (fst st)) \<and>
     dict_wf (owners (fst st))"

lemma pairing_ok_more:
  "pairing_ok hash hist r \<Longrightarrow> pairing_ok hash (Issued h k # hist) r"
  "pairing_ok hash hist r \<Longrightarrow> pairing_ok hash (LoggedOut h # hist) r"
  by (fastforce simp: pairing_ok_def)+

lemma pairings_ok_more:
  "pairings_ok hash hist rs \<Longrightarrow> pairings_ok hash (Issued h k # hist) rs"
  "pairings_ok hash hist rs \<Longrightarrow> pairings_ok hash (LoggedOut h # hist) rs"
  by (auto simp: pairings_ok_def intro: pairing_ok_more)

lemma auth_inv_signed_in:
  assumes "auth_inv hash (db, hist)" and "signed_in db h who db'"
  shows "auth_inv hash (db', Issued h (pu_user_id who) # hist)"
proof -
  have "map_of (logins db @ [(h, pu_user_id who)]) h' = (if h' = h then Some (pu_user_id who) else live hist h')" for h'
  proof (cases "h' = h")
    case True
    have "map_of (logins db) h = None" using assms(2) by (simp add: signed_in_def map_of_eq_None_iff)
    then show ?thesis using True by (simp add: map_add_def)
  next
    case False
    then show ?thesis using assms(1) by (auto simp: auth_inv_def map_add_def split: option.split)
  qed
  moreover have "snd ` set (logins db') \<subseteq> fst ` set (accounts db')"
  proof -
    have more: "fst ` set (accounts db) \<subseteq> fst ` set (accounts db')"
      using assms(2) unfolding signed_in_def by (intro image_mono) simp
    have mem: "pu_user_id who \<in> fst ` set (accounts db')"
      using assms(2) unfolding signed_in_def by force
    have eq: "snd ` set (logins db') = insert (pu_user_id who) (snd ` set (logins db))"
      using assms(2) by (simp add: signed_in_def)
    have old: "snd ` set (logins db) \<subseteq> fst ` set (accounts db)" using assms(1) by (simp add: auth_inv_def)
    show ?thesis unfolding eq by (rule insert_subsetI [OF mem subset_trans [OF old more]])
  qed
  ultimately show ?thesis
    using assms pairings_ok_more(1) [of hash hist] by (simp add: auth_inv_def signed_in_def)
qed

lemma auth_inv_frame:
  assumes "auth_inv hash (db, hist)"
    and "accounts db' = accounts db" "logins db' = logins db" "owners db' = owners db"
      "db_device_pairings db' = db_device_pairings db" "db_invites db' = db_invites db"
  shows "auth_inv hash (db', hist)"
  using assms by (simp add: auth_inv_def)

lemma auth_inv_pair_start:
  assumes "auth_inv hash (db, hist)" and "create_device_pairing hash fmt now device codes db = (Inr started, db')"
  shows "auth_inv hash (db', hist)"
proof -
  obtain c row where free: "pairing_is_free (hash device) c db" and
      db': "db' = db\<lparr>db_device_pairings := db_device_pairings db @ [row]\<rparr>" and
      row: "dp_device_code_hash row = hash device" "dp_user_code row = c" "dp_issued_token row = None"
    using assms(2)
    by (auto simp: create_device_pairing_def find_Some_iff split: option.splits)
  have ok: "pairings_ok hash hist (db_device_pairings db)" using assms(1) by (simp add: auth_inv_def)
  have new: "hash device \<notin> dp_device_code_hash ` set (db_device_pairings db)"
      "c \<notin> dp_user_code ` set (db_device_pairings db)"
    using free by (auto simp: pairing_is_free_def list_all_iff)
  then have "Delivered (hash device) \<notin> set hist" using ok by (auto simp: pairings_ok_def)
  then have "pairings_ok hash hist (db_device_pairings db @ [row])"
    using ok new row by (auto simp: pairings_ok_def pairing_ok_def)
  then show ?thesis
    using assms(1) by (simp add: auth_inv_def db' accounts_def logins_def owners_def)
qed

lemma find_unique:
  "distinct (map key rs) \<Longrightarrow> find (\<lambda>r. key r = k) rs = Some row \<Longrightarrow> r \<in> set rs \<Longrightarrow> key r = k \<Longrightarrow> r = row"
  by (induction rs) (auto split: if_splits simp: rev_image_eqI find_Some_iff)

lemma pairings_ok_update:
  assumes ok: "pairings_ok hash hist rs" and row: "find (\<lambda>r. key r = k) rs = Some row"
    and key: "distinct (map key rs)"
    and f: "\<And>r. dp_device_code_hash (f r) = dp_device_code_hash r" "\<And>r. dp_user_code (f r) = dp_user_code r"
    and keep: "\<And>r. r \<in> set rs \<Longrightarrow> key r \<noteq> k \<Longrightarrow> pairing_ok hash hist' r"
    and new: "pairing_ok hash hist' (f row)"
    and more: "\<And>d. Delivered d \<in> set hist' \<Longrightarrow> Delivered d \<in> set hist \<or> d = dp_device_code_hash row"
  shows "pairings_ok hash hist' (sql_update (\<lambda>r. key r = k) f rs)"
proof -
  have mem: "row \<in> set rs" "key row = k" using row by (auto simp: find_Some_iff)
  have "map dp_device_code_hash (sql_update (\<lambda>r. key r = k) f rs) = map dp_device_code_hash rs"
      "map dp_user_code (sql_update (\<lambda>r. key r = k) f rs) = map dp_user_code rs"
    using f by (simp_all add: sql_update_view)
  moreover have "pairing_ok hash hist' r" if r: "r \<in> set (sql_update (\<lambda>r. key r = k) f rs)" for r
  proof -
    obtain r0 where r0: "r0 \<in> set rs" "r = (if key r0 = k then f r0 else r0)"
      using r by (auto simp: sql_update_def)
    then show ?thesis using find_unique [OF key row r0(1)] keep new by (cases "key r0 = k") auto
  qed
  ultimately show ?thesis
    using ok more mem unfolding pairings_ok_def by (metis (no_types, lifting) image_eqI list.set_map)
qed

lemma claim_cases:
  assumes "claim_device_pairing hash parse now now_text token user_code k db = (Inr (), db')"
  shows "\<exists>row db1. find (\<lambda>r. dp_user_code r = py_upper (py_strip user_code)) (db_device_pairings db) = Some row \<and>
    dp_status row = ''pending'' \<and> insert_browser_session (hash token) k now_text db = Inr db1 \<and>
    db' = db1\<lparr>db_device_pairings := sql_update (\<lambda>r. dp_user_code r = py_upper (py_strip user_code))
      (\<lambda>r. r\<lparr>dp_status := ''claimed'', dp_user_id := Some k, dp_issued_token := Some token,
             dp_claimed_at := Some now_text\<rparr>) (db_device_pairings db)\<rparr>"
proof -
  obtain row where row: "find (\<lambda>r. dp_user_code r = py_upper (py_strip user_code)) (db_device_pairings db) = Some row"
      "dp_status row = ''pending''" "is_expired parse now (dp_expires_at row) = Inr False"
    using assms by (auto simp: claim_device_pairing_def Let_def split: option.splits if_splits sum.splits bool.splits)
  then obtain db1 where ins: "insert_browser_session (hash token) k now_text db = Inr db1"
    using assms by (auto simp: claim_device_pairing_def Let_def split: sum.splits)
  then show ?thesis using assms row insert_login_reads(5) [OF ins] by (auto simp: claim_device_pairing_def Let_def)
qed

lemma auth_inv_pair_claim:
  assumes inv: "auth_inv hash (db, hist)" and who: "k \<in> fst ` set (accounts db)"
    and claim: "claim_device_pairing hash parse now now_text token user_code k db = (Inr (), db')"
  shows "auth_inv hash (db', Issued (hash token) k # hist)"
proof -
  obtain row db1 where row: "find (\<lambda>r. dp_user_code r = py_upper (py_strip user_code)) (db_device_pairings db) = Some row"
      "dp_status row = ''pending''" and ins: "insert_browser_session (hash token) k now_text db = Inr db1"
    and db': "db' = db1\<lparr>db_device_pairings := sql_update (\<lambda>r. dp_user_code r = py_upper (py_strip user_code))
      (\<lambda>r. r\<lparr>dp_status := ''claimed'', dp_user_id := Some k, dp_issued_token := Some token,
             dp_claimed_at := Some now_text\<rparr>) (db_device_pairings db)\<rparr>"
    using claim_cases [OF claim] by blast
  obtain email where "(k, email) \<in> set (accounts db)" using who by auto
  then have "signed_in db (hash token) \<lparr>pu_user_id = k, pu_email = email\<rparr> db1"
    using inv insert_login_reads [OF ins] by (simp add: signed_in_def auth_inv_def)
  then have inv1: "auth_inv hash (db1, Issued (hash token) k # hist)"
    using auth_inv_signed_in [OF inv] by fastforce
  have ok: "pairings_ok hash hist (db_device_pairings db)" using inv by (simp add: auth_inv_def)
  have pending: "pairing_ok hash hist row" using ok row(1) by (auto simp: pairings_ok_def find_Some_iff)
  have "pairings_ok hash (Issued (hash token) k # hist)
      (sql_update (\<lambda>r. dp_user_code r = py_upper (py_strip user_code))
        (\<lambda>r. r\<lparr>dp_status := ''claimed'', dp_user_id := Some k, dp_issued_token := Some token,
               dp_claimed_at := Some now_text\<rparr>) (db_device_pairings db))"
  proof (rule pairings_ok_update [OF ok row(1)])
    show "distinct (map dp_user_code (db_device_pairings db))" using ok by (simp add: pairings_ok_def)
    show "pairing_ok hash (Issued (hash token) k # hist) r" if "r \<in> set (db_device_pairings db)" for r
      using ok that pairing_ok_more(1) by (simp add: pairings_ok_def)
  qed (use pending row(2) in \<open>auto simp: pairing_ok_def\<close>)
  then show ?thesis using inv1 by (simp add: auth_inv_def db' accounts_def logins_def owners_def)
qed

lemma auth_inv_pair_poll:
  assumes inv: "auth_inv hash (db, hist)" and poll: "poll_device_pairing hash parse now device db = (Inr p, db')"
  shows "auth_inv hash (db', if pp_token p = None then hist else Delivered (hash device) # hist)"
proof (cases "pp_token p")
  case None
  then have "db' = db" using poll
    by (auto simp: poll_device_pairing_def Let_def split: option.splits if_splits sum.splits bool.splits)
  then show ?thesis using None inv by simp
next
  case (Some t)
  obtain row where row: "find (\<lambda>r. dp_device_code_hash r = hash device) (db_device_pairings db) = Some row"
      "dp_status row \<noteq> ''pending''" "dp_issued_token row = Some t"
    and db': "db' = db\<lparr>db_device_pairings := sql_update (\<lambda>r. dp_device_code_hash r = hash device)
      (\<lambda>r. r\<lparr>dp_issued_token := None\<rparr>) (db_device_pairings db)\<rparr>"
    using poll Some
    by (auto simp: poll_device_pairing_def Let_def split: option.splits if_splits sum.splits bool.splits)
  have ok: "pairings_ok hash hist (db_device_pairings db)" using inv by (simp add: auth_inv_def)
  have "pairings_ok hash (Delivered (hash device) # hist)
      (sql_update (\<lambda>r. dp_device_code_hash r = hash device) (\<lambda>r. r\<lparr>dp_issued_token := None\<rparr>)
        (db_device_pairings db))"
  proof (rule pairings_ok_update [OF ok row(1)])
    show "distinct (map dp_device_code_hash (db_device_pairings db))" using ok by (simp add: pairings_ok_def)
    show "pairing_ok hash (Delivered (hash device) # hist) r"
      if "r \<in> set (db_device_pairings db)" "dp_device_code_hash r \<noteq> hash device" for r
      using ok that by (auto simp: pairings_ok_def pairing_ok_def)
  qed (use row in \<open>auto simp: pairing_ok_def find_Some_iff\<close>)
  then show ?thesis using inv Some by (simp add: auth_inv_def db' accounts_def logins_def owners_def)
qed

lemma map_of_filter_key: "map_of (filter (\<lambda>p. fst p \<noteq> h) d) k = (if k = h then None else map_of d k)"
  by (induction d) auto

lemma logins_logout: "logins (delete_browser_session hash (Some raw) db) =
    (if raw = [] then logins db else filter (\<lambda>p. fst p \<noteq> hash raw) (logins db))"
  by (simp add: delete_browser_session_def logins_def filter_map comp_def str_truthy_def)

lemma auth_inv_logout:
  "auth_inv hash (db, hist) \<Longrightarrow> raw \<noteq> [] \<Longrightarrow>
     auth_inv hash (delete_browser_session hash (Some raw) db, LoggedOut (hash raw) # hist)"
proof -
  assume inv: "auth_inv hash (db, hist)" and raw: "raw \<noteq> []"
  define db' where "db' = delete_browser_session hash (Some raw) db"
  have "accounts db' = accounts db" "owners db' = owners db" "db_invites db' = db_invites db"
      "db_device_pairings db' = db_device_pairings db"
    by (simp_all add: db'_def delete_browser_session_def accounts_def owners_def)
  moreover have "logins db' = filter (\<lambda>p. fst p \<noteq> hash raw) (logins db)"
    using raw by (simp add: db'_def logins_logout)
  ultimately show "auth_inv hash (db', LoggedOut (hash raw) # hist)"
    using inv pairings_ok_more(2) [of hash hist] by (auto simp: auth_inv_def map_of_filter_key)
qed

lemma persona_ops_reads:
  "\<exists>ps. snd (db_create_persona uid uid' now now' k name avatar prompt node db) = db\<lparr>db_personas := ps\<rparr>"
  "\<exists>ps. snd (db_update_persona now k persona v db) = db\<lparr>db_personas := ps\<rparr>"
  "\<exists>ps. snd (db_delete_persona k persona db) = db\<lparr>db_personas := ps\<rparr>"
  "\<exists>ps. init_db db = db\<lparr>db_personas := ps\<rparr>"
proof -
  have same: "\<exists>ps. db = db\<lparr>db_personas := ps\<rparr>" by (rule exI [of _ "db_personas db"]) simp
  then show "\<exists>ps. snd (db_create_persona uid uid' now now' k name avatar prompt node db) = db\<lparr>db_personas := ps\<rparr>"
    by (auto simp: db_create_persona_def Let_def split: option.split sum.split)
  show "\<exists>ps. snd (db_update_persona now k persona v db) = db\<lparr>db_personas := ps\<rparr>"
    using same by (auto simp: db_update_persona_def Let_def split: option.split)
qed (auto simp: db_delete_persona_def init_db_def)

lemma auth_inv_personas: "auth_inv hash (db, hist) \<Longrightarrow> auth_inv hash (db\<lparr>db_personas := ps\<rparr>, hist)"
  by (erule auth_inv_frame) (simp_all add: accounts_def logins_def owners_def)

lemma auth_inv_persona_op:
  "auth_inv hash (db, hist) \<Longrightarrow> \<exists>ps. db' = db\<lparr>db_personas := ps\<rparr> \<Longrightarrow> auth_inv hash (db', hist)"
  using auth_inv_personas by blast

lemma owners_claim:
  "owners (claim_session now k session db) =
     (if session \<in> fst ` set (owners db) then owners db else owners db @ [(session, k)])"
  by (simp add: claim_session_def sql_insert_ignore_def owners_def image_image)

lemma auth_inv_claims:
  assumes "auth_inv hash (db, hist)"
  shows "auth_inv hash (claim_session now k session db, hist)"
    and "auth_inv hash (claim_executor_node now k node db, hist)"
    and "auth_inv hash (create_invite hash now code email db, hist)"
proof -
  have "dict_wf (owners (claim_session now k session db))"
    using assms by (auto simp: owners_claim auth_inv_def dict_wf_def dict_keys_def)
  then show "auth_inv hash (claim_session now k session db, hist)"
    using assms by (simp add: auth_inv_def claim_session_def accounts_def logins_def)
  show "auth_inv hash (claim_executor_node now k node db, hist)"
    using assms by (simp add: auth_inv_def claim_executor_node_def accounts_def logins_def owners_def)
  show "auth_inv hash (create_invite hash now code email db, hist)"
    using assms
    by (auto simp: auth_inv_def create_invite_def accounts_def logins_def owners_def sql_insert_replace_def list_all_iff)
qed

lemma find_user_account: "find_user k db = Some r \<Longrightarrow> ur_user_id r = k \<and> (k, ur_email r) \<in> set (accounts db)"
  by (auto simp: find_user_def accounts_def find_Some_iff image_iff intro!: bexI [of _ r])

lemma authenticated_account:
  assumes "fst (user_for_token hash now raw db) = Some who"
  shows "(pu_user_id who, pu_email who) \<in> set (accounts db)"
proof -
  obtain k r where "find_user k db = Some r" "who = user_from_row r"
    using assms by (auto simp: user_for_token_def Let_def split: if_splits option.splits)
  then show ?thesis using find_user_account by (auto simp: user_from_row_def)
qed

lemma auth_inv_step: "auth_step hash fmt parse st st' \<Longrightarrow> auth_inv hash st \<Longrightarrow> auth_inv hash st'"
proof (induction rule: auth_step.induct)
  case (signup uid token now configured email code db rd db' hist)
  then have "signed_in db (hash token) (rd_user rd) db'"
    using signup_ok by (simp add: auth_inv_def)
  then show ?case using auth_inv_signed_in signup.prems by blast
next
  case (redeem uid token now code db rd db' hist)
  then have "signed_in db (hash token) (rd_user rd) db'"
    using redeem_ok by (simp add: auth_inv_def)
  then show ?case using auth_inv_signed_in redeem.prems by blast
next
  case (authenticate db hist now raw)
  then show ?case by (rule auth_inv_frame) simp_all
next
  case (pair_claim now now_text token cookie code db db' who hist)
  define db1 where "db1 = snd (user_for_token hash now_text cookie db)"
  have inv1: "auth_inv hash (db1, hist)"
    using pair_claim.prems by (rule auth_inv_frame) (simp_all add: db1_def)
  have "claim_device_pairing hash parse now now_text token code (pu_user_id who) db1 = (Inr (), db')"
    using pair_claim.hyps
    by (auto simp: route_pair_claim_def require_public_user_def http_error_def db1_def map_prod_def
        split: prod.splits sum.splits py_error.splits)
  moreover have "pu_user_id who \<in> fst ` set (accounts db1)"
    using authenticated_account [OF pair_claim.hyps(2)] by (force simp: db1_def)
  ultimately show ?case using auth_inv_pair_claim [OF inv1] by blast
next
  case (pair_poll now device db p db' hist)
  then show ?case using auth_inv_pair_poll by blast
qed (auto intro: auth_inv_claims auth_inv_logout auth_inv_pair_start auth_inv_persona_op
  persona_ops_reads)

lemma auth_inv_empty: "auth_inv hash (auth_db_empty, [])"
  by (simp add: auth_inv_def auth_db_empty_def accounts_def logins_def owners_def accounts_ok_def pairings_ok_def)

lemma auth_inv_steps: "(auth_step hash fmt parse)\<^sup>*\<^sup>* st st' \<Longrightarrow> auth_inv hash st \<Longrightarrow> auth_inv hash st'"
  by (induction rule: rtranclp_induct) (auto intro: auth_inv_step)

lemma auth_inv_reachable: "auth_reachable hash fmt parse st \<Longrightarrow> auth_inv hash st"
  unfolding auth_reachable_def using auth_inv_steps auth_inv_empty by blast

section \<open>An example\<close>

definition plain_hash :: "str \<Rightarrow> str" where
  "plain_hash s = s"

definition one_time :: "int \<Rightarrow> str" where
  "one_time n = ''2026''"

definition read_time :: "str \<Rightarrow> int option" where
  "read_time s = Some 100"

definition ann_signup :: "redeemed_session result \<times> auth_db" where
  "ann_signup = signup_with_fixed_code plain_hash ''u1'' ''tok1'' ''t0'' (Some ''code'') ''Ann@x.io'' ''code'' auth_db_empty"

definition ann_db :: auth_db where
  "ann_db = snd ann_signup"

definition ann_hist :: "auth_event list" where
  "ann_hist = [Issued ''tok1'' ''user-u1'']"

lemma ok_pair: "is_ok (fst p) \<Longrightarrow> \<exists>x. p = (Inr x, snd p)"
  by (cases p) (auto simp: is_ok_def split: sum.splits)

lemma ann_reachable: "auth_reachable plain_hash one_time read_time (ann_db, ann_hist)"
proof -
  define rd where "rd = \<lparr>rd_user = \<lparr>pu_user_id = ''user-u1'', pu_email = Some ''ann@x.io''\<rparr>, rd_raw_token = ''tok1''\<rparr>"
  have "fst ann_signup = Inr rd" unfolding rd_def by code_simp
  then have rd: "ann_signup = (Inr rd, ann_db)" "pu_user_id (rd_user rd) = ''user-u1''"
    by (simp_all add: ann_db_def prod_eq_iff rd_def)
  show ?thesis
    using auth_step.signup [OF rd(1) [unfolded ann_signup_def], of one_time read_time "[]"] rd(2)
    unfolding auth_reachable_def ann_hist_def by (simp add: plain_hash_def r_into_rtranclp)
qed

lemma auth_reachable_step:
  "auth_reachable hash fmt parse st \<Longrightarrow> auth_step hash fmt parse st st' \<Longrightarrow> auth_reachable hash fmt parse st'"
  unfolding auth_reachable_def by (rule rtranclp.rtrancl_into_rtrancl)

definition ann_pairing :: "device_pairing_start result \<times> auth_db" where
  "ann_pairing = create_device_pairing plain_hash one_time 0 ''dev1'' [''AB23''] ann_db"

definition ann_claim :: "unit result \<times> auth_db" where
  "ann_claim = route_pair_claim plain_hash read_time 50 ''t1'' ''tok2'' (Some ''tok1'') ''ab23'' (snd ann_pairing)"

lemma ann_paired: "auth_reachable plain_hash one_time read_time (snd ann_claim, Issued ''tok2'' ''user-u1'' # ann_hist)"
proof -
  have "is_ok (fst ann_pairing)" by code_simp
  then obtain started where s: "ann_pairing = (Inr started, snd ann_pairing)" using ok_pair by blast
  have r1: "auth_reachable plain_hash one_time read_time (snd ann_pairing, ann_hist)"
  proof (rule auth_reachable_step [OF ann_reachable auth_step.pair_start])
    show "create_device_pairing plain_hash one_time 0 ''dev1'' [''AB23''] ann_db = (Inr started, snd ann_pairing)"
      unfolding ann_pairing_def [symmetric] by (rule s)
  qed
  have "fst ann_claim = Inr ()" by code_simp
  then have c: "ann_claim = (Inr (), snd ann_claim)" by (simp add: prod_eq_iff)
  have "map_option pu_user_id (fst (user_for_token plain_hash ''t1'' (Some ''tok1'') (snd ann_pairing))) = Some ''user-u1''"
    by code_simp
  then obtain who where w: "fst (user_for_token plain_hash ''t1'' (Some ''tok1'') (snd ann_pairing)) = Some who"
      "pu_user_id who = ''user-u1''"
    by auto
  have c': "route_pair_claim plain_hash read_time 50 ''t1'' ''tok2'' (Some ''tok1'') ''ab23'' (snd ann_pairing) =
      (Inr (), snd ann_claim)"
    unfolding ann_claim_def [symmetric] by (rule c)
  show ?thesis
    using auth_reachable_step [OF r1 auth_step.pair_claim [OF c' w(1)]] w(2) by (simp add: plain_hash_def)
qed

section \<open>Properties\<close>

lemma token_user:
  assumes "auth_inv hash (db, hist)"
  shows "map_option pu_user_id (fst (user_for_token hash now raw db)) =
    (if str_truthy raw then live hist (hash (the raw)) else None)"
proof (cases "str_truthy raw")
  case True
  define h where "h = hash (the raw)"
  have login: "map_option bs_user_id (find_browser_session h db) = live hist h"
    using assms by (simp add: find_login auth_inv_def)
  show ?thesis
  proof (cases "find_browser_session h db")
    case None
    then show ?thesis using True login by (simp add: user_for_token_def Let_def h_def)
  next
    case (Some s)
    then have "map_of (logins db) h = Some (bs_user_id s)"
      using find_login [of h db] by simp
    then have "bs_user_id s \<in> snd ` set (logins db)" by (force dest: map_of_SomeD)
    then have "bs_user_id s \<in> fst ` set (accounts db)" using assms by (auto simp: auth_inv_def)
    then have "map_of (accounts db) (bs_user_id s) \<noteq> None" by (simp add: map_of_eq_None_iff)
    then obtain r where r: "find_user (bs_user_id s) db = Some r"
      using find_account [of "bs_user_id s" db] by fastforce
    then have "ur_user_id r = bs_user_id s" using find_user_account by blast
    then show ?thesis
      using True Some r login by (simp add: user_for_token_def Let_def h_def user_from_row_def)
  qed
qed (simp add: user_for_token_def)

text \<open>C38: a browser token authenticates exactly the user it was issued to, by signing up, redeeming an
  invite or pairing a device, as long as it is not logged out; every other token authenticates
  nobody.\<close>

theorem token_follows_history:
  assumes "auth_reachable hash fmt parse (db, hist)"
  shows "map_option pu_user_id (fst (user_for_token hash now raw db)) =
    (if str_truthy raw then live hist (hash (the raw)) else None)"
  by (rule token_user [OF auth_inv_reachable [OF assms]])

lemma token_follows_history_witness:
  "map_option pu_user_id (fst (user_for_token plain_hash ''t9'' (Some ''tok1'') ann_db)) = Some ''user-u1''"
  using token_follows_history [OF ann_reachable, of "''t9''" "Some ''tok1''"]
  by (simp add: plain_hash_def ann_hist_def)

lemma accounts_same_email:
  "accounts_ok acs \<Longrightarrow> (k, Some e) \<in> set acs \<Longrightarrow> (k', Some e) \<in> set acs \<Longrightarrow> k = k'"
  unfolding accounts_ok_def by blast

text \<open>an email has one account: no two users share an email, and signing up with an email that
  already has an account, whatever its case and the spaces around it, signs in to that account.\<close>

theorem email_has_one_account:
  assumes "auth_reachable hash fmt parse (db, hist)"
    and "r \<in> set (db_users db)" and "ur_email r = Some e"
  shows "(r' \<in> set (db_users db) \<and> ur_email r' = Some e \<longrightarrow> ur_user_id r' = ur_user_id r) \<and>
    (signup_with_fixed_code hash uid token now configured email code db = (Inr rd, db') \<and>
       py_lower (py_strip email) = e \<longrightarrow> pu_user_id (rd_user rd) = ur_user_id r)"
proof -
  have inv: "auth_inv hash (db, hist)" using auth_inv_reachable [OF assms(1)] .
  have acc: "(ur_user_id x, ur_email x) \<in> set (accounts db)" if "x \<in> set (db_users db)" for x
    using that by (auto simp: accounts_def)
  have "ur_user_id r' = ur_user_id r" if "r' \<in> set (db_users db)" "ur_email r' = Some e"
    using accounts_same_email [of "accounts db" "ur_user_id r'" e "ur_user_id r"] inv acc [OF that(1)]
      acc [OF assms(2)] that assms(3) by (simp add: auth_inv_def)
  moreover have "pu_user_id (rd_user rd) = ur_user_id r"
    if run: "signup_with_fixed_code hash uid token now configured email code db = (Inr rd, db')"
      and e: "py_lower (py_strip email) = e"
  proof -
    have si: "signed_in db (hash token) (rd_user rd) db'" and
        pe: "pu_email (rd_user rd) = normalize_email (Some email)"
      using signup_ok [OF run] inv by (simp_all add: auth_inv_def)
    have "normalize_email (Some email) \<noteq> None" using signup_cases [OF run] by auto
    then have "normalize_email (Some email) = Some e"
      using e by (auto simp: normalize_email_def Let_def split: if_splits)
    then have "(pu_user_id (rd_user rd), Some e) \<in> set (accounts db')"
        "(ur_user_id r, Some e) \<in> set (accounts db')" "accounts_ok (accounts db')"
      using si pe acc [OF assms(2)] assms(3) by (auto simp: signed_in_def)
    then show ?thesis using accounts_same_email by blast
  qed
  ultimately show ?thesis by blast
qed

lemma email_has_one_account_witness:
  "\<exists>rd db'. signup_with_fixed_code plain_hash ''u2'' ''tok2'' ''t1'' (Some ''code'') '' ANN@x.io'' ''code'' ann_db =
       (Inr rd, db') \<and> pu_user_id (rd_user rd) = ''user-u1''"
proof -
  have "map (\<lambda>r. (ur_user_id r, ur_email r)) (db_users ann_db) = [(''user-u1'', Some ''ann@x.io'')]"
    by code_simp
  then obtain r where r: "r \<in> set (db_users ann_db)" "ur_email r = Some ''ann@x.io''" "ur_user_id r = ''user-u1''"
    by (auto simp: map_eq_Cons_conv)
  have "is_ok (fst (signup_with_fixed_code plain_hash ''u2'' ''tok2'' ''t1'' (Some ''code'') '' ANN@x.io'' ''code'' ann_db))"
    by code_simp
  then obtain rd db' where s: "signup_with_fixed_code plain_hash ''u2'' ''tok2'' ''t1'' (Some ''code'') '' ANN@x.io'' ''code'' ann_db =
      (Inr rd, db')"
    using ok_pair by blast
  have "py_lower (py_strip '' ANN@x.io'') = ''ann@x.io''" by code_simp
  then have "pu_user_id (rd_user rd) = ''user-u1''"
    using email_has_one_account [OF ann_reachable r(1,2), of r "''u2''" "''tok2''" "''t1''"
        "Some ''code''" "'' ANN@x.io''" "''code''" rd db'] s r(3) by simp
  then show ?thesis using s by blast
qed

lemma find_pairing:
  assumes "auth_inv hash (db, hist)"
    and "find (\<lambda>r. dp_device_code_hash r = h) (db_device_pairings db) = Some row"
  shows "pairing_ok hash hist row \<and> dp_device_code_hash row = h"
  using assms by (auto simp: auth_inv_def pairings_ok_def find_Some_iff)

lemma delivered_pairing:
  assumes "auth_inv hash (db, hist)" and "Delivered (hash device) \<in> set hist"
    and "poll_device_pairing hash parse now device db = (Inr p, db')"
  shows "pp_token p = None"
proof -
  obtain row where row: "find (\<lambda>r. dp_device_code_hash r = hash device) (db_device_pairings db) = Some row"
    using assms(3) by (auto simp: poll_device_pairing_def Let_def split: option.splits)
  then have "dp_status row \<noteq> ''pending'' \<and> dp_issued_token row = None"
    using find_pairing [OF assms(1) row] assms(2) by (simp add: pairing_ok_def)
  then show ?thesis using assms(3) row by (auto simp: poll_device_pairing_def Let_def)
qed

lemma auth_step_history: "auth_step hash fmt parse st st' \<Longrightarrow> set (snd st) \<subseteq> set (snd st')"
  by (induction rule: auth_step.induct) auto

lemma auth_steps_history: "(auth_step hash fmt parse)\<^sup>*\<^sup>* st st' \<Longrightarrow> set (snd st) \<subseteq> set (snd st')"
  by (induction rule: rtranclp_induct) (use auth_step_history in blast)+



lemma owners_step: "auth_step hash fmt parse st st' \<Longrightarrow> auth_inv hash st \<Longrightarrow>
    set (owners (fst st)) \<subseteq> set (owners (fst st'))"
proof (induction rule: auth_step.induct)
  case (signup uid token now configured email code db rd db' hist)
  then show ?case using signup_ok by (simp add: auth_inv_def signed_in_def)
next
  case (redeem uid token now code db rd db' hist)
  then show ?case using redeem_ok by (simp add: auth_inv_def signed_in_def)
next
  case (logout raw db hist)
  then show ?case by (simp add: owners_def delete_browser_session_def)
next
  case (pair_start now device codes db started db' hist)
  then show ?case by (auto simp: create_device_pairing_def owners_def split: option.splits)
next
  case (pair_claim now now_text token cookie code db db' who hist)
  have "claim_device_pairing hash parse now now_text token code (pu_user_id who)
      (snd (user_for_token hash now_text cookie db)) = (Inr (), db')"
    using pair_claim.hyps
    by (auto simp: route_pair_claim_def require_public_user_def http_error_def map_prod_def
        split: prod.splits sum.splits py_error.splits)
  then obtain db1 rs where "insert_browser_session (hash token) (pu_user_id who) now_text
        (snd (user_for_token hash now_text cookie db)) = Inr db1" "db' = db1\<lparr>db_device_pairings := rs\<rparr>"
    using claim_cases by blast
  then have "owners db1 = owners db" "owners db' = owners db1"
    using insert_login_reads(4) [of _ _ _ _ db1] by (simp, simp add: owners_def)
  then have "owners db' = owners db" by simp
  then show ?case by simp
next
  case (pair_poll now device db p db' hist)
  then show ?case
    by (auto simp: poll_device_pairing_def Let_def owners_def split: option.splits if_splits sum.splits bool.splits)
next
  case (create_persona db hist uid uid' now now' k name avatar prompt node)
  then show ?case using persona_ops_reads(1) [of uid uid' now now' k name avatar prompt node db]
    by (auto simp: owners_def)
next
  case (update_persona db hist now k persona v)
  then show ?case using persona_ops_reads(2) [of now k persona v db] by (auto simp: owners_def)
next
  case (delete_persona db hist k persona)
  then show ?case using persona_ops_reads(3) [of k persona db] by (auto simp: owners_def)
qed (auto simp: owners_claim, simp_all add: create_invite_def claim_executor_node_def init_db_def owners_def)

lemma owners_steps: "(auth_step hash fmt parse)\<^sup>*\<^sup>* st st' \<Longrightarrow> auth_inv hash st \<Longrightarrow>
    set (owners (fst st)) \<subseteq> set (owners (fst st'))"
proof (induction rule: rtranclp_induct)
  case (step st1 st2)
  then show ?case using owners_step auth_inv_steps by blast
qed simp



end
