(* ===== verification/Projection.thy ===== *)
theory Projection
  imports NodeManager Interaction ThreadList
begin

text \<open>
  \<open>src/newbro/runtime/bro_detail_thread_projection.py\<close>: the native threads a runtime shows. The state is
  the object's dictionaries: the threads imported from the executor nodes with their resume handles,
  pages and aliases, the subscription of each persona, the timeline turns of each thread, the text
  streamed so far and the phase of each item, the loading state of each timeline, and the goals. The
  node manager (\<open>m\<close>) and the blackboard are the models of \<open>NodeManager\<close> and \<open>Blackboard\<close>.

  A request to a node is awaited: what precedes it and what follows are two operations, the second
  with the answer as an argument (\<open>Inl\<close> the text of an exception). Reads of the blackboard do not wait. Fresh ids,
  clock readings, \<open>sha\<close> (a hexadecimal digest), \<open>stamp\<close> (epoch seconds as text), \<open>parse\<close> (a text as a
  time) and \<open>fr\<close> (a float as text) are arguments. Log calls and the publishing of snapshots are left
  out, except that a handler's result says whether it publishes.
\<close>

section \<open>Data\<close>

record page_info =
  pg_next_cursor :: "str option"
  pg_previous_cursor :: "str option"
  pg_has_more :: bool
  pg_status :: str
  pg_error :: "str option"

definition page_info_default :: page_info where
  "page_info_default =
     \<lparr>pg_next_cursor = None, pg_previous_cursor = None, pg_has_more = False, pg_status = ''not_loaded'',
      pg_error = None\<rparr>"

definition loaded_page :: "str option \<Rightarrow> str option \<Rightarrow> page_info" where
  "loaded_page next_cursor previous_cursor =
     \<lparr>pg_next_cursor = next_cursor, pg_previous_cursor = previous_cursor,
      pg_has_more = str_truthy next_cursor, pg_status = ''loaded'', pg_error = None\<rparr>"

record selected_subscription =
  ss_subscription_id :: str
  ss_persona_id :: str
  ss_public_thread_id :: str
  ss_thread_continuity_key :: str
  ss_node_id :: str
  ss_codex_thread_id :: str
  ss_resume_handle :: agent_resume_handle
  ss_fallback_timestamp :: "str option"

text \<open>The answers of a node (\<open>CodexThreadsListedMessage\<close>, \<open>CodexThreadTurnsListedMessage\<close>) and its
  events (\<open>CodexThreadEventMessage\<close>) of \<open>protocol/executor_node.py\<close>, with the fields that are read.\<close>

record codex_threads_page =
  cp_threads :: "codex_thread_item list"
  cp_next_cursor :: "str option"
  cp_previous_cursor :: "str option"

record codex_turns_page =
  cq_thread_id :: str
  cq_turns :: "jdict list"
  cq_goal :: "str option"
  cq_next_cursor :: "str option"
  cq_previous_cursor :: "str option"

record codex_thread_event =
  ce_subscription_id :: str
  ce_node_id :: str
  ce_target_persona_id :: str
  ce_target_thread_id :: str
  ce_thread_id :: str
  ce_method :: str
  ce_params :: jdict

record projection =
  pj_imported :: "(str, bro_thread) dict"
  pj_handles :: "(str, agent_resume_handle) dict"
  pj_page_info :: "(str, page_info) dict"
  pj_pages :: "(str, str list) dict"
  pj_aliases :: "(str, str) dict"
  pj_last_sync :: rat
  pj_subscriptions :: "(str, selected_subscription) dict"
  pj_turns :: "(str, timeline_turn list) dict"
  pj_message_deltas :: "(str \<times> str \<times> str, str) dict"
  pj_item_phase :: "(str \<times> str \<times> str, str) dict"
  pj_timeline_status :: "(str, str) dict"
  pj_timeline_errors :: "(str, str) dict"
  pj_load_tasks :: "str list"
  pj_timeline_pages :: "(str, page_info) dict"
  pj_plan_deltas :: "(str \<times> str \<times> str, str) dict"
  pj_plan_emitted :: "(str \<times> str \<times> str, str) dict"
  pj_goals :: "(str, str) dict"

definition projection_init :: projection where
  "projection_init =
     \<lparr>pj_imported = [], pj_handles = [], pj_page_info = [], pj_pages = [], pj_aliases = [], pj_last_sync = 0,
      pj_subscriptions = [], pj_turns = [], pj_message_deltas = [], pj_item_phase = [],
      pj_timeline_status = [], pj_timeline_errors = [], pj_load_tasks = [], pj_timeline_pages = [],
      pj_plan_deltas = [], pj_plan_emitted = [], pj_goals = []\<rparr>"

definition imported_thread_page_limit :: nat where
  "imported_thread_page_limit = 15"

definition get_or :: "('k, 'v) dict \<Rightarrow> 'k \<Rightarrow> 'v \<Rightarrow> 'v" where
  "get_or d k v = (case map_of d k of Some w \<Rightarrow> w | None \<Rightarrow> v)"

section \<open>Imported threads\<close>

definition int_or :: "int option \<Rightarrow> int option \<Rightarrow> int option" where
  "int_or a b = (case a of Some x \<Rightarrow> if x = 0 then b else Some x | None \<Rightarrow> b)"

definition iso_from_epoch_seconds :: "(rat \<Rightarrow> str option) \<Rightarrow> int option \<Rightarrow> str option" where
  "iso_from_epoch_seconds stamp v = (case v of None \<Rightarrow> None | Some x \<Rightarrow> stamp (of_int x))"

definition alias_or_imported_id :: "(str \<Rightarrow> str) \<Rightarrow> projection \<Rightarrow> str \<Rightarrow> str \<Rightarrow> str" where
  "alias_or_imported_id sha s persona_id thread_id =
     str_or_else (map_of (pj_aliases s) (codex_thread_alias_key persona_id thread_id))
       (imported_bro_thread_id sha persona_id thread_id)"

definition imported_diagnostics :: "codex_thread_item \<Rightarrow> jdict" where
  "imported_diagnostics x =
     dict_merge (ctl_diagnostics x)
       [(''codex_thread_id'', JStr (ctl_thread_id x)), (''codex_session_id'', json_of_str (ctl_session_id x)),
        (''codex_cwd'', json_of_str (ctl_cwd x)), (''codex_path'', json_of_str (ctl_path x)),
        (''codex_cli_version'', json_of_str (ctl_cli_version x)),
        (''codex_thread_source'', json_of_str (ctl_source x)),
        (''imported_from_codex_thread_list'', JBool True)]"

definition project_imported_codex_thread ::
    "(str \<Rightarrow> str) \<Rightarrow> (rat \<Rightarrow> str option) \<Rightarrow> projection \<Rightarrow> persona \<Rightarrow> str \<Rightarrow> codex_thread_item \<Rightarrow>
     bro_thread \<times> agent_resume_handle" where
  "project_imported_codex_thread sha stamp s p node x =
     (let status = codex_thread_status (ctl_status x);
          title = title_from_codex_thread x;
          updated = iso_from_epoch_seconds stamp (int_or (ctl_updated_at x) (ctl_created_at x))
      in (\<lparr>bt_thread_id = alias_or_imported_id sha s (p_persona_id p) (ctl_thread_id x),
           bt_persona_id = p_persona_id p, bt_persona_name = Some (p_name p), bt_executor_id = ''codex'',
           bt_executor_node_id = Some node, bt_workspace_id = ctl_cwd x,
           bt_workspace_name = workspace_name (ctl_cwd x), bt_execution_session_id = None,
           bt_status = status, bt_title = title, bt_preview = ctl_preview x,
           bt_progress = thread_progress status, bt_task_ids = [], bt_active_task_id = None,
           bt_latest_task_id = None, bt_has_resume_handle = True, bt_updated_at = updated,
           bt_timeline_status = ''not_loaded'', bt_timeline_error = None,
           bt_diagnostics = imported_diagnostics x\<rparr>,
          \<lparr>h_executor_id = ''codex'', h_session_handle = Some (ctl_thread_id x), h_turn_handle = None,
           h_opaque = [(''cwd'', JStr (str_or_else (ctl_cwd x) [])), (''path'', JStr (str_or_else (ctl_path x) [])),
             (''cliVersion'', JStr (str_or_else (ctl_cli_version x) [])), (''title'', JStr title),
             (''listUpdatedAt'', JStr (str_or_else updated []))]\<rparr>))"

definition with_timeline_state :: "projection \<Rightarrow> bro_thread list \<Rightarrow> bro_thread list" where
  "with_timeline_state s ths =
     map (\<lambda>th. th\<lparr>bt_timeline_status := get_or (pj_timeline_status s) (bt_thread_id th) ''not_loaded'',
                  bt_timeline_error := map_of (pj_timeline_errors s) (bt_thread_id th)\<rparr>) ths"

definition executor_turn_snapshot :: "projection \<Rightarrow> timeline_turn list" where
  "executor_turn_snapshot s = concat (dict_values (pj_turns s))"

text \<open>The native threads that the sessions continue.\<close>

definition session_codex_thread_ids :: "execution_session list \<Rightarrow> str list" where
  "session_codex_thread_ids ss =
     List.map_filter (\<lambda>x. case s_latest_resume_handle x of
         Some h \<Rightarrow> if h_executor_id h = ''codex'' \<and> str_truthy (h_session_handle h) then h_session_handle h else None
       | None \<Rightarrow> None) ss"

definition eligible_personas :: "node_manager \<Rightarrow> persona list \<Rightarrow> persona list" where
  "eligible_personas m ps =
     filter (\<lambda>p. str_truthy (p_executor_node_id p) \<and> is_executor_connected m ''codex'' (p_executor_node_id p) \<and>
       executor_supports_thread_list m ''codex'' (the (p_executor_node_id p))) ps"

definition personas_by_node :: "persona list \<Rightarrow> (str, persona list) dict" where
  "personas_by_node ps = fold (\<lambda>p d. dd_append (the (p_executor_node_id p)) p d) ps []"

definition clear_imported :: "projection \<Rightarrow> projection" where
  "clear_imported s = s\<lparr>pj_imported := [], pj_handles := [], pj_page_info := [], pj_pages := []\<rparr>"

text \<open>What \<open>sync_imported_codex_threads\<close> does: nothing is eligible, the last result is recent, or the
  nodes in the list are asked one after the other, each for its personas. The test is repeated once
  the lock is held.\<close>

datatype sync_plan = Sync_Nothing | Sync_Recent | Sync_Ask "(str, persona list) dict"

definition sync_is_recent :: "rat \<Rightarrow> projection \<Rightarrow> bool" where
  "sync_is_recent now s \<longleftrightarrow> pj_imported s \<noteq> [] \<and> now - pj_last_sync s < 5"

definition sync_plan_of :: "node_manager \<Rightarrow> rat \<Rightarrow> persona list \<Rightarrow> projection \<Rightarrow> sync_plan" where
  "sync_plan_of m now ps s =
     (if eligible_personas m ps = [] then Sync_Nothing
      else if sync_is_recent now s then Sync_Recent
      else Sync_Ask (personas_by_node (eligible_personas m ps)))"

record sync_result =
  sy_threads :: "(str, bro_thread) dict"
  sy_handles :: "(str, agent_resume_handle) dict"
  sy_pages :: "(str, str list) dict"

definition sync_result_empty :: sync_result where
  "sync_result_empty = \<lparr>sy_threads = [], sy_handles = [], sy_pages = []\<rparr>"

definition import_for_persona ::
    "(str \<Rightarrow> str) \<Rightarrow> (rat \<Rightarrow> str option) \<Rightarrow> projection \<Rightarrow> str \<Rightarrow> codex_thread_item \<Rightarrow> persona \<Rightarrow>
     sync_result \<Rightarrow> sync_result" where
  "import_for_persona sha stamp s node x p y =
     (let (th, h) = project_imported_codex_thread sha stamp s p node x
      in y\<lparr>sy_threads := dict_put (bt_thread_id th) th (sy_threads y),
           sy_pages := dd_append (p_persona_id p) (bt_thread_id th) (sy_pages y),
           sy_handles := dict_put (bt_thread_id th) h (sy_handles y)\<rparr>)"

definition import_thread ::
    "(str \<Rightarrow> str) \<Rightarrow> (rat \<Rightarrow> str option) \<Rightarrow> projection \<Rightarrow> str \<Rightarrow> persona list \<Rightarrow> str list \<Rightarrow>
     codex_thread_item \<Rightarrow> sync_result \<Rightarrow> sync_result" where
  "import_thread sha stamp s node ps continued x y =
     (if ctl_thread_id x \<in> set continued \<or> is_ephemeral_codex_thread x then y
      else fold (import_for_persona sha stamp s node x) ps y)"

definition page_failed :: "str \<Rightarrow> page_info \<Rightarrow> page_info" where
  "page_failed err i = i\<lparr>pg_status := ''failed'', pg_error := Some err\<rparr>"

text \<open>One node's answer, and the end of the loop.\<close>

definition sync_node_reply ::
    "(str \<Rightarrow> str) \<Rightarrow> (rat \<Rightarrow> str option) \<Rightarrow> str list \<Rightarrow> str \<Rightarrow> persona list \<Rightarrow>
     str + codex_threads_page \<Rightarrow> projection \<times> sync_result \<Rightarrow> projection \<times> sync_result" where
  "sync_node_reply sha stamp continued node ps reply st =
     (let (s, y) = st in
      case reply of
        Inl e \<Rightarrow>
          (s\<lparr>pj_page_info := fold (\<lambda>p d. dict_put (p_persona_id p)
               (page_failed e (get_or d (p_persona_id p) page_info_default)) d) ps (pj_page_info s)\<rparr>, y)
      | Inr pg \<Rightarrow>
          (let y0 = y\<lparr>sy_pages := fold (\<lambda>p d. dict_put (p_persona_id p) [] d) ps (sy_pages y)\<rparr>
           in (s\<lparr>pj_page_info := fold (\<lambda>p d. dict_put (p_persona_id p)
                   (loaded_page (cp_next_cursor pg) (cp_previous_cursor pg)) d) ps (pj_page_info s)\<rparr>,
               fold (import_thread sha stamp s node ps continued) (cp_threads pg) y0)))"

definition sync_commit :: "rat \<Rightarrow> sync_result \<Rightarrow> projection \<Rightarrow> projection" where
  "sync_commit now y s =
     s\<lparr>pj_imported := sy_threads y, pj_handles := sy_handles y, pj_pages := sy_pages y, pj_last_sync := now\<rparr>"

text \<open>A sync that nothing interrupts, \<open>ask\<close> being what the nodes answer.\<close>

definition sync_imported_codex_threads ::
    "(str \<Rightarrow> str) \<Rightarrow> (rat \<Rightarrow> str option) \<Rightarrow> node_manager \<Rightarrow> (str \<Rightarrow> (str + codex_threads_page)) \<Rightarrow> rat \<Rightarrow> rat \<Rightarrow>
     persona list \<Rightarrow> execution_session list \<Rightarrow> projection \<Rightarrow> bro_thread list \<times> projection" where
  "sync_imported_codex_threads sha stamp m ask now later ps sessions s =
     (case sync_plan_of m now ps s of
        Sync_Nothing \<Rightarrow> ([], clear_imported s)
      | Sync_Recent \<Rightarrow> (dict_values (pj_imported s), s)
      | Sync_Ask nodes \<Rightarrow>
          (let (s1, y) = fold (\<lambda>(node, nps). sync_node_reply sha stamp (session_codex_thread_ids sessions) node nps
                 (ask node)) nodes (s, sync_result_empty);
               s2 = sync_commit later y s1
           in (dict_values (pj_imported s2), s2)))"

definition begin_thread_page :: "persona \<Rightarrow> str result" where
  "begin_thread_page p =
     (if str_truthy (p_executor_node_id p) then Inr (the (p_executor_node_id p))
      else Inl (ValueError ''Selected Bro is not bound to an executor node.''))"

definition import_listed ::
    "(str \<Rightarrow> str) \<Rightarrow> (rat \<Rightarrow> str option) \<Rightarrow> str list \<Rightarrow> persona \<Rightarrow> str \<Rightarrow> codex_thread_item \<Rightarrow>
     bro_thread list \<times> projection \<Rightarrow> bro_thread list \<times> projection" where
  "import_listed sha stamp continued p node x st =
     (let (ths, s) = st in
      if ctl_thread_id x \<in> set continued \<or> is_ephemeral_codex_thread x then (ths, s)
      else
        (let (th, h) = project_imported_codex_thread sha stamp s p node x;
             k = bt_thread_id th;
             ids = get_or (pj_pages s) (p_persona_id p) []
         in (ths @ [th],
             s\<lparr>pj_imported := dict_put k th (pj_imported s), pj_handles := dict_put k h (pj_handles s),
               pj_pages := dict_put (p_persona_id p) (if k \<in> set ids then ids else ids @ [k]) (pj_pages s)\<rparr>)))"

definition finish_thread_page ::
    "(str \<Rightarrow> str) \<Rightarrow> (rat \<Rightarrow> str option) \<Rightarrow> execution_session list \<Rightarrow> persona \<Rightarrow> str \<Rightarrow> codex_threads_page \<Rightarrow>
     projection \<Rightarrow> (bro_thread list \<times> page_info) \<times> projection" where
  "finish_thread_page sha stamp sessions p node pg s =
     (let (ths, s1) = fold (import_listed sha stamp (session_codex_thread_ids sessions) p node) (cp_threads pg) ([], s);
          info = loaded_page (cp_next_cursor pg) (cp_previous_cursor pg);
          s2 = s1\<lparr>pj_page_info := dict_put (p_persona_id p) info (pj_page_info s1)\<rparr>
      in ((with_timeline_state s2 ths, info), s2))"

section \<open>Turns of a thread\<close>

definition same_exchange :: "timeline_turn \<Rightarrow> timeline_turn \<Rightarrow> bool" where
  "same_exchange t c \<longleftrightarrow>
     tt_turn_id c = tt_turn_id t \<or>
     tt_executor_id c = tt_executor_id t \<and> tt_executor_thread_id c = tt_executor_thread_id t \<and>
       tt_executor_turn_id c = tt_executor_turn_id t \<and> tt_executor_turn_id t \<noteq> None"

fun merge_first :: "timeline_turn \<Rightarrow> timeline_turn list \<Rightarrow> timeline_turn list" where
  "merge_first t [] = [t]"
| "merge_first t (c # cs) =
     (if same_exchange t c then merge_timeline_turn c t # cs else c # merge_first t cs)"

text \<open>A turn that arrives makes the timeline count as loaded, unless loading it had failed.\<close>

definition note_loaded :: "str \<Rightarrow> projection \<Rightarrow> projection" where
  "note_loaded k s =
     s\<lparr>pj_timeline_status := dict_put k ''loaded'' (pj_timeline_status s),
       pj_timeline_errors := dict_pop k (pj_timeline_errors s)\<rparr>"

definition upsert_turn :: "timeline_turn \<Rightarrow> projection \<Rightarrow> projection" where
  "upsert_turn t s =
     (let k = tt_thread_id t;
          s1 = s\<lparr>pj_turns := dict_put k (merge_first t (dd_get (pj_turns s) k)) (pj_turns s)\<rparr>
      in if map_of (pj_timeline_status s1) k \<noteq> Some ''failed'' then note_loaded k s1 else s1)"

definition settled_statuses :: "str list" where
  "settled_statuses = [''completed'', ''failed'', ''cancelled'']"

definition settle_turn :: "timeline_turn \<Rightarrow> timeline_turn" where
  "settle_turn t =
     t\<lparr>tt_status := ''completed'',
       tt_assistant := (if still_streaming (tt_assistant t)
          then map_option (\<lambda>m. m\<lparr>tm_status := ''completed''\<rparr>) (tt_assistant t) else tt_assistant t)\<rparr>"

definition settle_selected_thread_turn :: "str \<Rightarrow> str \<Rightarrow> projection \<Rightarrow> bool \<times> projection" where
  "settle_selected_thread_turn public turn s =
     (let ts = dd_get (pj_turns s) public;
          hit = (\<lambda>t. tt_executor_turn_id t = Some turn \<and> tt_status t \<notin> set settled_statuses)
      in if list_ex hit ts
         then (True, s\<lparr>pj_turns := dict_put public (map (\<lambda>t. if hit t then settle_turn t else t) ts) (pj_turns s)\<rparr>)
         else (False, s))"

text \<open>The user's message that a plan answers: the last turn that has nothing but a user's message, is
  not the plan's own and is not later than the plan. It is taken out, to become part of the plan's.\<close>

definition awaits_plan ::
    "(str \<Rightarrow> rat option) \<Rightarrow> str \<Rightarrow> str \<Rightarrow> str \<Rightarrow> timeline_turn \<Rightarrow> bool" where
  "awaits_plan parse executor_thread plan_turn plan_time c \<longleftrightarrow>
     tt_executor_id c = ''codex'' \<and> tt_executor_thread_id c = Some executor_thread \<and>
     tt_executor_turn_id c \<noteq> Some plan_turn \<and>
     tt_user c \<noteq> None \<and> tt_assistant c = None \<and> tt_task c = None \<and>
     jget (tt_metadata c) ''source'' = JStr ''selected_thread_event'' \<and>
     jget (tt_metadata c) ''codex_plan'' = JNull \<and>
     parse_time parse (turn_time_text c) \<le> parse_time parse plan_time"

fun take_first :: "('a \<Rightarrow> bool) \<Rightarrow> 'a list \<Rightarrow> ('a \<times> 'a list) option" where
  "take_first P [] = None"
| "take_first P (x # xs) = (if P x then Some (x, xs) else map_option (\<lambda>(y, ys). (y, x # ys)) (take_first P xs))"

definition put_turns :: "str \<Rightarrow> timeline_turn list \<Rightarrow> projection \<Rightarrow> projection" where
  "put_turns k ts s =
     s\<lparr>pj_turns := (if ts = [] then dict_pop k (pj_turns s) else dict_put k ts (pj_turns s))\<rparr>"

definition pop_pending_user_turn ::
    "(str \<Rightarrow> rat option) \<Rightarrow> str \<Rightarrow> str \<Rightarrow> str \<Rightarrow> str \<Rightarrow> projection \<Rightarrow>
     (timeline_message option \<times> str option) \<times> projection" where
  "pop_pending_user_turn parse public executor_thread plan_turn plan_time s =
     (case take_first (awaits_plan parse executor_thread plan_turn plan_time) (rev (dd_get (pj_turns s) public)) of
        None \<Rightarrow> ((None, None), s)
      | Some (c, rest) \<Rightarrow> ((tt_user c, tt_executor_turn_id c), put_turns public (rev rest) s))"

definition item_is_commentary :: "str \<Rightarrow> str \<Rightarrow> str option \<Rightarrow> projection \<Rightarrow> bool" where
  "item_is_commentary public turn item s \<longleftrightarrow>
     str_truthy item \<and> map_of (pj_item_phase s) (public, turn, the item) = Some ''commentary''"

section \<open>Phases and reasoning from history\<close>

definition is_agent_item :: "jdict \<Rightarrow> bool" where
  "is_agent_item item \<longleftrightarrow> jget item ''type'' \<in> {JStr ''assistantMessage'', JStr ''agentMessage''}"

definition turn_items :: "jdict \<Rightarrow> jdict list" where
  "turn_items turn =
     (case jget turn ''items'' of JList xs \<Rightarrow> List.map_filter jobj xs | _ \<Rightarrow> [])"

definition seed_item_phase :: "str \<Rightarrow> str \<Rightarrow> jdict \<Rightarrow> projection \<Rightarrow> projection" where
  "seed_item_phase public turn item s =
     (case (jstr_nonempty (jget item ''id''), jstr_nonempty (jget item ''phase'')) of
        (Some i, Some ph) \<Rightarrow>
          if is_agent_item item then s\<lparr>pj_item_phase := dict_put (public, turn, i) ph (pj_item_phase s)\<rparr> else s
      | _ \<Rightarrow> s)"

definition seed_turn_phases :: "str \<Rightarrow> jdict \<Rightarrow> projection \<Rightarrow> projection" where
  "seed_turn_phases public turn s =
     (case jstr_nonempty (jget turn ''id'') of
        None \<Rightarrow> s
      | Some k \<Rightarrow> fold (seed_item_phase public k) (turn_items turn) s)"

definition seed_live_item_phases :: "str \<Rightarrow> jdict list \<Rightarrow> projection \<Rightarrow> projection" where
  "seed_live_item_phases public turns s = fold (seed_turn_phases public) turns s"

text \<open>What is passed to \<open>record_history_native_reasoning\<close>: for each running turn its commentary, as
  item, text and time.\<close>

definition reasoning_steps ::
    "(rat \<Rightarrow> str option) \<Rightarrow> str \<Rightarrow> jdict \<Rightarrow> (str \<times> str \<times> str) list" where
  "reasoning_steps stamp now turn =
     (let turn_time = str_or_else (thread_timestamp_from_turn stamp turn) now
      in List.map_filter (\<lambda>item.
           if is_agent_item item \<and> jget item ''phase'' = JStr ''commentary'' then
             (case (jstr_nonempty (jget item ''id''), extract_codex_item_text item) of
                (Some i, Some (c # text)) \<Rightarrow>
                  Some (i, c # text, str_or_else (thread_timestamp_from_turn stamp item) turn_time)
              | _ \<Rightarrow> None)
           else None) (turn_items turn))"

definition seed_native_reasoning ::
    "(rat \<Rightarrow> str option) \<Rightarrow> (rat \<Rightarrow> str) \<Rightarrow> str \<Rightarrow> str \<Rightarrow> jdict list \<Rightarrow>
     (str \<times> str \<times> (str \<times> str \<times> str) list) list" where
  "seed_native_reasoning stamp fr now executor_thread turns =
     List.map_filter (\<lambda>turn.
       let status = py_lower (py_str fr (jor (jget turn ''status'') (JStr [])));
           steps = reasoning_steps stamp now turn
       in if status \<notin> {''running'', ''inprogress'', ''in_progress''} then None
          else (case jstr_nonempty (jget turn ''id'') of
                  None \<Rightarrow> None
                | Some k \<Rightarrow> if steps = [] then None else Some (executor_thread, k, steps))) turns"

section \<open>Loading a timeline\<close>

definition should_load_timeline :: "str \<Rightarrow> agent_resume_handle \<Rightarrow> projection \<Rightarrow> bool" where
  "should_load_timeline public h s \<longleftrightarrow>
     py_startswith public imported_codex_thread_prefix \<and> public \<notin> set (dict_keys (pj_turns s)) \<and>
     map_of (pj_timeline_status s) public \<noteq> Some ''loaded'' \<and>
     h_executor_id h = ''codex'' \<and> str_truthy (h_session_handle h)"

text \<open>\<open>load_bro_thread_timeline\<close>: it is loaded already, a load is running and is joined, or one starts.
  The result says whether the node is asked.\<close>

definition begin_load_timeline :: "str \<Rightarrow> agent_resume_handle \<Rightarrow> projection \<Rightarrow> bool \<times> projection" where
  "begin_load_timeline public h s =
     (if map_of (pj_timeline_status s) public = Some ''loaded'' then (False, s)
      else if public \<in> set (pj_load_tasks s) then (False, s)
      else if \<not> str_truthy (h_session_handle h) then (False, s)
      else (True, s\<lparr>pj_load_tasks := pj_load_tasks s @ [public],
                    pj_timeline_status := dict_put public ''loading'' (pj_timeline_status s),
                    pj_timeline_errors := dict_pop public (pj_timeline_errors s)\<rparr>))"

definition set_goal :: "str \<Rightarrow> str option \<Rightarrow> projection \<Rightarrow> projection" where
  "set_goal public goal s =
     (if str_truthy goal then s\<lparr>pj_goals := dict_put public (the goal) (pj_goals s)\<rparr> else s)"

definition page_turns ::
    "(rat \<Rightarrow> str option) \<Rightarrow> (rat \<Rightarrow> str) \<Rightarrow> str \<Rightarrow> str \<Rightarrow> str \<Rightarrow> codex_turns_page \<Rightarrow> timeline_turn list" where
  "page_turns stamp fr public executor_thread persona_id pg =
     timeline_turns_from_codex_thread stamp fr
       [(''id'', JStr (cq_thread_id pg)), (''goal'', json_of_str (cq_goal pg)),
        (''turns'', JList (map JObj (rev (cq_turns pg))))] public executor_thread persona_id ''codex''"

definition install_turns_page ::
    "(rat \<Rightarrow> str option) \<Rightarrow> (rat \<Rightarrow> str) \<Rightarrow> str \<Rightarrow> str \<Rightarrow> str \<Rightarrow> codex_turns_page \<Rightarrow> projection \<Rightarrow> projection" where
  "install_turns_page stamp fr public executor_thread persona_id pg s =
     (let s1 = seed_live_item_phases public (cq_turns pg) (set_goal public (cq_goal pg) s);
          s2 = fold upsert_turn (page_turns stamp fr public executor_thread persona_id pg) s1
      in note_loaded public
           (s2\<lparr>pj_timeline_pages := dict_put public
                 (loaded_page (cq_next_cursor pg) (cq_previous_cursor pg)) (pj_timeline_pages s2)\<rparr>))"

definition load_error_message :: "str \<Rightarrow> str" where
  "load_error_message e =
     (if py_strip e = [] then ''Codex thread history could not be loaded.'' else py_strip e)"

definition finish_load_timeline ::
    "(rat \<Rightarrow> str option) \<Rightarrow> (rat \<Rightarrow> str) \<Rightarrow> str \<Rightarrow> str \<Rightarrow> str \<Rightarrow> persona \<Rightarrow> str + codex_turns_page \<Rightarrow>
     projection \<Rightarrow> (str \<times> str \<times> (str \<times> str \<times> str) list) list \<times> projection" where
  "finish_load_timeline stamp fr now public native p reply s =
     (let s0 = s\<lparr>pj_load_tasks := filter (\<lambda>k. k \<noteq> public) (pj_load_tasks s)\<rparr> in
      case reply of
        Inl e \<Rightarrow>
          ([], s0\<lparr>pj_turns := dict_pop public (pj_turns s0),
             pj_timeline_status := dict_put public ''failed'' (pj_timeline_status s0),
             pj_timeline_errors := dict_put public (load_error_message e) (pj_timeline_errors s0)\<rparr>)
      | Inr pg \<Rightarrow>
          (seed_native_reasoning stamp fr now native (cq_turns pg),
           install_turns_page stamp fr public native (p_persona_id p) pg s0))"

text \<open>\<open>list_bro_timeline_page\<close>: the native thread to ask for, then the answer. The thread is the one
  that was found before the request.\<close>

definition begin_timeline_page :: "str \<Rightarrow> projection \<Rightarrow> (bro_thread \<times> str) result" where
  "begin_timeline_page public s =
     (case map_of (pj_imported s) public of
        None \<Rightarrow> Inl (ValueError ''Thread is not loaded; list thread page first.'')
      | Some th \<Rightarrow>
          (case map_of (pj_handles s) public of
             None \<Rightarrow> Inl (ValueError ''Selected Codex thread is not available.'')
           | Some h \<Rightarrow>
               if h_executor_id h \<noteq> ''codex'' \<or> \<not> str_truthy (h_session_handle h)
               then Inl (ValueError ''Selected Codex thread is not available.'')
               else Inr (th, the (h_session_handle h))))"

record timeline_page =
  tg_thread :: bro_thread
  tg_turns :: "timeline_turn list"
  tg_page :: page_info
  tg_reasoning :: "(str \<times> str \<times> (str \<times> str \<times> str) list) list"

definition finish_timeline_page ::
    "(rat \<Rightarrow> str option) \<Rightarrow> (rat \<Rightarrow> str) \<Rightarrow> str \<Rightarrow> str \<Rightarrow> persona \<Rightarrow> bro_thread \<Rightarrow> codex_turns_page \<Rightarrow>
     projection \<Rightarrow> timeline_page \<times> projection" where
  "finish_timeline_page stamp fr now public p th pg s =
     (let s1 = install_turns_page stamp fr public (cq_thread_id pg) (p_persona_id p) pg s
      in (\<lparr>tg_thread = hd (with_timeline_state s1 [th]),
           tg_turns = page_turns stamp fr public (cq_thread_id pg) (p_persona_id p) pg,
           tg_page = loaded_page (cq_next_cursor pg) (cq_previous_cursor pg),
           tg_reasoning = seed_native_reasoning stamp fr now (cq_thread_id pg) (cq_turns pg)\<rparr>, s1))"

section \<open>The thread an instruction is for\<close>

definition session_belongs_to_persona :: "blackboard \<Rightarrow> execution_session \<Rightarrow> str \<Rightarrow> bool" where
  "session_belongs_to_persona bb x k \<longleftrightarrow>
     (let ids = s_run_ids x @ (case s_latest_run_id x of
            Some r \<Rightarrow> if r \<noteq> [] \<and> r \<notin> set (s_run_ids x) then [r] else []
          | None \<Rightarrow> [])
      in list_ex (\<lambda>r. case get_run bb r of
             None \<Rightarrow> False
           | Some run \<Rightarrow> task_belongs_to_persona (get_task bb (r_task_id run)) k) ids \<or>
         task_belongs_to_persona (get_task bb (s_task_id x)) k \<or>
         (case get_persona bb k of
            None \<Rightarrow> False
          | Some p \<Rightarrow> s_continuity_key x = Some (p_bro_detail_session_id p)))"

definition find_codex_thread_session :: "blackboard \<Rightarrow> str \<Rightarrow> str \<Rightarrow> execution_session option" where
  "find_codex_thread_session bb k thread =
     find (\<lambda>x. s_base_executor_id x = ''codex'' \<and> session_matches_thread_id x thread \<and>
       session_belongs_to_persona bb x k) (rev (list_sessions bb))"

definition find_direct_task_thread :: "blackboard \<Rightarrow> str \<Rightarrow> str \<Rightarrow> task option" where
  "find_direct_task_thread bb k thread =
     find (\<lambda>t. task_thread_public_id t = Some thread \<and> task_belongs_to_persona (Some t) k)
       (rev (list_tasks bb))"

definition truthy_list :: "str option \<Rightarrow> str list" where
  "truthy_list v = (case v of Some x \<Rightarrow> if x = [] then [] else [x] | None \<Rightarrow> [])"

definition imported_workspaces :: "persona \<Rightarrow> bro_thread \<Rightarrow> str list" where
  "imported_workspaces p th =
     (if bt_persona_id th = p_persona_id p \<and> bt_executor_node_id th = p_executor_node_id p
      then truthy_list (bt_workspace_id th) @
        (case jstr_nonblank (jget (bt_diagnostics th) ''codex_cwd'') of Some c \<Rightarrow> [py_strip c] | None \<Rightarrow> [])
      else [])"

definition session_workspaces :: "blackboard \<Rightarrow> persona \<Rightarrow> execution_session \<Rightarrow> str list" where
  "session_workspaces bb p x =
     (if s_base_executor_id x = ''codex'' \<and> s_executor_node_id x = p_executor_node_id p \<and>
         session_belongs_to_persona bb x (p_persona_id p)
      then truthy_list (workspace_from_resume_handle (s_latest_resume_handle x)) else [])"

definition task_workspaces :: "persona \<Rightarrow> task \<Rightarrow> str list" where
  "task_workspaces p t =
     (let node = task_metadata_string (Some t) ''executor_node_id'' in
      if task_belongs_to_persona (Some t) (p_persona_id p) \<and> t_preferred_executor t = Some ''codex'' \<and>
         (node = None \<or> node = p_executor_node_id p)
      then truthy_list (task_workspace_id (Some t)) else [])"

definition known_codex_workspaces :: "blackboard \<Rightarrow> persona \<Rightarrow> projection \<Rightarrow> str set" where
  "known_codex_workspaces bb p s =
     set (concat (map (imported_workspaces p) (dict_values (pj_imported s))) @
          concat (map (session_workspaces bb p) (list_sessions bb)) @
          concat (map (task_workspaces p) (list_tasks bb)))"

definition validate_new_workspace :: "blackboard \<Rightarrow> persona \<Rightarrow> str option \<Rightarrow> projection \<Rightarrow> unit result" where
  "validate_new_workspace bb p workspace s =
     (let w = (case workspace of Some x \<Rightarrow> py_strip x | None \<Rightarrow> []) in
      if w = [] then Inl (ValueError ''New Codex thread requires a workspace selection.'')
      else if w \<notin> known_codex_workspaces bb p s
      then Inl (ValueError ''Selected Codex workspace is not available for this Bro.'')
      else Inr ())"

record thread_target =
  tgt_thread_id :: str
  tgt_continuity_key :: str
  tgt_session :: "execution_session option"
  tgt_handle :: "agent_resume_handle option"

definition imported_target :: "str \<Rightarrow> str \<Rightarrow> projection \<Rightarrow> (bro_thread \<times> agent_resume_handle) option" where
  "imported_target k thread s =
     (case (map_of (pj_imported s) thread, map_of (pj_handles s) thread) of
        (Some th, Some h) \<Rightarrow> if bt_persona_id th = k then Some (th, h) else None
      | _ \<Rightarrow> None)"

definition resolve_bro_thread_target ::
    "str \<Rightarrow> blackboard \<Rightarrow> persona \<Rightarrow> str option \<Rightarrow> bool \<Rightarrow> str option \<Rightarrow> projection \<Rightarrow> thread_target result" where
  "resolve_bro_thread_target uid bb p target create workspace s =
     (if str_truthy target \<and> create then
        Inl (ValueError ''Direct Bro Detail instruction cannot target an existing thread and create a new thread.'')
      else if str_truthy target \<and> str_truthy workspace then
        Inl (ValueError ''Direct Bro Detail instruction cannot target an existing thread and choose a new workspace.'')
      else if create then
        (case validate_new_workspace bb p workspace s of
           Inl e \<Rightarrow> Inl e
         | Inr () \<Rightarrow>
             (let k = bro_thread_prefix @ uid
              in Inr \<lparr>tgt_thread_id = k, tgt_continuity_key = k, tgt_session = None, tgt_handle = None\<rparr>))
      else if \<not> str_truthy target then
        Inl (ValueError ''Direct Bro Detail instruction requires explicit thread intent.'')
      else
        (let k = the target in
         case find_codex_thread_session bb (p_persona_id p) k of
           Some x \<Rightarrow>
             Inr \<lparr>tgt_thread_id = public_thread_id x,
                  tgt_continuity_key = str_or_else (s_continuity_key x) (s_execution_session_id x),
                  tgt_session = Some x, tgt_handle = None\<rparr>
         | None \<Rightarrow>
             (case imported_target (p_persona_id p) k s of
                Some (th, h) \<Rightarrow>
                  Inr \<lparr>tgt_thread_id = bt_thread_id th, tgt_continuity_key = bt_thread_id th,
                       tgt_session = None, tgt_handle = Some h\<rparr>
              | None \<Rightarrow>
                  (case find_direct_task_thread bb (p_persona_id p) k of
                     Some t \<Rightarrow>
                       Inr \<lparr>tgt_thread_id = k,
                            tgt_continuity_key = str_or_else (task_metadata_string (Some t) ''bro_thread_id'') k,
                            tgt_session = None, tgt_handle = None\<rparr>
                   | None \<Rightarrow> Inl (ValueError ''Selected Codex thread is not available for this Bro.'')))))"

section \<open>Subscriptions\<close>

record subscription_response =
  sr_thread_id :: str
  sr_persona_id :: str
  sr_subscribed :: bool
  sr_timeline_status :: str
  sr_timeline_error :: "str option"

definition bro_thread_subscription_response :: "str \<Rightarrow> str \<Rightarrow> bool \<Rightarrow> projection \<Rightarrow> subscription_response" where
  "bro_thread_subscription_response thread persona_id subscribed s =
     \<lparr>sr_thread_id = thread, sr_persona_id = persona_id, sr_subscribed = subscribed,
      sr_timeline_status = get_or (pj_timeline_status s) thread ''not_loaded'',
      sr_timeline_error = map_of (pj_timeline_errors s) thread\<rparr>"

text \<open>\<open>_subscribe_bro_thread_impl\<close> up to the lock: the thread has no native thread to subscribe to, or
  what the locked part will subscribe to.\<close>

record subscribe_request =
  sb_persona_id :: str
  sb_thread_id :: str
  sb_continuity_key :: str
  sb_handle :: agent_resume_handle
  sb_node_id :: str

definition subscribe_request_of ::
    "str \<Rightarrow> node_manager \<Rightarrow> blackboard \<Rightarrow> str \<Rightarrow> str \<Rightarrow> projection \<Rightarrow>
     (subscription_response + subscribe_request) result" where
  "subscribe_request_of uid m bb persona_id thread s =
     (case get_persona bb persona_id of
        None \<Rightarrow> Inl (ValueError ''Selected Bro is not available.'')
      | Some p \<Rightarrow>
          if \<not> str_truthy (p_executor_node_id p) then
            Inl (ValueError ''Selected Bro is not bound to an executor node.'')
          else if \<not> is_executor_connected m ''codex'' (p_executor_node_id p) then
            Inl (ValueError ''Selected Bro's Codex executor node is not connected.'')
          else if py_startswith thread imported_codex_thread_prefix \<and>
              imported_target (p_persona_id p) thread s = None then
            Inl (ValueError ''Thread is not loaded; list thread page first.'')
          else
            (case resolve_bro_thread_target uid bb p (Some thread) False None s of
               Inl e \<Rightarrow> Inl e
             | Inr tgt \<Rightarrow>
                 (case opt_else (tgt_handle tgt)
                         (case tgt_session tgt of Some x \<Rightarrow> s_latest_resume_handle x | None \<Rightarrow> None) of
                    None \<Rightarrow>
                      Inr (Inl (bro_thread_subscription_response (tgt_thread_id tgt) (p_persona_id p) False s))
                  | Some h \<Rightarrow>
                      if h_executor_id h \<noteq> ''codex'' \<or> \<not> str_truthy (h_session_handle h) then
                        Inr (Inl (bro_thread_subscription_response (tgt_thread_id tgt) (p_persona_id p) False s))
                      else
                        (let node = (case tgt_session tgt of
                               Some x \<Rightarrow> s_executor_node_id x | None \<Rightarrow> p_executor_node_id p)
                         in if \<not> str_truthy node then
                              Inl (ValueError ''Selected Codex thread is not connected to an executor node.'')
                            else
                              Inr (Inr \<lparr>sb_persona_id = p_persona_id p, sb_thread_id = tgt_thread_id tgt,
                                        sb_continuity_key = tgt_continuity_key tgt, sb_handle = h,
                                        sb_node_id = the node\<rparr>)))))"

definition stop_subscription ::
    "str \<Rightarrow> str option \<Rightarrow> projection \<Rightarrow> selected_subscription option \<times> projection" where
  "stop_subscription persona_id public s =
     (case map_of (pj_subscriptions s) persona_id of
        None \<Rightarrow> (None, s)
      | Some cur \<Rightarrow>
          if public \<noteq> None \<and> public \<noteq> Some (ss_public_thread_id cur) then (None, s)
          else (Some cur, s\<lparr>pj_subscriptions := dict_pop persona_id (pj_subscriptions s)\<rparr>))"

definition same_subscription :: "subscribe_request \<Rightarrow> selected_subscription \<Rightarrow> bool" where
  "same_subscription r cur \<longleftrightarrow>
     ss_public_thread_id cur = sb_thread_id r \<and> Some (ss_codex_thread_id cur) = h_session_handle (sb_handle r) \<and>
     ss_node_id cur = sb_node_id r"

definition new_subscription :: "str \<Rightarrow> subscribe_request \<Rightarrow> projection \<Rightarrow> selected_subscription" where
  "new_subscription uid r s =
     \<lparr>ss_subscription_id = ''codex-sub-'' @ uid, ss_persona_id = sb_persona_id r,
      ss_public_thread_id = sb_thread_id r, ss_thread_continuity_key = sb_continuity_key r,
      ss_node_id = sb_node_id r, ss_codex_thread_id = the (h_session_handle (sb_handle r)),
      ss_resume_handle = sb_handle r,
      ss_fallback_timestamp = (case map_of (pj_imported s) (sb_thread_id r) of
         Some th \<Rightarrow> bt_updated_at th | None \<Rightarrow> None)\<rparr>"

definition subscription_workspace :: "selected_subscription \<Rightarrow> str option" where
  "subscription_workspace x = jstr_nonempty (jget (h_opaque (ss_resume_handle x)) ''cwd'')"

text \<open>With the lock held: the persona already has this subscription (\<open>None\<close>), or the new one is
  registered and the node is asked for it, the old one, if any, being given up.\<close>

definition begin_thread_subscription ::
    "str \<Rightarrow> subscribe_request \<Rightarrow> projection \<Rightarrow>
     (selected_subscription option \<times> selected_subscription) option \<times> projection" where
  "begin_thread_subscription uid r s =
     (case map_of (pj_subscriptions s) (sb_persona_id r) of
        Some cur \<Rightarrow>
          if same_subscription r cur then (None, s)
          else (Some (Some cur, new_subscription uid r s),
                s\<lparr>pj_subscriptions := dict_put (sb_persona_id r) (new_subscription uid r s)
                     (dict_pop (sb_persona_id r) (pj_subscriptions s))\<rparr>)
      | None \<Rightarrow>
          (Some (None, new_subscription uid r s),
           s\<lparr>pj_subscriptions := dict_put (sb_persona_id r) (new_subscription uid r s) (pj_subscriptions s)\<rparr>))"

text \<open>The node refused it, or the wait was cancelled or ran out.\<close>

definition fail_subscribe :: "selected_subscription \<Rightarrow> projection \<Rightarrow> projection" where
  "fail_subscribe x s =
     (if map_of (pj_subscriptions s) (ss_persona_id x) = Some x
      then s\<lparr>pj_subscriptions := dict_pop (ss_persona_id x) (pj_subscriptions s)\<rparr> else s)"

text \<open>Unsubscribing: the thread the response names, the subscription given up.\<close>

definition begin_thread_unsubscription ::
    "str \<Rightarrow> str option \<Rightarrow> projection \<Rightarrow> (str \<times> selected_subscription option) \<times> projection" where
  "begin_thread_unsubscription persona_id thread s =
     (let named = str_or_else thread (case map_of (pj_subscriptions s) persona_id of
            Some cur \<Rightarrow> ss_public_thread_id cur | None \<Rightarrow> []);
          (stopped, s1) = stop_subscription persona_id thread s
      in ((named, stopped), s1))"

section \<open>Events of the selected thread\<close>

text \<open>The request of the client that a native turn answers: that of the task whose run reported this
  turn, else the only one among the unfinished tasks of the thread, else the only one at all.\<close>

definition direct_request_id :: "str \<Rightarrow> task \<Rightarrow> str option" where
  "direct_request_id public t =
     (if task_thread_public_id t = Some public \<and>
         task_metadata_string (Some t) ''source_kind'' \<in> {Some ''bro_detail_text'', Some ''bro_detail_ptt''}
      then task_metadata_string (Some t) ''client_request_id'' else None)"

definition run_request_id :: "task list \<Rightarrow> str \<Rightarrow> str \<Rightarrow> str \<Rightarrow> execution_run \<Rightarrow> str option" where
  "run_request_id tasks public thread turn r =
     (case last_by t_task_id tasks (r_task_id r) of
        None \<Rightarrow> None
      | Some t \<Rightarrow>
          if str_or (event_metadata_string (Some r) ''executor_thread_id'') (event_metadata_string (Some r) ''thread_id'')
               = Some thread \<and>
             str_or (event_metadata_string (Some r) ''executor_turn_id'') (event_metadata_string (Some r) ''turn_id'')
               = Some turn
          then direct_request_id public t else None)"

definition pending_task_statuses :: "task_status list" where
  "pending_task_statuses = [TS_CREATED, TS_QUEUED, TS_WAITING_EXECUTOR, TS_RUNNING, TS_WAITING_USER_INPUT]"

definition request_candidate :: "str \<Rightarrow> task \<Rightarrow> (str \<times> str) option" where
  "request_candidate public t =
     map_option (Pair (str_or_else (task_updated_at (Some t)) [])) (direct_request_id public t)"

definition only_request :: "(str \<times> str) list \<Rightarrow> str option" where
  "only_request cs = (if length (remdups (map snd cs)) = 1 then Some (snd (last (sort cs))) else None)"

definition client_request_id_for_turn :: "blackboard \<Rightarrow> str \<Rightarrow> str \<Rightarrow> str \<Rightarrow> str option" where
  "client_request_id_for_turn bb public thread turn =
     (let tasks = list_tasks bb;
          direct = List.map_filter (request_candidate public) tasks;
          pending = List.map_filter (request_candidate public)
            (filter (\<lambda>t. t_status t \<in> set pending_task_statuses) tasks)
      in case List.map_filter (run_request_id tasks public thread turn) (list_runs bb) of
           k # _ \<Rightarrow> Some k
         | [] \<Rightarrow> opt_else (only_request pending) (only_request direct))"

text \<open>What the turns built from one event share.\<close>

record event_context =
  ec_subscription :: selected_subscription
  ec_turn_id :: str
  ec_timestamp :: str
  ec_client_request_id :: "str option"
  ec_goal :: "str option"

definition event_turn :: "event_context \<Rightarrow> timeline_turn" where
  "event_turn c =
     (let x = ec_subscription c in
      \<lparr>tt_turn_id = ss_public_thread_id x @ '':codex:'' @ ec_turn_id c, tt_thread_id = ss_public_thread_id x,
       tt_persona_id = ss_persona_id x, tt_executor_id = ''codex'', tt_owner = ''executor'',
       tt_client_request_id = ec_client_request_id c, tt_executor_thread_id = Some (ss_codex_thread_id x),
       tt_executor_turn_id = Some (ec_turn_id c), tt_input_modality = ''unknown'', tt_user = None,
       tt_assistant = None, tt_task = None, tt_status = ''running'', tt_created_at = Some (ec_timestamp c),
       tt_updated_at = Some (ec_timestamp c),
       tt_metadata =
         [(''source'', JStr ''selected_thread_event''), (''executor_thread_id'', JStr (ss_codex_thread_id x)),
          (''executor_turn_id'', JStr (ec_turn_id c)),
          (''client_request_id'', json_of_str (ec_client_request_id c)),
          (''codex_goal'', json_of_str (ec_goal c))]\<rparr>)"

definition keep_turn_live :: "event_context \<Rightarrow> projection \<Rightarrow> bool \<times> projection" where
  "keep_turn_live c s = (True, upsert_turn (event_turn c) s)"

definition goal_event_goal :: "jdict \<Rightarrow> str option" where
  "goal_event_goal params =
     (case codex_thread_goal params of
        Some g \<Rightarrow> Some g
      | None \<Rightarrow>
          map_option py_strip
            (jstr_nonblank (jor (jget params ''goal'') (jor (jget params ''text'') (jget params ''objective'')))))"

definition apply_goal_event :: "bool \<Rightarrow> jdict \<Rightarrow> str \<Rightarrow> projection \<Rightarrow> bool \<times> projection" where
  "apply_goal_event cleared params public s =
     (let s1 = (if cleared then s\<lparr>pj_goals := dict_pop public (pj_goals s)\<rparr>
                else set_goal public (goal_event_goal params) s);
          mark = (\<lambda>t. t\<lparr>tt_metadata :=
            (if cleared then dict_pop ''codex_goal'' (tt_metadata t)
             else dict_put ''codex_goal'' (json_of_str (map_of (pj_goals s1) public)) (tt_metadata t))\<rparr>);
          ts = map mark (dd_get (pj_turns s1) public)
      in if ts = [] then (False, s1) else (True, s1\<lparr>pj_turns := dict_put public ts (pj_turns s1)\<rparr>))"

definition plan_turn ::
    "event_context \<Rightarrow> bool \<Rightarrow> jdict \<Rightarrow> timeline_message option \<Rightarrow> str option \<Rightarrow> timeline_turn" where
  "plan_turn c started plan paired original =
     (let skill = (case paired of None \<Rightarrow> None | Some u \<Rightarrow> jobj (jget (tm_metadata u) ''skill''));
          t = event_turn c
      in t\<lparr>tt_input_modality := (if paired = None then ''unknown'' else ''text''),
           tt_user := mark_skill skill (mark_plan_mode paired),
           tt_status := (if started then ''running'' else ''completed''),
           tt_created_at := (case paired of Some u \<Rightarrow> tm_created_at u | None \<Rightarrow> Some (ec_timestamp c)),
           tt_metadata := tt_metadata t @
             [(''codex_plan'', JObj plan), (''plan_mode'', JBool True),
              (''assistant_title'', json_of_str (case paired of Some u \<Rightarrow> tm_text u | None \<Rightarrow> None)),
              (''original_user_executor_turn_id'', json_of_str original)]\<rparr>)"

definition apply_plan_item ::
    "(str \<Rightarrow> rat option) \<Rightarrow> event_context \<Rightarrow> bool \<Rightarrow> jdict \<Rightarrow> projection \<Rightarrow> bool \<times> projection" where
  "apply_plan_item parse c started item s =
     (case extract_codex_plan (JObj item) of
        None \<Rightarrow> (False, s)
      | Some plan \<Rightarrow>
          (let x = ec_subscription c;
               ((paired, original), s1) = pop_pending_user_turn parse (ss_public_thread_id x)
                 (ss_codex_thread_id x) (ec_turn_id c) (ec_timestamp c) s
           in (True, upsert_turn (plan_turn c started plan paired original) s1)))"

definition event_message ::
    "event_context \<Rightarrow> str \<Rightarrow> str \<Rightarrow> str \<Rightarrow> jdict \<Rightarrow> timeline_message" where
  "event_message c role text status metadata =
     \<lparr>tm_message_id = ss_public_thread_id (ec_subscription c) @ '':'' @ ec_turn_id c @ '':'' @ role,
      tm_role = role, tm_kind = ''text'', tm_text = Some text, tm_transcript = None, tm_audio_id = None,
      tm_duration_ms = None, tm_created_at = Some (ec_timestamp c), tm_updated_at = None, tm_status = status,
      tm_metadata = metadata\<rparr>"

definition item_status :: "jdict \<Rightarrow> str" where
  "item_status item = (case jstr_nonempty (jget item ''status'') of Some x \<Rightarrow> x | None \<Rightarrow> ''completed'')"

definition item_message :: "event_context \<Rightarrow> str \<Rightarrow> str \<Rightarrow> jdict \<Rightarrow> timeline_message" where
  "item_message c role text item =
     event_message c role text (item_status item)
       [(''executor_turn_id'', JStr (ec_turn_id c)),
        (''codex_item_id'', JStr (case jstr_nonempty (jget item ''id'') of Some i \<Rightarrow> i | None \<Rightarrow> ''completed'')),
        (''codex_item_type'', json_of_str (jstr (jget item ''type''))),
        (''codex_agent_message_phase'', json_of_str (jstr (jget item ''phase''))),
        (''source'', JStr ''selected_thread_event'')]"

definition item_turn :: "event_context \<Rightarrow> str \<Rightarrow> str \<Rightarrow> jdict \<Rightarrow> timeline_turn" where
  "item_turn c role text item =
     (let msg = item_message c role text item in
      if role = ''user''
      then (event_turn c)\<lparr>tt_input_modality := ''text'', tt_user := Some msg\<rparr>
      else (event_turn c)\<lparr>tt_assistant := Some msg,
             tt_status := (if item_status item \<in> {''running'', ''inProgress''} then ''running'' else ''completed'')\<rparr>)"

text \<open>The phase of an agent's message is noted as soon as it is known: streamed text has none.\<close>

definition note_item_phase :: "event_context \<Rightarrow> jdict \<Rightarrow> projection \<Rightarrow> projection" where
  "note_item_phase c item s =
     (case (codex_item_role item = Some ''assistant'', jstr_nonempty (jget item ''id''),
            jstr_nonempty (jget item ''phase'')) of
        (True, Some i, Some ph) \<Rightarrow>
          s\<lparr>pj_item_phase := dict_put (ss_public_thread_id (ec_subscription c), ec_turn_id c, i) ph (pj_item_phase s)\<rparr>
      | _ \<Rightarrow> s)"

definition apply_item :: "event_context \<Rightarrow> jdict \<Rightarrow> projection \<Rightarrow> bool \<times> projection" where
  "apply_item c item s =
     (let s1 = note_item_phase c item s in
      case codex_item_role item of
        None \<Rightarrow> (False, s1)
      | Some role \<Rightarrow>
          if role = ''assistant'' \<and> item_is_commentary (ss_public_thread_id (ec_subscription c)) (ec_turn_id c)
               (jstr (jget item ''id'')) s1
          then keep_turn_live c s1
          else
            (case extract_codex_item_text item of
               Some (ch # text) \<Rightarrow> (True, upsert_turn (item_turn c role (ch # text) item) s1)
             | _ \<Rightarrow> (False, s1)))"

definition delta_key :: "event_context \<Rightarrow> jdict \<Rightarrow> ((str \<times> str \<times> str) \<times> str) option" where
  "delta_key c params =
     (case (jstr_nonempty (jor (jget params ''itemId'') (jget params ''item_id'')),
            jstr_nonempty (jget params ''delta'')) of
        (Some i, Some d) \<Rightarrow> Some ((ss_public_thread_id (ec_subscription c), ec_turn_id c, i), d)
      | _ \<Rightarrow> None)"

definition apply_plan_delta :: "event_context \<Rightarrow> jdict \<Rightarrow> projection \<Rightarrow> bool \<times> projection" where
  "apply_plan_delta c params s =
     (case delta_key c params of
        None \<Rightarrow> (False, s)
      | Some (key, d) \<Rightarrow>
          (let text = get_or (pj_plan_deltas s) key [] @ d;
               s1 = s\<lparr>pj_plan_deltas := dict_put key text (pj_plan_deltas s)\<rparr>;
               candidate = py_strip text;
               t = event_turn c
           in if candidate = [] \<or> \<not> should_emit_plan_delta candidate (get_or (pj_plan_emitted s) key [])
              then (False, s1)
              else (True, upsert_turn
                     (t\<lparr>tt_metadata := tt_metadata t @
                          [(''codex_plan'', JObj [(''text'', JStr text), (''steps'', JList [])]),
                           (''plan_mode'', JBool True)]\<rparr>)
                     (s1\<lparr>pj_plan_emitted := dict_put key candidate (pj_plan_emitted s1)\<rparr>))))"

definition apply_message_delta :: "event_context \<Rightarrow> jdict \<Rightarrow> projection \<Rightarrow> bool \<times> projection" where
  "apply_message_delta c params s =
     (case delta_key c params of
        None \<Rightarrow> (False, s)
      | Some (key, d) \<Rightarrow>
          if item_is_commentary (fst key) (fst (snd key)) (Some (snd (snd key))) s then keep_turn_live c s
          else
            (let text = get_or (pj_message_deltas s) key [] @ d
             in (True, upsert_turn
                   ((event_turn c)\<lparr>tt_assistant := Some (event_message c ''assistant'' text ''running''
                       [(''executor_turn_id'', JStr (ec_turn_id c)), (''codex_item_id'', JStr (snd (snd key))),
                        (''codex_item_type'', JStr ''agentMessage''), (''source'', JStr ''selected_thread_event'')])\<rparr>)
                   (s\<lparr>pj_message_deltas := dict_put key text (pj_message_deltas s)\<rparr>))))"

definition event_context_of ::
    "(rat \<Rightarrow> str option) \<Rightarrow> str \<Rightarrow> blackboard \<Rightarrow> selected_subscription \<Rightarrow> str \<Rightarrow> jdict \<Rightarrow> projection \<Rightarrow> event_context" where
  "event_context_of stamp now bb x turn params s =
     \<lparr>ec_subscription = x, ec_turn_id = turn, ec_timestamp = codex_thread_event_timestamp stamp now params,
      ec_client_request_id = client_request_id_for_turn bb (ss_public_thread_id x) (ss_codex_thread_id x) turn,
      ec_goal = map_of (pj_goals s) (ss_public_thread_id x)\<rparr>"

definition apply_thread_event ::
    "(str \<Rightarrow> rat option) \<Rightarrow> (rat \<Rightarrow> str option) \<Rightarrow> str \<Rightarrow> blackboard \<Rightarrow> codex_thread_event \<Rightarrow>
     selected_subscription \<Rightarrow> projection \<Rightarrow> bool \<times> projection" where
  "apply_thread_event parse stamp now bb msg x s =
     (let params = ce_params msg; how = ce_method msg; public = ss_public_thread_id x in
      if how \<in> {''thread/goal/updated'', ''thread/goal/cleared''}
      then apply_goal_event (how = ''thread/goal/cleared'') params public s
      else if how = ''turn/completed'' then
        (case jget params ''turn'' of
           JObj turn \<Rightarrow>
             (case jstr_nonempty (jget turn ''id'') of
                Some k \<Rightarrow> settle_selected_thread_turn public k s
              | None \<Rightarrow> (False, s))
         | _ \<Rightarrow> (False, s))
      else
        (case jstr_nonempty (jor (jget params ''turnId'') (jget params ''turn_id'')) of
           None \<Rightarrow> (False, s)
         | Some turn \<Rightarrow>
             (let c = event_context_of stamp now bb x turn params s in
              case jget params ''item'' of
                JObj item \<Rightarrow>
                  if jget item ''type'' = JStr ''plan'' then apply_plan_item parse c (how = ''item/started'') item s
                  else apply_item c item s
              | _ \<Rightarrow>
                  if how = ''item/plan/delta'' then apply_plan_delta c params s
                  else if how = ''item/agentMessage/delta'' then apply_message_delta c params s
                  else (False, s))))"

definition timeline_methods :: "str list" where
  "timeline_methods =
     [''item/started'', ''item/agentMessage/delta'', ''item/plan/delta'', ''item/completed'', ''turn/completed'',
      ''thread/goal/updated'', ''thread/goal/cleared'']"

definition current_subscription :: "codex_thread_event \<Rightarrow> projection \<Rightarrow> selected_subscription option" where
  "current_subscription msg s =
     (case map_of (pj_subscriptions s) (ce_target_persona_id msg) of
        None \<Rightarrow> None
      | Some x \<Rightarrow>
          if ss_subscription_id x \<noteq> ce_subscription_id msg \<or> ss_public_thread_id x \<noteq> ce_target_thread_id msg \<or>
             ss_codex_thread_id x \<noteq> ce_thread_id msg \<or> ss_node_id x \<noteq> ce_node_id msg
          then None else Some x)"

text \<open>Of the other methods only the closing of the thread has an effect. The result says whether a
  snapshot is published.\<close>

definition handle_codex_thread_event ::
    "(str \<Rightarrow> rat option) \<Rightarrow> (rat \<Rightarrow> str option) \<Rightarrow> str \<Rightarrow> blackboard \<Rightarrow> codex_thread_event \<Rightarrow>
     projection \<Rightarrow> bool \<times> projection" where
  "handle_codex_thread_event parse stamp now bb msg s =
     (case current_subscription msg s of
        None \<Rightarrow> (False, s)
      | Some x \<Rightarrow>
          if ce_method msg \<in> set timeline_methods then apply_thread_event parse stamp now bb msg x s
          else if ce_method msg = ''thread/closed''
          then (False, snd (stop_subscription (ss_persona_id x) (Some (ss_public_thread_id x)) s))
          else (False, s))"

section \<open>Events of outbound turns\<close>

definition attach_new_thread_handle ::
    "blackboard \<Rightarrow> outbound_turn_request \<Rightarrow> codex_turn_event \<Rightarrow> projection \<Rightarrow> projection" where
  "attach_new_thread_handle bb q msg s =
     (if \<not> o_create_new_thread q \<or> \<not> str_truthy (o_target_thread_id q) \<or> \<not> str_truthy (ct_executor_thread_id msg)
      then s
      else
        (case get_persona bb (o_persona_id q) of
           None \<Rightarrow> s
         | Some p \<Rightarrow>
             (let k = the (o_target_thread_id q);
                  thread = the (ct_executor_thread_id msg);
                  title = title_from_draft_text (str_or_else (o_text q) (str_or_else (ct_message msg) ''Direct Codex thread''));
                  status = codex_thread_status_from_outbound_request (o_status q)
              in s\<lparr>pj_aliases := dict_put (codex_thread_alias_key (o_persona_id q) thread) k (pj_aliases s),
                   pj_imported := dict_put k
                     \<lparr>bt_thread_id = k, bt_persona_id = o_persona_id q, bt_persona_name = Some (p_name p),
                      bt_executor_id = o_executor_id q, bt_executor_node_id = Some (o_executor_node_id q),
                      bt_workspace_id = o_workspace_id q, bt_workspace_name = workspace_name (o_workspace_id q),
                      bt_execution_session_id = None, bt_status = status, bt_title = title, bt_preview = None,
                      bt_progress = thread_progress status, bt_task_ids = [], bt_active_task_id = None,
                      bt_latest_task_id = None, bt_has_resume_handle = True, bt_updated_at = o_updated_at q,
                      bt_timeline_status = ''not_loaded'', bt_timeline_error = None,
                      bt_diagnostics =
                        [(''codex_thread_id'', JStr thread), (''codex_cwd'', json_of_str (o_workspace_id q)),
                         (''created_from_outbound_turn_request'', JStr (o_request_id q)),
                         (''source'', JStr ''outbound_turn_request'')]\<rparr> (pj_imported s),
                   pj_handles := dict_put k
                     \<lparr>h_executor_id = o_executor_id q, h_session_handle = Some thread, h_turn_handle = None,
                      h_opaque = [(''cwd'', JStr (str_or_else (o_workspace_id q) [])), (''title'', JStr title),
                        (''createdFromOutboundTurnRequest'', JStr (o_request_id q))]\<rparr> (pj_handles s)\<rparr>)))"

definition outbound_after_event :: "codex_turn_event \<Rightarrow> str \<Rightarrow> outbound_turn_request \<Rightarrow> outbound_turn_request" where
  "outbound_after_event msg now q =
     (let status = outbound_request_status_from_codex_event msg in
      q\<lparr>o_status := status, o_error := (if \<not> ct_ok msg \<or> status = ''failed'' then ct_error msg else None),
        o_executor_thread_id := str_or (ct_executor_thread_id msg) (o_executor_thread_id q),
        o_executor_turn_id := str_or (ct_executor_turn_id msg) (o_executor_turn_id q),
        o_updated_at := Some now\<rparr>)"

definition event_fits_request :: "outbound_turn_request \<Rightarrow> codex_turn_event \<Rightarrow> bool" where
  "event_fits_request q msg \<longleftrightarrow>
     o_persona_id q = ct_target_persona_id msg \<and> o_executor_node_id q = ct_node_id msg \<and>
     o_target_thread_id q = Some (ct_target_thread_id msg)"

definition handle_codex_turn_event ::
    "(rat \<Rightarrow> str) \<Rightarrow> str option \<Rightarrow> str \<Rightarrow> str \<Rightarrow> str \<Rightarrow> str \<Rightarrow> str \<Rightarrow> codex_turn_event \<Rightarrow>
     projection \<times> blackboard \<Rightarrow> bool \<times> projection \<times> blackboard" where
  "handle_codex_turn_event fr ctx uid uid' now now1 now2 msg st =
     (let (s, bb) = st in
      case get_outbound_turn_request bb (ct_request_id msg) of
        None \<Rightarrow> (False, s, bb)
      | Some q \<Rightarrow>
          if \<not> event_fits_request q msg then (False, s, bb)
          else
            (let q1 = outbound_after_event msg now q;
                 bb1 = put_outbound_turn_request q1 bb;
                 s1 = upsert_turn (timeline_turn_from_event q1 msg now) (attach_new_thread_handle bb1 q1 msg s)
             in (True, s1, snd (handle_outbound_codex_blocked fr ctx uid uid' now1 now2 q1 msg bb1))))"

section \<open>The snapshot\<close>

definition snapshot_parts ::
    "(str \<Rightarrow> rat option) \<Rightarrow> thread_sources \<Rightarrow> bro_thread list \<Rightarrow> projection \<Rightarrow> (str, rat option) dict \<Rightarrow>
     bro_thread list \<times> timeline_turn list" where
  "snapshot_parts parse x imported s cache =
     (with_timeline_state s (build_bro_thread_projection x imported),
      fst (build_bro_timeline_projection parse (ts_tasks x) (ts_sessions x) (ts_runs x) (ts_summaries x)
             (executor_turn_snapshot s) cache))"

end
