(* ===== verification/Projection_Props.thy ===== *)
theory Projection_Props
  imports Projection Timeline_Props
begin

text \<open>
  The properties of the native threads. \<open>pj_step\<close> interleaves every operation of \<open>Projection\<close>, awaited
  requests in two steps, while the blackboard and the node manager do whatever they like in between
  (each step has its own). Three views are kept apart: the turns of each thread, which only evolve
  (\<open>turns_step\<close>); the imported threads with their handles and pages (\<open>threads_ok\<close>); and the
  subscriptions (\<open>subscriptions_ok\<close>).
\<close>

section \<open>How the turns of a thread evolve\<close>

definition thread_turns_ok :: "str \<Rightarrow> timeline_turn list \<Rightarrow> bool" where
  "thread_turns_ok k ts \<longleftrightarrow> distinct (map tt_turn_id ts) \<and> (\<forall>t \<in> set ts. tt_thread_id t = k)"

definition answered :: "timeline_turn \<Rightarrow> bool" where
  "answered t \<longleftrightarrow> turn_settled t \<and> tt_assistant t \<noteq> None"

definition keeps_answered :: "timeline_turn list \<Rightarrow> timeline_turn list \<Rightarrow> bool" where
  "keeps_answered ts ts' \<longleftrightarrow>
     (\<forall>t \<in> set ts. answered t \<longrightarrow>
        (\<exists>t' \<in> set ts'. tt_turn_id t' = tt_turn_id t \<and> tt_status t' = tt_status t \<and> answered t'))"

definition evolves :: "str \<Rightarrow> timeline_turn list \<Rightarrow> timeline_turn list \<Rightarrow> bool" where
  "evolves k ts ts' \<longleftrightarrow> (thread_turns_ok k ts \<longrightarrow> thread_turns_ok k ts') \<and> keeps_answered ts ts'"

lemma evolves_refl [simp]: "evolves k ts ts"
  by (auto simp: evolves_def keeps_answered_def)

lemma evolves_trans: "evolves k a b \<Longrightarrow> evolves k b c \<Longrightarrow> evolves k a c"
  unfolding evolves_def keeps_answered_def by metis

lemma answered_merge:
  "answered e \<Longrightarrow> answered (merge_timeline_turn e n) \<and> tt_status (merge_timeline_turn e n) = tt_status e"
  by (auto simp: answered_def settled_merge merge_status settled_status merge_assistant settled_assistant opt_else_def
      split: option.splits)

lemma merge_first_ids:
  "set (map tt_turn_id (merge_first t ts)) \<subseteq> insert (tt_turn_id t) (set (map tt_turn_id ts))"
  by (induction ts) auto

lemma merge_first_distinct:
  "distinct (map tt_turn_id ts) \<Longrightarrow> distinct (map tt_turn_id (merge_first t ts))"
proof (induction ts)
  case (Cons c cs)
  then show ?case
    using merge_first_ids [of t cs] by (auto simp: same_exchange_def)
qed simp

lemma merge_first_threads:
  "\<forall>c \<in> set ts. tt_thread_id c = k \<Longrightarrow> tt_thread_id t = k \<Longrightarrow> \<forall>c \<in> set (merge_first t ts). tt_thread_id c = k"
  by (induction ts) auto

lemma merge_first_keeps: "keeps_answered ts (merge_first t ts)"
  unfolding keeps_answered_def
proof (induction ts)
  case (Cons c cs)
  show ?case
  proof (cases "same_exchange t c")
    case True
    then show ?thesis using answered_merge [of c t] by (auto intro: bexI)
  next
    case False
    then show ?thesis using Cons.IH by auto
  qed
qed simp

lemma evolves_merge_first: "tt_thread_id t = k \<Longrightarrow> evolves k ts (merge_first t ts)"
  unfolding evolves_def thread_turns_ok_def
  using merge_first_distinct merge_first_threads merge_first_keeps by blast

text \<open>A change of every turn that keeps what identifies it, and what is settled.\<close>

lemma evolves_map:
  assumes "\<And>t. tt_turn_id (f t) = tt_turn_id t \<and> tt_thread_id (f t) = tt_thread_id t"
    and "\<And>t. answered t \<Longrightarrow> answered (f t) \<and> tt_status (f t) = tt_status t"
  shows "evolves k ts (map f ts)"
proof -
  have "map tt_turn_id (map f ts) = map tt_turn_id ts" using assms(1) by (simp add: comp_def)
  then have "thread_turns_ok k (map f ts)" if "thread_turns_ok k ts"
    using that assms(1) by (simp add: thread_turns_ok_def del: map_map)
  moreover have "keeps_answered ts (map f ts)"
    unfolding keeps_answered_def using assms by auto
  ultimately show ?thesis by (simp add: evolves_def)
qed

lemma take_first_split: "take_first P xs = Some (x, ys) \<Longrightarrow> \<exists>a b. xs = a @ x # b \<and> ys = a @ b \<and> P x"
proof (induction xs arbitrary: ys)
  case (Cons y xs)
  show ?case
  proof (cases "P y")
    case True
    with Cons.prems show ?thesis by (intro exI [of _ "[]"] exI [of _ xs]) simp
  next
    case False
    with Cons.prems obtain zs where zs: "take_first P xs = Some (x, zs)" "ys = y # zs"
      by (auto split: if_splits)
    from Cons.IH [OF zs(1)] obtain a b where "xs = a @ x # b" "zs = a @ b" "P x" by blast
    with zs(2) show ?thesis by (intro exI [of _ "y # a"] exI [of _ b]) simp
  qed
qed simp

lemma evolves_remove:
  assumes "\<not> answered x"
  shows "evolves k (a @ x # b) (a @ b)"
  using assms by (auto simp: evolves_def thread_turns_ok_def keeps_answered_def)

section \<open>Operations on turns\<close>

definition errors_ok :: "projection \<Rightarrow> bool" where
  "errors_ok s \<longleftrightarrow>
     (\<forall>k. map_of (pj_timeline_errors s) k \<noteq> None \<longleftrightarrow> map_of (pj_timeline_status s) k = Some ''failed'')"

definition same_threads :: "projection \<Rightarrow> projection \<Rightarrow> bool" where
  "same_threads s s' \<longleftrightarrow>
     pj_imported s' = pj_imported s \<and> pj_handles s' = pj_handles s \<and> pj_pages s' = pj_pages s \<and>
     pj_aliases s' = pj_aliases s \<and> pj_subscriptions s' = pj_subscriptions s"

definition turns_step :: "projection \<Rightarrow> projection \<Rightarrow> bool" where
  "turns_step s s' \<longleftrightarrow>
     (\<forall>k. evolves k (dd_get (pj_turns s) k) (dd_get (pj_turns s') k)) \<and>
     (errors_ok s \<longrightarrow> errors_ok s') \<and> same_threads s s'"

lemma turns_step_refl [simp]: "turns_step s s"
  by (simp add: turns_step_def same_threads_def)

lemma turns_step_trans: "turns_step a b \<Longrightarrow> turns_step b c \<Longrightarrow> turns_step a c"
  unfolding turns_step_def same_threads_def using evolves_trans by metis

lemma turns_step_fold:
  assumes "\<And>x s. turns_step s (f x s)"
  shows "turns_step s (fold f xs s)"
proof (induction xs arbitrary: s)
  case (Cons x xs)
  then show ?case using turns_step_trans [OF assms [of s x]] by simp
qed simp

lemma turns_step_same:
  "pj_turns s' = pj_turns s \<Longrightarrow> pj_timeline_errors s' = pj_timeline_errors s \<Longrightarrow>
     pj_timeline_status s' = pj_timeline_status s \<Longrightarrow> same_threads s s' \<Longrightarrow> turns_step s s'"
  by (simp add: turns_step_def errors_ok_def)

lemma dd_get_put: "dd_get (dict_put k v d) k' = (if k' = k then v else dd_get d k')"
  by (simp add: dd_get_def)

lemma dd_get_pop: "dd_get (dict_pop k d) k' = (if k' = k then [] else dd_get d k')"
  by (simp add: dd_get_def)

lemma turns_step_put:
  assumes "evolves k (dd_get (pj_turns s) k) ts" and "pj_turns s' = dict_put k ts (pj_turns s)"
    and "pj_timeline_errors s' = pj_timeline_errors s" and "pj_timeline_status s' = pj_timeline_status s"
    and "same_threads s s'"
  shows "turns_step s s'"
  using assms by (simp add: turns_step_def errors_ok_def dd_get_put)

lemma turns_step_note_loaded: "turns_step s (note_loaded k s)"
  by (simp add: turns_step_def note_loaded_def errors_ok_def same_threads_def)

lemma turns_step_upsert: "turns_step s (upsert_turn t s)"
proof -
  let ?k = "tt_thread_id t"
  let ?s = "s\<lparr>pj_turns := dict_put ?k (merge_first t (dd_get (pj_turns s) ?k)) (pj_turns s)\<rparr>"
  have "turns_step s ?s"
    by (rule turns_step_put) (simp_all add: evolves_merge_first same_threads_def)
  then have "turns_step s (note_loaded ?k ?s)"
    using turns_step_trans turns_step_note_loaded by blast
  then show ?thesis
    using \<open>turns_step s ?s\<close> by (simp add: upsert_turn_def Let_def)
qed

lemma answered_settle: "answered t \<Longrightarrow> tt_status t \<in> set settled_statuses"
  by (auto simp: answered_def turn_settled_def settled_statuses_def)

lemma turns_step_settle: "turns_step s (snd (settle_selected_thread_turn k turn s))"
proof -
  let ?hit = "\<lambda>t. tt_executor_turn_id t = Some turn \<and> tt_status t \<notin> set settled_statuses"
  have "evolves k ts (map (\<lambda>t. if ?hit t then settle_turn t else t) ts)" for ts
    by (rule evolves_map) (auto simp: settle_turn_def dest: answered_settle)
  then show ?thesis
    unfolding settle_selected_thread_turn_def Let_def
    by (auto intro!: turns_step_put simp: same_threads_def)
qed

lemma turns_step_pop_pending:
  "turns_step s (snd (pop_pending_user_turn parse k thread turn time s))"
proof (cases "take_first (awaits_plan parse thread turn time) (rev (dd_get (pj_turns s) k))")
  case None
  then show ?thesis by (simp add: pop_pending_user_turn_def)
next
  case (Some p)
  obtain c rest where p: "p = (c, rest)" by (cases p)
  from take_first_split [OF Some [unfolded p]] obtain a b where
    ab: "rev (dd_get (pj_turns s) k) = a @ c # b" "rest = a @ b" and c: "awaits_plan parse thread turn time c"
    by blast
  have "dd_get (pj_turns s) k = rev b @ c # rev a"
    using arg_cong [OF ab(1), of rev] by simp
  moreover have "\<not> answered c" using c by (simp add: awaits_plan_def answered_def)
  ultimately have "evolves k (dd_get (pj_turns s) k) (rev rest)"
    by (simp add: ab(2) evolves_remove)
  then show ?thesis
    by (auto simp: pop_pending_user_turn_def Some p put_turns_def turns_step_def errors_ok_def same_threads_def
        dd_get_put dd_get_pop)
qed

lemma turns_step_keep_live: "turns_step s (snd (keep_turn_live c s))"
  by (simp add: keep_turn_live_def turns_step_upsert)

lemma turns_step_note_phase: "turns_step s (note_item_phase c item s)"
  by (auto simp: note_item_phase_def same_threads_def intro!: turns_step_same split: option.splits bool.splits)

lemma turns_step_set_goal: "turns_step s (set_goal k g s)"
  by (auto simp: set_goal_def same_threads_def intro!: turns_step_same)

lemma turns_step_goal: "turns_step s (snd (apply_goal_event cleared params k s))"
proof -
  let ?s1 = "if cleared then s\<lparr>pj_goals := dict_pop k (pj_goals s)\<rparr> else set_goal k (goal_event_goal params) s"
  have s1: "turns_step s ?s1" by (auto simp: same_threads_def turns_step_set_goal intro!: turns_step_same)
  have "evolves k ts (map (\<lambda>t. t\<lparr>tt_metadata := g t\<rparr>) ts)" for g ts
    by (rule evolves_map) (auto simp: answered_def turn_settled_def)
  then have "turns_step ?s1 (?s1\<lparr>pj_turns := dict_put k
      (map (\<lambda>t. t\<lparr>tt_metadata := g t\<rparr>) (dd_get (pj_turns ?s1) k)) (pj_turns ?s1)\<rparr>)" for g
    by (rule turns_step_put) (simp_all add: same_threads_def)
  then show ?thesis
    using s1 turns_step_trans [OF s1] unfolding apply_goal_event_def Let_def by auto
qed

lemma turns_step_plan_item: "turns_step s (snd (apply_plan_item parse c started item s))"
  using turns_step_trans [OF turns_step_pop_pending turns_step_upsert]
  by (simp add: apply_plan_item_def Let_def case_prod_beta split: option.split)

lemma turns_step_item: "turns_step s (snd (apply_item c item s))"
  using turns_step_note_phase [of s c item] turns_step_trans [OF turns_step_note_phase turns_step_upsert]
    turns_step_trans [OF turns_step_note_phase turns_step_keep_live]
  by (simp add: apply_item_def Let_def split: option.split list.split)

lemma turns_step_upsert_after:
  "turns_step s s' \<Longrightarrow> turns_step s (upsert_turn t s')"
  using turns_step_trans turns_step_upsert by blast

lemma turns_step_plan_delta: "turns_step s (snd (apply_plan_delta c params s))"
  by (auto simp: apply_plan_delta_def Let_def same_threads_def intro!: turns_step_upsert_after turns_step_same
      split: option.split)

lemma turns_step_message_delta: "turns_step s (snd (apply_message_delta c params s))"
  by (auto simp: apply_message_delta_def Let_def same_threads_def turns_step_keep_live
      intro!: turns_step_upsert_after turns_step_same split: option.split)

lemma turns_step_thread_event: "turns_step s (snd (apply_thread_event parse stamp now bb msg x s))"
  by (simp add: apply_thread_event_def Let_def turns_step_goal turns_step_settle turns_step_plan_item turns_step_item
      turns_step_plan_delta turns_step_message_delta split: json.split option.split)

lemma turns_step_seed_item: "turns_step s (seed_item_phase k turn item s)"
  by (auto simp: seed_item_phase_def same_threads_def intro!: turns_step_same split: option.split)

lemma turns_step_seed: "turns_step s (seed_live_item_phases k turns s)"
proof -
  have "turns_step s (seed_turn_phases k turn s)" for turn s
    by (simp add: seed_turn_phases_def turns_step_fold [OF turns_step_seed_item] split: option.split)
  then show ?thesis by (simp add: seed_live_item_phases_def turns_step_fold)
qed

lemma turns_step_install: "turns_step s (install_turns_page stamp fr k thread persona_id pg s)"
proof -
  let ?s1 = "seed_live_item_phases k (cq_turns pg) (set_goal k (cq_goal pg) s)"
  let ?s2 = "fold upsert_turn (page_turns stamp fr k thread persona_id pg) ?s1"
  let ?s3 = "?s2\<lparr>pj_timeline_pages := dict_put k
    (loaded_page (cq_next_cursor pg) (cq_previous_cursor pg)) (pj_timeline_pages ?s2)\<rparr>"
  have "turns_step s ?s1" using turns_step_trans [OF turns_step_set_goal turns_step_seed] .
  also have "turns_step ?s1 ?s2" by (rule turns_step_fold) (rule turns_step_upsert)
  finally (turns_step_trans) have "turns_step s ?s2" .
  moreover have "turns_step ?s2 ?s3" by (rule turns_step_same) (simp_all add: same_threads_def)
  ultimately have "turns_step s (note_loaded k ?s3)"
    using turns_step_trans turns_step_note_loaded by blast
  then show ?thesis by (simp add: install_turns_page_def Let_def)
qed

lemma turns_step_begin_load: "turns_step s (snd (begin_load_timeline k h s))"
  by (simp add: begin_load_timeline_def turns_step_def errors_ok_def same_threads_def)

text \<open>A failed load forgets the turns of its thread, and of no other.\<close>

lemma load_failed_reads:
  assumes "reply = Inl e"
  shows "dd_get (pj_turns (snd (finish_load_timeline stamp fr now k native p reply s))) k' =
      (if k' = k then [] else dd_get (pj_turns s) k')"
    and "errors_ok s \<Longrightarrow> errors_ok (snd (finish_load_timeline stamp fr now k native p reply s))"
    and "same_threads s (snd (finish_load_timeline stamp fr now k native p reply s))"
  using assms by (simp_all add: finish_load_timeline_def Let_def dd_get_pop errors_ok_def same_threads_def)

lemma turns_step_loaded:
  assumes "reply = Inr pg"
  shows "turns_step s (snd (finish_load_timeline stamp fr now k native p reply s))"
proof -
  have "turns_step s (s\<lparr>pj_load_tasks := filter (\<lambda>i. i \<noteq> k) (pj_load_tasks s)\<rparr>)"
    by (rule turns_step_same) (simp_all add: same_threads_def)
  then show ?thesis
    using assms turns_step_trans turns_step_install
    by (force simp: finish_load_timeline_def Let_def)
qed

section \<open>Imported threads\<close>

definition handle_fits :: "bro_thread \<Rightarrow> agent_resume_handle \<Rightarrow> bool" where
  "handle_fits th h \<longleftrightarrow>
     (\<exists>c. jget (bt_diagnostics th) ''codex_thread_id'' = JStr c \<and> h_session_handle h = Some c)"

definition threads_ok ::
    "(str, bro_thread) dict \<Rightarrow> (str, agent_resume_handle) dict \<Rightarrow> (str, str list) dict \<Rightarrow> bool" where
  "threads_ok ths hs pages \<longleftrightarrow>
     table_ok bt_thread_id ths \<and> dict_keys hs = dict_keys ths \<and>
     (\<forall>k th h. map_of ths k = Some th \<longrightarrow> map_of hs k = Some h \<longrightarrow> handle_fits th h) \<and>
     (\<forall>p. set (dd_get pages p) \<subseteq> set (dict_keys ths))"

lemma threads_ok_empty [simp]: "threads_ok [] [] []"
  by (simp add: threads_ok_def)

lemma threads_ok_put:
  assumes "threads_ok ths hs pages" and "bt_thread_id th = k" and "handle_fits th h"
    and "\<And>p. set (dd_get pages' p) \<subseteq> insert k (set (dd_get pages p))"
  shows "threads_ok (dict_put k th ths) (dict_put k h hs) pages'"
proof -
  have keys: "set (dict_keys (dict_put k th ths)) = insert k (set (dict_keys ths))"
    by (auto simp: dict_keys_put)
  have "set (dd_get pages' p) \<subseteq> set (dict_keys (dict_put k th ths))" for p
  proof -
    have "set (dd_get pages p) \<subseteq> set (dict_keys ths)" using assms(1) by (simp add: threads_ok_def)
    then show ?thesis unfolding keys using assms(4) [of p] by blast
  qed
  then show ?thesis
    using assms(1-3) by (auto simp: threads_ok_def dict_keys_put)
qed

lemma threads_ok_pages:
  assumes "threads_ok ths hs pages" and "\<And>p. set (dd_get pages' p) \<subseteq> set (dd_get pages p)"
  shows "threads_ok ths hs pages'"
  using assms unfolding threads_ok_def by blast

lemma imported_handle_fits:
  assumes "project_imported_codex_thread sha stamp s p node x = (th, h)"
  shows "handle_fits th h"
  using assms
  by (auto simp: project_imported_codex_thread_def Let_def handle_fits_def imported_diagnostics_def jget_def
      map_of_dict_merge)

lemma get_or_dd: "get_or d k [] = dd_get d k"
  by (simp add: get_or_def dd_get_def)

definition sync_ok :: "sync_result \<Rightarrow> bool" where
  "sync_ok y \<longleftrightarrow> threads_ok (sy_threads y) (sy_handles y) (sy_pages y)"

lemma sync_ok_empty: "sync_ok sync_result_empty"
  by (simp add: sync_ok_def sync_result_empty_def)

lemma sync_ok_import: "sync_ok y \<Longrightarrow> sync_ok (import_for_persona sha stamp s node x p y)"
proof -
  assume y: "sync_ok y"
  obtain th h where th: "project_imported_codex_thread sha stamp s p node x = (th, h)"
    by (cases "project_imported_codex_thread sha stamp s p node x")
  then show ?thesis
    using y unfolding sync_ok_def import_for_persona_def
    by (auto intro!: threads_ok_put [OF _ _ imported_handle_fits] split: if_splits)
qed

lemma sync_ok_fold:
  assumes "\<And>x y. sync_ok y \<Longrightarrow> sync_ok (f x y)"
  shows "sync_ok y \<Longrightarrow> sync_ok (fold f xs y)"
  using assms by (induction xs arbitrary: y) auto

lemma dd_get_fold_put: "dd_get (fold (\<lambda>p d. dict_put (g p) [] d) ps d) k = (if k \<in> g ` set ps then [] else dd_get d k)"
  by (induction ps arbitrary: d) (auto simp: dd_get_put)

lemma sync_ok_reply:
  assumes "sync_ok y"
  shows "sync_ok (snd (sync_node_reply sha stamp continued node ps reply (s, y)))"
proof (cases reply)
  case (Inl e)
  then show ?thesis using assms by (simp add: sync_node_reply_def)
next
  case (Inr pg)
  have "sync_ok (y\<lparr>sy_pages := fold (\<lambda>p d. dict_put (p_persona_id p) [] d) ps (sy_pages y)\<rparr>)"
    using assms unfolding sync_ok_def
    by (auto simp: dd_get_fold_put intro!: threads_ok_pages [of "sy_threads y" "sy_handles y" "sy_pages y"] split: if_splits)
  moreover have "sync_ok z \<Longrightarrow> sync_ok (import_thread sha stamp s node ps continued x z)" for x z
    by (simp add: import_thread_def sync_ok_fold [OF sync_ok_import])
  ultimately show ?thesis
    by (simp add: sync_node_reply_def Inr Let_def sync_ok_fold)
qed

definition imports_ok :: "projection \<Rightarrow> bool" where
  "imports_ok s \<longleftrightarrow> threads_ok (pj_imported s) (pj_handles s) (pj_pages s)"

text \<open>What the operations on imported threads leave alone.\<close>

definition same_turns :: "projection \<Rightarrow> projection \<Rightarrow> bool" where
  "same_turns s s' \<longleftrightarrow>
     pj_turns s' = pj_turns s \<and> pj_timeline_status s' = pj_timeline_status s \<and>
     pj_timeline_errors s' = pj_timeline_errors s \<and> pj_subscriptions s' = pj_subscriptions s"

lemma sync_reply_turns: "same_turns s (fst (sync_node_reply sha stamp continued node ps reply (s, y)))"
  by (simp add: sync_node_reply_def same_turns_def Let_def split: sum.split)

lemma sync_reply_imports:
  "imports_ok (fst (sync_node_reply sha stamp continued node ps reply (s, y))) = imports_ok s"
  by (simp add: sync_node_reply_def imports_ok_def Let_def split: sum.split)

lemma sync_commit_reads:
  "same_turns s (sync_commit now y s)" "sync_ok y \<Longrightarrow> imports_ok (sync_commit now y s)"
  by (simp_all add: sync_commit_def same_turns_def imports_ok_def sync_ok_def)

lemma clear_imported_reads: "same_turns s (clear_imported s)" "imports_ok (clear_imported s)"
  by (simp_all add: clear_imported_def same_turns_def imports_ok_def)

lemma import_listed_reads:
  "(imports_ok (snd st) \<longrightarrow> imports_ok (snd (import_listed sha stamp continued p node x st))) \<and>
   same_turns (snd st) (snd (import_listed sha stamp continued p node x st))"
proof (cases "ctl_thread_id x \<in> set continued \<or> is_ephemeral_codex_thread x")
  case True
  then show ?thesis by (simp add: import_listed_def case_prod_beta same_turns_def)
next
  case False
  obtain ths s where st: "st = (ths, s)" by (cases st)
  obtain th h where th: "project_imported_codex_thread sha stamp s p node x = (th, h)"
    by (cases "project_imported_codex_thread sha stamp s p node x")
  show ?thesis
    using False th
    by (auto simp: st import_listed_def Let_def imports_ok_def same_turns_def get_or_dd dd_get_put
        intro!: threads_ok_put [OF _ _ imported_handle_fits [OF th]] split: if_splits)
qed

lemma same_turns_trans: "same_turns a b \<Longrightarrow> same_turns b c \<Longrightarrow> same_turns a c"
  by (simp add: same_turns_def)

lemma import_all_reads:
  "(imports_ok (snd st) \<longrightarrow> imports_ok (snd (fold (import_listed sha stamp continued p node) xs st))) \<and>
   same_turns (snd st) (snd (fold (import_listed sha stamp continued p node) xs st))"
proof (induction xs arbitrary: st)
  case (Cons x xs)
  let ?st = "import_listed sha stamp continued p node x st"
  show ?case
    using import_listed_reads [of st sha stamp continued p node x] Cons.IH [of ?st]
      same_turns_trans [of "snd st" "snd ?st"] by simp
qed (simp add: same_turns_def)

lemma thread_page_reads:
  "imports_ok s \<Longrightarrow> imports_ok (snd (finish_thread_page sha stamp sessions p node pg s))"
  "same_turns s (snd (finish_thread_page sha stamp sessions p node pg s))"
  using import_all_reads [of "([], s)" sha stamp "session_codex_thread_ids sessions" p node "cp_threads pg"]
  by (simp_all add: finish_thread_page_def Let_def case_prod_beta imports_ok_def same_turns_def)

lemma attach_reads:
  "imports_ok s \<Longrightarrow> imports_ok (attach_new_thread_handle bb q msg s)"
  "same_turns s (attach_new_thread_handle bb q msg s)"
  by (auto simp: attach_new_thread_handle_def Let_def imports_ok_def same_turns_def handle_fits_def jget_def
      intro!: threads_ok_put split: option.split)

lemma same_threads_imports: "same_threads s s' \<Longrightarrow> imports_ok s' = imports_ok s"
  by (simp add: same_threads_def imports_ok_def)

section \<open>Subscriptions\<close>

definition subscriptions_ok :: "(str, selected_subscription) dict \<Rightarrow> str list \<Rightarrow> bool" where
  "subscriptions_ok d used \<longleftrightarrow>
     table_ok ss_persona_id d \<and>
     (\<forall>k x. map_of d k = Some x \<longrightarrow> ss_subscription_id x \<in> set used) \<and>
     (\<forall>k k' x x'. map_of d k = Some x \<longrightarrow> map_of d k' = Some x' \<longrightarrow>
        ss_subscription_id x = ss_subscription_id x' \<longrightarrow> k = k')"

lemma subscriptions_ok_pop: "subscriptions_ok d used \<Longrightarrow> subscriptions_ok (dict_pop k d) used"
  by (auto simp: subscriptions_ok_def split: if_splits)

lemma subscriptions_ok_put:
  "subscriptions_ok d used \<Longrightarrow> ss_persona_id x = k \<Longrightarrow> ss_subscription_id x \<notin> set used \<Longrightarrow>
     subscriptions_ok (dict_put k x d) (ss_subscription_id x # used)"
  by (auto simp: subscriptions_ok_def split: if_splits) metis+

definition same_but_subscriptions :: "projection \<Rightarrow> projection \<Rightarrow> bool" where
  "same_but_subscriptions s s' \<longleftrightarrow>
     pj_turns s' = pj_turns s \<and> pj_timeline_status s' = pj_timeline_status s \<and>
     pj_timeline_errors s' = pj_timeline_errors s \<and> pj_imported s' = pj_imported s \<and>
     pj_handles s' = pj_handles s \<and> pj_pages s' = pj_pages s"

lemma subscriptions_only:
  assumes "same_but_subscriptions s s'"
  shows "pj_turns s' = pj_turns s" "errors_ok s' = errors_ok s" "imports_ok s' = imports_ok s"
  using assms by (simp_all add: same_but_subscriptions_def errors_ok_def imports_ok_def)

lemma stop_reads:
  "same_but_subscriptions s (snd (stop_subscription k public s))"
  "subscriptions_ok (pj_subscriptions s) used \<Longrightarrow>
     subscriptions_ok (pj_subscriptions (snd (stop_subscription k public s))) used"
  "map_of (pj_subscriptions (snd (stop_subscription k public s))) k' = Some x \<Longrightarrow>
     map_of (pj_subscriptions s) k' = Some x"
  by (auto simp: stop_subscription_def same_but_subscriptions_def subscriptions_ok_pop split: option.splits if_splits)

lemma fail_reads:
  "same_but_subscriptions s (fail_subscribe y s)"
  "subscriptions_ok (pj_subscriptions s) used \<Longrightarrow> subscriptions_ok (pj_subscriptions (fail_subscribe y s)) used"
  "map_of (pj_subscriptions (fail_subscribe y s)) k' = Some x \<Longrightarrow> map_of (pj_subscriptions s) k' = Some x"
  by (auto simp: fail_subscribe_def same_but_subscriptions_def subscriptions_ok_pop split: if_splits)

lemma begin_thread_subscription_cases:
  assumes "begin_thread_subscription uid r s = (Some (old, new), s')"
  shows "new = new_subscription uid r s" "same_but_subscriptions s s'"
    "\<exists>d. pj_subscriptions s' = dict_put (sb_persona_id r) new d \<and>
       (d = pj_subscriptions s \<or> d = dict_pop (sb_persona_id r) (pj_subscriptions s))"
  using assms
  by (auto simp: begin_thread_subscription_def same_but_subscriptions_def split: option.splits if_splits)

section \<open>Interleavings\<close>

text \<open>The state: the projection, the sync in progress, and the subscription ids given out. The label of
  a step names the thread whose history failed to load.\<close>

type_synonym pj_state = "projection \<times> sync_result option \<times> str list"

inductive pj_step ::
    "(str \<Rightarrow> str) \<Rightarrow> (rat \<Rightarrow> str option) \<Rightarrow> (str \<Rightarrow> rat option) \<Rightarrow> (rat \<Rightarrow> str) \<Rightarrow>
     str option \<Rightarrow> pj_state \<Rightarrow> pj_state \<Rightarrow> bool"
  for sha stamp parse fr where
  sync_clear: "sync_plan_of m now ps s = Sync_Nothing \<Longrightarrow>
    pj_step sha stamp parse fr None (s, y, used) (clear_imported s, y, used)"
| sync_begin: "sync_plan_of m now ps s = Sync_Ask nodes \<Longrightarrow>
    pj_step sha stamp parse fr None (s, None, used) (s, Some sync_result_empty, used)"
| sync_reply: "sync_node_reply sha stamp continued node ps reply (s, y) = (s', y') \<Longrightarrow>
    pj_step sha stamp parse fr None (s, Some y, used) (s', Some y', used)"
| sync_end: "pj_step sha stamp parse fr None (s, Some y, used) (sync_commit now y s, None, used)"
| thread_page: "begin_thread_page p = Inr node \<Longrightarrow>
    pj_step sha stamp parse fr None (s, y, used) (snd (finish_thread_page sha stamp sessions p node pg s), y, used)"
| load_begin: "pj_step sha stamp parse fr None (s, y, used) (snd (begin_load_timeline k h s), y, used)"
| load_done: "pj_step sha stamp parse fr None (s, y, used)
    (snd (finish_load_timeline stamp fr now k native p (Inr pg) s), y, used)"
| load_failed: "pj_step sha stamp parse fr (Some k) (s, y, used)
    (snd (finish_load_timeline stamp fr now k native p (Inl e) s), y, used)"
| timeline_page: "pj_step sha stamp parse fr None (s, y, used)
    (snd (finish_timeline_page stamp fr now k p th pg s), y, used)"
| subscribe: "begin_thread_subscription uid r s = (Some (old, new), s') \<Longrightarrow> ss_subscription_id new \<notin> set used \<Longrightarrow>
    pj_step sha stamp parse fr None (s, y, used) (s', y, ss_subscription_id new # used)"
| subscribe_failed: "pj_step sha stamp parse fr None (s, y, used) (fail_subscribe x s, y, used)"
| unsubscribe: "pj_step sha stamp parse fr None (s, y, used) (snd (begin_thread_unsubscription k thread s), y, used)"
| thread_event: "pj_step sha stamp parse fr None (s, y, used)
    (snd (handle_codex_thread_event parse stamp now bb msg s), y, used)"
| turn_event: "handle_codex_turn_event fr ctx uid uid' now now1 now2 tmsg (s, bb) = (published, s', bb') \<Longrightarrow>
    pj_step sha stamp parse fr None (s, y, used) (s', y, used)"

inductive pj_run ::
    "(str \<Rightarrow> str) \<Rightarrow> (rat \<Rightarrow> str option) \<Rightarrow> (str \<Rightarrow> rat option) \<Rightarrow> (rat \<Rightarrow> str) \<Rightarrow>
     str option list \<Rightarrow> pj_state \<Rightarrow> pj_state \<Rightarrow> bool"
  for sha stamp parse fr where
  run_refl: "pj_run sha stamp parse fr [] st st"
| run_step: "pj_run sha stamp parse fr ls st st1 \<Longrightarrow> pj_step sha stamp parse fr l st1 st2 \<Longrightarrow>
    pj_run sha stamp parse fr (ls @ [l]) st st2"

definition pj_reachable ::
    "(str \<Rightarrow> str) \<Rightarrow> (rat \<Rightarrow> str option) \<Rightarrow> (str \<Rightarrow> rat option) \<Rightarrow> (rat \<Rightarrow> str) \<Rightarrow> pj_state \<Rightarrow> bool" where
  "pj_reachable sha stamp parse fr st \<longleftrightarrow>
     (\<exists>ls. pj_run sha stamp parse fr ls (projection_init, None, []) st)"

text \<open>What a step does to the three views.\<close>

definition turns_effect :: "str option \<Rightarrow> projection \<Rightarrow> projection \<Rightarrow> bool" where
  "turns_effect l s s' \<longleftrightarrow>
     (\<forall>k. if l = Some k then dd_get (pj_turns s') k = []
          else evolves k (dd_get (pj_turns s) k) (dd_get (pj_turns s') k)) \<and>
     (errors_ok s \<longrightarrow> errors_ok s')"

lemma turns_effectI:
  "turns_step s s' \<Longrightarrow> turns_effect None s s'"
  "same_turns s s' \<Longrightarrow> turns_effect None s s'"
  "same_but_subscriptions s s' \<Longrightarrow> turns_effect None s s'"
  by (simp_all add: turns_effect_def turns_step_def same_turns_def same_but_subscriptions_def errors_ok_def)

lemma thread_event_cases:
  obtains "snd (handle_codex_thread_event parse stamp now bb msg s) = s"
  | x where "current_subscription msg s = Some x"
      "snd (handle_codex_thread_event parse stamp now bb msg s) = snd (apply_thread_event parse stamp now bb msg x s)"
  | k public where
      "snd (handle_codex_thread_event parse stamp now bb msg s) = snd (stop_subscription k public s)"
proof (cases "current_subscription msg s")
  case None
  then show thesis using that(1) by (simp add: handle_codex_thread_event_def)
next
  case (Some x)
  note h = handle_codex_thread_event_def Some option.case
  consider "ce_method msg \<in> set timeline_methods" | "ce_method msg \<notin> set timeline_methods" "ce_method msg = ''thread/closed''"
    | "ce_method msg \<notin> set timeline_methods" "ce_method msg \<noteq> ''thread/closed''" by blast
  then show thesis
  proof cases
    case 1
    then show thesis by (intro that(2) [OF Some]) (simp add: h)
  next
    case 2
    then show thesis
      by (intro that(3) [of "ss_persona_id x" "Some (ss_public_thread_id x)"]) (simp add: h)
  next
    case 3
    then show thesis by (intro that(1)) (simp add: h)
  qed
qed

lemma turn_event_reads:
  assumes "handle_codex_turn_event fr ctx uid uid' now now1 now2 msg (s, bb) = (published, s', bb')"
  shows "turns_effect None s s'" "imports_ok s \<longrightarrow> imports_ok s'" "pj_subscriptions s' = pj_subscriptions s"
proof -
  have "turns_effect None s s' \<and> (imports_ok s \<longrightarrow> imports_ok s') \<and> pj_subscriptions s' = pj_subscriptions s"
  proof (cases "published")
    case False
    then have "s' = s" using assms
      by (auto simp: handle_codex_turn_event_def Let_def split: option.splits if_splits)
    then show ?thesis by (simp add: turns_effectI)
  next
    case True
    then obtain q t bb1 where s': "s' = upsert_turn t (attach_new_thread_handle bb1 q msg s)"
      using assms by (auto simp: handle_codex_turn_event_def Let_def split: option.splits if_splits)
    let ?a = "attach_new_thread_handle bb1 q msg s"
    have "turns_step ?a s'" using s' turns_step_upsert by simp
    then show ?thesis
      using attach_reads [where s = s and bb = bb1 and q = q and msg = msg] same_threads_imports [of ?a s']
      by (auto simp: turns_effect_def turns_step_def same_turns_def errors_ok_def same_threads_def)
  qed
  then show "turns_effect None s s'" "imports_ok s \<longrightarrow> imports_ok s'" "pj_subscriptions s' = pj_subscriptions s"
    by simp_all
qed

lemma thread_unsubscription_state: "snd (begin_thread_unsubscription k thread s) = snd (stop_subscription k thread s)"
  by (simp add: begin_thread_unsubscription_def Let_def case_prod_beta)

lemma timeline_page_state:
  "snd (finish_timeline_page stamp fr now k p th pg s) =
     install_turns_page stamp fr k (cq_thread_id pg) (p_persona_id p) pg s"
  by (simp add: finish_timeline_page_def Let_def)

lemma step_turns:
  assumes "pj_step sha stamp parse fr l st st'"
  shows "turns_effect l (fst st) (fst st')"
  using assms
proof cases
  case (sync_reply continued node ps reply s y s' y' used)
  then show ?thesis
    using turns_effectI(2) sync_reply_turns [of s sha stamp continued node ps reply y] by simp
next
  case (load_failed k s y used now native p e)
  then show ?thesis
    using load_failed_reads [where reply = "Inl e" and e = e and stamp = stamp and fr = fr and now = now and k = k
        and native = native and p = p and s = s] by (simp add: turns_effect_def)
next
  case (thread_event s y used now bb msg)
  show ?thesis
    by (rule thread_event_cases [of parse stamp now bb msg s])
      (simp_all add: thread_event turns_effectI turns_step_thread_event stop_reads(1))
next
  case (turn_event ctx uid uid' now now1 now2 tmsg s bb published s' bb' y used)
  then show ?thesis using turn_event_reads(1) by simp
qed (simp_all add: turns_effectI clear_imported_reads sync_commit_reads thread_page_reads turns_step_begin_load
    turns_step_loaded timeline_page_state turns_step_install begin_thread_subscription_cases(2) fail_reads(1)
    thread_unsubscription_state stop_reads(1))

lemma step_imports:
  assumes "pj_step sha stamp parse fr l st st'" and "imports_ok (fst st)"
    and "\<forall>z. fst (snd st) = Some z \<longrightarrow> sync_ok z"
  shows "imports_ok (fst st') \<and> (\<forall>z. fst (snd st') = Some z \<longrightarrow> sync_ok z)"
  using assms
proof cases
  case (sync_reply continued node ps reply s y s' y' used)
  then show ?thesis
    using sync_reply_imports [of sha stamp continued node ps reply s y] assms(2)
      sync_ok_reply [of y sha stamp continued node ps reply s] assms(3) by simp
next
  case (load_done s y used now k native p pg)
  then show ?thesis
    using assms turns_step_loaded [of "Inr pg" pg s stamp fr now k native p]
      same_threads_imports unfolding turns_step_def by fastforce
next
  case (thread_event s y used now bb msg)
  show ?thesis
    by (rule thread_event_cases [of parse stamp now bb msg s])
      (use thread_event assms in \<open>simp_all add: subscriptions_only(3) [OF stop_reads(1)]
        same_threads_imports [OF turns_step_thread_event [unfolded turns_step_def, THEN conjunct2, THEN conjunct2]]\<close>)
next
  case (turn_event ctx uid uid' now now1 now2 tmsg s bb published s' bb' y used)
  then show ?thesis using turn_event_reads(2) assms by simp
qed (use assms in \<open>simp_all add: clear_imported_reads sync_commit_reads thread_page_reads sync_ok_empty
    same_threads_imports [OF turns_step_begin_load [unfolded turns_step_def, THEN conjunct2, THEN conjunct2]]
    same_threads_imports [OF load_failed_reads(3)] timeline_page_state thread_unsubscription_state
    same_threads_imports [OF turns_step_install [unfolded turns_step_def, THEN conjunct2, THEN conjunct2]]
    subscriptions_only(3) [OF begin_thread_subscription_cases(2)] subscriptions_only(3) [OF fail_reads(1)]
    subscriptions_only(3) [OF stop_reads(1)]\<close>)

text \<open>A step gives up subscriptions or adds one with an id that no other had.\<close>

definition subscriptions_effect ::
    "(str, selected_subscription) dict \<Rightarrow> str list \<Rightarrow> (str, selected_subscription) dict \<Rightarrow> str list \<Rightarrow> bool" where
  "subscriptions_effect d used d' used' \<longleftrightarrow>
     (subscriptions_ok d used \<longrightarrow> subscriptions_ok d' used') \<and> set used \<subseteq> set used' \<and>
     (\<forall>k x. map_of d' k = Some x \<longrightarrow> map_of d k = Some x \<or> ss_subscription_id x \<notin> set used)"

lemma subscriptions_effect_same [simp]: "subscriptions_effect d used d used"
  by (simp add: subscriptions_effect_def)

lemma new_subscription_persona: "ss_persona_id (new_subscription uid r s) = sb_persona_id r"
  by (simp add: new_subscription_def)

lemma subscriptions_effect_new:
  assumes "begin_thread_subscription uid r s = (Some (old, new), s')" and "ss_subscription_id new \<notin> set used"
  shows "subscriptions_effect (pj_subscriptions s) used (pj_subscriptions s') (ss_subscription_id new # used)"
proof -
  obtain d where d: "pj_subscriptions s' = dict_put (sb_persona_id r) new d"
      "d = pj_subscriptions s \<or> d = dict_pop (sb_persona_id r) (pj_subscriptions s)"
    using begin_thread_subscription_cases(3) [OF assms(1)] by blast
  have "ss_persona_id new = sb_persona_id r"
    using begin_thread_subscription_cases(1) [OF assms(1)] by (simp add: new_subscription_persona)
  moreover have "subscriptions_ok (pj_subscriptions s) used \<Longrightarrow> subscriptions_ok d used"
    using d(2) subscriptions_ok_pop by metis
  ultimately show ?thesis
    using d assms(2) subscriptions_ok_put [of d used new "sb_persona_id r"]
    by (auto simp: subscriptions_effect_def split: if_splits)
qed

lemma subscriptions_effect_fewer:
  assumes "subscriptions_ok (pj_subscriptions s) used \<Longrightarrow> subscriptions_ok (pj_subscriptions s') used"
    and "\<And>k x. map_of (pj_subscriptions s') k = Some x \<Longrightarrow> map_of (pj_subscriptions s) k = Some x"
  shows "subscriptions_effect (pj_subscriptions s) used (pj_subscriptions s') used"
  using assms by (simp add: subscriptions_effect_def)

lemma same_threads_subscriptions: "turns_step s s' \<Longrightarrow> pj_subscriptions s' = pj_subscriptions s"
  by (simp add: turns_step_def same_threads_def)

lemma same_turns_subscriptions: "same_turns s s' \<Longrightarrow> pj_subscriptions s' = pj_subscriptions s"
  by (simp add: same_turns_def)

lemmas kept_subscriptions =
  same_turns_subscriptions [OF clear_imported_reads(1)] same_turns_subscriptions [OF sync_commit_reads(1)]
  same_turns_subscriptions [OF thread_page_reads(2)] same_threads_subscriptions [OF turns_step_begin_load]
  same_threads_subscriptions [OF turns_step_loaded] same_threads_subscriptions [OF turns_step_install]
  load_failed_reads(3) [unfolded same_threads_def, THEN conjunct2, THEN conjunct2, THEN conjunct2, THEN conjunct2]

lemma step_subscriptions:
  assumes "pj_step sha stamp parse fr l st st'"
  shows "subscriptions_effect (pj_subscriptions (fst st)) (snd (snd st)) (pj_subscriptions (fst st')) (snd (snd st'))"
  using assms
proof cases
  case (sync_reply continued node ps reply s y s' y' used)
  then show ?thesis
    using same_turns_subscriptions [OF sync_reply_turns [of s sha stamp continued node ps reply y]] by simp
next
  case (subscribe uid r s old new s' used y)
  then show ?thesis using subscriptions_effect_new by simp
next
  case (subscribe_failed s y used x)
  then show ?thesis using subscriptions_effect_fewer [OF fail_reads(2,3)] by simp
next
  case (unsubscribe s y used k thread)
  then show ?thesis using subscriptions_effect_fewer [OF stop_reads(2,3)] by (simp add: thread_unsubscription_state)
next
  case (thread_event s y used now bb msg)
  show ?thesis
    by (rule thread_event_cases [of parse stamp now bb msg s])
      (simp_all add: thread_event same_threads_subscriptions [OF turns_step_thread_event]
        subscriptions_effect_fewer [OF stop_reads(2,3)])
next
  case (turn_event ctx uid uid' now now1 now2 tmsg s bb published s' bb' y used)
  then show ?thesis using turn_event_reads(3) by simp
qed (simp_all add: kept_subscriptions timeline_page_state)

section \<open>The invariant\<close>

definition pj_inv :: "pj_state \<Rightarrow> bool" where
  "pj_inv st \<longleftrightarrow>
     (\<forall>k. thread_turns_ok k (dd_get (pj_turns (fst st)) k)) \<and> errors_ok (fst st) \<and> imports_ok (fst st) \<and>
     (\<forall>z. fst (snd st) = Some z \<longrightarrow> sync_ok z) \<and> subscriptions_ok (pj_subscriptions (fst st)) (snd (snd st))"

lemma pj_inv_init: "pj_inv (projection_init, None, [])"
  by (simp add: pj_inv_def projection_init_def thread_turns_ok_def errors_ok_def imports_ok_def subscriptions_ok_def)

lemma pj_inv_step:
  assumes "pj_step sha stamp parse fr l st st'" and "pj_inv st"
  shows "pj_inv st'"
proof -
  have "thread_turns_ok k (dd_get (pj_turns (fst st')) k)" for k
  proof (cases "l = Some k")
    case True
    then show ?thesis using step_turns [OF assms(1)] by (simp add: turns_effect_def thread_turns_ok_def)
  next
    case False
    then have "evolves k (dd_get (pj_turns (fst st)) k) (dd_get (pj_turns (fst st')) k)"
      using step_turns [OF assms(1)] unfolding turns_effect_def by presburger
    then show ?thesis using assms(2) by (simp add: evolves_def pj_inv_def)
  qed
  moreover have "errors_ok (fst st')"
    using step_turns [OF assms(1)] assms(2) by (simp add: pj_inv_def turns_effect_def)
  ultimately show ?thesis
    using step_imports [OF assms(1)] step_subscriptions [OF assms(1)] assms(2)
    by (simp add: pj_inv_def subscriptions_effect_def)
qed

lemma pj_inv_run: "pj_run sha stamp parse fr ls st st' \<Longrightarrow> pj_inv st \<Longrightarrow> pj_inv st'"
  by (induction rule: pj_run.induct) (auto intro: pj_inv_step)

lemma pj_inv_reachable: "pj_reachable sha stamp parse fr st \<Longrightarrow> pj_inv st"
  using pj_inv_run pj_inv_init unfolding pj_reachable_def by blast


section \<open>Answers stay\<close>

lemma answered_step:
  assumes "pj_step sha stamp parse fr l st st'" and "l \<noteq> Some k"
    and "t \<in> set (dd_get (pj_turns (fst st)) k)" and "answered t"
  shows "\<exists>t' \<in> set (dd_get (pj_turns (fst st')) k).
    tt_turn_id t' = tt_turn_id t \<and> tt_status t' = tt_status t \<and> answered t'"
proof -
  have "evolves k (dd_get (pj_turns (fst st)) k) (dd_get (pj_turns (fst st')) k)"
    using step_turns [OF assms(1)] assms(2) unfolding turns_effect_def by presburger
  then show ?thesis using assms(3,4) by (simp add: evolves_def keeps_answered_def)
qed

lemma answered_run:
  assumes "pj_run sha stamp parse fr ls st st'" and "Some k \<notin> set ls"
    and "t \<in> set (dd_get (pj_turns (fst st)) k)" and "answered t"
  shows "\<exists>t' \<in> set (dd_get (pj_turns (fst st')) k).
    tt_turn_id t' = tt_turn_id t \<and> tt_status t' = tt_status t \<and> answered t'"
  using assms
proof (induction rule: pj_run.induct)
  case (run_step ls st st1 l st2)
  then obtain t1 where "t1 \<in> set (dd_get (pj_turns (fst st1)) k)" "answered t1"
      "tt_turn_id t1 = tt_turn_id t" "tt_status t1 = tt_status t"
    by auto
  then show ?case using answered_step [OF run_step.hyps(2), of k t1] run_step.prems(1) by auto
qed auto

text \<open>C20: an answer that has been given stays: a turn that has ended with its answer complete is
  still there, ended the same way and answered, after any sequence of events, pages, syncs and loads,
  unless loading the history of its thread fails in between.\<close>

theorem given_answer_stays:
  assumes "pj_run sha stamp parse fr ls (s, y, used) (s', y', used')" and "Some k \<notin> set ls"
    and "t \<in> set (dd_get (pj_turns s) k)"
    and "turn_settled t" and "tt_assistant t \<noteq> None"
  shows "\<exists>t' \<in> set (dd_get (pj_turns s') k). tt_turn_id t' = tt_turn_id t \<and> tt_status t' = tt_status t \<and>
    turn_settled t' \<and> tt_assistant t' \<noteq> None"
  using answered_run [OF assms(1,2), of t] assms(3-5) by (simp add: answered_def)

section \<open>Commentary\<close>

definition answers :: "projection \<Rightarrow> (str \<times> str \<times> timeline_message) set" where
  "answers s = {(k, tt_turn_id t, m) | k t m. t \<in> set (dd_get (pj_turns s) k) \<and> tt_assistant t = Some m}"

definition turn_answers :: "timeline_turn list \<Rightarrow> (str \<times> timeline_message) set" where
  "turn_answers ts = {(tt_turn_id t, m) | t m. t \<in> set ts \<and> tt_assistant t = Some m}"

lemma answers_eqI:
  "(\<And>k. turn_answers (dd_get (pj_turns s') k) = turn_answers (dd_get (pj_turns s) k)) \<Longrightarrow> answers s' = answers s"
proof -
  have "answers s = {(k, i, m) | k i m. (i, m) \<in> turn_answers (dd_get (pj_turns s) k)}" for s
    by (auto simp: answers_def turn_answers_def)
  then show "(\<And>k. turn_answers (dd_get (pj_turns s') k) = turn_answers (dd_get (pj_turns s) k)) \<Longrightarrow> ?thesis"
    by simp
qed

lemma turn_answers_Cons:
  "turn_answers (t # ts) =
     (case tt_assistant t of None \<Rightarrow> {} | Some m \<Rightarrow> {(tt_turn_id t, m)}) \<union> turn_answers ts"
  by (auto simp: turn_answers_def split: option.split)

lemma merged_assistant_none: "tt_assistant n = None \<Longrightarrow> merged_assistant e n = tt_assistant e"
  by (simp add: merged_assistant_def still_streaming_def message_status_def streaming_message_statuses_def opt_else_def)

lemma turn_answers_merge: "tt_assistant t = None \<Longrightarrow> turn_answers (merge_first t ts) = turn_answers ts"
  by (induction ts)
    (simp_all add: turn_answers_Cons merge_assistant merged_assistant_none turn_answers_def [of "[]"] split: option.split)

lemma answers_upsert:
  assumes "tt_assistant t = None"
  shows "answers (upsert_turn t s) = answers s"
  by (rule answers_eqI)
    (simp add: upsert_turn_def Let_def note_loaded_def dd_get_put turn_answers_merge [OF assms])

lemma answers_keep_live: "answers (snd (keep_turn_live c s)) = answers s"
  by (simp add: keep_turn_live_def answers_upsert event_turn_def Let_def)

text \<open>The events about an item of a turn that is known as commentary.\<close>

definition streams_commentary :: "selected_subscription \<Rightarrow> codex_thread_event \<Rightarrow> projection \<Rightarrow> bool" where
  "streams_commentary x msg s \<longleftrightarrow>
     (case (jstr_nonempty (jor (jget (ce_params msg) ''turnId'') (jget (ce_params msg) ''turn_id'')),
            jstr_nonempty (jor (jget (ce_params msg) ''itemId'') (jget (ce_params msg) ''item_id''))) of
        (Some turn, Some i) \<Rightarrow>
          ce_method msg = ''item/agentMessage/delta'' \<and> jobj (jget (ce_params msg) ''item'') = None \<and>
          map_of (pj_item_phase s) (ss_public_thread_id x, turn, i) = Some ''commentary''
      | _ \<Rightarrow> False)"

definition reports_commentary :: "selected_subscription \<Rightarrow> codex_thread_event \<Rightarrow> projection \<Rightarrow> bool" where
  "reports_commentary x msg s \<longleftrightarrow>
     ce_method msg \<in> {''item/started'', ''item/completed''} \<and>
     (case (jstr_nonempty (jor (jget (ce_params msg) ''turnId'') (jget (ce_params msg) ''turn_id'')),
            jobj (jget (ce_params msg) ''item'')) of
        (Some turn, Some item) \<Rightarrow>
          codex_item_role item = Some ''assistant'' \<and> jget item ''type'' \<noteq> JStr ''plan'' \<and>
          (case jstr_nonempty (jget item ''id'') of
             None \<Rightarrow> False
           | Some i \<Rightarrow>
               (case jstr_nonempty (jget item ''phase'') of
                  Some ph \<Rightarrow> ph = ''commentary''
                | None \<Rightarrow> map_of (pj_item_phase s) (ss_public_thread_id x, turn, i) = Some ''commentary''))
      | _ \<Rightarrow> False)"

lemma jstr_of_nonempty: "jstr_nonempty v = Some i \<Longrightarrow> jstr v = Some i \<and> i \<noteq> [] \<and> v = JStr i"
  by (cases v) (auto split: if_splits)

lemma jobj_iff: "jobj v = Some d \<longleftrightarrow> v = JObj d"
  by (cases v) auto

lemma stream_keeps_answers:
  assumes "item_is_commentary (ss_public_thread_id (ec_subscription c)) (ec_turn_id c) (Some i) s"
    and "jstr_nonempty (jor (jget params ''itemId'') (jget params ''item_id'')) = Some i"
  shows "answers (snd (apply_message_delta c params s)) = answers s"
  using assms
  by (auto simp: apply_message_delta_def delta_key_def answers_keep_live split: option.splits)

lemma answers_phase: "answers (note_item_phase c item s) = answers s"
  by (rule answers_eqI) (auto simp: note_item_phase_def split: option.split bool.split)

lemma item_keeps_answers:
  assumes "codex_item_role item = Some ''assistant''"
    and "item_is_commentary (ss_public_thread_id (ec_subscription c)) (ec_turn_id c) (jstr (jget item ''id''))
      (note_item_phase c item s)"
  shows "answers (snd (apply_item c item s)) = answers s"
  using assms by (simp add: apply_item_def Let_def answers_keep_live answers_phase)

lemma reported_is_commentary:
  assumes "codex_item_role item = Some ''assistant''" and "jstr_nonempty (jget item ''id'') = Some i"
    and "case jstr_nonempty (jget item ''phase'') of Some ph \<Rightarrow> ph = ''commentary''
         | None \<Rightarrow> map_of (pj_item_phase s) (ss_public_thread_id (ec_subscription c), ec_turn_id c, i) = Some ''commentary''"
  shows "item_is_commentary (ss_public_thread_id (ec_subscription c)) (ec_turn_id c) (jstr (jget item ''id''))
    (note_item_phase c item s)"
  using assms jstr_of_nonempty [OF assms(2)]
  by (auto simp: item_is_commentary_def note_item_phase_def str_truthy_def split: option.splits)

text \<open>commentary is never taken for the answer: once an item of a turn is known as commentary,
  neither its streamed text nor its completion changes, adds or removes any answer; it only keeps the
  turn alive.\<close>

theorem commentary_never_answers:
  assumes "current_subscription msg s = Some x"
    and "streams_commentary x msg s \<or> reports_commentary x msg s"
  shows "answers (snd (handle_codex_thread_event parse stamp now bb msg s)) = answers s"
  using assms(2)
proof
  assume st: "streams_commentary x msg s"
  then obtain turn i where ti: "jstr_nonempty (jor (jget (ce_params msg) ''turnId'') (jget (ce_params msg) ''turn_id'')) = Some turn"
      "jstr_nonempty (jor (jget (ce_params msg) ''itemId'') (jget (ce_params msg) ''item_id'')) = Some i"
    by (auto simp: streams_commentary_def split: option.splits)
  let ?c = "event_context_of stamp now bb x turn (ce_params msg) s"
  have m: "ce_method msg = ''item/agentMessage/delta''" and no: "jobj (jget (ce_params msg) ''item'') = None"
    and ph: "map_of (pj_item_phase s) (ss_public_thread_id x, turn, i) = Some ''commentary''"
    using st ti by (simp_all add: streams_commentary_def)
  have "item_is_commentary (ss_public_thread_id (ec_subscription ?c)) (ec_turn_id ?c) (Some i) s"
    using ph jstr_of_nonempty [OF ti(2)] by (simp add: item_is_commentary_def event_context_of_def str_truthy_def)
  note stream_keeps_answers [OF this ti(2)]
  moreover have "\<not> (\<exists>d. jget (ce_params msg) ''item'' = JObj d)" using no by auto
  ultimately show ?thesis
    using m ti assms(1)
    by (cases "jget (ce_params msg) ''item''")
      (simp_all add: handle_codex_thread_event_def timeline_methods_def apply_thread_event_def Let_def)
next
  assume rp: "reports_commentary x msg s"
  then obtain turn item where ti: "jstr_nonempty (jor (jget (ce_params msg) ''turnId'') (jget (ce_params msg) ''turn_id'')) = Some turn"
      "jget (ce_params msg) ''item'' = JObj item"
    by (auto simp: reports_commentary_def jobj_iff split: option.splits)
  then obtain i where i: "jstr_nonempty (jget item ''id'') = Some i" and role: "codex_item_role item = Some ''assistant''"
    using rp by (auto simp: reports_commentary_def split: option.splits)
  let ?c = "event_context_of stamp now bb x turn (ce_params msg) s"
  have "item_is_commentary (ss_public_thread_id (ec_subscription ?c)) (ec_turn_id ?c) (jstr (jget item ''id''))
      (note_item_phase ?c item s)"
  proof (rule reported_is_commentary [OF role i])
    show "case jstr_nonempty (jget item ''phase'') of Some ph \<Rightarrow> ph = ''commentary''
        | None \<Rightarrow> map_of (pj_item_phase s) (ss_public_thread_id (ec_subscription ?c), ec_turn_id ?c, i)
            = Some ''commentary''"
      using rp unfolding reports_commentary_def ti jobj.simps event_context_of_def option.case prod.case role i
        event_context.simps by blast
  qed
  note kept = item_keeps_answers [OF role this]
  have m: "ce_method msg = ''item/started'' \<or> ce_method msg = ''item/completed''"
    and np: "jget item ''type'' \<noteq> JStr ''plan''"
    using rp unfolding reports_commentary_def ti jobj.simps by (simp_all add: role)
  show ?thesis
    using m by (rule disjE)
      (simp_all add: handle_codex_thread_event_def timeline_methods_def apply_thread_event_def Let_def assms(1) ti np kept)
qed

section \<open>Subscriptions that were given up\<close>

definition gone :: "str \<Rightarrow> pj_state \<Rightarrow> bool" where
  "gone i st \<longleftrightarrow>
     i \<in> set (snd (snd st)) \<and> (\<forall>k x. map_of (pj_subscriptions (fst st)) k = Some x \<longrightarrow> ss_subscription_id x \<noteq> i)"

lemma gone_step: "pj_step sha stamp parse fr l st st' \<Longrightarrow> gone i st \<Longrightarrow> gone i st'"
  using step_subscriptions [of sha stamp parse fr l st st'] unfolding gone_def subscriptions_effect_def by fastforce

lemma gone_run: "pj_run sha stamp parse fr ls st st' \<Longrightarrow> gone i st \<Longrightarrow> gone i st'"
  by (induction rule: pj_run.induct) (auto intro: gone_step)

text \<open>a subscription that was given up stays silent: once no persona has it any more, events under
  its id are ignored for ever, and publish nothing.\<close>

theorem stale_subscription_ignored:
  assumes "pj_run sha stamp parse fr ls (s, y, used) (s', y', used')" and "i \<in> set used"
    and "\<And>x. x \<in> set (dict_values (pj_subscriptions s)) \<Longrightarrow> ss_subscription_id x \<noteq> i"
    and "ce_subscription_id msg = i"
  shows "handle_codex_thread_event parse stamp now bb msg s' = (False, s')"
proof -
  have "gone i (s, y, used)"
    using assms(2,3) by (auto simp: gone_def dict_values_def dest!: map_of_SomeD) force
  then have "gone i (s', y', used')" using gone_run [OF assms(1)] by blast
  then have "current_subscription msg s' = None"
    using assms(4) by (auto simp: gone_def current_subscription_def split: option.split)
  then show ?thesis by (simp add: handle_codex_thread_event_def)
qed

section \<open>Targets of instructions\<close>

lemma find_SomeD: "find P xs = Some x \<Longrightarrow> x \<in> set xs \<and> P x"
  by (induction xs) (auto split: if_splits)

lemma find_session_props:
  "find_codex_thread_session bb k thread = Some x \<Longrightarrow>
     x \<in> set (list_sessions bb) \<and> s_base_executor_id x = ''codex'' \<and> session_matches_thread_id x thread \<and>
     session_belongs_to_persona bb x k"
  unfolding find_codex_thread_session_def by (drule find_SomeD) simp

lemma find_task_props:
  "find_direct_task_thread bb k thread = Some t \<Longrightarrow>
     t \<in> set (list_tasks bb) \<and> task_thread_public_id t = Some thread \<and> task_belongs_to_persona (Some t) k"
  unfolding find_direct_task_thread_def by (drule find_SomeD) simp

lemma imported_target_props:
  assumes "imports_ok s" and "imported_target persona_id k s = Some (th, h)"
  shows "map_of (pj_imported s) k = Some th \<and> bt_thread_id th = k \<and> bt_persona_id th = persona_id \<and> handle_fits th h"
proof -
  have th: "map_of (pj_imported s) k = Some th" "map_of (pj_handles s) k = Some h" "bt_persona_id th = persona_id"
    using assms(2) by (simp_all add: imported_target_def split: option.splits if_splits)
  then show ?thesis
    using assms(1) table_ok_key [of bt_thread_id "pj_imported s" k th] unfolding imports_ok_def threads_ok_def by blast
qed

text \<open>C21: an instruction for a thread reaches the persona's own: a Codex session that one of the
  persona's tasks uses and that the id names, or an imported thread of the persona under this id,
  continued by the handle of its own native thread, or the thread that a task of the persona opened;
  and when there is none of them, it is refused.\<close>

theorem instruction_reaches_own_thread:
  assumes "pj_reachable sha stamp parse fr (s, y, used)" and "k \<noteq> []"
  shows "case resolve_bro_thread_target uid bb p (Some k) False None s of
      Inr tgt \<Rightarrow>
        (\<exists>x. tgt_session tgt = Some x \<and> tgt_handle tgt = None \<and> x \<in> set (list_sessions bb) \<and>
           s_base_executor_id x = ''codex'' \<and> session_matches_thread_id x k \<and>
           session_belongs_to_persona bb x (p_persona_id p) \<and> tgt_thread_id tgt = public_thread_id x) \<or>
        (\<exists>th h. tgt_session tgt = None \<and> tgt_handle tgt = Some h \<and> map_of (pj_imported s) k = Some th \<and>
           bt_persona_id th = p_persona_id p \<and> handle_fits th h \<and> tgt_thread_id tgt = k) \<or>
        (\<exists>t. tgt_session tgt = None \<and> tgt_handle tgt = None \<and> t \<in> set (list_tasks bb) \<and>
           task_thread_public_id t = Some k \<and> task_belongs_to_persona (Some t) (p_persona_id p) \<and>
           tgt_thread_id tgt = k)
    | Inl e \<Rightarrow> find_codex_thread_session bb (p_persona_id p) k = None \<and>
        imported_target (p_persona_id p) k s = None \<and> find_direct_task_thread bb (p_persona_id p) k = None"
proof -
  have ok: "imports_ok s" using pj_inv_reachable [OF assms(1)] by (simp add: pj_inv_def)
  have t: "str_truthy (Some k)" using assms(2) by (simp add: str_truthy_def)
  show ?thesis
  proof (cases "find_codex_thread_session bb (p_persona_id p) k")
    case (Some x)
    then show ?thesis using find_session_props [OF Some] t by (simp add: resolve_bro_thread_target_def)
  next
    case None
    note no_session = None
    show ?thesis
    proof (cases "imported_target (p_persona_id p) k s")
      case (Some th_h)
      obtain th h where "th_h = (th, h)" by (cases th_h)
      then show ?thesis
        using no_session Some imported_target_props [OF ok, of "p_persona_id p" k th h] t
        by (simp add: resolve_bro_thread_target_def)
    next
      case None
      then show ?thesis
        using no_session t find_task_props [of bb "p_persona_id p" k]
        by (cases "find_direct_task_thread bb (p_persona_id p) k")
          (auto simp: resolve_bro_thread_target_def no_session None)
    qed
  qed
qed

section \<open>Importing\<close>

text \<open>The threads that a sync is to import: of every node that answered, for each of its personas, every
  thread that lives on the node's disk and that no session continues.\<close>

definition wanted ::
    "(str \<Rightarrow> str) \<Rightarrow> (rat \<Rightarrow> str option) \<Rightarrow> projection \<Rightarrow> str list \<Rightarrow> (str \<Rightarrow> str + codex_threads_page) \<Rightarrow>
     str \<Rightarrow> persona list \<Rightarrow> bro_thread set" where
  "wanted sha stamp s continued ask node ps =
     (case ask node of
        Inl e \<Rightarrow> {}
      | Inr pg \<Rightarrow>
          {fst (project_imported_codex_thread sha stamp s p node x) | p x.
             p \<in> set ps \<and> x \<in> set (cp_threads pg) \<and> ctl_thread_id x \<notin> set continued \<and> \<not> is_ephemeral_codex_thread x})"

definition imports_step :: "bro_thread set \<Rightarrow> (str, bro_thread) dict \<Rightarrow> (str, bro_thread) dict \<Rightarrow> bool" where
  "imports_step A d d' \<longleftrightarrow>
     set (dict_values d') \<subseteq> set (dict_values d) \<union> A \<and>
     set (dict_keys d') = set (dict_keys d) \<union> bt_thread_id ` A"

lemma imports_step_refl [simp]: "imports_step {} d d"
  by (simp add: imports_step_def)

lemma imports_step_trans:
  "imports_step A d d' \<Longrightarrow> imports_step B d' d'' \<Longrightarrow> imports_step (A \<union> B) d d''"
  unfolding imports_step_def image_Un by blast

lemma imports_step_fold:
  assumes "\<And>x y. imports_step (A x) (g y) (g (f x y))"
  shows "imports_step (\<Union>x \<in> set xs. A x) (g y) (g (fold f xs y))"
proof (induction xs arbitrary: y)
  case (Cons x xs)
  show ?case using imports_step_trans [OF assms [of x y] Cons.IH [of "f x y"]] by simp
qed simp

lemma dict_values_put_subset: "set (dict_values (dict_put k v d)) \<subseteq> insert v (set (dict_values d))"
  unfolding dict_put_def dict_values_def by (induction d) auto

lemma imports_step_put: "imports_step {th} d (dict_put (bt_thread_id th) th d)"
  unfolding imports_step_def using dict_values_put_subset [of "bt_thread_id th" th d]
  by (auto simp: dict_keys_put)

lemma imports_step_persona:
  "imports_step {fst (project_imported_codex_thread sha stamp s p node x)} (sy_threads y)
     (sy_threads (import_for_persona sha stamp s node x p y))"
  by (cases "project_imported_codex_thread sha stamp s p node x")
    (simp add: import_for_persona_def imports_step_put)

lemma imports_step_thread:
  "imports_step
     (if ctl_thread_id x \<in> set continued \<or> is_ephemeral_codex_thread x then {}
      else \<Union>p \<in> set ps. {fst (project_imported_codex_thread sha stamp s p node x)})
     (sy_threads y) (sy_threads (import_thread sha stamp s node ps continued x y))"
  using imports_step_fold [where g = sy_threads and f = "import_for_persona sha stamp s node x" and xs = ps and y = y,
      OF imports_step_persona]
  by (simp add: import_thread_def)

lemma imports_step_reply:
  "imports_step (wanted sha stamp s continued ask node ps) (sy_threads y)
     (sy_threads (snd (sync_node_reply sha stamp continued node ps (ask node) (s, y))))"
proof (cases "ask node")
  case (Inr pg)
  let ?A = "\<lambda>x. if ctl_thread_id x \<in> set continued \<or> is_ephemeral_codex_thread x then {}
      else \<Union>p \<in> set ps. {fst (project_imported_codex_thread sha stamp s p node x)}"
  have "wanted sha stamp s continued ask node ps = (\<Union>x \<in> set (cp_threads pg). ?A x)"
    by (auto simp: wanted_def Inr)
  then show ?thesis
    using imports_step_fold [where g = sy_threads and f = "import_thread sha stamp s node ps continued"
        and xs = "cp_threads pg" and y = "y\<lparr>sy_pages := fold (\<lambda>p d. dict_put (p_persona_id p) [] d) ps (sy_pages y)\<rparr>",
        OF imports_step_thread]
    by (simp add: sync_node_reply_def Inr Let_def)
qed (simp add: sync_node_reply_def wanted_def)

lemma project_by_aliases:
  "pj_aliases s' = pj_aliases s \<Longrightarrow>
     project_imported_codex_thread sha stamp s' p node x = project_imported_codex_thread sha stamp s p node x"
  by (simp add: project_imported_codex_thread_def alias_or_imported_id_def)

lemma wanted_by_aliases:
  "pj_aliases s' = pj_aliases s \<Longrightarrow> wanted sha stamp s' continued ask node ps = wanted sha stamp s continued ask node ps"
  using project_by_aliases [of s' s] by (simp add: wanted_def split: sum.split)

lemma reply_keeps_aliases:
  "pj_aliases (fst (sync_node_reply sha stamp continued node ps reply (s, y))) = pj_aliases s"
  by (simp add: sync_node_reply_def Let_def split: sum.split)

lemma imports_step_nodes:
  "imports_step (\<Union>(node, ps) \<in> set nodes. wanted sha stamp s continued ask node ps) (sy_threads y)
     (sy_threads (snd (fold (\<lambda>(node, ps). sync_node_reply sha stamp continued node ps (ask node)) nodes (s', y))))"
  if "pj_aliases s' = pj_aliases s"
  using that
proof (induction nodes arbitrary: s' y)
  case (Cons q nodes)
  obtain node ps where q: "q = (node, ps)" by (cases q)
  let ?st = "sync_node_reply sha stamp continued node ps (ask node) (s', y)"
  have "imports_step (wanted sha stamp s continued ask node ps) (sy_threads y) (sy_threads (snd ?st))"
    using imports_step_reply [of sha stamp s' continued ask node ps y] wanted_by_aliases [OF Cons.prems] by simp
  moreover have "pj_aliases (fst ?st) = pj_aliases s" using Cons.prems by (simp add: reply_keeps_aliases)
  ultimately show ?case
    using imports_step_trans [OF _ Cons.IH [of "fst ?st" "snd ?st"]] by (simp add: q)
qed simp

text \<open>a sync that asks the nodes imports exactly what it should: every thread it shows is one that
  a node which answered listed for one of its personas, that is not ephemeral and that no session
  continues; and each of these is found under its id.\<close>

theorem sync_imports_exactly:
  assumes "sync_plan_of m now ps s = Sync_Ask nodes"
    and "sync_imported_codex_threads sha stamp m ask now later ps sessions s = (ths, s')"
  shows "set ths \<subseteq> (\<Union>(node, nps) \<in> set nodes. wanted sha stamp s (session_codex_thread_ids sessions) ask node nps) \<and>
    set (dict_keys (pj_imported s')) =
      bt_thread_id ` (\<Union>(node, nps) \<in> set nodes. wanted sha stamp s (session_codex_thread_ids sessions) ask node nps)"
proof -
  let ?f = "\<lambda>(node, nps). sync_node_reply sha stamp (session_codex_thread_ids sessions) node nps (ask node)"
  have "ths = dict_values (sy_threads (snd (fold ?f nodes (s, sync_result_empty))))"
    "pj_imported s' = sy_threads (snd (fold ?f nodes (s, sync_result_empty)))"
    using assms by (auto simp: sync_imported_codex_threads_def Let_def case_prod_beta sync_commit_def)
  moreover have "sy_threads sync_result_empty = []" by (simp add: sync_result_empty_def)
  ultimately show ?thesis
    using imports_step_nodes [of s s sha stamp "session_codex_thread_ids sessions" ask nodes sync_result_empty]
    by (simp add: imports_step_def dict_values_def)
qed

text \<open>A sync whose answer was taken before a thread existed forgets the thread when it ends, although an
  event has attached it in between; instructions for it are then refused.\<close>

lemma commit_forgets_new_thread:
  assumes "k \<notin> set (dict_keys (sy_threads y))"
  shows "imported_target persona_id k (sync_commit now y (attach_new_thread_handle bb q msg s)) = None"
  using assms by (simp add: imported_target_def sync_commit_def in_dict_keys_iff)

section \<open>Instances\<close>

definition native_sha :: "str \<Rightarrow> str" where
  "native_sha s = s"

definition native_stamp :: "rat \<Rightarrow> str option" where
  "native_stamp r = None"

definition native_parse :: "str \<Rightarrow> rat option" where
  "native_parse s = None"

definition native_fr :: "rat \<Rightarrow> str" where
  "native_fr r = ''0.0''"

definition native_persona :: persona where
  "native_persona =
     \<lparr>p_persona_id = ''p1'', p_name = ''Bro'', p_avatar = ''bro'', p_base_prompt = [],
      p_executor_node_id = Some ''node-1'', p_bro_detail_session_id = ''d1'', p_status = ''idle''\<rparr>"

definition native_thread :: codex_thread_item where
  "native_thread =
     \<lparr>ctl_thread_id = ''th1'', ctl_session_id = None, ctl_preview = None, ctl_title = Some ''Fix the tests'',
      ctl_cwd = Some ''/work'', ctl_path = None, ctl_status = Some ''idle'', ctl_created_at = Some 5,
      ctl_updated_at = None, ctl_cli_version = None, ctl_source = None, ctl_diagnostics = []\<rparr>"

definition native_page :: codex_threads_page where
  "native_page = \<lparr>cp_threads = [native_thread], cp_next_cursor = None, cp_previous_cursor = None\<rparr>"

definition native_history :: codex_turns_page where
  "native_history =
     \<lparr>cq_thread_id = ''th1'',
      cq_turns = [[(''id'', JStr ''T1''), (''status'', JStr ''completed''),
        (''items'', JList [JObj [(''type'', JStr ''agentMessage''), (''id'', JStr ''i1''), (''text'', JStr ''Done.'')]])]],
      cq_goal = None, cq_next_cursor = None, cq_previous_cursor = None\<rparr>"

definition native_listed :: projection where
  "native_listed = snd (finish_thread_page native_sha native_stamp [] native_persona ''node-1'' native_page projection_init)"

definition native_id :: str where
  "native_id = imported_bro_thread_id native_sha ''p1'' ''th1''"

definition native_loaded :: projection where
  "native_loaded =
     snd (finish_load_timeline native_stamp native_fr ''now'' native_id ''th1'' native_persona (Inr native_history) native_listed)"

lemma native_listed_step:
  "pj_step native_sha native_stamp native_parse native_fr None (projection_init, None, []) (native_listed, None, [])"
  unfolding native_listed_def
  by (rule pj_step.thread_page [of native_persona]) (simp add: begin_thread_page_def native_persona_def)

lemma native_listed_run:
  "pj_run native_sha native_stamp native_parse native_fr [None] (projection_init, None, []) (native_listed, None, [])"
  using pj_run.run_step [OF pj_run.run_refl native_listed_step] by simp

lemma native_load_step:
  "pj_step native_sha native_stamp native_parse native_fr None (native_listed, None, []) (native_loaded, None, [])"
  unfolding native_loaded_def by (rule pj_step.load_done)

lemma native_reachable:
  "pj_reachable native_sha native_stamp native_parse native_fr (native_listed, None, [])"
  "pj_reachable native_sha native_stamp native_parse native_fr (native_loaded, None, [])"
  unfolding pj_reachable_def
  using native_listed_run pj_run.run_step [OF native_listed_run native_load_step] by blast+

lemma native_loaded_turns:
  "map (\<lambda>t. (tt_turn_id t, turn_settled t, tt_assistant t \<noteq> None)) (dd_get (pj_turns native_loaded) native_id) =
     [(native_id @ '':codex:T1'', True, True)]"
  by code_simp


definition native_request :: subscribe_request where
  "native_request =
     \<lparr>sb_persona_id = ''p1'', sb_thread_id = native_id, sb_continuity_key = native_id,
      sb_handle = the (map_of (pj_handles native_loaded) native_id), sb_node_id = ''node-1''\<rparr>"

definition native_subscribed :: projection where
  "native_subscribed = snd (begin_thread_subscription ''1'' native_request native_loaded)"

definition native_subscription :: selected_subscription where
  "native_subscription = new_subscription ''1'' native_request native_loaded"

lemma native_subscribe_result:
  "begin_thread_subscription ''1'' native_request native_loaded = (Some (None, native_subscription), native_subscribed)"
proof -
  have "map_of (pj_subscriptions native_loaded) ''p1'' = None" by code_simp
  then show ?thesis
    by (simp add: native_subscribed_def native_subscription_def begin_thread_subscription_def native_request_def)
qed

lemma native_subscribe_step:
  "pj_step native_sha native_stamp native_parse native_fr None (native_loaded, None, [])
     (native_subscribed, None, [''codex-sub-1''])"
proof -
  have "ss_subscription_id native_subscription = ''codex-sub-1''"
    by (simp add: native_subscription_def new_subscription_def)
  then show ?thesis using pj_step.subscribe [OF native_subscribe_result, of "[]"] by simp
qed

lemma given_answer_stays_witness:
  "\<exists>t' \<in> set (dd_get (pj_turns native_subscribed) native_id).
     tt_turn_id t' = native_id @ '':codex:T1'' \<and> turn_settled t' \<and> tt_assistant t' \<noteq> None"
proof -
  obtain t where t: "dd_get (pj_turns native_loaded) native_id = [t]"
    "tt_turn_id t = native_id @ '':codex:T1''" "turn_settled t" "tt_assistant t \<noteq> None"
    using native_loaded_turns by auto
  have run: "pj_run native_sha native_stamp native_parse native_fr [None] (native_loaded, None, [])
      (native_subscribed, None, [''codex-sub-1''])"
    using pj_run.run_step [OF pj_run.run_refl native_subscribe_step] by simp
  show ?thesis using given_answer_stays [OF run, of native_id t] t by auto
qed

definition native_delta :: codex_thread_event where
  "native_delta =
     \<lparr>ce_subscription_id = ''codex-sub-1'', ce_node_id = ''node-1'', ce_target_persona_id = ''p1'',
      ce_target_thread_id = native_id, ce_thread_id = ''th1'', ce_method = ''item/agentMessage/delta'',
      ce_params = [(''turnId'', JStr ''T2''), (''itemId'', JStr ''i2''), (''delta'', JStr ''Looking'')]\<rparr>"

definition native_commenting :: projection where
  "native_commenting = native_subscribed\<lparr>pj_item_phase := [((native_id, ''T2'', ''i2''), ''commentary'')]\<rparr>"

lemma commentary_never_answers_witness:
  "answers (snd (handle_codex_thread_event native_parse native_stamp ''now'' bb_init native_delta native_commenting)) =
     answers native_commenting"
proof -
  have id: "ss_public_thread_id native_subscription = native_id" "ss_subscription_id native_subscription = ''codex-sub-1''"
    "ss_node_id native_subscription = ''node-1''"
    by (simp_all add: native_subscription_def new_subscription_def native_request_def)
  have "pj_subscriptions native_loaded = []" by code_simp
  then have "map_of (pj_subscriptions native_commenting) ''p1'' = Some native_subscription"
    by (simp add: native_commenting_def native_subscribed_def begin_thread_subscription_def native_subscription_def)
      (simp add: native_request_def)
  moreover have "ss_codex_thread_id native_subscription = ''th1''" by code_simp
  ultimately have "current_subscription native_delta native_commenting = Some native_subscription"
    using id by (simp add: current_subscription_def native_delta_def)
  moreover have "streams_commentary native_subscription native_delta native_commenting"
    using id by (simp add: streams_commentary_def native_delta_def native_commenting_def jget_def jor_def)
  ultimately show ?thesis using commentary_never_answers by blast
qed

definition native_unsubscribed :: projection where
  "native_unsubscribed = snd (begin_thread_unsubscription ''p1'' None native_subscribed)"

lemma stale_subscription_ignored_witness:
  "handle_codex_thread_event native_parse native_stamp ''now'' bb_init native_delta native_unsubscribed =
     (False, native_unsubscribed)"
proof (rule stale_subscription_ignored [OF pj_run.run_refl])
  show "ce_subscription_id native_delta = ''codex-sub-1''" by (simp add: native_delta_def)
  show "''codex-sub-1'' \<in> set [''codex-sub-1'']" by simp
  show "ss_subscription_id x \<noteq> ''codex-sub-1''" if "x \<in> set (dict_values (pj_subscriptions native_unsubscribed))" for x
  proof -
    have "pj_subscriptions native_unsubscribed = []" by code_simp
    then show ?thesis using that by (simp add: dict_values_def)
  qed
qed

lemma instruction_reaches_own_thread_witness:
  "map_option tgt_thread_id (case resolve_bro_thread_target ''1'' bb_init native_persona (Some native_id) False None native_listed of
       Inr tgt \<Rightarrow> Some tgt | Inl e \<Rightarrow> None) = Some native_id"
proof -
  have "native_id \<noteq> []" by code_simp
  moreover have "imported_target (p_persona_id native_persona) native_id native_listed \<noteq> None"
    and "list_sessions bb_init = []" and "list_tasks bb_init = []" by code_simp+
  ultimately show ?thesis
    using instruction_reaches_own_thread [OF native_reachable(1), of native_id bb_init native_persona "''1''"]
    by (auto split: sum.splits)
qed

definition native_nodes :: node_manager where
  "native_nodes = (node_manager_init [] registry_empty)
     \<lparr>nm_connections := [(''node-1'',
        \<lparr>nc_websocket = 1, nc_node_id = ''node-1'', nc_connected_at = ''now'', nc_metadata = [],
         nc_executors = [(''codex'',
           \<lparr>xe_executor_type = ''codex'', xe_supports_resume = True, xe_supports_follow_up = True,
            xe_supports_audio_instruction = False, xe_supports_thread_list = True, xe_supports_pause = False,
            xe_supports_cancel = True, xe_version = None, xe_minimum_version = None,
            xe_availability_reason = None, xe_skills = []\<rparr>)]\<rparr>)]\<rparr>"

lemma sync_imports_exactly_witness:
  "bt_thread_id ` wanted native_sha native_stamp projection_init [] (\<lambda>_. Inr native_page) ''node-1'' [native_persona] =
     set (dict_keys (pj_imported (snd (sync_imported_codex_threads native_sha native_stamp native_nodes
       (\<lambda>_. Inr native_page) 9 10 [native_persona] [] projection_init))))"
proof -
  obtain ths s' where r: "sync_imported_codex_threads native_sha native_stamp native_nodes
      (\<lambda>_. Inr native_page) 9 10 [native_persona] [] projection_init = (ths, s')"
    by (cases "sync_imported_codex_threads native_sha native_stamp native_nodes
      (\<lambda>_. Inr native_page) 9 10 [native_persona] [] projection_init")
  have "eligible_personas native_nodes [native_persona] = [native_persona]" by code_simp
  then have plan: "sync_plan_of native_nodes 9 [native_persona] projection_init = Sync_Ask [(''node-1'', [native_persona])]"
    by (simp add: sync_plan_of_def sync_is_recent_def projection_init_def personas_by_node_def native_persona_def
        dd_append_def dict_put_def)
  show ?thesis
    using sync_imports_exactly [OF plan r] r by (simp add: session_codex_thread_ids_def List.map_filter_def)
qed

end
