(* ===== verification/DirectTurn.thy ===== *)
theory DirectTurn
  imports Projection
begin

text \<open>
  \<open>src/newbro/runtime/direct_turn_starter.py\<close> and \<open>direct_executor.py\<close>: instructions that the user types
  or speaks to a bro. An instruction is resolved to a thread (\<open>Projection\<close>), then either a turn is
  started on the persona's node, recorded as an outbound request of the blackboard, or, when a run of
  that thread is active, it is dispatched to the run. The state is the blackboard and the node
  manager; the projection is only read. Fresh ids, clock readings and whether the socket takes a
  message (\<open>ok\<close>) are arguments. A task that the code changes in place is put back at once, so it is a
  record that is updated. A transcription is awaited: \<open>begin_audio\<close> ends where the node is asked, and
  \<open>finish_transcription\<close> goes on with its answer. Metrics and snapshots are left out.
\<close>

type_synonym direct_state = "blackboard \<times> node_manager"

section \<open>Starting a turn\<close>

text \<open>Written out a second time in \<open>direct_turn_starter.py\<close>.\<close>

definition workspace_name_from_id :: "str option \<Rightarrow> str option" where
  "workspace_name_from_id w = workspace_name w"

record turn_start =
  tn_persona :: persona
  tn_public_thread_id :: str
  tn_continuity_key :: str
  tn_session :: "execution_session option"
  tn_handle :: "agent_resume_handle option"
  tn_instruction :: text_instruction
  tn_create_new_thread :: bool
  tn_workspace_id :: "str option"
  tn_client_request_id :: "str option"
  tn_input_modality :: str
  tn_source :: str
  tn_node_not_ready_label :: str
  tn_plan_mode :: bool
  tn_skill :: "jdict option"
  tn_audio_instruction_id :: "str option"
  tn_metadata :: jdict

definition latest_handle :: "turn_start \<Rightarrow> agent_resume_handle option" where
  "latest_handle a =
     opt_else (tn_handle a) (case tn_session a of Some x \<Rightarrow> s_latest_resume_handle x | None \<Rightarrow> None)"

definition handle_json :: "agent_resume_handle \<Rightarrow> json" where
  "handle_json h =
     JObj [(''executor_id'', JStr (h_executor_id h)), (''session_handle'', json_of_str (h_session_handle h)),
           (''turn_handle'', json_of_str (h_turn_handle h)), (''opaque'', JObj (h_opaque h))]"

definition opt_entry :: "str \<Rightarrow> json option \<Rightarrow> jdict" where
  "opt_entry k v = (case v of Some x \<Rightarrow> [(k, x)] | None \<Rightarrow> [])"

definition truthy_dict :: "jdict option \<Rightarrow> jdict option" where
  "truthy_dict d = (case d of Some (p # ps) \<Rightarrow> Some (p # ps) | _ \<Rightarrow> None)"

definition nonempty_str :: "str option \<Rightarrow> str option" where
  "nonempty_str v = (if str_truthy v then v else None)"

definition handle_entries :: "agent_resume_handle \<Rightarrow> jdict" where
  "handle_entries h =
     (''latest_resume_handle'', handle_json h) #
     opt_entry ''codex_thread_id'' (map_option JStr (nonempty_str (h_session_handle h))) @
     opt_entry ''codex_import_cwd'' (map_option JStr (jstr_nonempty (jget (h_opaque h) ''cwd'')))"

definition outbound_metadata :: "turn_start \<Rightarrow> jdict" where
  "outbound_metadata a =
     dict_merge
       ([(''source'', JStr (tn_source a)), (''instruction_id'', JStr (ti_instruction_id (tn_instruction a))),
         (''thread_continuity_key'', JStr (tn_continuity_key a)),
         (''thread_mode'', JStr (if tn_create_new_thread a then ''new_thread'' else ''resume'')),
         (''resume'', JBool (\<not> tn_create_new_thread a))] @
        (if tn_plan_mode a then [(''plan_mode'', JBool True)]
         else if tn_source a = ''bro_detail_text'' then [(''plan_mode'', JBool False)] else []) @
        opt_entry ''skill'' (map_option JObj (truthy_dict (tn_skill a))) @
        opt_entry ''client_request_id'' (map_option JStr (tn_client_request_id a)) @
        opt_entry ''execution_session_id'' (map_option (JStr \<circ> s_execution_session_id) (tn_session a)) @
        (case latest_handle a of Some h \<Rightarrow> handle_entries h | None \<Rightarrow> []) @
        (if tn_create_new_thread a \<and> str_truthy (tn_workspace_id a)
         then [(''workspace_name'', JStr (str_or_else (workspace_name_from_id (tn_workspace_id a)) (the (tn_workspace_id a))))]
         else []))
       (tn_metadata a)"

definition pending_request :: "str \<Rightarrow> str \<Rightarrow> turn_start \<Rightarrow> str \<Rightarrow> outbound_turn_request" where
  "pending_request uid now a node =
     \<lparr>o_request_id = ''out-turn-'' @ uid, o_persona_id = p_persona_id (tn_persona a), o_executor_id = ''codex'',
      o_executor_node_id = node, o_target_thread_id = Some (tn_public_thread_id a),
      o_create_new_thread = tn_create_new_thread a,
      o_workspace_id = (if tn_create_new_thread a then tn_workspace_id a else None),
      o_client_request_id = tn_client_request_id a, o_input_modality = tn_input_modality a,
      o_text = Some (ti_text (tn_instruction a)), o_audio_instruction_id = tn_audio_instruction_id a,
      o_plan_mode = tn_plan_mode a, o_status = ''pending'', o_error = None, o_executor_thread_id = None,
      o_executor_turn_id = None, o_created_at = Some now, o_updated_at = Some now,
      o_metadata = outbound_metadata a\<rparr>"

definition start_command :: "outbound_turn_request \<Rightarrow> turn_start \<Rightarrow> start_codex_turn_command" where
  "start_command q a =
     \<lparr>st_request_id = o_request_id q, st_target_persona_id = p_persona_id (tn_persona a),
      st_target_thread_id = tn_public_thread_id a, st_thread_id = None,
      st_create_new_thread = tn_create_new_thread a,
      st_workspace_id = (if tn_create_new_thread a then tn_workspace_id a else None),
      st_instruction = tn_instruction a, st_latest_resume_handle = latest_handle a,
      st_metadata = outbound_metadata a\<rparr>"

definition not_ready_message :: "str \<Rightarrow> str" where
  "not_ready_message label = ''Selected Bro's Codex executor node is not ready for '' @ label @ ''.''"

text \<open>The result is the id of the outbound request. A persona without a node cannot be written into the
  request, which raises.\<close>

definition start_turn ::
    "str \<Rightarrow> str \<Rightarrow> str \<Rightarrow> str \<Rightarrow> bool \<Rightarrow> turn_start \<Rightarrow> direct_state \<Rightarrow> str result \<times> direct_state" where
  "start_turn uid requested_at now ended_at ok a st =
     (let (bb, m) = st in
      if \<not> tn_create_new_thread a \<and> latest_handle a = None then
        (Inl (ValueError ''Selected Bro has no active Codex execution session.''), st)
      else
        (case p_executor_node_id (tn_persona a) of
           None \<Rightarrow> (Inl (ValueError ''executor_node_id''), st)
         | Some node \<Rightarrow>
             (let q = pending_request uid requested_at a node;
                  bb1 = put_outbound_turn_request q bb;
                  (started, m1) = start_codex_turn now ok node (start_command q a) m;
                  err = not_ready_message (tn_node_not_ready_label a)
              in case started of
                   Inl e \<Rightarrow> (Inl e, bb1, m1)
                 | Inr False \<Rightarrow>
                     (Inl (ValueError err),
                      put_outbound_turn_request
                        (q\<lparr>o_status := ''failed'', o_error := Some err, o_updated_at := Some ended_at\<rparr>) bb1, m1)
                 | Inr True \<Rightarrow>
                     (Inr (o_request_id q),
                      put_outbound_turn_request (q\<lparr>o_status := ''accepted'', o_updated_at := Some ended_at\<rparr>) bb1, m1))))"

section \<open>What an instruction needs\<close>

text \<open>A skill that the catalogue has and that is enabled, or the mark that it was dropped.\<close>

definition resolve_skill :: "str option \<Rightarrow> executor_skill list \<Rightarrow> jdict option \<times> jdict option" where
  "resolve_skill name catalog =
     (if \<not> str_truthy name then (None, None)
      else
        (case find (\<lambda>k. sk_name k = the name \<and> sk_enabled k) catalog of
           Some k \<Rightarrow>
             (Some [(''name'', JStr (sk_name k)), (''path'', JStr (sk_path k)),
                    (''display_name'', JStr (sk_display_name k))], None)
         | None \<Rightarrow> (None, Some [(''name'', JStr (the name)), (''reason'', JStr ''not_available'')])))"

definition mark_direct_input :: "str \<Rightarrow> str \<Rightarrow> jdict \<Rightarrow> jdict" where
  "mark_direct_input now source md =
     (let sources = (case jget md ''direct_executor_input_sources'' of
            JList xs \<Rightarrow> List.map_filter jstr xs | _ \<Rightarrow> []);
          sources' = (if source \<in> set sources then sources else sources @ [source])
      in dict_put ''suppress_communication_notifications'' (JBool True)
           (dict_put ''updated_at'' (JStr now)
             (dict_put ''direct_executor_input_sources'' (JList (map JStr sources')) md)))"

definition ready_persona ::
    "(str \<Rightarrow> bool) \<Rightarrow> str \<Rightarrow> str \<Rightarrow> direct_state \<Rightarrow> persona result" where
  "ready_persona supports unsupported persona_id st =
     (case get_persona (fst st) persona_id of
        None \<Rightarrow> Inl (ValueError ''Selected Bro is not available.'')
      | Some p \<Rightarrow>
          if \<not> str_truthy (p_executor_node_id p) then
            Inl (ValueError ''Selected Bro is not bound to an executor node.'')
          else if \<not> is_executor_connected (snd st) ''codex'' (p_executor_node_id p) then
            Inl (ValueError ''Selected Bro's Codex executor node is not connected.'')
          else if \<not> supports (the (p_executor_node_id p)) then Inl (ValueError unsupported)
          else Inr p)"

text \<open>The run that an instruction for the thread joins.\<close>

definition active_codex_execution ::
    "blackboard \<Rightarrow> str \<Rightarrow> str \<Rightarrow> (execution_session \<times> execution_run) option" where
  "active_codex_execution bb persona_id thread =
     (if get_persona bb persona_id = None then None
      else
        (case List.map_filter (\<lambda>x.
             if s_base_executor_id x = ''codex'' \<and> str_truthy (s_active_run_id x) \<and> session_matches_thread_id x thread
             then (case get_run bb (the (s_active_run_id x)) of
                     None \<Rightarrow> None
                   | Some r \<Rightarrow>
                       if r_executor_type r = ''codex'' \<and> r_status r \<in> set audio_active_run_statuses
                       then Some (x, r) else None)
             else None) (list_sessions bb) of
           [] \<Rightarrow> None
         | p # _ \<Rightarrow> Some p))"

section \<open>Text\<close>

record text_submission =
  tx_persona_id :: str
  tx_text :: str
  tx_target_thread_id :: "str option"
  tx_create_new_thread :: bool
  tx_workspace_id :: "str option"
  tx_client_request_id :: "str option"
  tx_plan_mode :: bool
  tx_skill_name :: "str option"

definition typed_instruction ::
    "str \<Rightarrow> text_submission \<Rightarrow> str \<Rightarrow> jdict option \<Rightarrow> jdict option \<Rightarrow> text_instruction" where
  "typed_instruction uid x thread skill dropped =
     \<lparr>ti_instruction_id = ''txt-'' @ uid, ti_target_persona_id = tx_persona_id x, ti_target_thread_id = Some thread,
      ti_text = py_strip (tx_text x), ti_source_audio_instruction_id = None,
      ti_metadata =
        [(''source'', JStr ''bro_detail_text''), (''target_thread_id'', JStr thread),
         (''client_request_id'', json_of_str (tx_client_request_id x)), (''plan_mode'', JBool (tx_plan_mode x))] @
        opt_entry ''skill'' (map_option JObj skill) @ opt_entry ''skill_dropped'' (map_option JObj dropped)\<rparr>"

definition put_or_pop :: "str \<Rightarrow> jdict option \<Rightarrow> jdict \<Rightarrow> jdict" where
  "put_or_pop k v d = (case v of Some x \<Rightarrow> dict_put k (JObj x) d | None \<Rightarrow> dict_pop k d)"

definition typed_task_metadata ::
    "str \<Rightarrow> text_submission \<Rightarrow> jdict option \<Rightarrow> jdict option \<Rightarrow> jdict \<Rightarrow> jdict" where
  "typed_task_metadata now x skill dropped md =
     put_or_pop ''skill_dropped'' dropped
       (put_or_pop ''skill'' skill
         (dict_put ''mode'' (JStr (if tx_plan_mode x then ''proposal_only'' else ''modify_allowed''))
           (dict_put ''plan_mode'' (JBool (tx_plan_mode x))
             (dict_put ''client_request_id'' (json_of_str (tx_client_request_id x))
               (mark_direct_input now ''bro_detail_text'' md)))))"

definition note_task :: "str option \<Rightarrow> (jdict \<Rightarrow> jdict) \<Rightarrow> str \<Rightarrow> blackboard \<Rightarrow> blackboard" where
  "note_task ctx f k bb =
     (case get_task bb k of
        None \<Rightarrow> bb
      | Some t \<Rightarrow> put_task ctx (t\<lparr>t_metadata := f (t_metadata t)\<rparr>) bb)"

definition thread_turn ::
    "persona \<Rightarrow> thread_target \<Rightarrow> text_instruction \<Rightarrow> bool \<Rightarrow> str option \<Rightarrow> str option \<Rightarrow> turn_start" where
  "thread_turn p tgt i create workspace client =
     \<lparr>tn_persona = p, tn_public_thread_id = tgt_thread_id tgt, tn_continuity_key = tgt_continuity_key tgt,
      tn_session = tgt_session tgt, tn_handle = tgt_handle tgt, tn_instruction = i,
      tn_create_new_thread = create, tn_workspace_id = (if create then workspace else None),
      tn_client_request_id = client, tn_input_modality = ''text'', tn_source = ''bro_detail_text'',
      tn_node_not_ready_label = ''text'', tn_plan_mode = False, tn_skill = None,
      tn_audio_instruction_id = None, tn_metadata = []\<rparr>"

text \<open>The ids of the thread, the instruction and the request, and the instants of the steps.\<close>

record fresh =
  fr_thread :: str
  fr_instruction :: str
  fr_request :: str
  fr_requested_at :: str
  fr_now :: str
  fr_ended_at :: str

definition submit_text_instruction ::
    "str option \<Rightarrow> fresh \<Rightarrow> bool \<Rightarrow> text_submission \<Rightarrow> projection \<Rightarrow> direct_state \<Rightarrow>
     text_instruction result \<times> direct_state" where
  "submit_text_instruction ctx f ok x pj st =
     (let (bb, m) = st in
      case ready_persona (executor_supports_follow_up m ''codex'')
             ''Selected Bro's executor node does not support text follow-up instructions.'' (tx_persona_id x) st of
        Inl e \<Rightarrow> (Inl e, st)
      | Inr p \<Rightarrow>
          (let (skill, dropped) = resolve_skill (tx_skill_name x) (codex_skills_for_node m (p_executor_node_id p));
               workspace = map_option py_strip (tx_workspace_id x)
           in case resolve_bro_thread_target (fr_thread f) bb p (tx_target_thread_id x) (tx_create_new_thread x)
                     workspace pj of
                Inl e \<Rightarrow> (Inl e, st)
              | Inr tgt \<Rightarrow>
                  (let i = typed_instruction (fr_instruction f) (x\<lparr>tx_persona_id := p_persona_id p\<rparr>)
                         (tgt_thread_id tgt) skill dropped
                   in case active_codex_execution bb (p_persona_id p) (tgt_thread_id tgt) of
                        None \<Rightarrow>
                          map_prod (map_sum id (\<lambda>_. i)) id
                            (start_turn (fr_request f) (fr_requested_at f) (fr_now f) (fr_ended_at f) ok
                              ((thread_turn p tgt i (tx_create_new_thread x) workspace (tx_client_request_id x))
                                 \<lparr>tn_plan_mode := tx_plan_mode x, tn_skill := skill\<rparr>) st)
                      | Some (session, r) \<Rightarrow>
                          (let bb1 = note_task ctx (typed_task_metadata (fr_requested_at f) x skill dropped)
                                 (r_task_id r) bb;
                               (dispatched, m1) = dispatch_text_instruction (fr_now f) ok (r_run_id r)
                                 (s_execution_session_id session) ''codex'' (r_task_id r)
                                 (the (p_executor_node_id p)) i m
                           in (if dispatched then Inr i
                               else Inl (ValueError ''Selected Bro's Codex executor node is not ready for text.''),
                               bb1, m1)))))"

section \<open>Speech\<close>

record audio_submission =
  ax_persona_id :: str
  ax_target_thread_id :: "str option"
  ax_create_new_thread :: bool
  ax_workspace_id :: "str option"
  ax_client_request_id :: "str option"
  ax_pcm16_b64 :: str
  ax_mime_type :: str
  ax_duration_ms :: int
  ax_sample_rate :: int
  ax_num_channels :: int
  ax_samples_per_channel :: int
  ax_size_bytes :: int

definition client_entry :: "str option \<Rightarrow> jdict" where
  "client_entry client = opt_entry ''client_request_id'' (map_option JStr (nonempty_str client))"

definition spoken_instruction :: "str \<Rightarrow> audio_submission \<Rightarrow> str \<Rightarrow> audio_instruction" where
  "spoken_instruction uid x thread =
     \<lparr>ai_audio_instruction_id = ''aud-'' @ uid, ai_target_persona_id = ax_persona_id x,
      ai_target_thread_id = Some thread, ai_pcm16_b64 = ax_pcm16_b64 x, ai_mime_type = ax_mime_type x,
      ai_duration_ms = ax_duration_ms x, ai_sample_rate = ax_sample_rate x, ai_num_channels = ax_num_channels x,
      ai_samples_per_channel = ax_samples_per_channel x, ai_size_bytes = ax_size_bytes x,
      ai_metadata =
        [(''source'', JStr ''bro_detail_ptt''), (''target_thread_id'', JStr thread)] @
        client_entry (ax_client_request_id x)\<rparr>"

definition spoken_task_metadata :: "str \<Rightarrow> thread_target \<Rightarrow> audio_instruction \<Rightarrow> str option \<Rightarrow> jdict \<Rightarrow> jdict" where
  "spoken_task_metadata now tgt audio client md =
     (let d = dict_put ''source_audio_instruction_id'' (JStr (ai_audio_instruction_id audio))
            (dict_put ''target_thread_id'' (JStr (tgt_thread_id tgt))
              (dict_put ''bro_thread_id'' (JStr (tgt_continuity_key tgt)) (mark_direct_input now ''bro_detail_ptt'' md)))
      in if str_truthy client then dict_put ''client_request_id'' (JStr (the client)) d else d)"

text \<open>The audio went to the active run, or the node is asked to transcribe it.\<close>

datatype audio_begun =
    Audio_Dispatched audio_instruction
  | Audio_To_Transcribe persona thread_target audio_instruction

definition begin_audio ::
    "str option \<Rightarrow> fresh \<Rightarrow> bool \<Rightarrow> audio_submission \<Rightarrow> projection \<Rightarrow> direct_state \<Rightarrow>
     audio_begun result \<times> direct_state" where
  "begin_audio ctx f ok x pj st =
     (let (bb, m) = st in
      case ready_persona (executor_supports_audio_instruction m ''codex'')
             ''Selected Bro's executor node does not support audio transcription instructions.'' (ax_persona_id x) st of
        Inl e \<Rightarrow> (Inl e, st)
      | Inr p \<Rightarrow>
          (case resolve_bro_thread_target (fr_thread f) bb p (ax_target_thread_id x) (ax_create_new_thread x)
                  (map_option py_strip (ax_workspace_id x)) pj of
             Inl e \<Rightarrow> (Inl e, st)
           | Inr tgt \<Rightarrow>
               (let audio = spoken_instruction (fr_instruction f) (x\<lparr>ax_persona_id := p_persona_id p\<rparr>) (tgt_thread_id tgt)
                in case active_codex_execution bb (p_persona_id p) (tgt_thread_id tgt) of
                     None \<Rightarrow> (Inr (Audio_To_Transcribe p tgt audio), st)
                   | Some (session, r) \<Rightarrow>
                       (let bb1 = note_task ctx
                              (spoken_task_metadata (fr_requested_at f) tgt audio (ax_client_request_id x)) (r_task_id r) bb;
                            (dispatched, m1) = dispatch_audio_instruction (fr_now f) ok (r_run_id r)
                              (s_execution_session_id session) ''codex'' (r_task_id r) (the (p_executor_node_id p)) audio m
                        in (if dispatched then Inr (Audio_Dispatched audio)
                            else Inl (ValueError ''Selected Bro's Codex executor node is not ready for audio.''),
                            bb1, m1)))))"

record transcription =
  tr_transcript_text :: "str option"
  tr_language :: "str option"
  tr_duration_seconds :: "rat option"
  tr_metadata :: jdict

definition transcribed_audio :: "transcription \<Rightarrow> str \<Rightarrow> audio_instruction \<Rightarrow> audio_instruction" where
  "transcribed_audio t transcript audio =
     audio\<lparr>ai_metadata := dict_merge (dict_merge (ai_metadata audio)
       [(''source'', JStr ''executor_node_whisper''),
        (''source_audio_instruction_id'', JStr (ai_audio_instruction_id audio)),
        (''transcript_text'', JStr transcript), (''transcription_language'', JStr (str_or_else (tr_language t) [])),
        (''transcription_duration_seconds'',
           case tr_duration_seconds t of Some d \<Rightarrow> if d = 0 then JInt 0 else JFloat d | None \<Rightarrow> JInt 0)])
       (tr_metadata t)\<rparr>"

definition transcript_entries :: "str \<Rightarrow> str \<Rightarrow> jdict" where
  "transcript_entries audio_id transcript =
     [(''source_audio_instruction_id'', JStr audio_id), (''transcript_text'', JStr transcript)]"

definition transcript_instruction :: "str \<Rightarrow> str \<Rightarrow> str \<Rightarrow> str \<Rightarrow> text_instruction" where
  "transcript_instruction persona_id thread audio_id transcript =
     \<lparr>ti_instruction_id = ''txt-'' @ audio_id, ti_target_persona_id = persona_id, ti_target_thread_id = Some thread,
      ti_text = transcript, ti_source_audio_instruction_id = Some audio_id,
      ti_metadata = [(''source'', JStr ''executor_node_whisper''), (''target_thread_id'', JStr thread)] @
        transcript_entries audio_id transcript\<rparr>"

text \<open>\<open>answer\<close> is the node's answer, \<open>Inl\<close> an exception; of those only \<open>RuntimeError\<close> is turned into
  \<open>ValueError\<close>.\<close>

definition as_value_error :: "py_error \<Rightarrow> py_error" where
  "as_value_error e = (case e of RuntimeError msg \<Rightarrow> ValueError msg | _ \<Rightarrow> e)"

definition finish_transcription ::
    "fresh \<Rightarrow> bool \<Rightarrow> audio_submission \<Rightarrow> persona \<Rightarrow> thread_target \<Rightarrow> audio_instruction \<Rightarrow>
     transcription result \<Rightarrow> direct_state \<Rightarrow> audio_instruction result \<times> direct_state" where
  "finish_transcription f ok x p tgt audio answer st =
     (case answer of
        Inl e \<Rightarrow> (Inl (as_value_error e), st)
      | Inr t \<Rightarrow>
          (let transcript = py_strip (str_or_else (tr_transcript_text t) []);
               audio_id = ai_audio_instruction_id audio;
               i = transcript_instruction (p_persona_id p) (tgt_thread_id tgt) audio_id transcript
           in if transcript = [] then (Inl (ValueError ''Audio transcription produced no instruction text.''), st)
              else
                map_prod (map_sum id (\<lambda>_. transcribed_audio t transcript audio)) id
                  (start_turn (fr_request f) (fr_requested_at f) (fr_now f) (fr_ended_at f) ok
                    ((thread_turn p tgt (i\<lparr>ti_metadata := ti_metadata i @ client_entry (ax_client_request_id x)\<rparr>)
                        (ax_create_new_thread x) (map_option py_strip (ax_workspace_id x)) (ax_client_request_id x))
                       \<lparr>tn_input_modality := ''audio'', tn_source := ''bro_detail_ptt'', tn_node_not_ready_label := ''audio'',
                        tn_audio_instruction_id := Some audio_id, tn_metadata := transcript_entries audio_id transcript\<rparr>)
                    st)))"

section \<open>Tasks from transcripts\<close>

definition opaque_string :: "agent_resume_handle option \<Rightarrow> str \<Rightarrow> str option" where
  "opaque_string h k = (case h of None \<Rightarrow> None | Some h \<Rightarrow> jstr_nonempty (jget (h_opaque h) k))"

definition transcript_task_metadata ::
    "str \<Rightarrow> persona \<Rightarrow> thread_target \<Rightarrow> text_instruction \<Rightarrow> str \<Rightarrow> jdict \<Rightarrow> jdict" where
  "transcript_task_metadata now p tgt i source extra =
     dict_merge
       ([(''immutable'', JBool True), (''source_kind'', JStr source), (''assigned_bro_id'', JStr (p_persona_id p)),
         (''persona_id'', JStr (p_persona_id p)), (''persona_name'', JStr (p_name p)),
         (''persona_avatar'', JStr (p_avatar p)), (''bro_detail_session_id'', JStr (p_bro_detail_session_id p)),
         (''bro_thread_id'', JStr (tgt_continuity_key tgt)), (''target_thread_id'', JStr (tgt_thread_id tgt)),
         (''executor_node_id'', json_of_str (p_executor_node_id p)), (''instruction_id'', JStr (ti_instruction_id i)),
         (''codex_thread_mode'',
            JStr (if tgt_session tgt \<noteq> None \<or> tgt_handle tgt \<noteq> None then ''resume'' else ''start'')),
         (''mode'', JStr (if jget (ti_metadata i) ''plan_mode'' = JBool True then ''proposal_only'' else ''modify_allowed'')),
         (''created_at'', JStr now), (''updated_at'', JStr now),
         (''suppress_communication_notifications'', JBool True)] @
        (case tgt_handle tgt of
           Some h \<Rightarrow>
             if str_truthy (h_session_handle h) then
               [(''codex_import_thread_id'', json_of_str (h_session_handle h)), (''codex_imported_thread'', JBool True)] @
               opt_entry ''codex_import_cwd'' (map_option JStr (opaque_string (Some h) ''cwd'')) @
               opt_entry ''codex_import_path'' (map_option JStr (opaque_string (Some h) ''path''))
             else []
         | None \<Rightarrow> []))
       extra"

definition transcript_task ::
    "str \<Rightarrow> str \<Rightarrow> persona \<Rightarrow> thread_target \<Rightarrow> text_instruction \<Rightarrow> str \<Rightarrow> jdict \<Rightarrow> task" where
  "transcript_task uid now p tgt i source extra =
     (let text = py_strip (ti_text i) in
      \<lparr>t_task_id = ''task-'' @ uid, t_root_task_id = ''task-'' @ uid, t_parent_task_id = None,
       t_title = title_from_draft_text text, t_goal = text, t_status = TS_QUEUED, t_priority = 5,
       t_interruptible = True, t_requires_confirmation = False, t_preferred_executor = Some ''codex'',
       t_session_affinity =
         Some (case opaque_string (tgt_handle tgt) ''cwd'' of Some c \<Rightarrow> c | None \<Rightarrow> ''ws-'' @ tgt_continuity_key tgt),
       t_task_revision = 0, t_latest_instruction = Some text,
       t_metadata = transcript_task_metadata now p tgt i source extra\<rparr>)"

definition creation_mutation :: "str \<Rightarrow> task \<Rightarrow> persona \<Rightarrow> str \<Rightarrow> str \<Rightarrow> str \<Rightarrow> task_mutation" where
  "creation_mutation uid t p source instruction created_by =
     \<lparr>m_mutation_id = ''mut-'' @ uid, m_task_id = Some (t_task_id t), m_mutation_type = MT_CREATE,
      m_patch = [(''title'', JStr (t_title t)), (''goal'', JStr (t_goal t)), (''preferred_executor'', JStr ''codex''),
        (''persona_id'', JStr (p_persona_id p)), (''persona_name'', JStr (p_name p)), (''source_kind'', JStr source),
        (''instruction_id'', JStr instruction)],
      m_created_by = created_by, m_urgency = ''normal'', m_effective_scope = ''task'', m_requires_replan = False\<rparr>"

text \<open>\<open>_start_text_task_from_direct_input\<close>, as its only caller calls it: without a workspace.\<close>

definition start_text_task ::
    "str option \<Rightarrow> str \<Rightarrow> str \<Rightarrow> str \<Rightarrow> persona \<Rightarrow> thread_target \<Rightarrow> text_instruction \<Rightarrow> str \<Rightarrow> str \<Rightarrow> jdict \<Rightarrow>
     blackboard \<Rightarrow> task \<times> blackboard" where
  "start_text_task ctx uid uid' now p tgt i source created_by extra bb =
     (let t = transcript_task uid now p tgt i source extra;
          bb1 = put_persona ctx (p\<lparr>p_status := ''busy''\<rparr>) bb;
          bb2 = put_task ctx t bb1;
          bb3 = put_execution_mode ctx \<lparr>em_task_id = t_task_id t, em_mode = EM_UNDECIDED, em_decided_from_run_id = None,
                  em_elapsed_seconds = 0\<rparr> bb2;
          bb4 = append_mutation ctx (creation_mutation uid' t p source (ti_instruction_id i) created_by) bb3
      in (case get_task bb4 (t_task_id t) of Some saved \<Rightarrow> saved | None \<Rightarrow> t, bb4))"

definition transcript_marks :: "task \<Rightarrow> jdict" where
  "transcript_marks t = (case jget (t_metadata t) ''audio_transcript_task_ids'' of JObj d \<Rightarrow> d | _ \<Rightarrow> [])"

definition mark_transcript :: "str \<Rightarrow> str \<Rightarrow> task \<Rightarrow> task" where
  "mark_transcript audio_id v t =
     t\<lparr>t_metadata := dict_put ''audio_transcript_task_ids'' (JObj (dict_put audio_id (JStr v) (transcript_marks t))) (t_metadata t)\<rparr>"

text \<open>What an event must have to be acted on: the audio, the transcript, the run's task, and its persona.\<close>

record transcript_event =
  te_audio_id :: str
  te_transcript :: str
  te_task :: task
  te_persona :: persona

definition transcript_event_of :: "str \<Rightarrow> jdict \<Rightarrow> blackboard \<Rightarrow> transcript_event option" where
  "transcript_event_of run_id md bb =
     (case (jstr_nonempty (jget md ''source_audio_instruction_id''), jstr_nonblank (jget md ''transcript_text'')) of
        (Some a, Some text) \<Rightarrow>
          if jget md ''source'' \<noteq> JStr ''executor_node_whisper'' then None
          else
            (case get_run bb run_id of
               None \<Rightarrow> None
             | Some r \<Rightarrow>
                 (case get_task bb (r_task_id r) of
                    None \<Rightarrow> None
                  | Some t \<Rightarrow>
                      (case jstr (jget (t_metadata t) ''persona_id'') of
                         None \<Rightarrow> None
                       | Some k \<Rightarrow>
                           (case get_persona bb k of
                              None \<Rightarrow> None
                            | Some p \<Rightarrow>
                                if a \<in> set (dict_keys (transcript_marks t)) then None
                                else Some \<lparr>te_audio_id = a, te_transcript = py_strip text, te_task = t, te_persona = p\<rparr>))))
      | _ \<Rightarrow> None)"

text \<open>The audio is marked before anything else, so that no second event for it makes another task.\<close>

definition handle_audio_transcript_event ::
    "str option \<Rightarrow> str \<Rightarrow> str \<Rightarrow> str \<Rightarrow> str \<Rightarrow> projection \<Rightarrow> str \<Rightarrow> jdict \<Rightarrow> blackboard \<Rightarrow>
     unit result \<times> blackboard" where
  "handle_audio_transcript_event ctx uid0 uid uid' now pj run_id md bb =
     (case transcript_event_of run_id md bb of
        None \<Rightarrow> (Inr (), bb)
      | Some e \<Rightarrow>
          (let a = te_audio_id e;
               bb1 = put_task ctx (mark_transcript a ''pending'' (te_task e)) bb;
               thread = (case jstr_nonempty (jget md ''target_thread_id'') of
                  Some k \<Rightarrow> Some k | None \<Rightarrow> jstr (jget (t_metadata (te_task e)) ''target_thread_id''))
           in case resolve_bro_thread_target uid0 bb1 (te_persona e) thread False None pj of
                Inl err \<Rightarrow> (Inl err, bb1)
              | Inr tgt \<Rightarrow>
                  (let i = transcript_instruction (p_persona_id (te_persona e)) (tgt_thread_id tgt) a (te_transcript e);
                       (t, bb2) = start_text_task ctx uid uid' now (te_persona e) tgt i ''bro_detail_ptt'' ''bro_detail_ptt''
                         [(''source_audio_instruction_id'', JStr a),
                          (''direct_executor_input_sources'', JList [JStr ''bro_detail_ptt''])] bb1
                   in (Inr (),
                       case get_task bb2 (t_task_id (te_task e)) of
                         None \<Rightarrow> bb2
                       | Some refreshed \<Rightarrow> put_task ctx (mark_transcript a (t_task_id t) refreshed) bb2))))"

end
