(* ===== verification/DirectTurn_Props.thy ===== *)
theory DirectTurn_Props
  imports DirectTurn NodeManager_Props Blackboard_Props Projection_Props
begin

text \<open>
  Properties of \<open>DirectTurn\<close>: a text instruction that the user submits leaves on the socket once, to the
  run of its thread or as a new turn whose request is accepted, or not at all, and then no request
  stays pending; a spoken instruction that came back as a transcript makes one task however often its
  event is delivered.
\<close>

section \<open>A submitted instruction is sent once\<close>

lemma send_or_drop_sent:
  "send_or_drop now ok reason c cmd m = (b, m') \<Longrightarrow>
     b = ok \<and> nm_sent m' = nm_sent m @ (if ok then [(nc_websocket c, cmd)] else [])"
  by (auto simp: send_or_drop_def record_sent_def node_frame split: if_splits)

lemma dispatch_text_sent:
  assumes "dispatch_text_instruction now ok r s x t k i m = (b, m')"
  shows "b \<Longrightarrow> \<exists>c. connection_for_node m k = Some c \<and> nm_sent m' = nm_sent m @ [(nc_websocket c, DispatchText r s x t i)]"
    and "\<not> b \<Longrightarrow> nm_sent m' = nm_sent m"
  using assms by (auto simp: dispatch_text_instruction_def split: option.splits if_splits dest: send_or_drop_sent)

text \<open>The intent of a turn that \<open>start_turn\<close> builds is consistent, so the command is always built.\<close>

definition consistent_intent :: "turn_start \<Rightarrow> bool" where
  "consistent_intent a \<longleftrightarrow> tn_create_new_thread a = (latest_handle a = None)"

lemma intent_valid: "consistent_intent a \<Longrightarrow> validate_thread_intent (start_command q a) = Inr ()"
  by (auto simp: consistent_intent_def validate_thread_intent_def start_command_def Let_def)

lemma start_codex_turn_sent:
  assumes "start_codex_turn now ok k cmd m = (r, m')" and "validate_thread_intent cmd = Inr ()"
  shows "r = Inr True \<and> (\<exists>c. connection_for_node m k = Some c \<and> nm_sent m' = nm_sent m @ [(nc_websocket c, StartCodexTurn cmd)]) \<or>
         r = Inr False \<and> nm_sent m' = nm_sent m"
  using assms
  by (auto simp: start_codex_turn_def has_codex_def split: option.splits if_splits prod.splits dest: send_or_drop_sent)

text \<open>What a start of a turn leaves: accepted and sent, or refused and nothing pending.\<close>

definition turn_sent :: "turn_start \<Rightarrow> direct_state \<Rightarrow> direct_state \<Rightarrow> bool" where
  "turn_sent a st st' \<longleftrightarrow>
     (\<exists>c q cmd. connection_for_node (snd st) (the (p_executor_node_id (tn_persona a))) = Some c \<and>
        nm_sent (snd st') = nm_sent (snd st) @ [(nc_websocket c, StartCodexTurn cmd)] \<and>
        list_outbound_turn_requests (fst st') = list_outbound_turn_requests (fst st) @ [q] \<and>
        st_instruction cmd = tn_instruction a \<and> st_request_id cmd = o_request_id q \<and> o_status q = ''accepted'')"

definition turn_refused :: "direct_state \<Rightarrow> direct_state \<Rightarrow> bool" where
  "turn_refused st st' \<longleftrightarrow>
     nm_sent (snd st') = nm_sent (snd st) \<and>
     (\<forall>q \<in> set (list_outbound_turn_requests (fst st')).
        q \<in> set (list_outbound_turn_requests (fst st)) \<or> o_status q = ''failed'')"

lemma start_turn_refuses:
  "\<not> tn_create_new_thread a \<Longrightarrow> latest_handle a = None \<Longrightarrow> \<exists>e. start_turn uid t0 now t1 ok a st = (Inl e, st)"
  "p_executor_node_id (tn_persona a) = None \<Longrightarrow> \<exists>e. start_turn uid t0 now t1 ok a st = (Inl e, st)"
  by (simp_all add: start_turn_def split: prod.split)

lemma start_turn_outcome:
  assumes wf: "bb_wf bb" and new: "get_outbound_turn_request bb (''out-turn-'' @ uid) = None"
    and intent: "tn_create_new_thread a \<Longrightarrow> latest_handle a = None"
    and st: "start_turn uid t0 now t1 ok a (bb, m) = (r, st')"
  shows "case r of Inl e \<Rightarrow> turn_refused (bb, m) st' | Inr k \<Rightarrow> turn_sent a (bb, m) st'"
proof (cases "\<not> tn_create_new_thread a \<and> latest_handle a = None \<or> p_executor_node_id (tn_persona a) = None")
  case True
  then obtain e where "start_turn uid t0 now t1 ok a (bb, m) = (Inl e, bb, m)"
    using start_turn_refuses by blast
  then show ?thesis using st by (auto simp: turn_refused_def)
next
  case False
  then obtain node where node: "p_executor_node_id (tn_persona a) = Some node" by auto
  have ok: "consistent_intent a" using False intent by (auto simp: consistent_intent_def)
  have goes: "(\<not> tn_create_new_thread a \<and> latest_handle a = None) = False" using False by blast
  define q where "q = pending_request uid t0 a node"
  have key: "o_request_id q = ''out-turn-'' @ uid" by (simp add: q_def pending_request_def)
  obtain b m1 where started: "start_codex_turn now ok node (start_command q a) m = (b, m1)"
    by (cases "start_codex_turn now ok node (start_command q a) m")
  have lists: "list_outbound_turn_requests (put_outbound_turn_request (f q) (put_outbound_turn_request q bb)) =
      list_outbound_turn_requests bb @ [f q]" if "o_request_id (f q) = o_request_id q" for f
  proof -
    have "o_request_id x \<noteq> o_request_id q" if "x \<in> set (list_outbound_turn_requests bb)" for x
      using that new key by (auto simp: turns.elems_get [OF wf])
    then have "map (\<lambda>w. if o_request_id w = o_request_id q then f q else w) (list_outbound_turn_requests bb) =
        list_outbound_turn_requests bb"
      by (simp add: map_idI)
    then show ?thesis
      using new that key by (simp add: turns.elems_put wf turns.wf_put turns.get_put)
  qed
  consider (sent) c where "b = Inr True" "connection_for_node m node = Some c"
      "nm_sent m1 = nm_sent m @ [(nc_websocket c, StartCodexTurn (start_command q a))]"
    | (refused) "b = Inr False" "nm_sent m1 = nm_sent m"
    using start_codex_turn_sent [OF started intent_valid [OF ok]] by blast
  then show ?thesis
  proof cases
    case sent
    define q' where "q' = q\<lparr>o_status := ''accepted'', o_updated_at := Some t1\<rparr>"
    have res: "r = Inr (o_request_id q)"
      "st' = (put_outbound_turn_request q' (put_outbound_turn_request q bb), m1)"
      using st started sent(1)
      by (simp_all add: start_turn_def goes node q_def [symmetric] q'_def Let_def del: de_Morgan_conj)
    have "turn_sent a (bb, m) st'"
      unfolding turn_sent_def
      using sent(2,3) node lists [of "\<lambda>q. q\<lparr>o_status := ''accepted'', o_updated_at := Some t1\<rparr>"]
      by (intro exI [of _ c] exI [of _ q'] exI [of _ "start_command q a"])
        (simp add: res q'_def start_command_def)
    then show ?thesis by (simp add: res)
  next
    case refused
    define err where "err = not_ready_message (tn_node_not_ready_label a)"
    define q' where "q' = q\<lparr>o_status := ''failed'', o_error := Some err, o_updated_at := Some t1\<rparr>"
    have res: "r = Inl (ValueError err)"
      "st' = (put_outbound_turn_request q' (put_outbound_turn_request q bb), m1)"
      using st started refused(1)
      by (simp_all add: start_turn_def goes node q_def [symmetric] q'_def err_def Let_def)
    have "turn_refused (bb, m) st'"
      using refused(2) lists [of "\<lambda>q. q\<lparr>o_status := ''failed'', o_error := Some err, o_updated_at := Some t1\<rparr>"]
      by (simp add: res turn_refused_def q'_def)
    then show ?thesis by (simp add: res)
  qed
qed

lemma resolve_new:
  "str_truthy target = False \<Longrightarrow> resolve_bro_thread_target uid bb p target True workspace pj =
   (case validate_new_workspace bb p workspace pj of Inl e \<Rightarrow> Inl e
    | Inr () \<Rightarrow> Inr \<lparr>tgt_thread_id = bro_thread_prefix @ uid, tgt_continuity_key = bro_thread_prefix @ uid, tgt_session = None, tgt_handle = None\<rparr>)"
  unfolding resolve_bro_thread_target_def Let_def by (simp only: simp_thms if_True if_False not_False_eq_True)
lemma new_thread_has_no_handle:
  assumes "resolve_bro_thread_target uid bb p target True workspace pj = Inr tgt"
  shows "tgt_session tgt = None \<and> tgt_handle tgt = None"
proof (cases "str_truthy target")
  case True
  then show ?thesis using assms unfolding resolve_bro_thread_target_def by (simp only: simp_thms if_True sum.distinct)
next
  case False
  then have f: "str_truthy target = False" by blast
  have c: "(case validate_new_workspace bb p workspace pj of Inl e \<Rightarrow> Inl e
    | Inr () \<Rightarrow> Inr \<lparr>tgt_thread_id = bro_thread_prefix @ uid, tgt_continuity_key = bro_thread_prefix @ uid, tgt_session = None, tgt_handle = None\<rparr>) = Inr tgt"
    using assms unfolding resolve_new [OF f] .
  show ?thesis
  proof (cases "validate_new_workspace bb p workspace pj")
    case (Inl e) show ?thesis using c unfolding Inl by (simp only: sum.case sum.distinct)
  next
    case (Inr u) show ?thesis using c unfolding Inr by (cases u) (simp only: sum.case old.unit.case sum.inject, metis thread_target.select_convs(3,4))
  qed
qed
lemma note_task_outbound [simp]:
  "list_outbound_turn_requests (note_task ctx f k bb) = list_outbound_turn_requests bb"
  by (simp add: note_task_def split: option.splits)

lemma ready_persona_known:
  assumes "ready_persona supports msg k (bb, m) = Inr p"
  shows "get_persona bb k = Some p"
  using assms by (simp add: ready_persona_def split: option.splits if_splits)

lemma submit_ready:
  assumes "ready_persona (executor_supports_follow_up m ''codex'')
      ''Selected Bro's executor node does not support text follow-up instructions.'' (tx_persona_id x) (bb, m) = Inr p"
    and "resolve_skill (tx_skill_name x) (codex_skills_for_node m (p_executor_node_id p)) = (skill, dropped)"
    and "resolve_bro_thread_target (fr_thread f) bb p (tx_target_thread_id x) (tx_create_new_thread x)
      (map_option py_strip (tx_workspace_id x)) pj = Inr tgt"
    and "i = typed_instruction (fr_instruction f) (x\<lparr>tx_persona_id := p_persona_id p\<rparr>) (tgt_thread_id tgt) skill dropped"
  shows "active_codex_execution bb (p_persona_id p) (tgt_thread_id tgt) = None \<Longrightarrow>
      submit_text_instruction ctx f ok x pj (bb, m) =
        map_prod (map_sum id (\<lambda>_. i)) id
          (start_turn (fr_request f) (fr_requested_at f) (fr_now f) (fr_ended_at f) ok
            ((thread_turn p tgt i (tx_create_new_thread x) (map_option py_strip (tx_workspace_id x)) (tx_client_request_id x))
               \<lparr>tn_plan_mode := tx_plan_mode x, tn_skill := skill\<rparr>) (bb, m))"
    and "active_codex_execution bb (p_persona_id p) (tgt_thread_id tgt) = Some (s, r) \<Longrightarrow>
      dispatch_text_instruction (fr_now f) ok (r_run_id r) (s_execution_session_id s) ''codex'' (r_task_id r)
        (the (p_executor_node_id p)) i m = (b, m1) \<Longrightarrow>
      submit_text_instruction ctx f ok x pj (bb, m) =
        (if b then Inr i else Inl (ValueError ''Selected Bro's Codex executor node is not ready for text.''),
         note_task ctx (typed_task_metadata (fr_requested_at f) x skill dropped) (r_task_id r) bb, m1)"
  using assms(1-3) by (simp_all add: submit_text_instruction_def Let_def assms(4))

text \<open>An accepted instruction: one command on the socket of the persona's node.\<close>

definition delivered ::
    "text_submission \<Rightarrow> text_instruction \<Rightarrow> direct_state \<Rightarrow> direct_state \<Rightarrow> bool" where
  "delivered x i st st' \<longleftrightarrow>
     ti_text i = py_strip (tx_text x) \<and>
     (\<exists>p c. get_persona (fst st) (tx_persona_id x) = Some p \<and>
        connection_for_node (snd st) (the (p_executor_node_id p)) = Some c \<and>
        (case active_codex_execution (fst st) (tx_persona_id x) (the (ti_target_thread_id i)) of
           Some (s, r) \<Rightarrow>
             nm_sent (snd st') = nm_sent (snd st) @
               [(nc_websocket c, DispatchText (r_run_id r) (s_execution_session_id s) ''codex'' (r_task_id r) i)] \<and>
             list_outbound_turn_requests (fst st') = list_outbound_turn_requests (fst st)
         | None \<Rightarrow>
             (\<exists>q cmd. nm_sent (snd st') = nm_sent (snd st) @ [(nc_websocket c, StartCodexTurn cmd)] \<and>
                list_outbound_turn_requests (fst st') = list_outbound_turn_requests (fst st) @ [q] \<and>
                st_instruction cmd = i \<and> st_request_id cmd = o_request_id q \<and> o_status q = ''accepted'')))"

lemma submission_outcome:
  assumes "bb_wf bb" and "get_outbound_turn_request bb (''out-turn-'' @ fr_request f) = None"
    and "submit_text_instruction ctx f ok x pj (bb, m) = (res, bb', m')"
  shows "case res of Inl e \<Rightarrow> turn_refused (bb, m) (bb', m') | Inr i \<Rightarrow> delivered x i (bb, m) (bb', m')"
proof -
  have idle: ?thesis if "res = Inl e" "bb' = bb" "m' = m" for e
    using that by (simp add: turn_refused_def)
  show ?thesis
  proof (cases "ready_persona (executor_supports_follow_up m ''codex'')
      ''Selected Bro's executor node does not support text follow-up instructions.'' (tx_persona_id x) (bb, m)")
    case (Inl e)
    then show ?thesis using assms(3) by (intro idle) (auto simp: submit_text_instruction_def)
  next
    case (Inr p)
    obtain skill dropped where sk: "resolve_skill (tx_skill_name x) (codex_skills_for_node m (p_executor_node_id p)) = (skill, dropped)"
      by (cases "resolve_skill (tx_skill_name x) (codex_skills_for_node m (p_executor_node_id p))")
    note known = ready_persona_known [OF Inr]
    have pid: "p_persona_id p = tx_persona_id x" using personas.get_key [OF assms(1) known] .
    show ?thesis
    proof (cases "resolve_bro_thread_target (fr_thread f) bb p (tx_target_thread_id x) (tx_create_new_thread x)
        (map_option py_strip (tx_workspace_id x)) pj")
      case (Inl e)
      then show ?thesis using assms(3) Inr sk by (intro idle) (auto simp: submit_text_instruction_def Let_def)
    next
      case (Inr tgt)
      define i where "i = typed_instruction (fr_instruction f) (x\<lparr>tx_persona_id := p_persona_id p\<rparr>) (tgt_thread_id tgt) skill dropped"
      have i: "ti_text i = py_strip (tx_text x)" "ti_target_thread_id i = Some (tgt_thread_id tgt)"
        by (simp_all add: i_def typed_instruction_def)
      note submit = submit_ready [OF \<open>ready_persona _ _ _ _ = Inr p\<close> sk Inr i_def]
      show ?thesis
      proof (cases "active_codex_execution bb (p_persona_id p) (tgt_thread_id tgt)")
        case None
        define a where "a = (thread_turn p tgt i (tx_create_new_thread x) (map_option py_strip (tx_workspace_id x))
          (tx_client_request_id x))\<lparr>tn_plan_mode := tx_plan_mode x, tn_skill := skill\<rparr>"
        have a: "tn_persona a = p" "tn_instruction a = i" by (simp_all add: a_def thread_turn_def)
        have "latest_handle a = None" if "tn_create_new_thread a"
          using that new_thread_has_no_handle [of "fr_thread f" bb p "tx_target_thread_id x"] Inr
          by (simp add: a_def thread_turn_def latest_handle_def opt_else_def)
        moreover obtain r st' where start: "start_turn (fr_request f) (fr_requested_at f) (fr_now f) (fr_ended_at f) ok a (bb, m) = (r, st')"
          by (cases "start_turn (fr_request f) (fr_requested_at f) (fr_now f) (fr_ended_at f) ok a (bb, m)")
        moreover have "st' = (bb', m')" "res = (case r of Inl e \<Rightarrow> Inl e | Inr v \<Rightarrow> Inr i)"
          using submit(1) [OF None, of ctx ok] assms(3) start by (auto simp: a_def [symmetric] split: sum.splits)
        ultimately have "case r of Inl e \<Rightarrow> turn_refused (bb, m) (bb', m') | Inr k \<Rightarrow> turn_sent a (bb, m) (bb', m')"
          and res: "res = (case r of Inl e \<Rightarrow> Inl e | Inr v \<Rightarrow> Inr i)"
          using start_turn_outcome [OF assms(1,2)] by blast+
        then show ?thesis
          using known i None pid a by (cases r) (simp_all add: turn_sent_def delivered_def)
      next
        case (Some sr)
        obtain s r where sr: "sr = (s, r)" by (cases sr)
        obtain b m1 where d: "dispatch_text_instruction (fr_now f) ok (r_run_id r) (s_execution_session_id s) ''codex''
            (r_task_id r) (the (p_executor_node_id p)) i m = (b, m1)"
          by (cases "dispatch_text_instruction (fr_now f) ok (r_run_id r) (s_execution_session_id s) ''codex''
            (r_task_id r) (the (p_executor_node_id p)) i m")
        show ?thesis
          using submit(2) [OF Some [unfolded sr] d, of ctx] assms(3) Some sr dispatch_text_sent [OF d] known i pid
          by (cases b) (auto simp: delivered_def turn_refused_def)
      qed
    qed
  qed
qed

text \<open>C18: A text instruction is sent at most once, and the answer says whether it was. When
  \<open>submit_text_instruction\<close> returns the instruction, its text is the stripped text of the submission
  and exactly one command with it was put on the socket of the persona's node: to the active run of
  its thread when there is one, leaving the outbound requests as they were, else as the start of a
  turn, recorded by one new request that is accepted. When it raises, nothing was put on a socket and
  every new outbound request is failed; none is left pending.
\<close>

theorem submission_sent_once:
  assumes "bb_wf bb" and "get_outbound_turn_request bb (''out-turn-'' @ fr_request f) = None"
    and "submit_text_instruction ctx f ok x pj (bb, m) = (res, bb', m')"
  shows "case res of
     Inl e \<Rightarrow>
       nm_sent m' = nm_sent m \<and>
       (\<forall>q \<in> set (list_outbound_turn_requests bb').
          q \<in> set (list_outbound_turn_requests bb) \<or> o_status q = ''failed'')
   | Inr i \<Rightarrow>
       ti_text i = py_strip (tx_text x) \<and>
       (\<exists>p c. get_persona bb (tx_persona_id x) = Some p \<and>
          connection_for_node m (the (p_executor_node_id p)) = Some c \<and>
          (case active_codex_execution bb (tx_persona_id x) (the (ti_target_thread_id i)) of
             Some (s, r) \<Rightarrow>
               nm_sent m' = nm_sent m @ [(nc_websocket c, DispatchText (r_run_id r) (s_execution_session_id s) ''codex'' (r_task_id r) i)] \<and>
               list_outbound_turn_requests bb' = list_outbound_turn_requests bb
           | None \<Rightarrow>
               (\<exists>q cmd. nm_sent m' = nm_sent m @ [(nc_websocket c, StartCodexTurn cmd)] \<and>
                  list_outbound_turn_requests bb' = list_outbound_turn_requests bb @ [q] \<and>
                  st_instruction cmd = i \<and> st_request_id cmd = o_request_id q \<and> o_status q = ''accepted'')))"
  using submission_outcome [OF assms, unfolded delivered_def turn_refused_def fst_conv snd_conv] .

section \<open>A transcript makes one task\<close>

lemma get_task_append_mutation:
  "get_task (append_mutation ctx u s) k =
     (if m_task_id u = Some k then map_option bump_task_revision (get_task s k) else get_task s k)"
  by (auto simp: append_mutation_def Let_def bb_read_defs publish_def split: option.splits)

lemma append_mutation_runs [simp]: "get_run (append_mutation ctx u s) = get_run s"
  by (simp add: append_mutation_def Let_def bb_read_defs fun_eq_iff split: option.splits)

text \<open>The ids of the tasks, in the order of their creation.\<close>

definition task_ids :: "blackboard \<Rightarrow> str list" where
  "task_ids s = map t_task_id (list_tasks s)"

lemma task_ids_put:
  "bb_wf s \<Longrightarrow> task_ids (put_task ctx t s) =
     (if get_task s (t_task_id t) = None then task_ids s @ [t_task_id t] else task_ids s)"
  by (auto simp: task_ids_def tasks.elems_put)

lemma task_ids_frame [simp]:
  "task_ids (put_persona ctx p s) = task_ids s"
  "task_ids (put_execution_mode ctx e s) = task_ids s"
  by (simp_all add: task_ids_def)

lemma task_ids_append_mutation: "bb_wf s \<Longrightarrow> task_ids (append_mutation ctx u s) = task_ids s"
proof -
  assume wf: "bb_wf s"
  have ids: "task_ids s = dict_keys (bb_tasks s)" if "bb_wf s" for s
    using dict_keys_values [OF tasks_t.wf_tbl [OF that]] by (simp add: task_ids_def list_tasks_def)
  have "dict_keys (bb_tasks (append_mutation ctx u s)) = dict_keys (bb_tasks s)"
    by (auto simp: append_mutation_def Let_def dict_keys_put_present split: option.splits)
  then show ?thesis using ids [OF wf] ids [OF bb_wf_append_mutation [OF wf]] by simp
qed

lemma marks_marked: "audio_id \<in> set (dict_keys (transcript_marks (mark_transcript audio_id v t)))"
  by (simp add: transcript_marks_def mark_transcript_def jget_dict_put dict_keys_put)

lemma start_text_task_reads:
  assumes "bb_wf s" and "get_task s (''task-'' @ uid) = None"
    and "start_text_task ctx uid uid' now p tgt i source by_whom extra s = (t, s')"
  shows "t_task_id t = ''task-'' @ uid" and "t_goal t = py_strip (ti_text i)" and "get_task s' (''task-'' @ uid) = Some t"
    and "k \<noteq> ''task-'' @ uid \<Longrightarrow> get_task s' k = get_task s k"
    and "task_ids s' = task_ids s @ [''task-'' @ uid]" and "get_run s' = get_run s" and "bb_wf s'"
proof -
  define t0 where "t0 = transcript_task uid now p tgt i source extra"
  define u where "u = creation_mutation uid' t0 p source (ti_instruction_id i) by_whom"
  have t0: "t_task_id t0 = ''task-'' @ uid" "t_goal t0 = py_strip (ti_text i)"
    by (simp_all add: t0_def transcript_task_def Let_def)
  define s3 where "s3 = put_execution_mode ctx \<lparr>em_task_id = t_task_id t0, em_mode = EM_UNDECIDED,
    em_decided_from_run_id = None, em_elapsed_seconds = 0\<rparr> (put_task ctx t0 (put_persona ctx (p\<lparr>p_status := ''busy''\<rparr>) s))"
  have u: "m_task_id u = Some (t_task_id t0)" by (simp add: u_def creation_mutation_def)
  have s3: "bb_wf s3" "get_run s3 = get_run s" "task_ids s3 = task_ids s @ [''task-'' @ uid]"
    "get_task s3 k = (if k = ''task-'' @ uid then Some t0 else get_task s k)" for k
    using assms(1,2) t0(1)
    by (simp_all add: s3_def task_ids_put bb_wf_put_persona bb_wf_put_task bb_wf_put_execution_mode tasks.get_put)
  have s': "s' = append_mutation ctx u s3" "t = bump_task_revision t0"
    using assms(3) u s3(4) t0(1)
    by (auto simp: start_text_task_def Let_def s3_def t0_def [symmetric] u_def get_task_append_mutation
        creation_mutation_def tasks.get_put)
  show "t_task_id t = ''task-'' @ uid" "t_goal t = py_strip (ti_text i)"
    using t0 by (simp_all add: s'(2) bump_task_revision_def)
  show "get_task s' (''task-'' @ uid) = Some t" "k \<noteq> ''task-'' @ uid \<Longrightarrow> get_task s' k = get_task s k"
    using s3(4) u t0(1) by (simp_all add: s' get_task_append_mutation)
  show "task_ids s' = task_ids s @ [''task-'' @ uid]" "get_run s' = get_run s" "bb_wf s'"
    using s3 by (simp_all add: s'(1) task_ids_append_mutation bb_wf_append_mutation)
qed

lemma transcript_event_ofD:
  assumes "transcript_event_of run_id md s = Some e"
  obtains r where "get_run s run_id = Some r" "get_task s (r_task_id r) = Some (te_task e)"
    "te_transcript e = py_strip (the (jstr_nonblank (jget md ''transcript_text'')))"
  using assms by (auto simp: transcript_event_of_def split: option.splits if_splits)

text \<open>An audio that the run's task has marked is not acted on again.\<close>

lemma marked_transcript_ignored:
  assumes "get_run s run_id = Some r" and "get_task s (r_task_id r) = Some t"
    and "a \<in> set (dict_keys (transcript_marks t))" and "jget md ''source_audio_instruction_id'' = JStr a"
  shows "transcript_event_of run_id md s = None"
  using assms by (auto simp: transcript_event_of_def split: option.splits)

text \<open>C19: A spoken instruction makes at most one task, however often the node reports its transcript.
  When an event is acted on, the tasks gain exactly one, with the transcript as its goal, if the
  handler returns, and none if it raises; either way the audio is marked, and every later event of the
  run for the same audio, whatever else it carries, has no effect at all.
\<close>

theorem transcript_handled_once:
  assumes "bb_wf s" and "transcript_event_of run_id md s = Some e"
    and "get_task s (''task-'' @ uid) = None"
    and "handle_audio_transcript_event ctx uid0 uid uid' now pj run_id md s = (res, s')"
    and "jget md' ''source_audio_instruction_id'' = JStr (te_audio_id e)"
  shows "(if is_ok res
      then map t_task_id (list_tasks s') = map t_task_id (list_tasks s) @ [''task-'' @ uid] \<and>
           map_option t_goal (get_task s' (''task-'' @ uid)) = Some (py_strip (te_transcript e))
      else map t_task_id (list_tasks s') = map t_task_id (list_tasks s)) \<and>
    handle_audio_transcript_event ctx' uid0' v v' now' pj' run_id md' s' = (Inr (), s')"
proof -
  obtain r where r: "get_run s run_id = Some r" "get_task s (r_task_id r) = Some (te_task e)"
    using transcript_event_ofD [OF assms(2)] by blast
  define a where "a = te_audio_id e"
  define s1 where "s1 = put_task ctx (mark_transcript a ''pending'' (te_task e)) s"
  have key: "t_task_id (te_task e) = r_task_id r" using tasks.get_key [OF assms(1) r(2)] .
  then have other: "r_task_id r \<noteq> ''task-'' @ uid" using assms(3) r(2) by auto
  have s1: "bb_wf s1" "get_run s1 = get_run s" "task_ids s1 = task_ids s" "get_task s1 (''task-'' @ uid) = None"
    "get_task s1 (r_task_id r) = Some (mark_transcript a ''pending'' (te_task e))"
    using assms(1,3) r(2) key other
    by (simp_all add: s1_def bb_wf_put_task task_ids_put tasks.get_put mark_transcript_def)
  define target where "target = (case jstr_nonempty (jget md ''target_thread_id'') of
      Some k \<Rightarrow> Some k | None \<Rightarrow> jstr (jget (t_metadata (te_task e)) ''target_thread_id''))"
  note handled = assms(4) [unfolded handle_audio_transcript_event_def assms(2) option.case Let_def
      a_def [symmetric] s1_def [symmetric] target_def [symmetric]]
  have ignored: "handle_audio_transcript_event ctx' uid0' v v' now' pj' run_id md' s' = (Inr (), s')"
    if "get_run s' = get_run s" "get_task s' (r_task_id r) = Some (mark_transcript a w t)" for w t
    using marked_transcript_ignored [of s' run_id r _ a md'] that r(1) assms(5) marks_marked
    by (simp add: handle_audio_transcript_event_def a_def)
  show ?thesis
  proof (cases "resolve_bro_thread_target uid0 s1 (te_persona e) target False None pj")
    case (Inl err)
    then have "res = Inl err" "s' = s1" using handled by simp_all
    then show ?thesis using ignored [of "''pending''" "te_task e"] s1 by (simp add: task_ids_def)
  next
    case (Inr tgt)
    define i where "i = transcript_instruction (p_persona_id (te_persona e)) (tgt_thread_id tgt) a (te_transcript e)"
    obtain t s2 where started: "start_text_task ctx uid uid' now (te_persona e) tgt i ''bro_detail_ptt'' ''bro_detail_ptt''
        [(''source_audio_instruction_id'', JStr a), (''direct_executor_input_sources'', JList [JStr ''bro_detail_ptt''])] s1 = (t, s2)"
      by (cases "start_text_task ctx uid uid' now (te_persona e) tgt i ''bro_detail_ptt'' ''bro_detail_ptt''
        [(''source_audio_instruction_id'', JStr a), (''direct_executor_input_sources'', JList [JStr ''bro_detail_ptt''])] s1")
    note s2 = start_text_task_reads [OF s1(1,4) started]
    have old: "get_task s2 (r_task_id r) = Some (mark_transcript a ''pending'' (te_task e))"
      using s2(4) [OF other] s1(5) by simp
    define w where "w = mark_transcript a (t_task_id t) (mark_transcript a ''pending'' (te_task e))"
    have res: "res = Inr ()" "s' = put_task ctx w s2"
      using handled Inr started old key by (simp_all add: i_def [symmetric] w_def)
    have w: "t_task_id w = r_task_id r" by (simp add: w_def mark_transcript_def key)
    have goal: "map_option t_goal (get_task s' (''task-'' @ uid)) = Some (py_strip (te_transcript e))"
      using s2(2,3) w other by (simp add: res tasks.get_put i_def transcript_instruction_def)
    have ids: "map t_task_id (list_tasks s') = map t_task_id (list_tasks s) @ [''task-'' @ uid]"
      using task_ids_put [OF s2(7), of ctx w] old w s2(5) s1(3) by (simp add: res task_ids_def)
    have "handle_audio_transcript_event ctx' uid0' v v' now' pj' run_id md' s' = (Inr (), s')"
      using ignored [of "t_task_id t" "mark_transcript a ''pending'' (te_task e)"] s2(6) s1(2) w
      by (simp add: res tasks.get_put w_def)
    then show ?thesis using goal ids by (simp add: res is_ok_simps)
  qed
qed

section \<open>Instances\<close>

text \<open>A persona whose node lists one native thread.\<close>

definition typing_store :: blackboard where
  "typing_store = put_persona None native_persona bb_init"

definition typed_text :: text_submission where
  "typed_text =
     \<lparr>tx_persona_id = ''p1'', tx_text = '' Run the tests '', tx_target_thread_id = Some native_id,
      tx_create_new_thread = False, tx_workspace_id = None, tx_client_request_id = None,
      tx_plan_mode = False, tx_skill_name = None\<rparr>"

definition typed_fresh :: fresh where
  "typed_fresh = \<lparr>fr_thread = ''0'', fr_instruction = ''1'', fr_request = ''2'', fr_requested_at = ''t0'',
     fr_now = ''t1'', fr_ended_at = ''t2''\<rparr>"

definition typed_result :: "text_instruction result \<times> direct_state" where
  "typed_result = submit_text_instruction None typed_fresh True typed_text native_listed (typing_store, native_nodes)"

lemma typing_facts:
  "is_ok (fst typed_result)" "nm_sent native_nodes = []" "list_sessions typing_store = []"
  "get_outbound_turn_request typing_store (''out-turn-'' @ fr_request typed_fresh) = None"
  "py_strip (tx_text typed_text) = ''Run the tests''"
  by code_simp+

lemma submission_sent_once_witness:
  "\<exists>i ws cmd. fst typed_result = Inr i \<and> ti_text i = ''Run the tests'' \<and> st_instruction cmd = i \<and>
     nm_sent (snd (snd typed_result)) = [(ws, StartCodexTurn cmd)]"
proof -
  obtain res bb' m' where out: "typed_result = (res, bb', m')" by (cases typed_result)
  have "is_ok res" using typing_facts(1) unfolding out by simp
  then obtain i where i: "res = Inr i" by (cases res) auto
  have "bb_wf typing_store" by (simp add: typing_store_def bb_wf_put_persona bb_wf_init)
  moreover have "active_codex_execution typing_store k t = None" for k t
    using typing_facts(3) by (simp add: active_codex_execution_def List.map_filter_def)
  ultimately show ?thesis
    unfolding out
    using submission_sent_once [OF _ typing_facts(4) out [unfolded typed_result_def]] i typing_facts(2,5) by auto
qed

definition spoken_run :: execution_run where
  "spoken_run =
     \<lparr>r_run_id = ''r1'', r_task_id = ''t1'', r_execution_session_id = ''s1'', r_executor_type = ''codex'',
      r_status = RS_RUNNING, r_claimed_by = None, r_run_revision = 0, r_latest_progress_message = None,
      r_output_summary = None, r_block_reason = None, r_failure_reason = None, r_metadata = []\<rparr>"

definition spoken_task :: task where
  "spoken_task =
     \<lparr>t_task_id = ''t1'', t_root_task_id = ''t1'', t_parent_task_id = None, t_title = ''a'', t_goal = ''a'',
      t_status = TS_RUNNING, t_priority = 5, t_interruptible = True, t_requires_confirmation = False,
      t_preferred_executor = Some ''codex'', t_session_affinity = None, t_task_revision = 0,
      t_latest_instruction = None,
      t_metadata = [(''persona_id'', JStr ''p1''), (''target_thread_id'', JStr native_id)]\<rparr>"

definition spoken_store :: blackboard where
  "spoken_store = put_run None spoken_run (put_task None spoken_task typing_store)"

definition spoken_metadata :: jdict where
  "spoken_metadata =
     [(''source_audio_instruction_id'', JStr ''aud-1''), (''transcript_text'', JStr '' Run them again ''),
      (''source'', JStr ''executor_node_whisper'')]"

definition spoken_result :: "unit result \<times> blackboard" where
  "spoken_result = handle_audio_transcript_event None ''0'' ''1'' ''2'' ''now'' native_listed ''r1'' spoken_metadata spoken_store"

lemma spoken_facts:
  "is_ok (fst spoken_result)"
  "map_option te_audio_id (transcript_event_of ''r1'' spoken_metadata spoken_store) = Some ''aud-1''"
  "map t_task_id (list_tasks spoken_store) = [''t1'']"
  "get_task spoken_store (''task-'' @ ''1'') = None"
  by code_simp+

lemma transcript_handled_once_witness:
  "map t_task_id (list_tasks (snd spoken_result)) = [''t1'', ''task-1''] \<and>
   handle_audio_transcript_event None ''3'' ''4'' ''5'' ''later'' native_listed ''r1'' spoken_metadata (snd spoken_result) =
     (Inr (), snd spoken_result)"
proof -
  obtain e where e: "transcript_event_of ''r1'' spoken_metadata spoken_store = Some e" "te_audio_id e = ''aud-1''"
    using spoken_facts(2) by auto
  obtain res s' where out: "spoken_result = (res, s')" by (cases spoken_result)
  have "bb_wf spoken_store"
    by (simp add: spoken_store_def typing_store_def bb_wf_put_run bb_wf_put_task bb_wf_put_persona bb_wf_init)
  note once = transcript_handled_once [OF this e(1) spoken_facts(4) out [unfolded spoken_result_def]]
  have "is_ok res" using spoken_facts(1) unfolding out by simp
  moreover have "jget spoken_metadata ''source_audio_instruction_id'' = JStr (te_audio_id e)"
    using e(2) by (simp add: spoken_metadata_def)
  ultimately show ?thesis
    using once [of spoken_metadata None "''3''" "''4''" "''5''" "''later''" native_listed] spoken_facts(3)
    by (simp add: out)
qed

end
