(* ===== verification/Executors.thy ===== *)
theory Executors
  imports NodeManager Reconcile PyText
begin

text \<open>
  The executors that \<open>create_session_runtime\<close> registers: \<open>executors/adapters/mock/executor.py\<close>, which
  plays a task from its metadata, and \<open>executors/adapters/hosted/executor.py\<close>, which sends a run to
  its node and passes on what the node reports, with \<open>executors/core/capabilities.py\<close>. \<open>run_task\<close> is
  an asynchronous generator; its model takes the envelopes of the run's queue that it reads and gives
  the events it yields. Both are shown to yield one event that ends a run, as the last one.
\<close>

section \<open>Capabilities\<close>

record executor_capabilities =
  ec_executor_type :: str
  ec_supports_resume :: bool
  ec_supports_follow_up :: bool
  ec_supports_audio_instruction :: bool
  ec_supports_thread_list :: bool
  ec_supports_pause :: bool
  ec_supports_cancel :: bool
  ec_supports_setup :: bool

definition terminal_event_types :: "executor_event_type list" where
  "terminal_event_types = [EV_WAITING_EXECUTOR, EV_BLOCKED, EV_COMPLETED, EV_FAILED, EV_CANCELLED]"

section \<open>The mock executor\<close>

definition mock_capabilities :: executor_capabilities where
  "mock_capabilities =
     \<lparr>ec_executor_type = ''mock'', ec_supports_resume = False, ec_supports_follow_up = True,
      ec_supports_audio_instruction = False, ec_supports_thread_list = False, ec_supports_pause = True,
      ec_supports_cancel = True, ec_supports_setup = False\<rparr>"

definition mock_create_session :: "str \<Rightarrow> str option \<Rightarrow> executor_session" where
  "mock_create_session uid workspace =
     \<lparr>es_session_id = ''mock-session-'' @ uid, es_executor_type = ''mock'', es_status = SS_IDLE,
      es_metadata = (if str_truthy workspace then [(''workspace_id'', JStr (the workspace))] else [])\<rparr>"

text \<open>\<open>str(d.get(k, default))\<close>.\<close>

definition str_entry :: "(rat \<Rightarrow> str) \<Rightarrow> jdict \<Rightarrow> str \<Rightarrow> str \<Rightarrow> str" where
  "str_entry fr d k other = (case map_of d k of Some v \<Rightarrow> py_str fr v | None \<Rightarrow> other)"

definition mock_event :: "execution_run \<Rightarrow> executor_session \<Rightarrow> executor_event_type \<Rightarrow> str \<Rightarrow> executor_event" where
  "mock_event r es ty message =
     \<lparr>ev_run_id = r_run_id r, ev_session_id = es_session_id es, ev_event_type = ty,
      ev_message = Some message, ev_metadata = []\<rparr>"

definition mock_progress :: "jdict \<Rightarrow> str list" where
  "mock_progress md =
     (case jget md ''mock_progress_messages'' of
        JList xs \<Rightarrow> map py_strip (List.map_filter jstr_nonblank xs)
      | _ \<Rightarrow> [])"

definition mock_run_task :: "(rat \<Rightarrow> str) \<Rightarrow> execution_run \<Rightarrow> task \<Rightarrow> executor_session \<Rightarrow> executor_event list" where
  "mock_run_task fr r t es =
     (let md = t_metadata t;
          behavior = str_entry fr md ''mock_behavior'' ''complete''
      in map (mock_event r es EV_PROGRESS) (mock_progress md) @
         [if behavior = ''blocked'' then
            mock_event r es EV_BLOCKED (str_entry fr md ''mock_block_reason'' ''Waiting for additional user input.'')
          else if behavior = ''failed'' then
            mock_event r es EV_FAILED (str_entry fr md ''mock_failure_reason'' ''Mock executor failed.'')
          else
            mock_event r es EV_COMPLETED (str_entry fr md ''mock_summary'' (''Completed: '' @ t_title t))])"

section \<open>The hosted executor\<close>

definition hosted_capabilities :: "str \<Rightarrow> bool \<Rightarrow> executor_capabilities" where
  "hosted_capabilities ty thread_list =
     \<lparr>ec_executor_type = ty, ec_supports_resume = True, ec_supports_follow_up = True,
      ec_supports_audio_instruction = False, ec_supports_thread_list = thread_list,
      ec_supports_pause = True, ec_supports_cancel = True, ec_supports_setup = False\<rparr>"

definition hosted_create_session :: "str \<Rightarrow> str \<Rightarrow> str option \<Rightarrow> executor_session" where
  "hosted_create_session ty uid workspace =
     \<lparr>es_session_id = ty @ ''-hosted-'' @ uid, es_executor_type = ty, es_status = SS_IDLE,
      es_metadata = (if str_truthy workspace then [(''workspace_id'', JStr (the workspace))] else [])\<rparr>"

definition node_id_from_task :: "task \<Rightarrow> str option" where
  "node_id_from_task t = jstr_nonempty (jget (t_metadata t) ''executor_node_id'')"

definition resume_handle_from_session :: "executor_session \<Rightarrow> jdict option" where
  "resume_handle_from_session es = jobj (jget (es_metadata es) ''latest_resume_handle'')"

text \<open>The command's handle is validated when the command is built; \<open>validate\<close> is that validation.\<close>

definition hosted_command ::
    "(jdict \<Rightarrow> agent_resume_handle option) \<Rightarrow> execution_run \<Rightarrow> task \<Rightarrow> executor_session \<Rightarrow> dispatch_run_command result" where
  "hosted_command validate r t es =
     (let cmd = (\<lambda>h. \<lparr>dr_run_id = r_run_id r, dr_execution_session_id = r_execution_session_id r,
            dr_executor_type = r_executor_type r, dr_task_id = t_task_id t, dr_title = t_title t, dr_goal = t_goal t,
            dr_latest_instruction = t_latest_instruction t, dr_workspace_id = t_session_affinity t,
            dr_task_metadata = t_metadata t, dr_latest_resume_handle = h\<rparr>)
      in case resume_handle_from_session es of
           None \<Rightarrow> Inr (cmd None)
         | Some d \<Rightarrow>
             (case validate d of
                None \<Rightarrow> Inl (ValueError ''latest_resume_handle'')
              | Some h \<Rightarrow> Inr (cmd (Some h))))"

definition note_envelope_handle :: "run_envelope \<Rightarrow> executor_session \<Rightarrow> executor_session" where
  "note_envelope_handle e es =
     (case env_latest_resume_handle e of
        None \<Rightarrow> es
      | Some h \<Rightarrow> es\<lparr>es_metadata := dict_put ''latest_resume_handle'' (dump_resume_handle h) (es_metadata es)\<rparr>)"

text \<open>The loop over the queue: the events yielded, whether the last one ended the run, and the session.\<close>

fun hosted_stream :: "run_envelope list \<Rightarrow> executor_session \<Rightarrow> executor_event list \<times> bool \<times> executor_session" where
  "hosted_stream [] es = ([], False, es)"
| "hosted_stream (e # envs) es =
     (let es' = note_envelope_handle e es in
      if ev_event_type (env_event e) \<in> set terminal_event_types then ([env_event e], True, es')
      else (let (evs, ended, es'') = hosted_stream envs es' in (env_event e # evs, ended, es'')))"

definition hosted_cancel_run :: "str \<Rightarrow> bool \<Rightarrow> str \<Rightarrow> node_manager \<Rightarrow> node_manager" where
  "hosted_cancel_run now ok r m = cancel_run now ok r ''cancel'' m"

definition hosted_pause_run :: "str \<Rightarrow> bool \<Rightarrow> str \<Rightarrow> node_manager \<Rightarrow> node_manager" where
  "hosted_pause_run now ok r m = cancel_run now ok r ''pause'' m"

text \<open>
  What the session runtime calls of an executor. Whether it has \<open>build_resume_handle\<close> is the option;
  neither executor above has it.
\<close>

record executor =
  xr_capabilities :: executor_capabilities
  xr_cancel_run :: "str \<Rightarrow> bool \<Rightarrow> str \<Rightarrow> node_manager \<Rightarrow> node_manager"
  xr_pause_run :: "str \<Rightarrow> bool \<Rightarrow> str \<Rightarrow> node_manager \<Rightarrow> node_manager"
  xr_build_resume_handle :: "(executor_session \<Rightarrow> agent_resume_handle option) option"

definition mock_executor :: executor where
  "mock_executor =
     \<lparr>xr_capabilities = mock_capabilities, xr_cancel_run = (\<lambda>_ _ _ m. m), xr_pause_run = (\<lambda>_ _ _ m. m),
      xr_build_resume_handle = None\<rparr>"

definition hosted_executor :: "str \<Rightarrow> bool \<Rightarrow> executor" where
  "hosted_executor ty thread_list =
     \<lparr>xr_capabilities = hosted_capabilities ty thread_list, xr_cancel_run = hosted_cancel_run,
      xr_pause_run = hosted_pause_run, xr_build_resume_handle = None\<rparr>"

text \<open>What \<open>create_session_runtime\<close> registers, by the settings.\<close>

definition hosted_of_type :: "str \<Rightarrow> executor option" where
  "hosted_of_type ty =
     (if ty = ''codex'' then Some (hosted_executor ''codex'' True)
      else if ty = ''acpx'' then Some (hosted_executor ''acpx'' False) else None)"

definition registered_executors :: "bool \<Rightarrow> str list \<Rightarrow> bool \<Rightarrow> bool \<Rightarrow> (str, executor) dict" where
  "registered_executors detached detached_types acpx codex =
     (let register = (\<lambda>x d. registry_register (ec_executor_type \<circ> xr_capabilities) x d);
          d0 = register mock_executor [];
          d1 = (if detached then fold register (List.map_filter hosted_of_type detached_types) d0
                else if acpx then register (hosted_executor ''acpx'' False) d0 else d0)
      in if codex then register (hosted_executor ''codex'' True) d1 else d1)"

section \<open>Runs end with one terminal event\<close>

text \<open>The events of a run that has ended: one terminal event, the last.\<close>

definition ends_once :: "executor_event list \<Rightarrow> bool" where
  "ends_once evs \<longleftrightarrow>
     (\<exists>before e. evs = before @ [e] \<and> ev_event_type e \<in> set terminal_event_types \<and>
        (\<forall>x \<in> set before. ev_event_type x \<notin> set terminal_event_types))"

lemma ends_onceI:
  "\<lbrakk>ev_event_type e \<in> set terminal_event_types; \<And>x. x \<in> set before \<Longrightarrow> ev_event_type x \<notin> set terminal_event_types\<rbrakk>
     \<Longrightarrow> ends_once (before @ [e])"
  by (auto simp: ends_once_def)

lemma ends_once_Cons:
  "ends_once evs \<Longrightarrow> ev_event_type e \<notin> set terminal_event_types \<Longrightarrow> ends_once (e # evs)"
  unfolding ends_once_def by (metis append_Cons set_ConsD)

lemma mock_ends_once: "ends_once (mock_run_task fr r t es)"
  unfolding mock_run_task_def Let_def
  by (rule ends_onceI) (auto simp: mock_event_def terminal_event_types_def)

lemma hosted_ends_once: "hosted_stream envs es = (evs, True, es') \<Longrightarrow> ends_once evs"
proof (induction envs arbitrary: es evs)
  case (Cons e envs)
  show ?case
  proof (cases "ev_event_type (env_event e) \<in> set terminal_event_types")
    case True
    then show ?thesis using Cons.prems ends_onceI [of "env_event e" "[]"] by (simp add: Let_def)
  next
    case False
    then obtain evs' where "hosted_stream envs (note_envelope_handle e es) = (evs', True, es')" "evs = env_event e # evs'"
      using Cons.prems by (auto simp: Let_def split: prod.splits)
    then show ?thesis using Cons.IH ends_once_Cons False by blast
  qed
qed simp

lemma hosted_waits: "hosted_stream envs es = (evs, False, es') \<Longrightarrow>
    evs = map env_event envs \<and> (\<forall>e \<in> set envs. ev_event_type (env_event e) \<notin> set terminal_event_types)"
  by (induction envs arbitrary: es evs) (auto simp: Let_def split: if_splits prod.splits)

end
