(* ===== verification/Commands.thy ===== *)
theory Commands
  imports Executors DirectTurn Interaction Drafts
begin

text \<open>
  \<open>src/newbro/runtime/session.py\<close>: what a session does with a command on a task (pause, cancel, resume,
  retry), with the user's answer to an interaction request, and with tasks that waited for an
  executor; and the blocked wait of \<open>executors/adapters/codex/session.py\<close>, which an answer resolves.
  An operation is atomic: while it awaits a socket nothing else is run. Exceptions of an executor's
  \<open>cancel_run\<close> and \<open>pause_run\<close> are swallowed by the code, so these only act on the nodes; whether the
  client of a local Codex session takes a response (\<open>responds\<close>) is an argument, like \<open>ok\<close> for sockets.
\<close>

section \<open>A Codex session of this process\<close>

datatype blocked_wait = Wait_Open | Wait_Resolved | Wait_Aborted

record codex_live =
  cl_thread_id :: "str option"
  cl_blocked :: "blocked_wait option"

definition begin_blocked_wait :: "codex_live \<Rightarrow> codex_live" where
  "begin_blocked_wait c = c\<lparr>cl_blocked := Some Wait_Open\<rparr>"

definition mark_blocked_resolved :: "codex_live \<Rightarrow> codex_live" where
  "mark_blocked_resolved c = (if cl_blocked c = None then c else c\<lparr>cl_blocked := Some Wait_Resolved\<rparr>)"

definition abort_blocked_wait :: "codex_live \<Rightarrow> codex_live" where
  "abort_blocked_wait c = (if cl_blocked c = None then c else c\<lparr>cl_blocked := Some Wait_Aborted\<rparr>)"

text \<open>The end of the wait: the event was set, or (\<open>timed_out\<close>) the time ran out first.\<close>

definition end_blocked_wait :: "bool \<Rightarrow> codex_live \<Rightarrow> str \<times> codex_live" where
  "end_blocked_wait timed_out c =
     (let c' = c\<lparr>cl_blocked := None\<rparr>
      in case cl_blocked c of
           None \<Rightarrow> (''resolved'', c)
         | Some w \<Rightarrow>
             if timed_out then (''timed_out'', c')
             else (if w = Wait_Aborted then ''aborted'' else ''resolved'', c'))"

section \<open>The state of a session\<close>

text \<open>The fields of \<open>SessionRuntime\<close> that the operations here and in the later theories use.\<close>

record native_reasoning_step =
  rs_item_id :: str
  rs_text :: str
  rs_kind :: str
  rs_created_at :: str

record session_runtime =
  rt_store :: blackboard
  rt_nodes :: node_manager
  rt_projection :: projection
  rt_live :: "(str, executor_session \<times> codex_live option) dict"
  rt_drafts :: draft_manager
  rt_reasoning :: "(str, native_reasoning_step list) dict"
  rt_voice_target :: "str option"
  rt_last_classifier_ms :: "int option"
  rt_latest_transcript :: utext
  rt_generation :: nat
  rt_published_text :: utext
  rt_spoken_session :: "str option"
  rt_spoken_revision :: "str option"

definition live_of :: "session_runtime \<Rightarrow> str option \<Rightarrow> (executor_session \<times> codex_live option) option" where
  "live_of rt sid = (if str_truthy sid then map_of (rt_live rt) (the sid) else None)"

text \<open>The live session when it is a \<open>CodexExecutorSession\<close>.\<close>

definition codex_live_of :: "session_runtime \<Rightarrow> str option \<Rightarrow> (executor_session \<times> codex_live) option" where
  "codex_live_of rt sid = (case live_of rt sid of Some (es, Some c) \<Rightarrow> Some (es, c) | _ \<Rightarrow> None)"

text \<open>What an operation takes from outside.\<close>

record command_env =
  ce_registry :: "(str, executor) dict"
  ce_validate :: "jdict \<Rightarrow> agent_resume_handle option"
  ce_ctx :: "str option"
  ce_uid :: str
  ce_now :: str
  ce_clock :: "str \<Rightarrow> str"
  ce_ok :: bool

section \<open>Finding the run\<close>

definition live_run_statuses :: "run_status list" where
  "live_run_statuses = [RS_CREATED, RS_ASSIGNED, RS_RUNNING, RS_BLOCKED, RS_PAUSED]"

definition candidate_run_ids :: "execution_session \<Rightarrow> str list" where
  "candidate_run_ids x =
     (let active = (if str_truthy (s_active_run_id x) then [the (s_active_run_id x)] else [])
      in if str_truthy (s_latest_run_id x) \<and> the (s_latest_run_id x) \<notin> set active
         then active @ [the (s_latest_run_id x)] else active)"

definition live_run :: "blackboard \<Rightarrow> str \<Rightarrow> execution_run option" where
  "live_run bb k =
     (case get_run bb k of
        Some r \<Rightarrow> if r_status r \<in> set live_run_statuses then Some r else None
      | None \<Rightarrow> None)"

definition first_live_run :: "blackboard \<Rightarrow> str list \<Rightarrow> execution_run option" where
  "first_live_run bb ks = (case List.map_filter (live_run bb) ks of [] \<Rightarrow> None | r # _ \<Rightarrow> Some r)"

definition select_command_run :: "blackboard \<Rightarrow> execution_session option \<Rightarrow> execution_run option" where
  "select_command_run bb session =
     (case session of None \<Rightarrow> None | Some x \<Rightarrow> first_live_run bb (candidate_run_ids x))"

text \<open>After the loop, \<open>run\<close> still holds the run that was looked up last.\<close>

definition resolve_task_command_target :: "blackboard \<Rightarrow> task \<Rightarrow> execution_run option \<times> str option" where
  "resolve_task_command_target bb t =
     (case find (\<lambda>x. s_task_id x = t_task_id t) (list_sessions bb) of
        None \<Rightarrow> (None, t_preferred_executor t)
      | Some x \<Rightarrow>
          (case first_live_run bb (candidate_run_ids x) of
             Some r \<Rightarrow> (Some r, Some (r_executor_type r))
           | None \<Rightarrow>
               (if candidate_run_ids x = [] then None else get_run bb (last (candidate_run_ids x)),
                t_preferred_executor t)))"

definition quoted :: "str \<Rightarrow> str" where
  "quoted x = [char_of (39::nat)] @ x @ [char_of (39::nat)]"

definition validate_task_command ::
    "(str, executor) dict \<Rightarrow> blackboard \<Rightarrow> task \<Rightarrow> task_command_type \<Rightarrow> str option" where
  "validate_task_command registry bb t ty =
     (if ty \<notin> {TC_PAUSE_TASK, TC_PREEMPT_TASK} then
        (if ty = TC_RESUME_TASK then
           (if t_status t = TS_WAITING_USER_INPUT then
              Some ''This task is waiting for user input. Resolve the pending interaction request instead of using resume.''
            else if t_status t \<noteq> TS_PAUSED then Some ''Only paused tasks can be resumed.''
            else None)
         else None)
      else if t_status t \<in> {TS_CREATED, TS_QUEUED} then None
      else
        (case resolve_task_command_target bb t of
           (None, None) \<Rightarrow> Some ''Task is not actively running.''
         | (_, None) \<Rightarrow> Some ''Task executor could not be determined.''
         | (_, Some x) \<Rightarrow>
             (case map_of registry x of
                None \<Rightarrow> Some (''Executor '' @ quoted x @ '' is not available.'')
              | Some e \<Rightarrow>
                  if \<not> ec_supports_pause (xr_capabilities e)
                  then Some (''Executor '' @ quoted x @ '' does not support pause.'')
                  else None)))"

section \<open>Parts of a command\<close>

definition cancel_live_run :: "command_env \<Rightarrow> execution_run option \<Rightarrow> node_manager \<Rightarrow> node_manager" where
  "cancel_live_run env run m =
     (case run of
        None \<Rightarrow> m
      | Some r \<Rightarrow>
          (case map_of (ce_registry env) (r_executor_type r) of
             None \<Rightarrow> m
           | Some e \<Rightarrow>
               if \<not> ec_supports_cancel (xr_capabilities e) then m
               else xr_cancel_run e (ce_now env) (ce_ok env) (r_run_id r) m))"

definition pause_live_run :: "command_env \<Rightarrow> execution_run option \<Rightarrow> node_manager \<Rightarrow> node_manager" where
  "pause_live_run env run m =
     (case run of
        None \<Rightarrow> m
      | Some r \<Rightarrow>
          (case map_of (ce_registry env) (r_executor_type r) of
             None \<Rightarrow> m
           | Some e \<Rightarrow>
               if \<not> ec_supports_pause (xr_capabilities e) then m
               else xr_pause_run e (ce_now env) (ce_ok env) (r_run_id r) m))"

definition codex_thread_handle :: "str \<Rightarrow> agent_resume_handle" where
  "codex_thread_handle thread =
     \<lparr>h_executor_id = ''codex'', h_session_handle = Some thread, h_turn_handle = None, h_opaque = []\<rparr>"

definition live_resume_handle ::
    "command_env \<Rightarrow> executor \<Rightarrow> executor_session \<times> codex_live option \<Rightarrow> agent_resume_handle option" where
  "live_resume_handle env e live =
     (let native = (case snd live of
            Some c \<Rightarrow> if str_truthy (cl_thread_id c) then Some (codex_thread_handle (the (cl_thread_id c))) else None
          | None \<Rightarrow> None)
      in case native of
           Some h \<Rightarrow> Some h
         | None \<Rightarrow>
             (case jget (es_metadata (fst live)) ''latest_resume_handle'' of
                JObj d \<Rightarrow> ce_validate env d
              | _ \<Rightarrow> (case xr_build_resume_handle e of Some f \<Rightarrow> f (fst live) | None \<Rightarrow> None)))"

definition capture_pause_resume_handle ::
    "command_env \<Rightarrow> session_runtime \<Rightarrow> execution_session option \<Rightarrow> execution_run option \<Rightarrow> blackboard \<Rightarrow> blackboard" where
  "capture_pause_resume_handle env rt session run bb =
     (case (session, run) of
        (Some x, Some r) \<Rightarrow>
          (case map_of (ce_registry env) (r_executor_type r) of
             None \<Rightarrow> bb
           | Some e \<Rightarrow>
               if \<not> ec_supports_resume (xr_capabilities e) then bb
               else
                 (case map_of (rt_live rt) (s_execution_session_id x) of
                    None \<Rightarrow> bb
                  | Some live \<Rightarrow>
                      (case live_resume_handle env e live of
                         None \<Rightarrow> bb
                       | Some h \<Rightarrow> put_session (ce_ctx env) (x\<lparr>s_latest_resume_handle := Some h\<rparr>) bb)))
      | _ \<Rightarrow> bb)"

definition suppress_pending_notifications :: "str option \<Rightarrow> str \<Rightarrow> blackboard \<Rightarrow> blackboard" where
  "suppress_pending_notifications ctx tid bb =
     fold (\<lambda>c bb. if n_task_id c = tid \<and> n_delivery_status c = ND_PENDING
                  then put_notification_candidate ctx (c\<lparr>n_delivery_status := ND_SUPPRESSED\<rparr>) bb else bb)
       (list_notification_candidates bb) bb"

definition settle_binding :: "str option \<Rightarrow> binding_status \<Rightarrow> session_binding option \<Rightarrow> blackboard \<Rightarrow> blackboard" where
  "settle_binding ctx st b bb =
     (case b of
        None \<Rightarrow> bb
      | Some b \<Rightarrow> put_binding ctx (b\<lparr>b_claimed_by := None, b_claim_expires_at := None, b_binding_status := st\<rparr>) bb)"

definition settle_run :: "str option \<Rightarrow> run_status \<Rightarrow> execution_run option \<Rightarrow> blackboard \<Rightarrow> blackboard" where
  "settle_run ctx st run bb = (case run of None \<Rightarrow> bb | Some r \<Rightarrow> put_run ctx (r\<lparr>r_status := st\<rparr>) bb)"

definition clear_active_run :: "str option \<Rightarrow> execution_session option \<Rightarrow> str option \<Rightarrow> blackboard \<Rightarrow> blackboard" where
  "clear_active_run ctx session k bb =
     (case session of
        None \<Rightarrow> bb
      | Some x \<Rightarrow> if s_active_run_id x = k then put_session ctx (x\<lparr>s_active_run_id := None\<rparr>) bb else bb)"

definition queued_summary :: "task \<Rightarrow> task_summary" where
  "queued_summary t =
     summary_of t (Some (''Queued: '' @ t_title t)) (Some (''I queued '' @ t_title t @ '' again.'')) ''queued'' False"

definition paused_summary :: "task \<Rightarrow> task_summary" where
  "paused_summary t =
     summary_of t (Some (''Paused: '' @ t_title t)) (Some (''I paused '' @ t_title t @ ''.'')) ''paused'' False"

definition cancelled_summary :: "task \<Rightarrow> task_summary" where
  "cancelled_summary t =
     summary_of t (Some (''Cancelled: '' @ t_title t)) (Some (''I won't continue with '' @ t_title t @ ''.''))
       ''cancelled'' False"

section \<open>Commands on a task\<close>

definition bound_execution_session :: "session_binding option \<Rightarrow> blackboard \<Rightarrow> execution_session option" where
  "bound_execution_session b bb =
     (case b of
        None \<Rightarrow> None
      | Some b \<Rightarrow> (case b_execution_session_id b of None \<Rightarrow> None | Some k \<Rightarrow> get_session bb k))"

definition pause_task ::
    "command_env \<Rightarrow> session_runtime \<Rightarrow> task \<Rightarrow> session_binding option \<Rightarrow> execution_session option \<Rightarrow>
     execution_run option \<Rightarrow> blackboard \<Rightarrow> session_runtime" where
  "pause_task env rt t b session run bb =
     (let ctx = ce_ctx env;
          bb1 = capture_pause_resume_handle env rt session run bb;
          bb2 = settle_run ctx RS_PAUSED run bb1;
          bb3 = settle_binding ctx BS_PAUSED b bb2;
          bb4 = put_summary ctx (paused_summary t) bb3;
          t' = t\<lparr>t_status := TS_PAUSED\<rparr>;
          bb5 = snd (add_task_signal_attention ctx (ce_uid env) (ce_now env) t' AK_TASK_PAUSED
                  (t_title t @ '' is paused.'') bb4)
      in rt\<lparr>rt_store := put_task ctx t' bb5, rt_nodes := pause_live_run env run (rt_nodes rt)\<rparr>)"

definition cancel_task ::
    "command_env \<Rightarrow> session_runtime \<Rightarrow> task \<Rightarrow> session_binding option \<Rightarrow> execution_session option \<Rightarrow>
     execution_run option \<Rightarrow> blackboard \<Rightarrow> session_runtime" where
  "cancel_task env rt t b session run bb =
     (let ctx = ce_ctx env;
          bb1 = settle_run ctx RS_CANCELLED run bb;
          bb2 = clear_active_run ctx session (map_option r_run_id run) bb1;
          bb3 = settle_binding ctx BS_RELEASED b bb2;
          bb4 = put_summary ctx (cancelled_summary t) bb3;
          bb5 = suppress_pending_notifications ctx (t_task_id t) bb4;
          bb6 = cancel_requests_for_task ctx (ce_clock env) (t_task_id t) bb5
      in rt\<lparr>rt_store := put_task ctx (t\<lparr>t_status := TS_CANCELLED\<rparr>) bb6,
            rt_nodes := cancel_live_run env run (rt_nodes rt)\<rparr>)"

definition requeue_task ::
    "command_env \<Rightarrow> session_runtime \<Rightarrow> bool \<Rightarrow> task \<Rightarrow> session_binding option \<Rightarrow> execution_session option \<Rightarrow>
     execution_run option \<Rightarrow> blackboard \<Rightarrow> session_runtime" where
  "requeue_task env rt resumed t b session run bb =
     (let ctx = ce_ctx env;
          bb1 = (case run of None \<Rightarrow> bb | Some r \<Rightarrow> clear_active_run ctx session (Some (r_run_id r)) bb);
          bb2 = settle_binding ctx BS_RELEASED b bb1;
          bb3 = put_summary ctx (queued_summary t) bb2;
          t' = t\<lparr>t_status := TS_QUEUED\<rparr>;
          bb4 = (if resumed
                 then snd (add_task_signal_attention ctx (ce_uid env) (ce_now env) t' AK_TASK_RESUMED
                        (t_title t @ '' is queued to continue.'') bb3)
                 else bb3)
      in rt\<lparr>rt_store := put_task ctx t' bb4\<rparr>)"

definition apply_command :: "command_env \<Rightarrow> task_command \<Rightarrow> session_runtime \<Rightarrow> str list result \<times> session_runtime" where
  "apply_command env cmd rt =
     (case get_task (rt_store rt) (c_task_id cmd) of
        None \<Rightarrow> (Inr [], rt)
      | Some t \<Rightarrow>
          (case validate_task_command (ce_registry env) (rt_store rt) t (c_command_type cmd) of
             Some msg \<Rightarrow> (Inl (ValueError msg), rt)
           | None \<Rightarrow>
               (let bb = append_command (ce_ctx env) cmd (rt_store rt);
                    b = get_binding bb (t_task_id t);
                    session = bound_execution_session b bb;
                    run = select_command_run bb session
                in (Inr [t_task_id t],
                    case c_command_type cmd of
                      TC_PAUSE_TASK \<Rightarrow> pause_task env rt t b session run bb
                    | TC_PREEMPT_TASK \<Rightarrow> pause_task env rt t b session run bb
                    | TC_CANCEL_TASK \<Rightarrow> cancel_task env rt t b session run bb
                    | TC_RESUME_TASK \<Rightarrow> requeue_task env rt True t b session run bb
                    | TC_RETRY_TASK \<Rightarrow> requeue_task env rt False t b session run bb))))"

section \<open>Answers to interaction requests\<close>

definition max_task_instruction_chars :: nat where
  "max_task_instruction_chars = 4000"

definition truncated_marker :: str where
  "truncated_marker = ''[Earlier instructions truncated]'' @ [CHR 0x0A, CHR 0x0A]"

definition follow_up_suffix :: "str \<Rightarrow> str" where
  "follow_up_suffix follow_up = [CHR 0x0A, CHR 0x0A] @ ''Follow-up:'' @ [CHR 0x0A] @ follow_up"

text \<open>\<open>s[-n:]\<close> for a positive \<open>n\<close>.\<close>

definition last_chars :: "nat \<Rightarrow> str \<Rightarrow> str" where
  "last_chars n s = drop (length s - n) s"

definition merge_follow_up_instruction :: "str option \<Rightarrow> str \<Rightarrow> str" where
  "merge_follow_up_instruction existing follow_up =
     (let old = py_strip (str_or_else existing []);
          merged = (if old \<noteq> [] then old @ follow_up_suffix follow_up else follow_up);
          suffix = follow_up_suffix follow_up
      in if length merged \<le> max_task_instruction_chars then merged
         else if max_task_instruction_chars \<le> length truncated_marker + length suffix
         then last_chars max_task_instruction_chars merged
         else truncated_marker @
              py_lstrip (last_chars (max_task_instruction_chars - length truncated_marker - length suffix) old) @ suffix)"

definition plan_approval_visible_text :: str where
  "plan_approval_visible_text = ''Implement it''"

definition visible_approval :: "interaction_request \<Rightarrow> str option \<Rightarrow> str" where
  "visible_approval q user_visible_text =
     (let shown = py_strip (str_or_else user_visible_text []) in
      if shown \<noteq> [] then shown
      else str_or_else (selected_plan_option_label q) plan_approval_visible_text)"

text \<open>The answer as a turn of the thread, when the request names the thread and the persona.\<close>

definition answer_turn :: "str \<Rightarrow> interaction_request \<Rightarrow> str \<Rightarrow> str \<Rightarrow> str \<Rightarrow> str option \<Rightarrow> timeline_turn" where
  "answer_turn now q thread persona_id text client =
     (let key = str_or_else client (i_request_id q) in
      \<lparr>tt_turn_id = thread @ '':answer:'' @ key, tt_thread_id = thread, tt_persona_id = persona_id,
       tt_executor_id = str_or_else (i_executor_type q) ''codex'', tt_owner = ''executor'',
       tt_client_request_id = client, tt_executor_thread_id = None, tt_executor_turn_id = None,
       tt_input_modality = ''text'',
       tt_user = Some
         \<lparr>tm_message_id = thread @ '':'' @ key @ '':user'', tm_role = ''user'', tm_kind = ''text'', tm_text = Some text,
          tm_transcript = None, tm_audio_id = None, tm_duration_ms = None, tm_created_at = Some now,
          tm_updated_at = Some now, tm_status = ''completed'',
          tm_metadata = [(''source'', JStr ''native_interaction_answer'')]\<rparr>,
       tt_assistant = None, tt_task = None, tt_status = ''completed'', tt_created_at = Some now,
       tt_updated_at = Some now,
       tt_metadata = [(''source'', JStr ''native_interaction_answer''), (''request_id'', JStr (i_request_id q))]\<rparr>)"

definition record_interaction_answer_turn ::
    "str \<Rightarrow> interaction_request \<Rightarrow> str option \<Rightarrow> str option \<Rightarrow> projection \<Rightarrow> projection" where
  "record_interaction_answer_turn now q user_visible_text client pj =
     (let text = py_strip (str_or_else user_visible_text []) in
      if text = [] then pj
      else
        (case (jstr_nonempty (jget (i_details q) ''target_thread_id''), jstr_nonempty (jget (i_details q) ''persona_id'')) of
           (Some thread, Some p) \<Rightarrow> upsert_turn (answer_turn now q thread p text client) pj
         | _ \<Rightarrow> pj))"

text \<open>A response to the executor that asked: through its node, else through a Codex session of this
  process. \<open>responds\<close> tells whether the client of that session takes the response.\<close>

definition session_node_id :: "blackboard \<Rightarrow> str option \<Rightarrow> str option" where
  "session_node_id bb sid =
     (if str_truthy sid then
        (case get_session bb (the sid) of Some x \<Rightarrow> s_executor_node_id x | None \<Rightarrow> None)
      else None)"

definition respond_to_native_interaction_request ::
    "command_env \<Rightarrow> bool \<Rightarrow> interaction_request \<Rightarrow> str \<Rightarrow> str option \<Rightarrow> answers option \<Rightarrow> session_runtime \<Rightarrow>
     bool result \<times> session_runtime" where
  "respond_to_native_interaction_request env responds q action answer_text answers rt =
     (let sid = i_execution_session_id q in
      case supply_interaction_response (ce_now env) (ce_ok env) q action answer_text answers
             (session_node_id (rt_store rt) sid) (rt_nodes rt) of
        (Inl e, m) \<Rightarrow> (Inl e, rt\<lparr>rt_nodes := m\<rparr>)
      | (Inr True, m) \<Rightarrow> (Inr True, rt\<lparr>rt_nodes := m\<rparr>)
      | (Inr False, m) \<Rightarrow>
          (let rt1 = rt\<lparr>rt_nodes := m\<rparr> in
           case jget (i_opaque q) ''native_response'' of
             JObj native \<Rightarrow>
               (case (jstr (jget native ''method''), jobj (jget native ''params''), codex_live_of rt sid) of
                  (Some method, Some params, Some (es, c)) \<Rightarrow>
                    if jget native ''request_id'' = JNull \<or> \<not> responds then (Inr False, rt1)
                    else (Inr True,
                          rt1\<lparr>rt_live := dict_put (the sid) (es, Some (mark_blocked_resolved c)) (rt_live rt1)\<rparr>)
                | _ \<Rightarrow> (Inr False, rt1))
           | _ \<Rightarrow> (Inr False, rt1)))"

definition detach_follow_up_live_session :: "command_env \<Rightarrow> interaction_request \<Rightarrow> session_runtime \<Rightarrow> session_runtime" where
  "detach_follow_up_live_session env q rt =
     (let sid = i_execution_session_id q in
      case codex_live_of rt sid of
        None \<Rightarrow> rt
      | Some live \<Rightarrow>
          (let session = get_session (rt_store rt) (the sid);
               run = (if str_truthy (i_run_id q) then get_run (rt_store rt) (the (i_run_id q)) else None)
           in rt\<lparr>rt_store := capture_pause_resume_handle env rt session run (rt_store rt),
                 rt_live := dict_pop (the sid) (rt_live rt)\<rparr>))"

definition plan_answer_metadata ::
    "interaction_request \<Rightarrow> str \<Rightarrow> str option \<Rightarrow> str option \<Rightarrow> jdict \<Rightarrow> jdict" where
  "plan_answer_metadata q action user_visible_text client md =
     (if i_kind q \<noteq> IK_PLAN_PROPOSAL then md
      else if action = ''approve'' then
        (let md1 = dict_put ''mode'' (JStr ''modify_allowed'') (dict_pop ''plan_mode'' md);
             md2 = (if str_truthy client then dict_put ''client_request_id'' (json_of_str client) md1 else md1)
         in dict_put ''source_kind'' (JStr ''bro_detail_plan_approval'')
              (dict_put ''user_visible_text'' (JStr (visible_approval q user_visible_text)) md2))
      else if action = ''deny'' then
        dict_put ''mode'' (JStr ''proposal_only'') (dict_put ''plan_mode'' (JBool True) md)
      else md)"

text \<open>A run that follows up: the task goes back to the queue with the answer in its instruction.\<close>

definition queue_follow_up ::
    "command_env \<Rightarrow> interaction_resolution \<Rightarrow> str \<Rightarrow> str option \<Rightarrow> str option \<Rightarrow> task \<Rightarrow> session_runtime \<Rightarrow> session_runtime" where
  "queue_follow_up env x action user_visible_text client t rt =
     (let ctx = ce_ctx env;
          q = x_request x;
          rt1 = detach_follow_up_live_session env q rt;
          t' = t\<lparr>t_metadata := plan_answer_metadata q action user_visible_text client (t_metadata t),
                 t_latest_instruction :=
                   Some (merge_follow_up_instruction (t_latest_instruction t) (x_follow_up_instruction x)),
                 t_status := TS_QUEUED\<rparr>;
          bb = rt_store rt1;
          b = get_binding bb (t_task_id t);
          session = bound_execution_session b bb;
          bb1 = (if i_run_id q = None then bb else clear_active_run ctx session (i_run_id q) bb);
          bb2 = settle_binding ctx BS_RELEASED b bb1;
          bb3 = put_summary ctx (queued_summary t) bb2
      in rt1\<lparr>rt_store := put_task ctx t' bb3\<rparr>)"

record interaction_answer =
  ia_request_id :: str
  ia_action :: str
  ia_answer_text :: "str option"
  ia_option_id :: "str option"
  ia_answers :: "answers option"
  ia_reason :: "str option"
  ia_client_request_id :: "str option"
  ia_user_visible_text :: "str option"

text \<open>A request of an outbound turn has no task: the answer is a new instruction in its thread.\<close>

definition follow_up_submission ::
    "interaction_resolution \<Rightarrow> interaction_answer \<Rightarrow> outbound_turn_request \<Rightarrow> text_submission" where
  "follow_up_submission x a out =
     (let q = x_request x;
          proposal = i_kind q = IK_PLAN_PROPOSAL;
          approved = ia_action a = ''approve''
      in \<lparr>tx_persona_id = o_persona_id out,
          tx_text = (if proposal \<and> approved then visible_approval q (ia_user_visible_text a)
                     else x_follow_up_instruction x),
          tx_target_thread_id = o_target_thread_id out, tx_create_new_thread = False, tx_workspace_id = None,
          tx_client_request_id = ia_client_request_id a, tx_plan_mode = (proposal \<and> \<not> approved),
          tx_skill_name = None\<rparr>)"

definition spawn_outbound_follow_up ::
    "command_env \<Rightarrow> fresh \<Rightarrow> interaction_resolution \<Rightarrow> interaction_answer \<Rightarrow> str \<Rightarrow> session_runtime \<Rightarrow>
     unit result \<times> session_runtime" where
  "spawn_outbound_follow_up env f x a outbound_id rt =
     (case get_outbound_turn_request (rt_store rt) outbound_id of
        None \<Rightarrow> (Inl (KeyError (''OutboundTurnRequest '' @ quoted outbound_id @ '' not found.'')), rt)
      | Some out \<Rightarrow>
          (let (r, bb, m) = submit_text_instruction (ce_ctx env) f (ce_ok env) (follow_up_submission x a out)
                 (rt_projection rt) (rt_store rt, rt_nodes rt)
           in (map_sum id (\<lambda>_. ()) r, rt\<lparr>rt_store := bb, rt_nodes := m\<rparr>)))"

text \<open>When the executor that asked cannot be reached, the answer goes into a new turn or run.\<close>

definition resume_by_follow_up ::
    "command_env \<Rightarrow> fresh \<Rightarrow> interaction_resolution \<Rightarrow> interaction_answer \<Rightarrow> session_runtime \<Rightarrow>
     str list result \<times> session_runtime" where
  "resume_by_follow_up env f x a rt =
     (case i_outbound_turn_request_id (x_request x) of
        Some k \<Rightarrow> (let (r, rt') = spawn_outbound_follow_up env f x a k rt in (map_sum id (\<lambda>_. []) r, rt'))
      | None \<Rightarrow>
          (case i_task_id (x_request x) of
             None \<Rightarrow> (Inl (ValueError ''Interaction request without a task cannot resume via a follow-up run.''), rt)
           | Some k \<Rightarrow>
               (case get_task (rt_store rt) k of
                  None \<Rightarrow> (Inl (KeyError (''Task '' @ quoted k @ '' not found.'')), rt)
                | Some t \<Rightarrow>
                    (Inr [t_task_id t],
                     queue_follow_up env x (ia_action a) (ia_user_visible_text a) (ia_client_request_id a) t rt))))"

definition resolve_interaction_request ::
    "(rat \<Rightarrow> str) \<Rightarrow> command_env \<Rightarrow> fresh \<Rightarrow> bool \<Rightarrow> interaction_answer \<Rightarrow> session_runtime \<Rightarrow>
     str list result \<times> session_runtime" where
  "resolve_interaction_request fr env f responds a rt =
     (case resolve_request fr (ce_ctx env) (ce_now env) (ia_request_id a) (ia_action a) (ia_answer_text a)
             (ia_option_id a) (ia_answers a) (ia_reason a) (rt_store rt) of
        (Inl e, bb) \<Rightarrow> (Inl e, rt\<lparr>rt_store := bb\<rparr>)
      | (Inr x, bb) \<Rightarrow>
          (let q = x_request x in
           case respond_to_native_interaction_request env responds q (ia_action a) (x_answer_text x) (x_answers x)
                  (rt\<lparr>rt_store := bb\<rparr>) of
             (Inl e, rt1) \<Rightarrow> (Inl e, rt1)
           | (Inr True, rt1) \<Rightarrow>
               (Inr (case i_task_id q of None \<Rightarrow> [] | Some k \<Rightarrow> [k]),
                rt1\<lparr>rt_store := put_interaction_request (ce_ctx env) (q\<lparr>i_resume_strategy := ''native_response''\<rparr>)
                       (rt_store rt1),
                    rt_projection := record_interaction_answer_turn (ce_now env) q (ia_user_visible_text a)
                       (ia_client_request_id a) (rt_projection rt1)\<rparr>)
           | (Inr False, rt1) \<Rightarrow> resume_by_follow_up env f x a rt1))"

section \<open>Tasks that waited for an executor\<close>

definition executor_came_back :: "node_manager \<Rightarrow> task \<Rightarrow> bool" where
  "executor_came_back m t \<longleftrightarrow>
     t_status t = TS_WAITING_EXECUTOR \<and> t_preferred_executor t \<noteq> None \<and>
     av_connected (executor_availability m (the (t_preferred_executor t)) (jstr (jget (t_metadata t) ''executor_node_id'')))"

definition requeue_one :: "command_env \<Rightarrow> task \<Rightarrow> blackboard \<Rightarrow> blackboard" where
  "requeue_one env t bb =
     put_summary (ce_ctx env) (queued_summary t) (put_task (ce_ctx env) (t\<lparr>t_status := TS_QUEUED\<rparr>) bb)"

definition requeue_waiting_executor_tasks :: "command_env \<Rightarrow> session_runtime \<Rightarrow> str list \<times> session_runtime" where
  "requeue_waiting_executor_tasks env rt =
     (let back = filter (executor_came_back (rt_nodes rt)) (list_tasks (rt_store rt))
      in (map t_task_id back, rt\<lparr>rt_store := fold (requeue_one env) back (rt_store rt)\<rparr>))"

end
