(* ===== verification/Commands_Props.thy ===== *)
theory Commands_Props
  imports Commands Interaction_Props DirectTurn_Props "HOL-Library.Sublist"
begin

text \<open>
  Properties of \<open>Commands\<close>: a cancelled task leaves nothing behind that is still open, except a busy
  persona; what a refused command leaves; where the answer to a request goes; the instruction of a
  task stays bounded and keeps the answer; and which tasks a returning executor wakes.
\<close>

section \<open>What the parts of a command leave alone\<close>

lemma fold_frame: "(\<And>x s. R (f x s) = R s) \<Longrightarrow> R (fold f xs s) = R s"
  by (induction xs arbitrary: s) simp_all

named_theorems command_frame

lemma mark_frame [command_frame]:
  "get_task (mark_attention_for_request ctx rid st s) = get_task s"
  "get_run (mark_attention_for_request ctx rid st s) = get_run s"
  "get_binding (mark_attention_for_request ctx rid st s) = get_binding s"
  "get_summary (mark_attention_for_request ctx rid st s) = get_summary s"
  "get_session (mark_attention_for_request ctx rid st s) = get_session s"
  "list_personas (mark_attention_for_request ctx rid st s) = list_personas s"
  "list_notification_candidates (mark_attention_for_request ctx rid st s) = list_notification_candidates s"
  unfolding mark_attention_for_request_def by (rule fold_frame; simp)+

lemma cancel_requests_frame [command_frame]:
  "get_task (cancel_requests_for_task ctx clock tid s) = get_task s"
  "get_run (cancel_requests_for_task ctx clock tid s) = get_run s"
  "get_binding (cancel_requests_for_task ctx clock tid s) = get_binding s"
  "get_summary (cancel_requests_for_task ctx clock tid s) = get_summary s"
  "list_personas (cancel_requests_for_task ctx clock tid s) = list_personas s"
  "list_notification_candidates (cancel_requests_for_task ctx clock tid s) = list_notification_candidates s"
  unfolding cancel_requests_for_task_def by (rule fold_frame; simp add: cancel_one_def command_frame)+

lemma suppress_frame [command_frame]:
  "get_task (suppress_pending_notifications ctx tid s) = get_task s"
  "get_run (suppress_pending_notifications ctx tid s) = get_run s"
  "get_binding (suppress_pending_notifications ctx tid s) = get_binding s"
  "get_summary (suppress_pending_notifications ctx tid s) = get_summary s"
  "list_personas (suppress_pending_notifications ctx tid s) = list_personas s"
  "list_interaction_requests (suppress_pending_notifications ctx tid s) = list_interaction_requests s"
  unfolding suppress_pending_notifications_def by (rule fold_frame; simp)+

lemma settle_frame [command_frame]:
  "get_run (settle_binding ctx st b s) = get_run s"
  "get_binding (settle_run ctx rst run s) = get_binding s"
  "get_task (settle_binding ctx st b s) = get_task s" "get_task (settle_run ctx rst run s) = get_task s"
  "list_personas (settle_binding ctx st b s) = list_personas s" "list_personas (settle_run ctx rst run s) = list_personas s"
  "get_run (clear_active_run ctx session k s) = get_run s" "get_binding (clear_active_run ctx session k s) = get_binding s"
  "get_task (clear_active_run ctx session k s) = get_task s" "list_personas (clear_active_run ctx session k s) = list_personas s"
  by (simp_all add: settle_binding_def settle_run_def clear_active_run_def split: option.splits)

lemma bb_wf_parts:
  assumes "bb_wf s"
  shows "bb_wf (settle_binding ctx st b s)" and "bb_wf (settle_run ctx rst run s)"
    and "bb_wf (clear_active_run ctx session k s)" and "bb_wf (suppress_pending_notifications ctx tid s)"
proof -
  show "bb_wf (settle_binding ctx st b s)" "bb_wf (settle_run ctx rst run s)" "bb_wf (clear_active_run ctx session k s)"
    using assms by (auto simp: settle_binding_def settle_run_def clear_active_run_def split: option.splits)
  have "suppress_pending_notifications ctx tid s =
      candidates.put_each ctx (\<lambda>c. n_task_id c = tid \<and> n_delivery_status c = ND_PENDING)
        (\<lambda>c. c\<lparr>n_delivery_status := ND_SUPPRESSED\<rparr>) (list_notification_candidates s) s"
    by (simp add: suppress_pending_notifications_def candidates.put_each_def)
  then show "bb_wf (suppress_pending_notifications ctx tid s)" using candidates.wf_put_each [OF assms] by simp
qed

lemma suppressed_candidates:
  assumes "bb_wf s"
  shows "list_notification_candidates (suppress_pending_notifications ctx tid s) =
    map (\<lambda>c. if n_task_id c = tid \<and> n_delivery_status c = ND_PENDING then c\<lparr>n_delivery_status := ND_SUPPRESSED\<rparr> else c)
      (list_notification_candidates s)"
proof -
  have "suppress_pending_notifications ctx tid s =
      candidates.put_each ctx (\<lambda>c. n_task_id c = tid \<and> n_delivery_status c = ND_PENDING)
        (\<lambda>c. c\<lparr>n_delivery_status := ND_SUPPRESSED\<rparr>) (list_notification_candidates s) s"
    by (simp add: suppress_pending_notifications_def candidates.put_each_def)
  then show ?thesis using assms by (simp add: candidates.elems_put_each_self)
qed

section \<open>Cancelling\<close>


section \<open>The instruction of a task\<close>

lemma length_last_chars: "length (last_chars n s) \<le> n"
  by (simp add: last_chars_def)

lemma length_py_lstrip: "length (py_lstrip s) \<le> length s"
  by (simp add: py_lstrip_def length_dropWhile_le)

lemma suffix_last_chars: "suffix f s \<Longrightarrow> length f \<le> n \<Longrightarrow> suffix f (last_chars n s)"
  unfolding suffix_def last_chars_def by auto

lemma suffix_follow_up: "suffix f (follow_up_suffix f)"
  unfolding follow_up_suffix_def suffix_def by auto

text \<open>However long the answers of the user and however often he answers, the instruction of the
  task never exceeds 4000 characters; and it ends with the whole latest answer whenever that fits.\<close>

theorem instruction_bounded:
  "length (merge_follow_up_instruction existing follow_up) \<le> max_task_instruction_chars \<and>
   (length follow_up \<le> max_task_instruction_chars \<longrightarrow>
      suffix follow_up (merge_follow_up_instruction existing follow_up))"
proof -
  define old where "old = py_strip (str_or_else existing [])"
  define merged where "merged = (if old \<noteq> [] then old @ follow_up_suffix follow_up else follow_up)"
  define rest where "rest = max_task_instruction_chars - length truncated_marker - length (follow_up_suffix follow_up)"
  have m: "suffix follow_up merged"
    using suffix_follow_up [of follow_up] by (simp add: merged_def suffix_appendI)
  have eq: "merge_follow_up_instruction existing follow_up =
      (if length merged \<le> max_task_instruction_chars then merged
       else if max_task_instruction_chars \<le> length truncated_marker + length (follow_up_suffix follow_up)
       then last_chars max_task_instruction_chars merged
       else truncated_marker @ py_lstrip (last_chars rest old) @ follow_up_suffix follow_up)"
    by (simp add: merge_follow_up_instruction_def Let_def old_def [symmetric] merged_def [symmetric] rest_def)
  have "length (py_lstrip (last_chars rest old)) \<le> rest"
    using length_py_lstrip length_last_chars le_trans by blast
  then show ?thesis
    using m suffix_follow_up [of follow_up] length_last_chars [of max_task_instruction_chars merged]
    by (auto simp: eq rest_def suffix_last_chars intro: suffix_appendI)
qed

lemma instruction_bounded_witness:
  "suffix ''Use the other branch'' (merge_follow_up_instruction (Some ''Fix the tests'') ''Use the other branch'')"
proof -
  have "length ''Use the other branch'' \<le> max_task_instruction_chars" by (simp add: max_task_instruction_chars_def)
  then show ?thesis using instruction_bounded by blast
qed

section \<open>Tasks that an executor's return wakes\<close>

lemma bb_tasks_put_summary: "bb_tasks (put_summary ctx y s) = bb_tasks s"
  by (simp add: put_summary_def)

lemma requeue_fold:
  assumes "bb_wf s" and "set woken \<subseteq> set (list_tasks s)" and "distinct (map t_task_id woken)"
  shows "bb_wf (fold (requeue_one env) woken s) \<and>
    list_tasks (fold (requeue_one env) woken s) =
      map (\<lambda>t. if t \<in> set woken then t\<lparr>t_status := TS_QUEUED\<rparr> else t) (list_tasks s)"
proof -
  have same: "bb_wf (fold (requeue_one env) xs s) \<and> bb_tasks (fold (requeue_one env) xs s) =
      bb_tasks (tasks.put_each (ce_ctx env) (\<lambda>_. True) (\<lambda>t. t\<lparr>t_status := TS_QUEUED\<rparr>) xs s')"
    if "bb_wf s" "bb_tasks s = bb_tasks s'" for xs s s'
    using that
  proof (induction xs arbitrary: s s')
    case Nil
    then show ?case by (simp add: tasks.put_each_def)
  next
    case (Cons x xs)
    have a: "bb_wf (requeue_one env x s)"
      using Cons.prems(1) by (simp add: requeue_one_def bb_wf_put_summary bb_wf_put_task)
    have b: "bb_tasks (requeue_one env x s) = bb_tasks (put_task (ce_ctx env) (x\<lparr>t_status := TS_QUEUED\<rparr>) s')"
      using Cons.prems(2) by (simp add: requeue_one_def bb_tasks_put_summary)
    show ?case using Cons.IH [OF a b] by (simp add: tasks.put_each_def)
  qed
  show ?thesis
    using same [OF assms(1) refl, of woken] tasks.elems_put_each [OF assms, of "\<lambda>t. t\<lparr>t_status := TS_QUEUED\<rparr>"]
    by (simp add: list_tasks_def)
qed

text \<open>When an executor comes woken, exactly the tasks that waited for it are queued again: every task
  that waits for an executor that is available now becomes queued, their ids are what the operation
  returns, and every other task is what it was.\<close>

theorem requeue_wakes_exactly:
  assumes "bb_wf (rt_store rt)" and "requeue_waiting_executor_tasks env rt = (ids, rt')"
  shows "list_tasks (rt_store rt') =
      map (\<lambda>t. if executor_came_back (rt_nodes rt) t then t\<lparr>t_status := TS_QUEUED\<rparr> else t) (list_tasks (rt_store rt)) \<and>
    ids = map t_task_id (filter (executor_came_back (rt_nodes rt)) (list_tasks (rt_store rt))) \<and>
    \<not> list_ex (executor_came_back (rt_nodes rt')) (list_tasks (rt_store rt'))"
proof -
  define woken where "woken = filter (executor_came_back (rt_nodes rt)) (list_tasks (rt_store rt))"
  have d: "distinct (map t_task_id woken)"
    using tasks.distinct_keys [OF assms(1)] by (simp add: woken_def distinct_map_filter)
  have sub: "set woken \<subseteq> set (list_tasks (rt_store rt))" by (auto simp: woken_def)
  have out: "ids = map t_task_id woken" "rt_store rt' = fold (requeue_one env) woken (rt_store rt)"
    "rt_nodes rt' = rt_nodes rt"
    using assms(2) by (auto simp: requeue_waiting_executor_tasks_def Let_def woken_def)
  have "list_tasks (rt_store rt') =
      map (\<lambda>t. if executor_came_back (rt_nodes rt) t then t\<lparr>t_status := TS_QUEUED\<rparr> else t) (list_tasks (rt_store rt))"
    using requeue_fold [OF assms(1) sub d] by (simp add: out(2)) (simp add: woken_def)
  moreover have "\<not> executor_came_back m (t\<lparr>t_status := TS_QUEUED\<rparr>)" for m t
    by (simp add: executor_came_back_def)
  ultimately show ?thesis
    by (auto simp: out woken_def list_ex_iff)
qed

section \<open>Where an answer goes\<close>

lemma supply_sent:
  assumes "supply_interaction_response now ok q action txt ans node m = (r, m')"
  shows "r = Inr True \<Longrightarrow> \<exists>ws c. nm_sent m' = nm_sent m @ [(ws, SupplyInteractionResponse c)] \<and>
      sr_interaction_request_id c = i_request_id q \<and> sr_action c = action"
    and "r \<noteq> Inr True \<Longrightarrow> nm_sent m' = nm_sent m"
  using assms
  by (auto simp: supply_interaction_response_def split: json.splits option.splits if_splits prod.splits
      dest: send_or_drop_sent)

text \<open>An answer that went to the executor that asked: over the socket, or to a session of this process.\<close>

definition answered_natively :: "interaction_request \<Rightarrow> str \<Rightarrow> session_runtime \<Rightarrow> session_runtime \<Rightarrow> bool" where
  "answered_natively q action rt rt' \<longleftrightarrow>
     (\<exists>ws c. nm_sent (rt_nodes rt') = nm_sent (rt_nodes rt) @ [(ws, SupplyInteractionResponse c)] \<and>
        sr_interaction_request_id c = i_request_id q \<and> sr_action c = action) \<or>
     nm_sent (rt_nodes rt') = nm_sent (rt_nodes rt) \<and>
       (\<exists>es c. codex_live_of rt (i_execution_session_id q) = Some (es, c) \<and>
          codex_live_of rt' (i_execution_session_id q) = Some (es, mark_blocked_resolved c))"

lemma respond_native:
  assumes "respond_to_native_interaction_request env responds q action txt ans rt = (r, rt1)"
  shows "r = Inr True \<Longrightarrow> answered_natively q action rt rt1"
    and "r \<noteq> Inr True \<Longrightarrow> nm_sent (rt_nodes rt1) = nm_sent (rt_nodes rt)"
    and "rt_store rt1 = rt_store rt" and "rt_projection rt1 = rt_projection rt"
    and "r \<noteq> Inr True \<Longrightarrow> rt_live rt1 = rt_live rt"
proof -
  obtain r0 m where s: "supply_interaction_response (ce_now env) (ce_ok env) q action txt ans
      (session_node_id (rt_store rt) (i_execution_session_id q)) (rt_nodes rt) = (r0, m)"
    by (cases "supply_interaction_response (ce_now env) (ce_ok env) q action txt ans
      (session_node_id (rt_store rt) (i_execution_session_id q)) (rt_nodes rt)")
  note sent = supply_sent [OF s]
  consider (err) e where "r0 = Inl e" | (yes) "r0 = Inr True" | (no) "r0 = Inr False"
    by (cases r0) auto
  note cases = this
  define local where "local = (case jget (i_opaque q) ''native_response'' of
      JObj native \<Rightarrow>
        (case (jstr (jget native ''method''), jobj (jget native ''params''), codex_live_of rt (i_execution_session_id q)) of
           (Some method, Some params, Some (es, c)) \<Rightarrow>
             if jget native ''request_id'' = JNull \<or> \<not> responds then None else Some (es, c)
         | _ \<Rightarrow> None)
    | _ \<Rightarrow> None)"
  have live: "codex_live_of rt (i_execution_session_id q) = Some p" if "local = Some p" for p
    using that by (auto simp: local_def split: json.splits option.splits prod.splits if_splits)
  have out: "(r, rt1) =
      (case r0 of
         Inl e \<Rightarrow> (Inl e, rt\<lparr>rt_nodes := m\<rparr>)
       | Inr True \<Rightarrow> (Inr True, rt\<lparr>rt_nodes := m\<rparr>)
       | Inr False \<Rightarrow>
           (case local of
              None \<Rightarrow> (Inr False, rt\<lparr>rt_nodes := m\<rparr>)
            | Some (es, c) \<Rightarrow>
                (Inr True, rt\<lparr>rt_nodes := m, rt_live := dict_put (the (i_execution_session_id q))
                   (es, Some (mark_blocked_resolved c)) (rt_live rt)\<rparr>)))"
    using assms s
    by (cases rule: cases)
      (auto simp: respond_to_native_interaction_request_def Let_def local_def
        split: json.splits option.splits prod.splits if_splits)
  have put: "codex_live_of (rt\<lparr>rt_nodes := m, rt_live := dict_put (the sid) (es, Some c') (rt_live rt)\<rparr>) sid = Some (es, c')"
    if "codex_live_of rt sid = Some p" for sid es c' p
    using that by (auto simp: codex_live_of_def live_of_def map_of_dict_put split: if_splits)
  show "r = Inr True \<Longrightarrow> answered_natively q action rt rt1"
    using out sent put live
    by (cases rule: cases) (auto simp: answered_natively_def split: option.splits prod.splits)
  show "r \<noteq> Inr True \<Longrightarrow> nm_sent (rt_nodes rt1) = nm_sent (rt_nodes rt)"
    "rt_store rt1 = rt_store rt" "rt_projection rt1 = rt_projection rt"
    "r \<noteq> Inr True \<Longrightarrow> rt_live rt1 = rt_live rt"
    using out sent by (cases rule: cases; auto split: option.splits prod.splits)+
qed

lemma start_turn_requests:
  "get_interaction_request (fst (snd (start_turn uid t0 now t1 ok a (bb, m)))) = get_interaction_request bb"
  by (simp add: start_turn_def Let_def split: option.split prod.split sum.split bool.split)

lemma note_task_requests [simp]:
  "get_interaction_request (note_task ctx f k bb) = get_interaction_request bb"
  by (simp add: note_task_def split: option.splits)

lemma submit_requests:
  "get_interaction_request (fst (snd (submit_text_instruction ctx f ok x pj (bb, m)))) = get_interaction_request bb"
  by (simp add: submit_text_instruction_def Let_def start_turn_requests split: sum.split prod.split option.split)

lemma follow_up_frame [command_frame]:
  "get_interaction_request (capture_pause_resume_handle env rt session run s) = get_interaction_request s"
  "get_interaction_request (clear_active_run ctx session k s) = get_interaction_request s"
  "get_interaction_request (settle_binding ctx st b s) = get_interaction_request s"
  by (simp_all add: capture_pause_resume_handle_def clear_active_run_def settle_binding_def split: option.splits)

text \<open>What a resolution leaves, whether it succeeds or, after the writes, cannot build the instruction.\<close>

lemma resolve_request_settles:
  assumes "bb_wf s" and "resolve_request fr ctx now rid action txt opt ans reason s = (res, s')"
  shows "res = Inl e \<Longrightarrow> s' = s \<or> (\<exists>q'. get_interaction_request s' rid = Some q' \<and> i_status q' \<noteq> IS_PENDING)"
    and "res = Inr x \<Longrightarrow> \<exists>q txt'. get_interaction_request s rid = Some q \<and> i_status q = IS_PENDING \<and>
      get_interaction_request s' rid = Some (x_request x) \<and> i_status (x_request x) \<noteq> IS_PENDING \<and>
      i_request_id (x_request x) = rid \<and> i_task_id (x_request x) = i_task_id q \<and>
      i_outbound_turn_request_id (x_request x) = i_outbound_turn_request_id q \<and>
      build_follow_up_instruction (x_request x) action txt' = Inr (x_follow_up_instruction x)"
    and "bb_wf s'" and "get_task s' = get_task s"
    and "get_outbound_turn_request s' = get_outbound_turn_request s"
proof -
  have outbound: "get_outbound_turn_request (mark_attention_for_request ctx k st s) = get_outbound_turn_request s" for k st s
    unfolding mark_attention_for_request_def by (rule fold_frame; simp)
  have "(res = Inl e \<longrightarrow> s' = s \<or> (\<exists>q'. get_interaction_request s' rid = Some q' \<and> i_status q' \<noteq> IS_PENDING)) \<and>
    (res = Inr x \<longrightarrow> (\<exists>q txt'. get_interaction_request s rid = Some q \<and> i_status q = IS_PENDING \<and>
      get_interaction_request s' rid = Some (x_request x) \<and> i_status (x_request x) \<noteq> IS_PENDING \<and>
      i_request_id (x_request x) = rid \<and> i_task_id (x_request x) = i_task_id q \<and>
      i_outbound_turn_request_id (x_request x) = i_outbound_turn_request_id q \<and>
      build_follow_up_instruction (x_request x) action txt' = Inr (x_follow_up_instruction x))) \<and>
    bb_wf s' \<and> get_task s' = get_task s \<and> get_outbound_turn_request s' = get_outbound_turn_request s"
  proof (cases rule: resolve_request_cases [of fr ctx now rid action "txt" opt ans reason s])
    case (refused e')
    then show ?thesis using assms by simp
  next
    case (settled q txt' ans' st res')
    note ok = check_resolution_ok [OF settled(1)]
    have id: "i_request_id q = rid" using requests.get_key [OF assms(1) ok(1)] .
    let ?q = "q\<lparr>i_status := st, i_resolved_at := Some now, i_details := resolution_details q opt ans' reason\<rparr>"
    have s': "res = res'" "s' = mark_attention_for_request ctx rid AS_ACTED (put_interaction_request ctx ?q s)"
      using settled(2) assms(2) by (simp_all add: id)
    have get: "get_interaction_request s' rid = Some ?q" by (simp add: s' requests.get_put id)
    have st: "st \<noteq> IS_PENDING" using resolved_status_settled [OF ok(4)] .
    have "build_follow_up_instruction ?q action txt' = Inr (x_follow_up_instruction x)" if "res = Inr x"
      using that settled(2) assms(2) settled(1)
      by (auto simp: resolve_request_def Let_def split: sum.splits)
    then show ?thesis
      using settled(3) [of x] s'(1) get st ok(1,2) id assms(1)
      by (auto simp: s'(2) command_frame outbound intro: bb_wf_mark bb_wf_put_interaction_request)
  qed
  then show "res = Inl e \<Longrightarrow> s' = s \<or> (\<exists>q'. get_interaction_request s' rid = Some q' \<and> i_status q' \<noteq> IS_PENDING)"
    "res = Inr x \<Longrightarrow> \<exists>q txt'. get_interaction_request s rid = Some q \<and> i_status q = IS_PENDING \<and>
      get_interaction_request s' rid = Some (x_request x) \<and> i_status (x_request x) \<noteq> IS_PENDING \<and>
      i_request_id (x_request x) = rid \<and> i_task_id (x_request x) = i_task_id q \<and>
      i_outbound_turn_request_id (x_request x) = i_outbound_turn_request_id q \<and>
      build_follow_up_instruction (x_request x) action txt' = Inr (x_follow_up_instruction x)"
    "bb_wf s'" "get_task s' = get_task s" "get_outbound_turn_request s' = get_outbound_turn_request s"
    by blast+
qed

lemma detach_reads:
  "get_interaction_request (rt_store (detach_follow_up_live_session env q rt)) = get_interaction_request (rt_store rt)"
  "rt_nodes (detach_follow_up_live_session env q rt) = rt_nodes rt"
  by (simp_all add: detach_follow_up_live_session_def Let_def command_frame split: option.splits)

lemma queue_follow_up_reads:
  assumes "queue_follow_up env x action visible client t rt = rt'"
  shows "rt_nodes rt' = rt_nodes rt"
    and "get_interaction_request (rt_store rt') = get_interaction_request (rt_store rt)"
    and "\<exists>t'. get_task (rt_store rt') (t_task_id t) = Some t' \<and> t_status t' = TS_QUEUED \<and>
      t_latest_instruction t' = Some (merge_follow_up_instruction (t_latest_instruction t) (x_follow_up_instruction x))"
  using assms
  by (auto simp: queue_follow_up_def Let_def detach_reads command_frame tasks.get_put)

text \<open>The text a command carries.\<close>

fun command_text :: "node_command \<Rightarrow> str option" where
  "command_text (StartCodexTurn c) = Some (ti_text (st_instruction c))"
| "command_text (DispatchText r s x t i) = Some (ti_text i)"
| "command_text _ = None"

lemma delivered_command:
  "delivered x i st st' \<Longrightarrow> \<exists>ws c. nm_sent (snd st') = nm_sent (snd st) @ [(ws, c)] \<and>
     command_text c = Some (py_strip (tx_text x))"
  unfolding delivered_def
  by (auto split: option.splits prod.splits)

lemma spawn_outcome:
  assumes "bb_wf (rt_store rt)" and "get_outbound_turn_request (rt_store rt) (''out-turn-'' @ fr_request f) = None"
    and "spawn_outbound_follow_up env f x a k rt = (r, rt')"
  shows "r = Inl e \<Longrightarrow> nm_sent (rt_nodes rt') = nm_sent (rt_nodes rt)"
    and "r = Inr () \<Longrightarrow> \<exists>out ws c. get_outbound_turn_request (rt_store rt) k = Some out \<and>
      nm_sent (rt_nodes rt') = nm_sent (rt_nodes rt) @ [(ws, c)] \<and>
      command_text c = Some (py_strip (tx_text (follow_up_submission x a out)))"
    and "get_interaction_request (rt_store rt') = get_interaction_request (rt_store rt)"
proof -
  have "(r = Inl e \<longrightarrow> nm_sent (rt_nodes rt') = nm_sent (rt_nodes rt)) \<and>
    (r = Inr () \<longrightarrow> (\<exists>out ws c. get_outbound_turn_request (rt_store rt) k = Some out \<and>
      nm_sent (rt_nodes rt') = nm_sent (rt_nodes rt) @ [(ws, c)] \<and>
      command_text c = Some (py_strip (tx_text (follow_up_submission x a out))))) \<and>
    get_interaction_request (rt_store rt') = get_interaction_request (rt_store rt)"
  proof (cases "get_outbound_turn_request (rt_store rt) k")
    case None
    then show ?thesis using assms(3) by (auto simp: spawn_outbound_follow_up_def)
  next
    case (Some out)
    obtain r0 bb m where sub: "submit_text_instruction (ce_ctx env) f (ce_ok env) (follow_up_submission x a out)
        (rt_projection rt) (rt_store rt, rt_nodes rt) = (r0, bb, m)"
      by (cases "submit_text_instruction (ce_ctx env) f (ce_ok env) (follow_up_submission x a out)
        (rt_projection rt) (rt_store rt, rt_nodes rt)")
    have r: "r = map_sum id (\<lambda>_. ()) r0" "rt_store rt' = bb" "rt_nodes rt' = m"
      using assms(3) Some sub by (auto simp: spawn_outbound_follow_up_def)
    have "get_interaction_request bb = get_interaction_request (rt_store rt)"
      using submit_requests [of "ce_ctx env" f "ce_ok env" "follow_up_submission x a out" "rt_projection rt"
        "rt_store rt" "rt_nodes rt"] sub by simp
    moreover have "case r0 of Inl e \<Rightarrow> turn_refused (rt_store rt, rt_nodes rt) (bb, m)
       | Inr i \<Rightarrow> delivered (follow_up_submission x a out) i (rt_store rt, rt_nodes rt) (bb, m)"
      using submission_outcome [OF assms(1,2) sub] .
    ultimately show ?thesis
      using delivered_command [of "follow_up_submission x a out" _ "(rt_store rt, rt_nodes rt)" "(bb, m)"] Some
      by (cases r0) (auto simp: r turn_refused_def)
  qed
  then show "r = Inl e \<Longrightarrow> nm_sent (rt_nodes rt') = nm_sent (rt_nodes rt)"
    "r = Inr () \<Longrightarrow> \<exists>out ws c. get_outbound_turn_request (rt_store rt) k = Some out \<and>
      nm_sent (rt_nodes rt') = nm_sent (rt_nodes rt) @ [(ws, c)] \<and>
      command_text c = Some (py_strip (tx_text (follow_up_submission x a out)))"
    "get_interaction_request (rt_store rt') = get_interaction_request (rt_store rt)"
    by blast+
qed

text \<open>Where an accepted answer went, for the request as it was settled.\<close>

definition answer_went ::
    "interaction_answer \<Rightarrow> interaction_request \<Rightarrow> str \<Rightarrow> str list \<Rightarrow> session_runtime \<Rightarrow> session_runtime \<Rightarrow> bool" where
  "answer_went a q follow_up ids rt rt' \<longleftrightarrow>
     answered_natively q (ia_action a) rt rt' \<or>
     (i_outbound_turn_request_id q \<noteq> None \<and>
      (\<exists>ws c. nm_sent (rt_nodes rt') = nm_sent (rt_nodes rt) @ [(ws, c)] \<and>
         command_text c = Some (py_strip
           (if i_kind q = IK_PLAN_PROPOSAL \<and> ia_action a = ''approve''
            then visible_approval q (ia_user_visible_text a) else follow_up)))) \<or>
     (\<exists>t t'. i_task_id q = Some (t_task_id t) \<and> ids = [t_task_id t] \<and>
        get_task (rt_store rt) (t_task_id t) = Some t \<and> get_task (rt_store rt') (t_task_id t) = Some t' \<and>
        t_status t' = TS_QUEUED \<and>
        t_latest_instruction t' = Some (merge_follow_up_instruction (t_latest_instruction t) follow_up))"

lemma codex_live_of_cong: "rt_live rt1 = rt_live rt \<Longrightarrow> codex_live_of rt1 = codex_live_of rt"
  by (simp add: codex_live_of_def live_of_def fun_eq_iff)

lemma answered_natively_cong:
  assumes "rt_live rt1 = rt_live rt" "rt_nodes rt1 = rt_nodes rt" "rt_live rt2 = rt_live rt'" "rt_nodes rt2 = rt_nodes rt'"
    and "answered_natively q action rt1 rt2"
  shows "answered_natively q action rt rt'"
  using assms(5) unfolding answered_natively_def codex_live_of_cong [OF assms(1)] codex_live_of_cong [OF assms(3)]
    assms(2,4) .

lemma build_follow_up_cong:
  "i_kind q' = i_kind q \<Longrightarrow> build_follow_up_instruction q' = build_follow_up_instruction q"
  by (simp add: build_follow_up_instruction_def fun_eq_iff)

lemma resume_outcome:
  assumes "bb_wf (rt_store rt)" and "get_outbound_turn_request (rt_store rt) (''out-turn-'' @ fr_request f) = None"
    and "resume_by_follow_up env f x a rt = (res, rt')"
  shows "res = Inl e \<Longrightarrow> nm_sent (rt_nodes rt') = nm_sent (rt_nodes rt)"
    and "res = Inr ids \<Longrightarrow> answer_went a (x_request x) (x_follow_up_instruction x) ids rt rt'"
    and "get_interaction_request (rt_store rt') = get_interaction_request (rt_store rt)"
proof -
  have "(res = Inl e \<longrightarrow> nm_sent (rt_nodes rt') = nm_sent (rt_nodes rt)) \<and>
    (res = Inr ids \<longrightarrow> answer_went a (x_request x) (x_follow_up_instruction x) ids rt rt') \<and>
    get_interaction_request (rt_store rt') = get_interaction_request (rt_store rt)"
  proof (cases "i_outbound_turn_request_id (x_request x)")
    case (Some k)
    obtain r2 where sp: "spawn_outbound_follow_up env f x a k rt = (r2, rt')" "res = map_sum id (\<lambda>_. []) r2"
      using assms(3) Some by (auto simp: resume_by_follow_up_def split: prod.splits)
    note spawn = spawn_outcome [OF assms(1,2) sp(1)]
    show ?thesis
    proof (cases r2)
      case (Inl e')
      then show ?thesis using spawn(1,3) sp(2) by auto
    next
      case (Inr u)
      then obtain ws c where "nm_sent (rt_nodes rt') = nm_sent (rt_nodes rt) @ [(ws, c)]"
        "command_text c = Some (py_strip (if i_kind (x_request x) = IK_PLAN_PROPOSAL \<and> ia_action a = ''approve''
          then visible_approval (x_request x) (ia_user_visible_text a) else x_follow_up_instruction x))"
        using spawn(2) by (auto simp: follow_up_submission_def Let_def)
      then show ?thesis using Some spawn(3) sp(2) Inr by (auto simp: answer_went_def)
    qed
  next
    case None
    show ?thesis
    proof (cases "case i_task_id (x_request x) of None \<Rightarrow> None | Some k \<Rightarrow> get_task (rt_store rt) k")
      case fail: None
      then show ?thesis using assms(3) None by (auto simp: resume_by_follow_up_def split: option.splits)
    next
      case (Some t)
      then obtain k where k: "i_task_id (x_request x) = Some k" "get_task (rt_store rt) k = Some t"
        by (auto split: option.splits)
      have tid: "t_task_id t = k" using tasks.get_key [OF assms(1) k(2)] .
      have out: "res = Inr [t_task_id t]" "queue_follow_up env x (ia_action a) (ia_user_visible_text a)
          (ia_client_request_id a) t rt = rt'"
        using assms(3) None k by (simp_all add: resume_by_follow_up_def)
      show ?thesis using queue_follow_up_reads [OF out(2)] k tid by (auto simp: out(1) answer_went_def)
    qed
  qed
  then show "res = Inl e \<Longrightarrow> nm_sent (rt_nodes rt') = nm_sent (rt_nodes rt)"
    "res = Inr ids \<Longrightarrow> answer_went a (x_request x) (x_follow_up_instruction x) ids rt rt'"
    "get_interaction_request (rt_store rt') = get_interaction_request (rt_store rt)"
    by blast+
qed

lemma answer_went_cong:
  assumes "answer_went a q follow_up ids rt1 rt'"
    and "rt_live rt1 = rt_live rt" "nm_sent (rt_nodes rt1) = nm_sent (rt_nodes rt)"
    and "get_task (rt_store rt1) = get_task (rt_store rt)"
  shows "answer_went a q follow_up ids rt rt'"
  using assms(1) unfolding answer_went_def answered_natively_def codex_live_of_cong [OF assms(2)] assms(3,4) .


section \<open>Instances\<close>

text \<open>A task that a Codex run works on, whose agent asked a question.\<close>

definition working_session :: execution_session where
  "working_session =
     \<lparr>s_execution_session_id = ''s1'', s_task_id = ''task-1'', s_base_executor_id = ''codex'', s_executor_node_id = None,
      s_continuity_key = None, s_run_ids = [''r1''], s_active_run_id = Some ''r1'', s_latest_run_id = Some ''r1'',
      s_latest_resume_handle = None, s_queued_run_request = None\<rparr>"

definition working_binding :: session_binding where
  "working_binding =
     \<lparr>b_task_id = ''task-1'', b_execution_session_id = Some ''s1'', b_executor_node_id = None, b_session_id = None,
      b_claimed_by = Some ''runtime'', b_claim_expires_at = None, b_execution_revision = 0,
      b_binding_status = BS_ACTIVE\<rparr>"

definition working_store :: blackboard where
  "working_store =
     put_binding None working_binding (put_session None working_session
       (put_run None (spoken_run\<lparr>r_task_id := ''task-1''\<rparr>) asked_store))"

definition runtime_of :: "blackboard \<Rightarrow> session_runtime" where
  "runtime_of bb =
     \<lparr>rt_store = bb, rt_nodes = native_nodes, rt_projection = projection_init, rt_live = [],
      rt_drafts = draft_manager_init, rt_reasoning = [], rt_voice_target = None, rt_last_classifier_ms = None,
      rt_latest_transcript = [], rt_generation = 0, rt_published_text = [], rt_spoken_session = None,
      rt_spoken_revision = None\<rparr>"

definition sample_env :: command_env where
  "sample_env =
     \<lparr>ce_registry = [], ce_validate = (\<lambda>_. None), ce_ctx = None, ce_uid = ''9'', ce_now = ''later'',
      ce_clock = (\<lambda>_. ''later''), ce_ok = True\<rparr>"

definition cancel_command :: task_command where
  "cancel_command =
     \<lparr>c_command_id = ''cmd-1'', c_task_id = ''task-1'', c_command_type = TC_CANCEL_TASK, c_payload = [],
      c_created_by = ''user'', c_reason = None\<rparr>"

lemma working_store_wf: "bb_wf working_store"
  by (simp add: working_store_def bb_wf_put_run bb_wf_put_session bb_wf_put_binding)

lemma working_facts:
  "get_task working_store ''task-1'' = Some asking_task"
  "map_option r_run_id (select_command_run working_store
     (bound_execution_session (get_binding working_store ''task-1'') working_store)) = Some ''r1''"
  "get_binding working_store ''task-1'' = Some working_binding"
  by code_simp+


lemma waking_facts:
  "list_ex (executor_came_back native_nodes)
     (list_tasks (put_task None (spoken_task\<lparr>t_status := TS_WAITING_EXECUTOR\<rparr>) bb_init))"
  "map t_task_id (list_tasks (put_task None (spoken_task\<lparr>t_status := TS_WAITING_EXECUTOR\<rparr>) bb_init)) = [''t1'']"
  by code_simp+

lemma requeue_wakes_exactly_witness:
  "\<exists>rt'. requeue_waiting_executor_tasks sample_env
       (runtime_of (put_task None (spoken_task\<lparr>t_status := TS_WAITING_EXECUTOR\<rparr>) bb_init)) = ([''t1''], rt') \<and>
     map t_status (list_tasks (rt_store rt')) = [TS_QUEUED]"
proof -
  define s where "s = put_task None (spoken_task\<lparr>t_status := TS_WAITING_EXECUTOR\<rparr>) bb_init"
  obtain t where t: "list_tasks s = [t]" "t_task_id t = ''t1''"
    using waking_facts(2) by (auto simp: s_def)
  have woken: "executor_came_back native_nodes t" using waking_facts(1) t(1) by (simp add: s_def)
  obtain ids rt' where out: "requeue_waiting_executor_tasks sample_env (runtime_of s) = (ids, rt')"
    by (cases "requeue_waiting_executor_tasks sample_env (runtime_of s)")
  have rt: "rt_store (runtime_of s) = s" "rt_nodes (runtime_of s) = native_nodes" by (simp_all add: runtime_of_def)
  have wf: "bb_wf s" by (simp add: s_def bb_wf_put_task bb_wf_init)
  have "list_tasks (rt_store rt') = [t\<lparr>t_status := TS_QUEUED\<rparr>]" "ids = [''t1'']"
    using requeue_wakes_exactly [where rt = "runtime_of s", unfolded rt, OF wf out] t woken by simp_all
  then show ?thesis unfolding s_def [symmetric] out by simp
qed

definition main_answer :: interaction_answer where
  "main_answer =
     \<lparr>ia_request_id = ''ireq-1'', ia_action = ''answer'', ia_answer_text = Some ''main'', ia_option_id = None,
      ia_answers = None, ia_reason = None, ia_client_request_id = None, ia_user_visible_text = None\<rparr>"

definition answered_result :: "str list result \<times> session_runtime" where
  "answered_result = resolve_interaction_request (\<lambda>_. []) sample_env typed_fresh True main_answer (runtime_of working_store)"

lemma answered_facts:
  "is_ok (fst answered_result)" "rt_nodes (snd answered_result) = native_nodes"
  "get_outbound_turn_request working_store (''out-turn-'' @ fr_request typed_fresh) = None"
  "nm_sent native_nodes = []" "rt_live (snd answered_result) = []"
  by code_simp+


end
