(* ===== verification/PersonaPool.thy ===== *)
theory PersonaPool
  imports ThreadText
begin

text \<open>
  \<open>src/newbro/communication/persona_pool.py\<close>: the file of the user's personas, written and read line
  by line, and the id of a workspace. Reading gives back what was written, with two exceptions that
  the round trip names: a backslash before the letter n, which is read as a line end, and the line
  ends that are not escaped. The file itself is the text; a file that is missing or cannot be read
  is \<open>None\<close>.
\<close>

section \<open>Replacing in a text\<close>

text \<open>\<open>s.replace(p # ps, r)\<close>; the number counts the characters of a match still to be skipped.\<close>

fun replace_from :: "nat \<Rightarrow> str \<Rightarrow> str \<Rightarrow> str \<Rightarrow> str" where
  "replace_from k p r [] = []"
| "replace_from (Suc k) p r (c # s) = replace_from k p r s"
| "replace_from 0 p r (c # s) =
     (if py_startswith (c # s) p then r @ replace_from (length p - 1) p r s else c # replace_from 0 p r s)"

definition py_replace :: "str \<Rightarrow> str \<Rightarrow> str \<Rightarrow> str" where
  "py_replace p r s = replace_from 0 p r s"

definition create_workspace :: "str \<Rightarrow> str" where
  "create_workspace task_id = ''ws-'' @ py_replace ''task-'' [] task_id"

section \<open>Lines\<close>

text \<open>A character of \<open>\w\<close>.\<close>

definition is_word_char :: "char \<Rightarrow> bool" where
  "is_word_char c =
     (let n = of_char c :: nat in
        48 \<le> n \<and> n \<le> 57 \<or> 65 \<le> n \<and> n \<le> 90 \<or> n = 95 \<or> 97 \<le> n \<and> n \<le> 122 \<or> n = 170 \<or> n = 178 \<or> n = 179 \<or>
        n = 181 \<or> n = 185 \<or> n = 186 \<or> 188 \<le> n \<and> n \<le> 190 \<or> 192 \<le> n \<and> n \<noteq> 215 \<and> n \<noteq> 247)"

text \<open>\<open>^(\w+):\s*(.*)\<close> and \<open>^-\s+(\w+):\s*(.*)\<close> at the start of a line without its line end.\<close>

definition match_field :: "str \<Rightarrow> (str \<times> str) option" where
  "match_field s =
     (let k = takeWhile is_word_char s in
      case dropWhile is_word_char s of
        c # rest \<Rightarrow> if k \<noteq> [] \<and> c = CHR '':'' then Some (k, py_lstrip rest) else None
      | [] \<Rightarrow> None)"

definition match_item :: "str \<Rightarrow> (str \<times> str) option" where
  "match_item s =
     (case s of
        c # d # rest \<Rightarrow> if c = CHR ''-'' \<and> py_isspace d then match_field (py_lstrip rest) else None
      | _ \<Rightarrow> None)"

section \<open>Reading\<close>

definition backslash :: char where "backslash = char_of (92::nat)"
definition quote_mark :: char where "quote_mark = char_of (34::nat)"
definition line_feed :: char where "line_feed = char_of (10::nat)"

text \<open>\<open>unquote\<close>: a pair of double quotes and the three escapes, or a pair of single quotes.\<close>

definition quoted_by :: "char \<Rightarrow> str \<Rightarrow> bool" where
  "quoted_by q s \<longleftrightarrow> 2 \<le> length s \<and> hd s = q \<and> last s = q"

definition unquote :: "str \<Rightarrow> str" where
  "unquote v =
     (let s = py_strip v; inner = butlast (tl s) in
      if quoted_by quote_mark s then
        py_replace [backslash, backslash] [backslash]
          (py_replace [backslash, quote_mark] [quote_mark] (py_replace [backslash, CHR ''n''] [line_feed] inner))
      else if quoted_by (char_of (39::nat)) s then inner
      else s)"

definition optional_value :: "str \<Rightarrow> str option" where
  "optional_value v = (if v \<in> {[], ''null'', ''~''} then None else Some v)"

text \<open>\<open>re.sub("[^a-zA-Z0-9_-]+", "-", s).strip("-")\<close>.\<close>

definition is_slug_char :: "char \<Rightarrow> bool" where
  "is_slug_char c =
     (let n = of_char c :: nat in
        48 \<le> n \<and> n \<le> 57 \<or> 65 \<le> n \<and> n \<le> 90 \<or> 97 \<le> n \<and> n \<le> 122 \<or> c = CHR ''_'' \<or> c = CHR ''-'')"

fun slug_from :: "bool \<Rightarrow> str \<Rightarrow> str" where
  "slug_from b [] = []"
| "slug_from b (c # s) =
     (if is_slug_char c then c # slug_from False s
      else if b then slug_from True s else CHR ''-'' # slug_from True s)"

definition strip_dashes :: "str \<Rightarrow> str" where
  "strip_dashes s = rev (dropWhile (\<lambda>c. c = CHR ''-'') (rev (dropWhile (\<lambda>c. c = CHR ''-'') s)))"

definition legacy_bro_detail_session_id :: "str \<Rightarrow> str" where
  "legacy_bro_detail_session_id k =
     (let slug = strip_dashes (slug_from False k) in ''bro-detail-'' @ (if slug = [] then ''bro'' else slug))"

definition field_or :: "(str, str) dict \<Rightarrow> str \<Rightarrow> str" where
  "field_or d k = (case map_of d k of Some v \<Rightarrow> v | None \<Rightarrow> [])"

definition build_persona :: "(str, str) dict \<Rightarrow> persona" where
  "build_persona d =
     (let name = field_or d ''name'';
          k = (if field_or d ''persona_id'' \<noteq> [] then field_or d ''persona_id''
               else ''persona-'' @ py_replace_char (CHR '' '') ''-'' (py_lower name));
          detail = field_or d ''bro_detail_session_id''
      in \<lparr>p_persona_id = k, p_name = name, p_avatar = field_or d ''avatar'',
          p_base_prompt = field_or d ''base_prompt'',
          p_executor_node_id = optional_value (field_or d ''executor_node_id''),
          p_bro_detail_session_id = (if detail \<noteq> [] then detail else legacy_bro_detail_session_id k),
          p_status = ''idle''\<rparr>)"

text \<open>What the loop over the lines keeps: the personas so far, the fields of the last one, and
  whether the line \<open>personas:\<close> was seen.\<close>

type_synonym reading = "persona list \<times> (str, str) dict \<times> bool"

definition flush_persona :: "persona list \<Rightarrow> (str, str) dict \<Rightarrow> persona list" where
  "flush_persona ps d = (if field_or d ''name'' \<noteq> [] then ps @ [build_persona d] else ps)"

fun read_line :: "str \<Rightarrow> reading \<Rightarrow> reading" where
  "read_line l (ps, d, inside) =
     (let s = py_strip l in
      if s = [] \<or> py_startswith s ''#'' then (ps, d, inside)
      else if s = ''personas:'' then (ps, d, True)
      else if \<not> inside then (ps, d, inside)
      else
        (case match_item s of
           Some (k, v) \<Rightarrow> (flush_persona ps d, [(k, unquote v)], inside)
         | None \<Rightarrow>
             (case match_field s of
                Some (k, v) \<Rightarrow> (ps, dict_put k (unquote v) d, inside)
              | None \<Rightarrow> (ps, d, inside))))"

definition parse_persona_store :: "str \<Rightarrow> persona list" where
  "parse_persona_store s =
     (let (ps, d, _) = fold read_line (py_splitlines s) ([], [], False) in flush_persona ps d)"

definition load_personas :: "str option \<Rightarrow> persona list" where
  "load_personas file = (case file of None \<Rightarrow> [] | Some s \<Rightarrow> parse_persona_store s)"

section \<open>Writing\<close>

definition persona_yaml_quote :: "str \<Rightarrow> str" where
  "persona_yaml_quote v =
     [quote_mark] @
     py_replace_char quote_mark [backslash, quote_mark]
       (py_replace_char line_feed [backslash, CHR ''n'']
         (py_replace_char backslash [backslash, backslash] v)) @
     [quote_mark]"

definition persona_lines :: "persona \<Rightarrow> str list" where
  "persona_lines p =
     [''  - name: '' @ persona_yaml_quote (p_name p),
      ''    persona_id: '' @ persona_yaml_quote (p_persona_id p),
      ''    avatar: '' @ persona_yaml_quote (p_avatar p),
      ''    base_prompt: '' @ persona_yaml_quote (p_base_prompt p),
      ''    executor_node_id: '' @
        (if str_truthy (p_executor_node_id p) then persona_yaml_quote (the (p_executor_node_id p)) else ''null''),
      ''    bro_detail_session_id: '' @ persona_yaml_quote (p_bro_detail_session_id p)]"

definition save_personas :: "persona list \<Rightarrow> str" where
  "save_personas ps = py_join [line_feed] (''personas:'' # concat (map persona_lines ps)) @ [line_feed]"

section \<open>What reading gives back\<close>

lemma special_chars:
  "backslash \<noteq> quote_mark" "backslash \<noteq> line_feed" "quote_mark \<noteq> line_feed" "backslash \<noteq> CHR ''n''"
  "quote_mark \<noteq> CHR ''n''" "line_feed \<noteq> CHR ''n''" "quote_mark \<noteq> backslash" "line_feed \<noteq> backslash"
  "line_feed \<noteq> quote_mark" "CHR ''n'' \<noteq> backslash" "CHR ''n'' \<noteq> quote_mark" "CHR ''n'' \<noteq> line_feed"
  by code_simp+

text \<open>What is left after each of the three replacements, for a text that was written with all escapes.\<close>

fun escaped :: "str \<Rightarrow> str" where
  "escaped [] = []"
| "escaped (c # s) =
     (if c = backslash then backslash # backslash # escaped s
      else if c = line_feed then backslash # CHR ''n'' # escaped s
      else if c = quote_mark then backslash # quote_mark # escaped s
      else c # escaped s)"

fun reread_lines :: "str \<Rightarrow> str" where
  "reread_lines [] = []"
| "reread_lines (c # s) =
     (if c = backslash then
        (case s of
           d # s' \<Rightarrow> if d = CHR ''n'' then backslash # line_feed # reread_lines s'
                     else backslash # backslash # reread_lines s
         | [] \<Rightarrow> [backslash, backslash])
      else if c = quote_mark then backslash # quote_mark # reread_lines s
      else c # reread_lines s)"

fun reread_quotes :: "str \<Rightarrow> str" where
  "reread_quotes [] = []"
| "reread_quotes (c # s) =
     (if c = backslash then
        (case s of
           d # s' \<Rightarrow> if d = CHR ''n'' then backslash # line_feed # reread_quotes s'
                     else backslash # backslash # reread_quotes s
         | [] \<Rightarrow> [backslash, backslash])
      else c # reread_quotes s)"

text \<open>In the end, an n after a backslash has become a line end.\<close>

fun reread :: "str \<Rightarrow> str" where
  "reread [] = []"
| "reread (c # s) =
     (if c = backslash then
        (case s of d # s' \<Rightarrow> if d = CHR ''n'' then backslash # line_feed # reread s' else backslash # reread s
         | [] \<Rightarrow> [backslash])
      else c # reread s)"

lemma py_replace_char_simps:
  "py_replace_char a r [] = []"
  "py_replace_char a r (c # s) = (if c = a then r else [c]) @ py_replace_char a r s"
  by (simp_all add: py_replace_char_def)

lemma escape_eq:
  "py_replace_char quote_mark [backslash, quote_mark]
     (py_replace_char line_feed [backslash, CHR ''n''] (py_replace_char backslash [backslash, backslash] v)) = escaped v"
  by (induction v) (simp_all add: py_replace_char_simps special_chars)

lemma hd_escaped_n: "escaped s = CHR ''n'' # t \<longleftrightarrow> (\<exists>s'. s = CHR ''n'' # s' \<and> t = escaped s')"
  by (cases s) (auto simp: special_chars)

text \<open>Replacing a pair of characters.\<close>

lemma startswith_pair: "py_startswith (c # s) [a, b] \<longleftrightarrow> c = a \<and> (\<exists>t. s = b # t)"
  by (cases s) auto

lemma replace_pair:
  "py_replace [a, b] r [] = []"
  "py_replace [a, b] r (a # b # s) = r @ py_replace [a, b] r s"
  "c \<noteq> a \<or> (\<forall>t. s \<noteq> b # t) \<Longrightarrow> py_replace [a, b] r (c # s) = c # py_replace [a, b] r s"
  by (auto simp: py_replace_def startswith_pair simp del: py_startswith.simps)

lemma text_cases:
  obtains "s = []" | s' where "s = CHR ''n'' # s'" | d s' where "s = d # s'" "d \<noteq> CHR ''n''"
  by (cases s) auto

lemma replace_lines: "py_replace [backslash, CHR ''n''] [line_feed] (escaped s) = reread_lines s"
proof (induction s rule: reread_lines.induct)
  case (2 c s)
  note IH = 2
  show ?case
  proof (cases "c = backslash")
    case c: True
    show ?thesis
    proof (cases rule: text_cases [of s])
      case (2 s')
      then show ?thesis using IH(1) [of "CHR ''n''" s'] c by (simp add: special_chars replace_pair)
    next
      case (3 d s')
      then have "py_replace [backslash, CHR ''n''] [line_feed] (escaped s) = reread_lines s"
        using IH(2) [of d s'] c by simp
      then show ?thesis using c 3 hd_escaped_n [of s]
        by (simp add: special_chars replace_pair)
    qed (simp add: c special_chars replace_pair)
  next
    case False
    then show ?thesis using IH by (auto simp: special_chars replace_pair)
  qed
qed (simp add: replace_pair)

lemma hd_reread_lines: "reread_lines s = quote_mark # t \<Longrightarrow> False"
  by (cases s) (auto simp: special_chars split: if_splits list.splits)

lemma replace_quotes: "py_replace [backslash, quote_mark] [quote_mark] (reread_lines s) = reread_quotes s"
proof (induction s rule: reread_lines.induct)
  case (2 c s)
  note IH = 2
  show ?case
  proof (cases "c = backslash")
    case c: True
    show ?thesis
    proof (cases rule: text_cases [of s])
      case (2 s')
      then show ?thesis using IH(1) [of "CHR ''n''" s'] c by (simp add: special_chars replace_pair)
    next
      case (3 d s')
      then have "py_replace [backslash, quote_mark] [quote_mark] (reread_lines s) = reread_quotes s"
        using IH(2) [of d s'] c by simp
      moreover have "\<forall>t. reread_lines s \<noteq> quote_mark # t" using hd_reread_lines by blast
      ultimately show ?thesis using c 3
        by (simp add: special_chars replace_pair)
    qed (simp add: c special_chars replace_pair)
  next
    case False
    then show ?thesis using IH by (auto simp: special_chars replace_pair)
  qed
qed (simp add: replace_pair)

lemma replace_backslashes: "py_replace [backslash, backslash] [backslash] (reread_quotes s) = reread s"
proof (induction s rule: reread_quotes.induct)
  case (2 c s)
  note IH = 2
  show ?case
  proof (cases "c = backslash")
    case c: True
    show ?thesis
    proof (cases rule: text_cases [of s])
      case (2 s')
      then show ?thesis using IH(1) [of "CHR ''n''" s'] c by (simp add: special_chars replace_pair)
    next
      case (3 d s')
      then have "py_replace [backslash, backslash] [backslash] (reread_quotes s) = reread s"
        using IH(2) [of d s'] c by simp
      then show ?thesis using c 3
        by (simp add: special_chars replace_pair)
    qed (simp add: c special_chars replace_pair)
  next
    case False
    then show ?thesis using IH by (simp add: special_chars replace_pair)
  qed
qed (simp add: replace_pair)

lemma last_quote: "persona_yaml_quote v = quote_mark # escaped v @ [quote_mark]"
  by (simp add: persona_yaml_quote_def escape_eq)

lemma strip_quoted: "py_strip (persona_yaml_quote v) = persona_yaml_quote v"
proof -
  have "\<not> py_isspace quote_mark" by code_simp
  then show ?thesis by (simp add: last_quote py_strip_def py_lstrip_def py_rstrip_def)
qed

lemma unquote_quote: "unquote (persona_yaml_quote v) = reread v"
  by (simp add: unquote_def strip_quoted quoted_by_def Let_def)
    (simp add: last_quote replace_lines replace_quotes replace_backslashes)

section \<open>The file as a whole\<close>

lemma splitlines_line:
  assumes "\<forall>c \<in> set l. \<not> is_line_break c"
  shows "splitlines_from acc (l @ line_feed # s) = (rev acc @ l) # splitlines_from [] s"
  using assms
proof (induction l arbitrary: acc)
  case Nil
  have "is_line_break line_feed" "of_char line_feed = (10 :: nat)" by code_simp+
  then show ?case by (simp split: list.split)
next
  case (Cons c l)
  then show ?case by simp
qed

lemma splitlines_lines:
  "\<forall>l \<in> set ls. \<forall>c \<in> set l. \<not> is_line_break c \<Longrightarrow> py_splitlines (concat (map (\<lambda>l. l @ [line_feed]) ls)) = ls"
  by (induction ls) (simp_all add: py_splitlines_def splitlines_line)

lemma join_lines: "ls \<noteq> [] \<Longrightarrow> py_join [line_feed] ls @ [line_feed] = concat (map (\<lambda>l. l @ [line_feed]) ls)"
  by (induction "[line_feed]" ls rule: py_join.induct) auto

lemma set_escaped: "c \<in> set (escaped v) \<Longrightarrow> c \<noteq> line_feed \<and> (c \<in> set v \<or> c \<in> {backslash, quote_mark, CHR ''n''})"
  by (induction v) (auto simp: special_chars split: if_splits)

text \<open>A text without line ends other than the one that is escaped.\<close>

definition one_line :: "str \<Rightarrow> bool" where
  "one_line v \<longleftrightarrow> (\<forall>c \<in> set v. is_line_break c \<longrightarrow> c = line_feed)"

lemma quoted_line_ends: "one_line v \<Longrightarrow> \<forall>c \<in> set (persona_yaml_quote v). \<not> is_line_break c"
proof
  fix c
  assume v: "one_line v" and c: "c \<in> set (persona_yaml_quote v)"
  have "\<not> is_line_break quote_mark" "\<not> is_line_break backslash" "\<not> is_line_break (CHR ''n'')" by code_simp+
  then show "\<not> is_line_break c"
    using c v set_escaped [of c v] by (auto simp: last_quote one_line_def)
qed

lemma strip_line:
  assumes "\<forall>x \<in> set w. py_isspace x" and "\<not> py_isspace c"
  shows "py_strip (w @ c # t @ persona_yaml_quote v) = c # t @ persona_yaml_quote v"
proof -
  have "\<not> py_isspace quote_mark" by code_simp
  then show ?thesis using assms by (simp add: last_quote py_strip_def py_lstrip_def py_rstrip_def dropWhile_append2)
qed

lemma match_field_line:
  assumes "k \<noteq> []" and "\<forall>c \<in> set k. is_word_char c"
  shows "match_field (k @ '': '' @ persona_yaml_quote v) = Some (k, persona_yaml_quote v)"
proof -
  have a: "\<not> is_word_char (CHR '':'')" "py_isspace (CHR '' '')" "\<not> py_isspace quote_mark" by code_simp+
  have "takeWhile is_word_char (k @ CHR '':'' # r) = k" "dropWhile is_word_char (k @ CHR '':'' # r) = CHR '':'' # r" for r
    using assms(2) a(1) by (simp_all add: takeWhile_append2 dropWhile_append2)
  then show ?thesis using assms(1) a by (simp add: match_field_def py_lstrip_def last_quote Let_def)
qed

definition persona_keys :: "str list" where
  "persona_keys = [''persona_id'', ''avatar'', ''base_prompt'', ''executor_node_id'', ''bro_detail_session_id'']"

lemma persona_keys_ok:
  "k \<in> set persona_keys \<Longrightarrow> \<exists>c t. k = c # t \<and> \<not> py_isspace c \<and> c \<noteq> CHR ''-'' \<and> c \<noteq> CHR ''#'' \<and> (\<forall>c \<in> set k. is_word_char c)"
proof -
  have "list_all (\<lambda>k. k \<noteq> [] \<and> \<not> py_isspace (hd k) \<and> hd k \<noteq> CHR ''-'' \<and> hd k \<noteq> CHR ''#'' \<and> list_all is_word_char k) persona_keys"
    by code_simp
  moreover assume "k \<in> set persona_keys"
  ultimately show ?thesis by (cases k) (auto simp: list_all_iff)
qed

lemma read_item:
  "read_line (''  - name: '' @ persona_yaml_quote v) (ps, d, True) = (flush_persona ps d, [(''name'', reread v)], True)"
proof -
  have a: "py_strip (''  '' @ CHR ''-'' # '' name: '' @ persona_yaml_quote v) = CHR ''-'' # '' name: '' @ persona_yaml_quote v"
    by (rule strip_line) (auto simp: py_isspace_def)
  have b: "match_field (''name'' @ '': '' @ persona_yaml_quote v) = Some (''name'', persona_yaml_quote v)"
    by (rule match_field_line) (auto simp: is_word_char_def)
  have c: "py_isspace (CHR '' '')" "\<not> py_isspace (CHR ''n'')" by code_simp+
  have d: "match_item (CHR ''-'' # '' name: '' @ persona_yaml_quote v) = Some (''name'', persona_yaml_quote v)"
    using b c by (simp add: match_item_def py_lstrip_def)
  show ?thesis using a d by (simp add: Let_def unquote_quote)
qed

lemma read_continuation:
  assumes "k \<in> set persona_keys"
  shows "read_line (''    '' @ k @ '': '' @ persona_yaml_quote v) (ps, d, True) = (ps, dict_put k (reread v) d, True)"
proof -
  obtain c t where k: "k = c # t" "\<not> py_isspace c" "c \<noteq> CHR ''-''" "c \<noteq> CHR ''#''" "\<forall>c \<in> set k. is_word_char c"
    using persona_keys_ok [OF assms] by blast
  have a: "py_strip (''    '' @ c # (t @ '': '') @ persona_yaml_quote v) = c # (t @ '': '') @ persona_yaml_quote v"
    by (rule strip_line) (use k in \<open>auto simp: py_isspace_def\<close>)
  have b: "match_field (k @ '': '' @ persona_yaml_quote v) = Some (k, persona_yaml_quote v)"
    by (rule match_field_line) (use k in auto)
  have i: "match_item (k @ '': '' @ persona_yaml_quote v) = None"
    using k by (simp add: match_item_def split: list.split)
  have n: "k @ '': '' @ persona_yaml_quote v \<noteq> ''personas:''"
  proof
    assume "k @ '': '' @ persona_yaml_quote v = ''personas:''"
    then have "last (k @ '': '' @ persona_yaml_quote v) = CHR '':''" by simp
    moreover have "quote_mark \<noteq> CHR '':''" by code_simp
    ultimately show False by (simp add: last_quote)
  qed
  show ?thesis using a b i n k(1,4) by (auto simp: Let_def unquote_quote)
qed

lemma read_null:
  "read_line ''    executor_node_id: null'' (ps, d, True) = (ps, dict_put ''executor_node_id'' ''null'' d, True)"
proof -
  have "py_strip ''    executor_node_id: null'' = ''executor_node_id: null''"
    "match_item ''executor_node_id: null'' = None"
    "match_field ''executor_node_id: null'' = Some (''executor_node_id'', ''null'')"
    "unquote ''null'' = ''null''" by code_simp+
  then show ?thesis by (simp add: Let_def)
qed

text \<open>A persona as it is read again: its status is not written.\<close>

definition reread_persona :: "persona \<Rightarrow> persona" where
  "reread_persona p =
     \<lparr>p_persona_id = reread (p_persona_id p), p_name = reread (p_name p), p_avatar = reread (p_avatar p),
      p_base_prompt = reread (p_base_prompt p), p_executor_node_id = map_option reread (p_executor_node_id p),
      p_bro_detail_session_id = reread (p_bro_detail_session_id p), p_status = ''idle''\<rparr>"

definition writable :: "persona \<Rightarrow> bool" where
  "writable p \<longleftrightarrow>
     p_name p \<noteq> [] \<and> p_persona_id p \<noteq> [] \<and> p_bro_detail_session_id p \<noteq> [] \<and>
     p_executor_node_id p \<notin> {Some [], Some ''null'', Some ''~''} \<and>
     list_all one_line [p_name p, p_persona_id p, p_avatar p, p_base_prompt p, p_bro_detail_session_id p] \<and>
     (case p_executor_node_id p of None \<Rightarrow> True | Some k \<Rightarrow> one_line k)"

lemma reread_Nil: "reread s = [] \<longleftrightarrow> s = []"
  by (cases s) (auto split: list.split)

lemma reread_plain: "backslash \<notin> set (reread s) \<Longrightarrow> reread s = s"
proof (induction s)
  case (Cons c s)
  have "c \<noteq> backslash"
  proof
    assume "c = backslash"
    then have "backslash \<in> set (reread (c # s))" by (cases s) simp_all
    then show False using Cons.prems by blast
  qed
  then show ?case using Cons by simp
qed simp

lemma reread_optional:
  assumes "writable p"
  shows "optional_value (if str_truthy (p_executor_node_id p) then reread (the (p_executor_node_id p)) else ''null'') =
    map_option reread (p_executor_node_id p)"
proof (cases "p_executor_node_id p")
  case None
  then show ?thesis by (simp add: optional_value_def)
next
  case (Some k)
  have "backslash \<notin> set ''null''" "backslash \<notin> set ''~''" by code_simp+
  then have "reread k \<noteq> ''null''" "reread k \<noteq> ''~''"
    using reread_plain [of k] assms Some by (auto simp: writable_def)
  then show ?thesis using assms Some reread_Nil [of k]
    by (simp add: optional_value_def writable_def str_truthy_def)
qed

text \<open>The six lines of a persona, from any point of the file after its first line.\<close>

definition reread_fields :: "persona \<Rightarrow> (str, str) dict" where
  "reread_fields p =
     dict_put ''bro_detail_session_id'' (reread (p_bro_detail_session_id p))
       (dict_put ''executor_node_id''
         (if str_truthy (p_executor_node_id p) then reread (the (p_executor_node_id p)) else ''null'')
         (dict_put ''base_prompt'' (reread (p_base_prompt p))
           (dict_put ''avatar'' (reread (p_avatar p))
             (dict_put ''persona_id'' (reread (p_persona_id p)) [(''name'', reread (p_name p))]))))"

lemma read_persona:
  "fold read_line (persona_lines p) (ps, d, True) = (flush_persona ps d, reread_fields p, True)"
proof -
  have c: "read_line (''    persona_id: '' @ persona_yaml_quote v) (ps, d, True) = (ps, dict_put ''persona_id'' (reread v) d, True)"
    "read_line (''    avatar: '' @ persona_yaml_quote v) (ps, d, True) = (ps, dict_put ''avatar'' (reread v) d, True)"
    "read_line (''    base_prompt: '' @ persona_yaml_quote v) (ps, d, True) = (ps, dict_put ''base_prompt'' (reread v) d, True)"
    "read_line (''    executor_node_id: '' @ persona_yaml_quote v) (ps, d, True) = (ps, dict_put ''executor_node_id'' (reread v) d, True)"
    "read_line (''    bro_detail_session_id: '' @ persona_yaml_quote v) (ps, d, True) =
       (ps, dict_put ''bro_detail_session_id'' (reread v) d, True)" for v ps d
    using read_continuation [of "''persona_id''" v ps d] read_continuation [of "''avatar''" v ps d]
      read_continuation [of "''base_prompt''" v ps d] read_continuation [of "''executor_node_id''" v ps d]
      read_continuation [of "''bro_detail_session_id''" v ps d]
    by (simp_all add: persona_keys_def)
  have n: "read_line (''    executor_node_id: '' @ ''null'') (ps, d, True) = (ps, dict_put ''executor_node_id'' ''null'' d, True)" for ps d
    using read_null by simp
  show ?thesis
    unfolding persona_lines_def reread_fields_def
    using read_item [of "p_name p" ps d] n
    by (cases "str_truthy (p_executor_node_id p)") (simp_all only: fold_simps id_o o_def if_True if_False c)
qed

lemma build_reread:
  assumes "writable p"
  shows "build_persona (reread_fields p) = reread_persona p" and "field_or (reread_fields p) ''name'' \<noteq> []"
proof -
  have f: "field_or (reread_fields p) ''name'' = reread (p_name p)"
    "field_or (reread_fields p) ''persona_id'' = reread (p_persona_id p)"
    "field_or (reread_fields p) ''avatar'' = reread (p_avatar p)"
    "field_or (reread_fields p) ''base_prompt'' = reread (p_base_prompt p)"
    "field_or (reread_fields p) ''bro_detail_session_id'' = reread (p_bro_detail_session_id p)"
    "field_or (reread_fields p) ''executor_node_id'' =
      (if str_truthy (p_executor_node_id p) then reread (the (p_executor_node_id p)) else ''null'')"
    by (simp_all add: field_or_def reread_fields_def)
  show "field_or (reread_fields p) ''name'' \<noteq> []"
    using assms by (simp add: f reread_Nil writable_def)
  show "build_persona (reread_fields p) = reread_persona p"
    unfolding build_persona_def f Let_def reread_optional [OF assms]
    using assms by (simp add: reread_Nil writable_def reread_persona_def)
qed

lemma flush_reread: "writable p \<Longrightarrow> flush_persona ps (reread_fields p) = ps @ [reread_persona p]"
  by (simp add: flush_persona_def build_reread)

lemma read_personas:
  assumes "list_all writable ps"
  shows "case fold read_line (concat (map persona_lines ps)) (acc, d, True) of
    (xs, d', b) \<Rightarrow> flush_persona xs d' = flush_persona acc d @ map reread_persona ps"
  using assms
proof (induction ps arbitrary: acc d)
  case (Cons p ps)
  have "fold read_line (concat (map persona_lines (p # ps))) (acc, d, True) =
      fold read_line (concat (map persona_lines ps)) (flush_persona acc d, reread_fields p, True)"
    by (simp only: list.map concat.simps fold_append o_apply read_persona)
  then show ?case
    using Cons.IH [of "flush_persona acc d" "reread_fields p"] Cons.prems
    by (auto simp: flush_reread)
qed simp

text \<open>A line of the file: a fixed part and perhaps a quoted text.\<close>

definition plain_line :: "str \<Rightarrow> bool" where
  "plain_line l = list_all (\<lambda>c. \<not> is_line_break c) l"

lemma plain_line_append: "plain_line (a @ b) \<longleftrightarrow> plain_line a \<and> plain_line b"
  by (simp add: plain_line_def)

lemma plain_line_fixed:
  "plain_line ''  - name: ''" "plain_line ''    persona_id: ''" "plain_line ''    avatar: ''"
  "plain_line ''    base_prompt: ''" "plain_line ''    executor_node_id: ''"
  "plain_line ''    bro_detail_session_id: ''" "plain_line ''null''" "plain_line ''personas:''"
  by code_simp+

lemma plain_line_quoted: "one_line v \<Longrightarrow> plain_line (persona_yaml_quote v)"
  using quoted_line_ends [of v] by (simp add: plain_line_def list_all_iff)

lemma plain_persona_lines:
  assumes "writable p"
  shows "list_all plain_line (persona_lines p)"
proof -
  have "plain_line (if str_truthy (p_executor_node_id p) then persona_yaml_quote (the (p_executor_node_id p)) else ''null'')"
    using assms plain_line_quoted plain_line_fixed(7)
    by (auto simp: writable_def str_truthy_def split: option.splits)
  then show ?thesis
    using assms
    unfolding persona_lines_def list.pred_inject plain_line_append writable_def
    by (simp only: plain_line_fixed plain_line_quoted simp_thms list.pred_inject(1))
qed

lemma written_lines:
  assumes "list_all writable ps"
  shows "py_splitlines (save_personas ps) = ''personas:'' # concat (map persona_lines ps)"
proof -
  have "list_all plain_line (''personas:'' # concat (map persona_lines ps))"
    using assms plain_persona_lines plain_line_fixed(8) by (auto simp: list_all_iff)
  then have "\<forall>l \<in> set (''personas:'' # concat (map persona_lines ps)). \<forall>c \<in> set l. \<not> is_line_break c"
    by (auto simp only: list_all_iff plain_line_def)
  then show ?thesis
    unfolding save_personas_def by (simp only: join_lines list.distinct splitlines_lines not_False_eq_True)
qed

lemma reread_same: "reread v = v \<longleftrightarrow> \<not> py_contains v [backslash, CHR ''n'']"
proof (induction v rule: reread.induct)
  case (2 c s)
  note IH = 2
  show ?case
  proof (cases "c = backslash")
    case c: True
    show ?thesis
    proof (cases rule: text_cases [of s])
      case (2 s')
      then show ?thesis using c by (simp add: special_chars startswith_pair)
    next
      case (3 d s')
      then have "reread s = s \<longleftrightarrow> \<not> py_contains s [backslash, CHR ''n'']"
        using IH(2) [of d s'] c by simp
      then show ?thesis using c 3
        by (simp add: special_chars startswith_pair)
    qed (simp add: c)
  next
    case False
    then show ?thesis using IH by simp
  qed
qed simp

definition persona_texts :: "persona \<Rightarrow> str list" where
  "persona_texts p =
     [p_persona_id p, p_name p, p_avatar p, p_base_prompt p, p_bro_detail_session_id p] @
     (case p_executor_node_id p of None \<Rightarrow> [] | Some k \<Rightarrow> [k])"

lemma reread_persona_same:
  "reread_persona p = p\<lparr>p_status := ''idle''\<rparr> \<longleftrightarrow>
   \<not> list_ex (\<lambda>v. py_contains v [backslash, CHR ''n'']) (persona_texts p)"
proof -
  have "reread_persona p = p\<lparr>p_status := ''idle''\<rparr> \<longleftrightarrow> list_all (\<lambda>v. reread v = v) (persona_texts p)"
    by (cases p) (auto simp: reread_persona_def persona_texts_def split: option.splits)
  then show ?thesis by (auto simp: reread_same list_all_iff list_ex_iff)
qed


definition filed_persona :: persona where
  "filed_persona =
     \<lparr>p_persona_id = ''persona-ada'', p_name = ''Ada'', p_avatar = ''owl'', p_base_prompt = ''Be brief.'' @ [line_feed] @ ''Ask.'',
      p_executor_node_id = Some ''node-1'', p_bro_detail_session_id = ''bro-detail-1'', p_status = ''busy''\<rparr>"


end
