(* ===== verification/Dialogue.thy ===== *)
theory Dialogue
  imports Commands PersonaPool
begin

text \<open>
  The conversation side of \<open>src/newbro/runtime/session.py\<close>: what a session does with a text, with live
  transcripts of speech and with the events of the voice channel, how a draft becomes a task, and
  what is said. The classifier and the rewriter are language models and are awaited, so a message is
  handled in steps: up to the classifier (\<open>handle_runtime_message\<close>, \<open>begin_message_job\<close>), with its answer
  up to the rewriter (\<open>live_classified\<close>, \<open>text_classified\<close>), and with its answer to the end
  (\<open>live_rewritten\<close>, \<open>text_rewritten\<close>). What was read before an await is carried in the job. Texts of the
  user are lists of code points, as in \<open>Drafts\<close>; \<open>de_text\<close> is the same text as a string of the store.
  Snapshots and traces are left out, and that the execution loop is started after a confirmation.
\<close>

section \<open>Classifications and decisions\<close>

datatype interaction_type =
    IT_COMMUNICATION
  | IT_DELEGATION
  | IT_DRAFT_CORRECTION
  | IT_TASK_CONTROL
  | IT_STATUS_QUERY
  | IT_CONFIRMATION
  | IT_CLARIFICATION_RESPONSE
  | IT_UNCERTAIN

fun interaction_type_value :: "interaction_type \<Rightarrow> str" where
  "interaction_type_value IT_COMMUNICATION = ''communication''"
| "interaction_type_value IT_DELEGATION = ''delegation''"
| "interaction_type_value IT_DRAFT_CORRECTION = ''draft_correction''"
| "interaction_type_value IT_TASK_CONTROL = ''task_control''"
| "interaction_type_value IT_STATUS_QUERY = ''status_query''"
| "interaction_type_value IT_CONFIRMATION = ''confirmation''"
| "interaction_type_value IT_CLARIFICATION_RESPONSE = ''clarification_response''"
| "interaction_type_value IT_UNCERTAIN = ''uncertain''"

fun task_mode_value :: "task_mode \<Rightarrow> str" where
  "task_mode_value TM_READ_ONLY_FIRST = ''read_only_first''"
| "task_mode_value TM_PROPOSAL_ONLY = ''proposal_only''"
| "task_mode_value TM_MODIFY_ALLOWED = ''modify_allowed''"
| "task_mode_value TM_SUBMIT_ALLOWED = ''submit_allowed''"

record interaction_classification =
  cf_interaction_type :: interaction_type
  cf_confidence :: rat
  cf_requires_user_decision :: bool
  cf_importance :: str
  cf_reason :: str
  cf_control_action :: "str option"
  cf_task_mode :: "task_mode option"

definition classification_json :: "interaction_classification \<Rightarrow> jdict" where
  "classification_json c =
     [(''interaction_type'', JStr (interaction_type_value (cf_interaction_type c))),
      (''confidence'', JFloat (cf_confidence c)),
      (''requires_user_decision'', JBool (cf_requires_user_decision c)),
      (''importance'', JStr (cf_importance c)), (''reason'', JStr (cf_reason c)),
      (''control_action'', json_of_str (cf_control_action c)),
      (''task_mode'', (case cf_task_mode c of None \<Rightarrow> JNull | Some m \<Rightarrow> JStr (task_mode_value m)))]"

record ui_update =
  ui_type :: str
  ui_payload :: jdict

record runtime_decision =
  rd_should_speak :: bool
  rd_response_text :: utext
  rd_interaction_type :: interaction_type
  rd_session_state :: runtime_session_state
  rd_ui_updates :: "ui_update list"
  rd_draft_session_id :: "str option"
  rd_draft_revision_id :: "str option"
  rd_dispatch_plan_id :: "str option"
  rd_task_id :: "str option"

definition decision :: "bool \<Rightarrow> utext \<Rightarrow> interaction_type \<Rightarrow> runtime_session_state \<Rightarrow> ui_update list \<Rightarrow> runtime_decision" where
  "decision speak response ty st updates =
     \<lparr>rd_should_speak = speak, rd_response_text = response, rd_interaction_type = ty, rd_session_state = st,
      rd_ui_updates = updates, rd_draft_session_id = None, rd_draft_revision_id = None,
      rd_dispatch_plan_id = None, rd_task_id = None\<rparr>"

text \<open>What an operation takes from outside: the settings, and ids and a clock reading for what it makes.\<close>

record dialogue_env =
  de_command :: command_env
  de_session_id :: str
  de_default_executor :: str
  de_interval_seconds :: rat
  de_text :: "utext \<Rightarrow> str"
  de_load :: "jdict \<Rightarrow> interaction_classification result"

record dialogue_ids =
  di_plan :: str
  di_task :: str
  di_mutation :: str
  di_command :: str
  di_snapshot :: str
  di_session :: str
  di_turn :: str
  di_now :: str

section \<open>What is said\<close>

definition open_statuses :: "task_status list" where
  "open_statuses = [TS_QUEUED, TS_RUNNING, TS_WAITING_USER_INPUT, TS_PAUSED]"

definition open_tasks :: "blackboard \<Rightarrow> task list" where
  "open_tasks bb = filter (\<lambda>t. t_status t \<in> set open_statuses) (list_tasks bb)"

definition state_for_task :: "task option \<Rightarrow> runtime_session_state" where
  "state_for_task t =
     (case t of
        None \<Rightarrow> RSS_IDLE
      | Some t \<Rightarrow>
          if t_status t = TS_WAITING_USER_INPUT then RSS_TASK_BLOCKED
          else if t_status t = TS_COMPLETED then RSS_TASK_COMPLETE
          else if t_status t \<in> {TS_QUEUED, TS_RUNNING, TS_PAUSED} then RSS_TASK_RUNNING
          else RSS_IDLE)"

definition runtime_state :: "bool \<Rightarrow> task list \<Rightarrow> runtime_session_state" where
  "runtime_state has_draft ts =
     (if has_draft then RSS_WAITING_FOR_CONFIRMATION
      else if ts = [] then RSS_IDLE
      else state_for_task (Some (last ts)))"

definition should_speak_for_classification :: "interaction_classification \<Rightarrow> bool" where
  "should_speak_for_classification c \<longleftrightarrow> cf_requires_user_decision c \<or> cf_importance c = ''urgent''"

definition classification_response_text :: "interaction_classification \<Rightarrow> utext" where
  "classification_response_text c =
     (if \<not> should_speak_for_classification c then []
      else if cf_interaction_type c = IT_UNCERTAIN then u ''I need a clearer instruction.''
      else [])"

definition should_speak_for_draft_decision ::
    "interaction_type \<Rightarrow> interaction_classification \<Rightarrow> gate_result \<Rightarrow> bool" where
  "should_speak_for_draft_decision ty c g \<longleftrightarrow>
     gr_outcome g \<in> {DG_ASK_CLARIFICATION, DG_REJECT} \<or> cf_requires_user_decision c \<or>
     ty = IT_DELEGATION \<and> gr_outcome g = DG_ASK_CONFIRMATION"

section \<open>Live transcripts\<close>

record live_work =
  lw_generation :: nat
  lw_text :: utext
  lw_language :: "str option"
  lw_timestamp_ms :: "int option"
  lw_assigned_bro_id :: "str option"
  lw_partial :: bool

definition live_interval_ms :: "rat \<Rightarrow> int" where
  "live_interval_ms seconds = max 0 \<lfloor>seconds * 1000\<rfloor>"

definition live_classifier_due :: "rat \<Rightarrow> utext \<Rightarrow> int option \<Rightarrow> session_runtime \<Rightarrow> bool" where
  "live_classifier_due seconds s ts rt =
     (let normalized = u_collapse s in
      if normalized = [] then False
      else if normalized = rt_latest_transcript rt \<and> rt_last_classifier_ms rt \<noteq> None then False
      else
        (case (rt_last_classifier_ms rt, ts) of
           (None, _) \<Rightarrow> True
         | (_, None) \<Rightarrow> True
         | (Some x, Some y) \<Rightarrow> live_interval_ms seconds \<le> y - x))"

definition mark_live_classifier_ran :: "utext \<Rightarrow> int option \<Rightarrow> session_runtime \<Rightarrow> session_runtime" where
  "mark_live_classifier_ran s ts rt =
     rt\<lparr>rt_latest_transcript := u_collapse s,
        rt_last_classifier_ms := (case ts of Some x \<Rightarrow> Some x | None \<Rightarrow> rt_last_classifier_ms rt)\<rparr>"

definition next_live_work ::
    "utext \<Rightarrow> str option \<Rightarrow> int option \<Rightarrow> str option \<Rightarrow> bool \<Rightarrow> session_runtime \<Rightarrow> live_work \<times> session_runtime" where
  "next_live_work s language ts bro partial rt =
     (let n = Suc (rt_generation rt)
      in (\<lparr>lw_generation = n, lw_text = s, lw_language = language, lw_timestamp_ms = ts, lw_assigned_bro_id = bro,
           lw_partial = partial\<rparr>, rt\<lparr>rt_generation := n\<rparr>))"

definition schedule_live_partial_work ::
    "utext \<Rightarrow> str option \<Rightarrow> int option \<Rightarrow> str option \<Rightarrow> session_runtime \<Rightarrow> live_work \<times> session_runtime" where
  "schedule_live_partial_work s language ts bro rt =
     (let (w, rt1) = next_live_work s language ts bro True rt in (w, mark_live_classifier_ran s ts rt1))"

text \<open>A confirmation is asked for by voice only for a final transcript, and once for a draft or, when
  the draft is corrected, for a revision.\<close>

definition should_speak_for_live_draft_decision ::
    "bool \<Rightarrow> interaction_type \<Rightarrow> interaction_classification \<Rightarrow> gate_result \<Rightarrow> str option \<Rightarrow> str option \<Rightarrow>
     session_runtime \<Rightarrow> bool \<times> session_runtime" where
  "should_speak_for_live_draft_decision partial ty c g sid rev_id rt =
     (let speak = should_speak_for_draft_decision ty c g \<or>
            ty = IT_DRAFT_CORRECTION \<and> gr_outcome g = DG_ASK_CONFIRMATION
      in if \<not> speak then (False, rt)
         else if gr_outcome g \<noteq> DG_ASK_CONFIRMATION then (True, rt)
         else if partial then (False, rt)
         else if sid = None then (True, rt)
         else if rt_spoken_session rt \<noteq> sid
         then (True, rt\<lparr>rt_spoken_session := sid, rt_spoken_revision := rev_id\<rparr>)
         else if ty = IT_DRAFT_CORRECTION \<and> rev_id \<noteq> None \<and> rt_spoken_revision rt \<noteq> rev_id
         then (True, rt\<lparr>rt_spoken_revision := rev_id\<rparr>)
         else (False, rt))"

definition partial_update :: "(utext \<Rightarrow> str) \<Rightarrow> jdict \<Rightarrow> utext \<Rightarrow> str option \<Rightarrow> ui_update" where
  "partial_update enc extra s language =
     \<lparr>ui_type = ''transcript.partial'',
      ui_payload = [(''text'', JStr (enc s))] @ extra @
        (if str_truthy language then [(''language'', json_of_str language)] else [])\<rparr>"

section \<open>Drafts and their plans\<close>

definition spec_json :: "(utext \<Rightarrow> str) \<Rightarrow> task_spec \<Rightarrow> jdict" where
  "spec_json enc sp =
     [(''title'', JStr (enc (sp_title sp))), (''goal'', JStr (enc (sp_goal sp))),
      (''target_agent'', JStr (sp_target_agent sp)), (''mode'', JStr (task_mode_value (sp_mode sp))),
      (''expected_output'', JStr (enc (sp_expected_output sp))),
      (''constraints'', JList (map (JStr \<circ> enc) (sp_constraints sp))),
      (''success_criteria'', JList (map (JStr \<circ> enc) (sp_success_criteria sp))),
      (''stop_conditions'', JList (map (JStr \<circ> enc) (sp_stop_conditions sp))),
      (''context'', JObj (sp_context sp)), (''input_language'', JStr (sp_input_language sp)),
      (''output_language'', JStr (sp_output_language sp)),
      (''raw_transcript'', json_of_str (map_option enc (sp_raw_transcript sp))),
      (''normalized_task_language'', JStr (sp_normalized_task_language sp)),
      (''code_switched'', JBool (sp_code_switched sp))]"

definition plan_json :: "(utext \<Rightarrow> str) \<Rightarrow> dispatch_plan \<Rightarrow> jdict" where
  "plan_json enc p =
     [(''plan_id'', JStr (pl_plan_id p)), (''session_id'', JStr (pl_session_id p)),
      (''draft_session_id'', JStr (pl_draft_session_id p)),
      (''draft_revision_id'', json_of_str (pl_draft_revision_id p)),
      (''draft_revision_number'', JInt (int (pl_draft_revision_number p))), (''intent'', JStr (pl_intent p)),
      (''target_agent'', JStr (pl_target_agent p)), (''task_title'', JStr (enc (pl_task_title p))),
      (''task_goal'', JStr (enc (pl_task_goal p))),
      (''required_context'', JList (map JStr (pl_required_context p))),
      (''missing_context'', JList (map JStr (pl_missing_context p))),
      (''mode'', JStr (task_mode_value (pl_mode p))), (''risk_level'', JStr (pl_risk_level p)),
      (''confidence'', JFloat (pl_confidence p)),
      (''requires_user_confirmation'', JBool (pl_requires_user_confirmation p)),
      (''user_confirmed'', JBool (pl_user_confirmed p)), (''output_language'', JStr (pl_output_language p)),
      (''task_spec'', JObj (spec_json enc (pl_task_spec p)))]"

definition bullets :: "utext list \<Rightarrow> utext" where
  "bullets xs = u_join [10] (map (\<lambda>x. u ''- '' @ x) xs)"

definition task_instruction_from_draft :: "draft \<Rightarrow> utext" where
  "task_instruction_from_draft d =
     (case df_task_spec d of
        None \<Rightarrow> df_text d
      | Some sp \<Rightarrow>
          (let part = (\<lambda>label b. if b \<noteq> [] then [u label @ [10] @ b] else [])
           in u_join [10, 10]
                ([u ''Task: '' @ sp_goal sp, u ''Mode: '' @ u (task_mode_value (sp_mode sp)),
                  u ''Expected output: '' @ sp_expected_output sp] @
                 part ''Constraints:'' (bullets (sp_constraints sp)) @
                 part ''Success criteria:'' (bullets (sp_success_criteria sp)) @
                 part ''Stop conditions:'' (bullets (sp_stop_conditions sp)))))"

definition title_of_draft :: "utext \<Rightarrow> utext" where
  "title_of_draft s =
     (let t = u_rstrip_chars full_stops (u_collapse s);
          t' = (if length t > 72 then u_rstrip (take 69 t) @ u ''...'' else t)
      in if t' = [] then u ''Draft task'' else t')"

text \<open>The snapshot that was made with the revision of a draft holds the same object as the session (a
  checkpoint holds a copy), so a change to the draft shows in that snapshot.\<close>

fun edit_first :: "('a \<Rightarrow> bool) \<Rightarrow> ('a \<Rightarrow> 'a) \<Rightarrow> 'a list \<Rightarrow> 'a list" where
  "edit_first P f [] = []"
| "edit_first P f (x # xs) = (if P x then f x # xs else x # edit_first P f xs)"

definition edit_draft :: "(draft \<Rightarrow> draft) \<Rightarrow> draft_session \<Rightarrow> draft_session" where
  "edit_draft f s =
     s\<lparr>dz_current_draft := map_option f (dz_current_draft s),
       dz_snapshots := edit_first (\<lambda>x. sn_draft_revision_id x = dz_current_revision_id s)
         (\<lambda>x. x\<lparr>sn_draft := f (sn_draft x)\<rparr>) (dz_snapshots s)\<rparr>"

definition with_task_mode :: "task_mode option \<Rightarrow> draft \<Rightarrow> draft" where
  "with_task_mode m d =
     (case (m, df_task_spec d) of
        (Some m, Some sp) \<Rightarrow> d\<lparr>df_task_spec := Some (sp\<lparr>sp_mode := m\<rparr>)\<rparr>
      | _ \<Rightarrow> d)"

text \<open>After a rewrite: the mode the classifier asked for, and the plan of the draft.\<close>

definition plan_draft ::
    "dialogue_env \<Rightarrow> dialogue_ids \<Rightarrow> interaction_classification \<Rightarrow> nat \<Rightarrow> draft_session \<Rightarrow> draft \<Rightarrow> session_runtime \<Rightarrow>
     dispatch_plan \<times> draft_session \<times> session_runtime" where
  "plan_draft env ids c r s d rt =
     (let f = with_task_mode (cf_task_mode c);
          s1 = edit_draft f s;
          plan = build_dispatch_plan (di_plan ids) None (de_session_id env) s1 (f d) False;
          s2 = edit_draft (\<lambda>d. d\<lparr>df_missing_context := pl_missing_context plan\<rparr>)
                 (s1\<lparr>dz_current_dispatch_plan := Some plan\<rparr>)
      in (plan, s2, rt\<lparr>rt_drafts := store_session r s2 (rt_drafts rt)\<rparr>))"

definition draft_decision ::
    "bool \<Rightarrow> gate_result \<Rightarrow> interaction_type \<Rightarrow> draft_session \<Rightarrow> dispatch_plan \<Rightarrow> ui_update list \<Rightarrow> runtime_decision" where
  "draft_decision speak g ty s plan updates =
     (decision speak (if speak then u_or_else (gr_question g) [] else []) ty RSS_WAITING_FOR_CONFIRMATION
        (updates @
         [\<lparr>ui_type = ''draft_card.updated'', ui_payload = [(''draft_session_id'', JStr (dz_id s)),
             (''draft_revision_id'', json_of_str (dz_current_revision_id s))]\<rparr>,
          \<lparr>ui_type = ''dispatch_plan.updated'', ui_payload = [(''plan_id'', JStr (pl_plan_id plan)),
             (''draft_revision_id'', json_of_str (dz_current_revision_id s))]\<rparr>]))
       \<lparr>rd_draft_session_id := Some (dz_id s), rd_draft_revision_id := dz_current_revision_id s,
        rd_dispatch_plan_id := Some (pl_plan_id plan)\<rparr>"

section \<open>A draft becomes a task\<close>

definition resolve_draft_preferred_executor ::
    "dialogue_env \<Rightarrow> persona option \<Rightarrow> node_manager \<Rightarrow> str option" where
  "resolve_draft_preferred_executor env p m =
     (let available = dict_keys (ce_registry (de_command env));
          own = (case p of
              None \<Rightarrow> None
            | Some p \<Rightarrow>
                if str_truthy (p_executor_node_id p) then
                  (case find (\<lambda>n. Some (pn_node_id n) = p_executor_node_id p) (list_nodes m) of
                     None \<Rightarrow> None
                   | Some n \<Rightarrow> find (\<lambda>x. x \<in> set available) (pn_enabled_executors n))
                else None);
          other = de_default_executor env
      in case own of
           Some x \<Rightarrow> Some x
         | None \<Rightarrow> if other \<in> set available then Some other
                   else if ''mock'' \<in> set available then Some ''mock'' else None)"

definition persona_entries :: "persona option \<Rightarrow> jdict" where
  "persona_entries p =
     (case p of
        None \<Rightarrow> []
      | Some p \<Rightarrow>
          [(''persona_id'', JStr (p_persona_id p)), (''persona_name'', JStr (p_name p)),
           (''persona_avatar'', JStr (p_avatar p)), (''bro_detail_session_id'', JStr (p_bro_detail_session_id p))] @
          (if str_truthy (p_executor_node_id p) then [(''executor_node_id'', json_of_str (p_executor_node_id p))] else []))"

definition draft_task_metadata ::
    "(utext \<Rightarrow> str) \<Rightarrow> draft_session \<Rightarrow> draft \<Rightarrow> draft_snapshot \<Rightarrow> persona option \<Rightarrow> str option \<Rightarrow> jdict" where
  "draft_task_metadata enc s d snap p executor =
     (let of_spec = (\<lambda>f (v :: json). case df_task_spec d of Some sp \<Rightarrow> f sp | None \<Rightarrow> v);
          texts = (\<lambda>xs. JList (map (JStr \<circ> enc) xs)) in
      [(''immutable'', JBool True), (''source_kind'', JStr ''draft_session''),
       (''draft_session_id'', JStr (dz_id s)), (''draft_snapshot_id'', JStr (sn_id snap)),
       (''draft_revision_id'', json_of_str (dz_current_revision_id s)),
       (''draft_revision_number'', JInt (int (dz_current_revision_number s))),
       (''asr_turn_ids'', JList (map (JStr \<circ> at_id) (dz_asr_turns s))),
       (''assigned_bro_id'', JStr (dz_assigned_bro_id s)), (''draft_text'', JStr (enc (df_text d))),
       (''task_spec'', of_spec (\<lambda>sp. JObj (spec_json enc sp)) (JObj [])),
       (''dispatch_plan'', JObj (case dz_current_dispatch_plan s of Some plan \<Rightarrow> plan_json enc plan | None \<Rightarrow> [])),
       (''mode'', of_spec (\<lambda>sp. JStr (task_mode_value (sp_mode sp))) (JStr ''read_only_first'')),
       (''expected_output'', of_spec (\<lambda>sp. JStr (enc (sp_expected_output sp))) (JStr [])),
       (''constraints'', of_spec (\<lambda>sp. texts (sp_constraints sp)) (JList [])),
       (''success_criteria'', of_spec (\<lambda>sp. texts (sp_success_criteria sp)) (JList [])),
       (''stop_conditions'', of_spec (\<lambda>sp. texts (sp_stop_conditions sp)) (JList [])),
       (''mock_safe'', JBool (executor = Some ''mock''))] @
      persona_entries p)"

definition draft_task ::
    "(utext \<Rightarrow> str) \<Rightarrow> str \<Rightarrow> draft_session \<Rightarrow> draft \<Rightarrow> draft_snapshot \<Rightarrow> persona option \<Rightarrow> str option \<Rightarrow> task" where
  "draft_task enc uid s d snap p executor =
     (let k = ''task-'' @ uid in
      \<lparr>t_task_id = k, t_root_task_id = k, t_parent_task_id = None, t_title = enc (title_of_draft (df_text d)),
       t_goal = enc (case df_task_spec d of Some sp \<Rightarrow> sp_goal sp | None \<Rightarrow> df_text d), t_status = TS_QUEUED,
       t_priority = 5, t_interruptible = True, t_requires_confirmation = False, t_preferred_executor = executor,
       t_session_affinity = Some (case p of Some p \<Rightarrow> ''ws-'' @ p_bro_detail_session_id p | None \<Rightarrow> create_workspace k),
       t_task_revision = 0, t_latest_instruction = Some (enc (task_instruction_from_draft d)),
       t_metadata = draft_task_metadata enc s d snap p executor\<rparr>)"

definition draft_mutation ::
    "str \<Rightarrow> draft_session \<Rightarrow> draft_snapshot \<Rightarrow> persona option \<Rightarrow> task \<Rightarrow> task_mutation" where
  "draft_mutation uid s snap p t =
     \<lparr>m_mutation_id = ''mut-'' @ uid, m_task_id = Some (t_task_id t), m_mutation_type = MT_CREATE,
      m_patch = [(''title'', JStr (t_title t)), (''goal'', JStr (t_goal t)),
        (''preferred_executor'', json_of_str (t_preferred_executor t)),
        (''persona_id'', json_of_str (map_option p_persona_id p)), (''persona_name'', json_of_str (map_option p_name p)),
        (''source_kind'', JStr ''draft_session''), (''draft_session_id'', JStr (dz_id s)),
        (''draft_snapshot_id'', JStr (sn_id snap)), (''draft_revision_id'', json_of_str (dz_current_revision_id s))],
      m_created_by = ''draft_brain'', m_urgency = ''normal'', m_effective_scope = ''task'', m_requires_replan = False\<rparr>"

text \<open>What \<open>send_draft\<close> checks before it changes anything: the draft, and the persona it is for.\<close>

definition sendable_draft ::
    "str option \<Rightarrow> str option \<Rightarrow> session_runtime \<Rightarrow> (draft_session \<times> draft \<times> draft_snapshot) result" where
  "sendable_draft sid rev_id rt =
     (case active_session (rt_drafts rt) of
        None \<Rightarrow> Inl (ValueError ''No draft is ready to send.'')
      | Some (r, s) \<Rightarrow>
          (case dz_current_draft s of
             None \<Rightarrow> Inl (ValueError ''No draft is ready to send.'')
           | Some d \<Rightarrow>
               if dz_snapshots s = [] then Inl (ValueError ''No draft is ready to send.'')
               else if sid \<noteq> None \<and> sid \<noteq> Some (dz_id s)
               then Inl (ValueError ''Draft session does not match the active draft.'')
               else if rev_id \<noteq> None \<and> dz_current_revision_id s \<noteq> rev_id
               then Inl (ValueError ''Draft revision does not match the active draft.'')
               else Inr (s, d, last (dz_snapshots s))))"

definition draft_persona :: "draft_session \<Rightarrow> blackboard \<Rightarrow> persona option result" where
  "draft_persona s bb =
     (let k = dz_assigned_bro_id s;
          p = (if k \<noteq> [] then get_persona bb k else None)
      in if p = None \<and> list_personas bb \<noteq> [] \<and> k \<noteq> [] \<and> k \<noteq> default_bro_id
         then Inl (ValueError (''Bro '' @ quoted k @ '' is not available.''))
         else (case p of
                 None \<Rightarrow> Inr None
               | Some p \<Rightarrow> if p_status p = ''busy''
                           then Inl (ValueError (p_name p @ '' is busy with another task right now.''))
                           else Inr (Some p)))"

definition send_draft ::
    "dialogue_env \<Rightarrow> dialogue_ids \<Rightarrow> str option \<Rightarrow> str option \<Rightarrow> session_runtime \<Rightarrow> task result \<times> session_runtime" where
  "send_draft env ids sid rev_id rt =
     (case sendable_draft sid rev_id rt of
        Inl e \<Rightarrow> (Inl e, rt)
      | Inr (s, d, snap) \<Rightarrow>
          (case draft_persona s (rt_store rt) of
             Inl e \<Rightarrow> (Inl e, rt)
           | Inr p \<Rightarrow>
               (let ctx = ce_ctx (de_command env);
                    executor = resolve_draft_preferred_executor env p (rt_nodes rt);
                    t = draft_task (de_text env) (di_task ids) s d snap p executor;
                    bb1 = (case p of None \<Rightarrow> rt_store rt | Some p \<Rightarrow> put_persona ctx (p\<lparr>p_status := ''busy''\<rparr>) (rt_store rt))
                in case mark_sent (di_now ids) sid rev_id (rt_drafts rt) of
                     (Inl e, m) \<Rightarrow> (Inl e, rt\<lparr>rt_store := bb1, rt_drafts := m\<rparr>)
                   | (Inr _, m) \<Rightarrow>
                       (let bb2 = put_task ctx t bb1;
                            bb3 = put_execution_mode ctx \<lparr>em_task_id = t_task_id t, em_mode = EM_UNDECIDED,
                                    em_decided_from_run_id = None, em_elapsed_seconds = 0\<rparr> bb2;
                            bb4 = append_mutation ctx (draft_mutation (di_mutation ids) s snap p t) bb3
                        in (Inr (case get_task bb4 (t_task_id t) of Some saved \<Rightarrow> saved | None \<Rightarrow> t),
                            rt\<lparr>rt_store := bb4, rt_drafts := m\<rparr>)))))"

section \<open>Confirming, asking for the status, stopping\<close>

definition store_plan :: "nat \<Rightarrow> draft_session \<Rightarrow> dispatch_plan \<Rightarrow> session_runtime \<Rightarrow> session_runtime" where
  "store_plan r s plan rt =
     rt\<lparr>rt_drafts := store_session r (s\<lparr>dz_current_dispatch_plan := Some plan\<rparr>) (rt_drafts rt)\<rparr>"

text \<open>\<open>Some e\<close> when the confirmation names another plan or revision than the current ones.\<close>

definition confirm_mismatch :: "str option \<Rightarrow> str option \<Rightarrow> draft_session \<Rightarrow> py_error option" where
  "confirm_mismatch plan_id rev_id s =
     (if plan_id \<noteq> None \<and> map_option pl_plan_id (dz_current_dispatch_plan s) \<noteq> plan_id
      then Some (ValueError ''Dispatch plan does not match the active draft.'')
      else if rev_id \<noteq> None \<and> dz_current_revision_id s \<noteq> rev_id
      then Some (ValueError ''Draft revision does not match the active draft.'')
      else None)"

definition confirmed_plan :: "dialogue_env \<Rightarrow> dialogue_ids \<Rightarrow> draft_session \<Rightarrow> draft \<Rightarrow> dispatch_plan" where
  "confirmed_plan env ids s d =
     (case dz_current_dispatch_plan s of
        Some plan \<Rightarrow> plan
      | None \<Rightarrow> build_dispatch_plan (di_plan ids) None (de_session_id env) s d False)\<lparr>pl_user_confirmed := True\<rparr>"

definition sent_decision :: "draft_session \<Rightarrow> dispatch_plan \<Rightarrow> task \<Rightarrow> runtime_decision" where
  "sent_decision s plan t =
     (decision True (u (''Sent to '' @ pl_target_agent plan @ ''.'')) IT_CONFIRMATION RSS_TASK_RUNNING
        [\<lparr>ui_type = ''draft.cleared'', ui_payload = [(''draft_session_id'', JStr (pl_draft_session_id plan))]\<rparr>,
         \<lparr>ui_type = ''task.started'', ui_payload = [(''task_id'', JStr (t_task_id t))]\<rparr>])
       \<lparr>rd_draft_session_id := Some (dz_id s), rd_draft_revision_id := dz_current_revision_id s,
        rd_dispatch_plan_id := Some (pl_plan_id plan), rd_task_id := Some (t_task_id t)\<rparr>"

definition confirm_active_dispatch ::
    "dialogue_env \<Rightarrow> dialogue_ids \<Rightarrow> str option \<Rightarrow> str option \<Rightarrow> session_runtime \<Rightarrow> runtime_decision result \<times> session_runtime" where
  "confirm_active_dispatch env ids plan_id rev_id rt =
     (case active_session (rt_drafts rt) of
        None \<Rightarrow> (Inr (decision False [] IT_CONFIRMATION RSS_IDLE []), rt)
      | Some (r, s) \<Rightarrow>
          (case dz_current_draft s of
             None \<Rightarrow> (Inr (decision False [] IT_CONFIRMATION RSS_IDLE []), rt)
           | Some d \<Rightarrow>
               (case confirm_mismatch plan_id rev_id s of
                  Some e \<Rightarrow> (Inl e, rt)
                | None \<Rightarrow>
                    (let plan = confirmed_plan env ids s d;
                         g = dispatch_gate plan;
                         rt1 = store_plan r s plan rt
                     in if gr_outcome g \<noteq> DG_DISPATCH then
                          (Inr ((decision True (u_or_else (gr_question g) (u ''Cannot send yet.'')) IT_CONFIRMATION
                                   RSS_WAITING_FOR_CONFIRMATION [])\<lparr>rd_dispatch_plan_id := Some (pl_plan_id plan)\<rparr>), rt1)
                        else
                          (case send_draft env ids (Some (dz_id s)) (dz_current_revision_id s) rt1 of
                             (Inl e, rt2) \<Rightarrow> (Inl e, rt2)
                           | (Inr t, rt2) \<Rightarrow> (Inr (sent_decision s plan t), rt2))))))"

definition resolve_status_task :: "str option \<Rightarrow> blackboard \<Rightarrow> task option" where
  "resolve_status_task k bb =
     (case k of
        Some k \<Rightarrow> get_task bb k
      | None \<Rightarrow>
          (case open_tasks bb of
             [] \<Rightarrow> if list_tasks bb = [] then None else Some (last (list_tasks bb))
           | ts \<Rightarrow> Some (last ts)))"

definition runtime_status_decision :: "str option \<Rightarrow> blackboard \<Rightarrow> runtime_decision" where
  "runtime_status_decision k bb =
     (case resolve_status_task k bb of
        None \<Rightarrow> decision True (u ''No active task.'') IT_STATUS_QUERY RSS_IDLE []
      | Some t \<Rightarrow>
          (let said = (case get_summary bb (t_task_id t) of Some y \<Rightarrow> sm_conversational_summary y | None \<Rightarrow> None);
               events = list_agent_events bb (Some (t_task_id t));
               event = (if events = [] then None else Some (e_message (last events)));
               response = str_or_else said (str_or_else event (t_title t @ '' is '' @ task_status_value (t_status t) @ ''.''))
           in (decision True (u response) IT_STATUS_QUERY (state_for_task (Some t))
                 [\<lparr>ui_type = ''task.status'', ui_payload = [(''task_id'', JStr (t_task_id t))]\<rparr>])
                \<lparr>rd_task_id := Some (t_task_id t)\<rparr>))"

definition stop_command :: "str \<Rightarrow> task \<Rightarrow> str option \<Rightarrow> task_command" where
  "stop_command uid t reason =
     \<lparr>c_command_id = ''cmd-'' @ uid, c_task_id = t_task_id t, c_command_type = TC_CANCEL_TASK, c_payload = [],
      c_created_by = ''runtime'', c_reason = reason\<rparr>"

definition stop_active_task_decision ::
    "dialogue_env \<Rightarrow> dialogue_ids \<Rightarrow> str option \<Rightarrow> str option \<Rightarrow> session_runtime \<Rightarrow> runtime_decision result \<times> session_runtime" where
  "stop_active_task_decision env ids k reason rt =
     (case resolve_status_task k (rt_store rt) of
        None \<Rightarrow> (Inr (decision True (u ''No active task to stop.'') IT_TASK_CONTROL RSS_IDLE []), rt)
      | Some t \<Rightarrow>
          (case apply_command (de_command env) (stop_command (di_command ids) t reason) rt of
             (Inl e, rt1) \<Rightarrow> (Inl e, rt1)
           | (Inr _, rt1) \<Rightarrow>
               (Inr ((decision True (u ''Stopped.'') IT_TASK_CONTROL RSS_IDLE
                  [\<lparr>ui_type = ''task.stopped'', ui_payload = [(''task_id'', JStr (t_task_id t))]\<rparr>])
                 \<lparr>rd_task_id := Some (t_task_id t)\<rparr>), rt1)))"

definition clear_draft_decision ::
    "dialogue_ids \<Rightarrow> interaction_type \<Rightarrow> session_runtime \<Rightarrow> runtime_decision \<times> session_runtime" where
  "clear_draft_decision ids ty rt =
     (let (cleared, m) = clear_draft (di_now ids) (rt_drafts rt)
      in (decision False [] ty RSS_IDLE
            [\<lparr>ui_type = ''draft.cleared'',
              ui_payload = [(''draft_session_id'', JStr (case cleared of Some s \<Rightarrow> dz_id s | None \<Rightarrow> []))]\<rparr>],
          rt\<lparr>rt_drafts := m\<rparr>))"

section \<open>Messages\<close>

record classifier_state =
  cs_has_draft :: bool
  cs_active_task_count :: nat
  cs_target_persona_id :: "str option"
  cs_voice_target_persona_id :: "str option"
  cs_language :: "str option"

text \<open>A message on its way through the classifier: its text, what the classifier is told, and the state
  of the session when it came.\<close>

record message_job =
  mj_text :: utext
  mj_bro :: "str option"
  mj_told :: classifier_state
  mj_state :: runtime_session_state

definition begin_message_job :: "utext \<Rightarrow> str option \<Rightarrow> str option \<Rightarrow> session_runtime \<Rightarrow> message_job" where
  "begin_message_job s language bro rt =
     (let ts = open_tasks (rt_store rt);
          has_draft = active_session (rt_drafts rt) \<noteq> None
      in \<lparr>mj_text = s, mj_bro = bro,
          mj_told = \<lparr>cs_has_draft = has_draft, cs_active_task_count = length ts, cs_target_persona_id = bro,
                     cs_voice_target_persona_id = rt_voice_target rt, cs_language = language\<rparr>,
          mj_state = runtime_state has_draft ts\<rparr>)"

datatype message_step =
    Answered runtime_decision
  | Scheduled runtime_decision live_work
  | Classifying message_job "live_work option"
  | Rewriting message_job "live_work option" interaction_classification rewrite_job

text \<open>What both kinds of messages do with every interaction but a draft.\<close>

definition control_decision ::
    "dialogue_env \<Rightarrow> dialogue_ids \<Rightarrow> interaction_classification \<Rightarrow> message_job \<Rightarrow> session_runtime \<Rightarrow>
     runtime_decision result \<times> session_runtime" where
  "control_decision env ids c job rt =
     (let ty = cf_interaction_type c in
      if ty = IT_CONFIRMATION then confirm_active_dispatch env ids None None rt
      else if cf_control_action c = Some ''clear_draft''
      then (let (d, rt1) = clear_draft_decision ids ty rt in (Inr d, rt1))
      else if ty = IT_STATUS_QUERY then (Inr (runtime_status_decision None (rt_store rt)), rt)
      else if ty = IT_TASK_CONTROL then stop_active_task_decision env ids None (Some (de_text env (mj_text job))) rt
      else (Inr (decision (should_speak_for_classification c) (classification_response_text c) ty (mj_state job) []), rt))"

definition is_draft_interaction :: "interaction_classification \<Rightarrow> bool" where
  "is_draft_interaction c \<longleftrightarrow>
     cf_interaction_type c \<in> {IT_DELEGATION, IT_DRAFT_CORRECTION} \<and> cf_control_action c \<noteq> Some ''clear_draft''"

text \<open>A typed message.\<close>

definition text_drafted ::
    "dialogue_env \<Rightarrow> dialogue_ids \<Rightarrow> interaction_classification \<Rightarrow> session_runtime \<Rightarrow> runtime_decision result \<times> session_runtime" where
  "text_drafted env ids c rt =
     (case active_session (rt_drafts rt) of
        None \<Rightarrow> (Inl (ValueError ''Draft manager did not produce a draft.''), rt)
      | Some (r, s) \<Rightarrow>
          (case dz_current_draft s of
             None \<Rightarrow> (Inl (ValueError ''Draft manager did not produce a draft.''), rt)
           | Some d \<Rightarrow>
               (let ty = cf_interaction_type c;
                    (plan, s', rt1) = plan_draft env ids c r s d rt;
                    g = dispatch_gate plan
                in (Inr (draft_decision (should_speak_for_draft_decision ty c g) g ty s' plan []), rt1))))"

definition text_classified ::
    "dialogue_env \<Rightarrow> dialogue_ids \<Rightarrow> interaction_classification \<Rightarrow> message_job \<Rightarrow> session_runtime \<Rightarrow>
     message_step result \<times> session_runtime" where
  "text_classified env ids c job rt =
     (if is_draft_interaction c then
        (case begin_append (di_session ids) (di_turn ids) (di_now ids) (mj_text job) (Some (mj_text job)) None None None
                (mj_bro job) (rt_drafts rt) of
           (Inl e, m) \<Rightarrow> (Inl e, rt\<lparr>rt_drafts := m\<rparr>)
         | (Inr rj, m) \<Rightarrow> (Inr (Rewriting job None c rj), rt\<lparr>rt_drafts := m\<rparr>))
      else map_prod (map_sum id Answered) id (control_decision env ids c job rt))"

definition text_rewritten ::
    "dialogue_env \<Rightarrow> dialogue_ids \<Rightarrow> revision_ids \<Rightarrow> interaction_classification \<Rightarrow> rewrite_job \<Rightarrow> draft result \<Rightarrow>
     session_runtime \<Rightarrow> runtime_decision result \<times> session_runtime" where
  "text_rewritten env ids rids c rj answer rt =
     (case finish_append rids rj answer (rt_drafts rt) of
        (Inl e, m) \<Rightarrow> (Inl e, rt\<lparr>rt_drafts := m\<rparr>)
      | (Inr _, m) \<Rightarrow> text_drafted env ids c (rt\<lparr>rt_drafts := m\<rparr>))"

text \<open>A live transcript.\<close>

definition classifier_ran :: "interaction_type \<Rightarrow> jdict" where
  "classifier_ran ty = [(''classifier_ran'', JBool True), (''interaction_type'', JStr (interaction_type_value ty))]"

definition live_drafted ::
    "dialogue_env \<Rightarrow> dialogue_ids \<Rightarrow> live_work \<Rightarrow> interaction_classification \<Rightarrow> session_runtime \<Rightarrow>
     runtime_decision result \<times> session_runtime" where
  "live_drafted env ids w c rt0 =
     (let rt = rt0\<lparr>rt_published_text := u_collapse (lw_text w)\<rparr> in
      case active_session (rt_drafts rt) of
        None \<Rightarrow> (Inl (ValueError ''Draft manager did not produce a draft.''), rt)
      | Some (r, s) \<Rightarrow>
          (case dz_current_draft s of
             None \<Rightarrow> (Inl (ValueError ''Draft manager did not produce a draft.''), rt)
           | Some d \<Rightarrow>
               (let ty = cf_interaction_type c;
                    (plan, s', rt1) = plan_draft env ids c r s d rt;
                    g = dispatch_gate plan;
                    (speak, rt2) = should_speak_for_live_draft_decision (lw_partial w) ty c g (Some (dz_id s'))
                                     (dz_current_revision_id s') rt1;
                    updates = (if lw_partial w then [partial_update (de_text env) (classifier_ran ty) (lw_text w) (lw_language w)]
                               else [])
                in (Inr (draft_decision speak g ty s' plan updates), rt2))))"

definition live_classified ::
    "dialogue_env \<Rightarrow> dialogue_ids \<Rightarrow> interaction_classification \<Rightarrow> message_job \<Rightarrow> live_work \<Rightarrow> session_runtime \<Rightarrow>
     message_step result \<times> session_runtime" where
  "live_classified env ids c job w rt =
     (let ty = cf_interaction_type c;
          answered = (\<lambda>updates. (Inr (Answered (decision False [] ty (mj_state job) updates)), rt))
      in if lw_generation w \<noteq> rt_generation rt then answered []
         else if lw_partial w \<and> ty \<notin> {IT_DELEGATION, IT_DRAFT_CORRECTION}
         then answered [partial_update (de_text env) (classifier_ran ty) (lw_text w) (lw_language w)]
         else if is_draft_interaction c then
           (if lw_partial w \<and> u_collapse (lw_text w) = rt_published_text rt then answered []
            else
              (case begin_live (di_session ids) (di_turn ids) (di_now ids) (lw_text w) (Some (lw_text w)) None None None
                      (lw_assigned_bro_id w) (lw_timestamp_ms w) (rt_drafts rt) of
                 (Inl e, m) \<Rightarrow> (Inl e, rt\<lparr>rt_drafts := m\<rparr>)
               | (Inr (Inl _), m) \<Rightarrow>
                   map_prod (map_sum id Answered) id (live_drafted env ids w c (rt\<lparr>rt_drafts := m\<rparr>))
               | (Inr (Inr rj), m) \<Rightarrow> (Inr (Rewriting job (Some w) c rj), rt\<lparr>rt_drafts := m\<rparr>)))
         else map_prod (map_sum id Answered) id (control_decision env ids c job rt))"

definition live_rewritten ::
    "dialogue_env \<Rightarrow> dialogue_ids \<Rightarrow> revision_ids \<Rightarrow> live_work \<Rightarrow> interaction_classification \<Rightarrow> rewrite_job \<Rightarrow>
     draft result \<Rightarrow> session_runtime \<Rightarrow> runtime_decision result \<times> session_runtime" where
  "live_rewritten env ids rids w c rj answer rt =
     (case finish_live rids rj (if lw_partial w then ''stt.partial'' else ''stt.final'') (lw_timestamp_ms w)
             (Some (classification_json c)) answer (rt_drafts rt) of
        (Inl e, m) \<Rightarrow> (Inl e, rt\<lparr>rt_drafts := m\<rparr>)
      | (Inr _, m) \<Rightarrow> live_drafted env ids w c (rt\<lparr>rt_drafts := m\<rparr>))"

text \<open>A final transcript that says what the draft was last written from needs no further rewrite.\<close>

definition reusable_session :: "live_work \<Rightarrow> session_runtime \<Rightarrow> (nat \<times> draft_session) option" where
  "reusable_session w rt =
     (let normalized = u_collapse (lw_text w) in
      if lw_partial w \<or> normalized = [] \<or> normalized \<noteq> rt_published_text rt then None
      else
        (case active_session (rt_drafts rt) of
           Some (r, s) \<Rightarrow>
             if dz_current_draft s \<noteq> None \<and> dz_current_revision_id s \<noteq> None then Some (r, s) else None
         | None \<Rightarrow> None))"

definition reused_classification :: "interaction_classification" where
  "reused_classification =
     \<lparr>cf_interaction_type = IT_DELEGATION, cf_confidence = 1, cf_requires_user_decision = False,
      cf_importance = ''low'', cf_reason = ''final_checkpoint_reused'', cf_control_action = None, cf_task_mode = None\<rparr>"

definition reuse_matching_live_draft_for_final ::
    "dialogue_env \<Rightarrow> dialogue_ids \<Rightarrow> live_work \<Rightarrow> session_runtime \<Rightarrow> runtime_decision option result \<times> session_runtime" where
  "reuse_matching_live_draft_for_final env ids w rt =
     (case reusable_session w rt of
        None \<Rightarrow> (Inr None, rt)
      | Some (r, s) \<Rightarrow>
          (case (case dz_live_classification s of None \<Rightarrow> Inr reused_classification | Some j \<Rightarrow> de_load env j) of
             Inl e \<Rightarrow> (Inl e, rt)
           | Inr c \<Rightarrow>
               (case mark_live_checkpoint (di_snapshot ids) (di_now ids) ''stt.final'' (lw_timestamp_ms w)
                       (dz_live_classification s) (rt_drafts rt) of
                  (Some s1, m) \<Rightarrow>
                    (case dz_current_draft s1 of
                       None \<Rightarrow> (Inr None, rt\<lparr>rt_drafts := m\<rparr>)
                     | Some d \<Rightarrow>
                         (let plan = (case dz_current_dispatch_plan s1 of
                                Some plan \<Rightarrow> plan
                              | None \<Rightarrow> build_dispatch_plan (di_plan ids) None (de_session_id env) s1 d False);
                              rt1 = store_plan r s1 plan (rt\<lparr>rt_drafts := m\<rparr>);
                              g = dispatch_gate plan;
                              ty = cf_interaction_type c;
                              (speak, rt2) = should_speak_for_live_draft_decision (lw_partial w) ty c g (Some (dz_id s1))
                                               (dz_current_revision_id s1) rt1
                          in (Inr (Some (draft_decision speak g ty s1 plan [])), rt2)))
                | (None, m) \<Rightarrow> (Inr None, rt\<lparr>rt_drafts := m\<rparr>))))"

definition handle_partial ::
    "dialogue_env \<Rightarrow> utext \<Rightarrow> str option \<Rightarrow> int option \<Rightarrow> str option \<Rightarrow> session_runtime \<Rightarrow> message_step \<times> session_runtime" where
  "handle_partial env s language ts bro rt =
     (let st = mj_state (begin_message_job s language bro rt);
          heard = (\<lambda>extra. decision False [] IT_COMMUNICATION st [partial_update (de_text env) extra s language])
      in if \<not> live_classifier_due (de_interval_seconds env) s ts rt then (Answered (heard []), rt)
         else
           (let (w, rt1) = schedule_live_partial_work s language ts bro rt
            in (Scheduled (heard [(''classifier_scheduled'', JBool True), (''generation'', JInt (int (lw_generation w)))]) w,
                rt1)))"

definition handle_final ::
    "dialogue_env \<Rightarrow> dialogue_ids \<Rightarrow> utext \<Rightarrow> str option \<Rightarrow> int option \<Rightarrow> str option \<Rightarrow> session_runtime \<Rightarrow>
     message_step result \<times> session_runtime" where
  "handle_final env ids s language ts bro rt =
     (let (w, rt1) = next_live_work s language ts bro False rt in
      case reuse_matching_live_draft_for_final env ids w rt1 of
        (Inl e, rt2) \<Rightarrow> (Inl e, rt2)
      | (Inr (Some d), rt2) \<Rightarrow> (Inr (Answered d), rt2)
      | (Inr None, rt2) \<Rightarrow> (Inr (Classifying (begin_message_job s language bro rt2) (Some w)), rt2))"

definition handle_runtime_message ::
    "dialogue_env \<Rightarrow> dialogue_ids \<Rightarrow> str \<Rightarrow> utext \<Rightarrow> str option \<Rightarrow> int option \<Rightarrow> str option \<Rightarrow> session_runtime \<Rightarrow>
     message_step result \<times> session_runtime" where
  "handle_runtime_message env ids message_type s language ts bro rt =
     (if message_type = ''stt_partial'' then map_prod Inr id (handle_partial env s language ts bro rt)
      else if message_type = ''stt_final'' then handle_final env ids s language ts bro rt
      else (Inr (Classifying (begin_message_job s language bro rt) None), rt))"

section \<open>Events\<close>

datatype agora_event_type =
    AG_STT_PARTIAL
  | AG_STT_FINAL
  | AG_USER_SPEECH_STARTED
  | AG_USER_SPEECH_ENDED
  | AG_ASSISTANT_SPEECH_STARTED
  | AG_ASSISTANT_SPEECH_ENDED
  | AG_INTERACTION_INTERRUPTED
  | AG_SESSION_STARTED
  | AG_SESSION_ENDED

fun agora_event_type_value :: "agora_event_type \<Rightarrow> str" where
  "agora_event_type_value AG_STT_PARTIAL = ''stt.partial''"
| "agora_event_type_value AG_STT_FINAL = ''stt.final''"
| "agora_event_type_value AG_USER_SPEECH_STARTED = ''user.speech_started''"
| "agora_event_type_value AG_USER_SPEECH_ENDED = ''user.speech_ended''"
| "agora_event_type_value AG_ASSISTANT_SPEECH_STARTED = ''assistant.speech_started''"
| "agora_event_type_value AG_ASSISTANT_SPEECH_ENDED = ''assistant.speech_ended''"
| "agora_event_type_value AG_INTERACTION_INTERRUPTED = ''interaction.interrupted''"
| "agora_event_type_value AG_SESSION_STARTED = ''session.started''"
| "agora_event_type_value AG_SESSION_ENDED = ''session.ended''"

record agora_event =
  ag_event_id :: str
  ag_session_id :: str
  ag_type :: agora_event_type
  ag_text :: utext
  ag_language :: "str option"
  ag_timestamp_ms :: "int option"
  ag_target_persona_id :: "str option"
  ag_metadata :: jdict

definition agora_payload :: "agora_event \<Rightarrow> jdict" where
  "agora_payload ev =
     [(''event_id'', JStr (ag_event_id ev)), (''session_id'', JStr (ag_session_id ev))] @
     opt_entry ''timestamp_ms'' (map_option JInt (ag_timestamp_ms ev)) @
     (if str_truthy (ag_target_persona_id ev) then [(''target_persona_id'', json_of_str (ag_target_persona_id ev))] else []) @
     (if ag_metadata ev \<noteq> [] then [(''metadata'', JObj (ag_metadata ev))] else [])"

definition handle_agora_event ::
    "dialogue_env \<Rightarrow> dialogue_ids \<Rightarrow> agora_event \<Rightarrow> session_runtime \<Rightarrow> message_step result \<times> session_runtime" where
  "handle_agora_event env ids ev rt =
     (if ag_session_id ev \<noteq> de_session_id env
      then (Inl (ValueError ''Agora voice event session_id does not match runtime session.''), rt)
      else
        (let named = str_truthy (ag_target_persona_id ev);
             bro = (if named then ag_target_persona_id ev else rt_voice_target rt);
             rt1 = (if named then rt\<lparr>rt_voice_target := ag_target_persona_id ev\<rparr> else rt)
         in if ag_type ev = AG_STT_PARTIAL
            then handle_runtime_message env ids ''stt_partial'' (ag_text ev) (ag_language ev) (ag_timestamp_ms ev) bro rt1
            else if ag_type ev = AG_STT_FINAL
            then handle_runtime_message env ids ''stt_final'' (ag_text ev) (ag_language ev) (ag_timestamp_ms ev) bro rt1
            else (Inr (Answered (decision False [] IT_COMMUNICATION
                   (runtime_state (active_session (rt_drafts rt1) \<noteq> None) (open_tasks (rt_store rt1)))
                   [\<lparr>ui_type = ''agora.'' @ agora_event_type_value (ag_type ev), ui_payload = agora_payload ev\<rparr>])), rt1)))"

definition blocked_event_types :: "str list" where
  "blocked_event_types = [''agent.blocked'', ''task.blocked'']"

definition completed_event_types :: "str list" where
  "completed_event_types = [''task.completed'', ''agent.completed'']"

definition should_speak_for_event :: "agent_event \<Rightarrow> bool" where
  "should_speak_for_event e \<longleftrightarrow>
     (if e_type e = ''agent.progress'' \<and> e_importance e = AI_LOW then False
      else e_type e \<in> {''agent.blocked'', ''task.completed'', ''agent.completed''} \<or>
           e_delivery e \<in> {AD_SHORT_VOICE, AD_VOICE_INTERRUPT} \<or> e_importance e = AI_URGENT)"

definition ingest_agent_event :: "dialogue_env \<Rightarrow> agent_event \<Rightarrow> session_runtime \<Rightarrow> runtime_decision \<times> session_runtime" where
  "ingest_agent_event env e rt =
     (let ctx = ce_ctx (de_command env);
          bb1 = put_agent_event ctx e (rt_store rt);
          blocked = e_type e \<in> set blocked_event_types;
          completed = e_type e \<in> set completed_event_types;
          t = get_task bb1 (e_task_id e);
          t' = map_option (\<lambda>t. if blocked then t\<lparr>t_status := TS_WAITING_USER_INPUT\<rparr>
                               else if completed then t\<lparr>t_status := TS_COMPLETED\<rparr> else t) t;
          bb2 = (case t' of Some t' \<Rightarrow> if blocked \<or> completed then put_task ctx t' bb1 else bb1 | None \<Rightarrow> bb1);
          speak = should_speak_for_event e;
          (response, st) =
            (if blocked then (e_message e, RSS_TASK_BLOCKED)
             else if completed then (if e_message e \<noteq> [] then e_message e else ''Task finished.'', RSS_TASK_COMPLETE)
             else (if speak then e_message e else [], state_for_task t'))
      in ((decision speak (u response) IT_COMMUNICATION st
             [\<lparr>ui_type = ''agent_event.ingested'',
               ui_payload = [(''event_id'', JStr (e_event_id e)), (''task_id'', JStr (e_task_id e))]\<rparr>])
            \<lparr>rd_task_id := Some (e_task_id e)\<rparr>, rt\<lparr>rt_store := bb2\<rparr>))"

end
