(* ===== verification/Dialogue_Props.thy ===== *)
theory Dialogue_Props
  imports Dialogue DirectTurn_Props Commands_Props Drafts_Props
begin

text \<open>
  Properties of \<open>Dialogue\<close>: what a confirmation sends, that no other step of a conversation makes a task,
  which task \<open>stop\<close> acts on, how often a speech in progress is classified, and how often a
  confirmation is asked for.
\<close>

section \<open>Sending a draft\<close>

lemma sendable_sent:
  assumes "sendable_draft sid rev_id rt = Inr (s, d, snap)"
  obtains r where "active_session (rt_drafts rt) = Some (r, s)" and "dz_current_draft s = Some d"
    and "mark_sent now sid rev_id (rt_drafts rt) =
      (Inr (s\<lparr>dz_status := DS_SENT, dz_runtime_state := RSS_TASK_RUNNING, dz_updated_at := now\<rparr>),
       (store_session r (s\<lparr>dz_status := DS_SENT, dz_runtime_state := RSS_TASK_RUNNING, dz_updated_at := now\<rparr>)
         (rt_drafts rt))\<lparr>dm_active := None\<rparr>)"
proof -
  obtain r where r: "active_session (rt_drafts rt) = Some (r, s)" "dz_current_draft s = Some d" "dz_snapshots s \<noteq> []"
    and m: "sid \<noteq> None \<and> sid \<noteq> Some (dz_id s) \<longleftrightarrow> False" "rev_id \<noteq> None \<and> dz_current_revision_id s \<noteq> rev_id \<longleftrightarrow> False"
    using assms by (auto simp: sendable_draft_def split: option.splits if_splits)
  have c: "(case sid of None \<Rightarrow> False | Some k \<Rightarrow> dz_id s \<noteq> k) = False"
    "(case rev_id of None \<Rightarrow> False | Some k \<Rightarrow> dz_current_revision_id s \<noteq> Some k) = False"
    using m by (auto split: option.splits)
  show ?thesis
    by (rule that [OF r(1,2)]) (simp add: mark_sent_def r c Let_def)
qed

lemma draft_persona_known:
  "draft_persona s bb = Inr (Some p) \<Longrightarrow> get_persona bb (dz_assigned_bro_id s) = Some p \<and> p_status p \<noteq> ''busy''"
  by (auto simp: draft_persona_def Let_def split: option.splits if_splits)

text \<open>The goal of the task that a draft becomes.\<close>

definition draft_goal :: "(utext \<Rightarrow> str) \<Rightarrow> draft \<Rightarrow> str" where
  "draft_goal enc d = enc (case df_task_spec d of Some sp \<Rightarrow> sp_goal sp | None \<Rightarrow> df_text d)"

text \<open>What a draft that was sent leaves: one more task, its persona busy, and no active draft.\<close>

definition draft_sent :: "dialogue_env \<Rightarrow> str \<Rightarrow> nat \<Rightarrow> draft_session \<Rightarrow> draft \<Rightarrow> task \<Rightarrow> session_runtime \<Rightarrow> session_runtime \<Rightarrow> bool" where
  "draft_sent env k r s d t rt rt' \<longleftrightarrow>
     t_task_id t = k \<and> t_status t = TS_QUEUED \<and> t_goal t = draft_goal (de_text env) d \<and>
     get_task (rt_store rt') k = Some t \<and> task_ids (rt_store rt') = task_ids (rt_store rt) @ [k] \<and>
     active_session (rt_drafts rt') = None \<and> map_option dz_status (session_at (rt_drafts rt') r) = Some DS_SENT \<and>
     (case get_persona (rt_store rt) (dz_assigned_bro_id s) of
        Some p \<Rightarrow> dz_assigned_bro_id s = [] \<or> p_status p \<noteq> ''busy'' \<and>
          get_persona (rt_store rt') (dz_assigned_bro_id s) = Some (p\<lparr>p_status := ''busy''\<rparr>)
      | None \<Rightarrow> True)"

lemma get_persona_append_mutation [simp]: "get_persona (append_mutation ctx mu s) = get_persona s"
  by (simp add: append_mutation_def publish_def get_persona_def Let_def fun_eq_iff split: option.splits)

lemma send_draft_outcome:
  assumes wf: "bb_wf (rt_store rt)" and fresh: "get_task (rt_store rt) (''task-'' @ di_task ids) = None"
    and send: "send_draft env ids sid rev_id rt = (res, rt')"
  shows "case res of
     Inl e \<Rightarrow> rt' = rt
   | Inr t \<Rightarrow> \<exists>r s d. active_session (rt_drafts rt) = Some (r, s) \<and> dz_current_draft s = Some d \<and>
       is_ok (draft_persona s (rt_store rt)) \<and> draft_sent env (''task-'' @ di_task ids) r s d t rt rt' \<and>
       bb_wf (rt_store rt') \<and> rt_nodes rt' = rt_nodes rt"
proof (cases "sendable_draft sid rev_id rt")
  case (Inl e)
  then show ?thesis using send by (auto simp: send_draft_def)
next
  case (Inr x)
  obtain s d snap where x: "x = (s, d, snap)" by (cases x)
  obtain r where r: "active_session (rt_drafts rt) = Some (r, s)" "dz_current_draft s = Some d"
    and sent: "mark_sent (di_now ids) sid rev_id (rt_drafts rt) =
      (Inr (s\<lparr>dz_status := DS_SENT, dz_runtime_state := RSS_TASK_RUNNING, dz_updated_at := di_now ids\<rparr>),
       (store_session r (s\<lparr>dz_status := DS_SENT, dz_runtime_state := RSS_TASK_RUNNING, dz_updated_at := di_now ids\<rparr>)
         (rt_drafts rt))\<lparr>dm_active := None\<rparr>)"
    using sendable_sent [OF Inr [unfolded x]] by metis
  show ?thesis
  proof (cases "draft_persona s (rt_store rt)")
    case (Inl e)
    then show ?thesis using send \<open>sendable_draft sid rev_id rt = Inr x\<close> x by (auto simp: send_draft_def)
  next
    case p: (Inr p)
    let ?ctx = "ce_ctx (de_command env)"
    define t where "t = draft_task (de_text env) (di_task ids) s d snap p (resolve_draft_preferred_executor env p (rt_nodes rt))"
    define mu where "mu = draft_mutation (di_mutation ids) s snap p t"
    define bb1 where "bb1 = (case p of None \<Rightarrow> rt_store rt | Some p \<Rightarrow> put_persona ?ctx (p\<lparr>p_status := ''busy''\<rparr>) (rt_store rt))"
    define bb3 where "bb3 = put_execution_mode ?ctx \<lparr>em_task_id = t_task_id t, em_mode = EM_UNDECIDED,
      em_decided_from_run_id = None, em_elapsed_seconds = 0\<rparr> (put_task ?ctx t bb1)"
    have t: "t_task_id t = ''task-'' @ di_task ids" "t_status t = TS_QUEUED" "t_goal t = draft_goal (de_text env) d"
      by (simp_all add: t_def draft_task_def draft_goal_def Let_def)
    have mu: "m_task_id mu = Some (t_task_id t)" by (simp add: mu_def draft_mutation_def)
    have bb1: "bb_wf bb1" "task_ids bb1 = task_ids (rt_store rt)" "get_task bb1 = get_task (rt_store rt)"
      using wf by (auto simp: bb1_def bb_wf_put_persona split: option.split)
    have bb3: "bb_wf bb3" "task_ids bb3 = task_ids (rt_store rt) @ [t_task_id t]" "get_task bb3 (t_task_id t) = Some t"
      "get_persona bb3 = get_persona bb1"
      using bb1 fresh t(1)
      by (simp_all add: bb3_def task_ids_put bb_wf_put_task bb_wf_put_execution_mode tasks.get_put)
    define t' where "t' = bump_task_revision t"
    have t': "t_task_id t' = ''task-'' @ di_task ids" "t_status t' = TS_QUEUED" "t_goal t' = draft_goal (de_text env) d"
      using t by (simp_all add: t'_def bump_task_revision_def)
    have get: "get_task (append_mutation ?ctx mu bb3) (''task-'' @ di_task ids) = Some t'"
      using bb3(3) mu t(1) by (simp add: get_task_append_mutation t'_def)
    have out: "res = Inr t'" "rt_store rt' = append_mutation ?ctx mu bb3" "rt_nodes rt' = rt_nodes rt"
      "rt_drafts rt' = (store_session r (s\<lparr>dz_status := DS_SENT, dz_runtime_state := RSS_TASK_RUNNING, dz_updated_at := di_now ids\<rparr>)
         (rt_drafts rt))\<lparr>dm_active := None\<rparr>"
      using send get
      unfolding send_draft_def Inr x sum.case prod.case p sent Let_def t_def [symmetric] mu_def [symmetric]
        bb1_def [symmetric] bb3_def [symmetric]
      by (auto simp: t(1))
    have "p_status q \<noteq> ''busy'' \<and> get_persona (rt_store rt') (dz_assigned_bro_id s) = Some (q\<lparr>p_status := ''busy''\<rparr>)"
      if q: "get_persona (rt_store rt) (dz_assigned_bro_id s) = Some q" and ne: "dz_assigned_bro_id s \<noteq> []" for q
    proof -
      have k: "p_persona_id q = dz_assigned_bro_id s" using personas.get_key [OF wf q] .
      have "p = Some q" "p_status q \<noteq> ''busy''"
        using p q ne by (auto simp: draft_persona_def Let_def split: if_splits)
      then show ?thesis using k bb3(4) by (simp add: out(2) bb1_def personas.get_put)
    qed
    moreover have "bb_wf (rt_store rt')" "task_ids (rt_store rt') = task_ids (rt_store rt) @ [''task-'' @ di_task ids]"
      using bb3 t(1) by (simp_all add: out(2) task_ids_append_mutation bb_wf_append_mutation)
    ultimately show ?thesis
      using r t' get out p
      by (auto simp: draft_sent_def active_session_def session_at_def store_session_def is_ok_simps split: option.splits)
  qed
qed

section \<open>Confirming\<close>

lemma store_plan_reads:
  assumes "active_session (rt_drafts rt) = Some (r, s)"
  shows "active_session (rt_drafts (store_plan r s plan rt)) = Some (r, s\<lparr>dz_current_dispatch_plan := Some plan\<rparr>)"
    and "rt_store (store_plan r s plan rt) = rt_store rt" and "rt_nodes (store_plan r s plan rt) = rt_nodes rt"
  using assms
  by (auto simp: store_plan_def active_session_def store_session_def session_at_def split: option.splits)

text \<open>A confirmation that is not carried out: no task, and the draft stays, with a plan that counts as
  confirmed when the gate was reached.\<close>

definition confirm_refused :: "dialogue_env \<Rightarrow> dialogue_ids \<Rightarrow> session_runtime \<Rightarrow> session_runtime \<Rightarrow> bool" where
  "confirm_refused env ids rt rt' \<longleftrightarrow>
     rt_store rt' = rt_store rt \<and> rt_nodes rt' = rt_nodes rt \<and>
     (rt' = rt \<or>
      (\<exists>r s d. active_session (rt_drafts rt) = Some (r, s) \<and> dz_current_draft s = Some d \<and>
         active_session (rt_drafts rt') = Some (r, s\<lparr>dz_current_dispatch_plan := Some (confirmed_plan env ids s d)\<rparr>)))"

lemma draft_persona_cong:
  "dz_assigned_bro_id s' = dz_assigned_bro_id s \<Longrightarrow> draft_persona s' bb = draft_persona s bb"
  by (simp add: draft_persona_def)

lemma confirm_outcome:
  assumes wf: "bb_wf (rt_store rt)" and fresh: "get_task (rt_store rt) (''task-'' @ di_task ids) = None"
    and confirm: "confirm_active_dispatch env ids plan_id rev_id rt = (res, rt')"
  shows "case res of
     Inl e \<Rightarrow> confirm_refused env ids rt rt'
   | Inr dec \<Rightarrow>
       (case rd_task_id dec of
          None \<Rightarrow> confirm_refused env ids rt rt'
        | Some k \<Rightarrow> k = ''task-'' @ di_task ids \<and> bb_wf (rt_store rt') \<and>
            (\<exists>r s d t. active_session (rt_drafts rt) = Some (r, s) \<and> dz_current_draft s = Some d \<and>
               gr_outcome (dispatch_gate (confirmed_plan env ids s d)) = DG_DISPATCH \<and>
               draft_sent env k r s d t rt rt'))"
proof -
  have idle: ?thesis if "res = Inr (decision False [] IT_CONFIRMATION RSS_IDLE [])" "rt' = rt"
    using that by (simp add: decision_def confirm_refused_def)
  show ?thesis
  proof (cases "active_session (rt_drafts rt)")
    case None
    then show ?thesis using confirm by (intro idle) (simp_all add: confirm_active_dispatch_def)
  next
    case (Some x)
    obtain r s where x: "x = (r, s)" by (cases x)
    note act = Some [unfolded x]
    show ?thesis
    proof (cases "dz_current_draft s")
      case None
      then show ?thesis using confirm act by (intro idle) (simp_all add: confirm_active_dispatch_def)
    next
      case (Some d)
      define plan where "plan = confirmed_plan env ids s d"
      define rt1 where "rt1 = store_plan r s plan rt"
      define s1 where "s1 = s\<lparr>dz_current_dispatch_plan := Some plan\<rparr>"
      have s1: "active_session (rt_drafts rt1) = Some (r, s1)" "rt_store rt1 = rt_store rt" "rt_nodes rt1 = rt_nodes rt"
        "dz_current_draft s1 = Some d" "dz_assigned_bro_id s1 = dz_assigned_bro_id s"
        using store_plan_reads [OF act] Some by (simp_all add: rt1_def s1_def)
      have refused: "confirm_refused env ids rt rt1"
        using act Some s1 by (auto simp: confirm_refused_def s1_def plan_def)
      note step = confirm [unfolded confirm_active_dispatch_def act option.case prod.case Some Let_def
          plan_def [symmetric] rt1_def [symmetric]]
      show ?thesis
      proof (cases "confirm_mismatch plan_id rev_id s")
        case e: (Some e)
        then show ?thesis using step by (auto simp: confirm_refused_def)
      next
        case ok: None
        show ?thesis
        proof (cases "gr_outcome (dispatch_gate plan) = DG_DISPATCH")
          case False
          then show ?thesis using step ok refused by (auto simp: decision_def)
        next
          case True
          obtain r2 rt2 where send: "send_draft env ids (Some (dz_id s)) (dz_current_revision_id s) rt1 = (r2, rt2)"
            by (cases "send_draft env ids (Some (dz_id s)) (dz_current_revision_id s) rt1")
          note sent = send_draft_outcome [OF _ _ send, unfolded s1(2), OF wf fresh]
          show ?thesis
          proof (cases r2)
            case (Inl e)
            then show ?thesis using step ok True send sent refused by auto
          next
            case (Inr t)
            have "draft_sent env (''task-'' @ di_task ids) r s1 d t rt1 rt2" "bb_wf (rt_store rt2)"
              using sent Inr s1(1,4) by auto
            then have "draft_sent env (''task-'' @ di_task ids) r s d t rt rt2" "t_task_id t = ''task-'' @ di_task ids"
              unfolding draft_sent_def s1(2,5) by blast+
            then show ?thesis using step ok True send Inr act Some \<open>bb_wf (rt_store rt2)\<close>
              by (auto simp: sent_decision_def decision_def plan_def)
          qed
        qed
      qed
    qed
  qed
qed


section \<open>Stopping\<close>

lemma tasks_frame [command_frame]:
  "list_tasks (mark_attention_for_request ctx rid st s) = list_tasks s"
  "list_tasks (cancel_requests_for_task ctx clock tid s) = list_tasks s"
  "list_tasks (suppress_pending_notifications ctx tid s) = list_tasks s"
  "list_tasks (settle_binding ctx bst b s) = list_tasks s"
  "list_tasks (settle_run ctx rst run s) = list_tasks s"
  "list_tasks (clear_active_run ctx session k s) = list_tasks s"
proof -
  show a: "list_tasks (mark_attention_for_request ctx rid st s) = list_tasks s" for ctx rid st s
    unfolding mark_attention_for_request_def by (rule fold_frame; simp)
  show "list_tasks (cancel_requests_for_task ctx clock tid s) = list_tasks s"
    unfolding cancel_requests_for_task_def by (rule fold_frame; simp add: cancel_one_def a)
  show "list_tasks (suppress_pending_notifications ctx tid s) = list_tasks s"
    unfolding suppress_pending_notifications_def by (rule fold_frame; simp)
qed (simp_all add: settle_binding_def settle_run_def clear_active_run_def split: option.splits)

text \<open>What a cancel does to the tasks.\<close>

lemma cancel_tasks:
  assumes wf: "bb_wf (rt_store rt)" and t: "get_task (rt_store rt) (t_task_id t) = Some t"
    and "apply_command env (stop_command k t reason) rt = (res, rt')"
  shows "res = Inr [t_task_id t]" and "bb_wf (rt_store rt')" and "rt_drafts rt' = rt_drafts rt"
    and "list_tasks (rt_store rt') = map (\<lambda>x. if x = t then x\<lparr>t_status := TS_CANCELLED\<rparr> else x) (list_tasks (rt_store rt))"
proof -
  define s where "s = append_command (ce_ctx env) (stop_command k t reason) (rt_store rt)"
  have s: "bb_wf s" "list_tasks s = list_tasks (rt_store rt)" "get_task s = get_task (rt_store rt)"
    using wf by (simp_all add: s_def bb_wf_append_command)
  define b where "b = get_binding s (t_task_id t)"
  define session where "session = bound_execution_session b s"
  define run where "run = select_command_run s session"
  define s5 where "s5 = suppress_pending_notifications (ce_ctx env) (t_task_id t) (put_summary (ce_ctx env) (cancelled_summary t)
    (settle_binding (ce_ctx env) BS_RELEASED b (clear_active_run (ce_ctx env) session (map_option r_run_id run)
      (settle_run (ce_ctx env) RS_CANCELLED run s))))"
  define s6 where "s6 = cancel_requests_for_task (ce_ctx env) (ce_clock env) (t_task_id t) s5"
  have cmd: "c_task_id (stop_command k t reason) = t_task_id t"
    "c_command_type (stop_command k t reason) = TC_CANCEL_TASK"
    by (simp_all add: stop_command_def)
  have out: "res = Inr [t_task_id t]" "rt_store rt' = put_task (ce_ctx env) (t\<lparr>t_status := TS_CANCELLED\<rparr>) s6"
    "rt_drafts rt' = rt_drafts rt"
    using assms(3) t cmd
    by (auto simp: apply_command_def validate_task_command_def Let_def cancel_task_def s6_def s5_def run_def session_def
        b_def s_def)
  have wf6: "bb_wf s6" using s(1) by (simp add: s6_def s5_def bb_wf_parts bb_wf_put_summary bb_wf_cancel)
  have same: "list_tasks s6 = list_tasks (rt_store rt)" "get_task s6 = get_task (rt_store rt)"
    by (simp_all add: s6_def s5_def command_frame s)
  have one: "x = t" if "x \<in> set (list_tasks (rt_store rt))" "t_task_id x = t_task_id t" for x
    using that t by (auto simp: tasks.elems_get [OF wf])
  have "map (\<lambda>w. if t_task_id w = t_task_id t then t\<lparr>t_status := TS_CANCELLED\<rparr> else w) (list_tasks (rt_store rt)) =
      map (\<lambda>x. if x = t then x\<lparr>t_status := TS_CANCELLED\<rparr> else x) (list_tasks (rt_store rt))"
    using one by (intro map_cong refl if_cong) blast+
  then show "list_tasks (rt_store rt') = map (\<lambda>x. if x = t then x\<lparr>t_status := TS_CANCELLED\<rparr> else x) (list_tasks (rt_store rt))"
    using t by (simp add: out(2) tasks.elems_put [OF wf6] same)
  show "res = Inr [t_task_id t]" "rt_drafts rt' = rt_drafts rt" using out by simp_all
  show "bb_wf (rt_store rt')" using wf6 by (simp add: out(2) bb_wf_put_task)
qed

lemma status_task_known:
  assumes "bb_wf bb" and "resolve_status_task k bb = Some t"
  shows "get_task bb (t_task_id t) = Some t"
proof -
  have "get_task bb (t_task_id x) = Some x" if "x \<in> set (list_tasks bb)" for x
    using that by (simp add: tasks.elems_get [OF assms(1)])
  moreover have "get_task bb j = Some t \<Longrightarrow> t_task_id t = j" for j
    using tasks.get_key [OF assms(1)] .
  moreover have "last (open_tasks bb) \<in> set (list_tasks bb)" if "open_tasks bb \<noteq> []"
    using last_in_set [OF that] by (simp add: open_tasks_def)
  ultimately show ?thesis
    using assms(2) by (auto simp: resolve_status_task_def split: option.splits list.splits if_splits)
qed

text \<open>C25: \<open>stop\<close> cancels one task and leaves the others as they are: the open task that came last, and when
  none is open, the last task there is, even one that has ended already. Without a task nothing changes.\<close>

theorem stop_acts_on_last_task:
  assumes "bb_wf (rt_store rt)" and "stop_active_task_decision env ids None reason rt = (res, rt')"
  shows "is_ok res \<and> bb_wf (rt_store rt') \<and>
    (let ts = list_tasks (rt_store rt); is_open = (\<lambda>t. t_status t \<in> set open_statuses) in
     if ts = [] then rt' = rt
     else \<exists>before t after. ts = before @ [t] @ after \<and>
       list_tasks (rt_store rt') = before @ [t\<lparr>t_status := TS_CANCELLED\<rparr>] @ after \<and>
       \<not> list_ex is_open after \<and> (is_open t \<or> after = [] \<and> \<not> list_ex is_open before))"
proof -
  let ?ts = "list_tasks (rt_store rt)"
  let ?open = "\<lambda>t. t_status t \<in> set open_statuses"
  show ?thesis
  proof (cases "?ts = []")
    case True
    then have "resolve_status_task None (rt_store rt) = None"
      by (simp add: resolve_status_task_def open_tasks_def)
    then show ?thesis using assms True by (auto simp: stop_active_task_decision_def)
  next
    case False
    have split: "\<exists>before t after. ?ts = before @ [t] @ after \<and> resolve_status_task None (rt_store rt) = Some t \<and>
        \<not> list_ex ?open after \<and> (?open t \<or> after = [] \<and> \<not> list_ex ?open before)"
    proof (cases "list_ex ?open ?ts")
      case True
      then obtain before t after where d: "?ts = before @ t # after" "?open t" "\<forall>x \<in> set after. \<not> ?open x"
        using split_list_last_prop [of ?ts ?open] by (auto simp: list_ex_iff)
      then have o: "open_tasks (rt_store rt) = filter ?open before @ [t]"
        by (simp add: open_tasks_def)
      then have "last (open_tasks (rt_store rt)) = t" "open_tasks (rt_store rt) \<noteq> []" by simp_all
      then have "resolve_status_task None (rt_store rt) = Some t"
        by (cases "open_tasks (rt_store rt)") (simp_all add: resolve_status_task_def)
      then show ?thesis using d by (intro exI [of _ before] exI [of _ t] exI [of _ after]) (auto simp: list_ex_iff)
    next
      case none: False
      then have "open_tasks (rt_store rt) = []" by (auto simp: open_tasks_def list_ex_iff filter_empty_conv)
      then have "resolve_status_task None (rt_store rt) = Some (last ?ts)"
        using False by (simp add: resolve_status_task_def)
      moreover have "\<not> list_ex ?open (butlast ?ts)" using none by (auto simp: list_ex_iff dest: in_set_butlastD)
      ultimately show ?thesis using False
        by (intro exI [of _ "butlast ?ts"] exI [of _ "last ?ts"] exI [of _ "[]"]) simp
    qed
    then obtain before t after where d: "?ts = before @ [t] @ after" "resolve_status_task None (rt_store rt) = Some t"
      "\<not> list_ex ?open after" "?open t \<or> after = [] \<and> \<not> list_ex ?open before" by blast
    obtain r rt1 where cmd: "apply_command (de_command env) (stop_command (di_command ids) t reason) rt = (r, rt1)"
      by (cases "apply_command (de_command env) (stop_command (di_command ids) t reason) rt")
    note cancelled = cancel_tasks [OF assms(1) status_task_known [OF assms(1) d(2)] cmd]
    have out: "is_ok res" "rt' = rt1"
      using assms(2) d(2) cmd cancelled(1) by (auto simp: stop_active_task_decision_def)
    have dist: "distinct ?ts" using tasks.distinct_keys [OF assms(1)] by (simp add: distinct_map)
    have "map (\<lambda>x. if x = t then x\<lparr>t_status := TS_CANCELLED\<rparr> else x) xs = xs" if "t \<notin> set xs" for xs
      using that by (intro map_idI) auto
    then have "list_tasks (rt_store rt') = before @ [t\<lparr>t_status := TS_CANCELLED\<rparr>] @ after"
      using dist d(1) by (simp add: out(2) cancelled(4))
    then have "\<exists>before t after. ?ts = before @ [t] @ after \<and>
        list_tasks (rt_store rt') = before @ [t\<lparr>t_status := TS_CANCELLED\<rparr>] @ after \<and>
        \<not> list_ex ?open after \<and> (?open t \<or> after = [] \<and> \<not> list_ex ?open before)"
      using d by blast
    then show ?thesis using out cancelled(2) by (simp only: Let_def False if_False simp_thms)
  qed
qed

section \<open>Where the tasks of a conversation come from\<close>

text \<open>
  The steps of a session: its operations, each with a fresh id for a task it may make, and anything
  else that happens to it in between and makes no task. A step is marked when it carries out a
  confirmation.
\<close>

inductive dialogue_step :: "dialogue_env \<Rightarrow> bool \<Rightarrow> session_runtime \<Rightarrow> session_runtime \<Rightarrow> bool" for env where
  message: "handle_runtime_message env ids ty s language ts bro rt = (res, rt') \<Longrightarrow> dialogue_step env False rt rt'"
| voice: "handle_agora_event env ids ev rt = (res, rt') \<Longrightarrow> dialogue_step env False rt rt'"
| live: "live_classified env ids c job w rt = (res, rt') \<Longrightarrow> get_task (rt_store rt) (''task-'' @ di_task ids) = None \<Longrightarrow>
    dialogue_step env (cf_interaction_type c = IT_CONFIRMATION) rt rt'"
| typed: "text_classified env ids c job rt = (res, rt') \<Longrightarrow> get_task (rt_store rt) (''task-'' @ di_task ids) = None \<Longrightarrow>
    dialogue_step env (cf_interaction_type c = IT_CONFIRMATION) rt rt'"
| live_done: "live_rewritten env ids rids w c rj answer rt = (res', rt') \<Longrightarrow> dialogue_step env False rt rt'"
| typed_done: "text_rewritten env ids rids c rj answer rt = (res', rt') \<Longrightarrow> dialogue_step env False rt rt'"
| confirm: "confirm_active_dispatch env ids plan_id rev_id rt = (res', rt') \<Longrightarrow>
    get_task (rt_store rt) (''task-'' @ di_task ids) = None \<Longrightarrow> dialogue_step env True rt rt'"
| stop: "stop_active_task_decision env ids k reason rt = (res', rt') \<Longrightarrow> dialogue_step env False rt rt'"
| event: "ingest_agent_event env e rt = (dec, rt') \<Longrightarrow> dialogue_step env False rt rt'"
| rest: "bb_wf (rt_store rt') \<Longrightarrow> task_ids (rt_store rt') = task_ids (rt_store rt) \<Longrightarrow> dialogue_step env False rt rt'"

definition dialogue_run :: "dialogue_env \<Rightarrow> session_runtime \<Rightarrow> session_runtime \<Rightarrow> bool" where
  "dialogue_run env = (\<lambda>rt rt'. \<exists>b. dialogue_step env b rt rt')\<^sup>*\<^sup>*"

text \<open>What a step may do to the tasks.\<close>

definition quiet :: "session_runtime \<Rightarrow> session_runtime \<Rightarrow> bool" where
  "quiet rt rt' \<longleftrightarrow> bb_wf (rt_store rt') \<and> task_ids (rt_store rt') = task_ids (rt_store rt)"

definition sends_draft :: "dialogue_env \<Rightarrow> session_runtime \<Rightarrow> session_runtime \<Rightarrow> bool" where
  "sends_draft env rt rt' \<longleftrightarrow>
     bb_wf (rt_store rt') \<and>
     (\<exists>ids k r s d t. active_session (rt_drafts rt) = Some (r, s) \<and> dz_current_draft s = Some d \<and>
        gr_outcome (dispatch_gate (confirmed_plan env ids s d)) = DG_DISPATCH \<and> draft_sent env k r s d t rt rt')"

lemma quiet_store: "bb_wf (rt_store rt) \<Longrightarrow> rt_store rt' = rt_store rt \<Longrightarrow> quiet rt rt'"
  by (simp add: quiet_def)

lemma plan_draft_store: "plan_draft env ids c r s d rt = (plan, s', rt') \<Longrightarrow> rt_store rt' = rt_store rt"
  by (auto simp: plan_draft_def Let_def)

lemma speak_store:
  "should_speak_for_live_draft_decision partial ty c g sid rev_id rt = (b, rt') \<Longrightarrow>
     rt_store rt' = rt_store rt \<and> rt_drafts rt' = rt_drafts rt"
  by (auto simp: should_speak_for_live_draft_decision_def Let_def split: if_splits)

lemma live_drafted_store: "live_drafted env ids w c rt = (res, rt') \<Longrightarrow> rt_store rt' = rt_store rt"
  by (auto simp: live_drafted_def Let_def split: option.splits prod.splits dest!: plan_draft_store speak_store)

lemma live_drafted_answer:
  "map_prod f id (live_drafted env ids w c rt) = (res, rt') \<Longrightarrow> rt_store rt' = rt_store rt"
  by (cases "live_drafted env ids w c rt") (auto dest: live_drafted_store)

lemma text_drafted_store: "text_drafted env ids c rt = (res, rt') \<Longrightarrow> rt_store rt' = rt_store rt"
  by (auto simp: text_drafted_def Let_def split: option.splits prod.splits dest!: plan_draft_store)

lemma rewritten_store:
  "live_rewritten env ids rids w c rj answer rt = (res, rt') \<Longrightarrow> rt_store rt' = rt_store rt"
  "text_rewritten env ids rids c rj answer rt = (res, rt') \<Longrightarrow> rt_store rt' = rt_store rt"
  by (auto simp: live_rewritten_def text_rewritten_def split: sum.splits prod.splits
      dest!: live_drafted_store text_drafted_store)

lemma reuse_store: "reuse_matching_live_draft_for_final env ids w rt = (res, rt') \<Longrightarrow> rt_store rt' = rt_store rt"
  by (auto simp: reuse_matching_live_draft_for_final_def Let_def store_plan_def
      split: option.splits sum.splits prod.splits dest!: speak_store)

lemma message_store: "handle_runtime_message env ids ty s language ts bro rt = (res, rt') \<Longrightarrow> rt_store rt' = rt_store rt"
  by (auto simp: handle_runtime_message_def handle_partial_def handle_final_def Let_def schedule_live_partial_work_def
      next_live_work_def mark_live_classifier_ran_def split: if_splits option.splits sum.splits prod.splits dest!: reuse_store)

lemma voice_store: "handle_agora_event env ids ev rt = (res, rt') \<Longrightarrow> rt_store rt' = rt_store rt"
  by (auto simp: handle_agora_event_def Let_def split: if_splits dest!: message_store)

lemma stop_quiet:
  assumes wf: "bb_wf (rt_store rt)" and "stop_active_task_decision env ids k reason rt = (res, rt')"
  shows "quiet rt rt'"
proof (cases "resolve_status_task k (rt_store rt)")
  case None
  then show ?thesis using assms by (simp add: stop_active_task_decision_def quiet_def)
next
  case (Some t)
  obtain r rt1 where cmd: "apply_command (de_command env) (stop_command (di_command ids) t reason) rt = (r, rt1)"
    by (cases "apply_command (de_command env) (stop_command (di_command ids) t reason) rt")
  note cancelled = cancel_tasks [OF wf status_task_known [OF wf Some] cmd]
  have "rt' = rt1" using assms(2) Some cmd cancelled(1) by (auto simp: stop_active_task_decision_def)
  moreover have "map t_task_id (map (\<lambda>x. if x = t then x\<lparr>t_status := TS_CANCELLED\<rparr> else x) xs) = map t_task_id xs" for xs
    by (simp add: o_def)
  ultimately show ?thesis by (simp only: quiet_def task_ids_def cancelled(2,4) simp_thms)
qed

lemma event_quiet: "bb_wf (rt_store rt) \<Longrightarrow> ingest_agent_event env e rt = (dec, rt') \<Longrightarrow> quiet rt rt'"
proof -
  assume wf: "bb_wf (rt_store rt)" and step: "ingest_agent_event env e rt = (dec, rt')"
  define s where "s = put_agent_event (ce_ctx (de_command env)) e (rt_store rt)"
  have s: "bb_wf s" "task_ids s = task_ids (rt_store rt)"
    using wf by (simp_all add: s_def bb_wf_put_agent_event task_ids_def)
  have g: "get_task s = get_task (rt_store rt)" by (simp add: s_def)
  have put: "bb_wf (put_task c (f t) s) \<and> task_ids (put_task c (f t) s) = task_ids (rt_store rt)"
    if "get_task (rt_store rt) k = Some t" "t_task_id (f t) = t_task_id t" for c f t k
    using that s tasks.get_key [OF wf that(1)] by (simp add: task_ids_put bb_wf_put_task g)
  show ?thesis
    using step put s
    by (auto simp: ingest_agent_event_def Let_def quiet_def s_def [symmetric] split: option.splits if_splits)
qed

lemma confirm_step:
  assumes "bb_wf (rt_store rt)" and "get_task (rt_store rt) (''task-'' @ di_task ids) = None"
    and "confirm_active_dispatch env ids plan_id rev_id rt = (res, rt')"
  shows "quiet rt rt' \<or> sends_draft env rt rt'"
proof (cases "case res of Inl e \<Rightarrow> None | Inr dec \<Rightarrow> rd_task_id dec")
  case None
  then have "confirm_refused env ids rt rt'"
    using confirm_outcome [OF assms] by (auto split: sum.splits)
  then show ?thesis using assms(1) by (auto simp: confirm_refused_def intro: quiet_store)
next
  case (Some k)
  then obtain dec where dec: "res = Inr dec" "rd_task_id dec = Some k" by (auto split: sum.splits)
  have "bb_wf (rt_store rt') \<and> (\<exists>r s d t. active_session (rt_drafts rt) = Some (r, s) \<and> dz_current_draft s = Some d \<and>
      gr_outcome (dispatch_gate (confirmed_plan env ids s d)) = DG_DISPATCH \<and> draft_sent env k r s d t rt rt')"
    using confirm_outcome [OF assms] unfolding dec(1) sum.case dec(2) option.case by blast
  then show ?thesis unfolding sends_draft_def by blast
qed

lemma control_step:
  assumes "bb_wf (rt_store rt)" and "get_task (rt_store rt) (''task-'' @ di_task ids) = None"
    and "control_decision env ids c job rt = (res, rt')"
  shows "quiet rt rt' \<or> cf_interaction_type c = IT_CONFIRMATION \<and> sends_draft env rt rt'"
  using assms confirm_step [OF assms(1,2)] stop_quiet [OF assms(1)]
  by (auto simp: control_decision_def clear_draft_decision_def Let_def quiet_def split: if_splits prod.splits)

lemma classified_step:
  assumes "bb_wf (rt_store rt)" and "get_task (rt_store rt) (''task-'' @ di_task ids) = None"
  shows "live_classified env ids c job w rt = (res, rt') \<Longrightarrow>
      quiet rt rt' \<or> cf_interaction_type c = IT_CONFIRMATION \<and> sends_draft env rt rt'"
    and "text_classified env ids c job rt = (res, rt') \<Longrightarrow>
      quiet rt rt' \<or> cf_interaction_type c = IT_CONFIRMATION \<and> sends_draft env rt rt'"
proof -
  have q: "quiet rt rt'" if "rt_store rt' = rt_store rt" for rt' using quiet_store [OF assms(1) that] .
  have control: "quiet rt rt' \<or> cf_interaction_type c = IT_CONFIRMATION \<and> sends_draft env rt rt'"
    if "map_prod (map_sum id Answered) id (control_decision env ids c job rt) = (res, rt')"
    using that control_step [OF assms] by (cases "control_decision env ids c job rt") auto
  show "text_classified env ids c job rt = (res, rt') \<Longrightarrow>
      quiet rt rt' \<or> cf_interaction_type c = IT_CONFIRMATION \<and> sends_draft env rt rt'"
    using control by (auto simp: text_classified_def intro!: q split: if_splits sum.splits prod.splits)
  show "quiet rt rt' \<or> cf_interaction_type c = IT_CONFIRMATION \<and> sends_draft env rt rt'"
    if step: "live_classified env ids c job w rt = (res, rt')"
  proof (cases "lw_generation w \<noteq> rt_generation rt \<or>
      lw_partial w \<and> cf_interaction_type c \<notin> {IT_DELEGATION, IT_DRAFT_CORRECTION} \<or> is_draft_interaction c")
    case True
    then have "rt_store rt' = rt_store rt"
      using step
      by (auto simp: live_classified_def Let_def split: if_splits sum.splits prod.splits dest!: live_drafted_answer)
    then show ?thesis using q by blast
  next
    case False
    then show ?thesis using step control by (auto simp: live_classified_def Let_def)
  qed
qed

lemma dialogue_step_tasks:
  assumes "dialogue_step env b rt rt'" and "bb_wf (rt_store rt)"
  shows "quiet rt rt' \<or> b \<and> sends_draft env rt rt'"
  using assms
proof (cases rule: dialogue_step.cases)
  case (live ids c job w res)
  then show ?thesis using classified_step(1) [OF assms(2)] by blast
next
  case (typed ids c job res)
  then show ?thesis using classified_step(2) [OF assms(2)] by blast
next
  case (confirm ids plan_id rev_id res')
  then show ?thesis using confirm_step [OF assms(2)] by blast
next
  case (stop ids k reason res')
  then show ?thesis using stop_quiet [OF assms(2)] by blast
next
  case (event e dec)
  then show ?thesis using event_quiet [OF assms(2)] by blast
qed (use quiet_store [OF assms(2)] message_store voice_store rewritten_store in \<open>auto simp: quiet_def\<close>)

lemma dialogue_steps_wf:
  assumes "dialogue_run env rt rt'" and "bb_wf (rt_store rt)"
  shows "bb_wf (rt_store rt')"
  using assms unfolding dialogue_run_def
  by (induction rule: rtranclp_induct)
    (use dialogue_step_tasks in \<open>fastforce simp: quiet_def sends_draft_def\<close>)+


section \<open>How often speech is classified\<close>

text \<open>Transcripts of speech in progress, each with its time, and the times of those that are classified.\<close>

fun heard_partials ::
    "dialogue_env \<Rightarrow> (utext \<times> int) list \<Rightarrow> session_runtime \<Rightarrow> int list \<times> session_runtime" where
  "heard_partials env [] rt = ([], rt)"
| "heard_partials env ((s, ts) # xs) rt =
     (case handle_partial env s None (Some ts) None rt of
        (Scheduled d w, rt1) \<Rightarrow> (let (tss, rt2) = heard_partials env xs rt1 in (ts # tss, rt2))
      | (_, rt1) \<Rightarrow> heard_partials env xs rt1)"

lemma handle_partial_cases:
  obtains (skip) d where "handle_partial env s l (Some ts) bro rt = (Answered d, rt)"
  | (classify) d w rt1 where "handle_partial env s l (Some ts) bro rt = (Scheduled d w, rt1)"
    "rt_last_classifier_ms rt1 = Some ts"
    "\<And>x. rt_last_classifier_ms rt = Some x \<Longrightarrow> live_interval_ms (de_interval_seconds env) \<le> ts - x"
proof (cases "live_classifier_due (de_interval_seconds env) s (Some ts) rt")
  case False
  then show ?thesis using skip by (simp add: handle_partial_def Let_def)
next
  case True
  then show ?thesis
    using classify
    by (auto simp: handle_partial_def Let_def schedule_live_partial_work_def next_live_work_def
        mark_live_classifier_ran_def live_classifier_due_def split: if_splits option.splits)
qed


section \<open>Instances\<close>

text \<open>A draft for the persona of \<open>typing_store\<close>, written from one typed message.\<close>

definition spoken_env :: dialogue_env where
  "spoken_env =
     \<lparr>de_command = sample_env\<lparr>ce_registry := [(''mock'', mock_executor)]\<rparr>, de_session_id = ''session-1'',
      de_default_executor = ''mock'', de_interval_seconds = 1, de_text = map char_of,
      de_load = (\<lambda>_. Inl (ValueError ''invalid''))\<rparr>"

definition spoken_ids :: dialogue_ids where
  "spoken_ids =
     \<lparr>di_plan = ''1'', di_task = ''2'', di_mutation = ''3'', di_command = ''4'', di_snapshot = ''5'',
      di_session = ''6'', di_turn = ''7'', di_now = ''now''\<rparr>"

definition delegation :: interaction_classification where
  "delegation = reused_classification"

definition confirmation :: interaction_classification where
  "confirmation = reused_classification\<lparr>cf_interaction_type := IT_CONFIRMATION\<rparr>"

definition docs_text :: utext where
  "docs_text = [67, 104, 101, 99, 107, 32, 116, 104, 101, 32, 100, 111, 99, 115, 46]"

definition ready_draft :: draft where
  "ready_draft =
     (fresh_draft docs_text [] (formulate_task_spec docs_text ''codex''))
       \<lparr>df_revision_id := Some ''rev-1'', df_revision_number := 1\<rparr>"

definition ready_session :: draft_session where
  "ready_session =
     (fresh_session ''1'' ''t0'' (Some ''p1''))
       \<lparr>dz_current_draft := Some ready_draft, dz_current_revision_id := Some ''rev-1'', dz_current_revision_number := 1,
        dz_status := DS_READY,
        dz_snapshots := [revision_snapshot demo_ids ready_draft [] ''asr_turn'' None]\<rparr>"

definition drafted_rt :: session_runtime where
  "drafted_rt = (runtime_of typing_store)\<lparr>rt_drafts := \<lparr>dm_sessions = [(0, ready_session)], dm_active = Some 0, dm_next = 1\<rparr>\<rparr>"

definition confirm_result :: "runtime_decision result \<times> session_runtime" where
  "confirm_result = confirm_active_dispatch spoken_env spoken_ids None None drafted_rt"

lemma ready_session_reads:
  "dz_current_draft ready_session = Some ready_draft" "dz_assigned_bro_id ready_session = ''p1''"
  "dz_current_dispatch_plan ready_session = None" "dz_snapshots ready_session \<noteq> []"
  "dz_current_revision_id ready_session = Some ''rev-1''"
  by (simp_all add: ready_session_def fresh_session_def)

lemma drafted_reads:
  "active_session (rt_drafts drafted_rt) = Some (0, ready_session)" "rt_store drafted_rt = typing_store"
  "bb_wf typing_store" "get_task typing_store (''task-'' @ di_task spoken_ids) = None"
  "get_persona typing_store ''p1'' = Some native_persona" "p_status native_persona = ''idle''"
proof -
  show "get_task typing_store (''task-'' @ di_task spoken_ids) = None" by code_simp
qed (simp_all add: drafted_rt_def active_session_def session_at_def runtime_of_def typing_store_def bb_wf_put_persona
      bb_wf_init personas.get_put native_persona_def)

lemma gate_lets_ready_draft:
  "gr_outcome (dispatch_gate (confirmed_plan spoken_env spoken_ids ready_session ready_draft)) = DG_DISPATCH"
proof -
  have "py_strip ''codex'' \<noteq> []" "agent_allowed_for_intent ''repo_investigation'' ''codex''" by code_simp+
  then show ?thesis
    by (simp add: gate_decides plan_complete_def plan_agent_fits_def confirmed_plan_def ready_session_reads
        build_dispatch_plan_def Let_def ready_draft_def fresh_draft_def formulate_task_spec_def missing_context_def
        intent_of_def docs_text_def u_collapse_def u_strip_def u_rstrip_def u_isspace_def u_def)
qed

lemma confirm_carried_out:
  assumes act: "active_session (rt_drafts rt) = Some (r, s)" and draft: "dz_current_draft s = Some d"
    and ok: "confirm_mismatch plan_id rev_id s = None" "dz_snapshots s \<noteq> []"
    and gate: "gr_outcome (dispatch_gate (confirmed_plan env ids s d)) = DG_DISPATCH"
    and persona: "draft_persona s (rt_store rt) = Inr p"
  shows "\<exists>t rt'. confirm_active_dispatch env ids plan_id rev_id rt =
     (Inr (sent_decision s (confirmed_plan env ids s d) t), rt')"
proof -
  define plan where "plan = confirmed_plan env ids s d"
  let ?s = "s\<lparr>dz_current_dispatch_plan := Some plan\<rparr>"
  have stored: "active_session (rt_drafts (store_plan r s plan rt)) = Some (r, ?s)" "rt_store (store_plan r s plan rt) = rt_store rt"
    using store_plan_reads [OF act] by auto
  have sendable: "sendable_draft (Some (dz_id s)) (dz_current_revision_id s) (store_plan r s plan rt) =
      Inr (?s, d, last (dz_snapshots s))"
    using ok draft by (simp add: sendable_draft_def stored)
  from sendable_sent [OF this] obtain x m where sent: "mark_sent (di_now ids) (Some (dz_id s)) (dz_current_revision_id s)
      (rt_drafts (store_plan r s plan rt)) = (Inr x, m)"
    by metis
  have free: "draft_persona ?s (rt_store (store_plan r s plan rt)) = Inr p"
    using persona draft_persona_cong [of ?s s] by (simp add: stored)
  have "\<exists>t rt'. send_draft env ids (Some (dz_id s)) (dz_current_revision_id s) (store_plan r s plan rt) = (Inr t, rt')"
    unfolding send_draft_def sendable sum.case prod.case free Let_def sent by (intro exI) (rule refl)
  then obtain t rt' where send: "send_draft env ids (Some (dz_id s)) (dz_current_revision_id s) (store_plan r s plan rt) = (Inr t, rt')"
    by blast
  have "(gr_outcome (dispatch_gate plan) \<noteq> DG_DISPATCH) = False"
    using gate by (simp add: plan_def)
  then show ?thesis
    unfolding confirm_active_dispatch_def act draft option.case prod.case ok(1) Let_def plan_def [symmetric]
    by (simp only: if_False send sum.case prod.case) (intro exI, rule refl)
qed

lemma drafted_fresh:
  "bb_wf (rt_store drafted_rt)" "get_task (rt_store drafted_rt) (''task-'' @ di_task spoken_ids) = None"
  using drafted_reads by simp_all

lemma confirm_sends:
  obtains t rt' where "confirm_active_dispatch spoken_env spoken_ids None None drafted_rt =
      (Inr (sent_decision ready_session (confirmed_plan spoken_env spoken_ids ready_session ready_draft) t), rt')"
    and "t_task_id t = ''task-2''"
proof -
  have "draft_persona ready_session (rt_store drafted_rt) = Inr (Some native_persona)"
    by (simp add: draft_persona_def ready_session_reads drafted_reads)
  then obtain t rt' where out: "confirm_active_dispatch spoken_env spoken_ids None None drafted_rt =
      (Inr (sent_decision ready_session (confirmed_plan spoken_env spoken_ids ready_session ready_draft) t), rt')"
    using confirm_carried_out [OF drafted_reads(1) ready_session_reads(1) _ ready_session_reads(4) gate_lets_ready_draft, of None None]
    by (auto simp: confirm_mismatch_def)
  have "rd_task_id (sent_decision s plan t) = Some (t_task_id t)" for s plan
    by (simp add: sent_decision_def)
  then have "t_task_id t = ''task-2''"
    using confirm_outcome [OF drafted_fresh out] by (simp add: spoken_ids_def)
  with that out show ?thesis by blast
qed



definition ended_store :: blackboard where
  "ended_store = put_task None (asking_task\<lparr>t_status := TS_COMPLETED\<rparr>) bb_init"

theorem stop_acts_on_last_task_witness:
  "list_tasks ended_store = [asking_task\<lparr>t_status := TS_COMPLETED\<rparr>] \<and>
   list_tasks (rt_store (snd (stop_active_task_decision spoken_env spoken_ids None None (runtime_of ended_store)))) =
     [asking_task\<lparr>t_status := TS_CANCELLED\<rparr>]"
proof -
  obtain res rt' where out: "stop_active_task_decision spoken_env spoken_ids None None (runtime_of ended_store) = (res, rt')"
    by (cases "stop_active_task_decision spoken_env spoken_ids None None (runtime_of ended_store)")
  have wf: "bb_wf (rt_store (runtime_of ended_store))"
    by (simp add: runtime_of_def ended_store_def bb_wf_put_task bb_wf_init)
  have one: "list_tasks (rt_store (runtime_of ended_store)) = [asking_task\<lparr>t_status := TS_COMPLETED\<rparr>]"
    unfolding runtime_of_def by (simp, code_simp)
  show ?thesis
    using stop_acts_on_last_task [OF wf out, unfolded one] one out
    by (simp add: runtime_of_def Let_def append_eq_Cons_conv Cons_eq_append_conv)
qed

definition heard_words :: "(utext \<times> int) list" where
  "heard_words = [([104], 0), ([104, 105], 500), ([32], 1200), ([104, 105, 33], 1500)]"


end
