(* ===== verification/CodexServer.thy ===== *)
theory CodexServer
  imports Commands
begin

text \<open>
  The Codex app-server as its adapter sees it. \<open>src/newbro/executors/adapters/codex/jsonrpc.py\<close>: the
  peer that numbers requests and matches responses to them; \<open>client.py\<close>: the requests, and the
  response to a request of the server; and the functions of \<open>executor.py\<close> that read what the server
  sends (texts, plans, blocked requests) and write what it is told (prompts, settings). A request
  and its response are two operations: \<open>rpc_request\<close> leaves a future that is settled later. Lines are
  parsed by the argument \<open>parse\<close>, \<open>None\<close> where \<open>json.loads\<close> or the decoding raises. The full-width marks
  that some suffix tests also name lie outside the characters of this development.
\<close>

section \<open>The peer\<close>

datatype rpc_future =
    Fut_Waiting
  | Fut_Result json
  | Fut_Failed str
  | Fut_Cancelled

record rpc_peer =
  jp_next_id :: nat
  jp_pending :: "int list"
  jp_futures :: "(int, rpc_future) dict"
  jp_events :: "jdict list"
  jp_sent :: "jdict list"
  jp_reading :: bool

definition rpc_init :: rpc_peer where
  "rpc_init =
     \<lparr>jp_next_id = 1, jp_pending = [], jp_futures = [], jp_events = [], jp_sent = [], jp_reading = True\<rparr>"

definition rpc_send :: "jdict \<Rightarrow> rpc_peer \<Rightarrow> rpc_peer" where
  "rpc_send payload p = p\<lparr>jp_sent := jp_sent p @ [payload]\<rparr>"

definition rpc_request :: "str \<Rightarrow> jdict \<Rightarrow> rpc_peer \<Rightarrow> int \<times> rpc_peer" where
  "rpc_request method params p =
     (let i = int (jp_next_id p) in
      (i, rpc_send [(''jsonrpc'', JStr ''2.0''), (''id'', JInt i), (''method'', JStr method), (''params'', JObj params)]
            (p\<lparr>jp_next_id := Suc (jp_next_id p), jp_futures := dict_put i Fut_Waiting (jp_futures p),
               jp_pending := jp_pending p @ [i]\<rparr>)))"

definition rpc_notify :: "str \<Rightarrow> jdict \<Rightarrow> rpc_peer \<Rightarrow> rpc_peer" where
  "rpc_notify method params =
     rpc_send [(''jsonrpc'', JStr ''2.0''), (''method'', JStr method), (''params'', JObj params)]"

definition rpc_respond :: "json \<Rightarrow> jdict \<Rightarrow> rpc_peer \<Rightarrow> rpc_peer" where
  "rpc_respond i res = rpc_send [(''jsonrpc'', JStr ''2.0''), (''id'', i), (''result'', JObj res)]"

text \<open>The caller of a request is cancelled, and its future with it.\<close>

definition rpc_abandon :: "int \<Rightarrow> rpc_peer \<Rightarrow> rpc_peer" where
  "rpc_abandon i p =
     (if map_of (jp_futures p) i = Some Fut_Waiting
      then p\<lparr>jp_futures := dict_put i Fut_Cancelled (jp_futures p)\<rparr> else p)"

text \<open>\<open>isinstance(v, int)\<close> holds of booleans, and \<open>True\<close> is the key 1.\<close>

fun int_key :: "json \<Rightarrow> int option" where
  "int_key (JInt i) = Some i"
| "int_key (JBool b) = Some (if b then 1 else 0)"
| "int_key _ = None"

definition settle_future :: "int \<Rightarrow> rpc_future \<Rightarrow> rpc_peer \<Rightarrow> rpc_peer" where
  "settle_future i v p =
     (if map_of (jp_futures p) i = Some Fut_Waiting then p\<lparr>jp_futures := dict_put i v (jp_futures p)\<rparr> else p)"

definition handle_response :: "(rat \<Rightarrow> str) \<Rightarrow> jdict \<Rightarrow> rpc_peer \<Rightarrow> rpc_peer" where
  "handle_response fr msg p =
     (case int_key (jget msg ''id'') of
        None \<Rightarrow> p
      | Some i \<Rightarrow>
          if i \<notin> set (jp_pending p) then p
          else settle_future i
                 (if jget msg ''error'' \<noteq> JNull then Fut_Failed (py_str fr (jget msg ''error''))
                  else Fut_Result (jget msg ''result''))
                 (p\<lparr>jp_pending := filter (\<lambda>j. j \<noteq> i) (jp_pending p)\<rparr>))"

definition closed_message :: str where
  "closed_message = ''Codex app-server connection closed.''"

definition end_reading :: "rpc_peer \<Rightarrow> rpc_peer" where
  "end_reading p =
     (fold (\<lambda>i. settle_future i (Fut_Failed closed_message)) (jp_pending p) p)\<lparr>jp_pending := [], jp_reading := False\<rparr>"

definition is_response :: "jdict \<Rightarrow> bool" where
  "is_response msg \<longleftrightarrow>
     ''id'' \<in> set (dict_keys msg) \<and> (''result'' \<in> set (dict_keys msg) \<or> ''error'' \<in> set (dict_keys msg))"

text \<open>One turn of the reader: a line, or the end of the stream.\<close>

definition read_message :: "(rat \<Rightarrow> str) \<Rightarrow> (str \<Rightarrow> json option) \<Rightarrow> str option \<Rightarrow> rpc_peer \<Rightarrow> rpc_peer" where
  "read_message fr parse l p =
     (if \<not> jp_reading p then p
      else
        (case l of
           None \<Rightarrow> end_reading p
         | Some l \<Rightarrow>
             if py_strip l = [] then p
             else (case parse (py_strip l) of
                     None \<Rightarrow> end_reading p
                   | Some (JObj msg) \<Rightarrow>
                       if is_response msg then handle_response fr msg p
                       else p\<lparr>jp_events := jp_events p @ [msg]\<rparr>
                   | Some _ \<Rightarrow> p)))"

definition next_event :: "rpc_peer \<Rightarrow> (jdict \<times> rpc_peer) option" where
  "next_event p = (case jp_events p of [] \<Rightarrow> None | e # es \<Rightarrow> Some (e, p\<lparr>jp_events := es\<rparr>))"

section \<open>Requests to the server\<close>

text \<open>Method and parameters of a request.\<close>

type_synonym rpc_call = "str \<times> jdict"

definition as_dict :: "json \<Rightarrow> jdict" where
  "as_dict v = (case v of JObj d \<Rightarrow> d | _ \<Rightarrow> [])"

definition opt_param :: "str \<Rightarrow> json option \<Rightarrow> jdict" where
  "opt_param k v = (case v of None \<Rightarrow> [] | Some v \<Rightarrow> [(k, v)])"

definition initialize_call :: rpc_call where
  "initialize_call =
     (''initialize'',
      [(''clientInfo'', JObj [(''name'', JStr ''newbro-codex-executor''), (''version'', JStr ''0.1'')]),
       (''capabilities'', JObj [(''experimentalApi'', JBool True)])])"

definition get_account_call :: rpc_call where
  "get_account_call = (''account/read'', [(''refreshToken'', JBool False)])"

definition thread_start_call :: "str \<Rightarrow> rpc_call" where
  "thread_start_call cwd =
     (''thread/start'', [(''cwd'', JStr cwd), (''approvalPolicy'', JStr ''on-request''), (''sandbox'', JStr ''workspace-write'')])"

definition thread_fork_call :: "str \<Rightarrow> str \<Rightarrow> rpc_call" where
  "thread_fork_call thread cwd =
     (''thread/fork'', [(''threadId'', JStr thread), (''cwd'', JStr cwd), (''approvalPolicy'', JStr ''on-request''),
        (''sandbox'', JStr ''workspace-write'')])"

definition thread_resume_call :: "str \<Rightarrow> rpc_call" where
  "thread_resume_call thread = (''thread/resume'', [(''threadId'', JStr thread)])"

definition thread_read_call :: "str \<Rightarrow> bool \<Rightarrow> rpc_call" where
  "thread_read_call thread include_turns =
     (''thread/read'', [(''threadId'', JStr thread), (''includeTurns'', JBool include_turns)])"

definition thread_goal_get_call :: "str \<Rightarrow> rpc_call" where
  "thread_goal_get_call thread = (''thread/goal/get'', [(''threadId'', JStr thread)])"

definition thread_turns_list_call ::
    "str \<Rightarrow> str option \<Rightarrow> int option \<Rightarrow> str option \<Rightarrow> str option \<Rightarrow> rpc_call" where
  "thread_turns_list_call thread cursor limit direction view =
     (''thread/turns/list'',
      [(''threadId'', JStr thread)] @ opt_param ''cursor'' (map_option JStr cursor) @
      opt_param ''limit'' (map_option JInt limit) @ opt_param ''sortDirection'' (map_option JStr direction) @
      opt_param ''itemsView'' (map_option JStr view))"

definition thread_unsubscribe_call :: "str \<Rightarrow> rpc_call" where
  "thread_unsubscribe_call thread = (''thread/unsubscribe'', [(''threadId'', JStr thread)])"

definition thread_list_call :: "str option \<Rightarrow> int option \<Rightarrow> str option \<Rightarrow> str option \<Rightarrow> rpc_call" where
  "thread_list_call cursor limit key direction =
     (''thread/list'',
      opt_param ''cursor'' (map_option JStr cursor) @ opt_param ''limit'' (map_option JInt limit) @
      opt_param ''sortKey'' (map_option JStr key) @ opt_param ''sortDirection'' (map_option JStr direction))"

definition collaboration_mode_list_call :: rpc_call where
  "collaboration_mode_list_call = (''collaborationMode/list'', [])"

definition skills_list_call :: "str list \<Rightarrow> bool \<Rightarrow> rpc_call" where
  "skills_list_call cwds force_reload =
     (''skills/list'', [(''cwds'', JList (map JStr cwds)), (''forceReload'', JBool force_reload)])"

definition apply_skill_marker :: "str \<Rightarrow> jdict option \<Rightarrow> str" where
  "apply_skill_marker prompt skill =
     (case skill of
        None \<Rightarrow> prompt
      | Some d \<Rightarrow>
          (case jstr_nonempty (jget d ''name'') of
             None \<Rightarrow> prompt
           | Some name \<Rightarrow>
               (let marker = CHR ''$'' # name in
                if prompt = marker \<or> py_startswith prompt (marker @ '' '') \<or> py_startswith prompt (marker @ [char_of (10 :: nat)])
                then prompt else marker @ '' '' @ prompt)))"

text \<open>A skill is in the input as an item of its own when it has a name and a path. A turn in a mode other
  than the default one needs a model.\<close>

definition turn_input :: "str \<Rightarrow> jdict option \<Rightarrow> json" where
  "turn_input prompt skill =
     JList ([JObj [(''type'', JStr ''text''), (''text'', JStr (apply_skill_marker prompt skill)), (''textElements'', JList [])]] @
       (case skill of
          None \<Rightarrow> []
        | Some d \<Rightarrow>
            (case (jstr_nonempty (jget d ''name''), jstr_nonempty (jget d ''path'')) of
               (Some name, Some path) \<Rightarrow> [JObj [(''type'', JStr ''skill''), (''name'', JStr name), (''path'', JStr path)]]
             | _ \<Rightarrow> [])))"

record collaboration =
  co_mode :: str
  co_model :: "str option"
  co_effort :: "str option"

definition turn_start_call :: "str \<Rightarrow> str \<Rightarrow> collaboration option \<Rightarrow> jdict option \<Rightarrow> rpc_call result" where
  "turn_start_call thread prompt collab skill =
     (let base = [(''threadId'', JStr thread), (''input'', turn_input prompt skill)] in
      case collab of
        None \<Rightarrow> Inr (''turn/start'', base)
      | Some c \<Rightarrow>
          if \<not> str_truthy (co_model c) \<and> co_mode c \<noteq> ''default''
          then Inl (ValueError ''Codex collaborationMode requires a model.'')
          else Inr (''turn/start'', base @
            [(''collaborationMode'', JObj
               ((''mode'', JStr (co_mode c)) #
                (if str_truthy (co_model c) then
                   [(''settings'', JObj [(''model'', json_of_str (co_model c)),
                      (''reasoning_effort'', json_of_str (co_effort c)), (''developer_instructions'', JNull)])]
                 else [])))]))"

section \<open>Requests of the server\<close>

definition command_methods :: "str list" where
  "command_methods = [''item/commandexecution/requestapproval'', ''execcommandapproval'']"

definition file_methods :: "str list" where
  "file_methods = [''item/filechange/requestapproval'', ''applypatchapproval'']"

definition permission_method :: str where
  "permission_method = ''item/permissions/requestapproval''"

definition asks_user_input :: "str \<Rightarrow> bool" where
  "asks_user_input normalized \<longleftrightarrow>
     py_contains normalized ''user_input'' \<or> py_contains normalized ''requestuserinput'' \<or>
     py_contains normalized ''request_user_input'' \<or>
     (py_contains normalized ''request'' \<and> py_contains normalized ''question'')"

text \<open>The answers to the questions of a request: each by its id, and the text of the user for the first one
  that no answer names.\<close>

fun response_answers :: "str option \<Rightarrow> (str, str list) dict option \<Rightarrow> jdict \<Rightarrow> json list \<Rightarrow> jdict" where
  "response_answers answer answers acc [] = acc"
| "response_answers answer answers acc (q # qs) =
     response_answers answer answers
       (case jobj q of
          None \<Rightarrow> acc
        | Some d \<Rightarrow>
            (case jstr_nonempty (jget d ''id'') of
               None \<Rightarrow> acc
             | Some k \<Rightarrow>
                 (case (case answers of None \<Rightarrow> None | Some a \<Rightarrow> map_of a k) of
                    Some selected \<Rightarrow> dict_put k (JObj [(''answers'', JList (map JStr selected))]) acc
                  | None \<Rightarrow>
                      if acc = [] then dict_put k (JObj [(''answers'', JList [JStr (str_or_else answer [])])]) acc
                      else acc))) qs"

definition exec_amendment :: "jdict \<Rightarrow> json option" where
  "exec_amendment params =
     (case jget params ''proposedExecpolicyAmendment'' of
        JList xs \<Rightarrow> if xs \<noteq> [] \<and> list_all (\<lambda>v. jstr v \<noteq> None) xs then Some (JList xs) else None
      | _ \<Rightarrow> None)"

definition build_request_response ::
    "str \<Rightarrow> jdict \<Rightarrow> str \<Rightarrow> str option \<Rightarrow> (str, str list) dict option \<Rightarrow> jdict" where
  "build_request_response method params action answer answers =
     (let normalized = py_lower method; approved = (action = ''approve'') in
      if normalized \<in> set command_methods then
        [(''decision'',
          if \<not> approved then JStr ''decline''
          else (case exec_amendment params of
                  Some a \<Rightarrow> JObj [(''acceptWithExecpolicyAmendment'', JObj [(''execpolicy_amendment'', a)])]
                | None \<Rightarrow> JStr ''acceptForSession''))]
      else if normalized \<in> set file_methods then
        [(''decision'', JStr (if approved then ''acceptForSession'' else ''decline''))]
      else if normalized = permission_method then
        (if approved then [(''permissions'', JObj (as_dict (jget params ''permissions''))), (''scope'', JStr ''session'')]
         else [(''permissions'', JObj []), (''scope'', JStr ''turn'')])
      else if asks_user_input normalized then
        [(''answers'', JObj (case jget params ''questions'' of
            JList qs \<Rightarrow> response_answers answer answers [] qs | _ \<Rightarrow> []))]
      else [])"

end
