(* ===== verification/CodexReading.thy ===== *)
theory CodexReading
  imports CodexServer
begin

text \<open>
  The functions of \<open>src/newbro/executors/adapters/codex/executor.py\<close> that read what the app-server sends
  (which turn and thread an event is about, texts, goals, plans, requests to the user) and write what
  it is told (prompts, the settings of a turn), and \<open>skills.py\<close>. What the server sends is JSON of any
  shape; what does not fit is left out, as the code does. Where the code looks a value up in a set of
  strings, the value is taken to be hashable: for a list or an object the code raises.
\<close>

section \<open>Events\<close>

fun get_nested :: "json \<Rightarrow> str list \<Rightarrow> json" where
  "get_nested v [] = v"
| "get_nested v (k # ks) = (case v of JObj d \<Rightarrow> get_nested (jget d k) ks | _ \<Rightarrow> JNull)"

definition first_id :: "json list \<Rightarrow> str option" where
  "first_id vs = (case List.map_filter jstr_nonempty vs of [] \<Rightarrow> None | s # _ \<Rightarrow> Some s)"

definition event_turn_id :: "jdict \<Rightarrow> str option" where
  "event_turn_id params =
     first_id [jget params ''turnId'',
       (case jget params ''turn'' of JObj t \<Rightarrow> jor (jget t ''id'') (jget t ''turnId'') | _ \<Rightarrow> JNull),
       get_nested (jget params ''item'') [''turnId'']]"

definition event_thread_id :: "jdict \<Rightarrow> str option" where
  "event_thread_id params =
     first_id [jget params ''threadId'',
       (case jget params ''thread'' of JObj t \<Rightarrow> jor (jget t ''id'') (jget t ''threadId'') | _ \<Rightarrow> JNull),
       get_nested (jget params ''turn'') [''threadId''],
       get_nested (jget params ''item'') [''threadId'']]"

definition codex_thread_sort_key :: "(rat \<Rightarrow> str) \<Rightarrow> jdict \<Rightarrow> rat \<times> str" where
  "codex_thread_sort_key fr thread =
     ((case jnum (jget thread ''updatedAt'') of
         Some r \<Rightarrow> r
       | None \<Rightarrow> (case jnum (jget thread ''createdAt'') of Some r \<Rightarrow> r | None \<Rightarrow> 0)),
      py_str fr (jor (jor (jget thread ''id'') (jget thread ''sessionId'')) (JStr [])))"

definition sort_codex_threads :: "(rat \<Rightarrow> str) \<Rightarrow> jdict list \<Rightarrow> jdict list" where
  "sort_codex_threads fr = sort_reversed (\<lambda>t. (fst (codex_thread_sort_key fr t), map (of_char :: char \<Rightarrow> nat) (snd (codex_thread_sort_key fr t))))"

section \<open>Texts and plans\<close>

definition item_text_part :: "json \<Rightarrow> str" where
  "item_text_part v = (case v of JObj d \<Rightarrow> (case jget d ''text'' of JStr s \<Rightarrow> s | _ \<Rightarrow> []) | _ \<Rightarrow> [])"

definition extract_item_text :: "jdict \<Rightarrow> str option" where
  "extract_item_text item =
     (case jstr_nonblank (jget item ''text'') of
        Some s \<Rightarrow> Some (py_strip s)
      | None \<Rightarrow>
          (case jget item ''content'' of
             JList xs \<Rightarrow> (let s = py_strip (concat (map item_text_part xs)) in if s = [] then None else Some s)
           | _ \<Rightarrow> None))"

definition extract_codex_goal :: "jdict \<Rightarrow> str option" where
  "extract_codex_goal response =
     (case first_nonblank response [''goal'', ''text'', ''objective''] of
        Some g \<Rightarrow> Some g
      | None \<Rightarrow>
          (case jget response ''goal'' of
             JObj goal \<Rightarrow> first_nonblank goal [''text'', ''objective'', ''goal'']
           | _ \<Rightarrow> None))"

definition codex_plan_from_text :: "str option \<Rightarrow> jdict" where
  "codex_plan_from_text text =
     (case text of
        Some s \<Rightarrow> if py_strip s \<noteq> [] then [(''text'', JStr (py_strip s)), (''steps'', JList [])] else [(''steps'', JList [])]
      | None \<Rightarrow> [(''steps'', JList [])])"

definition extract_codex_structured_plan :: "jdict \<Rightarrow> jdict option" where
  "extract_codex_structured_plan params =
     (let (source, raw_steps) =
            (case jget params ''plan'' of
               JObj raw \<Rightarrow> (raw, jor (jor (jget raw ''plan'') (jget raw ''steps'')) (jget raw ''items''))
             | raw \<Rightarrow> (params, jor (jor raw (jget params ''steps'')) (jget params ''items'')));
          steps = extract_codex_plan_steps raw_steps;
          explanation = first_nonblank source [''explanation'', ''summary''];
          plan_text = first_nonblank source [''text'', ''content'']
      in if steps = [] \<and> explanation = None \<and> plan_text = None then None
         else Some ([(''steps'', JList (map JObj steps))] @
           opt_param ''text'' (map_option JStr plan_text) @ opt_param ''explanation'' (map_option JStr explanation)))"

definition extract_codex_plan_item :: "jdict \<Rightarrow> jdict option" where
  "extract_codex_plan_item item =
     (case (extract_codex_structured_plan item, extract_item_text item) of
        (None, None) \<Rightarrow> None
      | (None, Some s) \<Rightarrow> Some (codex_plan_from_text (Some s))
      | (Some plan, None) \<Rightarrow> Some plan
      | (Some plan, Some s) \<Rightarrow> Some (if jtruthy (jget plan ''text'') then plan else dict_put ''text'' (JStr s) plan))"

definition plan_step_text :: "json \<Rightarrow> str option" where
  "plan_step_text v = (case v of JObj d \<Rightarrow> map_option py_strip (jstr_nonblank (jget d ''step'')) | _ \<Rightarrow> None)"

definition codex_plan_message :: "jdict \<Rightarrow> str option" where
  "codex_plan_message plan =
     (case first_nonblank plan [''text'', ''explanation''] of
        Some s \<Rightarrow> Some s
      | None \<Rightarrow>
          (case jget plan ''steps'' of
             JList steps \<Rightarrow>
               (let parts = List.map_filter plan_step_text steps
                in if parts \<noteq> [] then Some (py_join [char_of (10 :: nat)] parts) else None)
           | _ \<Rightarrow> None))"

definition plan_review_prompt :: str where
  "plan_review_prompt = ''Review the proposed plan before execution.''"

definition proposal_from_codex_plan :: "jdict \<Rightarrow> jdict" where
  "proposal_from_codex_plan plan =
     [(''summary'', JStr plan_review_prompt),
      (''options'', JList [JObj [(''id'', JStr ''approved_codex_plan''), (''label'', JStr ''Run proposed plan''), (''letter'', JStr ''A'')]]),
      (''codex_plan'', JObj plan)]"

text \<open>Whether a text that grew is worth an event: by so many characters, or when a sentence ends.\<close>

definition grown_enough :: "nat \<Rightarrow> str list \<Rightarrow> str \<Rightarrow> str \<Rightarrow> bool" where
  "grown_enough n ends candidate previous \<longleftrightarrow>
     candidate \<noteq> previous \<and>
     (n \<le> length (if previous = [] then candidate else drop (length previous) candidate) \<or>
      list_ex (py_endswith candidate) ends)"

definition should_emit_codex_delta_progress :: "str \<Rightarrow> str \<Rightarrow> bool" where
  "should_emit_codex_delta_progress = grown_enough 24 [''.'', ''!'', ''?'', [char_of (10 :: nat)]]"

definition should_emit_codex_plan_delta :: "str \<Rightarrow> str \<Rightarrow> bool" where
  "should_emit_codex_plan_delta = grown_enough 240 [[char_of (10 :: nat), char_of (10 :: nat)], ''.'', ''!'', ''?'']"

section \<open>Requests to the user\<close>

fun first_question :: "json list \<Rightarrow> str option" where
  "first_question [] = None"
| "first_question (q # qs) =
     (case (case q of JObj d \<Rightarrow> jstr_nonblank (jor (jget d ''question'') (jget d ''prompt'')) | _ \<Rightarrow> None) of
        Some s \<Rightarrow> Some (py_strip s)
      | None \<Rightarrow> first_question qs)"

definition extract_question_text :: "jdict \<Rightarrow> str option" where
  "extract_question_text params =
     (case first_nonblank params [''question'', ''message'', ''prompt''] of
        Some s \<Rightarrow> Some s
      | None \<Rightarrow> (case jget params ''questions'' of JList qs \<Rightarrow> first_question qs | _ \<Rightarrow> None))"

text \<open>The letter of an option counts the options that were skipped.\<close>

fun plan_options :: "nat \<Rightarrow> json list \<Rightarrow> jdict list" where
  "plan_options i [] = []"
| "plan_options i (x # xs) =
     (case x of
        JObj d \<Rightarrow>
          (case jstr_nonblank (jget d ''label'') of
             None \<Rightarrow> plan_options (Suc i) xs
           | Some l \<Rightarrow>
               [(''id'', JStr (str_or_else (jstr_nonempty (jget d ''id'')) (py_strip l))), (''label'', JStr (py_strip l)),
                (''description'', JStr (case jstr (jget d ''description'') of Some s \<Rightarrow> py_strip s | None \<Rightarrow> [])),
                (''letter'', JStr (py_chr (65 + i)))] # plan_options (Suc i) xs)
      | _ \<Rightarrow> plan_options (Suc i) xs)"

definition plan_question :: "nat \<Rightarrow> jdict \<Rightarrow> jdict" where
  "plan_question n d =
     (let stripped = (\<lambda>v. map_option py_strip (jstr_nonblank v));
          header = stripped (jget d ''header'');
          text = stripped (jor (jor (jget d ''question'') (jget d ''prompt'')) (jget d ''header'')) in
      [(''question_id'', JStr (str_or_else (stripped (jget d ''id'')) (''question_'' @ py_of_nat (Suc n)))),
       (''header'', JStr (str_or_else header (str_or_else text (''Question '' @ py_of_nat (Suc n))))),
       (''summary'', JStr (str_or_else text ''Review the proposed plan.'')),
       (''options'', JList (case jget d ''options'' of JList xs \<Rightarrow> map JObj (plan_options 0 xs) | _ \<Rightarrow> []))])"

fun plan_questions :: "nat \<Rightarrow> json list \<Rightarrow> jdict list" where
  "plan_questions n [] = []"
| "plan_questions n (q # qs) =
     (case q of JObj d \<Rightarrow> plan_question n d # plan_questions (Suc n) qs | _ \<Rightarrow> plan_questions n qs)"

definition extract_plan_proposal :: "jdict \<Rightarrow> jdict option" where
  "extract_plan_proposal params =
     (case jget params ''questions'' of
        JList qs \<Rightarrow>
          (case plan_questions 0 qs of
             [] \<Rightarrow> None
           | first # rest \<Rightarrow>
               Some [(''questions'', JList (map JObj (first # rest))), (''question_id'', jget first ''question_id''),
                     (''summary'', jget first ''summary''), (''options'', jget first ''options'')])
      | _ \<Rightarrow> None)"

definition classify_blocked_prompt :: "str \<Rightarrow> str" where
  "classify_blocked_prompt prompt =
     (let normalized = py_lower prompt in
      if list_ex (py_contains normalized) [''allow'', ''permission'', ''approve'', ''grant access''] then ''permission''
      else if list_ex (py_contains normalized) [''confirm'', ''confirmation'', ''are you sure''] then ''confirmation''
      else ''question'')"

definition allowed_parts :: "json \<Rightarrow> str list" where
  "allowed_parts v =
     (case v of
        JObj d \<Rightarrow> (if jobj (jget d ''fileSystem'') \<noteq> None then [''file system access''] else []) @
                  (if jobj (jget d ''network'') \<noteq> None then [''network access''] else [])
      | _ \<Rightarrow> [])"

definition command_approval_text :: "jdict \<Rightarrow> str" where
  "command_approval_text params =
     (let asked = (case jget params ''command'' of
            JStr s \<Rightarrow> if py_strip s \<noteq> [] then Some (py_strip s) else None
          | JList xs \<Rightarrow> (case List.map_filter jstr_nonblank xs of [] \<Rightarrow> None | parts \<Rightarrow> Some (py_join '' '' parts))
          | _ \<Rightarrow> None)
      in case asked of
           Some s \<Rightarrow> ''Allow command execution? '' @ s
         | None \<Rightarrow> ''Codex needs approval to run a command.'')"

definition file_approval_text :: "jdict \<Rightarrow> str" where
  "file_approval_text params =
     (case jstr_nonblank (jget params ''grantRoot'') of
        Some s \<Rightarrow> ''Allow file changes under '' @ py_strip s @ ''?''
      | None \<Rightarrow>
          (let names = dict_keys (as_dict (jget params ''fileChanges'')) in
           if names \<noteq> []
           then ''Allow file changes to '' @ py_join '', '' (take 3 names) @ (if length names > 3 then ''...'' else []) @ ''?''
           else ''Codex needs approval to change files.''))"

definition extract_approval_text :: "str \<Rightarrow> jdict \<Rightarrow> str" where
  "extract_approval_text method params =
     (case jstr_nonblank (jget params ''reason'') of
        Some s \<Rightarrow> py_strip s
      | None \<Rightarrow>
          (let normalized = py_lower method in
           if normalized \<in> set command_methods then command_approval_text params
           else if normalized \<in> set file_methods then file_approval_text params
           else if normalized = permission_method then
             (case allowed_parts (jget params ''permissions'') of
                [] \<Rightarrow> ''Codex needs additional permissions to continue.''
              | parts \<Rightarrow> ''Allow additional permissions: '' @ py_join '', '' parts @ ''?'')
           else ''Codex needs approval to continue.''))"

definition native_response :: "json \<Rightarrow> str \<Rightarrow> jdict \<Rightarrow> json" where
  "native_response request_id method params =
     JObj [(''request_id'', request_id), (''method'', JStr method), (''params'', JObj params)]"

definition extract_blocked_request ::
    "(rat \<Rightarrow> str) \<Rightarrow> json \<Rightarrow> str \<Rightarrow> jdict \<Rightarrow> bool \<Rightarrow> (str \<times> jdict) option" where
  "extract_blocked_request fr request_id method params plan_mode =
     (let normalized = py_lower method in
      if asks_user_input normalized then
        (let text = str_or_else (extract_question_text params) ''Codex is waiting for user input.'';
             proposal = (if plan_mode then extract_plan_proposal params else None);
             kind = (if proposal \<noteq> None \<or> plan_mode then ''plan_proposal'' else classify_blocked_prompt text)
         in Some (text,
              [(''thread_id'', JStr (py_str fr (jor (jget params ''threadId'') (JStr [])))), (''prompt'', JStr text),
               (''interaction_kind'', JStr kind), (''blocked_method'', JStr method)] @
              opt_param ''proposal'' (map_option JObj proposal) @
              [(''native_response'', native_response request_id method params)]))
      else if normalized \<in> set command_methods \<or> normalized \<in> set file_methods \<or> normalized = permission_method then
        (let text = extract_approval_text method params
         in Some (text,
              [(''thread_id'', JStr (py_str fr (jor (jor (jget params ''threadId'') (jget params ''conversationId'')) (JStr [])))),
               (''prompt'', JStr text), (''interaction_kind'', JStr ''permission''), (''blocked_method'', JStr method),
               (''native_response'', native_response request_id method params)]))
      else None)"

text \<open>The last text of the assistant in a thread that was read: of the turn, or of any turn when it is not
  in the thread.\<close>

definition is_assistant_item :: "json \<Rightarrow> jdict option" where
  "is_assistant_item v =
     (case v of
        JObj d \<Rightarrow> if jget d ''type'' \<in> {JStr ''assistantMessage'', JStr ''agentMessage''} then Some d else None
      | _ \<Rightarrow> None)"

definition turn_texts :: "jdict \<Rightarrow> str list" where
  "turn_texts turn =
     (case jget turn ''items'' of
        JList xs \<Rightarrow> List.map_filter extract_item_text (List.map_filter is_assistant_item xs)
      | _ \<Rightarrow> [])"

definition extract_assistant_text_from_thread :: "jdict \<Rightarrow> str \<Rightarrow> str option" where
  "extract_assistant_text_from_thread response turn_id =
     (case get_nested (jget response ''thread'') [''turns''] of
        JList vs \<Rightarrow>
          (let turns = List.map_filter jobj vs;
               matched = filter (\<lambda>t. jget t ''id'' = JStr turn_id) turns;
               texts = concat (map turn_texts (if matched = [] then turns else matched))
           in if texts = [] then None else Some (last texts))
      | _ \<Rightarrow> None)"

section \<open>The settings of a turn\<close>

definition setting :: "str \<Rightarrow> jdict \<Rightarrow> str option" where
  "setting k meta = jstr_nonempty (jget meta k)"

definition collaboration_model_key :: "str \<Rightarrow> str" where
  "collaboration_model_key mode = ''codex_collaboration_'' @ mode @ ''_model''"

definition collaboration_effort_key :: "str \<Rightarrow> str" where
  "collaboration_effort_key mode = ''codex_collaboration_'' @ mode @ ''_reasoning_effort''"

definition set_if_text :: "str \<Rightarrow> str option \<Rightarrow> jdict \<Rightarrow> jdict" where
  "set_if_text k v meta = (if str_truthy v then dict_put k (json_of_str v) meta else meta)"

definition first_str :: "jdict \<Rightarrow> str \<Rightarrow> str \<Rightarrow> str option" where
  "first_str d k k' = (case jget d k of JStr s \<Rightarrow> Some s | _ \<Rightarrow> jstr (jget d k'))"

definition capture_thread_settings :: "jdict \<Rightarrow> jdict \<Rightarrow> jdict" where
  "capture_thread_settings response meta =
     set_if_text ''codex_reasoning_effort'' (first_str response ''reasoningEffort'' ''reasoning_effort'')
       (set_if_text ''codex_model'' (jstr (jget response ''model'')) meta)"

definition collaboration_mode_of :: "jdict \<Rightarrow> str option" where
  "collaboration_mode_of item =
     (let known = (\<lambda>s. s \<in> {''plan'', ''default''}) in
      case jget item ''mode'' of
        JStr s \<Rightarrow> if known s then Some s
                  else (case jget item ''name'' of
                          JStr n \<Rightarrow> if known (py_lower (py_strip n)) then Some (py_lower (py_strip n)) else None
                        | _ \<Rightarrow> None)
      | _ \<Rightarrow> (case jget item ''name'' of
               JStr n \<Rightarrow> if known (py_lower (py_strip n)) then Some (py_lower (py_strip n)) else None
             | _ \<Rightarrow> None))"

definition capture_collaboration_mode_mask :: "jdict \<Rightarrow> jdict \<Rightarrow> jdict" where
  "capture_collaboration_mode_mask item meta =
     (case collaboration_mode_of item of
        None \<Rightarrow> meta
      | Some mode \<Rightarrow>
          set_if_text (collaboration_effort_key mode) (first_str item ''reasoning_effort'' ''reasoningEffort'')
            (set_if_text (collaboration_model_key mode) (jstr (jget item ''model'')) meta))"

text \<open>\<open>modes\<close> is the response to \<open>collaborationMode/list\<close>, or the exception of the request.\<close>

definition capture_collaboration_mode_settings :: "jdict result \<Rightarrow> jdict \<Rightarrow> jdict result" where
  "capture_collaboration_mode_settings modes meta =
     (case modes of
        Inl e \<Rightarrow> Inl e
      | Inr response \<Rightarrow>
          (case jget response ''data'' of
             JList items \<Rightarrow> Inr (fold capture_collaboration_mode_mask (List.map_filter jobj items) meta)
           | _ \<Rightarrow> Inl (RuntimeError ''Codex collaborationMode/list returned an unsupported response shape.'')))"

definition collaboration_for_turn :: "jdict result \<Rightarrow> bool \<Rightarrow> jdict \<Rightarrow> collaboration option result \<times> jdict" where
  "collaboration_for_turn modes plan_mode meta =
     (let mode = (if plan_mode then ''plan'' else ''default'');
          model = (\<lambda>m. setting (collaboration_model_key mode) m);
          effort = (\<lambda>m. setting (collaboration_effort_key mode) m);
          made = (\<lambda>x y. \<lparr>co_mode = mode, co_model = x, co_effort = y\<rparr>)
      in if plan_mode then
           (case (if model meta = None then capture_collaboration_mode_settings modes meta else Inr meta) of
              Inl e \<Rightarrow> (Inl e, meta)
            | Inr meta' \<Rightarrow>
                (case str_or (model meta') (setting ''codex_model'' meta') of
                   None \<Rightarrow> (Inl (RuntimeError ''Codex plan mode is unavailable: collaboration mode settings have no model.''), meta')
                 | Some x \<Rightarrow> (Inr (Some (made (Some x) (str_or (effort meta') (setting ''codex_reasoning_effort'' meta')))), meta')))
         else
           (case str_or (model meta) (setting ''codex_model'' meta) of
              None \<Rightarrow> (Inr None, meta)
            | Some x \<Rightarrow> (Inr (Some (made (Some x) (str_or (effort meta) (setting ''codex_reasoning_effort'' meta)))), meta)))"

text \<open>The settings of a turn that was requested directly: the default mode is always named.\<close>

definition collaboration_for_request :: "jdict result \<Rightarrow> bool \<Rightarrow> jdict \<Rightarrow> collaboration option result \<times> jdict" where
  "collaboration_for_request modes plan_mode meta =
     (if plan_mode then collaboration_for_turn modes True meta
      else (Inr (Some \<lparr>co_mode = ''default'',
                       co_model = str_or (setting (collaboration_model_key ''default'') meta) (setting ''codex_model'' meta),
                       co_effort = str_or (setting (collaboration_effort_key ''default'') meta)
                                     (setting ''codex_reasoning_effort'' meta)\<rparr>), meta))"

section \<open>Prompts\<close>

definition direct_bro_detail_input :: "task \<Rightarrow> str option" where
  "direct_bro_detail_input t =
     (if jget (t_metadata t) ''source_kind'' \<notin> {JStr ''bro_detail_text'', JStr ''bro_detail_ptt''} then None
      else
        (let text = (case t_latest_instruction t of Some s \<Rightarrow> s | None \<Rightarrow> t_goal t)
         in Some (if py_strip text \<noteq> [] then py_strip text else py_strip (t_title t))))"

definition thread_id_from_resume_handle :: "agent_resume_handle option \<Rightarrow> str option" where
  "thread_id_from_resume_handle h =
     (case h of
        None \<Rightarrow> None
      | Some h \<Rightarrow> if h_executor_id h = ''codex'' \<and> str_truthy (h_session_handle h) then h_session_handle h else None)"

definition skill_from_metadata :: "jdict \<Rightarrow> jdict option" where
  "skill_from_metadata meta =
     (case jget meta ''skill'' of
        JObj d \<Rightarrow> if jstr_nonempty (jget d ''name'') = None then None else Some d
      | _ \<Rightarrow> None)"

text \<open>Iterating over \<open>d.get(k, [])\<close>: a string gives its characters, a dictionary its keys.\<close>

definition json_items :: "jdict \<Rightarrow> str \<Rightarrow> json list result" where
  "json_items d k =
     (case map_of d k of
        None \<Rightarrow> Inr []
      | Some v \<Rightarrow>
          (case v of
             JList xs \<Rightarrow> Inr xs
           | JStr s \<Rightarrow> Inr (map (\<lambda>c. JStr [c]) s)
           | JObj e \<Rightarrow> Inr (map JStr (dict_keys e))
           | _ \<Rightarrow> Inl (TypeError ''object is not iterable'')))"

definition constraint_line :: "json \<Rightarrow> str option" where
  "constraint_line v =
     (case v of
        JObj d \<Rightarrow>
          (case jget d ''constraint'' of
             JStr s \<Rightarrow>
               Some (''- '' @ (case jstr_nonblank (jget d ''category'') of Some c \<Rightarrow> ''['' @ c @ ''] '' | None \<Rightarrow> []) @ py_strip s)
           | _ \<Rightarrow> None)
      | _ \<Rightarrow> None)"

definition build_prompt :: "task \<Rightarrow> str result" where
  "build_prompt t =
     (case direct_bro_detail_input t of
        Some s \<Rightarrow> Inr s
      | None \<Rightarrow>
          (let m = t_metadata t in
           case (json_items m ''notes'', json_items m ''constraints'') of
             (Inl e, _) \<Rightarrow> Inl e
           | (_, Inl e) \<Rightarrow> Inl e
           | (Inr notes, Inr constraints) \<Rightarrow>
               (let noted = map (\<lambda>s. ''- '' @ py_strip s) (List.map_filter jstr_nonblank notes);
                    constrained = List.map_filter constraint_line constraints
                in Inr (py_join [char_of (10 :: nat)]
                     ([''Task: '' @ t_title t, ''Goal: '' @ t_goal t] @
                      (case jstr_nonblank (jget m ''executor_persona_prompt'') of
                         Some s \<Rightarrow> [''Executor persona guidance: '' @ py_strip s] | None \<Rightarrow> []) @
                      (if str_truthy (t_latest_instruction t)
                       then [''Latest instruction: '' @ str_or_else (t_latest_instruction t) []] else []) @
                      (if noted \<noteq> [] then ''Task notes:'' # noted else []) @
                      (if constrained \<noteq> [] then ''Execution constraints:'' # constrained else []) @
                      [''Work inside the current repository and return a concise final result.''])))))"

definition follow_up_prompt :: "str \<Rightarrow> str" where
  "follow_up_prompt text =
     ''Direct user follow-up instruction:'' @ [char_of (10 :: nat)] @ text @ [char_of (10 :: nat), char_of (10 :: nat)] @
     ''Act on this instruction in the existing execution thread.''"

section \<open>Skills\<close>

text \<open>A skill is the record \<open>executor_skill\<close> of \<open>NodeRegistry\<close>.\<close>

definition coerce_str :: "json \<Rightarrow> str option" where
  "coerce_str v = map_option py_strip (jstr_nonblank v)"

definition description_cap :: nat where "description_cap = 160"

definition project_skill :: "jdict \<Rightarrow> executor_skill option" where
  "project_skill raw =
     (case (coerce_str (jget raw ''name''), coerce_str (jget raw ''path'')) of
        (Some name, Some path) \<Rightarrow>
          (let interface = as_dict (jget raw ''interface'');
               short = str_or (coerce_str (jget interface ''shortDescription'')) (coerce_str (jget raw ''shortDescription''))
           in Some \<lparr>sk_name = name, sk_display_name = str_or_else (coerce_str (jget interface ''displayName'')) name,
                    sk_description = (case short of
                        Some s \<Rightarrow> s
                      | None \<Rightarrow> take description_cap (str_or_else (coerce_str (jget raw ''description'')) [])),
                    sk_hint = coerce_str (jget interface ''defaultPrompt''), sk_path = path,
                    sk_enabled = (jget raw ''enabled'' \<noteq> JBool False)\<rparr>)
      | _ \<Rightarrow> None)"

text \<open>The dictionaries found by iterating over \<open>d.get(k, []) or []\<close>.\<close>

definition listed :: "jdict \<Rightarrow> str \<Rightarrow> jdict list result" where
  "listed d k =
     (let v = jor (jget d k) (JList []) in
      case v of
        JList xs \<Rightarrow> Inr (List.map_filter jobj xs)
      | JStr _ \<Rightarrow> Inr []
      | JObj _ \<Rightarrow> Inr []
      | _ \<Rightarrow> Inl (TypeError ''object is not iterable''))"

definition add_skill :: "jdict \<Rightarrow> executor_skill list \<Rightarrow> executor_skill list" where
  "add_skill raw acc =
     (case project_skill raw of
        None \<Rightarrow> acc
      | Some sk \<Rightarrow> if (sk_name sk, sk_path sk) \<in> set (map (\<lambda>x. (sk_name x, sk_path x)) acc) then acc else acc @ [sk])"

fun add_skill_groups :: "jdict list \<Rightarrow> executor_skill list \<Rightarrow> executor_skill list result" where
  "add_skill_groups [] acc = Inr acc"
| "add_skill_groups (g # gs) acc =
     (case listed g ''skills'' of Inl e \<Rightarrow> Inl e | Inr raws \<Rightarrow> add_skill_groups gs (fold add_skill raws acc))"

definition parse_skills_list :: "jdict \<Rightarrow> executor_skill list result" where
  "parse_skills_list res =
     (case listed res ''data'' of Inl e \<Rightarrow> Inl e | Inr groups \<Rightarrow> add_skill_groups groups [])"

end
