(* ===== verification/CodexTurns.thy ===== *)
theory CodexTurns
  imports CodexReading
begin

text \<open>
  The turns of the Codex adapter (\<open>src/newbro/executors/adapters/codex/executor.py\<close>): how the events
  of the app-server reach the turn and the threads they are about, what the events of a turn become,
  and how a turn is started for a run, for a follow-up and for a direct request. Queues and sessions
  are objects that are shared, so they live in heaps indexed by numbers. \<open>ask\<close> is what the app-server
  answers to a request, or the exception of the request; every operation says which requests it makes.
  The answer to the \<open>thread/read\<close> at the end of a turn is the argument \<open>final\<close>.
\<close>

section \<open>Errors as text\<close>

text \<open>\<open>str(exc)\<close>.\<close>

fun error_text :: "py_error \<Rightarrow> str" where
  "error_text (KeyError s) = py_repr_str s"
| "error_text (ValueError s) = s"
| "error_text (TypeError s) = s"
| "error_text (RuntimeError s) = s"
| "error_text (IndexError s) = s"
| "error_text (DuplicateBindingError s) = s"
| "error_text (MissingRegistrationConfigError s) = s"
| "error_text (ExecutorNodeRegistryError s) = s"
| "error_text (ExecutorNodeAuthError s) = s"
| "error_text (UnknownExecutorError s) = s"
| "error_text (TimeoutError s) = s"
| "error_text (WorkspaceFileUnavailable code s) = s"
| "error_text (WorkspaceFileDenied code s) = s"
| "error_text (PublicAuthError s) = s"
| "error_text (IntegrityError s) = s"
| "error_text (HTTPException n s) = py_of_nat n @ '': '' @ s"

section \<open>The events of the app-server find their turn\<close>

record codex_session =
  cx_session_id :: str
  cx_cwd :: str
  cx_live :: codex_live
  cx_metadata :: jdict
  cx_stderr :: "str list"

record codex_executor =
  xd_sessions :: "(nat, codex_session) dict"
  xd_active_runs :: "(str, nat) dict"
  xd_turn_queues :: "(str, nat) dict"
  xd_backlog :: "(str, jdict list) dict"
  xd_subscriptions :: "(str, str \<times> nat) dict"
  xd_queues :: "(nat, jdict list) dict"
  xd_next :: nat

definition codex_executor_init :: codex_executor where
  "codex_executor_init =
     \<lparr>xd_sessions = [], xd_active_runs = [], xd_turn_queues = [], xd_backlog = [], xd_subscriptions = [], xd_queues = [],
      xd_next = 0\<rparr>"

definition event_params :: "jdict \<Rightarrow> jdict" where
  "event_params ev = as_dict (jget ev ''params'')"

definition put_event :: "nat \<Rightarrow> jdict \<Rightarrow> codex_executor \<Rightarrow> codex_executor" where
  "put_event q ev x = x\<lparr>xd_queues := dict_put q (dd_get (xd_queues x) q @ [ev]) (xd_queues x)\<rparr>"

definition backlog_limit :: nat where "backlog_limit = 100"

definition last_of :: "nat \<Rightarrow> 'a list \<Rightarrow> 'a list" where
  "last_of n xs = drop (length xs - n) xs"

definition route_to_turn :: "jdict \<Rightarrow> codex_executor \<Rightarrow> codex_executor" where
  "route_to_turn ev x =
     (case event_turn_id (event_params ev) of
        None \<Rightarrow> x
      | Some t \<Rightarrow>
          (case map_of (xd_turn_queues x) t of
             Some q \<Rightarrow> put_event q ev x
           | None \<Rightarrow> x\<lparr>xd_backlog := dict_put t (last_of backlog_limit (dd_get (xd_backlog x) t @ [ev])) (xd_backlog x)\<rparr>))"

definition route_to_threads :: "jdict \<Rightarrow> codex_executor \<Rightarrow> codex_executor" where
  "route_to_threads ev x =
     (case event_thread_id (event_params ev) of
        None \<Rightarrow> x
      | Some k \<Rightarrow> fold (\<lambda>(thread, q). if thread = k then put_event q ev else id) (dict_values (xd_subscriptions x)) x)"

definition route_app_event :: "jdict \<Rightarrow> codex_executor \<Rightarrow> codex_executor" where
  "route_app_event ev x = route_to_threads ev (route_to_turn ev x)"

definition register_turn_queue :: "str \<Rightarrow> codex_executor \<Rightarrow> nat \<times> codex_executor" where
  "register_turn_queue t x =
     (let q = xd_next x in
      (q, x\<lparr>xd_next := Suc q, xd_turn_queues := dict_put t q (xd_turn_queues x),
            xd_queues := dict_put q (dd_get (xd_backlog x) t) (xd_queues x), xd_backlog := dict_pop t (xd_backlog x)\<rparr>))"

definition unregister_turn_queue :: "str \<Rightarrow> nat \<Rightarrow> codex_executor \<Rightarrow> codex_executor" where
  "unregister_turn_queue t q x =
     (if map_of (xd_turn_queues x) t = Some q then x\<lparr>xd_turn_queues := dict_pop t (xd_turn_queues x)\<rparr> else x)"

definition take_event :: "nat \<Rightarrow> codex_executor \<Rightarrow> jdict option \<times> codex_executor" where
  "take_event q x =
     (case dd_get (xd_queues x) q of
        [] \<Rightarrow> (None, x)
      | ev # evs \<Rightarrow> (Some ev, x\<lparr>xd_queues := dict_put q evs (xd_queues x)\<rparr>))"

definition subscribe_queue :: "str \<Rightarrow> str \<Rightarrow> codex_executor \<Rightarrow> codex_executor" where
  "subscribe_queue session thread x =
     (let q = xd_next x in
      x\<lparr>xd_next := Suc q, xd_subscriptions := dict_put session (thread, q) (xd_subscriptions x),
        xd_queues := dict_put q [] (xd_queues x)\<rparr>)"

text \<open>The app-server is closed: whoever waits on a queue of it waits on.\<close>

definition close_app_session :: "codex_executor \<Rightarrow> codex_executor" where
  "close_app_session x = x\<lparr>xd_turn_queues := [], xd_backlog := [], xd_subscriptions := []\<rparr>"

definition next_thread_event :: "str \<Rightarrow> codex_executor \<Rightarrow> jdict option result \<times> codex_executor" where
  "next_thread_event session x =
     (case map_of (xd_subscriptions x) session of
        None \<Rightarrow> (Inl (RuntimeError ''Codex selected-thread subscription is not active.''), x)
      | Some (_, q) \<Rightarrow> (let (ev, x') = take_event q x in (Inr ev, x')))"

section \<open>What the events of a turn become\<close>

record turn_job =
  tj_run_id :: str
  tj_session_id :: str
  tj_turn_id :: str
  tj_thread_id :: "str option"
  tj_extra :: jdict
  tj_completed :: str

record turn_stream =
  tw_last_message :: "str option"
  tw_phases :: "(str, str option) dict"
  tw_text :: "(str, str) dict"
  tw_emitted :: "(str, str) dict"
  tw_plan_text :: "(str, str) dict"
  tw_plan_emitted :: "(str, str) dict"

definition turn_stream_init :: turn_stream where
  "turn_stream_init =
     \<lparr>tw_last_message = None, tw_phases = [], tw_text = [], tw_emitted = [], tw_plan_text = [], tw_plan_emitted = []\<rparr>"

datatype turn_next =
    Read_On turn_stream
  | Await_User turn_stream
  | Turn_Over

definition kept :: "(str, str) dict \<Rightarrow> str \<Rightarrow> str" where
  "kept d k = (case map_of d k of Some s \<Rightarrow> s | None \<Rightarrow> [])"

definition turn_event :: "turn_job \<Rightarrow> executor_event_type \<Rightarrow> str option \<Rightarrow> jdict \<Rightarrow> executor_event" where
  "turn_event job ty message extra =
     \<lparr>ev_run_id = tj_run_id job, ev_session_id = tj_session_id job, ev_event_type = ty, ev_message = message,
      ev_metadata = dict_merge (tj_extra job) ((''thread_id'', JStr (str_or_else (tj_thread_id job) [])) # extra)\<rparr>"

definition source_codex :: "str \<times> json" where
  "source_codex = (''source'', JStr ''codex'')"

definition plan_event :: "turn_job \<Rightarrow> jdict \<Rightarrow> jdict \<Rightarrow> str \<Rightarrow> executor_event" where
  "plan_event job item plan src =
     turn_event job EV_PLAN (codex_plan_message plan)
       ([source_codex] @ item @ [(''codex_plan'', JObj plan), (''codex_plan_source'', JStr src)])"

definition turn_completed ::
    "(rat \<Rightarrow> str) \<Rightarrow> turn_job \<Rightarrow> jdict option \<Rightarrow> jdict \<Rightarrow> turn_stream \<Rightarrow> executor_event list \<times> turn_next" where
  "turn_completed fr job final params st =
     (let turn = jget params ''turn'' in
      if (case turn of JObj t \<Rightarrow> jget t ''id'' \<noteq> JStr (tj_turn_id job) | _ \<Rightarrow> False) then ([], Read_On st)
      else if get_nested turn [''status''] = JStr ''completed'' then
        (let read = (case final of
               Some response \<Rightarrow> if str_truthy (tj_thread_id job)
                                then extract_assistant_text_from_thread response (tj_turn_id job) else None
             | None \<Rightarrow> None);
             message = str_or_else (str_or (tw_last_message st) read) (tj_completed job)
         in ([turn_event job EV_COMPLETED (Some message) []], Turn_Over))
      else ([turn_event job EV_FAILED
              (Some (py_str fr (jor (get_nested turn [''error'', ''message'']) (JStr ''Codex turn failed.'')))) []], Turn_Over))"

definition plan_updated :: "turn_job \<Rightarrow> jdict \<Rightarrow> executor_event list" where
  "plan_updated job params =
     (case extract_codex_structured_plan params of
        None \<Rightarrow> []
      | Some plan \<Rightarrow> [plan_event job [] plan ''turn/plan/updated''])"

definition plan_delta :: "turn_job \<Rightarrow> jdict \<Rightarrow> turn_stream \<Rightarrow> executor_event list \<times> turn_stream" where
  "plan_delta job params st =
     (case (jstr_nonempty (jor (jget params ''itemId'') (jget params ''item_id'')), jstr_nonempty (jget params ''delta'')) of
        (Some k, Some delta) \<Rightarrow>
          (let text = kept (tw_plan_text st) k @ delta;
               st1 = st\<lparr>tw_plan_text := dict_put k text (tw_plan_text st)\<rparr>;
               candidate = py_strip text
           in if candidate = [] \<or> \<not> should_emit_codex_plan_delta candidate (kept (tw_plan_emitted st) k) then ([], st1)
              else ([plan_event job [(''codex_item_id'', JStr k)] (codex_plan_from_text (Some text)) ''item/plan/delta''],
                    st1\<lparr>tw_plan_emitted := dict_put k candidate (tw_plan_emitted st)\<rparr>))
      | _ \<Rightarrow> ([], st))"

definition message_delta :: "turn_job \<Rightarrow> jdict \<Rightarrow> turn_stream \<Rightarrow> executor_event list \<times> turn_stream" where
  "message_delta job params st =
     (case (jstr (jget params ''itemId''), jstr_nonempty (jget params ''delta'')) of
        (Some k, Some delta) \<Rightarrow>
          if map_of (tw_phases st) k \<noteq> Some (Some ''commentary'') then ([], st)
          else
            (let text = kept (tw_text st) k @ delta;
                 st1 = st\<lparr>tw_text := dict_put k text (tw_text st)\<rparr>;
                 candidate = py_strip text
             in if candidate = [] \<or> \<not> should_emit_codex_delta_progress candidate (kept (tw_emitted st) k) then ([], st1)
                else ([turn_event job EV_PROGRESS (Some candidate)
                        [source_codex, (''codex_item_id'', JStr k), (''phase'', JStr ''commentary'')]],
                      st1\<lparr>tw_emitted := dict_put k candidate (tw_emitted st)\<rparr>))
      | _ \<Rightarrow> ([], st))"

definition plan_mode_job :: "turn_job \<Rightarrow> bool" where
  "plan_mode_job job \<longleftrightarrow> jget (tj_extra job) ''plan_mode'' = JBool True"

definition plan_proposed :: "turn_job \<Rightarrow> jdict \<Rightarrow> executor_event" where
  "plan_proposed job plan =
     turn_event job EV_BLOCKED (Some plan_review_prompt)
       [source_codex, (''interaction_kind'', JStr ''plan_proposal''), (''blocked_method'', JStr ''item/completed:plan''),
        (''prompt'', JStr plan_review_prompt), (''proposal'', JObj (proposal_from_codex_plan plan))]"

definition plan_completed :: "turn_job \<Rightarrow> jdict \<Rightarrow> turn_stream \<Rightarrow> executor_event list \<times> turn_next" where
  "plan_completed job item st =
     (case extract_codex_plan_item item of
        None \<Rightarrow> ([], Read_On st)
      | Some plan \<Rightarrow>
          (let e = plan_event job [(''codex_item_id'', JStr (str_or_else (jstr (jget item ''id'')) []))] plan ''item/completed''
           in if plan_mode_job job then ([e, plan_proposed job plan], Turn_Over) else ([e], Read_On st)))"

definition assistant_item :: "turn_job \<Rightarrow> jdict \<Rightarrow> turn_stream \<Rightarrow> executor_event list \<times> turn_stream" where
  "assistant_item job item st =
     (let k = jstr (jget item ''id'');
          phase = jstr (jget item ''phase'');
          st1 = (case k of Some k \<Rightarrow> st\<lparr>tw_phases := dict_put k phase (tw_phases st)\<rparr> | None \<Rightarrow> st)
      in case extract_item_text item of
           None \<Rightarrow> ([], st1)
         | Some text \<Rightarrow>
             (let st2 = st1\<lparr>tw_last_message := Some text\<rparr> in
              if (case k of Some k \<Rightarrow> map_of (tw_emitted st2) k = Some text | None \<Rightarrow> False) then ([], st2)
              else if phase = Some ''final_answer'' then ([], st2)
              else ([turn_event job EV_PROGRESS (Some text) [source_codex, (''phase'', JStr (str_or_else phase []))]],
                    (case k of Some k \<Rightarrow> st2\<lparr>tw_emitted := dict_put k text (tw_emitted st2)\<rparr> | None \<Rightarrow> st2))))"

definition turn_item :: "turn_job \<Rightarrow> str \<Rightarrow> jdict \<Rightarrow> turn_stream \<Rightarrow> executor_event list \<times> turn_next" where
  "turn_item job method params st =
     (case jget params ''item'' of
        JObj item \<Rightarrow>
          if method = ''item/completed'' \<and> jget item ''type'' = JStr ''plan'' then plan_completed job item st
          else if jget item ''type'' \<in> {JStr ''assistantMessage'', JStr ''agentMessage''}
          then (let (out, st') = assistant_item job item st in (out, Read_On st'))
          else ([], Read_On st)
      | _ \<Rightarrow> ([], Read_On st))"

definition other_event :: "(rat \<Rightarrow> str) \<Rightarrow> turn_job \<Rightarrow> json \<Rightarrow> str \<Rightarrow> jdict \<Rightarrow> turn_stream \<Rightarrow> executor_event list \<times> turn_next" where
  "other_event fr job request_id method params st =
     (case extract_blocked_request fr request_id method params (plan_mode_job job) of
        Some (message, meta) \<Rightarrow>
          ([(turn_event job EV_BLOCKED (Some message) [])\<lparr>ev_metadata := dict_merge (tj_extra job) meta\<rparr>], Await_User st)
      | None \<Rightarrow>
          if method = ''thread/status/changed'' \<and> get_nested (jget params ''status'') [''type''] = JStr ''systemError''
          then ([turn_event job EV_FAILED (Some ''Codex thread entered systemError state.'') []], Turn_Over)
          else ([], Read_On st))"

definition event_method :: "(rat \<Rightarrow> str) \<Rightarrow> jdict \<Rightarrow> str" where
  "event_method fr ev = (case map_of ev ''method'' of Some v \<Rightarrow> py_str fr v | None \<Rightarrow> [])"

definition turn_step ::
    "(rat \<Rightarrow> str) \<Rightarrow> turn_job \<Rightarrow> jdict option \<Rightarrow> jdict \<Rightarrow> turn_stream \<Rightarrow> executor_event list \<times> turn_next" where
  "turn_step fr job final ev st =
     (case jget ev ''params'' of
        JObj params \<Rightarrow>
          (let method = event_method fr ev;
               go = (\<lambda>r. (fst r, Read_On (snd r)))
           in if method = ''turn/completed'' then turn_completed fr job final params st
              else if method = ''error'' then ([], Read_On st)
              else if method = ''turn/plan/updated'' then (plan_updated job params, Read_On st)
              else if method = ''item/plan/delta'' then go (plan_delta job params st)
              else if method = ''item/agentMessage/delta'' then go (message_delta job params st)
              else if method \<in> {''item/started'', ''item/completed''} then turn_item job method params st
              else other_event fr job (jget ev ''id'') method params st)
      | _ \<Rightarrow> ([], Read_On st))"

text \<open>The events of a turn in the order they are read. \<open>waits\<close> are the ends of the waits for the user. What is
  left of the queue when the turn is over is not read any more.\<close>

datatype turn_end =
    Reading turn_stream
  | Waiting turn_stream "jdict list"
  | Ended "jdict list"

fun stream_turn_events ::
    "(rat \<Rightarrow> str) \<Rightarrow> turn_job \<Rightarrow> jdict option \<Rightarrow> jdict list \<Rightarrow> str list \<Rightarrow> turn_stream \<Rightarrow> executor_event list \<times> turn_end" where
  "stream_turn_events fr job final [] waits st = ([], Reading st)"
| "stream_turn_events fr job final (ev # evs) waits st =
     (case turn_step fr job final ev st of
        (out, Turn_Over) \<Rightarrow> (out, Ended evs)
      | (out, Read_On st1) \<Rightarrow>
          (let (out2, e) = stream_turn_events fr job final evs waits st1 in (out @ out2, e))
      | (out, Await_User st1) \<Rightarrow>
          (case waits of
             [] \<Rightarrow> (out, Waiting st1 evs)
           | w # waits1 \<Rightarrow>
               if w = ''resolved'' then
                 (let (out2, e) = stream_turn_events fr job final evs waits1 st1 in (out @ out2, e))
               else if w = ''timed_out'' then
                 (out @ [turn_event job EV_FAILED (Some ''Timed out waiting for user input.'') []], Ended evs)
               else (out, Ended evs)))"

section \<open>Threads\<close>

type_synonym server = "rpc_call \<Rightarrow> jdict result"

definition cx_thread_id :: "codex_session \<Rightarrow> str option" where
  "cx_thread_id s = cl_thread_id (cx_live s)"

definition stderr_text :: "codex_session \<Rightarrow> str" where
  "stderr_text s = py_join [char_of (10 :: nat)] (last_of 20 (cx_stderr s))"

text \<open>The session goes on with a thread that the server loaded.\<close>

definition use_thread :: "str \<Rightarrow> jdict \<Rightarrow> codex_session \<Rightarrow> codex_session" where
  "use_thread thread response s =
     s\<lparr>cx_live := (cx_live s)\<lparr>cl_thread_id := Some thread\<rparr>,
       cx_metadata := dict_put ''codex_thread_resumed'' (JBool True) (capture_thread_settings response (cx_metadata s))\<rparr>"

definition adopt_thread :: "jdict result \<Rightarrow> codex_session \<Rightarrow> str result \<times> codex_session" where
  "adopt_thread response s =
     (case response of
        Inl e \<Rightarrow> (Inl e, s)
      | Inr d \<Rightarrow>
          (case get_nested (jget d ''thread'') [''id''] of
             JStr k \<Rightarrow> (Inr k, use_thread k d s)
           | _ \<Rightarrow> (Inl (RuntimeError ''Codex did not return a thread id.''), s)))"

definition resume_thread :: "server \<Rightarrow> str \<Rightarrow> codex_session \<Rightarrow> str result \<times> codex_session" where
  "resume_thread ask thread s =
     (case ask (thread_resume_call thread) of
        Inl e \<Rightarrow> (Inl e, s)
      | Inr d \<Rightarrow> (Inr thread, use_thread thread d s))"

definition ensure_thread :: "server \<Rightarrow> bool \<Rightarrow> codex_session \<Rightarrow> (str result \<times> codex_session) \<times> rpc_call list" where
  "ensure_thread ask fork_existing s =
     (let start = thread_start_call (cx_cwd s) in
      if \<not> str_truthy (cx_thread_id s) then (adopt_thread (ask start) s, [start])
      else
        (let k = the (cx_thread_id s); fork = thread_fork_call k (cx_cwd s) in
         if \<not> fork_existing then
           (if jtruthy (jget (cx_metadata s) ''codex_thread_resumed'') then ((Inr k, s), [])
            else (resume_thread ask k s, [thread_resume_call k]))
         else (case ask fork of
                 Inr d \<Rightarrow> (adopt_thread (Inr d) s, [fork])
               | Inl _ \<Rightarrow> (adopt_thread (ask start) s, [fork, start]))))"

definition thread_for_turn_request ::
    "server \<Rightarrow> start_codex_turn_command \<Rightarrow> codex_session \<Rightarrow> (str result \<times> codex_session) \<times> rpc_call list" where
  "thread_for_turn_request ask cmd s =
     (if st_create_new_thread cmd
      then (adopt_thread (ask (thread_start_call (cx_cwd s))) s, [thread_start_call (cx_cwd s)])
      else
        (let handle = st_latest_resume_handle cmd;
             named = (if handle \<noteq> None then thread_id_from_resume_handle handle else st_thread_id cmd)
         in if handle \<noteq> None \<and> named = None
            then ((Inl (RuntimeError ''Codex turn request requires a valid Codex resume handle.''), s), [])
            else if \<not> str_truthy named
            then ((Inl (RuntimeError ''Codex turn request requires thread_id unless create_new_thread is true.''), s), [])
            else (resume_thread ask (the named) s, [thread_resume_call (the named)])))"

section \<open>Starting a turn\<close>

text \<open>The settings of a turn; the modes are asked for when plan mode has no model yet.\<close>

definition ask_collaboration ::
    "bool \<Rightarrow> server \<Rightarrow> bool \<Rightarrow> codex_session \<Rightarrow> (collaboration option result \<times> codex_session) \<times> rpc_call list" where
  "ask_collaboration requested ask plan_mode s =
     (let modes = ask collaboration_mode_list_call;
          (c, meta) = (if requested then collaboration_for_request modes plan_mode (cx_metadata s)
                       else collaboration_for_turn modes plan_mode (cx_metadata s))
      in ((c, s\<lparr>cx_metadata := meta\<rparr>),
          if plan_mode \<and> setting (collaboration_model_key ''plan'') (cx_metadata s) = None
          then [collaboration_mode_list_call] else []))"

definition begin_codex_turn ::
    "server \<Rightarrow> str \<Rightarrow> str \<Rightarrow> collaboration option \<Rightarrow> jdict option \<Rightarrow> str result \<times> rpc_call list" where
  "begin_codex_turn ask thread prompt collab skill =
     (case turn_start_call thread prompt collab skill of
        Inl e \<Rightarrow> (Inl e, [])
      | Inr call \<Rightarrow>
          ((case ask call of
              Inl e \<Rightarrow> Inl e
            | Inr d \<Rightarrow>
                (case get_nested (jget d ''turn'') [''id''] of
                   JStr t \<Rightarrow> Inr t
                 | _ \<Rightarrow> Inl (RuntimeError ''Codex turn/start did not return a turn id.''))), [call]))"

text \<open>Thread, settings and turn, in this order, up to the first that fails.\<close>

definition open_turn ::
    "bool \<Rightarrow> server \<Rightarrow> bool \<Rightarrow> str result \<Rightarrow> jdict option \<Rightarrow> (str result \<times> codex_session) \<times> rpc_call list \<Rightarrow>
     (str \<times> str) result \<times> codex_session \<times> rpc_call list" where
  "open_turn requested ask plan_mode prompt skill loaded =
     (case loaded of
        ((Inl e, s), calls) \<Rightarrow> (Inl e, s, calls)
      | ((Inr thread, s), calls) \<Rightarrow>
          (case prompt of
             Inl e \<Rightarrow> (Inl e, s, calls)
           | Inr prompt \<Rightarrow>
               (case ask_collaboration requested ask plan_mode s of
                  ((Inl e, s1), calls1) \<Rightarrow> (Inl e, s1, calls @ calls1)
                | ((Inr collab, s1), calls1) \<Rightarrow>
                    (let (turn, calls2) = begin_codex_turn ask thread prompt collab skill
                     in ((case turn of Inl e \<Rightarrow> Inl e | Inr t \<Rightarrow> Inr (thread, t)), s1, calls @ calls1 @ calls2)))))"

definition thread_entries :: "str \<Rightarrow> str \<Rightarrow> jdict" where
  "thread_entries thread turn =
     [(''thread_id'', JStr thread), (''executor_thread_id'', JStr thread), (''turn_id'', JStr turn),
      (''executor_turn_id'', JStr turn)]"

definition plan_entry :: "bool \<Rightarrow> jdict" where
  "plan_entry plan_mode = (if plan_mode then [(''plan_mode'', JBool True)] else [])"

definition failed_event :: "str \<Rightarrow> str \<Rightarrow> py_error \<Rightarrow> str \<Rightarrow> executor_event" where
  "failed_event run session e stderr =
     \<lparr>ev_run_id = run, ev_session_id = session, ev_event_type = EV_FAILED, ev_message = Some (error_text e),
      ev_metadata = [(''stderr'', JStr stderr)]\<rparr>"

definition task_turn ::
    "server \<Rightarrow> execution_run \<Rightarrow> task \<Rightarrow> codex_session \<Rightarrow> turn_job result \<times> codex_session \<times> rpc_call list" where
  "task_turn ask r t s =
     (let m = t_metadata t; plan_mode = (jget m ''plan_mode'' = JBool True) in
      case build_prompt t of
        Inl e \<Rightarrow> (Inl e, s, [])
      | Inr prompt \<Rightarrow>
          (case open_turn False ask plan_mode (Inr prompt) (skill_from_metadata m)
                  (ensure_thread ask (jget m ''codex_thread_mode'' \<noteq> JStr ''resume'') s) of
             (Inl e, s1, calls) \<Rightarrow> (Inl e, s1, calls)
           | (Inr (thread, turn), s1, calls) \<Rightarrow>
               (Inr \<lparr>tj_run_id = r_run_id r, tj_session_id = cx_session_id s1, tj_turn_id = turn,
                     tj_thread_id = cx_thread_id s1,
                     tj_extra = [source_codex] @ thread_entries thread turn @ plan_entry plan_mode,
                     tj_completed = ''Completed: '' @ t_title t\<rparr>, s1, calls)))"

text \<open>\<open>run_task\<close>: all its events, given what the queue of its turn holds and how the waits end.\<close>

definition codex_run_task ::
    "(rat \<Rightarrow> str) \<Rightarrow> server \<Rightarrow> jdict option \<Rightarrow> execution_run \<Rightarrow> task \<Rightarrow> jdict list \<Rightarrow> str list \<Rightarrow> codex_session \<Rightarrow>
     executor_event list \<times> turn_end" where
  "codex_run_task fr ask final r t evs waits s =
     (case task_turn ask r t s of
        (Inl e, s1, _) \<Rightarrow> ([failed_event (r_run_id r) (cx_session_id s1) e (stderr_text s1)], Ended [])
      | (Inr job, _, _) \<Rightarrow> stream_turn_events fr job final evs waits turn_stream_init)"

text \<open>A follow-up to a run that is active on the same session. What is refused is raised, not an event.\<close>

definition follow_up_turn ::
    "server \<Rightarrow> execution_run \<Rightarrow> text_instruction \<Rightarrow> nat \<Rightarrow> codex_executor \<Rightarrow> codex_session \<Rightarrow>
     (executor_event \<times> turn_job) result \<times> codex_session \<times> rpc_call list" where
  "follow_up_turn ask r ins ref x s =
     (let text = py_strip (ti_text ins) in
      if map_of (xd_active_runs x) (r_run_id r) \<noteq> Some ref
      then (Inl (RuntimeError ''Codex follow-up instructions require an active run session.''), s, [])
      else if \<not> str_truthy (cx_thread_id s)
      then (Inl (RuntimeError ''Codex thread is not ready for follow-up instructions.''), s, [])
      else if text = [] then (Inl (RuntimeError ''Follow-up instruction text is empty.''), s, [])
      else
        (let m = ti_metadata ins in
         case open_turn False ask (jget m ''plan_mode'' = JBool True) (Inr (follow_up_prompt text)) (skill_from_metadata m)
                ((Inr (the (cx_thread_id s)), s), []) of
           (Inl e, s1, calls) \<Rightarrow> (Inl e, s1, calls)
         | (Inr (thread, turn), s1, calls) \<Rightarrow>
             (let extra = dict_merge m
                    ([(''instruction_id'', JStr (ti_instruction_id ins)),
                      (''source_audio_instruction_id'', JStr (str_or_else (ti_source_audio_instruction_id ins) []))] @
                     thread_entries thread turn);
                  job = \<lparr>tj_run_id = r_run_id r, tj_session_id = cx_session_id s1, tj_turn_id = turn,
                     tj_thread_id = cx_thread_id s1, tj_extra = extra,
                     tj_completed = ''Codex completed the direct instruction.''\<rparr>
              in (Inr (turn_event job EV_PROGRESS (Some ''Direct instruction sent to Codex.'') [source_codex], job),
                  s1, calls))))"

definition request_plan_mode :: "start_codex_turn_command \<Rightarrow> bool" where
  "request_plan_mode cmd \<longleftrightarrow>
     jget (st_metadata cmd) ''plan_mode'' = JBool True \<or> jget (ti_metadata (st_instruction cmd)) ''plan_mode'' = JBool True"

definition request_metadata :: "start_codex_turn_command \<Rightarrow> str \<Rightarrow> str \<Rightarrow> jdict" where
  "request_metadata cmd thread turn =
     (let ins = st_instruction cmd in
      dict_merge (dict_merge (st_metadata cmd) (ti_metadata ins))
        ([(''instruction_id'', JStr (ti_instruction_id ins)),
          (''source_audio_instruction_id'', JStr (str_or_else (ti_source_audio_instruction_id ins) [])),
          (''target_persona_id'', JStr (st_target_persona_id cmd)), (''target_thread_id'', JStr (st_target_thread_id cmd))] @
         thread_entries thread turn @ [source_codex] @ plan_entry (request_plan_mode cmd)))"

text \<open>A direct request. \<open>created\<close> is the session that was made for it, or why none was.\<close>

definition requested_turn ::
    "server \<Rightarrow> start_codex_turn_command \<Rightarrow> codex_session result \<Rightarrow> executor_event + (executor_event \<times> turn_job)" where
  "requested_turn ask cmd created =
     (let failed = failed_event (st_request_id cmd) (st_request_id cmd);
          ins = st_instruction cmd; text = py_strip (ti_text ins) in
      if st_create_new_thread cmd \<and> \<not> str_truthy (st_workspace_id cmd)
      then Inl (failed (RuntimeError ''Codex new-thread turn request requires workspace_id.'') [])
      else
        (case created of
           Inl e \<Rightarrow> Inl (failed e [])
         | Inr s \<Rightarrow>
             (case open_turn True ask (request_plan_mode cmd)
                     (if text = [] then Inl (RuntimeError ''Codex turn request instruction text is empty.'') else Inr text)
                     (case skill_from_metadata (st_metadata cmd) of
                        Some d \<Rightarrow> Some d | None \<Rightarrow> skill_from_metadata (ti_metadata ins))
                     (thread_for_turn_request ask cmd s) of
                (Inl e, s1, _) \<Rightarrow> Inl (failed e (stderr_text s1))
              | (Inr (thread, turn), s1, _) \<Rightarrow>
                  (let extra = request_metadata cmd thread turn in
                   Inr (\<lparr>ev_run_id = st_request_id cmd, ev_session_id = st_request_id cmd, ev_event_type = EV_PROGRESS,
                         ev_message = Some ''Direct instruction sent to Codex.'', ev_metadata = extra\<rparr>,
                        \<lparr>tj_run_id = st_request_id cmd, tj_session_id = cx_session_id s1, tj_turn_id = turn,
                         tj_thread_id = cx_thread_id s1, tj_extra = extra,
                         tj_completed = ''Codex completed the direct instruction.''\<rparr>)))))"

definition start_turn_request ::
    "(rat \<Rightarrow> str) \<Rightarrow> server \<Rightarrow> jdict option \<Rightarrow> start_codex_turn_command \<Rightarrow> codex_session result \<Rightarrow> jdict list \<Rightarrow> str list \<Rightarrow>
     executor_event list \<times> turn_end" where
  "start_turn_request fr ask final cmd created evs waits =
     (case requested_turn ask cmd created of
        Inl e \<Rightarrow> ([e], Ended [])
      | Inr (e, job) \<Rightarrow>
          (let (out, fin) = stream_turn_events fr job final evs waits turn_stream_init in (e # out, fin)))"

section \<open>Runs and subscriptions\<close>

definition on_session :: "nat \<Rightarrow> (codex_session \<Rightarrow> codex_session) \<Rightarrow> codex_executor \<Rightarrow> codex_executor" where
  "on_session ref f x =
     (case map_of (xd_sessions x) ref of
        Some s \<Rightarrow> x\<lparr>xd_sessions := dict_put ref (f s) (xd_sessions x)\<rparr> | None \<Rightarrow> x)"

text \<open>Closing a session that shares the app-server only ends its wait for the user.\<close>

definition close_session :: "nat \<Rightarrow> codex_executor \<Rightarrow> codex_executor" where
  "close_session ref = on_session ref (\<lambda>s. s\<lparr>cx_live := abort_blocked_wait (cx_live s)\<rparr>)"

definition activate_run :: "str \<Rightarrow> nat \<Rightarrow> codex_executor \<Rightarrow> codex_executor" where
  "activate_run run ref x = x\<lparr>xd_active_runs := dict_put run ref (xd_active_runs x)\<rparr>"

definition deactivate_run :: "str \<Rightarrow> codex_executor \<Rightarrow> codex_executor" where
  "deactivate_run run x = x\<lparr>xd_active_runs := dict_pop run (xd_active_runs x)\<rparr>"

definition codex_cancel_run :: "str \<Rightarrow> codex_executor \<Rightarrow> codex_executor" where
  "codex_cancel_run run x =
     (case map_of (xd_active_runs x) run of
        None \<Rightarrow> x
      | Some ref \<Rightarrow> close_session ref (deactivate_run run x))"

definition codex_pause_run :: "str \<Rightarrow> codex_executor \<Rightarrow> codex_executor" where
  "codex_pause_run run = codex_cancel_run run"

definition codex_session_of :: "str \<Rightarrow> str \<Rightarrow> codex_session" where
  "codex_session_of uid cwd =
     \<lparr>cx_session_id = ''codex-session-'' @ uid, cx_cwd = cwd, cx_live = \<lparr>cl_thread_id = None, cl_blocked = None\<rparr>,
      cx_metadata = [(''cwd'', JStr cwd)], cx_stderr = []\<rparr>"

definition subscribe_thread ::
    "server \<Rightarrow> str \<Rightarrow> codex_session \<Rightarrow> codex_executor \<Rightarrow> codex_session result \<times> codex_executor" where
  "subscribe_thread ask thread s x =
     (case ask (thread_resume_call thread) of
        Inl e \<Rightarrow> (Inl e, x)
      | Inr _ \<Rightarrow>
          (Inr (s\<lparr>cx_live := (cx_live s)\<lparr>cl_thread_id := Some thread\<rparr>,
                  cx_metadata := dict_put ''codex_thread_resumed'' (JBool True) (cx_metadata s)\<rparr>),
           subscribe_queue (cx_session_id s) thread x))"

definition unsubscribe_thread ::
    "server \<Rightarrow> codex_session \<Rightarrow> codex_executor \<Rightarrow> jdict result \<times> codex_executor \<times> rpc_call list" where
  "unsubscribe_thread ask s x =
     (if \<not> str_truthy (cx_thread_id s) then (Inr [(''status'', JStr ''notLoaded'')], x, [])
      else
        (let k = the (cx_thread_id s);
             x1 = x\<lparr>xd_subscriptions := dict_pop (cx_session_id s) (xd_subscriptions x)\<rparr>
         in if k \<in> set (map fst (dict_values (xd_subscriptions x1)))
            then (Inr [(''status'', JStr ''unsubscribed'')], x1, [])
            else (ask (thread_unsubscribe_call k), x1, [thread_unsubscribe_call k])))"

section \<open>Listing and reading threads\<close>

record codex_page =
  np_items :: "jdict list"
  np_goal :: "str option"
  np_next_cursor :: "str option"
  np_previous_cursor :: "str option"

definition page_limit :: int where "page_limit = 100"

definition page_of :: "str \<Rightarrow> str option \<Rightarrow> jdict result \<Rightarrow> codex_page result" where
  "page_of what goal response =
     (case response of
        Inl e \<Rightarrow> Inl e
      | Inr d \<Rightarrow>
          (case jget d ''data'' of
             JList items \<Rightarrow>
               Inr \<lparr>np_items = List.map_filter jobj items, np_goal = goal, np_next_cursor = jstr (jget d ''nextCursor''),
                    np_previous_cursor = jstr (jget d ''backwardsCursor'')\<rparr>
           | _ \<Rightarrow> Inl (RuntimeError (''Codex '' @ what @ '' returned an unsupported response shape.''))))"

definition list_threads_page :: "server \<Rightarrow> int \<Rightarrow> str option \<Rightarrow> codex_page result" where
  "list_threads_page ask limit cursor =
     page_of ''thread/list'' None (ask (thread_list_call cursor (Some limit) (Some ''updated_at'') (Some ''desc'')))"

definition list_threads :: "(rat \<Rightarrow> str) \<Rightarrow> server \<Rightarrow> jdict list result" where
  "list_threads fr ask =
     (case list_threads_page ask page_limit None of Inl e \<Rightarrow> Inl e | Inr p \<Rightarrow> Inr (sort_codex_threads fr (np_items p)))"

definition list_thread_turns_page :: "server \<Rightarrow> str \<Rightarrow> int \<Rightarrow> str option \<Rightarrow> codex_page result" where
  "list_thread_turns_page ask thread limit cursor =
     (case ask (thread_goal_get_call thread) of
        Inl e \<Rightarrow> Inl e
      | Inr goal \<Rightarrow>
          page_of ''thread/turns/list'' (extract_codex_goal goal)
            (ask (thread_turns_list_call thread cursor (Some limit) (Some ''desc'') (Some ''full''))))"

definition read_thread :: "server \<Rightarrow> str \<Rightarrow> jdict result" where
  "read_thread ask thread =
     (case ask (thread_read_call thread False) of
        Inl e \<Rightarrow> Inl e
      | Inr d \<Rightarrow>
          (case jget d ''thread'' of
             JObj th \<Rightarrow>
               (case list_thread_turns_page ask thread page_limit None of
                  Inl e \<Rightarrow> Inl e
                | Inr p \<Rightarrow>
                    (let th1 = dict_put ''turns'' (JList (map JObj (rev (np_items p)))) th
                     in Inr (case np_goal p of Some g \<Rightarrow> dict_put ''goal'' (JStr g) th1 | None \<Rightarrow> th1)))
           | _ \<Rightarrow> Inl (RuntimeError ''Codex thread/read returned an unsupported response shape.'')))"

end
