(* ===== verification/CodexTurns_Props.thy ===== *)
theory CodexTurns_Props
  imports CodexTurns
begin

text \<open>
  Properties of the Codex adapter: responses settle their requests (\<open>CodexServer\<close>), the events of the
  app-server reach the turn they are about, a turn ends once and with its last text, what blocks a turn
  can be answered, and a turn is started in its own thread (\<open>CodexReading\<close>, \<open>CodexTurns\<close>).
\<close>

section \<open>Requests and responses\<close>

datatype peer_step =
    Do_Request str jdict
  | Do_Notify str jdict
  | Do_Respond json jdict
  | Do_Abandon int
  | Do_Read "str option"
  | Do_Next

definition peer_next :: "(rat \<Rightarrow> str) \<Rightarrow> (str \<Rightarrow> json option) \<Rightarrow> peer_step \<Rightarrow> rpc_peer \<Rightarrow> rpc_peer" where
  "peer_next fr parse a p =
     (case a of
        Do_Request m ps \<Rightarrow> snd (rpc_request m ps p)
      | Do_Notify m ps \<Rightarrow> rpc_notify m ps p
      | Do_Respond i d \<Rightarrow> rpc_respond i d p
      | Do_Abandon i \<Rightarrow> rpc_abandon i p
      | Do_Read l \<Rightarrow> read_message fr parse l p
      | Do_Next \<Rightarrow> (case next_event p of Some (_, p') \<Rightarrow> p' | None \<Rightarrow> p))"

definition peer_run :: "(rat \<Rightarrow> str) \<Rightarrow> (str \<Rightarrow> json option) \<Rightarrow> peer_step list \<Rightarrow> rpc_peer \<Rightarrow> rpc_peer" where
  "peer_run fr parse = fold (peer_next fr parse)"

text \<open>The lines that answer the request \<open>i\<close>.\<close>

definition answers_request :: "(str \<Rightarrow> json option) \<Rightarrow> int \<Rightarrow> peer_step \<Rightarrow> jdict option" where
  "answers_request parse i a =
     (case a of
        Do_Read (Some l) \<Rightarrow>
          (case (if py_strip l = [] then None else parse (py_strip l)) of
             Some (JObj msg) \<Rightarrow> if is_response msg \<and> int_key (jget msg ''id'') = Some i then Some msg else None
           | _ \<Rightarrow> None)
      | _ \<Rightarrow> None)"

definition response_value :: "(rat \<Rightarrow> str) \<Rightarrow> jdict \<Rightarrow> rpc_future" where
  "response_value fr msg =
     (if jget msg ''error'' \<noteq> JNull then Fut_Failed (py_str fr (jget msg ''error'')) else Fut_Result (jget msg ''result''))"

definition peer_ok :: "rpc_peer \<Rightarrow> bool" where
  "peer_ok p \<longleftrightarrow>
     0 < jp_next_id p \<and>
     (\<forall>i v. map_of (jp_futures p) i = Some v \<longrightarrow> 0 < i \<and> i < int (jp_next_id p)) \<and>
     (\<forall>i. map_of (jp_futures p) i = Some Fut_Waiting \<longrightarrow> i \<in> set (jp_pending p))"

lemma peer_sends [simp]:
  "jp_futures (rpc_send d p) = jp_futures p" "jp_pending (rpc_send d p) = jp_pending p"
  "jp_next_id (rpc_send d p) = jp_next_id p" "jp_reading (rpc_send d p) = jp_reading p"
  by (simp_all add: rpc_send_def)

lemma settle_future_reads [simp]:
  "map_of (jp_futures (settle_future i v p)) j =
     (if j = i \<and> map_of (jp_futures p) i = Some Fut_Waiting then Some v else map_of (jp_futures p) j)"
  "jp_pending (settle_future i v p) = jp_pending p" "jp_next_id (settle_future i v p) = jp_next_id p"
  "jp_reading (settle_future i v p) = jp_reading p"
  by (simp_all add: settle_future_def)

lemma settle_all_reads:
  assumes "v \<noteq> Fut_Waiting"
  shows "map_of (jp_futures (fold (\<lambda>i. settle_future i v) is p)) j =
     (if j \<in> set is \<and> map_of (jp_futures p) j = Some Fut_Waiting then Some v else map_of (jp_futures p) j)"
    and "jp_next_id (fold (\<lambda>i. settle_future i v) is p) = jp_next_id p"
  using assms by (induction "is" arbitrary: p) auto

lemma end_reading_reads [simp]:
  "map_of (jp_futures (end_reading p)) j =
     (if j \<in> set (jp_pending p) \<and> map_of (jp_futures p) j = Some Fut_Waiting then Some (Fut_Failed closed_message)
      else map_of (jp_futures p) j)"
  "jp_pending (end_reading p) = []" "jp_next_id (end_reading p) = jp_next_id p" "\<not> jp_reading (end_reading p)"
  by (simp_all add: end_reading_def settle_all_reads)

lemma handle_response_reads:
  "map_of (jp_futures (handle_response fr msg p)) j =
     (if int_key (jget msg ''id'') = Some j \<and> j \<in> set (jp_pending p) \<and> map_of (jp_futures p) j = Some Fut_Waiting
      then Some (response_value fr msg) else map_of (jp_futures p) j)"
  "set (jp_pending (handle_response fr msg p)) = set (jp_pending p) - {i. int_key (jget msg ''id'') = Some i}"
  "jp_next_id (handle_response fr msg p) = jp_next_id p"
  by (auto simp: handle_response_def response_value_def split: option.splits)

lemma response_value_done [simp]: "response_value fr msg \<noteq> Fut_Waiting"
  by (simp add: response_value_def)

definition ends_reading :: "(str \<Rightarrow> json option) \<Rightarrow> peer_step \<Rightarrow> bool" where
  "ends_reading parse a \<longleftrightarrow>
     (case a of
        Do_Read None \<Rightarrow> True
      | Do_Read (Some l) \<Rightarrow> py_strip l \<noteq> [] \<and> parse (py_strip l) = None
      | _ \<Rightarrow> False)"

lemma peer_step_reading: "jp_reading (peer_next fr parse a p) = (jp_reading p \<and> \<not> ends_reading parse a)"
  by (cases a)
    (auto simp: peer_next_def rpc_request_def rpc_notify_def rpc_respond_def rpc_abandon_def read_message_def next_event_def
      ends_reading_def handle_response_def settle_future_def Let_def split: option.splits list.splits json.splits)

text \<open>What one step does to the futures.\<close>

lemma read_message_futures:
  assumes "peer_ok p"
  shows "map_of (jp_futures (read_message fr parse l p)) i =
     (if map_of (jp_futures p) i = Some Fut_Waiting \<and> jp_reading p then
        if ends_reading parse (Do_Read l) then Some (Fut_Failed closed_message)
        else case answers_request parse i (Do_Read l) of Some msg \<Rightarrow> Some (response_value fr msg) | None \<Rightarrow> Some Fut_Waiting
      else map_of (jp_futures p) i)"
  using assms
  by (auto simp: read_message_def ends_reading_def answers_request_def peer_ok_def handle_response_reads
      split: option.splits json.splits)

lemma read_message_ok:
  assumes "peer_ok p"
  shows "peer_ok (read_message fr parse l p)"
proof -
  have "jp_next_id (read_message fr parse l p) = jp_next_id p"
    by (auto simp: read_message_def handle_response_reads split: option.splits json.splits)
  moreover have "i \<in> set (jp_pending (read_message fr parse l p))"
    if "map_of (jp_futures (read_message fr parse l p)) i = Some Fut_Waiting" for i
    using that assms
    by (auto simp: read_message_def peer_ok_def handle_response_reads split: option.splits json.splits if_splits)
  moreover have "0 < i \<and> i < int (jp_next_id p)" if "map_of (jp_futures (read_message fr parse l p)) i = Some v" for i v
    using that assms
    by (auto simp: read_message_futures [OF assms] peer_ok_def split: if_splits option.splits)
  ultimately show ?thesis using assms by (simp add: peer_ok_def)
qed

lemma peer_ok_same:
  "\<lbrakk>peer_ok p; jp_futures p' = jp_futures p; jp_pending p' = jp_pending p; jp_next_id p' = jp_next_id p\<rbrakk> \<Longrightarrow> peer_ok p'"
  by (simp add: peer_ok_def)

lemma peer_ok_request:
  assumes "peer_ok p"
  shows "peer_ok (snd (rpc_request m ps p))"
  unfolding peer_ok_def
proof (intro conjI allI impI)
  show "0 < jp_next_id (snd (rpc_request m ps p))" by (simp add: rpc_request_def Let_def)
next
  fix i v assume "map_of (jp_futures (snd (rpc_request m ps p))) i = Some v"
  then have "i = int (jp_next_id p) \<and> 0 < jp_next_id p \<or> map_of (jp_futures p) i = Some v"
    using assms by (auto simp: rpc_request_def Let_def peer_ok_def split: if_splits)
  then show "0 < i" "i < int (jp_next_id (snd (rpc_request m ps p)))"
    using assms by (auto simp: rpc_request_def Let_def peer_ok_def dest: spec)
next
  fix i assume "map_of (jp_futures (snd (rpc_request m ps p))) i = Some Fut_Waiting"
  then show "i \<in> set (jp_pending (snd (rpc_request m ps p)))"
    using assms by (auto simp: rpc_request_def Let_def peer_ok_def split: if_splits)
qed

lemma peer_next_ok:
  assumes "peer_ok p"
  shows "peer_ok (peer_next fr parse a p)"
proof (cases a)
  case (Do_Request m ps)
  then show ?thesis using peer_ok_request [OF assms] by (simp add: peer_next_def)
next
  case (Do_Abandon i)
  then show ?thesis using assms by (auto simp: peer_next_def rpc_abandon_def peer_ok_def)
next
  case (Do_Read l)
  then show ?thesis using read_message_ok [OF assms] by (simp add: peer_next_def)
next
  case Do_Next
  then show ?thesis
    using assms by (auto simp: peer_next_def next_event_def intro: peer_ok_same split: list.splits)
qed (use assms in \<open>auto simp: peer_next_def rpc_notify_def rpc_respond_def intro: peer_ok_same\<close>)

lemma peer_run_ok: "peer_ok p \<Longrightarrow> peer_ok (peer_run fr parse ops p)"
  by (induction ops arbitrary: p) (simp_all add: peer_run_def peer_next_ok)

lemma peer_init_ok: "peer_ok rpc_init"
  by (simp add: peer_ok_def rpc_init_def)

text \<open>What becomes of a request: the first step that settles it.\<close>

fun first_outcome ::
    "(rat \<Rightarrow> str) \<Rightarrow> (str \<Rightarrow> json option) \<Rightarrow> int \<Rightarrow> bool \<Rightarrow> peer_step list \<Rightarrow> rpc_future" where
  "first_outcome fr parse i reading [] = Fut_Waiting"
| "first_outcome fr parse i reading (a # ops) =
     (if a = Do_Abandon i then Fut_Cancelled
      else if \<not> reading then first_outcome fr parse i False ops
      else if ends_reading parse a then Fut_Failed closed_message
      else (case answers_request parse i a of
              Some msg \<Rightarrow> response_value fr msg
            | None \<Rightarrow> first_outcome fr parse i True ops))"

lemma peer_next_future:
  assumes ok: "peer_ok p" and i: "map_of (jp_futures p) i = Some v"
  shows "map_of (jp_futures (peer_next fr parse a p)) i =
     Some (if v \<noteq> Fut_Waiting then v
           else if a = Do_Abandon i then Fut_Cancelled
           else if \<not> jp_reading p then Fut_Waiting
           else if ends_reading parse a then Fut_Failed closed_message
           else case answers_request parse i a of Some msg \<Rightarrow> response_value fr msg | None \<Rightarrow> Fut_Waiting)"
proof (cases a)
  case (Do_Read l)
  then show ?thesis
    using i by (auto simp: peer_next_def read_message_futures [OF ok] split: option.splits)
next
  case (Do_Request m ps)
  then show ?thesis
    using i ok by (auto simp: peer_next_def rpc_request_def Let_def peer_ok_def ends_reading_def answers_request_def)
qed (use i in \<open>auto simp: peer_next_def rpc_notify_def rpc_respond_def rpc_abandon_def next_event_def ends_reading_def
      answers_request_def split: list.splits\<close>)

lemma peer_run_future:
  assumes "peer_ok p" and "map_of (jp_futures p) i = Some v"
  shows "map_of (jp_futures (peer_run fr parse ops p)) i =
     Some (if v = Fut_Waiting then first_outcome fr parse i (jp_reading p) ops else v)"
  using assms
proof (induction ops arbitrary: p v)
  case Nil
  then show ?case by (simp add: peer_run_def)
next
  case (Cons a ops)
  have run: "peer_run fr parse (a # ops) p = peer_run fr parse ops (peer_next fr parse a p)"
    by (simp add: peer_run_def)
  note IH = Cons.IH [OF peer_next_ok [OF Cons.prems(1)] peer_next_future [OF Cons.prems], of fr parse a]
  show ?case
    unfolding run IH by (auto simp: peer_step_reading split: option.splits)
qed

text \<open>C32: A request to the app-server gets an id of its own, and its future has the outcome of the first step
  that settles it: the response that carries the id, the end of the connection, or that the caller
  gives up. What comes later, another response with the same id included, changes nothing.\<close>

theorem response_settles_its_request:
  assumes "peer_run fr parse before rpc_init = p" and "rpc_request method params p = (i, p1)"
  shows "map_of (jp_futures p) i = None \<and>
    map_of (jp_futures (peer_run fr parse after p1)) i = Some (first_outcome fr parse i (jp_reading p) after)"
proof -
  have ok: "peer_ok p" using assms(1) peer_run_ok [OF peer_init_ok] by blast
  have p1: "p1 = peer_next fr parse (Do_Request method params) p" "i = int (jp_next_id p)"
    using assms(2) by (auto simp: peer_next_def rpc_request_def Let_def)
  have fresh: "map_of (jp_futures p) i = None"
    using ok p1(2) by (cases "map_of (jp_futures p) i") (auto simp: peer_ok_def)
  have "map_of (jp_futures p1) i = Some Fut_Waiting" "jp_reading p1 = jp_reading p"
    using assms(2) by (auto simp: rpc_request_def Let_def)
  then show ?thesis
    using fresh peer_run_future [of p1 i Fut_Waiting] peer_next_ok [OF ok] p1(1) by auto
qed

definition toy_parse :: "str \<Rightarrow> json option" where
  "toy_parse l =
     (if l = ''answer'' then Some (JObj [(''id'', JInt 1), (''result'', JStr ''pong'')])
      else if l = ''again'' then Some (JObj [(''id'', JInt 1), (''result'', JStr ''late'')]) else None)"

theorem response_settles_its_request_witness:
  "map_of (jp_futures (peer_run (\<lambda>_. []) toy_parse [Do_Read (Some ''answer''), Do_Read (Some ''again''), Do_Read None]
     (snd (rpc_request ''ping'' [] rpc_init)))) 1 = Some (Fut_Result (JStr ''pong''))"
proof -
  have req: "peer_run (\<lambda>_. []) toy_parse [] rpc_init = rpc_init"
    "rpc_request ''ping'' [] rpc_init = (1, snd (rpc_request ''ping'' [] rpc_init))"
    by (simp_all add: peer_run_def rpc_request_def rpc_init_def Let_def)
  have "first_outcome (\<lambda>_. []) toy_parse 1 (jp_reading rpc_init)
      [Do_Read (Some ''answer''), Do_Read (Some ''again''), Do_Read None] = Fut_Result (JStr ''pong'')"
    by code_simp
  then show ?thesis
    using response_settles_its_request [OF req, of "[Do_Read (Some ''answer''), Do_Read (Some ''again''), Do_Read None]"] by simp
qed


section \<open>Events reach their turn\<close>

datatype router_op =
    Op_Event jdict
  | Op_Register str
  | Op_Unregister str nat
  | Op_Take nat
  | Op_Subscribe str str
  | Op_Unsubscribe codex_session
  | Op_Close

definition router_next :: "router_op \<Rightarrow> codex_executor \<Rightarrow> codex_executor" where
  "router_next a x =
     (case a of
        Op_Event ev \<Rightarrow> route_app_event ev x
      | Op_Register t \<Rightarrow> snd (register_turn_queue t x)
      | Op_Unregister t q \<Rightarrow> unregister_turn_queue t q x
      | Op_Take q \<Rightarrow> snd (take_event q x)
      | Op_Subscribe session thread \<Rightarrow> subscribe_queue session thread x
      | Op_Unsubscribe s \<Rightarrow> fst (snd (unsubscribe_thread (\<lambda>_. Inr []) s x))
      | Op_Close \<Rightarrow> close_app_session x)"

definition router_run :: "router_op list \<Rightarrow> codex_executor \<Rightarrow> codex_executor" where
  "router_run = fold router_next"

text \<open>What a reader of the queue \<open>q\<close> got, and what the app-server said about the turn \<open>t\<close>.\<close>

definition taken_by :: "nat \<Rightarrow> router_op \<Rightarrow> codex_executor \<Rightarrow> jdict list" where
  "taken_by q a x = (if a = Op_Take q then (case fst (take_event q x) of Some ev \<Rightarrow> [ev] | None \<Rightarrow> []) else [])"

fun taken :: "nat \<Rightarrow> router_op list \<Rightarrow> codex_executor \<Rightarrow> jdict list" where
  "taken q [] x = []"
| "taken q (a # ops) x = taken_by q a x @ taken q ops (router_next a x)"

definition event_for :: "str \<Rightarrow> router_op \<Rightarrow> jdict option" where
  "event_for t a = (case a of Op_Event ev \<Rightarrow> if event_turn_id (event_params ev) = Some t then Some ev else None | _ \<Rightarrow> None)"

definition events_for :: "str \<Rightarrow> router_op list \<Rightarrow> jdict list" where
  "events_for t = List.map_filter (event_for t)"

text \<open>What is kept of a turn that nobody reads yet: the last hundred events since the app-server was opened.\<close>

fun unread_for :: "str \<Rightarrow> jdict list \<Rightarrow> router_op list \<Rightarrow> jdict list" where
  "unread_for t evs [] = evs"
| "unread_for t evs (a # ops) =
     unread_for t (if a = Op_Close then [] else (case event_for t a of Some ev \<Rightarrow> last_of backlog_limit (evs @ [ev]) | None \<Rightarrow> evs)) ops"

lemma values_put_mem: "set (dict_values (dict_put k v d)) \<subseteq> insert v (set (dict_values d))"
  unfolding dict_put_def dict_values_def by (induction d) auto

lemma values_pop_mem: "set (dict_values (dict_pop k d)) \<subseteq> set (dict_values d)"
  unfolding dict_pop_def dict_values_def by (induction d) auto

lemma values_map_of: "map_of d k = Some v \<Longrightarrow> v \<in> set (dict_values d)"
  unfolding dict_values_def by (auto dest!: map_of_SomeD intro: rev_image_eqI)

lemma dd_get_dict_put [simp]: "dd_get (dict_put k v d) k' = (if k' = k then v else dd_get d k')"
  by (simp add: dd_get_def)

lemma dd_get_dict_pop [simp]: "dd_get (dict_pop k d) k' = (if k' = k then [] else dd_get d k')"
  by (simp add: dd_get_def)

lemma put_event_reads [simp]:
  "xd_turn_queues (put_event q ev x) = xd_turn_queues x" "xd_backlog (put_event q ev x) = xd_backlog x"
  "xd_subscriptions (put_event q ev x) = xd_subscriptions x" "xd_next (put_event q ev x) = xd_next x"
  "dd_get (xd_queues (put_event q ev x)) r = (if r = q then dd_get (xd_queues x) q @ [ev] else dd_get (xd_queues x) r)"
  by (simp_all add: put_event_def)

lemma put_events_reads:
  fixes vs :: "(str \<times> nat) list" and k :: str and ev :: jdict
  defines "put \<equiv> fold (\<lambda>(thread, q). if thread = k then put_event q ev else id) vs"
  shows "xd_turn_queues (put x) = xd_turn_queues x" "xd_backlog (put x) = xd_backlog x"
    "xd_subscriptions (put x) = xd_subscriptions x" "xd_next (put x) = xd_next x"
    "q \<notin> snd ` set vs \<Longrightarrow> dd_get (xd_queues (put x)) q = dd_get (xd_queues x) q"
  unfolding put_def by (induction vs arbitrary: x) (auto split: prod.splits)

lemma route_to_threads_reads [simp]:
  "xd_turn_queues (route_to_threads ev x) = xd_turn_queues x" "xd_backlog (route_to_threads ev x) = xd_backlog x"
  "xd_subscriptions (route_to_threads ev x) = xd_subscriptions x" "xd_next (route_to_threads ev x) = xd_next x"
  "q \<notin> snd ` set (dict_values (xd_subscriptions x)) \<Longrightarrow>
   dd_get (xd_queues (route_to_threads ev x)) q = dd_get (xd_queues x) q"
  by (simp_all add: route_to_threads_def put_events_reads split: option.splits)

lemma route_to_turn_reads [simp]:
  "xd_turn_queues (route_to_turn ev x) = xd_turn_queues x"
  "xd_subscriptions (route_to_turn ev x) = xd_subscriptions x" "xd_next (route_to_turn ev x) = xd_next x"
  by (simp_all add: route_to_turn_def split: option.splits)

lemma unsubscribe_reads [simp]:
  "xd_turn_queues (fst (snd (unsubscribe_thread ask s x))) = xd_turn_queues x"
  "xd_backlog (fst (snd (unsubscribe_thread ask s x))) = xd_backlog x"
  "xd_queues (fst (snd (unsubscribe_thread ask s x))) = xd_queues x"
  "xd_next (fst (snd (unsubscribe_thread ask s x))) = xd_next x"
  by (simp_all add: unsubscribe_thread_def Let_def)

lemma unsubscribe_subscriptions:
  "set (dict_values (xd_subscriptions (fst (snd (unsubscribe_thread ask s x))))) \<subseteq> set (dict_values (xd_subscriptions x))"
  using values_pop_mem [of "cx_session_id s" "xd_subscriptions x"] by (simp add: unsubscribe_thread_def Let_def)

text \<open>A new queue is nobody else's.\<close>

definition queues_fresh :: "codex_executor \<Rightarrow> bool" where
  "queues_fresh x \<longleftrightarrow>
     set (dict_values (xd_turn_queues x)) \<union> snd ` set (dict_values (xd_subscriptions x)) \<subseteq> {..<xd_next x}"

lemma queues_fresh_next:
  assumes "queues_fresh x"
  shows "queues_fresh (router_next a x)"
proof (cases a)
  case (Op_Register t)
  then show ?thesis
    using assms values_put_mem [of t "xd_next x" "xd_turn_queues x"]
    by (auto simp: queues_fresh_def router_next_def register_turn_queue_def Let_def subset_iff less_Suc_eq)
next
  case (Op_Subscribe session thread)
  then show ?thesis
    using assms values_put_mem [of session "(thread, xd_next x)" "xd_subscriptions x"]
    by (fastforce simp: queues_fresh_def router_next_def subscribe_queue_def Let_def subset_iff less_Suc_eq)
next
  case (Op_Unregister t q)
  then show ?thesis
    using assms values_pop_mem [of t "xd_turn_queues x"]
    by (auto simp: queues_fresh_def router_next_def unregister_turn_queue_def)
next
  case (Op_Unsubscribe s)
  then show ?thesis
    using assms unsubscribe_subscriptions [of "\<lambda>_. Inr []" s x]
    by (force simp: queues_fresh_def router_next_def)
qed (use assms in \<open>auto simp: queues_fresh_def router_next_def route_app_event_def take_event_def close_app_session_def
      dict_values_def split: list.splits\<close>)

lemma queues_fresh_run: "queues_fresh x \<Longrightarrow> queues_fresh (router_run ops x)"
  by (induction ops arbitrary: x) (simp_all add: router_run_def queues_fresh_next)

lemma queues_fresh_init: "queues_fresh codex_executor_init"
  by (simp add: queues_fresh_def codex_executor_init_def dict_values_def)

text \<open>The backlog of a turn that is not registered.\<close>

lemma backlog_step:
  assumes "map_of (xd_turn_queues x) t = None" and "a \<noteq> Op_Register t"
  shows "map_of (xd_turn_queues (router_next a x)) t = None \<and>
    dd_get (xd_backlog (router_next a x)) t =
      (if a = Op_Close then []
       else case event_for t a of
              Some ev \<Rightarrow> last_of backlog_limit (dd_get (xd_backlog x) t @ [ev]) | None \<Rightarrow> dd_get (xd_backlog x) t)"
proof (cases a)
  case (Op_Event ev)
  then show ?thesis
    using assms by (auto simp: router_next_def route_app_event_def route_to_turn_def event_for_def split: option.splits)
qed (use assms in \<open>auto simp: router_next_def register_turn_queue_def unregister_turn_queue_def take_event_def
      subscribe_queue_def close_app_session_def event_for_def Let_def split: list.splits\<close>)

lemma backlog_run:
  assumes "map_of (xd_turn_queues x) t = None" and "Op_Register t \<notin> set ops"
  shows "map_of (xd_turn_queues (router_run ops x)) t = None \<and>
    dd_get (xd_backlog (router_run ops x)) t = unread_for t (dd_get (xd_backlog x) t) ops"
  using assms
proof (induction ops arbitrary: x)
  case Nil
  then show ?case by (simp add: router_run_def)
next
  case (Cons a ops)
  have a: "a \<noteq> Op_Register t" using Cons.prems(2) by auto
  note step = backlog_step [OF Cons.prems(1) a]
  show ?case
    using Cons.IH [OF conjunct1 [OF step]] Cons.prems(2) by (simp add: router_run_def step)
qed

text \<open>The queue of a registered turn.\<close>

definition owns_queue :: "str \<Rightarrow> nat \<Rightarrow> codex_executor \<Rightarrow> bool" where
  "owns_queue t q x \<longleftrightarrow>
     map_of (xd_turn_queues x) t = Some q \<and> (\<forall>t'. t' \<noteq> t \<longrightarrow> map_of (xd_turn_queues x) t' \<noteq> Some q) \<and>
     q \<notin> snd ` set (dict_values (xd_subscriptions x)) \<and> q < xd_next x"

definition leaves_queue :: "str \<Rightarrow> nat \<Rightarrow> router_op \<Rightarrow> bool" where
  "leaves_queue t q a \<longleftrightarrow> a \<noteq> Op_Register t \<and> a \<noteq> Op_Unregister t q \<and> a \<noteq> Op_Close"

lemma owns_queue_register:
  assumes "queues_fresh x"
  shows "owns_queue t (xd_next x) (snd (register_turn_queue t x))"
proof -
  have "map_of (xd_turn_queues x) t' \<noteq> Some (xd_next x)" for t'
    using assms values_map_of [of "xd_turn_queues x" t'] by (auto simp: queues_fresh_def)
  moreover have "xd_next x \<notin> snd ` set (dict_values (xd_subscriptions x))"
    using assms by (force simp: queues_fresh_def)
  ultimately show ?thesis by (simp add: owns_queue_def register_turn_queue_def Let_def)
qed

lemma owns_queueI:
  assumes "owns_queue t q x" and "xd_next x \<le> xd_next x'"
    and "\<And>t'. map_of (xd_turn_queues x') t' = map_of (xd_turn_queues x) t' \<or>
           t' \<noteq> t \<and> map_of (xd_turn_queues x') t' \<noteq> Some q"
    and "set (dict_values (xd_subscriptions x')) \<subseteq> insert (thread, xd_next x) (set (dict_values (xd_subscriptions x)))"
  shows "owns_queue t q x'"
proof -
  have "map_of (xd_turn_queues x') t = Some q" using assms(1) assms(3) [of t] by (simp add: owns_queue_def)
  moreover have "map_of (xd_turn_queues x') t' \<noteq> Some q" if "t' \<noteq> t" for t'
    using assms(1) assms(3) [of t'] that by (auto simp: owns_queue_def)
  moreover have "q \<notin> snd ` set (dict_values (xd_subscriptions x'))"
  proof -
    have "q \<notin> insert (xd_next x) (snd ` set (dict_values (xd_subscriptions x)))" using assms(1) by (simp add: owns_queue_def)
    then show ?thesis using image_mono [OF assms(4), of snd] by auto
  qed
  ultimately show ?thesis using assms(1,2) by (simp add: owns_queue_def)
qed

lemma owns_queue_next:
  assumes "owns_queue t q x" and "leaves_queue t q a"
  shows "owns_queue t q (router_next a x)"
proof (cases a)
  case (Op_Event ev)
  show ?thesis by (rule owns_queueI [OF assms(1)]) (auto simp: Op_Event router_next_def route_app_event_def)
next
  case (Op_Register r)
  show ?thesis
    by (rule owns_queueI [OF assms(1)])
      (use assms in \<open>auto simp: Op_Register router_next_def register_turn_queue_def Let_def leaves_queue_def owns_queue_def\<close>)
next
  case (Op_Unregister r p)
  show ?thesis
    by (rule owns_queueI [OF assms(1)])
      (use assms in \<open>auto simp: Op_Unregister router_next_def unregister_turn_queue_def leaves_queue_def owns_queue_def\<close>)
next
  case (Op_Take r)
  show ?thesis
    by (rule owns_queueI [OF assms(1)]) (auto simp: Op_Take router_next_def take_event_def split: list.splits)
next
  case (Op_Subscribe session thread)
  show ?thesis
    by (rule owns_queueI [OF assms(1), of _ thread])
      (use values_put_mem [of session "(thread, xd_next x)" "xd_subscriptions x"] in
        \<open>auto simp: Op_Subscribe router_next_def subscribe_queue_def Let_def\<close>)
next
  case (Op_Unsubscribe s)
  show ?thesis
    by (rule owns_queueI [OF assms(1)])
      (use unsubscribe_subscriptions [of "\<lambda>_. Inr []" s x] in \<open>auto simp: Op_Unsubscribe router_next_def\<close>)
next
  case Op_Close
  then show ?thesis using assms(2) by (simp add: leaves_queue_def)
qed

lemma queue_step:
  assumes "owns_queue t q x" and "leaves_queue t q a"
  shows "taken_by q a x @ dd_get (xd_queues (router_next a x)) q =
    dd_get (xd_queues x) q @ (case event_for t a of Some ev \<Rightarrow> [ev] | None \<Rightarrow> [])"
proof (cases a)
  case (Op_Event ev)
  have "dd_get (xd_queues (route_app_event ev x)) q = dd_get (xd_queues (route_to_turn ev x)) q"
    using assms(1) by (simp add: route_app_event_def owns_queue_def)
  then show ?thesis
    using assms(1) Op_Event
    by (auto simp: taken_by_def router_next_def route_to_turn_def owns_queue_def event_for_def split: option.splits)
next
  case (Op_Take r)
  then show ?thesis
    by (auto simp: taken_by_def router_next_def take_event_def event_for_def split: list.splits)
qed (use assms in \<open>auto simp: taken_by_def owns_queue_def leaves_queue_def router_next_def register_turn_queue_def
      unregister_turn_queue_def subscribe_queue_def event_for_def Let_def\<close>)

lemma queue_run:
  assumes "owns_queue t q x" and "\<forall>a \<in> set ops. leaves_queue t q a"
  shows "taken q ops x @ dd_get (xd_queues (router_run ops x)) q = dd_get (xd_queues x) q @ events_for t ops"
  using assms
proof (induction ops arbitrary: x)
  case Nil
  then show ?case by (simp add: router_run_def events_for_def map_filter_simps)
next
  case (Cons a ops)
  have a: "leaves_queue t q a" and ops: "\<forall>a \<in> set ops. leaves_queue t q a" using Cons.prems(2) by simp_all
  have "taken q (a # ops) x @ dd_get (xd_queues (router_run (a # ops) x)) q =
      taken_by q a x @ dd_get (xd_queues (router_next a x)) q @ events_for t ops"
    using Cons.IH [OF owns_queue_next [OF Cons.prems(1) a] ops] by (simp add: router_run_def)
  also have "\<dots> = dd_get (xd_queues x) q @ events_for t (a # ops)"
    using queue_step [OF Cons.prems(1) a]
    by (simp add: events_for_def map_filter_simps flip: append_assoc split: option.splits)
  finally show ?case .
qed

text \<open>C27: The reader of a turn misses nothing and sees nothing else: what it takes from the queue of the turn,
  and what is left there, are the last hundred events of the turn that came before it was registered
  and every event of the turn after that, in their order; whatever other turns, threads and subscriptions
  do meanwhile.\<close>

theorem turn_reader_sees_its_events:
  assumes "router_run before codex_executor_init = x" and "register_turn_queue t x = (q, x1)"
    and "Op_Register t \<notin> set before"
    and "\<forall>a \<in> set after. leaves_queue t q a"
  shows "taken q after x1 @ dd_get (xd_queues (router_run after x1)) q =
    unread_for t [] before @ events_for t after"
proof -
  have q: "q = xd_next x" "x1 = snd (register_turn_queue t x)"
    using assms(2) by (auto simp: register_turn_queue_def Let_def)
  have "queues_fresh x" using assms(1) queues_fresh_run [OF queues_fresh_init] by blast
  then have own: "owns_queue t q x1" using owns_queue_register q by simp
  have "map_of (xd_turn_queues codex_executor_init) t = None" by (simp add: codex_executor_init_def)
  from backlog_run [OF this assms(3)] have "dd_get (xd_backlog x) t = unread_for t [] before"
    using assms(1) by (simp add: codex_executor_init_def)
  then have "dd_get (xd_queues x1) q = unread_for t [] before"
    using assms(2) by (auto simp: register_turn_queue_def Let_def)
  then show ?thesis using queue_run [OF own assms(4)] by simp
qed

definition codex_event :: "str \<Rightarrow> str \<Rightarrow> jdict" where
  "codex_event method turn = [(''method'', JStr method), (''params'', JObj [(''turnId'', JStr turn)])]"

theorem turn_reader_sees_its_events_witness:
  "taken 0 [Op_Take 0, Op_Event (codex_event ''late'' ''b''), Op_Event (codex_event ''done'' ''a''), Op_Take 0, Op_Take 0]
     (snd (register_turn_queue ''a'' (router_run [Op_Event (codex_event ''early'' ''a''), Op_Event (codex_event ''early'' ''b'')]
        codex_executor_init))) =
   [codex_event ''early'' ''a'', codex_event ''done'' ''a'']"
proof -
  let ?before = "[Op_Event (codex_event ''early'' ''a''), Op_Event (codex_event ''early'' ''b'')]"
  let ?after = "[Op_Take 0, Op_Event (codex_event ''late'' ''b''), Op_Event (codex_event ''done'' ''a''), Op_Take 0, Op_Take 0]"
  let ?x = "router_run ?before codex_executor_init"
  let ?x1 = "snd (register_turn_queue ''a'' ?x)"
  have reg: "register_turn_queue ''a'' ?x = (0, ?x1)" by code_simp
  have left: "dd_get (xd_queues (router_run ?after ?x1)) 0 = []" by code_simp
  have "\<forall>a \<in> set ?after. leaves_queue ''a'' 0 a" "Op_Register ''a'' \<notin> set ?before"
    by (simp_all add: leaves_queue_def)
  from turn_reader_sees_its_events [OF refl reg this(2) this(1)] left
  have "taken 0 ?after ?x1 = unread_for ''a'' [] ?before @ events_for ''a'' ?after" by simp
  also have "\<dots> = [codex_event ''early'' ''a'', codex_event ''done'' ''a'']" by code_simp
  finally show ?thesis .
qed


section \<open>A turn ends once\<close>

definition settles_turn :: "executor_event \<Rightarrow> bool" where
  "settles_turn e \<longleftrightarrow> ev_event_type e \<in> {EV_COMPLETED, EV_FAILED}"

text \<open>The app-server says that the turn of the job is over.\<close>

definition ends_turn :: "(rat \<Rightarrow> str) \<Rightarrow> turn_job \<Rightarrow> jdict \<Rightarrow> bool" where
  "ends_turn fr job ev \<longleftrightarrow>
     (case jget ev ''params'' of
        JObj params \<Rightarrow>
          event_method fr ev = ''turn/completed'' \<and>
          (case jget params ''turn'' of JObj t \<Rightarrow> jget t ''id'' = JStr (tj_turn_id job) | _ \<Rightarrow> True)
      | _ \<Rightarrow> False)"

text \<open>The assistant text of an item that was started or is complete.\<close>

definition said_text :: "(rat \<Rightarrow> str) \<Rightarrow> jdict \<Rightarrow> str option" where
  "said_text fr ev =
     (case jget ev ''params'' of
        JObj params \<Rightarrow>
          (case jget params ''item'' of
             JObj item \<Rightarrow>
               if event_method fr ev \<in> {''item/started'', ''item/completed''} \<and>
                  jget item ''type'' \<in> {JStr ''assistantMessage'', JStr ''agentMessage''}
               then extract_item_text item else None
           | _ \<Rightarrow> None)
      | _ \<Rightarrow> None)"

definition later_text :: "(rat \<Rightarrow> str) \<Rightarrow> jdict \<Rightarrow> str option \<Rightarrow> str option" where
  "later_text fr ev m = (case said_text fr ev of Some s \<Rightarrow> Some s | None \<Rightarrow> m)"

lemma turn_event_type [simp]: "ev_event_type (turn_event job ty m extra) = ty" "ev_message (turn_event job ty m extra) = m"
  by (simp_all add: turn_event_def)

lemma settles_simps [simp]:
  "settles_turn (turn_event job ty m extra) = (ty \<in> {EV_COMPLETED, EV_FAILED})"
  "settles_turn (plan_event job item plan src) = False" "settles_turn (plan_proposed job plan) = False"
  "settles_turn (e\<lparr>ev_metadata := d\<rparr>) = settles_turn e"
  by (simp_all add: settles_turn_def plan_event_def plan_proposed_def)

lemma plan_delta_reads:
  "\<forall>e \<in> set (fst (plan_delta job params st)). \<not> settles_turn e"
  "tw_last_message (snd (plan_delta job params st)) = tw_last_message st"
  by (simp_all add: plan_delta_def Let_def split: option.splits)

lemma message_delta_reads:
  "\<forall>e \<in> set (fst (message_delta job params st)). \<not> settles_turn e"
  "tw_last_message (snd (message_delta job params st)) = tw_last_message st"
  by (simp_all add: message_delta_def Let_def split: option.splits)

lemma assistant_item_reads:
  "\<forall>e \<in> set (fst (assistant_item job item st)). \<not> settles_turn e"
  "tw_last_message (snd (assistant_item job item st)) =
     (case extract_item_text item of Some s \<Rightarrow> Some s | None \<Rightarrow> tw_last_message st)"
  by (simp_all add: assistant_item_def Let_def split: option.splits)

text \<open>What one event of the app-server does to the turn.\<close>

definition step_ok :: "(rat \<Rightarrow> str) \<Rightarrow> turn_job \<Rightarrow> jdict option \<Rightarrow> jdict \<Rightarrow> turn_stream \<Rightarrow> executor_event list \<times> turn_next \<Rightarrow> bool" where
  "step_ok fr job final ev st r \<longleftrightarrow>
     (case r of
        (out, Read_On st1) \<Rightarrow>
          \<not> ends_turn fr job ev \<and> (\<forall>e \<in> set out. \<not> settles_turn e) \<and> tw_last_message st1 = later_text fr ev (tw_last_message st)
      | (out, Await_User st1) \<Rightarrow>
          \<not> ends_turn fr job ev \<and> (\<exists>e. out = [e] \<and> ev_event_type e = EV_BLOCKED) \<and>
          tw_last_message st1 = later_text fr ev (tw_last_message st)
      | (out, Turn_Over) \<Rightarrow>
          out \<noteq> [] \<and> (\<forall>e \<in> set (butlast out). \<not> settles_turn e) \<and>
          (ev_event_type (last out) \<in> {EV_FAILED, EV_BLOCKED} \<or>
           ends_turn fr job ev \<and> ev_event_type (last out) = EV_COMPLETED \<and>
           ev_message (last out) =
             Some (str_or_else (str_or (tw_last_message st)
                (case final of
                   Some response \<Rightarrow> if str_truthy (tj_thread_id job)
                     then extract_assistant_text_from_thread response (tj_turn_id job) else None
                 | None \<Rightarrow> None)) (tj_completed job))))"

lemma turn_completed_ok:
  assumes "jget ev ''params'' = JObj params" and "event_method fr ev = ''turn/completed''"
  shows "step_ok fr job final ev st (turn_completed fr job final params st)"
  using assms
  by (auto simp: step_ok_def turn_completed_def ends_turn_def later_text_def said_text_def Let_def
      split: json.splits)

lemma turn_item_ok:
  assumes "jget ev ''params'' = JObj params" and "event_method fr ev = method"
    and "method \<in> {''item/started'', ''item/completed''}"
  shows "step_ok fr job final ev st (turn_item job method params st)"
proof (cases "jget params ''item''")
  case (JObj item)
  have not_end: "\<not> ends_turn fr job ev" using assms by (auto simp: ends_turn_def)
  have said: "said_text fr ev =
      (if jget item ''type'' \<in> {JStr ''assistantMessage'', JStr ''agentMessage''} then extract_item_text item else None)"
    using assms JObj by (simp add: said_text_def)
  show ?thesis
  proof (cases "method = ''item/completed'' \<and> jget item ''type'' = JStr ''plan''")
    case True
    then have "turn_item job method params st = plan_completed job item st" using JObj by (simp add: turn_item_def)
    moreover have "said_text fr ev = None" using said True by simp
    ultimately show ?thesis
      using not_end by (auto simp: step_ok_def plan_completed_def later_text_def Let_def plan_proposed_def split: option.splits)
  next
    case no_plan: False
    show ?thesis
    proof (cases "jget item ''type'' \<in> {JStr ''assistantMessage'', JStr ''agentMessage''}")
      case True
      then have "turn_item job method params st =
          (fst (assistant_item job item st), Read_On (snd (assistant_item job item st)))"
        using JObj by (auto simp: turn_item_def split: prod.splits)
      then show ?thesis
        using not_end said True by (simp add: step_ok_def assistant_item_reads later_text_def)
    next
      case False
      then have "turn_item job method params st = ([], Read_On st)" using JObj no_plan by (auto simp: turn_item_def)
      then show ?thesis using not_end said False by (simp add: step_ok_def later_text_def)
    qed
  qed
qed (use assms in \<open>auto simp: turn_item_def step_ok_def ends_turn_def later_text_def said_text_def\<close>)

lemma other_event_ok:
  assumes "jget ev ''params'' = JObj params" and "event_method fr ev = method"
    and "method \<notin> {''item/started'', ''item/completed'', ''turn/completed''}"
  shows "step_ok fr job final ev st (other_event fr job request_id method params st)"
proof -
  have "\<not> ends_turn fr job ev" using assms by (auto simp: ends_turn_def)
  moreover have "said_text fr ev = None" using assms by (auto simp: said_text_def split: json.splits)
  ultimately show ?thesis by (auto simp: step_ok_def other_event_def later_text_def split: option.splits)
qed

lemma read_on_ok:
  assumes "jget ev ''params'' = JObj params" and "event_method fr ev = method"
    and "method \<notin> {''item/started'', ''item/completed'', ''turn/completed''}"
    and "\<forall>e \<in> set out. \<not> settles_turn e" and "tw_last_message st1 = tw_last_message st"
  shows "step_ok fr job final ev st (out, Read_On st1)"
  using assms by (auto simp: step_ok_def ends_turn_def later_text_def said_text_def split: json.splits)

lemma turn_step_ok: "step_ok fr job final ev st (turn_step fr job final ev st)"
proof (cases "jget ev ''params''")
  case (JObj params)
  let ?m = "event_method fr ev"
  consider (over) "?m = ''turn/completed''" | (item) "?m \<in> {''item/started'', ''item/completed''}"
    | (error) "?m = ''error''" | (plan) "?m = ''turn/plan/updated''" | (pd) "?m = ''item/plan/delta''"
    | (md) "?m = ''item/agentMessage/delta''"
    | (other) "?m \<notin> {''turn/completed'', ''error'', ''turn/plan/updated'', ''item/plan/delta'', ''item/agentMessage/delta'',
        ''item/started'', ''item/completed''}"
    by auto
  then show ?thesis
  proof cases
    case over
    then show ?thesis using turn_completed_ok [OF JObj over] JObj by (simp add: turn_step_def)
  next
    case item
    then show ?thesis using turn_item_ok [OF JObj refl item] JObj by (auto simp: turn_step_def)
  next
    case error
    then show ?thesis using read_on_ok [OF JObj refl, where out = "[]"] JObj by (simp add: turn_step_def)
  next
    case plan
    have "\<forall>e \<in> set (plan_updated job params). \<not> settles_turn e" by (auto simp: plan_updated_def split: option.splits)
    then show ?thesis using read_on_ok [OF JObj refl] JObj plan by (simp add: turn_step_def)
  next
    case pd
    then show ?thesis using read_on_ok [OF JObj refl] JObj by (simp add: turn_step_def plan_delta_reads)
  next
    case md
    then show ?thesis using read_on_ok [OF JObj refl] JObj by (simp add: turn_step_def message_delta_reads)
  next
    case other
    then show ?thesis using other_event_ok [OF JObj refl] JObj by (simp add: turn_step_def)
  qed
qed (auto simp: turn_step_def step_ok_def ends_turn_def later_text_def said_text_def)


definition stream_ok :: "(rat \<Rightarrow> str) \<Rightarrow> turn_job \<Rightarrow> jdict list \<Rightarrow> executor_event list \<Rightarrow> turn_end \<Rightarrow> bool" where
  "stream_ok fr job evs out fin \<longleftrightarrow>
     (\<forall>e \<in> set (butlast out). \<not> settles_turn e) \<and>
     (case fin of
        Reading _ \<Rightarrow> (\<forall>e \<in> set out. \<not> settles_turn e) \<and> (\<forall>ev \<in> set evs. \<not> ends_turn fr job ev)
      | Waiting _ _ \<Rightarrow> out \<noteq> [] \<and> ev_event_type (last out) = EV_BLOCKED
      | Ended _ \<Rightarrow> out \<noteq> [] \<and> ev_event_type (last out) \<in> {EV_COMPLETED, EV_FAILED, EV_BLOCKED})"

lemma stream_ok_prepend:
  assumes "stream_ok fr job evs out fin" and "\<forall>e \<in> set out1. \<not> settles_turn e" and "\<not> ends_turn fr job ev"
  shows "stream_ok fr job (ev # evs) (out1 @ out) fin"
  using assms by (cases fin) (auto simp: stream_ok_def butlast_append dest: in_set_butlastD)

lemma blocked_not_settling: "ev_event_type e = EV_BLOCKED \<Longrightarrow> \<not> settles_turn e"
  by (simp add: settles_turn_def)

text \<open>The cases of one step of the stream.\<close>

lemma stream_cases:
  assumes "stream_turn_events fr job final (ev # evs) waits st = (out, fin)"
  obtains (over) "turn_step fr job final ev st = (out, Turn_Over)" "fin = Ended evs"
  | (go) out1 st1 out2 waits1 where
      "turn_step fr job final ev st = (out1, Read_On st1) \<or> turn_step fr job final ev st = (out1, Await_User st1)"
      "stream_turn_events fr job final evs waits1 st1 = (out2, fin)" "out = out1 @ out2"
  | (waiting) st1 where "turn_step fr job final ev st = (out, Await_User st1)" "fin = Waiting st1 evs"
  | (timed_out) out1 st1 where "turn_step fr job final ev st = (out1, Await_User st1)" "fin = Ended evs"
      "out = out1 @ [turn_event job EV_FAILED (Some ''Timed out waiting for user input.'') []]"
  | (aborted) st1 where "turn_step fr job final ev st = (out, Await_User st1)" "fin = Ended evs"
proof (cases "turn_step fr job final ev st")
  case (Pair out1 n)
  show thesis
  proof (cases n)
    case (Read_On st1)
    then show thesis using assms Pair go [of out1 st1 waits] by (auto split: prod.splits)
  next
    case (Await_User st1)
    then show thesis
      using assms Pair go [of out1 st1 "tl waits"] waiting timed_out aborted
      by (auto split: prod.splits list.splits if_splits)
  next
    case Turn_Over
    then show thesis using assms Pair over by simp
  qed
qed

lemma step_goes_on:
  assumes "turn_step fr job final ev st = (out, Read_On st1) \<or> turn_step fr job final ev st = (out, Await_User st1)"
  shows "\<forall>e \<in> set out. \<not> settles_turn e" "\<not> ends_turn fr job ev"
    "tw_last_message st1 = later_text fr ev (tw_last_message st)"
  using assms turn_step_ok [of fr job final ev st] by (auto simp: step_ok_def blocked_not_settling)

lemma step_waits:
  assumes "turn_step fr job final ev st = (out, Await_User st1)"
  shows "\<exists>e. out = [e] \<and> ev_event_type e = EV_BLOCKED"
  using assms turn_step_ok [of fr job final ev st] by (simp add: step_ok_def)

lemma stream_turn_ok:
  "stream_turn_events fr job final evs waits st = (out, fin) \<Longrightarrow> stream_ok fr job evs out fin"
proof (induction evs arbitrary: waits st out)
  case Nil
  then show ?case by (auto simp: stream_ok_def)
next
  case (Cons ev evs)
  from Cons.prems show ?case
  proof (cases rule: stream_cases)
    case over
    then show ?thesis using turn_step_ok [of fr job final ev st] by (auto simp: step_ok_def stream_ok_def)
  next
    case (go out1 st1 out2 waits1)
    then show ?thesis using stream_ok_prepend [OF Cons.IH [OF go(2)] step_goes_on(1,2) [OF go(1)]] by simp
  next
    case (waiting st1)
    then show ?thesis using step_waits [OF waiting(1)] by (auto simp: stream_ok_def)
  next
    case (timed_out out1 st1)
    then show ?thesis using step_waits [OF timed_out(1)] by (auto simp: stream_ok_def blocked_not_settling)
  next
    case (aborted st1)
    then show ?thesis using step_waits [OF aborted(1)] by (auto simp: stream_ok_def)
  qed
qed

text \<open>C28: A turn ends once. Nothing that settles the run is reported before the last event, none is reported
  while the turn is read or waits for the user, and what ends a turn is reported: it was completed, it
  failed, or it is blocked and its wait was ended (or a plan awaits review). Reading on means that the
  app-server has not said that the turn is over.\<close>

theorem turn_ends_once:
  assumes "stream_turn_events fr job final evs waits st = (out, fin)"
  shows "(\<forall>e \<in> set (butlast out). \<not> settles_turn e) \<and>
    (case fin of
       Reading _ \<Rightarrow> (\<forall>e \<in> set out. \<not> settles_turn e) \<and> (\<forall>ev \<in> set evs. \<not> ends_turn fr job ev)
     | Waiting _ _ \<Rightarrow> out \<noteq> [] \<and> ev_event_type (last out) = EV_BLOCKED
     | Ended _ \<Rightarrow> out \<noteq> [] \<and> ev_event_type (last out) \<in> {EV_COMPLETED, EV_FAILED, EV_BLOCKED})"
  using stream_turn_ok [OF assms] by (simp add: stream_ok_def)

definition answer_of :: "turn_job \<Rightarrow> jdict option \<Rightarrow> str option \<Rightarrow> str" where
  "answer_of job final words =
     str_or_else (str_or words
       (case final of
          Some response \<Rightarrow> if str_truthy (tj_thread_id job)
            then extract_assistant_text_from_thread response (tj_turn_id job) else None
        | None \<Rightarrow> None)) (tj_completed job)"

lemma stream_answer:
  assumes "stream_turn_events fr job final evs waits st = (out, fin)" and "out \<noteq> []"
    and "ev_event_type (last out) = EV_COMPLETED"
  shows "\<exists>read ev rest. fin = Ended rest \<and> evs = read @ ev # rest \<and> ends_turn fr job ev \<and>
    ev_message (last out) = Some (answer_of job final (fold (later_text fr) read (tw_last_message st)))"
  using assms
proof (induction evs arbitrary: waits st out)
  case Nil
  then show ?case by simp
next
  case (Cons ev evs)
  from Cons.prems(1) show ?case
  proof (cases rule: stream_cases)
    case over
    then have "ends_turn fr job ev \<and> ev_message (last out) = Some (answer_of job final (tw_last_message st))"
      using Cons.prems turn_step_ok [of fr job final ev st] by (auto simp: step_ok_def answer_of_def)
    then show ?thesis using over(2) by (intro exI [of _ "[]"] exI [of _ ev] exI [of _ evs]) simp
  next
    case (go out1 st1 out2 waits1)
    have "out2 \<noteq> []"
    proof
      assume "out2 = []"
      then have "last out \<in> set out1" using go(3) Cons.prems(2) by simp
      then show False using step_goes_on(1) [OF go(1)] Cons.prems(3) by (auto simp: settles_turn_def)
    qed
    then obtain read e rest where "fin = Ended rest" "evs = read @ e # rest" "ends_turn fr job e"
      "ev_message (last out2) = Some (answer_of job final (fold (later_text fr) read (tw_last_message st1)))"
      using Cons.IH [OF go(2)] Cons.prems(3) go(3) by auto
    then show ?thesis
      using go(3) \<open>out2 \<noteq> []\<close> step_goes_on(3) [OF go(1)]
      by (intro exI [of _ "ev # read"] exI [of _ e] exI [of _ rest]) simp
  next
    case (waiting st1)
    then show ?thesis using step_waits [OF waiting(1)] Cons.prems(3) by auto
  next
    case (timed_out out1 st1)
    then show ?thesis using Cons.prems(3) by simp
  next
    case (aborted st1)
    then show ?thesis using step_waits [OF aborted(1)] Cons.prems(3) by auto
  qed
qed

text \<open>C29: A completed run says what the assistant said last in the turn: the text of its last message among the
  events that were read before the app-server ended the turn, else the text that the thread holds for
  the turn, else the message of the job.\<close>

theorem completed_turn_says_last_text:
  assumes "stream_turn_events fr job final evs waits turn_stream_init = (out, fin)" and "out \<noteq> []"
    and "ev_event_type (last out) = EV_COMPLETED"
  shows "\<exists>read ev rest. fin = Ended rest \<and> evs = read @ ev # rest \<and> ends_turn fr job ev \<and>
    ev_message (last out) = Some (answer_of job final (fold (later_text fr) read None))"
  using stream_answer [OF assms] by (simp add: turn_stream_init_def)

definition ping_job :: turn_job where
  "ping_job =
     \<lparr>tj_run_id = ''run'', tj_session_id = ''session'', tj_turn_id = ''turn'', tj_thread_id = Some ''thread'', tj_extra = [],
      tj_completed = ''Completed: ping''\<rparr>"

definition item_event :: "str \<Rightarrow> jdict" where
  "item_event words =
     [(''method'', JStr ''item/completed''),
      (''params'', JObj [(''turnId'', JStr ''turn''),
         (''item'', JObj [(''id'', JStr ''i''), (''type'', JStr ''agentMessage''), (''text'', JStr words),
            (''phase'', JStr ''final_answer'')])])]"

definition approval_event :: jdict where
  "approval_event =
     [(''id'', JInt 7), (''method'', JStr ''execCommandApproval''), (''params'', JObj [(''command'', JStr ''ls'')])]"

definition over_event :: jdict where
  "over_event =
     [(''method'', JStr ''turn/completed''),
      (''params'', JObj [(''turn'', JObj [(''id'', JStr ''turn''), (''status'', JStr ''completed'')])])]"

definition ping_events :: "jdict list" where
  "ping_events = [item_event ''working'', approval_event, item_event ''pong'', over_event, item_event ''late'']"

definition ping_outcome :: "executor_event list \<times> turn_end" where
  "ping_outcome = stream_turn_events (\<lambda>_. []) ping_job None ping_events [''resolved''] turn_stream_init"

theorem turn_ends_once_witness:
  "snd ping_outcome = Ended [item_event ''late''] \<and> map ev_event_type (fst ping_outcome) = [EV_BLOCKED, EV_COMPLETED] \<and>
   list_all (\<lambda>e. \<not> settles_turn e) (butlast (fst ping_outcome))"
proof -
  have "stream_turn_events (\<lambda>_. []) ping_job None ping_events [''resolved''] turn_stream_init = (fst ping_outcome, snd ping_outcome)"
    by (simp add: ping_outcome_def)
  from turn_ends_once [OF this] show ?thesis
    by (intro conjI) (code_simp, code_simp, simp add: list_all_iff)
qed

theorem completed_turn_says_last_text_witness:
  "ev_message (last (fst ping_outcome)) = Some ''pong''"
proof -
  have run: "stream_turn_events (\<lambda>_. []) ping_job None ping_events [''resolved''] turn_stream_init = (fst ping_outcome, snd ping_outcome)"
    by (simp add: ping_outcome_def)
  have "fst ping_outcome \<noteq> []" "ev_event_type (last (fst ping_outcome)) = EV_COMPLETED" by code_simp+
  from completed_turn_says_last_text [OF run this] obtain read ev rest where
    cut: "snd ping_outcome = Ended rest" "ping_events = read @ ev # rest" and
    said: "ev_message (last (fst ping_outcome)) = Some (answer_of ping_job None (fold (later_text (\<lambda>_. [])) read None))"
    by blast
  have "snd ping_outcome = Ended [item_event ''late'']" by code_simp
  then have "rest = [item_event ''late'']" using cut(1) by simp
  then have "read = [item_event ''working'', approval_event, item_event ''pong'']"
    using cut(2) by (simp add: ping_events_def append_eq_Cons_conv Cons_eq_append_conv)
  moreover have "answer_of ping_job None (fold (later_text (\<lambda>_. []))
      [item_event ''working'', approval_event, item_event ''pong''] None) = ''pong''" by code_simp
  ultimately show ?thesis using said by simp
qed

section \<open>What blocks a turn can be answered\<close>

lemma jstr_nonblank_strip: "jstr_nonblank v = Some s \<Longrightarrow> py_strip s \<noteq> []"
  by (cases v) (auto split: if_splits)

lemma first_nonblank_text: "first_nonblank d ks = Some s \<Longrightarrow> s \<noteq> []"
  by (induction ks) (auto dest: jstr_nonblank_strip split: option.splits)

lemma first_question_text: "first_question qs = Some s \<Longrightarrow> s \<noteq> []"
proof (induction qs)
  case (Cons q qs)
  show ?case
  proof (cases "case q of JObj d \<Rightarrow> jstr_nonblank (jor (jget d ''question'') (jget d ''prompt'')) | _ \<Rightarrow> None")
    case None
    then show ?thesis using Cons by simp
  next
    case (Some t)
    then have "py_strip t \<noteq> []" by (cases q) (auto dest: jstr_nonblank_strip)
    then show ?thesis using Cons.prems Some by simp
  qed
qed simp

lemma question_text: "extract_question_text params = Some s \<Longrightarrow> s \<noteq> []"
  by (auto simp: extract_question_text_def simp del: first_nonblank.simps dest: first_nonblank_text first_question_text
      split: option.splits json.splits)

lemma asked_text: "str_or_else (extract_question_text params) ''Codex is waiting for user input.'' \<noteq> []"
  using question_text [of params] by (cases "extract_question_text params") (auto simp: str_or_else_def str_or_def)

lemma approval_text: "extract_approval_text method params \<noteq> []"
  by (auto simp: extract_approval_text_def command_approval_text_def file_approval_text_def Let_def
      dest: jstr_nonblank_strip split: option.splits list.splits json.splits)

definition grants_access :: "jdict \<Rightarrow> bool" where
  "grants_access response \<longleftrightarrow>
     jget response ''decision'' \<notin> {JNull, JStr ''decline''} \<or> jget response ''permissions'' \<notin> {JNull, JObj []}"

definition asks_approval :: "str \<Rightarrow> jdict \<Rightarrow> bool" where
  "asks_approval method params \<longleftrightarrow>
     py_lower method \<in> set command_methods \<union> set file_methods \<or>
     py_lower method = permission_method \<and> as_dict (jget params ''permissions'') \<noteq> []"

text \<open>C31: Exactly the requests of the app-server that block a turn have a response. The user is asked with a
  text, and the request is handed on with its id, method and parameters, which is what the response is
  made of. The response grants something just when the user approved what was asked: any other action
  declines.\<close>

theorem blocking_requests_are_answered:
  "(extract_blocked_request fr request_id method params plan_mode = None) =
     (build_request_response method params action answer answers = []) \<and>
   (case extract_blocked_request fr request_id method params plan_mode of
      None \<Rightarrow> True
    | Some (text, meta) \<Rightarrow> text \<noteq> [] \<and> jget meta ''native_response'' = native_response request_id method params) \<and>
   grants_access (build_request_response method params action answer answers) =
     (action = ''approve'' \<and> asks_approval method params)"
proof (intro conjI)
  show "(extract_blocked_request fr request_id method params plan_mode = None) =
     (build_request_response method params action answer answers = [])"
    by (auto simp: extract_blocked_request_def build_request_response_def Let_def)
  show "case extract_blocked_request fr request_id method params plan_mode of
      None \<Rightarrow> True
    | Some (text, meta) \<Rightarrow> text \<noteq> [] \<and> jget meta ''native_response'' = native_response request_id method params"
    using asked_text [of params]
    by (auto simp: extract_blocked_request_def Let_def opt_param_def approval_text split: option.splits)
  show "grants_access (build_request_response method params action answer answers) =
     (action = ''approve'' \<and> asks_approval method params)"
    by (auto simp: build_request_response_def Let_def grants_access_def asks_approval_def split: option.splits)
qed

section \<open>A turn is started in its own thread\<close>

definition starts_turn :: "rpc_call \<Rightarrow> bool" where
  "starts_turn c \<longleftrightarrow> fst c = ''turn/start''"

definition makes_thread :: "rpc_call \<Rightarrow> bool" where
  "makes_thread c \<longleftrightarrow> fst c \<in> {''thread/start'', ''thread/fork''}"

lemma calls_start [simp]:
  "\<not> starts_turn (thread_start_call cwd)" "\<not> starts_turn (thread_fork_call k cwd)" "\<not> starts_turn (thread_resume_call k)"
  "\<not> starts_turn collaboration_mode_list_call"
  "\<not> makes_thread (thread_resume_call k)" "\<not> makes_thread collaboration_mode_list_call"
  by (simp_all add: starts_turn_def makes_thread_def thread_start_call_def thread_fork_call_def thread_resume_call_def
      collaboration_mode_list_call_def)

lemma adopt_thread_reads: "adopt_thread d s = (Inr k, s1) \<Longrightarrow> cx_thread_id s1 = Some k"
  by (auto simp: adopt_thread_def use_thread_def cx_thread_id_def split: sum.splits json.splits)

lemma ensure_thread_reads:
  assumes "ensure_thread ask fork_existing s = ((r, s1), calls)"
  shows "\<forall>c \<in> set calls. \<not> starts_turn c" "r = Inr k \<Longrightarrow> cx_thread_id s1 = Some k"
    "\<lbrakk>\<not> fork_existing; str_truthy (cx_thread_id s)\<rbrakk> \<Longrightarrow>
     (\<forall>c \<in> set calls. \<not> makes_thread c) \<and> (r = Inr k \<longrightarrow> cx_thread_id s = Some k)"
proof -
  show "\<forall>c \<in> set calls. \<not> starts_turn c"
    using assms by (auto simp: ensure_thread_def Let_def split: if_splits sum.splits)
  show "r = Inr k \<Longrightarrow> cx_thread_id s1 = Some k"
    using assms adopt_thread_reads
    by (auto simp: ensure_thread_def resume_thread_def use_thread_def cx_thread_id_def Let_def str_truthy_def
        split: if_splits sum.splits option.splits)
  show "\<lbrakk>\<not> fork_existing; str_truthy (cx_thread_id s)\<rbrakk> \<Longrightarrow>
     (\<forall>c \<in> set calls. \<not> makes_thread c) \<and> (r = Inr k \<longrightarrow> cx_thread_id s = Some k)"
    using assms
    by (auto simp: ensure_thread_def resume_thread_def Let_def str_truthy_def split: if_splits sum.splits option.splits)
qed

lemma ask_collaboration_reads:
  assumes "ask_collaboration requested ask plan_mode s = ((c, s1), calls)"
  shows "cx_thread_id s1 = cx_thread_id s" "\<forall>c \<in> set calls. \<not> starts_turn c \<and> \<not> makes_thread c"
  using assms by (auto simp: ask_collaboration_def Let_def cx_thread_id_def split: if_splits prod.splits)

lemma turn_start_call_reads:
  "turn_start_call thread prompt collab skill = Inr call \<Longrightarrow> starts_turn call \<and> jget (snd call) ''threadId'' = JStr thread"
  by (auto simp: turn_start_call_def starts_turn_def Let_def split: option.splits if_splits)

lemma begin_turn_reads:
  assumes "begin_codex_turn ask thread prompt collab skill = (r, calls)"
  shows "calls = [] \<and> (\<exists>e. r = Inl e) \<or>
    (\<exists>call. calls = [call] \<and> starts_turn call \<and> jget (snd call) ''threadId'' = JStr thread)"
proof (cases "turn_start_call thread prompt collab skill")
  case (Inr call)
  then have "calls = [call]" using assms by (simp add: begin_codex_turn_def)
  then show ?thesis using turn_start_call_reads [OF Inr] by simp
qed (use assms in \<open>auto simp: begin_codex_turn_def\<close>)

text \<open>The requests of an operation that starts a turn in \<open>thread\<close>: those before it, then \<open>turn/start\<close>.\<close>

definition starts_once_in :: "str \<Rightarrow> rpc_call list \<Rightarrow> bool" where
  "starts_once_in thread calls \<longleftrightarrow>
     (\<exists>before call. calls = before @ [call] \<and> (\<forall>c \<in> set before. \<not> starts_turn c) \<and> starts_turn call \<and>
        jget (snd call) ''threadId'' = JStr thread)"

lemma open_turn_reads:
  assumes opened: "open_turn requested ask plan_mode prompt skill ((loaded, s1), calls1) = (r, s2, calls)"
    and none: "\<forall>c \<in> set calls1. \<not> starts_turn c"
  shows "cx_thread_id s2 = cx_thread_id s1" "filter makes_thread calls = filter makes_thread calls1"
    "case r of Inr (thread, t) \<Rightarrow> loaded = Inr thread \<and> starts_once_in thread calls
     | Inl _ \<Rightarrow> (\<forall>c \<in> set calls. \<not> starts_turn c) \<or> (\<exists>thread. loaded = Inr thread \<and> starts_once_in thread calls)"
proof -
  have "cx_thread_id s2 = cx_thread_id s1 \<and> filter makes_thread calls = filter makes_thread calls1 \<and>
    (case r of Inr (thread, t) \<Rightarrow> loaded = Inr thread \<and> starts_once_in thread calls
     | Inl _ \<Rightarrow> (\<forall>c \<in> set calls. \<not> starts_turn c) \<or> (\<exists>thread. loaded = Inr thread \<and> starts_once_in thread calls))"
  proof (cases loaded)
    case (Inl e)
    then show ?thesis using opened none by (auto simp: open_turn_def)
  next
    case loaded: (Inr thread)
    show ?thesis
    proof (cases prompt)
      case (Inl e)
      then show ?thesis using opened none loaded by (auto simp: open_turn_def)
    next
      case prompt: (Inr words)
      obtain c s3 calls2 where ask: "ask_collaboration requested ask plan_mode s1 = ((c, s3), calls2)"
        by (metis prod.collapse)
      note ask_reads = ask_collaboration_reads [OF ask]
      have no_threads: "filter makes_thread calls2 = []" using ask_reads(2) by simp
      show ?thesis
      proof (cases c)
        case (Inl e)
        then show ?thesis
          using opened none loaded prompt ask ask_reads no_threads by (auto simp: open_turn_def)
      next
        case (Inr collab)
        obtain t calls3 where begun: "begin_codex_turn ask thread words collab skill = (t, calls3)" by (metis prod.collapse)
        have out: "s2 = s3" "calls = (calls1 @ calls2) @ calls3"
          "r = (case t of Inl e \<Rightarrow> Inl e | Inr t \<Rightarrow> Inr (thread, t))"
          using opened loaded prompt ask Inr begun by (simp_all add: open_turn_def)
        have before: "\<forall>c \<in> set (calls1 @ calls2). \<not> starts_turn c" using none ask_reads(2) by auto
        from begin_turn_reads [OF begun] show ?thesis
        proof (elim disjE exE conjE)
          fix e assume "calls3 = []" "t = Inl e"
          then show ?thesis using out ask_reads(1) before no_threads by simp
        next
          fix call assume call: "calls3 = [call]" "starts_turn call" "jget (snd call) ''threadId'' = JStr thread"
          have "starts_once_in thread calls"
            unfolding starts_once_in_def out(2) call(1) using before call(2,3) by blast
          moreover have "\<not> makes_thread call" using call(2) by (simp add: starts_turn_def makes_thread_def)
          ultimately show ?thesis using out loaded ask_reads(1) no_threads call(1) by (cases t) simp_all
        qed
      qed
    qed
  qed
  then show "cx_thread_id s2 = cx_thread_id s1" "filter makes_thread calls = filter makes_thread calls1"
    "case r of Inr (thread, t) \<Rightarrow> loaded = Inr thread \<and> starts_once_in thread calls
     | Inl _ \<Rightarrow> (\<forall>c \<in> set calls. \<not> starts_turn c) \<or> (\<exists>thread. loaded = Inr thread \<and> starts_once_in thread calls)"
    by simp_all
qed


definition ping_task :: task where
  "ping_task = sample_task\<lparr>t_metadata := [(''codex_thread_mode'', JStr ''resume'')]\<rparr>"

definition ping_session :: codex_session where
  "ping_session = (codex_session_of ''1'' ''/work'')\<lparr>cx_live := \<lparr>cl_thread_id = Some ''thread'', cl_blocked = None\<rparr>\<rparr>"

definition ping_server :: server where
  "ping_server c = Inr (if fst c = ''turn/start'' then [(''turn'', JObj [(''id'', JStr ''turn'')])] else [])"

definition ping_turn :: "turn_job result \<times> codex_session \<times> rpc_call list" where
  "ping_turn = task_turn ping_server sample_run ping_task ping_session"


end
