(* ===== verification/NodeService.thy ===== *)
theory NodeService
  imports CodexTurns
begin

text \<open>
  The service on an executor node (\<open>src/newbro/executors/node/service.py\<close>, \<open>workspace_files.py\<close>): what it
  does for each command of the control plane, which messages it sends back, and what it keeps between
  commands (live sessions, active runs, thread subscriptions, the workspaces of threads). The commands
  and the messages are those of \<open>NodeManager\<close>, the other end of the websocket. A session is an object
  that its executor shares with the service: a Codex session is a number in the heap of
  \<open>CodexTurns\<close>, a session of the ACPX adapter is opaque, and what that adapter is told is kept in
  \<open>ns_acpx\<close>. What an executor yields, the answers of the app-server (\<open>ask\<close>), what was heard in a recording and the
  file system are arguments. Sends succeed; when the connection breaks, the service drops all it does
  (\<open>node_connection_lost\<close>) and registers again.
\<close>

section \<open>Files of a workspace\<close>

text \<open>\<open>fs_real\<close> is \<open>os.path.realpath\<close>, with the parts of the path as a list; a path is inside a directory when
  the directory is one of its parents. Reading may fail after some blocks. A byte is a \<open>char\<close>.\<close>

record file_system =
  fs_real :: "str \<Rightarrow> str list"
  fs_exists :: "str list \<Rightarrow> bool"
  fs_is_file :: "str list \<Rightarrow> bool"
  fs_size :: "str list \<Rightarrow> nat"
  fs_bytes :: "str list \<Rightarrow> str"
  fs_error :: "str list \<Rightarrow> (nat \<times> str) option"

definition path_text :: "str list \<Rightarrow> str" where
  "path_text parts = concat (map (\<lambda>p. ''/'' @ p) parts)"

definition path_parents :: "str list \<Rightarrow> str list list" where
  "path_parents parts = map (\<lambda>n. take n parts) [0..<length parts]"

definition resolve_within_workspace :: "file_system \<Rightarrow> str \<Rightarrow> str \<Rightarrow> (str \<times> str) + str list" where
  "resolve_within_workspace fs path workspace_root =
     (let base = fs_real fs workspace_root;
          candidate = (if py_startswith path ''/'' then path else path_text base @ ''/'' @ path);
          file = fs_real fs candidate
      in if file \<noteq> base \<and> base \<notin> set (path_parents file) then Inl (''denied'', ''path resolves outside the workspace'')
         else if \<not> fs_exists fs file then Inl (''not_found'', ''file does not exist'')
         else if \<not> fs_is_file fs file then Inl (''denied'', ''path is not a regular file'')
         else Inr file)"

definition default_max_bytes :: nat where "default_max_bytes = 100 * 1024 * 1024"

definition chunk_bytes :: nat where "chunk_bytes = 256 * 1024"

fun byte_blocks :: "nat \<Rightarrow> str \<Rightarrow> str list" where
  "byte_blocks n bs = (if bs = [] \<or> n = 0 then [] else take n bs # byte_blocks n (drop n bs))"

declare byte_blocks.simps [simp del]

text \<open>The blocks that are yielded, and the error that ends them.\<close>

definition iter_file_bytes :: "file_system \<Rightarrow> nat \<Rightarrow> nat \<Rightarrow> str list \<Rightarrow> str list \<times> (str \<times> str) option" where
  "iter_file_bytes fs max_bytes chunk file =
     (if max_bytes < fs_size fs file then ([], Some (''too_large'', ''file exceeds '' @ py_of_nat max_bytes @ '' bytes''))
      else
        (let blocks = byte_blocks chunk (fs_bytes fs file) in
         case fs_error fs file of
           None \<Rightarrow> (blocks, None)
         | Some (k, err) \<Rightarrow> (take k blocks, Some (''read_error'', err))))"

text \<open>\<open>base64.b64encode\<close>.\<close>

definition base64_alphabet :: str where
  "base64_alphabet = ''ABCDEFGHIJKLMNOPQRSTUVWXYZabcdefghijklmnopqrstuvwxyz0123456789+/''"

definition sextet :: "nat \<Rightarrow> char" where
  "sextet n = base64_alphabet ! (n mod 64)"

fun b64encode :: "str \<Rightarrow> str" where
  "b64encode [] = []"
| "b64encode [a] = (let x = of_char a * 16 in [sextet (x div 64), sextet x, CHR ''='', CHR ''=''])"
| "b64encode [a, b] =
     (let x = (of_char a * 256 + of_char b) * 4 in [sextet (x div 4096), sextet (x div 64), sextet x, CHR ''=''])"
| "b64encode (a # b # c # bs) =
     (let x = (of_char a * 256 + of_char b) * 256 + of_char c
      in [sextet (x div 262144), sextet (x div 4096), sextet (x div 64), sextet x] @ b64encode bs)"

section \<open>What the service keeps\<close>

datatype executor_kind = Codex_Adapter | Acpx_Adapter

datatype node_session = Codex_Ref nat | Acpx_Ref str

datatype acpx_call =
    Acpx_Cancel str
  | Acpx_Pause str
  | Acpx_Hydrate str "str option list"

record local_run =
  lr_kind :: executor_kind
  lr_session_id :: str

record subscription_context =
  sc_subscription :: thread_subscription
  sc_session :: "nat option"

datatype node_message =
    Run_Event str str run_event_message
  | Node_Reply request_kind node_reply
  | Codex_Turn_Event codex_turn_event
  | Thread_Event thread_event
  | File_Message str file_message

record node_service =
  ns_node_id :: str
  ns_executors :: "(str, executor_kind) dict"
  ns_codex :: codex_executor
  ns_live_sessions :: "(str, node_session) dict"
  ns_thread_workspaces :: "(str, str) dict"
  ns_codex_thread_workspaces :: "(str, str) dict"
  ns_active_runs :: "(str, local_run) dict"
  ns_subscriptions :: "(str, subscription_context) dict"
  ns_acpx :: "acpx_call list"
  ns_out :: "node_message list"

fun kind_of_executor :: "str \<Rightarrow> executor_kind option" where
  "kind_of_executor name =
     (if name = ''codex'' then Some Codex_Adapter else if name = ''acpx'' then Some Acpx_Adapter else None)"

definition build_executors :: "str list \<Rightarrow> (str, executor_kind) dict" where
  "build_executors enabled =
     fold (\<lambda>name d. case kind_of_executor name of Some k \<Rightarrow> dict_put name k d | None \<Rightarrow> d) enabled []"

definition node_service_init :: "str \<Rightarrow> str list \<Rightarrow> node_service" where
  "node_service_init node enabled =
     \<lparr>ns_node_id = node, ns_executors = build_executors enabled, ns_codex = codex_executor_init, ns_live_sessions = [],
      ns_thread_workspaces = [], ns_codex_thread_workspaces = [], ns_active_runs = [], ns_subscriptions = [], ns_acpx = [],
      ns_out = []\<rparr>"

definition node_send :: "node_message list \<Rightarrow> node_service \<Rightarrow> node_service" where
  "node_send msgs x = x\<lparr>ns_out := ns_out x @ msgs\<rparr>"

text \<open>The methods an adapter has beside those of every executor.\<close>

fun has_codex_methods :: "executor_kind option \<Rightarrow> bool" where
  "has_codex_methods (Some Codex_Adapter) = True"
| "has_codex_methods _ = False"

section \<open>Reading a file for the control plane\<close>

definition workspace_of_thread :: "str \<Rightarrow> str option \<Rightarrow> node_service \<Rightarrow> str option" where
  "workspace_of_thread thread executor_thread x =
     (case map_of (ns_thread_workspaces x) thread of
        Some base \<Rightarrow> Some base
      | None \<Rightarrow>
          if str_truthy executor_thread then map_of (ns_codex_thread_workspaces x) (the executor_thread) else None)"

definition file_chunks :: "str list \<Rightarrow> file_message list" where
  "file_chunks blocks = map (\<lambda>(i, b). FileChunk (int i) (b64encode b)) (enumerate 0 blocks)"

text \<open>\<open>sha\<close> is \<open>sha256(...).hexdigest()\<close>.\<close>

definition read_workspace_file :: "file_system \<Rightarrow> (str \<Rightarrow> str) \<Rightarrow> str \<Rightarrow> str option \<Rightarrow> str \<Rightarrow> node_service \<Rightarrow> file_message list" where
  "read_workspace_file fs sha thread executor_thread path x =
     (case workspace_of_thread thread executor_thread x of
        None \<Rightarrow> [FileError ''denied'' ''no workspace binding for thread'']
      | Some base \<Rightarrow>
          (case resolve_within_workspace fs path base of
             Inl (code, err) \<Rightarrow> [FileError code err]
           | Inr file \<Rightarrow>
               (let (blocks, stop) = iter_file_bytes fs default_max_bytes chunk_bytes file; sent = concat blocks in
                file_chunks blocks @
                (case stop of
                   Some (code, err) \<Rightarrow> [FileError code err]
                 | None \<Rightarrow> [FileEof (int (length sent)) (Some (sha sent))]))))"

section \<open>Sessions and runs\<close>

text \<open>A session that shares the app-server has no process of its own (\<open>process\<close> is the return code, if there
  is a process), and a client that it never loses.\<close>

definition codex_is_alive :: "int option option \<Rightarrow> bool \<Rightarrow> bool" where
  "codex_is_alive process has_client = (case process of Some code \<Rightarrow> code = None | None \<Rightarrow> has_client)"

fun session_is_alive :: "node_session \<Rightarrow> bool" where
  "session_is_alive (Acpx_Ref k) = True"
| "session_is_alive (Codex_Ref ref) = codex_is_alive None True"

definition opaque_text :: "(rat \<Rightarrow> str) \<Rightarrow> jdict \<Rightarrow> str \<Rightarrow> str option" where
  "opaque_text fr d k = (if jget d k = JNull then None else Some (py_str fr (jget d k)))"

text \<open>A new session goes on where the handle says: a Codex session in its thread, an ACPX session with the six
  values of the handle.\<close>

definition node_hydrate_handle ::
    "(rat \<Rightarrow> str) \<Rightarrow> node_session \<Rightarrow> agent_resume_handle option \<Rightarrow> node_service \<Rightarrow> node_service" where
  "node_hydrate_handle fr s handle x =
     (case handle of
        None \<Rightarrow> x
      | Some h \<Rightarrow>
          (case s of
             Acpx_Ref k \<Rightarrow>
               if h_executor_id h = ''acpx'' then
                 x\<lparr>ns_acpx := ns_acpx x @
                   [Acpx_Hydrate k
                     (map (opaque_text fr (h_opaque h)) [''cwd'', ''sessionName'', ''agent''] @ [h_session_handle h] @
                      map (opaque_text fr (h_opaque h)) [''acpSessionId'', ''agentSessionId''])]\<rparr>
               else x
           | Codex_Ref ref \<Rightarrow>
               if h_executor_id h = ''codex'' then
                 x\<lparr>ns_codex := on_session ref
                     (\<lambda>c. c\<lparr>cx_live := (cx_live c)\<lparr>cl_thread_id := h_session_handle h\<rparr>\<rparr>) (ns_codex x)\<rparr>
               else x))"

text \<open>The object of a new Codex session.\<close>

definition new_codex_session :: "codex_session \<Rightarrow> codex_executor \<Rightarrow> nat \<times> codex_executor" where
  "new_codex_session s c =
     (let ref = xd_next c in (ref, c\<lparr>xd_next := Suc ref, xd_sessions := dict_put ref s (xd_sessions c)\<rparr>))"

definition node_create_session :: "executor_kind \<Rightarrow> str \<Rightarrow> str \<Rightarrow> node_service \<Rightarrow> node_session \<times> node_service" where
  "node_create_session kind uid cwd x =
     (case kind of
        Acpx_Adapter \<Rightarrow> (Acpx_Ref uid, x)
      | Codex_Adapter \<Rightarrow>
          (let (ref, c) = new_codex_session (codex_session_of uid cwd) (ns_codex x) in (Codex_Ref ref, x\<lparr>ns_codex := c\<rparr>)))"

text \<open>\<open>failed\<close> is the exception of \<open>create_session\<close>, \<open>workspace\<close> is \<open>resolve_workspace\<close>.\<close>

definition node_ensure_session ::
    "(rat \<Rightarrow> str) \<Rightarrow> (str \<Rightarrow> str) \<Rightarrow> str \<Rightarrow> py_error option \<Rightarrow> executor_kind \<Rightarrow> dispatch_run_command \<Rightarrow> node_service \<Rightarrow>
     node_session result \<times> node_service" where
  "node_ensure_session fr workspace uid failed kind cmd x =
     (case (case map_of (ns_live_sessions x) (dr_execution_session_id cmd) of
              Some s \<Rightarrow> if session_is_alive s then Some s else None
            | None \<Rightarrow> None) of
        Some s \<Rightarrow> (Inr s, x)
      | None \<Rightarrow>
          (case failed of
             Some e \<Rightarrow> (Inl e, x)
           | None \<Rightarrow>
               (let (s, x1) = node_create_session kind uid (workspace (str_or_else (dr_workspace_id cmd) (dr_task_id cmd))) x;
                    x2 = node_hydrate_handle fr s (dr_latest_resume_handle cmd) x1
                in (Inr s, x2\<lparr>ns_live_sessions := dict_put (dr_execution_session_id cmd) s (ns_live_sessions x2)\<rparr>))))"

definition node_dispatch_run ::
    "(rat \<Rightarrow> str) \<Rightarrow> (str \<Rightarrow> str) \<Rightarrow> str \<Rightarrow> py_error option \<Rightarrow> dispatch_run_command \<Rightarrow> node_service \<Rightarrow>
     unit result \<times> node_service" where
  "node_dispatch_run fr workspace uid failed cmd x =
     (case map_of (ns_executors x) (dr_executor_type cmd) of
        None \<Rightarrow> (Inl (KeyError (dr_executor_type cmd)), x)
      | Some kind \<Rightarrow>
          (case node_ensure_session fr workspace uid failed kind cmd x of
             (Inl e, x1) \<Rightarrow> (Inl e, x1)
           | (Inr s, x1) \<Rightarrow>
               (Inr (), x1\<lparr>ns_active_runs := dict_put (dr_run_id cmd)
                   \<lparr>lr_kind = kind, lr_session_id = dr_execution_session_id cmd\<rparr> (ns_active_runs x1)\<rparr>)))"

definition dispatched_run :: "str \<Rightarrow> str \<Rightarrow> str \<Rightarrow> str \<Rightarrow> execution_run" where
  "dispatched_run run_id task_id session_id ty =
     \<lparr>r_run_id = run_id, r_task_id = task_id, r_execution_session_id = session_id, r_executor_type = ty,
      r_status = RS_CREATED, r_claimed_by = None, r_run_revision = 0, r_latest_progress_message = None,
      r_output_summary = None, r_block_reason = None, r_failure_reason = None, r_metadata = []\<rparr>"

definition dispatched_task :: "dispatch_run_command \<Rightarrow> task" where
  "dispatched_task cmd =
     \<lparr>t_task_id = dr_task_id cmd, t_root_task_id = dr_task_id cmd, t_parent_task_id = None, t_title = dr_title cmd,
      t_goal = dr_goal cmd, t_status = TS_CREATED, t_priority = 5, t_interruptible = True,
      t_requires_confirmation = False, t_preferred_executor = Some (dr_executor_type cmd),
      t_session_affinity = dr_workspace_id cmd, t_task_revision = 0, t_latest_instruction = dr_latest_instruction cmd,
      t_metadata = dr_task_metadata cmd\<rparr>"

definition codex_handle_of :: "codex_session \<Rightarrow> agent_resume_handle option" where
  "codex_handle_of s =
     (if \<not> str_truthy (cx_thread_id s) then None
      else Some \<lparr>h_executor_id = ''codex'', h_session_handle = cx_thread_id s, h_turn_handle = None, h_opaque = []\<rparr>)"

text \<open>What an executor yields, with the handle of the session at that moment, up to its end or an exception.\<close>

type_synonym run_stream =
  "(executor_event \<times> agent_resume_handle option) list \<times> (py_error \<times> agent_resume_handle option) option"

definition run_event_out ::
    "str \<Rightarrow> str \<Rightarrow> str \<Rightarrow> str \<Rightarrow> executor_event_type \<Rightarrow> str option \<Rightarrow> jdict \<Rightarrow> agent_resume_handle option \<Rightarrow> node_message" where
  "run_event_out session_id ty run_id sid kind txt meta h =
     Run_Event session_id ty
       \<lparr>re_run_id = run_id, re_session_id = sid, re_event_type = kind, re_message = txt, re_metadata = meta,
        re_latest_resume_handle = h\<rparr>"

definition stream_messages :: "str \<Rightarrow> str \<Rightarrow> str \<Rightarrow> str \<Rightarrow> run_stream \<Rightarrow> node_message list" where
  "stream_messages session_id ty run_id sid stream =
     map (\<lambda>(e, h). run_event_out session_id ty run_id sid (ev_event_type e) (ev_message e) (ev_metadata e) h) (fst stream) @
     (case snd stream of
        None \<Rightarrow> []
      | Some (e, h) \<Rightarrow> [run_event_out session_id ty run_id sid EV_FAILED (Some (error_text e)) [] h])"

text \<open>The background task of a run: its messages, and what is left when it ends.\<close>

definition finish_dispatch :: "str \<Rightarrow> str \<Rightarrow> node_session \<Rightarrow> node_service \<Rightarrow> node_service" where
  "finish_dispatch run_id session_id s x =
     (let x1 = x\<lparr>ns_active_runs := dict_pop run_id (ns_active_runs x)\<rparr> in
      if session_is_alive s then x1 else x1\<lparr>ns_live_sessions := dict_pop session_id (ns_live_sessions x1)\<rparr>)"

definition run_dispatch :: "dispatch_run_command \<Rightarrow> node_session \<Rightarrow> str \<Rightarrow> run_stream \<Rightarrow> node_service \<Rightarrow> node_service" where
  "run_dispatch cmd s sid stream x =
     finish_dispatch (dr_run_id cmd) (dr_execution_session_id cmd) s
       (node_send (stream_messages (dr_execution_session_id cmd) (dr_executor_type cmd) (dr_run_id cmd) sid stream) x)"

text \<open>What the Codex adapter yields for a run.\<close>

definition codex_run_stream ::
    "(rat \<Rightarrow> str) \<Rightarrow> server \<Rightarrow> jdict option \<Rightarrow> dispatch_run_command \<Rightarrow> jdict list \<Rightarrow> str list \<Rightarrow> codex_session \<Rightarrow> run_stream" where
  "codex_run_stream fr ask final cmd evs waits s =
     (let r = dispatched_run (dr_run_id cmd) (dr_task_id cmd) (dr_execution_session_id cmd) (dr_executor_type cmd);
          t = dispatched_task cmd;
          s1 = fst (snd (task_turn ask r t s))
      in (map (\<lambda>e. (e, codex_handle_of s1)) (fst (codex_run_task fr ask final r t evs waits s)), None))"

definition node_cancel_run :: "str \<Rightarrow> str \<Rightarrow> node_service \<Rightarrow> node_service" where
  "node_cancel_run run_id mode x =
     (case map_of (ns_active_runs x) run_id of
        None \<Rightarrow> x
      | Some c \<Rightarrow>
          (case lr_kind c of
             Codex_Adapter \<Rightarrow>
               x\<lparr>ns_codex := (if mode = ''pause'' then codex_pause_run run_id (ns_codex x) else codex_cancel_run run_id (ns_codex x))\<rparr>
           | Acpx_Adapter \<Rightarrow>
               x\<lparr>ns_acpx := ns_acpx x @ [if mode = ''pause'' then Acpx_Pause run_id else Acpx_Cancel run_id]\<rparr>))"

definition node_release_run :: "str \<Rightarrow> node_service \<Rightarrow> node_service" where
  "node_release_run session_id x = x\<lparr>ns_live_sessions := dict_pop session_id (ns_live_sessions x)\<rparr>"

section \<open>Replies about threads\<close>

definition reply_message :: "str \<Rightarrow> request_kind \<Rightarrow> str option \<Rightarrow> reply_payload \<Rightarrow> node_service \<Rightarrow> node_message" where
  "reply_message rid kind err payload x =
     Node_Reply kind
       \<lparr>rp_request_id = rid, rp_node_id = ns_node_id x, rp_ok = (err = None), rp_error = err, rp_payload = payload\<rparr>"

text \<open>\<open>item.get(k)\<close> as a number: a boolean is an \<open>int\<close>.\<close>

definition opaque_int :: "jdict \<Rightarrow> str \<Rightarrow> int option" where
  "opaque_int d k = int_key (jget d k)"

definition codex_thread_list_item :: "(rat \<Rightarrow> str) \<Rightarrow> jdict \<Rightarrow> codex_thread_item result" where
  "codex_thread_list_item fr item =
     (case jstr_nonempty (jor (jor (jget item ''id'') (jget item ''threadId'')) (jget item ''sessionId'')) of
        None \<Rightarrow> Inl (RuntimeError ''Codex thread/list returned a thread without an id.'')
      | Some k \<Rightarrow>
          (let status = (case jget item ''status'' of JObj d \<Rightarrow> jget d ''type'' | v \<Rightarrow> v) in
           Inr \<lparr>ctl_thread_id = k, ctl_session_id = opaque_text fr item ''sessionId'',
                ctl_preview = opaque_text fr item ''preview'', ctl_title = jstr_nonblank (jget item ''name''),
                ctl_cwd = opaque_text fr item ''cwd'', ctl_path = opaque_text fr item ''path'',
                ctl_status = (if status = JNull then None else Some (py_str fr status)),
                ctl_created_at = opaque_int item ''createdAt'', ctl_updated_at = opaque_int item ''updatedAt'',
                ctl_cli_version = opaque_text fr item ''cliVersion'', ctl_source = opaque_text fr item ''source'',
                ctl_diagnostics =
                  [(''forked_from_id'', jget item ''forkedFromId''), (''ephemeral'', jget item ''ephemeral''),
                   (''model_provider'', jget item ''modelProvider''), (''thread_source'', jget item ''threadSource''),
                   (''agent_nickname'', jget item ''agentNickname''), (''agent_role'', jget item ''agentRole''),
                   (''git_info'', jget item ''gitInfo'')]\<rparr>))"

fun codex_thread_list_items :: "(rat \<Rightarrow> str) \<Rightarrow> jdict list \<Rightarrow> codex_thread_item list result" where
  "codex_thread_list_items fr [] = Inr []"
| "codex_thread_list_items fr (d # ds) =
     (case codex_thread_list_item fr d of
        Inl e \<Rightarrow> Inl e
      | Inr i \<Rightarrow> (case codex_thread_list_items fr ds of Inl e \<Rightarrow> Inl e | Inr xs \<Rightarrow> Inr (i # xs)))"

definition thread_item_json :: "codex_thread_item \<Rightarrow> jdict" where
  "thread_item_json i =
     (let num = (\<lambda>v. case v of Some n \<Rightarrow> JInt n | None \<Rightarrow> JNull) in
      [(''thread_id'', JStr (ctl_thread_id i)), (''session_id'', json_of_str (ctl_session_id i)),
       (''preview'', json_of_str (ctl_preview i)), (''title'', json_of_str (ctl_title i)),
       (''cwd'', json_of_str (ctl_cwd i)), (''path'', json_of_str (ctl_path i)), (''status'', json_of_str (ctl_status i)),
       (''created_at'', num (ctl_created_at i)), (''updated_at'', num (ctl_updated_at i)),
       (''cli_version'', json_of_str (ctl_cli_version i)), (''source'', json_of_str (ctl_source i)),
       (''diagnostics'', JObj (ctl_diagnostics i))])"

text \<open>The cwd of a listed thread is what a file of that thread is read in, when nothing else is known.\<close>

definition learn_workspaces :: "codex_thread_item list \<Rightarrow> node_service \<Rightarrow> node_service" where
  "learn_workspaces items x =
     x\<lparr>ns_codex_thread_workspaces :=
         fold (\<lambda>i d. if str_truthy (ctl_cwd i) then dict_put (ctl_thread_id i) (the (ctl_cwd i)) d else d) items
           (ns_codex_thread_workspaces x)\<rparr>"

definition codex_of :: "node_service \<Rightarrow> executor_kind option" where
  "codex_of x = map_of (ns_executors x) ''codex''"

definition node_list_threads ::
    "(rat \<Rightarrow> str) \<Rightarrow> server \<Rightarrow> str \<Rightarrow> int \<Rightarrow> str option \<Rightarrow> node_service \<Rightarrow> node_service" where
  "node_list_threads fr ask rid limit cursor x =
     (let refuse = (\<lambda>err. node_send [reply_message rid RK_THREAD_LIST (Some err) (ThreadsListed [] None None) x] x) in
      if \<not> has_codex_methods (codex_of x) then refuse ''Codex executor does not support thread/list.''
      else
        (case list_threads_page ask limit cursor of
           Inl e \<Rightarrow> refuse (error_text e)
         | Inr p \<Rightarrow>
             (case codex_thread_list_items fr (np_items p) of
                Inl e \<Rightarrow> refuse (error_text e)
              | Inr items \<Rightarrow>
                  (let x1 = learn_workspaces items x in
                   node_send [reply_message rid RK_THREAD_LIST None
                     (ThreadsListed (map thread_item_json items) (np_next_cursor p) (np_previous_cursor p)) x1] x1))))"

definition node_list_turns :: "server \<Rightarrow> str \<Rightarrow> str \<Rightarrow> int \<Rightarrow> str option \<Rightarrow> node_service \<Rightarrow> node_service" where
  "node_list_turns ask rid thread limit cursor x =
     (let answer = (\<lambda>err payload. node_send [reply_message rid RK_TURN_LIST err payload x] x);
          refuse = (\<lambda>err. answer (Some err) (TurnsListed thread [] None None None)) in
      if \<not> has_codex_methods (codex_of x) then refuse ''Codex executor does not support thread/turns/list.''
      else
        (case list_thread_turns_page ask thread limit cursor of
           Inl e \<Rightarrow> refuse (error_text e)
         | Inr p \<Rightarrow> answer None (TurnsListed thread (np_items p) (np_goal p) (np_next_cursor p) (np_previous_cursor p))))"

definition node_read_thread :: "server \<Rightarrow> str \<Rightarrow> str \<Rightarrow> node_service \<Rightarrow> node_service" where
  "node_read_thread ask rid thread x =
     (let answer = (\<lambda>err payload. node_send [reply_message rid RK_THREAD_READ err payload x] x) in
      if \<not> has_codex_methods (codex_of x) then answer (Some ''Codex executor does not support thread/read.'') (ThreadRead [])
      else
        (case read_thread ask thread of
           Inl e \<Rightarrow> answer (Some (error_text e)) (ThreadRead [])
         | Inr d \<Rightarrow> answer None (ThreadRead d)))"

section \<open>Turns that are requested directly\<close>

definition metadata_str :: "jdict \<Rightarrow> str \<Rightarrow> str option" where
  "metadata_str d k = jstr_nonempty (jget d k)"

definition codex_turn_command_metadata :: "start_codex_turn_command \<Rightarrow> jdict \<Rightarrow> jdict" where
  "codex_turn_command_metadata cmd extra =
     (let ins = st_instruction cmd;
          d = dict_merge (dict_merge (st_metadata cmd) extra)
            [(''instruction_id'', JStr (ti_instruction_id ins)), (''target_persona_id'', JStr (st_target_persona_id cmd)),
             (''target_thread_id'', JStr (st_target_thread_id cmd))];
          d1 = (case metadata_str (ti_metadata ins) ''client_request_id'' of
                  Some s \<Rightarrow> dict_put ''client_request_id'' (JStr s) d | None \<Rightarrow> d)
      in case ti_source_audio_instruction_id ins of
           Some s \<Rightarrow> dict_put ''source_audio_instruction_id'' (JStr s) d1 | None \<Rightarrow> d1)"

definition codex_turn_message ::
    "start_codex_turn_command \<Rightarrow> executor_event_type \<Rightarrow> str option \<Rightarrow> str option \<Rightarrow> str option \<Rightarrow> str option \<Rightarrow> jdict \<Rightarrow>
     node_service \<Rightarrow> node_message" where
  "codex_turn_message cmd ty txt thread turn err meta x =
     Codex_Turn_Event
       \<lparr>ct_request_id = st_request_id cmd, ct_node_id = ns_node_id x, ct_executor_type = ''codex'',
        ct_target_persona_id = st_target_persona_id cmd, ct_target_thread_id = st_target_thread_id cmd,
        ct_event_type = executor_event_type_value ty, ct_message = txt, ct_executor_thread_id = thread,
        ct_executor_turn_id = turn, ct_ok = (ty \<noteq> EV_FAILED), ct_error = err, ct_metadata = meta\<rparr>"

definition turn_event_out :: "start_codex_turn_command \<Rightarrow> executor_event \<Rightarrow> node_service \<Rightarrow> node_message" where
  "turn_event_out cmd e x =
     (let meta = codex_turn_command_metadata cmd (ev_metadata e) in
      codex_turn_message cmd (ev_event_type e) (ev_message e)
        (str_or (metadata_str meta ''executor_thread_id'') (metadata_str meta ''thread_id''))
        (str_or (metadata_str meta ''executor_turn_id'') (metadata_str meta ''turn_id''))
        (if ev_event_type e = EV_FAILED then ev_message e else None) meta x)"

definition node_start_codex_turn ::
    "(rat \<Rightarrow> str) \<Rightarrow> server \<Rightarrow> jdict option \<Rightarrow> start_codex_turn_command \<Rightarrow> codex_session result \<Rightarrow> jdict list \<Rightarrow> str list \<Rightarrow>
     node_service \<Rightarrow> node_service" where
  "node_start_codex_turn fr ask final cmd created evs waits x =
     (if \<not> has_codex_methods (codex_of x) then
        (let err = ''Executor '' @ [char_of (39 :: nat)] @ ''codex'' @ [char_of (39 :: nat)] @
               '' does not support start_codex_turn.'' in
         node_send [codex_turn_message cmd EV_FAILED (Some err) None None (Some err) (codex_turn_command_metadata cmd []) x] x)
      else
        node_send (map (\<lambda>e. turn_event_out cmd e x) (fst (start_turn_request fr ask final cmd created evs waits))) x)"

section \<open>Following a thread\<close>

text \<open>The subscription ends: its task is cancelled, and its session is unsubscribed and closed.\<close>

definition node_stop_subscription :: "(rat \<Rightarrow> str) \<Rightarrow> server \<Rightarrow> str \<Rightarrow> node_service \<Rightarrow> str \<times> node_service" where
  "node_stop_subscription fr ask sub x =
     (case map_of (ns_subscriptions x) sub of
        None \<Rightarrow> (''notSubscribed'', x)
      | Some c \<Rightarrow>
          (let x1 = x\<lparr>ns_subscriptions := dict_pop sub (ns_subscriptions x)\<rparr> in
           case sc_session c of
             None \<Rightarrow> (''notLoaded'', x1)
           | Some ref \<Rightarrow>
               (case map_of (xd_sessions (ns_codex x1)) ref of
                  None \<Rightarrow> (''unsubscribed'', x1)
                | Some s \<Rightarrow>
                    (let (res, cx, calls) = unsubscribe_thread ask s (ns_codex x1);
                         x2 = x1\<lparr>ns_codex := (if str_truthy (cx_thread_id s) then close_session ref cx else cx)\<rparr>
                     in case res of
                          Inl e \<Rightarrow> (''error:'' @ error_text e, x2)
                        | Inr d \<Rightarrow> (str_or_else (jstr_nonempty (jget d ''status'')) ''unsubscribed'', x2)))))"

definition subscribed_payload :: "thread_subscription \<Rightarrow> reply_payload" where
  "subscribed_payload sub = ThreadSubscribed (sub\<lparr>ts_workspace_id := None\<rparr>)"

definition node_subscribe :: "(rat \<Rightarrow> str) \<Rightarrow> server \<Rightarrow> str \<Rightarrow> thread_subscription \<Rightarrow> node_service \<Rightarrow> node_service" where
  "node_subscribe fr ask rid sub x =
     (let x1 = snd (node_stop_subscription fr ask (ts_subscription_id sub) x) in
      if \<not> has_codex_methods (codex_of x1) then
        node_send [reply_message rid RK_SUBSCRIBE (Some ''Codex executor does not support selected-thread subscription.'')
          (subscribed_payload sub) x1] x1
      else
        node_send [reply_message rid RK_SUBSCRIBE None (subscribed_payload sub) x1]
          (x1\<lparr>ns_subscriptions := dict_put (ts_subscription_id sub) \<lparr>sc_subscription = sub, sc_session = None\<rparr>
                (ns_subscriptions x1)\<rparr>))"

definition node_unsubscribe :: "(rat \<Rightarrow> str) \<Rightarrow> server \<Rightarrow> str \<Rightarrow> str \<Rightarrow> str \<Rightarrow> node_service \<Rightarrow> node_service" where
  "node_unsubscribe fr ask rid sub thread x =
     (let (status, x1) = node_stop_subscription fr ask sub x in
      node_send [reply_message rid RK_UNSUBSCRIBE None (ThreadUnsubscribed sub thread (Some status)) x1] x1)"

text \<open>The background task of a subscription: the thread is resumed for a session of its own.\<close>

definition node_resume_subscription ::
    "(str \<Rightarrow> str) \<Rightarrow> server \<Rightarrow> str \<Rightarrow> str \<Rightarrow> thread_subscription \<Rightarrow> node_service \<Rightarrow> node_service" where
  "node_resume_subscription workspace ask uid cwd sub x =
     (case subscribe_thread ask (ts_thread_id sub) (codex_session_of uid cwd) (ns_codex x) of
        (Inl e, c) \<Rightarrow>
          x\<lparr>ns_codex := c, ns_subscriptions := dict_pop (ts_subscription_id sub) (ns_subscriptions x)\<rparr>
      | (Inr s, c) \<Rightarrow>
          (let (ref, c1) = new_codex_session s c;
               x1 = x\<lparr>ns_codex := c1,
                      ns_thread_workspaces := (if str_truthy (ts_workspace_id sub)
                         then dict_put (ts_thread_id sub) (workspace (the (ts_workspace_id sub))) (ns_thread_workspaces x)
                         else ns_thread_workspaces x)\<rparr>
           in case map_of (ns_subscriptions x1) (ts_subscription_id sub) of
                None \<Rightarrow> x1\<lparr>ns_codex := close_session ref c1\<rparr>
              | Some k \<Rightarrow>
                  x1\<lparr>ns_subscriptions := dict_put (ts_subscription_id sub) (k\<lparr>sc_session := Some ref\<rparr>) (ns_subscriptions x1)\<rparr>))"

definition node_event_thread_id :: "jdict \<Rightarrow> str option" where
  "node_event_thread_id params =
     (let nested = (\<lambda>k ks. case jget params k of JObj d \<Rightarrow> jstr_nonempty (jor (jget d (hd ks)) (jget d (last ks))) | _ \<Rightarrow> None) in
      case jstr_nonempty (jget params ''threadId'') of
        Some s \<Rightarrow> Some s
      | None \<Rightarrow>
          (case nested ''thread'' [''id'', ''threadId''] of
             Some s \<Rightarrow> Some s
           | None \<Rightarrow>
               (case nested ''turn'' [''threadId''] of
                  Some s \<Rightarrow> Some s
                | None \<Rightarrow> nested ''item'' [''threadId''])))"

definition thread_event_out :: "(rat \<Rightarrow> str) \<Rightarrow> thread_subscription \<Rightarrow> jdict \<Rightarrow> node_service \<Rightarrow> node_message option" where
  "thread_event_out fr sub ev x =
     (let method = py_str fr (jor (jget ev ''method'') (JStr [])); params = as_dict (jget ev ''params'') in
      if method = [] then None
      else if str_or_else (node_event_thread_id params) (ts_thread_id sub) \<noteq> ts_thread_id sub then None
      else Some (Thread_Event
        \<lparr>te_subscription_id = ts_subscription_id sub, te_node_id = ns_node_id x, te_session_id = ts_session_id sub,
         te_target_persona_id = ts_target_persona_id sub, te_target_thread_id = ts_target_thread_id sub,
         te_thread_id = ts_thread_id sub, te_method = method, te_params = params, te_metadata = []\<rparr>))"

text \<open>One event of the thread that is followed.\<close>

definition node_stream_thread_event :: "(rat \<Rightarrow> str) \<Rightarrow> str \<Rightarrow> node_service \<Rightarrow> node_service" where
  "node_stream_thread_event fr sub x =
     (case map_of (ns_subscriptions x) sub of
        None \<Rightarrow> x
      | Some c \<Rightarrow>
          (case sc_session c of
             None \<Rightarrow> x
           | Some ref \<Rightarrow>
               (case map_of (xd_sessions (ns_codex x)) ref of
                  None \<Rightarrow> x
                | Some s \<Rightarrow>
                    (case next_thread_event (cx_session_id s) (ns_codex x) of
                       (Inr (Some ev), cx) \<Rightarrow>
                         (let x1 = x\<lparr>ns_codex := cx\<rparr> in
                          case thread_event_out fr (sc_subscription c) ev x1 of
                            Some msg \<Rightarrow> node_send [msg] x1 | None \<Rightarrow> x1)
                     | (_, cx) \<Rightarrow> x\<lparr>ns_codex := cx\<rparr>))))"

section \<open>Recordings and texts for a run\<close>

text \<open>What was heard in a recording; the duration is a number or null.\<close>

record recording_heard =
  tx_text :: str
  tx_language :: "str option"
  tx_duration :: json
  tx_metadata :: jdict

text \<open>\<open>heard\<close> is \<open>None\<close> when nothing can be transcribed on this node.\<close>

definition heard_text :: "recording_heard result \<Rightarrow> (str \<times> recording_heard) result" where
  "heard_text heard =
     (case heard of
        Inl e \<Rightarrow> Inl e
      | Inr t \<Rightarrow>
          if py_strip (tx_text t) = [] then Inl (RuntimeError ''Audio transcription produced no instruction text.'')
          else Inr (py_strip (tx_text t), t))"

definition node_transcribe :: "str \<Rightarrow> audio_instruction \<Rightarrow> recording_heard result option \<Rightarrow> node_service \<Rightarrow> node_service" where
  "node_transcribe rid audio heard x =
     (let answer = (\<lambda>err words lang. node_send [reply_message rid RK_AUDIO err (AudioTranscribed words lang) x] x) in
      case heard of
        None \<Rightarrow> answer (Some ''Local Whisper transcription is not available on this executor node.'') None None
      | Some h \<Rightarrow>
          (case heard_text h of
             Inl e \<Rightarrow> answer (Some (error_text e)) None None
           | Inr (words, t) \<Rightarrow> answer None (Some words) (tx_language t)))"

text \<open>The live run and session a follow-up is for.\<close>

definition live_target :: "str \<Rightarrow> str \<Rightarrow> node_service \<Rightarrow> (local_run \<times> node_session) option" where
  "live_target run_id session_id x =
     (case (map_of (ns_active_runs x) run_id, map_of (ns_live_sessions x) session_id) of
        (Some c, Some s) \<Rightarrow> Some (c, s)
      | _ \<Rightarrow> None)"

definition session_text :: "node_session \<Rightarrow> node_service \<Rightarrow> str" where
  "session_text s x =
     (case s of
        Acpx_Ref k \<Rightarrow> k
      | Codex_Ref ref \<Rightarrow> (case map_of (xd_sessions (ns_codex x)) ref of Some c \<Rightarrow> cx_session_id c | None \<Rightarrow> []))"

definition quoted_executor :: "str \<Rightarrow> str" where
  "quoted_executor ty = ''Executor '' @ [char_of (39 :: nat)] @ ty @ [char_of (39 :: nat)]"

definition setdefault :: "str \<Rightarrow> json \<Rightarrow> jdict \<Rightarrow> jdict" where
  "setdefault k v d = (if k \<in> set (dict_keys d) then d else d @ [(k, v)])"

text \<open>The events of a handler, with the entries \<open>extra\<close> where the event has none of its own; an exception ends
  them with the event \<open>failed\<close>.\<close>

definition handler_messages ::
    "str \<Rightarrow> str \<Rightarrow> str \<Rightarrow> str \<Rightarrow> jdict \<Rightarrow> (py_error \<Rightarrow> node_message) \<Rightarrow> run_stream \<Rightarrow> node_message list" where
  "handler_messages session_id ty run_id sid extra failed stream =
     map (\<lambda>(e, h). run_event_out session_id ty run_id sid (ev_event_type e) (ev_message e)
        (fold (\<lambda>(k, v). setdefault k v) extra (ev_metadata e)) h) (fst stream) @
     (case snd stream of None \<Rightarrow> [] | Some (e, _) \<Rightarrow> [failed e])"

definition audio_failed :: "str \<Rightarrow> str \<Rightarrow> str \<Rightarrow> audio_instruction \<Rightarrow> str \<Rightarrow> node_message" where
  "audio_failed run_id session_id ty audio err =
     run_event_out session_id ty run_id session_id EV_FAILED (Some err)
       [(''audio_instruction_id'', JStr (ai_audio_instruction_id audio))] None"

definition heard_metadata :: "audio_instruction \<Rightarrow> str \<Rightarrow> recording_heard \<Rightarrow> jdict" where
  "heard_metadata audio words t =
     dict_merge
       [(''source'', JStr ''executor_node_whisper''),
        (''source_audio_instruction_id'', JStr (ai_audio_instruction_id audio)),
        (''target_thread_id'', JStr (str_or_else (ai_target_thread_id audio) [])), (''transcript_text'', JStr words),
        (''transcription_language'', JStr (str_or_else (tx_language t) [])),
        (''transcription_duration_seconds'', jor (tx_duration t) (JInt 0)),
        (''client_request_id'', jget (ai_metadata audio) ''client_request_id'')]
       (tx_metadata t)"

text \<open>\<open>native\<close> is what a handler for recordings yields, where the executor has one; \<open>handle\<close> is the handle of the
  session.\<close>

definition node_dispatch_audio ::
    "str \<Rightarrow> str \<Rightarrow> str \<Rightarrow> audio_instruction \<Rightarrow> recording_heard result option \<Rightarrow> run_stream option \<Rightarrow>
     agent_resume_handle option \<Rightarrow> node_service \<Rightarrow> node_service" where
  "node_dispatch_audio run_id session_id ty audio heard native handle x =
     (let failed = audio_failed run_id session_id ty audio in
      case live_target run_id session_id x of
        None \<Rightarrow> node_send [failed ''No active executor run is available for audio.''] x
      | Some (c, s) \<Rightarrow>
          (let takes_text = has_codex_methods (Some (lr_kind c)) in
           if \<not> takes_text \<and> native = None
           then node_send [failed (quoted_executor ty @ '' does not support audio instructions.'')] x
           else
             (case (if takes_text then heard else None) of
                Some h \<Rightarrow>
                  (case heard_text h of
                     Inl e \<Rightarrow> node_send [failed (error_text e)] x
                   | Inr (words, t) \<Rightarrow>
                       node_send [run_event_out session_id ty run_id (session_text s x) EV_PROGRESS
                         (Some ''Audio instruction transcribed.'') (heard_metadata audio words t) handle] x)
              | None \<Rightarrow>
                  (case native of
                     None \<Rightarrow> node_send [failed ''Local Whisper transcription is not available on this executor node.''] x
                   | Some stream \<Rightarrow>
                       node_send (handler_messages session_id ty run_id (session_text s x)
                         [(''client_request_id'', jget (ai_metadata audio) ''client_request_id''),
                          (''source_audio_instruction_id'', JStr (ai_audio_instruction_id audio))]
                         (\<lambda>e. failed (error_text e)) stream) x))))"

definition text_failed :: "str \<Rightarrow> str \<Rightarrow> str \<Rightarrow> text_instruction \<Rightarrow> str \<Rightarrow> node_message" where
  "text_failed run_id session_id ty ins err =
     run_event_out session_id ty run_id session_id EV_FAILED (Some err)
       [(''instruction_id'', JStr (ti_instruction_id ins)),
        (''client_request_id'', jget (ti_metadata ins) ''client_request_id''),
        (''source'', JStr ''executor_text_instruction'')] None"

definition node_dispatch_text ::
    "str \<Rightarrow> str \<Rightarrow> str \<Rightarrow> text_instruction \<Rightarrow> run_stream \<Rightarrow> node_service \<Rightarrow> node_service" where
  "node_dispatch_text run_id session_id ty ins stream x =
     (let failed = text_failed run_id session_id ty ins in
      case live_target run_id session_id x of
        None \<Rightarrow> node_send [failed ''No active executor run is available for text.''] x
      | Some (c, s) \<Rightarrow>
          if \<not> has_codex_methods (Some (lr_kind c))
          then node_send [failed (quoted_executor ty @ '' does not support text follow-up instructions.'')] x
          else
            node_send (handler_messages session_id ty run_id (session_text s x)
              [(''client_request_id'', jget (ti_metadata ins) ''client_request_id''),
               (''instruction_id'', JStr (ti_instruction_id ins))]
              (\<lambda>e. failed (error_text e)) stream) x)"

section \<open>The answer of the user\<close>

definition session_ref :: "node_session \<Rightarrow> nat option" where
  "session_ref s = (case s of Codex_Ref ref \<Rightarrow> Some ref | Acpx_Ref k \<Rightarrow> None)"

text \<open>Who asked: the Codex session that is live under the session id, else the one of the request that
  started the turn.\<close>

definition resolve_interaction_target :: "supply_response_command \<Rightarrow> node_service \<Rightarrow> nat option" where
  "resolve_interaction_target cmd x =
     (case (if str_truthy (sr_execution_session_id cmd)
            then Option.bind (map_of (ns_live_sessions x) (the (sr_execution_session_id cmd))) session_ref else None) of
        Some ref \<Rightarrow> Some ref
      | None \<Rightarrow>
          if str_truthy (sr_outbound_turn_request_id cmd) \<and> has_codex_methods (codex_of x)
          then map_of (xd_active_runs (ns_codex x)) (the (sr_outbound_turn_request_id cmd)) else None)"

text \<open>\<open>sent\<close> is whether the app-server took the response. The parameters of the request are an object, or
  nothing.\<close>

definition node_supply_response ::
    "(rat \<Rightarrow> str) \<Rightarrow> bool \<Rightarrow> supply_response_command \<Rightarrow> node_service \<Rightarrow> node_service \<times> (json \<times> jdict) list" where
  "node_supply_response fr sent cmd x =
     (case resolve_interaction_target cmd x of
        None \<Rightarrow> (x, [])
      | Some ref \<Rightarrow>
          (let native = sr_native_response cmd;
               method = py_str fr (jor (jget native ''method'') (JStr []))
           in case jor (jget native ''params'') (JObj []) of
                JObj params \<Rightarrow>
                  if \<not> sent then (x, [])
                  else
                    (x\<lparr>ns_codex := on_session ref (\<lambda>s. s\<lparr>cx_live := mark_blocked_resolved (cx_live s)\<rparr>) (ns_codex x)\<rparr>,
                     [(jget native ''request_id'',
                       build_request_response method params (sr_action cmd) (sr_answer_text cmd) (sr_answers cmd))])
              | _ \<Rightarrow> (x, [])))"

section \<open>The connection\<close>

text \<open>Every run, subscription and command that is in progress is dropped; the live sessions stay.\<close>

definition drop_run :: "str \<Rightarrow> node_service \<Rightarrow> node_service" where
  "drop_run run_id x =
     (case map_of (ns_active_runs x) run_id of
        None \<Rightarrow> x
      | Some c \<Rightarrow>
          (let x1 = node_cancel_run run_id ''cancel''
                 (case lr_kind c of
                    Codex_Adapter \<Rightarrow> x\<lparr>ns_codex := deactivate_run run_id (ns_codex x)\<rparr> | Acpx_Adapter \<Rightarrow> x)
           in x1\<lparr>ns_active_runs := dict_pop run_id (ns_active_runs x1)\<rparr>))"

definition node_connection_lost :: "(rat \<Rightarrow> str) \<Rightarrow> server \<Rightarrow> node_service \<Rightarrow> node_service" where
  "node_connection_lost fr ask x =
     (let x1 = fold drop_run (dict_keys (ns_active_runs x)) x in
      fold (\<lambda>k y. snd (node_stop_subscription fr ask k y)) (dict_keys (ns_subscriptions x1)) x1)"

text \<open>The commands that the receiving loop carries out itself, so that it reads no other command meanwhile; the
  others run in the background.\<close>

fun handled_inline :: "node_command \<Rightarrow> bool" where
  "handled_inline (DispatchRun c) = True"
| "handled_inline (DispatchAudio r k ty t a) = True"
| "handled_inline (TranscribeAudio r ty a) = True"
| "handled_inline (DispatchText r k ty t i) = True"
| "handled_inline (CancelRun r k m) = True"
| "handled_inline (SupplyInteractionResponse c) = True"
| "handled_inline _ = False"

text \<open>What an executor offers, as the node registers it. \<open>listens\<close> is whether recordings can be transcribed.\<close>

definition executor_descriptor :: "str \<Rightarrow> executor_node_executor \<Rightarrow> bool \<Rightarrow> executor_node_executor" where
  "executor_descriptor name caps listens =
     caps\<lparr>xe_executor_type := name,
       xe_supports_audio_instruction := (xe_supports_audio_instruction caps \<or> xe_supports_follow_up caps \<and> listens),
       xe_supports_thread_list :=
         (name = ''codex'' \<and> has_codex_methods (kind_of_executor name) \<and> xe_availability_reason caps = None)\<rparr>"

text \<open>The environment of one command: everything that is not the service itself.\<close>

record node_env =
  ne_fr :: "rat \<Rightarrow> str"
  ne_ask :: server
  ne_workspace :: "str \<Rightarrow> str"
  ne_uid :: str
  ne_failed :: "py_error option"
  ne_final :: "jdict option"
  ne_created :: "codex_session result"
  ne_events :: "jdict list"
  ne_waits :: "str list"
  ne_heard :: "recording_heard result option"
  ne_native :: "run_stream option"
  ne_handle :: "agent_resume_handle option"
  ne_stream :: run_stream
  ne_sent :: bool
  ne_files :: file_system
  ne_sha :: "str \<Rightarrow> str"

text \<open>\<open>_handle_message\<close>. An exception of a command that is handled inline breaks the connection.\<close>

fun handle_command :: "node_env \<Rightarrow> node_command \<Rightarrow> node_service \<Rightarrow> unit result \<times> node_service" where
  "handle_command env (DispatchRun cmd) x =
     node_dispatch_run (ne_fr env) (ne_workspace env) (ne_uid env) (ne_failed env) cmd x"
| "handle_command env (DispatchAudio run_id session_id ty task_id audio) x =
     (Inr (), node_dispatch_audio run_id session_id ty audio (ne_heard env) (ne_native env) (ne_handle env) x)"
| "handle_command env (TranscribeAudio rid ty audio) x = (Inr (), node_transcribe rid audio (ne_heard env) x)"
| "handle_command env (DispatchText run_id session_id ty task_id ins) x =
     (Inr (), node_dispatch_text run_id session_id ty ins (ne_stream env) x)"
| "handle_command env (StartCodexTurn cmd) x =
     (Inr (), node_start_codex_turn (ne_fr env) (ne_ask env) (ne_final env) cmd (ne_created env) (ne_events env) (ne_waits env) x)"
| "handle_command env (ListCodexThreads rid workspace limit cursor key direction) x =
     (Inr (), node_list_threads (ne_fr env) (ne_ask env) rid limit cursor x)"
| "handle_command env (ListCodexThreadTurns rid thread limit cursor) x =
     (Inr (), node_list_turns (ne_ask env) rid thread limit cursor x)"
| "handle_command env (ReadCodexThread rid thread) x = (Inr (), node_read_thread (ne_ask env) rid thread x)"
| "handle_command env (ReadWorkspaceFile rid thread executor_thread path) x =
     (Inr (), node_send (map (File_Message rid)
        (read_workspace_file (ne_files env) (ne_sha env) thread executor_thread path x)) x)"
| "handle_command env (SubscribeCodexThread rid sub) x = (Inr (), node_subscribe (ne_fr env) (ne_ask env) rid sub x)"
| "handle_command env (UnsubscribeCodexThread rid sub thread) x =
     (Inr (), node_unsubscribe (ne_fr env) (ne_ask env) rid sub thread x)"
| "handle_command env (CancelRun run_id session_id mode) x = (Inr (), node_cancel_run run_id mode x)"
| "handle_command env (SupplyInteractionResponse cmd) x =
     (Inr (), fst (node_supply_response (ne_fr env) (ne_sent env) cmd x))"

definition node_receive :: "node_env \<Rightarrow> node_command \<Rightarrow> node_service \<Rightarrow> node_service" where
  "node_receive env cmd x =
     (case handle_command env cmd x of
        (Inr _, x1) \<Rightarrow> x1
      | (Inl _, x1) \<Rightarrow> node_connection_lost (ne_fr env) (ne_ask env) x1)"

end
