(* ===== verification/NodeService_Props.thy ===== *)
theory NodeService_Props
  imports NodeService CodexTurns_Props "HOL-Library.Sublist"
begin

text \<open>
  Properties of the service on a node: a file is only read inside the workspace of its thread, every
  request has one reply, which settles the request in the manager, and no two users of the Codex adapter
  share a session.
\<close>

section \<open>Reading files\<close>

lemma concat_byte_blocks: "0 < n \<Longrightarrow> concat (byte_blocks n bs) = bs"
proof (induction n bs rule: byte_blocks.induct)
  case (1 n bs)
  then show ?case by (cases "bs = []") (simp_all add: byte_blocks.simps [of n bs] byte_blocks.simps [of n "[]"])
qed

lemma byte_blocks_size: "list_all (\<lambda>b. b \<noteq> [] \<and> length b \<le> n) (byte_blocks n bs)"
proof (induction n bs rule: byte_blocks.induct)
  case (1 n bs)
  then show ?case by (cases "bs = [] \<or> n = 0") (auto simp: byte_blocks.simps [of n bs])
qed

lemma list_all_take: "list_all P xs \<Longrightarrow> list_all P (take k xs)"
  by (induction xs arbitrary: k) (auto simp: take_Cons split: nat.splits)

lemma concat_take_prefix: "prefix (concat (take k xs)) (concat xs)"
  by (metis append_take_drop_id concat_append prefixI)

lemma path_parents_prefix: "base \<in> set (path_parents file) \<Longrightarrow> prefix base file"
  by (auto simp: path_parents_def take_is_prefix)

lemma resolved_inside:
  assumes "resolve_within_workspace fs path base = Inr file"
  shows "prefix (fs_real fs base) file \<and> fs_exists fs file \<and> fs_is_file fs file"
  using assms path_parents_prefix by (auto simp: resolve_within_workspace_def Let_def split: if_splits)

lemma iter_file_reads:
  assumes "iter_file_bytes fs default_max_bytes chunk_bytes file = (blocks, stop)"
  shows "list_all (\<lambda>b. b \<noteq> [] \<and> length b \<le> chunk_bytes) blocks" "prefix (concat blocks) (fs_bytes fs file)"
    "blocks = [] \<or> fs_size fs file \<le> default_max_bytes"
    "stop = None \<Longrightarrow> concat blocks = fs_bytes fs file \<and> fs_size fs file \<le> default_max_bytes"
proof -
  have pos: "0 < chunk_bytes" by (simp add: chunk_bytes_def)
  have whole: "concat (byte_blocks chunk_bytes (fs_bytes fs file)) = fs_bytes fs file"
    by (rule concat_byte_blocks [OF pos])
  have part: "prefix (concat (take k (byte_blocks chunk_bytes (fs_bytes fs file)))) (fs_bytes fs file)" for k
    using concat_take_prefix [of k "byte_blocks chunk_bytes (fs_bytes fs file)"] whole by simp
  show "list_all (\<lambda>b. b \<noteq> [] \<and> length b \<le> chunk_bytes) blocks"
    using assms byte_blocks_size [of chunk_bytes "fs_bytes fs file"] list_all_take
    by (auto simp: iter_file_bytes_def Let_def split: if_splits option.splits)
  show "prefix (concat blocks) (fs_bytes fs file)"
    using assms part whole by (auto simp: iter_file_bytes_def Let_def split: if_splits option.splits)
  show "blocks = [] \<or> fs_size fs file \<le> default_max_bytes"
    using assms by (auto simp: iter_file_bytes_def split: if_splits)
  show "stop = None \<Longrightarrow> concat blocks = fs_bytes fs file \<and> fs_size fs file \<le> default_max_bytes"
    using assms whole by (auto simp: iter_file_bytes_def Let_def split: if_splits option.splits)
qed

text \<open>A file that may be read for a thread: a regular file below the workspace that the thread is bound to,
  symbolic links resolved on both sides, and not too large.\<close>

definition readable_file :: "file_system \<Rightarrow> str \<Rightarrow> str option \<Rightarrow> node_service \<Rightarrow> str list \<Rightarrow> bool" where
  "readable_file fs thread executor_thread x file \<longleftrightarrow>
     (\<exists>base. workspace_of_thread thread executor_thread x = Some base \<and> prefix (fs_real fs base) file) \<and>
     fs_is_file fs file \<and> fs_size fs file \<le> default_max_bytes"


section \<open>Requests are answered\<close>

fun asked_by :: "node_command \<Rightarrow> (request_kind \<times> str) option" where
  "asked_by (TranscribeAudio rid ty audio) = Some (RK_AUDIO, rid)"
| "asked_by (ListCodexThreads rid workspace limit cursor key direction) = Some (RK_THREAD_LIST, rid)"
| "asked_by (ListCodexThreadTurns rid thread limit cursor) = Some (RK_TURN_LIST, rid)"
| "asked_by (ReadCodexThread rid thread) = Some (RK_THREAD_READ, rid)"
| "asked_by (SubscribeCodexThread rid sub) = Some (RK_SUBSCRIBE, rid)"
| "asked_by (UnsubscribeCodexThread rid sub thread) = Some (RK_UNSUBSCRIBE, rid)"
| "asked_by _ = None"

definition one_reply :: "request_kind \<Rightarrow> str \<Rightarrow> node_service \<Rightarrow> node_service \<Rightarrow> bool" where
  "one_reply kind rid x x' \<longleftrightarrow>
     (\<exists>r. ns_out x' = ns_out x @ [Node_Reply kind r] \<and> rp_request_id r = rid \<and> rp_node_id r = ns_node_id x)"

lemma node_send_out [simp]: "ns_out (node_send msgs x) = ns_out x @ msgs"
  by (simp add: node_send_def)

lemma one_replyI:
  assumes "ns_out y = ns_out x" and "ns_node_id z = ns_node_id x"
  shows "one_reply kind rid x (node_send [reply_message rid kind err payload z] y)"
  using assms by (simp add: one_reply_def reply_message_def)

lemma learn_workspaces_frame [simp]:
  "ns_out (learn_workspaces items x) = ns_out x" "ns_node_id (learn_workspaces items x) = ns_node_id x"
  by (simp_all add: learn_workspaces_def)

lemma stop_subscription_frame:
  "ns_out (snd (node_stop_subscription fr ask sub x)) = ns_out x \<and>
   ns_node_id (snd (node_stop_subscription fr ask sub x)) = ns_node_id x"
  by (simp add: node_stop_subscription_def Let_def split: option.splits prod.splits sum.splits)

lemma request_has_one_reply:
  assumes "asked_by cmd = Some (kind, rid)"
  shows "one_reply kind rid x (snd (handle_command env cmd x))"
proof (cases cmd)
  case (TranscribeAudio r ty audio)
  then show ?thesis
    using assms by (auto simp: node_transcribe_def Let_def intro!: one_replyI split: option.splits sum.splits)
next
  case (ListCodexThreads r workspace limit cursor key direction)
  then show ?thesis
    using assms by (auto simp: node_list_threads_def Let_def intro!: one_replyI split: sum.splits)
next
  case (ListCodexThreadTurns r thread limit cursor)
  then show ?thesis
    using assms by (auto simp: node_list_turns_def Let_def intro!: one_replyI split: sum.splits)
next
  case (ReadCodexThread r thread)
  then show ?thesis
    using assms by (auto simp: node_read_thread_def Let_def intro!: one_replyI split: sum.splits)
next
  case (SubscribeCodexThread r sub)
  then show ?thesis
    using assms stop_subscription_frame by (auto simp: node_subscribe_def Let_def intro!: one_replyI)
next
  case (UnsubscribeCodexThread r sub thread)
  obtain status y where stop: "node_stop_subscription (ne_fr env) (ne_ask env) sub x = (status, y)"
    by (metis prod.collapse)
  then have "ns_out y = ns_out x" "ns_node_id y = ns_node_id x"
    using stop_subscription_frame [of "ne_fr env" "ne_ask env" sub x] by simp_all
  then show ?thesis
    using assms UnsubscribeCodexThread stop by (simp add: node_unsubscribe_def one_replyI)
qed (use assms in simp_all)

text \<open>C35: A request of the control plane is answered once: whatever the app-server, the recording or the executors
  of the node make of it, the node sends exactly one reply, of the kind that was asked for and with
  the id of the request, and this reply settles the future that waits for it in the manager.\<close>

theorem request_is_answered_once:
  assumes "asked_by cmd = Some (kind, rid)"
    and "map_of (nm_requests m) (kind, rid) = Some f" and "map_of (nm_futures m) f = Some FPending"
  shows "\<exists>r. ns_out (snd (handle_command env cmd x)) = ns_out x @ [Node_Reply kind r] \<and>
    rp_request_id r = rid \<and> rp_node_id r = ns_node_id x \<and>
    ack_ok (fst (publish_reply kind r m)) \<and> map_of (nm_futures (snd (publish_reply kind r m))) f = Some (FDone r)"
proof -
  obtain r where r: "ns_out (snd (handle_command env cmd x)) = ns_out x @ [Node_Reply kind r]"
    "rp_request_id r = rid" "rp_node_id r = ns_node_id x"
    using request_has_one_reply [OF assms(1)] by (auto simp: one_reply_def)
  have "ack_ok (fst (publish_reply kind r m)) \<and> map_of (nm_futures (snd (publish_reply kind r m))) f = Some (FDone r)"
    using assms(2,3) r(2) by (simp add: publish_reply_def pop_request_def set_future_def ack_of_def Let_def)
  then show ?thesis using r by blast
qed

definition no_files :: file_system where
  "no_files =
     \<lparr>fs_real = (\<lambda>_. []), fs_exists = (\<lambda>_. False), fs_is_file = (\<lambda>_. False), fs_size = (\<lambda>_. 0), fs_bytes = (\<lambda>_. []),
      fs_error = (\<lambda>_. None)\<rparr>"

definition plain_env :: "str \<Rightarrow> node_env" where
  "plain_env uid =
     \<lparr>ne_fr = (\<lambda>_. []), ne_ask = (\<lambda>_. Inr [(''data'', JList [JObj [(''id'', JStr ''thread'')]])]), ne_workspace = (\<lambda>w. ''/w/'' @ w),
      ne_uid = uid, ne_failed = None, ne_final = None, ne_created = Inl (RuntimeError []), ne_events = [], ne_waits = [],
      ne_heard = None, ne_native = None, ne_handle = None, ne_stream = ([], None), ne_sent = True, ne_files = no_files,
      ne_sha = (\<lambda>_. [])\<rparr>"

definition waiting_manager :: node_manager where
  "waiting_manager =
     (node_manager_init [] registry_empty)\<lparr>nm_requests := [((RK_THREAD_LIST, ''r''), 0)], nm_futures := [(0, FPending)]\<rparr>"

definition list_command :: node_command where
  "list_command = ListCodexThreads ''r'' None 10 None ''updated_at'' ''desc''"

theorem request_is_answered_once_witness:
  "\<exists>r. ns_out (snd (handle_command (plain_env ''1'') list_command (node_service_init ''node'' [''codex'']))) =
       [Node_Reply RK_THREAD_LIST r] \<and>
     map_of (nm_futures (snd (publish_reply RK_THREAD_LIST r waiting_manager))) 0 = Some (FDone r)"
proof -
  have "asked_by list_command = Some (RK_THREAD_LIST, ''r'')" by (simp add: list_command_def)
  moreover have "map_of (nm_requests waiting_manager) (RK_THREAD_LIST, ''r'') = Some 0"
    "map_of (nm_futures waiting_manager) 0 = Some FPending" by (simp_all add: waiting_manager_def)
  ultimately show ?thesis
    using request_is_answered_once [of list_command RK_THREAD_LIST "''r''" waiting_manager 0 "plain_env ''1''"
        "node_service_init ''node'' [''codex'']"]
    by (auto simp: node_service_init_def)
qed

section \<open>Sessions are not shared\<close>

text \<open>Who holds a Codex session: an execution session (\<open>Inl\<close>) or a subscription (\<open>Inr\<close>).\<close>

definition held_session :: "node_service \<Rightarrow> str + str \<Rightarrow> nat option" where
  "held_session x who =
     (case who of
        Inl k \<Rightarrow> Option.bind (map_of (ns_live_sessions x) k) session_ref
      | Inr k \<Rightarrow> Option.bind (map_of (ns_subscriptions x) k) sc_session)"

definition sessions_apart :: "node_service \<Rightarrow> bool" where
  "sessions_apart x \<longleftrightarrow>
     (\<forall>who ref. held_session x who = Some ref \<longrightarrow>
        map_of (xd_sessions (ns_codex x)) ref \<noteq> None \<and> (\<forall>other. held_session x other = Some ref \<longrightarrow> other = who)) \<and>
     (\<forall>ref. map_of (xd_sessions (ns_codex x)) ref \<noteq> None \<longrightarrow> ref < xd_next (ns_codex x))"

definition heap_grows :: "codex_executor \<Rightarrow> codex_executor \<Rightarrow> bool" where
  "heap_grows c c' \<longleftrightarrow>
     dom (map_of (xd_sessions c')) = dom (map_of (xd_sessions c)) \<and> xd_next c \<le> xd_next c'"

lemma heap_grows_refl [simp]: "heap_grows c c"
  by (simp add: heap_grows_def)

lemma heap_grows_trans: "\<lbrakk>heap_grows a b; heap_grows b c\<rbrakk> \<Longrightarrow> heap_grows a c"
  by (simp add: heap_grows_def)

lemma sessions_apart_fewer:
  assumes "sessions_apart x" and "heap_grows (ns_codex x) (ns_codex x')"
    and "\<And>who. held_session x' who = held_session x who \<or> held_session x' who = None"
  shows "sessions_apart x'"
  unfolding sessions_apart_def
proof (intro conjI allI impI)
  fix who ref assume who: "held_session x' who = Some ref"
  then have old: "held_session x who = Some ref" using assms(3) [of who] by simp
  then have "map_of (xd_sessions (ns_codex x)) ref \<noteq> None" using assms(1) by (simp add: sessions_apart_def)
  then show "map_of (xd_sessions (ns_codex x')) ref \<noteq> None"
    using assms(2) unfolding heap_grows_def by (metis domIff)
  fix other assume "held_session x' other = Some ref"
  then have "held_session x other = Some ref" using assms(3) [of other] by simp
  then show "other = who" using assms(1) old unfolding sessions_apart_def by blast
next
  fix ref assume "map_of (xd_sessions (ns_codex x')) ref \<noteq> None"
  then have "map_of (xd_sessions (ns_codex x)) ref \<noteq> None" using assms(2) unfolding heap_grows_def by (metis domIff)
  then have "ref < xd_next (ns_codex x)" using assms(1) by (simp add: sessions_apart_def)
  then show "ref < xd_next (ns_codex x')" using assms(2) by (simp add: heap_grows_def)
qed

text \<open>A new session goes to one holder.\<close>

lemma sessions_apart_new:
  assumes "sessions_apart x" and "heap_grows (ns_codex x) c" and "new_codex_session s c = (ref, ns_codex x')"
    and "\<And>who. held_session x' who = held_session x who \<or> held_session x' who = None \<or>
           who = new \<and> held_session x' who = Some ref"
  shows "sessions_apart x'"
proof -
  have ref: "ref = xd_next c" "ns_codex x' = c\<lparr>xd_next := Suc ref, xd_sessions := dict_put ref s (xd_sessions c)\<rparr>"
    using assms(3) by (auto simp: new_codex_session_def Let_def)
  have fresh: "held_session x who \<noteq> Some ref" for who
  proof
    assume "held_session x who = Some ref"
    then have "ref < xd_next (ns_codex x)" using assms(1) by (auto simp: sessions_apart_def)
    then show False using ref(1) assms(2) by (simp add: heap_grows_def)
  qed
  have kept: "map_of (xd_sessions (ns_codex x')) r \<noteq> None \<longleftrightarrow> r = ref \<or> map_of (xd_sessions (ns_codex x)) r \<noteq> None" for r
    using assms(2) unfolding heap_grows_def by (auto simp: ref(2) dom_def)
  show ?thesis
    unfolding sessions_apart_def
  proof (intro conjI allI impI)
    fix who r assume who: "held_session x' who = Some r"
    show "map_of (xd_sessions (ns_codex x')) r \<noteq> None"
      using assms(1) assms(4) [of who] who kept unfolding sessions_apart_def by auto
    fix other assume other: "held_session x' other = Some r"
    show "other = who"
      using assms(1) assms(4) [of who] assms(4) [of other] who other fresh unfolding sessions_apart_def by fastforce
  next
    fix r assume "map_of (xd_sessions (ns_codex x')) r \<noteq> None"
    then have "r = ref \<or> r < xd_next (ns_codex x)" using kept assms(1) by (auto simp: sessions_apart_def)
    then show "r < xd_next (ns_codex x')" using ref assms(2) by (auto simp: heap_grows_def)
  qed
qed

text \<open>The operations of the Codex adapter keep its sessions.\<close>

lemma heap_on_session [simp]: "heap_grows c (on_session ref f c)"
  by (auto simp: heap_grows_def on_session_def dom_def split: option.splits)

lemma heap_runs [simp]:
  "heap_grows c (activate_run r ref c)" "heap_grows c (deactivate_run r c)" "heap_grows c (close_session ref c)"
  by (simp_all add: activate_run_def deactivate_run_def close_session_def) (simp_all add: heap_grows_def)

lemma heap_cancel [simp]: "heap_grows c (codex_cancel_run r c)" "heap_grows c (codex_pause_run r c)"
proof -
  show cancel: "heap_grows c (codex_cancel_run r c)"
    using heap_grows_trans [OF heap_runs(2) heap_runs(3)] by (auto simp: codex_cancel_run_def split: option.splits)
  then show "heap_grows c (codex_pause_run r c)" by (simp add: codex_pause_run_def)
qed

lemma heap_unsubscribe [simp]: "heap_grows c (fst (snd (unsubscribe_thread ask s c)))"
  by (simp add: heap_grows_def unsubscribe_thread_def Let_def)

lemma heap_subscribe [simp]: "heap_grows c (snd (subscribe_thread ask k s c))"
  by (simp add: heap_grows_def subscribe_thread_def subscribe_queue_def Let_def split: sum.splits)

lemma heap_put_event [simp]: "xd_sessions (put_event q ev c) = xd_sessions c"
  by (simp add: put_event_def)

lemma heap_put_events: "xd_sessions (fold (\<lambda>(k', q). if k' = k then put_event q ev else id) vs c) = xd_sessions c"
  by (induction vs arbitrary: c) auto

lemma heap_router [simp]: "heap_grows c (router_next a c)"
proof (cases a)
  case (Op_Event ev)
  then show ?thesis
    by (simp add: heap_grows_def router_next_def route_app_event_def route_to_threads_def route_to_turn_def heap_put_events
        put_events_reads split: option.splits)
qed (auto simp: heap_grows_def router_next_def register_turn_queue_def unregister_turn_queue_def take_event_def
      subscribe_queue_def unsubscribe_thread_def close_app_session_def Let_def split: list.splits)

lemma heap_next_event [simp]: "heap_grows c (snd (next_thread_event k c))"
  by (auto simp: heap_grows_def next_thread_event_def take_event_def split: option.splits list.splits)

text \<open>What each part of the service does to the holders.\<close>

lemma held_send [simp]: "held_session (node_send msgs x) = held_session x" "ns_codex (node_send msgs x) = ns_codex x"
  by (simp_all add: held_session_def fun_eq_iff node_send_def split: sum.splits)

lemma apart_send [simp]: "sessions_apart (node_send msgs x) = sessions_apart x"
  by (simp add: sessions_apart_def)

definition keeps_sessions :: "node_service \<Rightarrow> node_service \<Rightarrow> bool" where
  "keeps_sessions x x' \<longleftrightarrow>
     heap_grows (ns_codex x) (ns_codex x') \<and>
     (\<forall>who. held_session x' who = held_session x who \<or> held_session x' who = None)"

lemma keeps_apart: "\<lbrakk>sessions_apart x; keeps_sessions x x'\<rbrakk> \<Longrightarrow> sessions_apart x'"
  by (rule sessions_apart_fewer [of x x']) (auto simp: keeps_sessions_def)

lemma keeps_refl [simp]: "keeps_sessions x x"
  by (simp add: keeps_sessions_def)

lemma keeps_trans: "\<lbrakk>keeps_sessions x y; keeps_sessions y z\<rbrakk> \<Longrightarrow> keeps_sessions x z"
  unfolding keeps_sessions_def by (metis heap_grows_trans)

lemma keeps_fold: "(\<And>k y. keeps_sessions y (f k y)) \<Longrightarrow> keeps_sessions x (fold f ks x)"
  by (induction ks arbitrary: x) (auto intro: keeps_trans)

lemma keeps_sendI: "keeps_sessions x y \<Longrightarrow> keeps_sessions x (node_send msgs y)"
  by (simp add: keeps_sessions_def)

lemma keeps_frameI:
  "\<lbrakk>heap_grows (ns_codex x) (ns_codex x'); ns_live_sessions x' = ns_live_sessions x; ns_subscriptions x' = ns_subscriptions x\<rbrakk>
   \<Longrightarrow> keeps_sessions x x'"
  by (simp add: keeps_sessions_def held_session_def split: sum.splits)

lemma keeps_popI:
  "\<lbrakk>heap_grows (ns_codex x) (ns_codex x'); ns_live_sessions x' = dict_pop k (ns_live_sessions x) \<or> ns_live_sessions x' = ns_live_sessions x;
    ns_subscriptions x' = dict_pop j (ns_subscriptions x) \<or> ns_subscriptions x' = ns_subscriptions x\<rbrakk> \<Longrightarrow> keeps_sessions x x'"
  by (auto simp: keeps_sessions_def held_session_def split: sum.splits if_splits)

lemma keeps_stop: "keeps_sessions x (snd (node_stop_subscription fr ask sub x))"
proof (cases "map_of (ns_subscriptions x) sub")
  case None
  then show ?thesis by (simp add: node_stop_subscription_def)
next
  case (Some c)
  have "heap_grows (ns_codex x) (ns_codex (snd (node_stop_subscription fr ask sub x)))"
  proof (cases "sc_session c")
    case None
    then show ?thesis using Some by (simp add: node_stop_subscription_def Let_def)
  next
    case ref: (Some ref)
    show ?thesis
    proof (cases "map_of (xd_sessions (ns_codex x)) ref")
      case None
      then show ?thesis using Some ref by (simp add: node_stop_subscription_def Let_def)
    next
      case session: (Some s)
      obtain res cx calls where un: "unsubscribe_thread ask s (ns_codex x) = (res, cx, calls)" by (metis prod.collapse)
      then have cx: "heap_grows (ns_codex x) cx" using heap_unsubscribe [of "ns_codex x" ask s] by simp
      have "ns_codex (snd (node_stop_subscription fr ask sub x)) = (if str_truthy (cx_thread_id s) then close_session ref cx else cx)"
        using Some ref session un by (simp add: node_stop_subscription_def Let_def split: sum.splits)
      then show ?thesis using cx heap_grows_trans [OF cx heap_runs(3)] by simp
    qed
  qed
  moreover have "ns_live_sessions (snd (node_stop_subscription fr ask sub x)) = ns_live_sessions x"
    "ns_subscriptions (snd (node_stop_subscription fr ask sub x)) = dict_pop sub (ns_subscriptions x)"
    using Some by (simp_all add: node_stop_subscription_def Let_def split: option.splits prod.splits sum.splits)
  ultimately show ?thesis by (intro keeps_popI [where j = sub]) simp_all
qed

lemma keeps_cancel: "keeps_sessions x (node_cancel_run r mode x)"
  by (rule keeps_frameI) (simp_all add: node_cancel_run_def split: option.splits executor_kind.splits)

lemma keeps_drop: "keeps_sessions x (drop_run r x)"
proof (cases "map_of (ns_active_runs x) r")
  case None
  then show ?thesis by (simp add: drop_run_def)
next
  case (Some c)
  let ?y = "case lr_kind c of Codex_Adapter \<Rightarrow> x\<lparr>ns_codex := deactivate_run r (ns_codex x)\<rparr> | Acpx_Adapter \<Rightarrow> x"
  have "keeps_sessions x ?y" by (rule keeps_frameI) (simp_all split: executor_kind.splits)
  moreover have "keeps_sessions ?y (node_cancel_run r ''cancel'' ?y)" by (rule keeps_cancel)
  moreover have "drop_run r x = (node_cancel_run r ''cancel'' ?y)\<lparr>ns_active_runs := dict_pop r (ns_active_runs (node_cancel_run r ''cancel'' ?y))\<rparr>"
    using Some by (simp add: drop_run_def Let_def)
  moreover have "keeps_sessions z (z\<lparr>ns_active_runs := d\<rparr>)" for z d by (rule keeps_frameI) simp_all
  ultimately show ?thesis by (simp only:) (rule keeps_trans, rule keeps_trans)
qed

lemma keeps_lost: "keeps_sessions x (node_connection_lost fr ask x)"
  unfolding node_connection_lost_def Let_def
  by (rule keeps_trans [OF keeps_fold keeps_fold]) (simp_all add: keeps_drop keeps_stop)

lemma keeps_supply: "keeps_sessions x (fst (node_supply_response fr sent cmd x))"
  by (rule keeps_frameI) (simp_all add: node_supply_response_def Let_def split: option.splits json.splits)

lemma hydrate_reads:
  "ns_live_sessions (node_hydrate_handle fr s h x) = ns_live_sessions x"
  "ns_subscriptions (node_hydrate_handle fr s h x) = ns_subscriptions x"
  "heap_grows (ns_codex x) (ns_codex (node_hydrate_handle fr s h x))"
  by (simp_all add: node_hydrate_handle_def split: option.splits node_session.splits)

lemma apart_create:
  assumes ok: "sessions_apart x" and made: "node_create_session kind uid cwd x = (s, x1)"
    and x2: "x2 = node_hydrate_handle fr s h x1"
  shows "sessions_apart (x2\<lparr>ns_live_sessions := dict_put k s (ns_live_sessions x2)\<rparr>)"
proof (cases kind)
  case Codex_Adapter
  obtain ref c where new: "new_codex_session (codex_session_of uid cwd) (ns_codex x) = (ref, c)" by (metis prod.collapse)
  have s: "s = Codex_Ref ref" "x1 = x\<lparr>ns_codex := c\<rparr>" using made new Codex_Adapter by (simp_all add: node_create_session_def)
  let ?y = "x\<lparr>ns_codex := c, ns_live_sessions := dict_put k s (ns_live_sessions x)\<rparr>"
  have "sessions_apart ?y"
    by (rule sessions_apart_new [OF ok, where new = "Inl k" and ref = ref])
      (use new s in \<open>auto simp: held_session_def session_ref_def split: sum.splits\<close>)
  moreover have "keeps_sessions ?y (x2\<lparr>ns_live_sessions := dict_put k s (ns_live_sessions x2)\<rparr>)"
    using hydrate_reads [where x = x1] by (intro keeps_frameI) (simp_all add: x2 s(2))
  ultimately show ?thesis by (rule keeps_apart)
next
  case Acpx_Adapter
  then have s: "s = Acpx_Ref uid" "x1 = x" using made by (simp_all add: node_create_session_def)
  have "keeps_sessions x (x2\<lparr>ns_live_sessions := dict_put k s (ns_live_sessions x2)\<rparr>)"
    using hydrate_reads [where x = x]
    by (auto simp: keeps_sessions_def held_session_def session_ref_def x2 s split: sum.splits)
  then show ?thesis using ok by (rule keeps_apart [rotated])
qed

lemma apart_ensure:
  assumes "sessions_apart x"
  shows "sessions_apart (snd (node_ensure_session fr workspace uid failed kind cmd x))"
proof -
  obtain s x1 where made: "node_create_session kind uid (workspace (str_or_else (dr_workspace_id cmd) (dr_task_id cmd))) x = (s, x1)"
    by (metis prod.collapse)
  show ?thesis
    using assms apart_create [OF assms made refl]
    by (simp add: node_ensure_session_def made Let_def split: option.splits)
qed

lemma apart_dispatch:
  assumes "sessions_apart x"
  shows "sessions_apart (snd (node_dispatch_run fr workspace uid failed cmd x))"
proof (cases "map_of (ns_executors x) (dr_executor_type cmd)")
  case None
  then show ?thesis using assms by (simp add: node_dispatch_run_def)
next
  case (Some kind)
  obtain r x1 where ens: "node_ensure_session fr workspace uid failed kind cmd x = (r, x1)" by (metis prod.collapse)
  have x1: "sessions_apart x1" using apart_ensure [OF assms, of fr workspace uid failed kind cmd] ens by simp
  have "keeps_sessions x1 (x1\<lparr>ns_active_runs := d\<rparr>)" for d by (rule keeps_frameI) simp_all
  then show ?thesis
    using Some ens x1 keeps_apart by (auto simp: node_dispatch_run_def split: sum.splits)
qed

lemma apart_subscribe:
  assumes "sessions_apart x"
  shows "sessions_apart (node_subscribe fr ask rid sub x)"
proof -
  let ?x1 = "snd (node_stop_subscription fr ask (ts_subscription_id sub) x)"
  have x1: "sessions_apart ?x1" using keeps_apart [OF assms keeps_stop] .
  have "keeps_sessions ?x1 (?x1\<lparr>ns_subscriptions := dict_put k \<lparr>sc_subscription = sub, sc_session = None\<rparr> (ns_subscriptions ?x1)\<rparr>)" for k
    by (auto simp: keeps_sessions_def held_session_def split: sum.splits)
  then show ?thesis using x1 keeps_apart [OF x1] by (simp add: node_subscribe_def Let_def)
qed

lemma apart_resume:
  assumes ok: "sessions_apart x"
  shows "sessions_apart (node_resume_subscription workspace ask uid cwd sub x)"
proof -
  obtain r c where sub: "subscribe_thread ask (ts_thread_id sub) (codex_session_of uid cwd) (ns_codex x) = (r, c)"
    by (metis prod.collapse)
  have c: "heap_grows (ns_codex x) c"
    using heap_subscribe [of "ns_codex x" ask "ts_thread_id sub" "codex_session_of uid cwd"] sub by simp
  show ?thesis
  proof (cases r)
    case (Inl e)
    have "keeps_sessions x (node_resume_subscription workspace ask uid cwd sub x)"
      by (rule keeps_popI [where j = "ts_subscription_id sub"]) (use sub Inl c in \<open>simp_all add: node_resume_subscription_def\<close>)
    then show ?thesis by (rule keeps_apart [OF ok])
  next
    case (Inr s)
    obtain ref c1 where new: "new_codex_session s c = (ref, c1)" by (metis prod.collapse)
    let ?ws = "if str_truthy (ts_workspace_id sub)
      then dict_put (ts_thread_id sub) (workspace (the (ts_workspace_id sub))) (ns_thread_workspaces x) else ns_thread_workspaces x"
    let ?x1 = "x\<lparr>ns_codex := c1, ns_thread_workspaces := ?ws\<rparr>"
    show ?thesis
    proof (cases "map_of (ns_subscriptions x) (ts_subscription_id sub)")
      case None
      have "sessions_apart ?x1"
        by (rule sessions_apart_new [OF ok c, where new = "Inl []" and ref = ref])
          (use new in \<open>auto simp: held_session_def split: sum.splits\<close>)
      moreover have "keeps_sessions ?x1 (?x1\<lparr>ns_codex := close_session ref c1\<rparr>)" by (rule keeps_frameI) simp_all
      moreover have "node_resume_subscription workspace ask uid cwd sub x = ?x1\<lparr>ns_codex := close_session ref c1\<rparr>"
        using sub Inr new None by (simp add: node_resume_subscription_def Let_def)
      ultimately show ?thesis using keeps_apart by metis
    next
      case (Some k)
      let ?y = "?x1\<lparr>ns_subscriptions := dict_put (ts_subscription_id sub) (k\<lparr>sc_session := Some ref\<rparr>) (ns_subscriptions x)\<rparr>"
      have "sessions_apart ?y"
        by (rule sessions_apart_new [OF ok c, where new = "Inr (ts_subscription_id sub)" and ref = ref])
          (use new in \<open>auto simp: held_session_def split: sum.splits\<close>)
      moreover have "node_resume_subscription workspace ask uid cwd sub x = ?y"
        using sub Inr new Some by (simp add: node_resume_subscription_def Let_def)
      ultimately show ?thesis by simp
    qed
  qed
qed

lemma keeps_thread_event: "keeps_sessions x (node_stream_thread_event fr sub x)"
proof (cases "Option.bind (map_of (ns_subscriptions x) sub) sc_session")
  case None
  then show ?thesis by (auto simp: node_stream_thread_event_def split: option.splits)
next
  case (Some ref)
  then obtain c where c: "map_of (ns_subscriptions x) sub = Some c" "sc_session c = Some ref" by (auto split: bind_splits)
  show ?thesis
  proof (cases "map_of (xd_sessions (ns_codex x)) ref")
    case None
    then show ?thesis using c by (simp add: node_stream_thread_event_def)
  next
    case session: (Some s)
    obtain r cx where ev: "next_thread_event (cx_session_id s) (ns_codex x) = (r, cx)" by (metis prod.collapse)
    then have "heap_grows (ns_codex x) cx" using heap_next_event [of "ns_codex x" "cx_session_id s"] by simp
    then have "keeps_sessions x (x\<lparr>ns_codex := cx\<rparr>)" by (intro keeps_frameI) simp_all
    then show ?thesis
      using c session ev keeps_sendI
      by (auto simp: node_stream_thread_event_def Let_def split: sum.splits option.splits)
  qed
qed

lemma keeps_finish: "keeps_sessions x (run_dispatch cmd s sid stream x)"
proof -
  have "keeps_sessions y (finish_dispatch r k s y)" for y r k
    by (rule keeps_popI [where k = k]) (simp_all add: finish_dispatch_def Let_def)
  then show ?thesis unfolding run_dispatch_def using keeps_trans [OF keeps_sendI [OF keeps_refl]] by blast
qed

lemma apart_command:
  assumes "sessions_apart x"
  shows "sessions_apart (snd (handle_command env cmd x))"
proof (cases cmd)
  case (DispatchRun c)
  then show ?thesis using apart_dispatch [OF assms] by simp
next
  case (SubscribeCodexThread rid sub)
  then show ?thesis using apart_subscribe [OF assms] by simp
next
  case (UnsubscribeCodexThread rid sub thread)
  obtain status y where "node_stop_subscription (ne_fr env) (ne_ask env) sub x = (status, y)" by (metis prod.collapse)
  then show ?thesis
    using keeps_apart [OF assms keeps_stop [of x "ne_fr env" "ne_ask env" sub]] UnsubscribeCodexThread
    by (simp add: node_unsubscribe_def)
next
  case (ListCodexThreads rid workspace limit cursor key direction)
  have "keeps_sessions x (learn_workspaces items x)" for items by (rule keeps_frameI) (simp_all add: learn_workspaces_def)
  then show ?thesis
    using assms keeps_apart [OF assms] ListCodexThreads by (auto simp: node_list_threads_def Let_def split: sum.splits)
next
  case (CancelRun r k mode)
  then show ?thesis using keeps_apart [OF assms keeps_cancel] by simp
next
  case (SupplyInteractionResponse c)
  then show ?thesis using keeps_apart [OF assms keeps_supply] by simp
qed (use assms in \<open>auto simp: node_dispatch_audio_def node_transcribe_def node_dispatch_text_def node_start_codex_turn_def
      node_list_turns_def node_read_thread_def Let_def split: option.splits sum.splits prod.splits\<close>)

text \<open>Everything that happens on a node: commands, the background tasks of runs and subscriptions, the events of
  the app-server and the queues of turns, what executors do with their sessions and runs, and the loss
  of the connection.\<close>

datatype node_op =
    No_Command node_env node_command
  | No_Run dispatch_run_command node_session str run_stream
  | No_Resume node_env str thread_subscription
  | No_Thread_Event node_env str
  | No_Router router_op
  | No_Activate str nat
  | No_Deactivate str
  | No_Session nat codex_session
  | No_Release str
  | No_Lost node_env

fun node_next :: "node_op \<Rightarrow> node_service \<Rightarrow> node_service" where
  "node_next (No_Command env cmd) x = node_receive env cmd x"
| "node_next (No_Run cmd s sid stream) x = run_dispatch cmd s sid stream x"
| "node_next (No_Resume env cwd sub) x = node_resume_subscription (ne_workspace env) (ne_ask env) (ne_uid env) cwd sub x"
| "node_next (No_Thread_Event env sub) x = node_stream_thread_event (ne_fr env) sub x"
| "node_next (No_Router a) x = x\<lparr>ns_codex := router_next a (ns_codex x)\<rparr>"
| "node_next (No_Activate r ref) x = x\<lparr>ns_codex := activate_run r ref (ns_codex x)\<rparr>"
| "node_next (No_Deactivate r) x = x\<lparr>ns_codex := deactivate_run r (ns_codex x)\<rparr>"
| "node_next (No_Session ref s) x = x\<lparr>ns_codex := on_session ref (\<lambda>_. s) (ns_codex x)\<rparr>"
| "node_next (No_Release k) x = node_release_run k x"
| "node_next (No_Lost env) x = node_connection_lost (ne_fr env) (ne_ask env) x"

lemma apart_next:
  assumes "sessions_apart x"
  shows "sessions_apart (node_next a x)"
proof (cases a)
  case (No_Command env cmd)
  obtain r y where h: "handle_command env cmd x = (r, y)" by (metis prod.collapse)
  then have "sessions_apart y" using apart_command [OF assms, of env cmd] by simp
  then show ?thesis
    using No_Command h keeps_apart [OF _ keeps_lost] by (auto simp: node_receive_def split: sum.splits)
next
  case (No_Run cmd s sid stream)
  then show ?thesis using keeps_apart [OF assms keeps_finish] by simp
next
  case (No_Resume env cwd sub)
  then show ?thesis using apart_resume [OF assms] by simp
next
  case (No_Thread_Event env sub)
  then show ?thesis using keeps_apart [OF assms keeps_thread_event] by simp
next
  case (No_Release k)
  have "keeps_sessions x (node_release_run k x)"
    by (rule keeps_popI [where k = k]) (simp_all add: node_release_run_def)
  then show ?thesis using No_Release keeps_apart [OF assms] by simp
next
  case (No_Lost env)
  then show ?thesis using keeps_apart [OF assms keeps_lost] by simp
qed (auto intro!: keeps_apart [OF assms] keeps_frameI)

lemma apart_run: "sessions_apart x \<Longrightarrow> sessions_apart (fold node_next ops x)"
  by (induction ops arbitrary: x) (simp_all add: apart_next)

lemma apart_init: "sessions_apart (node_service_init node enabled)"
  by (simp add: sessions_apart_def held_session_def node_service_init_def codex_executor_init_def split: sum.splits)

lemma supply_touches_target:
  assumes "held_session x who = Some ref" and "resolve_interaction_target cmd x \<noteq> Some ref"
  shows "map_of (xd_sessions (ns_codex (fst (node_supply_response fr sent cmd x)))) ref = map_of (xd_sessions (ns_codex x)) ref"
  using assms by (auto simp: node_supply_response_def on_session_def Let_def split: option.splits json.splits)


definition run_for :: "str \<Rightarrow> str \<Rightarrow> node_op" where
  "run_for r k =
     No_Command (plain_env r)
       (DispatchRun \<lparr>dr_run_id = r, dr_execution_session_id = k, dr_executor_type = ''codex'', dr_task_id = r, dr_title = [],
          dr_goal = [], dr_latest_instruction = None, dr_workspace_id = None, dr_task_metadata = [],
          dr_latest_resume_handle = None\<rparr>)"

definition two_runs :: node_service where
  "two_runs = fold node_next [run_for ''r1'' ''k1'', run_for ''r2'' ''k2''] (node_service_init ''node'' [''codex''])"

definition approve_first :: supply_response_command where
  "approve_first =
     \<lparr>sr_interaction_request_id = ''i'', sr_execution_session_id = Some ''k1'', sr_run_id = Some ''r1'',
      sr_outbound_turn_request_id = None, sr_action = ''approve'', sr_answer_text = None, sr_answers = None,
      sr_native_response = [(''request_id'', JInt 7), (''method'', JStr ''execCommandApproval'')]\<rparr>"


end
