(* ===== verification/Acpx.thy ===== *)
theory Acpx
  imports NodeService
begin

text \<open>
  The ACPX adapter (\<open>src/newbro/executors/adapters/acpx/\<close>): the commands it runs, its sessions and their
  resume handles, the events in the lines that the agent prints, and what they become. What a process
  prints and how it ends are arguments; \<open>parse\<close> is \<open>json.loads\<close>, \<open>argv\<close> the command split by the shell's
  rules, and \<open>resolve\<close> is \<open>Path(...).resolve()\<close>.
\<close>

section \<open>Sessions\<close>

record acpx_session =
  ax_session_id :: str
  ax_cwd :: str
  ax_session_name :: str
  ax_agent :: str
  ax_record_id :: "str option"
  ax_acp_session_id :: "str option"
  ax_agent_session_id :: "str option"
  ax_metadata :: jdict

definition acpx_create_session :: "(str \<Rightarrow> str) \<Rightarrow> str \<Rightarrow> str \<Rightarrow> str \<Rightarrow> acpx_session" where
  "acpx_create_session resolve uid agent workspace =
     (let name = ''newbro-'' @ uid; cwd = resolve workspace in
      \<lparr>ax_session_id = name, ax_cwd = cwd, ax_session_name = name, ax_agent = agent, ax_record_id = None,
       ax_acp_session_id = None, ax_agent_session_id = None,
       ax_metadata = [(''cwd'', JStr cwd), (''session_name'', JStr name), (''agent'', JStr agent)]\<rparr>)"

definition acpx_note :: "str \<Rightarrow> str \<Rightarrow> acpx_session \<Rightarrow> acpx_session" where
  "acpx_note k v s = s\<lparr>ax_metadata := dict_put k (JStr v) (ax_metadata s)\<rparr>"

definition update_identity :: "str option \<Rightarrow> str option \<Rightarrow> str option \<Rightarrow> acpx_session \<Rightarrow> acpx_session" where
  "update_identity record_id acp_id agent_id s =
     (let s1 = (case record_id of Some v \<Rightarrow> acpx_note ''acpx_record_id'' v (s\<lparr>ax_record_id := Some v\<rparr>) | None \<Rightarrow> s);
          s2 = (case acp_id of Some v \<Rightarrow> acpx_note ''acp_session_id'' v (s1\<lparr>ax_acp_session_id := Some v\<rparr>) | None \<Rightarrow> s1)
      in case agent_id of
           Some v \<Rightarrow> acpx_note ''agent_session_id'' v (s2\<lparr>ax_agent_session_id := Some v\<rparr>) | None \<Rightarrow> s2)"

text \<open>The values are those that the service passes on (\<open>Acpx_Hydrate\<close>): cwd, session name, agent, record, and
  the ids of the agent's sessions.\<close>

definition acpx_hydrate :: "(str \<Rightarrow> str) \<Rightarrow> str option list \<Rightarrow> acpx_session \<Rightarrow> acpx_session" where
  "acpx_hydrate resolve values s =
     (let s1 = (if str_truthy (values ! 0)
                then acpx_note ''cwd'' (resolve (the (values ! 0))) (s\<lparr>ax_cwd := resolve (the (values ! 0))\<rparr>) else s);
          s2 = (if str_truthy (values ! 1)
                then acpx_note ''session_name'' (the (values ! 1))
                       (s1\<lparr>ax_session_name := the (values ! 1), ax_session_id := the (values ! 1)\<rparr>) else s1);
          s3 = (if str_truthy (values ! 2)
                then acpx_note ''agent'' (the (values ! 2)) (s2\<lparr>ax_agent := the (values ! 2)\<rparr>) else s2)
      in update_identity (values ! 3) (values ! 4) (values ! 5) s3)"

definition acpx_handle_of :: "acpx_session \<Rightarrow> agent_resume_handle option" where
  "acpx_handle_of s =
     (if \<not> str_truthy (ax_record_id s) then None
      else Some
        \<lparr>h_executor_id = ''acpx'', h_session_handle = ax_record_id s, h_turn_handle = None,
         h_opaque =
           [(''agent'', JStr (ax_agent s)), (''cwd'', JStr (ax_cwd s)), (''sessionName'', JStr (ax_session_name s)),
            (''acpSessionId'', json_of_str (ax_acp_session_id s)),
            (''agentSessionId'', json_of_str (ax_agent_session_id s))]\<rparr>)"

section \<open>Commands\<close>

record acpx_config =
  ac_argv :: "str list"
  ac_permission_mode :: str
  ac_non_interactive :: str
  ac_timeout :: "rat option"

definition format_timeout_seconds :: "(rat \<Rightarrow> str) \<Rightarrow> rat \<Rightarrow> str" where
  "format_timeout_seconds fr value = (if of_int (floor value) = value then py_of_int (floor value) else fr value)"

definition build_base_command :: "(rat \<Rightarrow> str) \<Rightarrow> acpx_config \<Rightarrow> str \<Rightarrow> str list result" where
  "build_base_command fr c cwd =
     (if ac_argv c = [] then Inl (RuntimeError ''ACPX command is empty.'')
      else Inr (ac_argv c @ [''--cwd'', cwd, ''--format'', ''json'', ''--json-strict''] @
        (if ac_permission_mode c = ''approve-all'' then [''--approve-all'']
         else if ac_permission_mode c = ''approve-reads'' then [''--approve-reads'']
         else if ac_permission_mode c = ''deny-all'' then [''--deny-all''] else []) @
        (if ac_non_interactive c \<noteq> [] then [''--non-interactive-permissions'', ac_non_interactive c] else []) @
        (case ac_timeout c of Some v \<Rightarrow> [''--timeout'', format_timeout_seconds fr v] | None \<Rightarrow> [])))"

definition with_base :: "(rat \<Rightarrow> str) \<Rightarrow> acpx_config \<Rightarrow> acpx_session \<Rightarrow> str list \<Rightarrow> str list result" where
  "with_base fr c s words =
     (case build_base_command fr c (ax_cwd s) of Inl e \<Rightarrow> Inl e | Inr base \<Rightarrow> Inr (base @ words))"

definition acpx_prompt_command :: "(rat \<Rightarrow> str) \<Rightarrow> acpx_config \<Rightarrow> acpx_session \<Rightarrow> str list result" where
  "acpx_prompt_command fr c s = with_base fr c s [ax_agent s, ''prompt'', ''-s'', ax_session_name s, ''--file'', ''-'']"

definition acpx_ensure_command :: "(rat \<Rightarrow> str) \<Rightarrow> acpx_config \<Rightarrow> acpx_session \<Rightarrow> str list result" where
  "acpx_ensure_command fr c s = with_base fr c s [ax_agent s, ''sessions'', ''ensure'', ''--name'', ax_session_name s]"

definition acpx_cancel_command ::
    "(rat \<Rightarrow> str) \<Rightarrow> acpx_config \<Rightarrow> str \<Rightarrow> (str, acpx_session) dict \<Rightarrow> str list result option" where
  "acpx_cancel_command fr c run_id active =
     map_option (\<lambda>s. with_base fr c s [ax_agent s, ''cancel'', ''-s'', ax_session_name s]) (map_of active run_id)"

text \<open>A process that has ended: return code, output, error output.\<close>

definition simple_command_output :: "int \<Rightarrow> str \<Rightarrow> str \<Rightarrow> str result" where
  "simple_command_output code out err =
     (if code = 0 then Inr out
      else Inl (RuntimeError
        (if py_strip err \<noteq> [] then py_strip err
         else if py_strip out \<noteq> [] then py_strip out else ''acpx command failed with '' @ py_of_int code @ ''.'')))"

definition last_json_object :: "(str \<Rightarrow> json option) \<Rightarrow> str \<Rightarrow> jdict option" where
  "last_json_object parse out =
     (let objects = List.map_filter (\<lambda>l. if py_strip l = [] then None else Option.bind (parse (py_strip l)) jobj) (py_splitlines out)
      in if objects = [] then None else Some (last objects))"

definition optional_trimmed :: "json \<Rightarrow> str option" where
  "optional_trimmed v = map_option py_strip (jstr_nonblank v)"

text \<open>\<open>output\<close> is what \<open>sessions ensure\<close> printed, or the exception of the command.\<close>

definition acpx_ensure_session :: "(str \<Rightarrow> json option) \<Rightarrow> str result \<Rightarrow> acpx_session \<Rightarrow> acpx_session result" where
  "acpx_ensure_session parse output s =
     (case output of
        Inl e \<Rightarrow> Inl e
      | Inr out \<Rightarrow>
          (case last_json_object parse out of
             None \<Rightarrow> Inl (RuntimeError ''ACPX did not return JSON session metadata.'')
           | Some d \<Rightarrow>
               (case optional_trimmed (jget d ''acpxRecordId'') of
                  None \<Rightarrow> Inl (RuntimeError ''ACPX session ensure response did not include acpxRecordId.'')
                | Some k \<Rightarrow>
                    Inr (update_identity (Some k) (optional_trimmed (jget d ''acpxSessionId''))
                      (optional_trimmed (jget d ''agentSessionId'')) s))))"

section \<open>The lines of the agent\<close>

datatype prompt_event =
    PE_Text str bool
  | PE_Status str
  | PE_Tool_Call str
  | PE_Blocked str
  | PE_Error str "str option"
  | PE_Done "str option"

definition text_or :: "str option \<Rightarrow> str \<Rightarrow> str" where
  "text_or v d = (case v of Some s \<Rightarrow> s | None \<Rightarrow> d)"

fun first_trimmed :: "jdict \<Rightarrow> str list \<Rightarrow> str option" where
  "first_trimmed d [] = None"
| "first_trimmed d (k # ks) = (case optional_trimmed (jget d k) of Some s \<Rightarrow> Some s | None \<Rightarrow> first_trimmed d ks)"

fun first_of_objects :: "str list \<Rightarrow> json list \<Rightarrow> str option" where
  "first_of_objects ks [] = None"
| "first_of_objects ks (v # vs) =
     (case (case v of JObj d \<Rightarrow> first_trimmed d ks | _ \<Rightarrow> None) of Some s \<Rightarrow> Some s | None \<Rightarrow> first_of_objects ks vs)"

definition acpx_question_text :: "jdict \<Rightarrow> str option" where
  "acpx_question_text params =
     (case first_trimmed params [''question'', ''message'', ''prompt''] of
        Some s \<Rightarrow> Some s
      | None \<Rightarrow>
          (case jget params ''questions'' of JList vs \<Rightarrow> first_of_objects [''question'', ''prompt''] vs | _ \<Rightarrow> None))"

definition parse_blocked_event :: "jdict \<Rightarrow> prompt_event option" where
  "parse_blocked_event d =
     (case optional_trimmed (jget d ''method'') of
        None \<Rightarrow> None
      | Some method \<Rightarrow>
          (let normalized = py_lower method; waiting = ''Agent is waiting for user input.'' in
           if \<not> py_contains normalized ''request_user_input'' \<and>
              \<not> (py_contains normalized ''question'' \<and> py_contains normalized ''request'') then None
           else (case jget d ''params'' of
                   JObj params \<Rightarrow> Some (PE_Blocked (text_or (acpx_question_text params) waiting))
                 | _ \<Rightarrow> Some (PE_Blocked waiting))))"

definition parse_top_level_error :: "(rat \<Rightarrow> str) \<Rightarrow> jdict \<Rightarrow> prompt_event option" where
  "parse_top_level_error fr d =
     (case jget d ''error'' of
        JObj err \<Rightarrow>
          Some (PE_Error (text_or (optional_trimmed (jget err ''message'')) ''acpx runtime error'') (opaque_text fr err ''code''))
      | _ \<Rightarrow> None)"

definition structured_payload :: "jdict \<Rightarrow> str \<times> jdict" where
  "structured_payload d =
     (let flat = (case optional_trimmed (jget d ''sessionUpdate'') of
            Some s \<Rightarrow> (s, d) | None \<Rightarrow> (text_or (optional_trimmed (jget d ''type'')) [], d))
      in if optional_trimmed (jget d ''method'') = Some ''session/update'' then
           (case jget d ''params'' of
              JObj params \<Rightarrow>
                (case jget params ''update'' of
                   JObj update \<Rightarrow> (text_or (optional_trimmed (jget update ''sessionUpdate'')) [], update)
                 | _ \<Rightarrow> flat)
            | _ \<Rightarrow> flat)
         else flat)"

definition text_chunk :: "jdict \<Rightarrow> str option" where
  "text_chunk payload =
     (let plain = jstr_nonempty (jget payload ''text'') in
      case jget payload ''content'' of
        JObj content \<Rightarrow>
          (case optional_trimmed (jget content ''type'') of
             Some ty \<Rightarrow> if ty \<noteq> ''text'' then None
                        else (case jstr_nonempty (jget content ''text'') of Some s \<Rightarrow> Some s | None \<Rightarrow> plain)
           | None \<Rightarrow> (case jstr_nonempty (jget content ''text'') of Some s \<Rightarrow> Some s | None \<Rightarrow> plain))
      | _ \<Rightarrow> plain)"

definition status_text :: "str \<Rightarrow> jdict \<Rightarrow> str option" where
  "status_text ty payload =
     (if ty = ''available_commands_update'' then
        (case jget payload ''availableCommands'' of
           JList vs \<Rightarrow>
             if vs \<noteq> [] then Some (''available commands updated ('' @ py_of_nat (length vs) @ '')'')
             else Some ''available commands updated''
         | _ \<Rightarrow> Some ''available commands updated'')
      else if ty = ''current_mode_update'' then
        (case first_trimmed payload [''currentModeId'', ''modeId'', ''mode''] of
           Some s \<Rightarrow> Some (''mode updated: '' @ s) | None \<Rightarrow> Some ''mode updated'')
      else if ty = ''config_option_update'' then
        (case (first_trimmed payload [''id'', ''configOptionId''],
               first_trimmed payload [''currentValue'', ''value'', ''optionValue'']) of
           (Some k, Some v) \<Rightarrow> Some (''config updated: '' @ k @ ''='' @ v)
         | (Some k, None) \<Rightarrow> Some (''config updated: '' @ k)
         | (None, _) \<Rightarrow> Some ''config updated'')
      else if ty = ''session_info_update'' then
        Some (text_or (first_trimmed payload [''summary'', ''message'']) ''session updated'')
      else if ty = ''plan'' then
        (case jget payload ''entries'' of
           JList vs \<Rightarrow> map_option (\<lambda>s. ''plan: '' @ s) (first_of_objects [''content''] vs) | _ \<Rightarrow> None)
      else if ty = ''client_operation'' then
        (let parts = List.map_filter (\<lambda>k. optional_trimmed (jget payload k)) [''method'', ''status'', ''summary'']
         in if parts = [] then None else Some (py_join '' '' parts))
      else if ty = ''update'' then optional_trimmed (jget payload ''update'')
      else None)"

definition status_types :: "str list" where
  "status_types =
     [''available_commands_update'', ''current_mode_update'', ''config_option_update'', ''session_info_update'', ''plan'',
      ''client_operation'', ''update'']"

definition structured_event :: "(rat \<Rightarrow> str) \<Rightarrow> str \<Rightarrow> jdict \<Rightarrow> prompt_event option" where
  "structured_event fr ty payload =
     (if ty = ''text'' then map_option (\<lambda>s. PE_Text s True) (jstr_nonempty (jget payload ''content''))
      else if ty = ''thought'' then map_option (\<lambda>s. PE_Text s False) (jstr_nonempty (jget payload ''content''))
      else if ty \<in> {''agent_message_chunk'', ''agent_thought_chunk''}
      then map_option (\<lambda>s. PE_Text s (ty \<noteq> ''agent_thought_chunk'')) (text_chunk payload)
      else if ty \<in> {''tool_call'', ''tool_call_update''} then
        (let title = text_or (optional_trimmed (jget payload ''title'')) ''tool call'' in
         Some (PE_Tool_Call (case optional_trimmed (jget payload ''status'') of
           Some status \<Rightarrow> title @ '' ('' @ status @ '')'' | None \<Rightarrow> title)))
      else if ty = ''usage_update'' then
        Some (PE_Status
          (if jnum (jget payload ''used'') \<noteq> None \<and> jnum (jget payload ''size'') \<noteq> None
           then ''usage updated: '' @ py_str fr (jget payload ''used'') @ ''/'' @ py_str fr (jget payload ''size'')
           else ''usage updated''))
      else if ty \<in> set status_types then map_option PE_Status (status_text ty payload)
      else if ty = ''done'' then Some (PE_Done (optional_trimmed (jget payload ''stopReason'')))
      else if ty = ''error'' then
        Some (PE_Error (text_or (optional_trimmed (jget payload ''message'')) ''acpx runtime error'')
          (optional_trimmed (jget payload ''code'')))
      else None)"

text \<open>A line that is no object of JSON is a status. A request to the user comes before an error, and both
  before what the line is otherwise.\<close>

definition parse_prompt_event_line :: "(rat \<Rightarrow> str) \<Rightarrow> (str \<Rightarrow> json option) \<Rightarrow> str \<Rightarrow> prompt_event option" where
  "parse_prompt_event_line fr parse line =
     (if py_strip line = [] then None
      else
        (case Option.bind (parse (py_strip line)) jobj of
           None \<Rightarrow> Some (PE_Status (py_strip line))
         | Some d \<Rightarrow>
             (case parse_blocked_event d of
                Some e \<Rightarrow> Some e
              | None \<Rightarrow>
                  (case parse_top_level_error fr d of
                     Some e \<Rightarrow> Some e
                   | None \<Rightarrow> (let (ty, payload) = structured_payload d in structured_event fr ty payload)))))"

section \<open>Runs\<close>

text \<open>The prompt of a task is made as in the Codex adapter, whose code this is a copy of.\<close>

definition acpx_build_prompt :: "task \<Rightarrow> str result" where
  "acpx_build_prompt t = build_prompt t"

record acpx_progress =
  ap_chunks :: "str list"
  ap_status :: "str option"
  ap_ended :: bool

definition acpx_progress_init :: acpx_progress where
  "acpx_progress_init = \<lparr>ap_chunks = [], ap_status = None, ap_ended = False\<rparr>"

definition acpx_event :: "execution_run \<Rightarrow> acpx_session \<Rightarrow> executor_event_type \<Rightarrow> str \<Rightarrow> jdict \<Rightarrow> executor_event" where
  "acpx_event r s ty words meta =
     \<lparr>ev_run_id = r_run_id r, ev_session_id = ax_session_id s, ev_event_type = ty, ev_message = Some words,
      ev_metadata = (''source'', JStr ''acpx'') # meta\<rparr>"

definition acpx_final_text :: "task \<Rightarrow> acpx_progress \<Rightarrow> str" where
  "acpx_final_text t p =
     (if py_strip (concat (ap_chunks p)) \<noteq> [] then py_strip (concat (ap_chunks p))
      else str_or_else (ap_status p) (''Completed: '' @ t_title t))"

text \<open>The event that ends the run, if the line has one.\<close>

definition acpx_end_event :: "execution_run \<Rightarrow> task \<Rightarrow> acpx_session \<Rightarrow> acpx_progress \<Rightarrow> prompt_event \<Rightarrow> executor_event option" where
  "acpx_end_event r t s p e =
     (case e of
        PE_Blocked words \<Rightarrow>
          Some (acpx_event r s EV_BLOCKED words
            [(''prompt'', JStr words), (''interaction_kind'', JStr (classify_blocked_prompt words))])
      | PE_Error words code \<Rightarrow> Some (acpx_event r s EV_FAILED words [(''code'', JStr (str_or_else code []))])
      | PE_Done stop \<Rightarrow>
          (let reason = str_or_else stop [] in
           Some (if reason = ''cancelled''
             then acpx_event r s EV_CANCELLED ''ACPX prompt cancelled.'' [(''stop_reason'', JStr reason)]
             else acpx_event r s EV_COMPLETED (acpx_final_text t p) [(''stop_reason'', JStr reason)]))
      | _ \<Rightarrow> None)"

definition acpx_prompt_step ::
    "execution_run \<Rightarrow> task \<Rightarrow> acpx_session \<Rightarrow> prompt_event \<Rightarrow> acpx_progress \<Rightarrow> executor_event list \<times> acpx_progress" where
  "acpx_prompt_step r t s e p =
     (let status = (\<lambda>words kind.
            ([acpx_event r s EV_PROGRESS words [(''event_type'', JStr kind)]], p\<lparr>ap_status := Some words\<rparr>)) in
      case e of
        PE_Text words output \<Rightarrow>
          if output then ([acpx_event r s EV_PROGRESS words [(''stream'', JStr ''output'')]], p\<lparr>ap_chunks := ap_chunks p @ [words]\<rparr>)
          else ([], p)
      | PE_Status words \<Rightarrow> status words ''status''
      | PE_Tool_Call words \<Rightarrow> status words ''tool_call''
      | _ \<Rightarrow>
          if ap_ended p then ([], p)
          else (case acpx_end_event r t s p e of Some ev \<Rightarrow> [ev] | None \<Rightarrow> [], p\<lparr>ap_ended := True\<rparr>))"

fun acpx_read_lines ::
    "(str \<Rightarrow> prompt_event option) \<Rightarrow> execution_run \<Rightarrow> task \<Rightarrow> acpx_session \<Rightarrow> str list \<Rightarrow> acpx_progress \<Rightarrow>
     executor_event list \<times> acpx_progress" where
  "acpx_read_lines read r t s [] p = ([], p)"
| "acpx_read_lines read r t s (l # ls) p =
     (let (out, p1) = (case read l of None \<Rightarrow> ([], p) | Some e \<Rightarrow> acpx_prompt_step r t s e p);
          (out2, p2) = acpx_read_lines read r t s ls p1
      in (out @ out2, p2))"

text \<open>How the process ended: with a return code and the lines of its error output, or with an exception of the
  adapter.\<close>

datatype prompt_end = Prompt_Exited int "str list" | Prompt_Raised py_error

definition acpx_failed :: "execution_run \<Rightarrow> acpx_session \<Rightarrow> py_error \<Rightarrow> executor_event" where
  "acpx_failed r s e = acpx_event r s EV_FAILED (error_text e) []"

definition acpx_finish :: "execution_run \<Rightarrow> task \<Rightarrow> acpx_session \<Rightarrow> prompt_end \<Rightarrow> acpx_progress \<Rightarrow> executor_event list" where
  "acpx_finish r t s ending p =
     (case ending of
        Prompt_Raised e \<Rightarrow> [acpx_failed r s e]
      | Prompt_Exited code err \<Rightarrow>
          if ap_ended p then []
          else if code \<noteq> 0 then
            (let words = py_strip (py_join [char_of (10 :: nat)] (last_of 20 err)) in
             [acpx_event r s EV_FAILED
                (if words \<noteq> [] then words else ''acpx prompt exited with status '' @ py_of_int code @ ''.'')
                [(''returncode'', JInt code)]])
          else [acpx_event r s EV_COMPLETED (acpx_final_text t p) [(''implicit_done'', JBool True)]])"

text \<open>\<open>ready\<close> is the session after \<open>sessions ensure\<close>, or why it is not.\<close>

definition acpx_run_task ::
    "(rat \<Rightarrow> str) \<Rightarrow> (str \<Rightarrow> json option) \<Rightarrow> execution_run \<Rightarrow> task \<Rightarrow> acpx_session \<Rightarrow> acpx_session result \<Rightarrow> str list \<Rightarrow>
     prompt_end \<Rightarrow> executor_event list" where
  "acpx_run_task fr parse r t s ready lines ending =
     (case ready of
        Inl e \<Rightarrow> [acpx_failed r s e]
      | Inr s1 \<Rightarrow>
          (case acpx_build_prompt t of
             Inl e \<Rightarrow> [acpx_failed r s1 e]
           | Inr prompt \<Rightarrow>
               (let (out, p) = acpx_read_lines (parse_prompt_event_line fr parse) r t s1 lines acpx_progress_init
                in out @ acpx_finish r t s1 ending p)))"

section \<open>A run ends, and its session can be taken up again\<close>

definition settling :: "executor_event \<Rightarrow> bool" where
  "settling e \<longleftrightarrow> ev_event_type e \<in> set terminal_event_types"

lemma acpx_event_type [simp]: "ev_event_type (acpx_event r s ty words meta) = ty"
  by (simp add: acpx_event_def)

lemma acpx_end_event_settles: "acpx_end_event r t s p e = Some ev \<Longrightarrow> settling ev"
  by (auto simp: acpx_end_event_def settling_def terminal_event_types_def Let_def split: prompt_event.splits if_splits)

lemma acpx_step_settles:
  assumes "acpx_prompt_step r t s e p = (out, p')"
  shows "length (filter settling out) = of_bool (ap_ended p' \<and> \<not> ap_ended p)" "ap_ended p \<Longrightarrow> ap_ended p'"
proof -
  have "length (filter settling out) = of_bool (ap_ended p' \<and> \<not> ap_ended p) \<and> (ap_ended p \<longrightarrow> ap_ended p')"
    using assms
    by (cases e)
      (auto simp: acpx_prompt_step_def acpx_end_event_def settling_def terminal_event_types_def Let_def split: if_splits)
  then show "length (filter settling out) = of_bool (ap_ended p' \<and> \<not> ap_ended p)" "ap_ended p \<Longrightarrow> ap_ended p'" by simp_all
qed

lemma acpx_lines_settle:
  "acpx_read_lines read r t s ls p = (out, p') \<Longrightarrow>
     length (filter settling out) = of_bool (ap_ended p' \<and> \<not> ap_ended p) \<and> (ap_ended p \<longrightarrow> ap_ended p')"
proof (induction ls arbitrary: p out p')
  case Nil
  then show ?case by simp
next
  case (Cons l ls)
  obtain out1 p1 where step: "(case read l of None \<Rightarrow> ([], p) | Some e \<Rightarrow> acpx_prompt_step r t s e p) = (out1, p1)"
    by (metis prod.collapse)
  obtain out2 p2 where rest: "acpx_read_lines read r t s ls p1 = (out2, p2)" by (metis prod.collapse)
  have one: "length (filter settling out1) = of_bool (ap_ended p1 \<and> \<not> ap_ended p) \<and> (ap_ended p \<longrightarrow> ap_ended p1)"
    using step acpx_step_settles by (cases "read l") auto
  have "out = out1 @ out2" "p' = p2" using Cons.prems step rest by auto
  then show ?case using Cons.IH [OF rest] one by auto
qed

lemma acpx_finish_settles:
  "length (filter settling (acpx_finish r t s (Prompt_Exited code err) p)) = of_bool (\<not> ap_ended p)"
  by (simp add: acpx_finish_def settling_def terminal_event_types_def Let_def)

lemma hosted_stops:
  assumes "filter settling evs \<noteq> []"
  shows "ends_once (fst (hosted_stream (map (\<lambda>e. \<lparr>env_event = e, env_latest_resume_handle = h\<rparr>) evs) es))"
proof -
  let ?envs = "map (\<lambda>e. \<lparr>env_event = e, env_latest_resume_handle = h\<rparr>) evs"
  obtain out ended es' where run: "hosted_stream ?envs es = (out, ended, es')" by (metis prod.collapse)
  have ended
  proof (rule ccontr)
    assume "\<not> ended"
    then have "\<forall>e \<in> set ?envs. ev_event_type (env_event e) \<notin> set terminal_event_types"
      using hosted_waits [of ?envs es out es'] run by simp
    then show False using assms by (auto simp: filter_empty_conv settling_def)
  qed
  then show ?thesis using hosted_ends_once run by (metis fst_conv)
qed

lemma acpx_run_settles:
  fixes fr parse r t s ready lines
  defines "evs \<equiv> acpx_run_task fr parse r t s ready lines"
  shows "length (filter settling (evs (Prompt_Exited code err))) = 1"
    and "evs (Prompt_Raised e) \<noteq> [] \<and> settling (last (evs (Prompt_Raised e))) \<and> length (filter settling (evs (Prompt_Raised e))) \<le> 2"
proof -
  have failed: "settling (acpx_failed r s' e)" for s' e
    by (simp add: acpx_failed_def settling_def terminal_event_types_def)
  have refused: "evs ending = [acpx_failed r s' e]" if "ready = Inl e \<and> s' = s \<or> ready = Inr s' \<and> acpx_build_prompt t = Inl e" for s' e ending
    using that by (auto simp: evs_def acpx_run_task_def)
  have goes: "length (filter settling (evs (Prompt_Exited code err))) = 1 \<and>
      evs (Prompt_Raised e) \<noteq> [] \<and> settling (last (evs (Prompt_Raised e))) \<and> length (filter settling (evs (Prompt_Raised e))) \<le> 2"
    if "ready = Inr s1" "acpx_build_prompt t = Inr prompt" for s1 prompt
  proof -
    obtain out p where lines: "acpx_read_lines (parse_prompt_event_line fr parse) r t s1 lines acpx_progress_init = (out, p)"
      by (metis prod.collapse)
    have run: "evs ending = out @ acpx_finish r t s1 ending p" for ending
      using that lines by (simp add: evs_def acpx_run_task_def)
    have out: "length (filter settling out) = of_bool (ap_ended p)"
      using acpx_lines_settle [OF lines] by (simp add: acpx_progress_init_def)
    have raised: "acpx_finish r t s1 (Prompt_Raised e) p = [acpx_failed r s1 e]" by (simp add: acpx_finish_def)
    show ?thesis unfolding run raised using out failed by (simp add: acpx_finish_settles)
  qed
  have "length (filter settling (evs (Prompt_Exited code err))) = 1 \<and>
      evs (Prompt_Raised e) \<noteq> [] \<and> settling (last (evs (Prompt_Raised e))) \<and> length (filter settling (evs (Prompt_Raised e))) \<le> 2"
  proof (cases ready)
    case (Inl e')
    then show ?thesis using refused [of e' s] failed by simp
  next
    case ready: (Inr s1)
    show ?thesis
    proof (cases "acpx_build_prompt t")
      case (Inl e')
      then show ?thesis using refused [of e' s1] ready failed by simp
    next
      case (Inr prompt)
      then show ?thesis using goes ready by simp
    qed
  qed
  then show "length (filter settling (evs (Prompt_Exited code err))) = 1"
    and "evs (Prompt_Raised e) \<noteq> [] \<and> settling (last (evs (Prompt_Raised e))) \<and> length (filter settling (evs (Prompt_Raised e))) \<le> 2" by simp_all
qed

text \<open>C36: A run of the ACPX adapter ends: when its process has exited, exactly one event that ends a run was
  reported, whatever lines were printed; when the adapter raised, the last event ends the run and at
  most one other did. So the executor of the control plane that reads these events always ends, with
  one such event as its last.\<close>

theorem acpx_run_ends_once:
  fixes fr parse r t s ready lines ending
  defines "evs \<equiv> acpx_run_task fr parse r t s ready lines ending"
  shows "(case ending of
       Prompt_Exited code err \<Rightarrow> length (filter settling evs) = 1
     | Prompt_Raised e \<Rightarrow> settling (last evs) \<and> length (filter settling evs) \<le> 2) \<and>
    ends_once (fst (hosted_stream (map (\<lambda>e. \<lparr>env_event = e, env_latest_resume_handle = h\<rparr>) evs) es))"
proof
  show ends: "case ending of
       Prompt_Exited code err \<Rightarrow> length (filter settling evs) = 1
     | Prompt_Raised e \<Rightarrow> settling (last evs) \<and> length (filter settling evs) \<le> 2"
    using acpx_run_settles [of fr parse r t s ready lines] by (simp add: evs_def split: prompt_end.splits)
  have "filter settling evs \<noteq> []"
  proof (cases ending)
    case (Prompt_Exited code err)
    then show ?thesis using ends by auto
  next
    case (Prompt_Raised e)
    then have "last evs \<in> set evs" "settling (last evs)"
      using acpx_run_settles(2) [of fr parse r t s ready lines e] by (simp_all add: evs_def)
    then show ?thesis by (auto simp: filter_empty_conv)
  qed
  then show "ends_once (fst (hosted_stream (map (\<lambda>e. \<lparr>env_event = e, env_latest_resume_handle = h\<rparr>) evs) es))"
    by (rule hosted_stops)
qed

lemma identity_reads [simp]:
  "ax_cwd (update_identity a b c s) = ax_cwd s" "ax_session_name (update_identity a b c s) = ax_session_name s"
  "ax_agent (update_identity a b c s) = ax_agent s" "ax_session_id (update_identity a b c s) = ax_session_id s"
  "ax_record_id (update_identity a b c s) = (case a of Some v \<Rightarrow> Some v | None \<Rightarrow> ax_record_id s)"
  "ax_acp_session_id (update_identity a b c s) = (case b of Some v \<Rightarrow> Some v | None \<Rightarrow> ax_acp_session_id s)"
  "ax_agent_session_id (update_identity a b c s) = (case c of Some v \<Rightarrow> Some v | None \<Rightarrow> ax_agent_session_id s)"
  by (auto simp: update_identity_def acpx_note_def Let_def split: option.splits)

text \<open>C37: A session of the ACPX adapter can be taken up again: when the service gives the resume handle of a session
  to a new one, the new one has that handle, so it has the same directory, name, agent, record and
  ids of the agent.\<close>

theorem acpx_session_taken_up:
  assumes "acpx_handle_of s = Some h" and "resolve (ax_cwd s) = ax_cwd s"
    and "ax_cwd s \<noteq> []" and "ax_session_name s \<noteq> []" and "ax_agent s \<noteq> []"
  shows "\<exists>values.
    ns_acpx (node_hydrate_handle fr (Acpx_Ref k) (Some h) x) = ns_acpx x @ [Acpx_Hydrate k values] \<and>
    acpx_handle_of (acpx_hydrate resolve values (acpx_create_session resolve uid agent workspace)) = Some h \<and>
    ax_session_id (acpx_hydrate resolve values (acpx_create_session resolve uid agent workspace)) = ax_session_name s"
proof -
  let ?vals = "[Some (ax_cwd s), Some (ax_session_name s), Some (ax_agent s), ax_record_id s, ax_acp_session_id s,
    ax_agent_session_id s]"
  let ?new = "acpx_create_session resolve uid agent workspace"
  have rid: "str_truthy (ax_record_id s)" and h: "h = \<lparr>h_executor_id = ''acpx'', h_session_handle = ax_record_id s, h_turn_handle = None,
      h_opaque = [(''agent'', JStr (ax_agent s)), (''cwd'', JStr (ax_cwd s)), (''sessionName'', JStr (ax_session_name s)),
        (''acpSessionId'', json_of_str (ax_acp_session_id s)), (''agentSessionId'', json_of_str (ax_agent_session_id s))]\<rparr>"
    using assms(1) by (auto simp: acpx_handle_of_def split: if_splits)
  have "ns_acpx (node_hydrate_handle fr (Acpx_Ref k) (Some h) x) = ns_acpx x @ [Acpx_Hydrate k ?vals]"
    by (cases "ax_acp_session_id s"; cases "ax_agent_session_id s")
      (simp_all add: node_hydrate_handle_def h opaque_text_def json_of_str_def)
  moreover have "acpx_handle_of (acpx_hydrate resolve ?vals ?new) = Some h"
    using assms(2-5) rid
    by (simp add: acpx_hydrate_def acpx_note_def acpx_handle_of_def acpx_create_session_def h str_truthy_def Let_def split: option.splits)
  moreover have "ax_session_id (acpx_hydrate resolve ?vals ?new) = ax_session_name s"
    using assms(3-5) by (simp add: acpx_hydrate_def acpx_note_def str_truthy_def Let_def)
  ultimately show ?thesis by blast
qed

definition kept_session :: acpx_session where
  "kept_session =
     update_identity (Some ''record'') (Some ''acp'') None (acpx_create_session id ''1'' ''codex'' ''/w'')"

theorem acpx_session_taken_up_witness:
  "\<exists>h values. acpx_handle_of kept_session = Some h \<and>
     acpx_handle_of (acpx_hydrate id values (acpx_create_session id ''2'' ''other'' ''/elsewhere'')) = Some h \<and>
     ax_session_id (acpx_hydrate id values (acpx_create_session id ''2'' ''other'' ''/elsewhere'')) = ''newbro-1''"
proof -
  have "acpx_handle_of kept_session \<noteq> None" by code_simp
  then obtain h where h: "acpx_handle_of kept_session = Some h" by blast
  have "id (ax_cwd kept_session) = ax_cwd kept_session" by simp
  moreover have "ax_cwd kept_session \<noteq> []" "ax_session_name kept_session = ''newbro-1''" "ax_agent kept_session \<noteq> []"
    by code_simp+
  ultimately show ?thesis
    using acpx_session_taken_up [OF h, of id "\<lambda>_. []" "''k''" "node_service_init ''node'' []" "''2''" "''other''" "''/elsewhere''"] h
    by auto
qed

end
