(* ===== verification/Spec2Isabelle.thy ===== *)
theory Spec2Isabelle
  imports
    Blackboard_Props
    Execution
    Interaction_Props
    Notification_Props
    Reconcile
    NodeManager_Props
    Timeline_Props
    ThreadList
    Drafts_Props
    PublicAuth_Props
    Projection_Props
    DirectTurn_Props
    Commands_Props
    Dialogue_Props
    CodexTurns_Props
    NodeService_Props
    Acpx
begin

text \<open>
  \<^bold>\<open>Newbro's control plane.\<close> Newbro (\<open>src/newbro/\<close>) runs tasks on behalf of a user who talks to it:
  a conversation turns what the user says into tasks, executors on other machines work on them, and
  the user sees their progress, is asked when they block, and is told when they end. The
  conversation side and the execution side share one store, the blackboard; everything else is a
  client of it.

  \<^bold>\<open>How the parts interact.\<close>
  \<^item> \<open>blackboard/\<close> holds tasks, runs, sessions, bindings, summaries, modes, details, interaction
    requests, attention items, notification candidates, outbound turns and personas. Each write is
    logged and published to the subscribers.
  \<^item> \<open>execution/reconcile.py\<close> takes the runnable tasks from \<open>scheduler.py\<close>, claims one
    (\<open>assignment.py\<close>), finds or creates its session (\<open>session_manager.py\<close>) and run
    (\<open>run_manager.py\<close>), feeds the executor's events into the store, and keeps mode and summary.
  \<^item> \<open>interaction/\<close> turns a blocked run, summary or Codex turn into a request to the user, and an
    answer into the task's next instruction; \<open>notification/\<close> turns writes into candidates and delivers
    them when the conversation is quiet. Both react to the store's write events.
  \<^item> \<open>runtime/executor_node_manager.py\<close> speaks to the executor nodes over websockets, with the records
    of \<open>executors/node/registry.py\<close>; the events of a run it receives end in that run's queue.
  \<^item> \<open>api/public_auth.py\<close> keeps the accounts of a public deployment and decides which requests pass.
  \<^item> \<open>runtime/drafts.py\<close> keeps the draft a user dictates until the gate lets it become a task;
    \<open>runtime/bro_detail_thread_projection.py\<close> follows the native threads of the executors, and
    \<open>runtime/bro_detail_thread_helpers.py\<close> computes the threads and timelines a client shows.

  \<^bold>\<open>The theories, in the order they build on each other.\<close>
  \<^item> \<open>Prelude\<close>: errors, dictionaries, strings, sorting and the interface \<open>keyed_table\<close>. \<open>Tables\<close>: the two
    representations of a table that the store uses, each shown to provide \<open>keyed_table\<close>; the store's
    tables are interpretations of them. \<open>Protocol\<close>: JSON values, the enumerations and models of
    \<open>protocol/\<close>. \<open>PyText\<close>: numerals, \<open>str\<close> and \<open>repr\<close> of JSON values.
  \<^item> \<open>Blackboard\<close>: \<open>blackboard/backends/memory.py\<close> (one definition per method, the invariant \<open>bb_wf\<close>),
    \<open>subscriptions.py\<close>, \<open>queries.py\<close>, \<open>revisions.py\<close>. \<open>Blackboard_Props\<close>: the invariant over traces (C1),
    the refinement of the tables' contract (C2), delivery to subscribers (C3), and what the view
    of recent details shows.
  \<^item> \<open>Execution\<close>: \<open>assignment.py\<close>, \<open>mode_manager.py\<close>, \<open>summary_manager.py\<close>, \<open>scheduler.py\<close>,
    \<open>run_manager.py\<close> and \<open>executors/core/registry.py\<close>: leases exclude each other (C4), events
    decide the outcome (C5); the mode, the summary and the schedule.
  \<^item> \<open>Interaction\<close>, \<open>Interaction_Props\<close>: \<open>interaction/manager.py\<close> and \<open>sanitization.py\<close>. A step relation
    interleaves the manager with the rest of the runtime; one pending request per run (C6), one
    resolution per request (C7), what clients may see, that what is offered works (C8); and
    resolving and cancelling.
  \<^item> \<open>Notification\<close>, \<open>Notification_Props\<close>: \<open>candidate_builder.py\<close>, \<open>policy.py\<close>, \<open>manager.py\<close>; what a plan
    delivers, nothing is told twice, and a round of delivery.
  \<^item> \<open>Sessions\<close>: \<open>session_manager.py\<close>, sharing by continuity key. \<open>Reconcile\<close>: one execution from its claim to its end, on
    every path, with failures (C9), outcome (C10) and the persona it frees.
  \<^item> \<open>NodeRegistry\<close>: \<open>executors/node/registry.py\<close>, with the text of the file it
    writes, tokens, and its invariant.
    \<open>NodeManager\<close>, \<open>NodeManager_Props\<close>: \<open>runtime/executor_node_manager.py\<close>, a step relation over all its
    operations; connections, the routing and draining of run events (C11, C12),
    requests and replies (C13), the reading of a workspace file (C14), and dispatch.
  \<^item> \<open>ThreadText\<close>, \<open>Timeline\<close>, \<open>ThreadList\<close>: \<open>runtime/bro_detail_thread_helpers.py\<close>, its small helpers, the
    timeline of a thread and the list of threads; settled turns stay, the timeline is the
    sorted merge (C15), no task is lost from the thread list.
  \<^item> \<open>Drafts\<close>, \<open>Drafts_Props\<close>: \<open>runtime/drafts.py\<close>; revisions (C16), a rewrite that outlives its
    draft, titles, and the gate.
  \<^item> \<open>Projection\<close>, \<open>Projection_Props\<close>: \<open>runtime/bro_detail_thread_projection.py\<close>, the native threads
    with their timelines and subscriptions; a step relation over all its operations, awaited requests
    in two steps. Its invariant (C17), given answers stay, commentary is no answer, old
    subscriptions are silent, whose thread an instruction reaches, and what a sync imports.
  \<^item> \<open>DirectTurn\<close>, \<open>DirectTurn_Props\<close>: \<open>runtime/direct_executor.py\<close> and \<open>direct_turn_starter.py\<close>, typed and
    spoken instructions for a thread: sent once or not at all (C18), one task per transcript (C19).
  \<^item> \<open>Executors\<close>: \<open>executors/adapters/mock/\<close> and \<open>hosted/executor.py\<close>, with the executors a session
    registers. \<open>Commands\<close>, \<open>Commands_Props\<close>: the part of \<open>runtime/session.py\<close> that acts on tasks: a
    cancelled task leaves nothing open (C20), the instruction stays bounded, who is woken when an
    executor returns, and where the answer to a request goes (C21).
  \<^item> \<open>PersonaPool\<close>: \<open>communication/persona_pool.py\<close>, the text of the file of personas and its reader (C22).
    \<open>Dialogue\<close>, \<open>Dialogue_Props\<close>: the part of \<open>runtime/session.py\<close> that talks to the user: typed messages, live
    transcripts, voice events, the draft and its confirmation. What a confirmation sends (C23), where
    tasks come from over a whole conversation (C24), what \<open>stop\<close> acts on (C25), how often speech is
    classified (C26).
  \<^item> \<open>CodexServer\<close>, \<open>CodexReading\<close>, \<open>CodexTurns\<close>, \<open>CodexTurns_Props\<close>: \<open>executors/adapters/codex/\<close> on an executor
    node: the JSON-RPC peer and its requests, what is read from the app-server, and the turns. Events
    reach the turn they are about (C27), a turn ends once (C28) with its last text (C29), in the thread of its
    session (C30); what blocks it can be answered (C31), and each request has one outcome (C32).
  \<^item> \<open>NodeService\<close>, \<open>NodeService_Props\<close>: \<open>executors/node/service.py\<close> and \<open>workspace_files.py\<close>, the other end of
    the websocket of \<open>NodeManager\<close>: what a node does for each command. Its users do not share Codex sessions
    (C33), files are read inside the workspace only (C34), and each request is answered once (C35).
  \<^item> \<open>Acpx\<close>: \<open>executors/adapters/acpx/\<close>, the adapter that runs another agent as a process and reads what it prints:
    a run ends (C36), and a session can be taken up again (C37).
  \<^item> \<open>PublicAuth\<close>, \<open>PublicAuth_Props\<close>: \<open>api/public_auth.py\<close> with the routes of \<open>api/routes/auth.py\<close> and
    \<open>devices.py\<close> on it: the database as a list of rows per table, and a step relation over all its
    operations with a history of the tokens issued, logged out and delivered; tokens (C38), accounts,
    pairing a device (C39) and access to sessions (C40).

  \<^bold>\<open>How the code is read.\<close> An object the code mutates and puts back is a record that is updated; where
  two parts share an object and the sharing matters (run queues, reply futures, draft sessions) there
  is a heap indexed by numbers. A method is a function from the state to a result and a state;
  \<open>py_error + 'a\<close> is a result that may be an exception. An asynchronous method is atomic up to where it
  awaits something that lets others run; what follows is a second operation, and the step relations
  interleave them. What the code takes from elsewhere is an argument: fresh ids (\<open>uid\<close>), clock
  readings (\<open>now\<close>), hashes, \<open>parse\<close> and \<open>fmt\<close> of times, \<open>fr\<close> for the decimal form of a float, the
  answer of an executor, of a node or of a language model. Integers are Python's, unbounded.
  Strings have code points below 256, except in \<open>Drafts\<close> and \<open>Dialogue\<close>, which branch on Chinese text and
  have lists of code points. Log and trace calls are left out.

  \<^bold>\<open>Fuel.\<close> All functions terminate; the one loop that waits for input, the reader of a workspace
  file, is run by resuming it, and C14 shows that one resumption more than there are messages ends it.

  \<^bold>\<open>Not modelled.\<close> The other HTTP and websocket routes (\<open>api/\<close>), the command line (\<open>cli/\<close>), the voice and
  host connectors (\<open>connectors/\<close>), starting the processes of the Codex and ACPX
  adapters and connecting a node to the control plane, speech recognition
  (\<open>executors/node/audio.py\<close>) and the emitters of traces (\<open>observability/\<close>)
  are I/O around the parts above. The prompts and calls of language models (\<open>communication/brain.py\<close>,
  \<open>communication/models/\<close>, \<open>infrastructure/\<close>) are represented by their answers.
  Of \<open>runtime/session.py\<close> the loops and timers that compose the parts above, the snapshots and what is
  broadcast to clients are not modelled. Reading the registry's file back needs a YAML parser. Of the reconcile loop the concurrent
  gathering of several executions is left out.
\<close>

end
